(* ===== verification/Exo_Prelude.thy ===== *)
theory Exo_Prelude
  imports Complex_Main "HOL-Library.Word" "HOL-Library.AList"
begin

text \<open>
  Shared vocabulary of the development: the machine integers of the Rust code and their
  saturating operations, identifiers and instants, the library functions of Rust that the
  components call (decimal formatting, stable sorting, hash-map entries), and the
  collections of rewrite rules that the component proofs use.

  Conventions. A \<open>u64\<close> is a \<open>64 word\<close>; a plain \<open>+\<close> on it wraps, as a release build of the
  program does. A \<open>usize\<close> that counts elements of a vector held in memory is a \<open>nat\<close>.
  A \<open>HashMap\<close> is an association list with distinct keys, read through \<open>map_of\<close>: its order is
  the unspecified iteration order, and no theorem depends on it. A \<open>String\<close> is the list of
  its UTF-8 bytes.
\<close>

section \<open>Machine integers, identifiers and instants\<close>

type_synonym u64 = "64 word"
type_synonym u32 = "32 word"

text \<open>
  An instant (\<open>chrono::DateTime<Utc>\<close>) is only compared by the code; it is an integer here.
  Differences of instants are computed by the chrono library, whose operations are the
  parameters collected in the record \<open>chrono_ops\<close>.
\<close>

type_synonym datetime = int

record chrono_ops =
  plus_seconds :: "datetime \<Rightarrow> int \<Rightarrow> datetime" \<comment> \<open>\<open>t + chrono::Duration::seconds(s)\<close>\<close>
  num_seconds_between :: "datetime \<Rightarrow> datetime \<Rightarrow> int" \<comment> \<open>\<open>(a - b).num_seconds()\<close>\<close>
  num_days_between :: "datetime \<Rightarrow> datetime \<Rightarrow> int" \<comment> \<open>\<open>(a - b).num_days()\<close>\<close>
  diff_lt_seconds :: "datetime \<Rightarrow> datetime \<Rightarrow> int \<Rightarrow> bool" \<comment> \<open>\<open>(a - b) < Duration::seconds(s)\<close>\<close>
  diff_gt_minutes :: "datetime \<Rightarrow> datetime \<Rightarrow> int \<Rightarrow> bool" \<comment> \<open>\<open>(a - b) > Duration::minutes(m)\<close>\<close>

text \<open>
  The documented meaning of these operations on instants counted in nanoseconds; it is used
  to instantiate the parameter at concrete inputs. \<open>num_seconds\<close> and \<open>num_days\<close> count whole
  units and round towards zero.
\<close>

definition trunc_div :: "int \<Rightarrow> int \<Rightarrow> int" where
  "trunc_div a b = sgn a * sgn b * (\<bar>a\<bar> div \<bar>b\<bar>)"

definition nanos_chrono :: chrono_ops where
  "nanos_chrono = \<lparr>
     plus_seconds = (\<lambda>t s. t + s * 1000000000),
     num_seconds_between = (\<lambda>a b. trunc_div (a - b) 1000000000),
     num_days_between = (\<lambda>a b. trunc_div (a - b) 86400000000000),
     diff_lt_seconds = (\<lambda>a b s. a - b < s * 1000000000),
     diff_gt_minutes = (\<lambda>a b m. m * 60000000000 < a - b)\<rparr>"

text \<open>A UUID, and the newtypes over it (\<open>ThreadId\<close>, \<open>PrincipalId\<close>, ...), is a 128-bit value.\<close>

type_synonym uuid = "128 word"

named_theorems sat_simps \<open>saturating arithmetic read through \<open>unat\<close>\<close>
named_theorems exo_defs \<open>definitions of the model's small operations\<close>

definition sat_add :: "'a::len word \<Rightarrow> 'a word \<Rightarrow> 'a word" where
  "sat_add a b = (if unat a + unat b < 2 ^ LENGTH('a) then a + b else - 1)"

definition sat_sub :: "'a::len word \<Rightarrow> 'a word \<Rightarrow> 'a word" where
  "sat_sub a b = (if a < b then 0 else a - b)"

lemma unat_max_word: "unat (- 1 :: 'a::len word) = 2 ^ LENGTH('a) - 1"
proof -
  have "uint (- 1 :: 'a word) = 2 ^ LENGTH('a) - 1"
    by transfer (simp add: mask_eq_exp_minus_1)
  then show ?thesis by (simp add: unat_eq_nat_uint nat_diff_distrib nat_power_eq)
qed

lemma unat_bound: "unat (a :: 'a::len word) < 2 ^ LENGTH('a)"
  by (rule unsigned_less)

lemma unat_sat_add [sat_simps]:
  "unat (sat_add a (b :: 'a::len word)) = min (unat a + unat b) (2 ^ LENGTH('a) - 1)"
proof (cases "unat a + unat b < 2 ^ LENGTH('a)")
  case True
  then have "unat (a + b) = unat a + unat b"
    by (simp add: unat_word_ariths)
  with True show ?thesis by (simp add: sat_add_def)
next
  case False
  then show ?thesis by (simp add: sat_add_def unat_max_word)
qed

lemma unat_sat_sub [sat_simps]: "unat (sat_sub a b) = unat a - unat b"
  by (auto simp: sat_sub_def word_less_nat_alt unat_sub word_le_nat_alt not_less)

lemma sat_add_mono: "a \<le> sat_add a b"
proof -
  have "unat a \<le> unat (sat_add a b)"
    using unat_bound [of a] unat_sat_add [of a b] by linarith
  then show ?thesis by (simp add: word_le_nat_alt)
qed

lemma sat_sub_eq_0_iff: "sat_sub a b = 0 \<longleftrightarrow> a \<le> b"
proof -
  have "sat_sub a b = 0 \<longleftrightarrow> unat (sat_sub a b) = 0"
    by (simp add: unat_eq_zero)
  then show ?thesis by (simp add: unat_sat_sub word_le_nat_alt)
qed

lemma sat_sub_gt_0_iff: "0 < sat_sub a b \<longleftrightarrow> b < a"
  using sat_sub_eq_0_iff [of a b] by (simp add: word_neq_0_conv [symmetric] not_le)

lemma sat_sub_zero [simp]: "sat_sub a 0 = a"
  by (simp add: sat_sub_def)

lemma sat_add_le: "(a :: 'a::len word) < b \<Longrightarrow> sat_add a 1 \<le> b"
  by (simp add: word_le_nat_alt word_less_nat_alt unat_sat_add unat_1)

lemma sat_add_zero [simp]: "sat_add a 0 = a" "sat_add 0 a = a"
  using unat_bound [of a] by (simp_all add: sat_add_def)

text \<open>\<open>n as u64\<close> of a \<open>u32\<close> keeps the value.\<close>

lemma unat_ucast_u32: "unat (ucast (n :: u32) :: u64) = unat n"
proof -
  have "unat n < 2 ^ 64" using unat_bound [of n] by simp
  then show ?thesis by (simp add: unsigned_ucast_eq take_bit_nat_eq_self)
qed

section \<open>Library functions of Rust\<close>

text \<open>\<open>format!("{}", n)\<close> of an unsigned integer: its decimal digits.\<close>

definition digit_char :: "nat \<Rightarrow> char" where
  "digit_char d = char_of (48 + d)"

fun show_nat :: "nat \<Rightarrow> string" where
  "show_nat n = (if n < 10 then [digit_char n] else show_nat (n div 10) @ [digit_char (n mod 10)])"

declare show_nat.simps [simp del]

definition show_u64 :: "u64 \<Rightarrow> string" where
  "show_u64 w = show_nat (unat w)"

text \<open>The em dash of several messages, as its UTF-8 bytes.\<close>

definition em_dash :: string where
  "em_dash = [CHR 0xE2, CHR 0x80, CHR 0x94]"

text \<open>The line feed.\<close>

abbreviation nl :: string where
  "nl \<equiv> [CHR 0x0A]"

text \<open>\<open>xs.join(sep)\<close> on strings.\<close>

fun join :: "string \<Rightarrow> string list \<Rightarrow> string" where
  "join sep [] = []"
| "join sep [x] = x"
| "join sep (x # y # zs) = x @ sep @ join sep (y # zs)"

text \<open>\<open>*m.entry(k).or_insert(d) = f(..)\<close>: replace the value at a key, or insert one.\<close>

definition entry_update :: "'k \<Rightarrow> 'v \<Rightarrow> ('v \<Rightarrow> 'v) \<Rightarrow> ('k \<times> 'v) list \<Rightarrow> ('k \<times> 'v) list" where
  "entry_update k d f m = AList.update k (f (case map_of m k of None \<Rightarrow> d | Some v \<Rightarrow> v)) m"

lemma map_of_entry_update:
  "map_of (entry_update k d f m) =
     (map_of m)(k \<mapsto> f (case map_of m k of None \<Rightarrow> d | Some v \<Rightarrow> v))"
  by (simp add: entry_update_def update_conv')

lemma distinct_entry_update: "distinct (map fst m) \<Longrightarrow> distinct (map fst (entry_update k d f m))"
  by (simp add: entry_update_def distinct_update)

text \<open>
  \<open>sort_by(|a, b| b.key.cmp(&a.key))\<close>, newest first, and \<open>sort_by(|a, b| a.key.cmp(&b.key))\<close>,
  oldest first. Rust's \<open>sort_by\<close> is stable, and so is \<open>sort_key\<close>.
\<close>

definition sort_desc :: "('a \<Rightarrow> int) \<Rightarrow> 'a list \<Rightarrow> 'a list" where
  "sort_desc key xs = sort_key (\<lambda>x. - key x) xs"

definition sort_asc :: "('a \<Rightarrow> int) \<Rightarrow> 'a list \<Rightarrow> 'a list" where
  "sort_asc key xs = sort_key key xs"

lemma set_sort_desc [simp]: "set (sort_desc key xs) = set xs"
  by (simp add: sort_desc_def)

lemma length_sort_desc [simp]: "length (sort_desc key xs) = length xs"
  by (simp add: sort_desc_def)

lemma sorted_sort_desc: "sorted_wrt (\<lambda>x y. key y \<le> key x) (sort_desc key xs)"
proof -
  have "sorted (map (\<lambda>x. - key x) (sort_desc key xs))"
    by (simp add: sort_desc_def)
  then show ?thesis by (simp add: sorted_map)
qed

lemma set_sort_asc [simp]: "set (sort_asc key xs) = set xs"
  by (simp add: sort_asc_def)

lemma sorted_sort_asc: "sorted (map key (sort_asc key xs))"
  by (simp add: sort_asc_def)

text \<open>\<open>iter().any(p)\<close> and \<open>contains\<close> over a list.\<close>

lemma list_ex_image_iff: "list_ex (\<lambda>t. f t = x) xs \<longleftrightarrow> x \<in> f ` set xs"
  by (induction xs) auto

lemma list_ex_eq_iff: "list_ex (\<lambda>t. t = x) xs \<longleftrightarrow> x \<in> set xs"
  by (induction xs) auto

lemma set_map_filter: "x \<in> set (List.map_filter f xs) \<longleftrightarrow> (\<exists>y \<in> set xs. f y = Some x)"
  by (induction xs) (auto simp: map_filter_simps split: option.split)

lemma those_eq_None: "those xs = None \<longleftrightarrow> None \<in> set xs"
  by (induction xs) (auto split: option.splits)

text \<open>\<open>if let Some(x) = xs.iter_mut().find(p) { f(x) }\<close>: change the first match.\<close>

fun update_first :: "('a \<Rightarrow> bool) \<Rightarrow> ('a \<Rightarrow> 'a) \<Rightarrow> 'a list \<Rightarrow> 'a list" where
  "update_first p f [] = []"
| "update_first p f (x # xs) = (if p x then f x # xs else x # update_first p f xs)"

lemma length_update_first [simp]: "length (update_first p f xs) = length xs"
  by (induction xs) simp_all

lemma map_update_first_same:
  "(\<And>x. p x \<Longrightarrow> g (f x) = g x) \<Longrightarrow> map g (update_first p f xs) = map g xs"
  by (induction xs) auto

lemma update_first_none: "\<forall>x \<in> set xs. \<not> p x \<Longrightarrow> update_first p f xs = xs"
  by (induction xs) auto

lemma set_update_first: "set (update_first p f xs) \<subseteq> set xs \<union> f ` {x \<in> set xs. p x}"
  by (induction xs) auto

text \<open>A list of keyed entries read as a map, under updates of one entry and removal of a key.\<close>

lemma map_of_update_first:
  assumes "\<And>x. k (f x) = k x"
  shows "map_of (map (\<lambda>x. (k x, v x)) (update_first (\<lambda>x. k x = i) f xs)) =
    (case List.find (\<lambda>x. k x = i) xs of
       None \<Rightarrow> map_of (map (\<lambda>x. (k x, v x)) xs)
     | Some x \<Rightarrow> (map_of (map (\<lambda>x. (k x, v x)) xs))(i \<mapsto> v (f x)))"
  using assms by (induction xs) (auto split: option.split)

lemma map_of_filter_key:
  "map_of (map (\<lambda>x. (k x, v x)) (filter (\<lambda>x. k x \<noteq> i) xs)) = (map_of (map (\<lambda>x. (k x, v x)) xs))(i := None)"
  by (induction xs) (auto simp: fun_eq_iff)

lemma find_key_iff: "List.find (\<lambda>x. k x = i) xs = None \<longleftrightarrow> i \<notin> k ` set xs"
  by (induction xs) auto

lemma find_found: "List.find P xs = Some x \<Longrightarrow> x \<in> set xs \<and> P x"
  by (induction xs) (auto split: if_splits)

lemma find_key_Some: "List.find (\<lambda>x. k x = i) xs = Some x \<Longrightarrow> k x = i \<and> x \<in> set xs"
  by (induction xs) (auto split: if_splits)

lemma map_of_append_key:
  assumes "i \<notin> k ` set xs"
  shows "[i \<mapsto> w] ++ map_of (map (\<lambda>x. (k x, v x)) xs) = (map_of (map (\<lambda>x. (k x, v x)) xs))(i \<mapsto> w)"
proof -
  have "i \<notin> dom (map_of (map (\<lambda>x. (k x, v x)) xs))"
    using assms by (auto simp: dom_map_of_conv_image_fst image_iff)
  then show ?thesis by (auto simp: fun_eq_iff map_add_def domIff split: option.split)
qed

end
