(* ===== verification/Exo_F64.thy ===== *)
theory Exo_F64
  imports Exo_Prelude "HOL-Library.Log_Nat"
begin

text \<open>
  The \<open>f64\<close> of the code: IEEE 754 binary64 with round-to-nearest, ties-to-even. A finite
  value is the rational number it denotes and every operation rounds its exact rational
  result, so the definitions compute. The infinities and NaN are kept as values of their own, because \<open>str::parse\<close>,
  \<open>min\<close>, \<open>max\<close> and \<open>clamp\<close> treat them specially and the trust gate depends on it. The two
  zeros are one value: nothing in the modelled code divides by a zero or reads a sign bit.

  The main facts are \<open>rndq_mono\<close> (rounding is monotone, also across binades) and the bounds on
  \<open>f64_add\<close>, \<open>f64_sub\<close> and \<open>f64_mul\<close> in the unit interval that follow from it.
\<close>

section \<open>Rounding\<close>

datatype f64 = NaN | PInf | NInf | Fin rat

definition ilog2 :: "rat \<Rightarrow> int" where
  "ilog2 x = (let (n, d) = quotient_of x; e = bitlen n - bitlen d
              in if 2 powi e \<le> x then e else e - 1)"

definition round_half_even :: "rat \<Rightarrow> int" where
  "round_half_even x = (let f = \<lfloor>x\<rfloor>; d = x - of_int f in
     if d < 1 / 2 then f else if d > 1 / 2 then f + 1 else if even f then f else f + 1)"

definition ulp_exp :: "rat \<Rightarrow> int" where
  "ulp_exp x = max (ilog2 \<bar>x\<bar> - 52) (- 1074)"

definition rndq :: "rat \<Rightarrow> rat" where
  "rndq x = (if x = 0 then 0
     else let u = 2 powi ulp_exp x in of_int (round_half_even (x / u)) * u)"

definition f64_of_rat :: "rat \<Rightarrow> f64" where
  "f64_of_rat x = (let r = rndq x in
     if 2 ^ 1024 \<le> r then PInf else if r \<le> - (2 ^ 1024) then NInf else Fin r)"

section \<open>Operations\<close>

fun f64_neg :: "f64 \<Rightarrow> f64" where
  "f64_neg NaN = NaN"
| "f64_neg PInf = NInf"
| "f64_neg NInf = PInf"
| "f64_neg (Fin a) = Fin (- a)"

fun f64_add :: "f64 \<Rightarrow> f64 \<Rightarrow> f64" where
  "f64_add (Fin a) (Fin b) = f64_of_rat (a + b)"
| "f64_add NaN _ = NaN"
| "f64_add _ NaN = NaN"
| "f64_add PInf NInf = NaN"
| "f64_add NInf PInf = NaN"
| "f64_add PInf _ = PInf"
| "f64_add _ PInf = PInf"
| "f64_add NInf _ = NInf"
| "f64_add _ NInf = NInf"

definition f64_sub :: "f64 \<Rightarrow> f64 \<Rightarrow> f64" where
  "f64_sub a b = f64_add a (f64_neg b)"

definition f64_signed_inf :: "bool \<Rightarrow> f64" where
  "f64_signed_inf neg = (if neg then NInf else PInf)"

fun f64_mul :: "f64 \<Rightarrow> f64 \<Rightarrow> f64" where
  "f64_mul (Fin a) (Fin b) = f64_of_rat (a * b)"
| "f64_mul NaN _ = NaN"
| "f64_mul _ NaN = NaN"
| "f64_mul (Fin a) PInf = (if a = 0 then NaN else f64_signed_inf (a < 0))"
| "f64_mul (Fin a) NInf = (if a = 0 then NaN else f64_signed_inf (0 < a))"
| "f64_mul PInf (Fin a) = (if a = 0 then NaN else f64_signed_inf (a < 0))"
| "f64_mul NInf (Fin a) = (if a = 0 then NaN else f64_signed_inf (0 < a))"
| "f64_mul PInf PInf = PInf"
| "f64_mul NInf NInf = PInf"
| "f64_mul PInf NInf = NInf"
| "f64_mul NInf PInf = NInf"

text \<open>The comparison \<open>a < b\<close>: false as soon as one side is NaN.\<close>

fun f64_lt :: "f64 \<Rightarrow> f64 \<Rightarrow> bool" where
  "f64_lt NaN _ = False"
| "f64_lt _ NaN = False"
| "f64_lt (Fin a) (Fin b) = (a < b)"
| "f64_lt NInf NInf = False"
| "f64_lt NInf _ = True"
| "f64_lt PInf _ = False"
| "f64_lt (Fin a) PInf = True"
| "f64_lt (Fin a) NInf = False"

definition f64_le :: "f64 \<Rightarrow> f64 \<Rightarrow> bool" where
  "f64_le a b \<longleftrightarrow> a \<noteq> NaN \<and> b \<noteq> NaN \<and> \<not> f64_lt b a"

text \<open>\<open>f64::min\<close> and \<open>f64::max\<close>: a NaN operand is ignored.\<close>

definition f64_min :: "f64 \<Rightarrow> f64 \<Rightarrow> f64" where
  "f64_min a b = (if a = NaN then b else if b = NaN then a else if f64_lt b a then b else a)"

definition f64_max :: "f64 \<Rightarrow> f64 \<Rightarrow> f64" where
  "f64_max a b = (if a = NaN then b else if b = NaN then a else if f64_lt a b then b else a)"

text \<open>\<open>f64::clamp\<close> (with \<open>lo <= hi\<close>): NaN stays NaN.\<close>

definition f64_clamp :: "f64 \<Rightarrow> f64 \<Rightarrow> f64 \<Rightarrow> f64" where
  "f64_clamp x lo hi = (if f64_lt x lo then lo else if f64_lt hi x then hi else x)"

text \<open>\<open>f64::MAX\<close>.\<close>

definition f64_MAX :: f64 where
  "f64_MAX = Fin ((2 ^ 53 - 1) * 2 ^ 971)"

text \<open>\<open>f64::round\<close> (ties away from zero) and the saturating cast \<open>as u64\<close>.\<close>

fun f64_round :: "f64 \<Rightarrow> f64" where
  "f64_round (Fin a) = Fin (if 0 \<le> a then of_int \<lfloor>a + 1 / 2\<rfloor> else - of_int \<lfloor>- a + 1 / 2\<rfloor>)"
| "f64_round x = x"

fun f64_as_u64 :: "f64 \<Rightarrow> u64" where
  "f64_as_u64 NaN = 0"
| "f64_as_u64 PInf = - 1"
| "f64_as_u64 NInf = 0"
| "f64_as_u64 (Fin a) = (if a < 0 then 0 else if 2 ^ 64 \<le> a then - 1 else word_of_int \<lfloor>a\<rfloor>)"

text \<open>The cast \<open>as f64\<close> of an integer.\<close>

definition f64_of_int :: "int \<Rightarrow> f64" where
  "f64_of_int n = f64_of_rat (of_int n)"

text \<open>\<open>a as f64 / b as f64\<close> of integers with \<open>b\<close> not zero.\<close>

definition f64_ratio :: "int \<Rightarrow> int \<Rightarrow> f64" where
  "f64_ratio a b = (case (f64_of_int a, f64_of_int b) of (Fin x, Fin y) \<Rightarrow> f64_of_rat (x / y) | _ \<Rightarrow> NaN)"

section \<open>Reading and printing\<close>

text \<open>
  \<open>str::parse::<f64>\<close>: an optional sign, then \<open>inf\<close>, \<open>infinity\<close> or \<open>nan\<close> in any case, or a
  decimal number with at least one digit before or after the point and an optional exponent;
  the value is the decimal number correctly rounded. Anything else is an error (\<open>None\<close>).
\<close>

definition is_digit :: "char \<Rightarrow> bool" where
  "is_digit c \<longleftrightarrow> 48 \<le> (of_char c :: nat) \<and> (of_char c :: nat) \<le> 57"

definition ascii_lower :: "char \<Rightarrow> char" where
  "ascii_lower c = (if 65 \<le> (of_char c :: nat) \<and> (of_char c :: nat) \<le> 90
     then char_of (of_char c + 32 :: nat) else c)"

definition digits_val :: "string \<Rightarrow> nat" where
  "digits_val ds = foldl (\<lambda>n c. 10 * n + (of_char c - 48)) 0 ds"

fun split_sign :: "string \<Rightarrow> bool \<times> string" where
  "split_sign (c # cs) = (if c = CHR ''-'' then (True, cs)
     else if c = CHR ''+'' then (False, cs) else (False, c # cs))"
| "split_sign [] = (False, [])"

definition parse_exponent :: "string \<Rightarrow> int option" where
  "parse_exponent s = (case s of [] \<Rightarrow> Some 0
     | c # cs \<Rightarrow> if ascii_lower c \<noteq> CHR ''e'' then None
         else let (neg, ds) = split_sign cs in
           if ds = [] \<or> \<not> list_all is_digit ds then None
           else Some (if neg then - int (digits_val ds) else int (digits_val ds)))"

definition parse_decimal :: "string \<Rightarrow> rat option" where
  "parse_decimal s = (let ip = takeWhile is_digit s; r = dropWhile is_digit s;
       fp = (case r of c # cs \<Rightarrow> if c = CHR ''.'' then takeWhile is_digit cs else [] | [] \<Rightarrow> []);
       r' = (case r of c # cs \<Rightarrow> if c = CHR ''.'' then dropWhile is_digit cs else r | [] \<Rightarrow> [])
     in if ip = [] \<and> fp = [] then None
        else map_option (\<lambda>e. of_nat (digits_val (ip @ fp)) * 10 powi (e - int (length fp)))
               (parse_exponent r'))"

definition f64_parse :: "string \<Rightarrow> f64 option" where
  "f64_parse s = (let (neg, r) = split_sign s; w = map ascii_lower r in
     if w = ''inf'' \<or> w = ''infinity'' then Some (f64_signed_inf neg)
     else if w = ''nan'' then Some NaN
     else map_option (\<lambda>q. f64_of_rat (if neg then - q else q)) (parse_decimal r))"

text \<open>\<open>format!("{:.2}", x)\<close>: two decimals, correctly rounded with ties to even.\<close>

fun fmt_f64_2 :: "f64 \<Rightarrow> string" where
  "fmt_f64_2 NaN = ''NaN''"
| "fmt_f64_2 PInf = ''inf''"
| "fmt_f64_2 NInf = ''-inf''"
| "fmt_f64_2 (Fin a) = (let n = nat (round_half_even (\<bar>a\<bar> * 100)) in
     (if a < 0 then ''-'' else []) @ show_nat (n div 100) @ ''.'' @
     [digit_char (n div 10 mod 10), digit_char (n mod 10)])"

section \<open>Rounding is monotone\<close>

lemma ilog2_bounds:
  assumes "0 < x"
  shows "2 powi ilog2 x \<le> x \<and> x < 2 powi (ilog2 x + 1)"
proof -
  obtain n d where nd: "quotient_of x = (n, d)" by (cases "quotient_of x")
  have d: "0 < d" using nd by (rule quotient_of_denom_pos)
  have x: "x = of_int n / of_int d" using nd by (rule quotient_of_div)
  with assms d have n: "0 < n" by (simp add: zero_less_divide_iff)
  define bn where "bn = bitlen n"
  define bd where "bd = bitlen d"
  have bpos: "0 < bn" "0 < bd"
    using n d by (simp_all add: bn_def bd_def bitlen_eq_zero_iff less_le bitlen_nonneg)
  have two: "2 ^ nat k = (2::rat) powi k" if "0 \<le> k" for k
    using that by (simp add: power_int_def)
  have bound: "(2::rat) powi (bitlen m - 1) \<le> of_int m \<and> of_int m < (2::rat) powi bitlen m"
    if m: "0 < m" "0 < bitlen m" for m
  proof -
    have "2 ^ nat (bitlen m - 1) \<le> m \<and> m < 2 ^ nat (bitlen m)"
      using m(1) by (rule bitlen_bounds)
    then have "(of_int (2 ^ nat (bitlen m - 1)) :: rat) \<le> of_int m"
      and "(of_int m :: rat) < of_int (2 ^ nat (bitlen m))"
      by (simp_all only: of_int_le_iff of_int_less_iff)
    with m(2) show ?thesis by (simp add: two)
  qed
  have bn': "2 powi (bn - 1) \<le> (of_int n::rat)" "(of_int n::rat) < 2 powi bn"
    using bound [of n] n bpos by (simp_all add: bn_def)
  have bd': "2 powi (bd - 1) \<le> (of_int d::rat)" "(of_int d::rat) < 2 powi bd"
    using bound [of d] d bpos by (simp_all add: bd_def)
  have dq: "0 < (of_int d::rat)" using d by simp
  have up: "x < 2 powi (bn - bd + 1)"
  proof -
    have "of_int n < 2 powi (bn - bd + 1) * (2 powi (bd - 1) :: rat)"
      using bn'(2) by (simp add: power_int_add [symmetric])
    also have "\<dots> \<le> 2 powi (bn - bd + 1) * of_int d"
      using bd'(1) by (intro mult_left_mono) simp_all
    finally show ?thesis using dq by (simp add: x pos_divide_less_eq)
  qed
  have lo: "2 powi (bn - bd - 1) \<le> x"
  proof -
    have "2 powi (bn - bd - 1) * (of_int d :: rat) \<le> 2 powi (bn - bd - 1) * 2 powi bd"
      using bd'(2) by (intro mult_left_mono) simp_all
    also have "\<dots> = 2 powi (bn - 1)" by (simp add: power_int_add [symmetric])
    finally have "2 powi (bn - bd - 1) * (of_int d :: rat) \<le> of_int n"
      using bn'(1) by simp
    then show ?thesis using dq by (simp add: x pos_le_divide_eq)
  qed
  show ?thesis
    using up lo by (auto simp: ilog2_def Let_def nd bn_def bd_def)
qed

lemma powi_less_imp: "(2::rat) powi a < 2 powi b \<Longrightarrow> a < b"
  by (rule ccontr) (auto dest: power_int_increasing [of b a "2::rat"] simp: not_less)

lemma ilog2_mono: "0 < x \<Longrightarrow> x \<le> y \<Longrightarrow> ilog2 x \<le> ilog2 y"
  using ilog2_bounds [of x] ilog2_bounds [of y] powi_less_imp [of "ilog2 x" "ilog2 y + 1"]
  by force

lemma round_half_even_of_int [simp]: "round_half_even (of_int n) = n"
  by (simp add: round_half_even_def)

lemma round_half_even_mono:
  assumes "x \<le> y"
  shows "round_half_even x \<le> round_half_even y"
proof -
  have fl: "\<lfloor>x\<rfloor> \<le> \<lfloor>y\<rfloor>" using assms by (rule floor_mono)
  have lo: "\<lfloor>z\<rfloor> \<le> round_half_even z" and hi: "round_half_even z \<le> \<lfloor>z\<rfloor> + 1" for z
    by (simp_all add: round_half_even_def Let_def)
  show ?thesis
  proof (cases "\<lfloor>x\<rfloor> = \<lfloor>y\<rfloor>")
    case True
    with assms show ?thesis by (auto simp: round_half_even_def Let_def)
  next
    case False
    with fl have "\<lfloor>x\<rfloor> + 1 \<le> \<lfloor>y\<rfloor>" by simp
    with hi [of x] lo [of y] show ?thesis by linarith
  qed
qed

lemma round_half_even_minus: "round_half_even (- x) = - round_half_even x"
proof (cases "x = of_int \<lfloor>x\<rfloor>")
  case True
  then have "- x = of_int (- \<lfloor>x\<rfloor>)" by simp
  then have "round_half_even (- x) = - \<lfloor>x\<rfloor>" by (metis round_half_even_of_int)
  moreover have "round_half_even x = \<lfloor>x\<rfloor>" using True by (metis round_half_even_of_int)
  ultimately show ?thesis by simp
next
  case False
  then have lt: "of_int \<lfloor>x\<rfloor> < x" using of_int_floor_le [of x] by linarith
  have "\<lfloor>- x\<rfloor> = - \<lfloor>x\<rfloor> - 1"
  proof (rule floor_unique)
    show "of_int (- \<lfloor>x\<rfloor> - 1) \<le> - x" using floor_correct [of x] by simp
    show "- x < of_int (- \<lfloor>x\<rfloor> - 1) + 1" using lt by simp
  qed
  then show ?thesis by (auto simp: round_half_even_def Let_def)
qed

lemma ulp_exp_minus [simp]: "ulp_exp (- x) = ulp_exp x"
  by (simp add: ulp_exp_def)

lemma rndq_minus: "rndq (- x) = - rndq x"
  by (simp add: rndq_def Let_def round_half_even_minus)

lemma rndq_zero [simp]: "rndq 0 = 0"
  by (simp add: rndq_def)

lemma rndq_nonneg: "0 \<le> x \<Longrightarrow> 0 \<le> rndq x"
  using round_half_even_mono [of 0 "x / 2 powi ulp_exp x"] round_half_even_of_int [of 0]
  by (auto simp: rndq_def Let_def)

text \<open>A power of two on the grid of \<open>x\<close> separates the rounded value on the same side.\<close>

lemma powi_on_grid:
  "u \<le> e \<Longrightarrow> \<exists>k::int. (2::rat) powi e = of_int k * 2 powi u"
proof -
  assume "u \<le> e"
  then have "(2::rat) ^ nat (e - u) = 2 powi (e - u)" by (simp add: power_int_def)
  then have "of_int (2 ^ nat (e - u)) * 2 powi u = (2::rat) powi e"
    by (simp flip: power_int_add)
  then show ?thesis by metis
qed

lemma rndq_le_powi:
  assumes "0 < x" "x \<le> 2 powi e" "ulp_exp x \<le> e"
  shows "rndq x \<le> 2 powi e"
proof -
  let ?u = "2 powi ulp_exp x :: rat"
  obtain k :: int where k: "2 powi e = of_int k * ?u"
    using powi_on_grid [OF assms(3)] by blast
  have "x / ?u \<le> of_int k"
    using assms(2) by (simp add: k pos_divide_le_eq)
  then have "round_half_even (x / ?u) \<le> k"
    using round_half_even_mono [of "x / ?u" "of_int k"] by simp
  then have "of_int (round_half_even (x / ?u)) * ?u \<le> of_int k * ?u"
    by (intro mult_right_mono) simp_all
  with assms(1) show ?thesis by (simp add: rndq_def Let_def k)
qed

lemma rndq_ge_powi:
  assumes "2 powi e \<le> x" "ulp_exp x \<le> e"
  shows "2 powi e \<le> rndq x"
proof -
  let ?u = "2 powi ulp_exp x :: rat"
  have x: "0 < x" by (rule less_le_trans [OF _ assms(1)]) simp
  obtain k :: int where k: "2 powi e = of_int k * ?u"
    using powi_on_grid [OF assms(2)] by blast
  have "of_int k \<le> x / ?u"
    using assms(1) by (simp add: k pos_le_divide_eq)
  then have "k \<le> round_half_even (x / ?u)"
    using round_half_even_mono [of "of_int k" "x / ?u"] by simp
  then have "of_int k * ?u \<le> of_int (round_half_even (x / ?u)) * ?u"
    by (intro mult_right_mono) simp_all
  with x show ?thesis by (simp add: rndq_def Let_def k)
qed

lemma rndq_mono_pos:
  assumes "0 < x" "x \<le> y"
  shows "rndq x \<le> rndq y"
proof (cases "ulp_exp x = ulp_exp y")
  case True
  then show ?thesis
    using assms round_half_even_mono [of "x / 2 powi ulp_exp y" "y / 2 powi ulp_exp y"]
    by (auto simp: rndq_def Let_def divide_right_mono)
next
  case False
  have y: "0 < y" using assms by simp
  have "ilog2 x \<le> ilog2 y" using assms by (rule ilog2_mono)
  with False assms y have lt: "ilog2 x < ilog2 y" and uy: "ulp_exp y = ilog2 y - 52"
    and ux: "ulp_exp x \<le> ilog2 y"
    by (auto simp: ulp_exp_def max_def split: if_splits)
  have "x < 2 powi (ilog2 x + 1)" using ilog2_bounds [OF assms(1)] by simp
  also have "\<dots> \<le> (2::rat) powi ilog2 y" using lt by (intro power_int_increasing) simp_all
  finally have "rndq x \<le> 2 powi ilog2 y" using assms(1) ux by (intro rndq_le_powi) simp_all
  also have "\<dots> \<le> rndq y" using ilog2_bounds [OF y] uy by (intro rndq_ge_powi) simp_all
  finally show ?thesis .
qed

lemma rndq_mono: "x \<le> y \<Longrightarrow> rndq x \<le> rndq y"
proof -
  assume xy: "x \<le> y"
  consider "0 < x" | "x \<le> 0" "0 \<le> y" | "y < 0" using xy by linarith
  then show ?thesis
  proof cases
    case 1 then show ?thesis using xy by (rule rndq_mono_pos)
  next
    case 2
    then have "rndq x \<le> 0" using rndq_nonneg [of "- x"] by (simp add: rndq_minus)
    with rndq_nonneg [OF 2(2)] show ?thesis by linarith
  next
    case 3
    then have "rndq (- y) \<le> rndq (- x)" using xy by (intro rndq_mono_pos) simp_all
    then show ?thesis by (simp add: rndq_minus)
  qed
qed

section \<open>Rounded values are fixed points\<close>

lemma rndq_on_grid:
  assumes "x = of_int k * 2 powi e" "ulp_exp x \<le> e"
  shows "rndq x = x"
proof -
  let ?u = "2 powi ulp_exp x :: rat"
  obtain j :: int where j: "2 powi e = of_int j * ?u"
    using powi_on_grid [OF assms(2)] by blast
  have x: "of_int (k * j) * ?u = x"
    by (metis assms(1) j mult.assoc of_int_mult)
  have "?u \<noteq> 0" by simp
  then have "x / ?u = of_int (k * j)" using x by (metis nonzero_mult_div_cancel_right)
  then have "of_int (round_half_even (x / ?u)) * ?u = x" using x by (simp only: round_half_even_of_int)
  then show ?thesis by (simp add: rndq_def Let_def)
qed

lemma rndq_mantissa:
  assumes "0 < x"
  shows "\<exists>k::int. rndq x = of_int k * 2 powi ulp_exp x \<and> 0 \<le> k \<and> k \<le> 2 ^ 53"
proof -
  let ?u = "2 powi ulp_exp x :: rat" and ?k = "round_half_even (x / 2 powi ulp_exp x)"
  have "x < 2 powi (ilog2 x + 1)" using ilog2_bounds [OF assms] by simp
  also have "\<dots> \<le> (2::rat) powi (53 + ulp_exp x)"
    using assms by (intro power_int_increasing) (simp_all add: ulp_exp_def)
  also have "\<dots> = of_int (2 ^ 53) * ?u" by (simp add: power_int_add)
  finally have "x / ?u \<le> of_int (2 ^ 53)" by (simp add: pos_divide_le_eq)
  then have "?k \<le> 2 ^ 53" using round_half_even_mono round_half_even_of_int by metis
  moreover have "0 \<le> ?k"
    using round_half_even_mono [of 0 "x / ?u"] round_half_even_of_int [of 0] assms by simp
  moreover have "rndq x = of_int ?k * ?u" using assms by (simp add: rndq_def Let_def)
  ultimately show ?thesis by blast
qed

lemma rndq_idem_pos:
  assumes "0 < x"
  shows "rndq (rndq x) = rndq x"
proof -
  define e where "e = ulp_exp x"
  obtain k :: int where r: "rndq x = of_int k * 2 powi e" and k: "0 \<le> k" "k \<le> 2 ^ 53"
    using rndq_mantissa [OF assms] by (auto simp: e_def)
  have e: "- 1074 \<le> e" by (simp add: e_def ulp_exp_def)
  consider "k = 0" | "0 < k" "k < 2 ^ 53" | "k = 2 ^ 53" using k by linarith
  then show ?thesis
  proof cases
    case 1
    then show ?thesis by (simp add: r)
  next
    case 2
    then have pos: "0 < rndq x" by (simp add: r)
    have "(of_int k :: rat) < of_int (2 ^ 53)" using 2 by (simp only: of_int_less_iff)
    then have "rndq x < 2 powi (53 + e)" by (simp add: r power_int_add)
    then have "ilog2 (rndq x) < 53 + e"
      using ilog2_bounds [OF pos] powi_less_imp [of "ilog2 (rndq x)" "53 + e"] by linarith
    then have "ulp_exp (rndq x) \<le> e" using pos e by (simp add: ulp_exp_def)
    then show ?thesis using r by (rule rndq_on_grid [rotated])
  next
    case 3
    then have r': "rndq x = 2 powi (53 + e)" by (simp add: r power_int_add)
    then have pos: "0 < rndq x" by simp
    have "ilog2 (rndq x) \<le> 53 + e"
      using ilog2_bounds [OF pos] powi_less_imp [of "ilog2 (rndq x)" "53 + e + 1"]
        power_int_strict_increasing [of "53 + e" "53 + e + 1" "2::rat"] r' by linarith
    then have "ulp_exp (rndq x) \<le> 53 + e" using pos e by (simp add: ulp_exp_def)
    then show ?thesis using r' by (metis rndq_on_grid mult_1 of_int_1)
  qed
qed

lemma rndq_idem [simp]: "rndq (rndq x) = rndq x"
  using rndq_idem_pos [of x] rndq_idem_pos [of "- x"]
  by (cases x "0 :: rat" rule: linorder_cases) (auto simp: rndq_minus)

text \<open>A finite value that binary64 represents.\<close>

definition f64_repr :: "f64 \<Rightarrow> bool" where
  "f64_repr x \<longleftrightarrow> (case x of Fin a \<Rightarrow> rndq a = a | _ \<Rightarrow> True)"

lemma f64_repr_simps [simp]: "f64_repr (Fin a) = (rndq a = a)" "f64_repr NaN" "f64_repr PInf" "f64_repr NInf"
  by (simp_all add: f64_repr_def)

lemma f64_repr_of_rat: "f64_repr (f64_of_rat x)"
  by (simp add: f64_of_rat_def Let_def)

section \<open>The unit interval\<close>

text \<open>Trust levels and uncertainties live in \<open>[0, 1]\<close>.\<close>

fun unit_f64 :: "f64 \<Rightarrow> bool" where
  "unit_f64 (Fin a) = (0 \<le> a \<and> a \<le> 1)"
| "unit_f64 _ = False"

lemma unit_f64_iff: "unit_f64 x \<longleftrightarrow> (\<exists>a. x = Fin a \<and> 0 \<le> a \<and> a \<le> 1)"
  by (cases x) auto

lemma rndq_two: "rndq 2 = 2"
  by code_simp

lemma rndq_one: "rndq 1 = 1"
  by code_simp

lemma f64_of_rat_small:
  assumes "- 2 \<le> x" "x \<le> 2"
  shows "f64_of_rat x = Fin (rndq x)"
proof -
  have "rndq x \<le> 2" using rndq_mono [OF assms(2)] by (simp add: rndq_two)
  moreover have "- 2 \<le> rndq x" using rndq_mono [OF assms(1)] rndq_minus [of 2] by (simp add: rndq_two)
  moreover have "(2::rat) < 2 ^ 1024" by simp
  ultimately show ?thesis unfolding f64_of_rat_def Let_def by auto
qed

lemma f64_of_rat_bounded:
  assumes "- 1024 \<le> x" "x \<le> 1024"
  shows "f64_of_rat x = Fin (rndq x)"
proof -
  have k: "rndq 1024 = 1024" by code_simp
  have "rndq x \<le> 1024" using rndq_mono [OF assms(2)] by (simp add: k)
  moreover have "- 1024 \<le> rndq x" using rndq_mono [OF assms(1)] rndq_minus [of 1024] by (simp add: k)
  moreover have "(1024::rat) < 2 ^ 1024" by simp
  ultimately show ?thesis unfolding f64_of_rat_def Let_def by auto
qed

lemma rndq_unit: "0 \<le> x \<Longrightarrow> x \<le> 1 \<Longrightarrow> 0 \<le> rndq x \<and> rndq x \<le> 1"
  using rndq_mono [of 0 x] rndq_mono [of x 1] by (simp add: rndq_one)

lemma unit_f64_clamp: "x \<noteq> NaN \<Longrightarrow> unit_f64 (f64_clamp x (Fin 0) (Fin 1))"
  by (cases x) (auto simp: f64_clamp_def)

lemma unit_f64_add_min:
  assumes "unit_f64 x" "unit_f64 d"
  shows "unit_f64 (f64_min (f64_add x d) (Fin 1))"
proof -
  obtain a b where ab: "x = Fin a" "d = Fin b" "0 \<le> a" "a \<le> 1" "0 \<le> b" "b \<le> 1"
    using assms by (auto simp: unit_f64_iff)
  then have "f64_add x d = Fin (rndq (a + b))" by (simp add: f64_of_rat_small)
  moreover have "0 \<le> rndq (a + b)" using ab by (simp add: rndq_nonneg)
  ultimately show ?thesis by (simp add: f64_min_def)
qed

lemma unit_f64_sub_max:
  assumes "unit_f64 x" "unit_f64 d"
  shows "unit_f64 (f64_max (f64_sub x d) (Fin 0))"
proof -
  obtain a b where ab: "x = Fin a" "d = Fin b" "0 \<le> a" "a \<le> 1" "0 \<le> b" "b \<le> 1"
    using assms by (auto simp: unit_f64_iff)
  then have "f64_sub x d = Fin (rndq (a - b))" by (simp add: f64_sub_def f64_of_rat_small)
  moreover have "rndq (a - b) \<le> 1" using rndq_mono [of "a - b" 1] ab by (simp add: rndq_one)
  ultimately show ?thesis by (simp add: f64_max_def)
qed

text \<open>Adding a signed amount of at most one and clamping stays in the interval, and is never NaN.\<close>

lemma unit_f64_add_clamp:
  assumes "unit_f64 x" "d = Fin b" "- 1 \<le> b" "b \<le> 1"
  shows "unit_f64 (f64_clamp (f64_add x d) (Fin 0) (Fin 1))"
proof -
  obtain a where "x = Fin a" "0 \<le> a" "a \<le> 1"
    using assms(1) by (auto simp: unit_f64_iff)
  with assms show ?thesis by (simp add: f64_of_rat_small unit_f64_clamp)
qed

text \<open>
  On representable values of the interval, adding a nonnegative amount never lowers a value and
  subtracting one never raises it, rounding included.
\<close>

lemma f64_add_ge:
  assumes "unit_f64 (Fin a)" "rndq a = a" "unit_f64 (Fin b)"
  shows "\<exists>c. f64_add (Fin a) (Fin b) = Fin c \<and> a \<le> c"
  using assms rndq_mono [of a "a + b"] by (simp add: f64_of_rat_small)

lemma f64_sub_le:
  assumes "unit_f64 (Fin a)" "rndq a = a" "unit_f64 (Fin b)"
  shows "\<exists>c. f64_sub (Fin a) (Fin b) = Fin c \<and> c \<le> a"
  using assms rndq_mono [of "a - b" a] by (simp add: f64_sub_def f64_of_rat_small)

section \<open>A total order\<close>

text \<open>
  The order of \<open>f64\<close> values for sorting: the numeric order, with NaN above everything. On values
  that are not NaN it is the order of \<open>partial_cmp\<close>.
\<close>

fun f64_rank :: "f64 \<Rightarrow> nat" where
  "f64_rank NInf = 0"
| "f64_rank (Fin _) = 1"
| "f64_rank PInf = 2"
| "f64_rank NaN = 3"

instantiation f64 :: linorder
begin

definition less_eq_f64 :: "f64 \<Rightarrow> f64 \<Rightarrow> bool" where
  "less_eq_f64 a b \<longleftrightarrow> f64_rank a < f64_rank b \<or> (f64_rank a = f64_rank b \<and>
     (case a of Fin x \<Rightarrow> (case b of Fin y \<Rightarrow> x \<le> y | _ \<Rightarrow> True) | _ \<Rightarrow> True))"

definition less_f64 :: "f64 \<Rightarrow> f64 \<Rightarrow> bool" where
  "less_f64 a b \<longleftrightarrow> a \<le> b \<and> \<not> b \<le> (a :: f64)"

instance
proof
  fix x y z :: f64
  show "x < y \<longleftrightarrow> x \<le> y \<and> \<not> y \<le> x" by (rule less_f64_def)
  show "x \<le> x" by (cases x) (simp_all add: less_eq_f64_def)
  show "x \<le> y \<Longrightarrow> y \<le> z \<Longrightarrow> x \<le> z"
    by (cases x; cases y; cases z) (simp_all add: less_eq_f64_def)
  show "x \<le> y \<Longrightarrow> y \<le> x \<Longrightarrow> x = y" by (cases x; cases y) (simp_all add: less_eq_f64_def)
  show "x \<le> y \<or> y \<le> x" by (cases x; cases y) (auto simp: less_eq_f64_def)
qed

end

lemma f64_le_total: "a \<noteq> NaN \<Longrightarrow> b \<noteq> NaN \<Longrightarrow> a \<le> b \<longleftrightarrow> f64_le a b"
  by (cases a; cases b) (auto simp: less_eq_f64_def f64_le_def)

end
