(* ===== verification/Exo_Core.thy ===== *)
theory Exo_Core
  imports Exo_F64
begin

text \<open>
  The domain types of the crate \<open>exoskeleton-core\<close> that several components share: errors,
  identifiers, artifacts, JSON values, events, message envelopes, LLM backends, and the tick
  record with its action and call records.
\<close>

section \<open>Errors and identifiers\<close>

datatype exo_error =
    Config string
  | Storage string
  | Engine string
  | LlmInvocation string
  | ContextCompilation string
  | ThreadExecution string
  | RelationshipViolation string
  | BudgetExhausted string
  | InvariantViolation string
  | Shutdown string
  | NotFound string
  | Serde string
  | Io string

type_synonym 'a exo_result = "exo_error + 'a"

text \<open>\<open>to_string\<close> of an error.\<close>

fun exo_error_display :: "exo_error \<Rightarrow> string" where
  "exo_error_display (Config e) = ''configuration error: '' @ e"
| "exo_error_display (Storage e) = ''storage error: '' @ e"
| "exo_error_display (Engine e) = ''engine error: '' @ e"
| "exo_error_display (LlmInvocation e) = ''LLM invocation error: '' @ e"
| "exo_error_display (ContextCompilation e) = ''context compilation error: '' @ e"
| "exo_error_display (ThreadExecution e) = ''thread execution error: '' @ e"
| "exo_error_display (RelationshipViolation e) = ''relationship violation: '' @ e"
| "exo_error_display (BudgetExhausted e) = ''budget exhausted: '' @ e"
| "exo_error_display (InvariantViolation e) = ''INVARIANT VIOLATION: '' @ e"
| "exo_error_display (Shutdown e) = ''shutdown: '' @ e"
| "exo_error_display (NotFound e) = ''not found: '' @ e"
| "exo_error_display (Serde e) = ''serialization error: '' @ e"
| "exo_error_display (Io e) = ''I/O error: '' @ e"

text \<open>
  A lock is poisoned when a thread panicked while holding it; the in-memory stores then answer
  with this error.
\<close>

definition lock_error :: exo_error where
  "lock_error = Storage ''lock poisoned: poisoned lock: another task failed inside''"

definition locked :: "bool \<Rightarrow> 'a exo_result \<Rightarrow> 'a exo_result" where
  "locked poisoned r = (if poisoned then Inl lock_error else r)"

lemma locked_simps [simp]: "locked False r = r" "locked True r = Inl lock_error"
  by (simp_all add: locked_def)

text \<open>
  An \<open>ArtifactId\<close> is a string. \<open>ArtifactId::from_content\<close> is the hexadecimal SHA-256 of the
  content, computed by the sha2 crate: a parameter \<open>sha256_hex\<close> where it is used.
\<close>

type_synonym artifact_id = string

datatype artifact_id_error = InvalidLength nat | InvalidHex

definition is_ascii_hexdigit :: "char \<Rightarrow> bool" where
  "is_ascii_hexdigit c \<longleftrightarrow> is_digit c \<or>
     (65 \<le> (of_char c :: nat) \<and> (of_char c :: nat) \<le> 70) \<or>
     (97 \<le> (of_char c :: nat) \<and> (of_char c :: nat) \<le> 102)"

definition artifact_id_from_str :: "string \<Rightarrow> artifact_id_error + artifact_id" where
  "artifact_id_from_str s =
     (if length s \<noteq> 64 then Inl (InvalidLength (length s))
      else if \<not> list_all is_ascii_hexdigit s then Inl InvalidHex
      else Inr s)"

section \<open>Artifacts\<close>

datatype artifact_kind =
    AkSnapshot | AkPlan | AkReceipt | AkThreadOutput | AkExecThreadOutput | AkRelationshipEntry
  | AkMemory | AkDecision | AkEnvelope | AkLlmResponse | AkTick | AkContextBreakdown | AkEvent
  | AkPlanDraft | AkPlanApproved | AkCodeDiff

record artifact =
  af_id :: artifact_id
  af_kind :: artifact_kind
  af_content :: string
  af_content_type :: string
  af_created_at :: datetime
  af_metadata :: "(string \<times> string) list"

definition artifact_new_with_timestamp ::
  "(string \<Rightarrow> artifact_id) \<Rightarrow> artifact_kind \<Rightarrow> string \<Rightarrow> string \<Rightarrow> datetime \<Rightarrow> artifact" where
  "artifact_new_with_timestamp sha256_hex kind content content_type created_at = \<lparr>
     af_id = sha256_hex content,
     af_kind = kind,
     af_content = content,
     af_content_type = content_type,
     af_created_at = created_at,
     af_metadata = []\<rparr>"

definition artifact_new ::
  "(string \<Rightarrow> artifact_id) \<Rightarrow> datetime \<Rightarrow> artifact_kind \<Rightarrow> string \<Rightarrow> string \<Rightarrow> artifact" where
  "artifact_new sha256_hex now kind content content_type = \<lparr>
     af_id = sha256_hex content,
     af_kind = kind,
     af_content = content,
     af_content_type = content_type,
     af_created_at = now,
     af_metadata = []\<rparr>"

definition with_metadata :: "string \<Rightarrow> string \<Rightarrow> artifact \<Rightarrow> artifact" where
  "with_metadata key val a = a\<lparr>af_metadata := AList.update key val (af_metadata a)\<rparr>"

section \<open>JSON values\<close>

text \<open>
  A JSON document as the code passes it around (\<open>serde_json::Value\<close>): the data the model's
  operations read by key. Numbers keep the integer/float distinction of that type.
\<close>

datatype json =
    JNull
  | JBool bool
  | JInt int
  | JFloat f64
  | JStr string
  | JArr "json list"
  | JObj "(string \<times> json) list"

text \<open>\<open>v.get(key)\<close>, \<open>v[key]\<close> on an object, and the typed views \<open>as_str\<close>, \<open>as_u64\<close>, ...\<close>

fun json_get :: "json \<Rightarrow> string \<Rightarrow> json option" where
  "json_get (JObj kvs) k = map_of kvs k"
| "json_get _ k = None"

fun json_as_str :: "json \<Rightarrow> string option" where
  "json_as_str (JStr s) = Some s"
| "json_as_str _ = None"

fun json_as_bool :: "json \<Rightarrow> bool option" where
  "json_as_bool (JBool b) = Some b"
| "json_as_bool _ = None"

fun json_as_array :: "json \<Rightarrow> json list option" where
  "json_as_array (JArr xs) = Some xs"
| "json_as_array _ = None"

fun json_as_u64 :: "json \<Rightarrow> u64 option" where
  "json_as_u64 (JInt n) = (if 0 \<le> n \<and> n < 2 ^ 64 then Some (word_of_int n) else None)"
| "json_as_u64 _ = None"

definition json_get_str :: "json \<Rightarrow> string \<Rightarrow> string option" where
  "json_get_str v k = Option.bind (json_get v k) json_as_str"

section \<open>Events\<close>

datatype event_type =
    VesselStarted | VesselStopped | TickStarted | TickCompleted | ActionExecuted | LlmCalled
  | ThreadRan | RelationshipUpdated | BudgetConsumed | MessageReceived | VesselForked
  | EpisodicEvicted | VesselResponseSent | CapabilityRequest | WatchTriggered | CharterProposal
  | ConnectorLoaded | ConnectorUnloaded | ExecThreadUpdated | QuestionAsked | QuestionAnswered
  | PolicyApprovalRequired | PolicyApprovalGranted | PlanModeTransition | LlmTextDelta | EventError

record event_entry =
  ev_id :: uuid
  ev_tick_id :: "uuid option"
  ev_event_type :: event_type
  ev_payload_ref :: "artifact_id option"
  ev_summary :: string
  ev_timestamp :: datetime

section \<open>Message envelopes\<close>

datatype envelope_kind = HumanMessage | AgentMessage | SystemEvent | RelationalSignal

record message_envelope =
  me_id :: uuid
  me_source :: uuid
  me_target :: "uuid option"
  me_kind :: envelope_kind
  me_payload_ref :: artifact_id
  me_timestamp :: datetime
  me_in_reply_to :: "uuid option"

section \<open>LLM backends\<close>

datatype llm_backend = Local | Frontier

section \<open>Tick records\<close>

datatype tick_phase = Perceive | Orient | Decide | Align | Act | Reflect | Amend

definition tick_phase_sequence :: "tick_phase list" where
  "tick_phase_sequence = [Perceive, Orient, Decide, Align, Act, Reflect, Amend]"

fun tick_phase_next :: "tick_phase \<Rightarrow> tick_phase option" where
  "tick_phase_next Perceive = Some Orient"
| "tick_phase_next Orient = Some Decide"
| "tick_phase_next Decide = Some Align"
| "tick_phase_next Align = Some Act"
| "tick_phase_next Act = Some Reflect"
| "tick_phase_next Reflect = Some Amend"
| "tick_phase_next Amend = None"

datatype action_outcome = Success | Failure | Timeout | Skipped | RateLimited | PolicyDenied

record action_record =
  ar_action_type :: string
  ar_target :: string
  ar_receipt_ref :: "artifact_id option"
  ar_outcome :: action_outcome
  ar_origin_exec_thread_id :: "uuid option"
  ar_proposal_id :: "string option"

record llm_call_record =
  lc_model :: string
  lc_tokens_in :: u64
  lc_tokens_out :: u64
  lc_cost_cents :: f64
  lc_latency_ms :: u64
  lc_response_artifact_ref :: "artifact_id option"
  lc_turns :: u32

definition total_tokens :: "llm_call_record \<Rightarrow> u64" where
  "total_tokens c = lc_tokens_in c + lc_tokens_out c"

text \<open>
  \<open>LlmCallRecord::merge\<close>. \<open>Iterator::sum\<close> folds from the left; the integer sums wrap in a
  release build and the floating-point sum starts at the neutral element of addition.
\<close>

definition llm_call_merge :: "llm_call_record list \<Rightarrow> llm_call_record" where
  "llm_call_merge records = (case records of
     [] \<Rightarrow> \<lparr>lc_model = [], lc_tokens_in = 0, lc_tokens_out = 0, lc_cost_cents = Fin 0,
            lc_latency_ms = 0, lc_response_artifact_ref = None, lc_turns = 0\<rparr>
   | first # _ \<Rightarrow> \<lparr>
       lc_model = lc_model first,
       lc_tokens_in = foldl (+) 0 (map lc_tokens_in records),
       lc_tokens_out = foldl (+) 0 (map lc_tokens_out records),
       lc_cost_cents = foldl f64_add (Fin 0) (map lc_cost_cents records),
       lc_latency_ms = foldl (+) 0 (map lc_latency_ms records),
       lc_response_artifact_ref = lc_response_artifact_ref (last records),
       lc_turns = of_nat (length records)\<rparr>)"

record thread_contribution =
  tc_thread_id :: uuid
  tc_artifact_id :: artifact_id
  tc_summary :: string

datatype exec_thread_kind = ExecCoding

record exec_thread_contribution =
  xc_thread_id :: uuid
  xc_kind :: exec_thread_kind
  xc_artifact_id :: artifact_id
  xc_summary :: string
  xc_proposal_id :: "string option"
  xc_proposed_action_summary :: "string option"

record tick_record =
  tr_tick_id :: uuid
  tr_tick_number :: u64
  tr_phase :: tick_phase
  tr_started_at :: datetime
  tr_completed_at :: "datetime option"
  tr_snapshot_before :: artifact_id
  tr_snapshot_after :: "artifact_id option"
  tr_thread_contributions :: "thread_contribution list"
  tr_exec_thread_contributions :: "exec_thread_contribution list"
  tr_actions_taken :: "action_record list"
  tr_llm_calls :: "llm_call_record list"
  tr_decision_rationale :: "string option"
  tr_context_breakdown_ref :: "artifact_id option"

section \<open>Properties\<close>

text \<open>The phase order is total and ends: \<open>next\<close> walks the canonical sequence.\<close>

fun phases_from :: "nat \<Rightarrow> tick_phase \<Rightarrow> tick_phase list" where
  "phases_from 0 p = []"
| "phases_from (Suc n) p = p # (case tick_phase_next p of None \<Rightarrow> [] | Some q \<Rightarrow> phases_from n q)"

lemma phases_from_perceive: "7 \<le> n \<Longrightarrow> phases_from n Perceive = tick_phase_sequence"
  by (cases n; cases "n - 1"; cases "n - 2"; cases "n - 3"; cases "n - 4"; cases "n - 5";
      cases "n - 6") (auto simp: tick_phase_sequence_def)

lemma artifact_id_from_str_Inr_iff:
  "artifact_id_from_str s = Inr i \<longleftrightarrow> i = s \<and> length s = 64 \<and> list_all is_ascii_hexdigit s"
  by (auto simp: artifact_id_from_str_def)

lemma foldl_plus_word: "foldl (+) (a :: 'a::len word) xs = a + sum_list xs"
  by (induction xs arbitrary: a) (simp_all add: add.assoc)

end
