(* ===== verification/Budget.thy ===== *)
theory Budget
  imports Exo_Core
begin

text \<open>
  Budget enforcement: the configuration types and their validation
  (\<open>exoskeleton-core/src/budget.rs\<close>), the tool gate of the Act step
  (\<open>exoskeleton-host/src/budget/mod.rs\<close>) and the cognitive budget tracker with its store
  (\<open>exoskeleton-host/src/budget/tracker.rs\<close>). The interface of a rate gate and that of a budget
  store are the locales \<open>rate_gate\<close> and \<open>budget_store\<close>; both are interpreted on the
  definitions below.
\<close>

section \<open>Configuration\<close>

record escalation_policy =
  escalate_on_uncertainty :: f64
  escalate_on_stakes :: "string list"
  escalate_on_consecutive_failures :: u32
  max_frontier_calls_per_window :: u64

definition escalation_policy_default :: escalation_policy where
  "escalation_policy_default = \<lparr>
     escalate_on_uncertainty = f64_of_rat (7 / 10),
     escalate_on_stakes = [],
     escalate_on_consecutive_failures = 3,
     max_frontier_calls_per_window = 50\<rparr>"

definition escalation_policy_validate :: "escalation_policy \<Rightarrow> unit exo_result" where
  "escalation_policy_validate p =
     (if \<not> (f64_le (Fin 0) (escalate_on_uncertainty p) \<and> f64_le (escalate_on_uncertainty p) (Fin 1))
      then Inl (Config ''escalate_on_uncertainty must be between 0.0 and 1.0'')
      else Inr ())"

record cognitive_budget_config =
  local_token_budget :: u64
  frontier_token_budget :: u64
  frontier_cost_budget_cents :: u64
  cb_time_window_secs :: u64
  per_tick_token_cap :: u64
  per_thread_token_cap :: u64
  cb_escalation_policy :: escalation_policy

definition cognitive_budget_default :: cognitive_budget_config where
  "cognitive_budget_default = \<lparr>
     local_token_budget = 1000000,
     frontier_token_budget = 100000,
     frontier_cost_budget_cents = 500,
     cb_time_window_secs = 3600,
     per_tick_token_cap = 50000,
     per_thread_token_cap = 10000,
     cb_escalation_policy = escalation_policy_default\<rparr>"

definition cognitive_budget_validate :: "cognitive_budget_config \<Rightarrow> unit exo_result" where
  "cognitive_budget_validate c =
     (if cb_time_window_secs c = 0 then Inl (Config ''time_window_secs must be > 0'')
      else if local_token_budget c = 0 \<and> frontier_token_budget c = 0
        then Inl (Config ''at least one token budget (local or frontier) must be > 0'')
      else if per_tick_token_cap c = 0 then Inl (Config ''per_tick_token_cap must be > 0'')
      else if per_thread_token_cap c = 0 then Inl (Config ''per_thread_token_cap must be > 0'')
      else case escalation_policy_validate (cb_escalation_policy c) of
          Inl e \<Rightarrow> Inl e
        | Inr _ \<Rightarrow> Inr ())"

record tool_budget_config =
  max_invocations_per_window :: u64
  tb_time_window_secs :: u64

definition tool_budget_default :: tool_budget_config where
  "tool_budget_default = \<lparr>max_invocations_per_window = 1000, tb_time_window_secs = 3600\<rparr>"

definition tool_budget_validate :: "tool_budget_config \<Rightarrow> unit exo_result" where
  "tool_budget_validate c =
     (if tb_time_window_secs c = 0 then Inl (Config ''tool budget time_window_secs must be > 0'')
      else if max_invocations_per_window c = 0
        then Inl (Config ''max_invocations_per_window must be > 0'')
      else Inr ())"

datatype thrash_level = ThrashNone | ThrashLow | ThrashMedium | ThrashHigh

section \<open>The tool gate\<close>

record tool_budget_gate =
  tg_config :: tool_budget_config
  invocations_this_window :: u64
  tg_window_start :: datetime

definition gate_new :: "datetime \<Rightarrow> tool_budget_config \<Rightarrow> tool_budget_gate" where
  "gate_new now config =
     \<lparr>tg_config = config, invocations_this_window = 0, tg_window_start = now\<rparr>"

definition gate_check :: "tool_budget_gate \<Rightarrow> bool" where
  "gate_check g \<longleftrightarrow> invocations_this_window g < max_invocations_per_window (tg_config g)"

definition gate_record_invocation :: "tool_budget_gate \<Rightarrow> tool_budget_gate" where
  "gate_record_invocation g =
     g\<lparr>invocations_this_window := sat_add (invocations_this_window g) 1\<rparr>"

definition gate_remaining :: "tool_budget_gate \<Rightarrow> u64" where
  "gate_remaining g =
     sat_sub (max_invocations_per_window (tg_config g)) (invocations_this_window g)"

definition gate_reset_window :: "datetime \<Rightarrow> tool_budget_gate \<Rightarrow> tool_budget_gate" where
  "gate_reset_window now g = g\<lparr>invocations_this_window := 0, tg_window_start := now\<rparr>"

definition gate_restore :: "u64 \<Rightarrow> datetime \<Rightarrow> tool_budget_gate \<Rightarrow> tool_budget_gate" where
  "gate_restore invocations window_start g =
     g\<lparr>invocations_this_window := invocations, tg_window_start := window_start\<rparr>"

section \<open>The cognitive budget tracker\<close>

record cognitive_budget_state =
  window_start :: datetime
  local_tokens_consumed :: u64
  frontier_tokens_consumed :: u64
  frontier_cost_consumed :: u64
  frontier_calls :: u64
  per_thread_consumed :: "(uuid \<times> u64) list"
  consecutive_failures :: u32
  tick_tokens_this_tick :: u64

definition budget_state_new :: "datetime \<Rightarrow> cognitive_budget_state" where
  "budget_state_new now = \<lparr>
     window_start = now,
     local_tokens_consumed = 0,
     frontier_tokens_consumed = 0,
     frontier_cost_consumed = 0,
     frontier_calls = 0,
     per_thread_consumed = [],
     consecutive_failures = 0,
     tick_tokens_this_tick = 0\<rparr>"

record tracker =
  bt_config :: cognitive_budget_config
  bt_state :: cognitive_budget_state
  bt_thrash_level :: thrash_level

datatype cognitive_budget_check =
    Available llm_backend
  | Fallback llm_backend
  | Exhausted

record persisted_budget_state =
  ps_window_start :: datetime
  ps_local_tokens_consumed :: u64
  ps_frontier_tokens_consumed :: u64
  ps_frontier_cost_consumed :: u64
  ps_frontier_calls :: u64
  ps_per_thread_consumed :: "(string \<times> u64) list"
  ps_consecutive_failures :: u32
  ps_tool_invocations :: u64

definition tracker_new :: "datetime \<Rightarrow> cognitive_budget_config \<Rightarrow> tracker" where
  "tracker_new now config =
     \<lparr>bt_config = config, bt_state = budget_state_new now, bt_thrash_level = ThrashNone\<rparr>"

text \<open>
  The per-thread map is saved under the printed thread ids and parsed back on load; entries
  whose key does not parse are dropped. \<open>show_tid\<close> and \<open>parse_tid\<close> are the \<open>Display\<close> and
  \<open>FromStr\<close> of the uuid crate.
\<close>

definition restore_threads ::
  "(string \<Rightarrow> uuid option) \<Rightarrow> (string \<times> u64) list \<Rightarrow> (uuid \<times> u64) list" where
  "restore_threads parse_tid saved =
     fold (\<lambda>(s, tokens) m. case parse_tid s of
         Some tid \<Rightarrow> AList.update tid tokens m
       | None \<Rightarrow> m) saved []"

definition save_threads :: "(uuid \<Rightarrow> string) \<Rightarrow> (uuid \<times> u64) list \<Rightarrow> (string \<times> u64) list" where
  "save_threads show_tid m =
     fold (\<lambda>(tid, tokens) out. AList.update (show_tid tid) tokens out) m []"

text \<open>
  \<open>load_or_reset\<close>: \<open>load\<close> is the store's \<open>load\<close>; \<open>now\<close> is the value of \<open>Utc::now()\<close>, read for
  the comparison, and \<open>now'\<close> that of the later read when a fresh window is created.
\<close>

definition load_or_reset ::
  "chrono_ops \<Rightarrow> (string \<Rightarrow> uuid option) \<Rightarrow> datetime \<Rightarrow> datetime \<Rightarrow>
   persisted_budget_state option exo_result \<Rightarrow> tracker \<Rightarrow> exo_error option \<times> tracker" where
  "load_or_reset ch parse_tid now now' loaded t = (case loaded of
     Inl e \<Rightarrow> (Some e, t)
   | Inr None \<Rightarrow> (None, t)
   | Inr (Some p) \<Rightarrow>
       (let window_end = plus_seconds ch (ps_window_start p) (sint (cb_time_window_secs (bt_config t)))
        in if now < window_end
           then (None, t\<lparr>bt_state := (bt_state t)\<lparr>
                   window_start := ps_window_start p,
                   local_tokens_consumed := ps_local_tokens_consumed p,
                   frontier_tokens_consumed := ps_frontier_tokens_consumed p,
                   frontier_cost_consumed := ps_frontier_cost_consumed p,
                   frontier_calls := ps_frontier_calls p,
                   consecutive_failures := ps_consecutive_failures p,
                   per_thread_consumed := restore_threads parse_tid (ps_per_thread_consumed p)\<rparr>\<rparr>)
           else (None, t\<lparr>bt_state := (budget_state_new now')\<lparr>
                   consecutive_failures := ps_consecutive_failures p\<rparr>\<rparr>)))"

definition record_llm_call ::
  "llm_backend \<Rightarrow> u64 \<Rightarrow> u64 \<Rightarrow> f64 \<Rightarrow> tracker \<Rightarrow> tracker" where
  "record_llm_call backend tokens_in tokens_out cost_cents t =
     (let total = sat_add tokens_in tokens_out; s = bt_state t;
          s1 = (case backend of
              Local \<Rightarrow> s\<lparr>local_tokens_consumed := sat_add (local_tokens_consumed s) total\<rparr>
            | Frontier \<Rightarrow> s\<lparr>
                frontier_tokens_consumed := sat_add (frontier_tokens_consumed s) total,
                frontier_cost_consumed := sat_add (frontier_cost_consumed s)
                  (f64_as_u64 (f64_round (f64_mul cost_cents (Fin 100)))),
                frontier_calls := sat_add (frontier_calls s) 1\<rparr>)
      in t\<lparr>bt_state := s1\<lparr>tick_tokens_this_tick := sat_add (tick_tokens_this_tick s) total\<rparr>\<rparr>)"

definition record_thread_consumption :: "uuid \<Rightarrow> u64 \<Rightarrow> tracker \<Rightarrow> tracker" where
  "record_thread_consumption tid tokens t =
     t\<lparr>bt_state := (bt_state t)\<lparr>per_thread_consumed :=
        entry_update tid 0 (\<lambda>v. sat_add v tokens) (per_thread_consumed (bt_state t))\<rparr>\<rparr>"

definition remaining_local_tokens :: "tracker \<Rightarrow> u64" where
  "remaining_local_tokens t =
     sat_sub (local_token_budget (bt_config t)) (local_tokens_consumed (bt_state t))"

definition remaining_frontier_tokens :: "tracker \<Rightarrow> u64" where
  "remaining_frontier_tokens t =
     sat_sub (frontier_token_budget (bt_config t)) (frontier_tokens_consumed (bt_state t))"

definition remaining_frontier_cost :: "tracker \<Rightarrow> u64" where
  "remaining_frontier_cost t =
     sat_sub (frontier_cost_budget_cents (bt_config t)) (frontier_cost_consumed (bt_state t))"

definition check_cognitive_budget :: "tracker \<Rightarrow> cognitive_budget_check" where
  "check_cognitive_budget t =
     (if 0 < remaining_local_tokens t then Available Local
      else if 0 < remaining_frontier_tokens t \<and> 0 < remaining_frontier_cost t
        then Fallback Frontier
      else Exhausted)"

definition check_thread_budget :: "uuid \<Rightarrow> tracker \<Rightarrow> bool" where
  "check_thread_budget tid t \<longleftrightarrow>
     (case map_of (per_thread_consumed (bt_state t)) tid of None \<Rightarrow> 0 | Some v \<Rightarrow> v)
       < per_thread_token_cap (bt_config t)"

definition check_tick_cap :: "tracker \<Rightarrow> bool" where
  "check_tick_cap t \<longleftrightarrow> tick_tokens_this_tick (bt_state t) < per_tick_token_cap (bt_config t)"

definition reset_tick_counters :: "tracker \<Rightarrow> tracker" where
  "reset_tick_counters t = t\<lparr>bt_state := (bt_state t)\<lparr>tick_tokens_this_tick := 0\<rparr>\<rparr>"

definition persisted_of :: "(uuid \<Rightarrow> string) \<Rightarrow> tracker \<Rightarrow> persisted_budget_state" where
  "persisted_of show_tid t = (let s = bt_state t in \<lparr>
     ps_window_start = window_start s,
     ps_local_tokens_consumed = local_tokens_consumed s,
     ps_frontier_tokens_consumed = frontier_tokens_consumed s,
     ps_frontier_cost_consumed = frontier_cost_consumed s,
     ps_frontier_calls = frontier_calls s,
     ps_per_thread_consumed = save_threads show_tid (per_thread_consumed s),
     ps_consecutive_failures = consecutive_failures s,
     ps_tool_invocations = 0\<rparr>)"

definition persist ::
  "(persisted_budget_state \<Rightarrow> 'st \<Rightarrow> 'st exo_result) \<Rightarrow> (uuid \<Rightarrow> string) \<Rightarrow>
   tracker \<Rightarrow> 'st \<Rightarrow> 'st exo_result" where
  "persist save show_tid t st = save (persisted_of show_tid t) st"

text \<open>\<open>reset_window\<close> changes the state first and then persists it; the result is the store's.\<close>

definition reset_window_state :: "datetime \<Rightarrow> tracker \<Rightarrow> tracker" where
  "reset_window_state now t = t\<lparr>bt_state := (bt_state t)\<lparr>
     window_start := now,
     local_tokens_consumed := 0,
     frontier_tokens_consumed := 0,
     frontier_cost_consumed := 0,
     frontier_calls := 0,
     per_thread_consumed := [],
     tick_tokens_this_tick := 0\<rparr>\<rparr>"

definition reset_window ::
  "(persisted_budget_state \<Rightarrow> 'st \<Rightarrow> 'st exo_result) \<Rightarrow> (uuid \<Rightarrow> string) \<Rightarrow> datetime \<Rightarrow>
   tracker \<Rightarrow> 'st \<Rightarrow> tracker \<times> 'st exo_result" where
  "reset_window save show_tid now t st =
     (let t' = reset_window_state now t in (t', persist save show_tid t' st))"

definition record_failure :: "tracker \<Rightarrow> tracker" where
  "record_failure t = t\<lparr>bt_state := (bt_state t)\<lparr>
     consecutive_failures := sat_add (consecutive_failures (bt_state t)) 1\<rparr>\<rparr>"

definition clear_failures :: "tracker \<Rightarrow> tracker" where
  "clear_failures t = t\<lparr>bt_state := (bt_state t)\<lparr>consecutive_failures := 0\<rparr>\<rparr>"

definition set_thrash_level :: "thrash_level \<Rightarrow> tracker \<Rightarrow> tracker" where
  "set_thrash_level level t = t\<lparr>bt_thrash_level := level\<rparr>"

record budget_status =
  bs_local_tokens_remaining :: u64
  bs_frontier_tokens_remaining :: u64
  bs_frontier_cost_cents_remaining :: u64
  bs_time_secs_remaining :: u64
  bs_thrash_level :: thrash_level
  bs_tool_invocations_remaining :: u64

definition budget_status_unlimited :: budget_status where
  "budget_status_unlimited = \<lparr>
     bs_local_tokens_remaining = - 1,
     bs_frontier_tokens_remaining = - 1,
     bs_frontier_cost_cents_remaining = - 1,
     bs_time_secs_remaining = - 1,
     bs_thrash_level = ThrashNone,
     bs_tool_invocations_remaining = - 1\<rparr>"

definition is_exhausted :: "budget_status \<Rightarrow> bool" where
  "is_exhausted b \<longleftrightarrow>
     (bs_local_tokens_remaining b = 0 \<and> bs_frontier_tokens_remaining b = 0)
     \<or> bs_frontier_cost_cents_remaining b = 0
     \<or> bs_time_secs_remaining b = 0"

definition total_tokens_remaining :: "budget_status \<Rightarrow> u64" where
  "total_tokens_remaining b =
     sat_add (bs_local_tokens_remaining b) (bs_frontier_tokens_remaining b)"

definition budget_status :: "chrono_ops \<Rightarrow> datetime \<Rightarrow> u64 \<Rightarrow> tracker \<Rightarrow> budget_status" where
  "budget_status ch now tool_invocations_remaining t =
     (let window_end = plus_seconds ch (window_start (bt_state t))
            (sint (cb_time_window_secs (bt_config t)));
          time_remaining = word_of_int (max 0 (num_seconds_between ch window_end now))
      in \<lparr>
        bs_local_tokens_remaining = remaining_local_tokens t,
        bs_frontier_tokens_remaining = remaining_frontier_tokens t,
        bs_frontier_cost_cents_remaining = remaining_frontier_cost t,
        bs_time_secs_remaining = time_remaining,
        bs_thrash_level = bt_thrash_level t,
        bs_tool_invocations_remaining = tool_invocations_remaining\<rparr>)"

text \<open>The consumption reported to the ActionQueue engine: the tokens of this tick, if any.\<close>

datatype budget_dimension = Token | CostCents

definition build_consumption :: "tracker \<Rightarrow> (budget_dimension \<times> u64) list" where
  "build_consumption t =
     (let total = tick_tokens_this_tick (bt_state t) in if 0 < total then [(Token, total)] else [])"

record budget_dimension_state =
  bd_dimension :: string
  bd_limit :: u64
  bd_consumed :: u64
  bd_remaining :: u64
  bd_exhausted :: bool

record budget_report =
  br_dimensions :: "budget_dimension_state list"
  br_window_start :: datetime
  br_window_secs :: u64
  br_frontier_calls_this_window :: u64
  br_consecutive_failures :: u32

definition budget_state :: "tracker \<Rightarrow> budget_report" where
  "budget_state t = \<lparr>
     br_dimensions = [
       \<lparr>bd_dimension = ''local_tokens'',
        bd_limit = local_token_budget (bt_config t),
        bd_consumed = local_tokens_consumed (bt_state t),
        bd_remaining = remaining_local_tokens t,
        bd_exhausted = (remaining_local_tokens t = 0)\<rparr>,
       \<lparr>bd_dimension = ''frontier_tokens'',
        bd_limit = frontier_token_budget (bt_config t),
        bd_consumed = frontier_tokens_consumed (bt_state t),
        bd_remaining = remaining_frontier_tokens t,
        bd_exhausted = (remaining_frontier_tokens t = 0)\<rparr>,
       \<lparr>bd_dimension = ''frontier_cost_cents'',
        bd_limit = frontier_cost_budget_cents (bt_config t),
        bd_consumed = frontier_cost_consumed (bt_state t),
        bd_remaining = remaining_frontier_cost t,
        bd_exhausted = (remaining_frontier_cost t = 0)\<rparr>],
     br_window_start = window_start (bt_state t),
     br_window_secs = cb_time_window_secs (bt_config t),
     br_frontier_calls_this_window = frontier_calls (bt_state t),
     br_consecutive_failures = consecutive_failures (bt_state t)\<rparr>"

text \<open>The in-memory implementation of the store: one optional saved state.\<close>

type_synonym mem_budget_store = "persisted_budget_state option"

definition mem_budget_new :: mem_budget_store where
  "mem_budget_new = None"

definition mem_budget_save ::
  "persisted_budget_state \<Rightarrow> mem_budget_store \<Rightarrow> mem_budget_store exo_result" where
  "mem_budget_save s st = Inr (Some s)"

definition mem_budget_load :: "mem_budget_store \<Rightarrow> persisted_budget_state option exo_result" where
  "mem_budget_load st = Inr st"

section \<open>The rate gate as an interface\<close>

text \<open>
  What the Act step relies on: a gate answers whether an invocation may run, and recording one
  uses up exactly one unit of what is left. \<open>gated_run\<close> is the Act step's use of it: check
  before each action, record after each action that ran.
\<close>

fun gated_run :: "('g \<Rightarrow> bool) \<Rightarrow> ('g \<Rightarrow> 'g) \<Rightarrow> nat \<Rightarrow> 'g \<Rightarrow> nat \<times> 'g" where
  "gated_run check rec 0 g = (0, g)"
| "gated_run check rec (Suc n) g =
     (if check g then let (k, g') = gated_run check rec n (rec g) in (Suc k, g')
      else gated_run check rec n g)"

locale rate_gate =
  fixes check :: "'g \<Rightarrow> bool"
    and rec :: "'g \<Rightarrow> 'g"
    and left :: "'g \<Rightarrow> nat"
  assumes check_iff: "check g \<longleftrightarrow> 0 < left g"
    and left_rec: "check g \<Longrightarrow> left (rec g) = left g - 1"
begin

lemma gated_run_exact: "gated_run check rec n g = (min n (left g), (rec ^^ min n (left g)) g)"
proof (induction n arbitrary: g)
  case 0
  show ?case by simp
next
  case (Suc n)
  show ?case
  proof (cases "check g")
    case True
    then obtain m where m: "left g = Suc m" using check_iff gr0_implies_Suc by blast
    with True left_rec have "left (rec g) = m" by simp
    with True m Suc.IH [of "rec g"] show ?thesis
      by (simp add: funpow_swap1)
  next
    case False
    then have "left g = 0" using check_iff by simp
    with False Suc.IH [of g] show ?thesis by simp
  qed
qed

lemma gated_run_blocked: "left g \<le> n \<Longrightarrow> \<not> check (snd (gated_run check rec n g))"
proof (induction n arbitrary: g)
  case 0
  then show ?case by (simp add: check_iff)
next
  case (Suc n)
  show ?case
  proof (cases "check g")
    case True
    with Suc.prems left_rec have "left (rec g) \<le> n" by simp
    from Suc.IH [OF this] True show ?thesis by (simp add: case_prod_beta Let_def)
  next
    case False
    then have "left g \<le> n" using check_iff by simp
    from Suc.IH [OF this] False show ?thesis by simp
  qed
qed

end

lemma gate_check_iff: "gate_check g \<longleftrightarrow> 0 < unat (gate_remaining g)"
  by (simp add: gate_check_def gate_remaining_def unat_sat_sub word_less_nat_alt)

lemma gate_record_left:
  "gate_check g \<Longrightarrow> unat (gate_remaining (gate_record_invocation g)) = unat (gate_remaining g) - 1"
proof -
  assume "gate_check g"
  then have "unat (invocations_this_window g) < unat (max_invocations_per_window (tg_config g))"
    by (simp add: gate_check_def word_less_nat_alt)
  then show ?thesis
    using unat_bound [of "max_invocations_per_window (tg_config g)"]
    by (simp add: gate_remaining_def gate_record_invocation_def unat_sat_sub unat_sat_add)
qed

interpretation tool_gate: rate_gate gate_check gate_record_invocation "\<lambda>g. unat (gate_remaining g)"
  by unfold_locales (simp_all add: gate_check_iff gate_record_left)

section \<open>The budget store as an interface\<close>

text \<open>
  The contract of the trait \<open>BudgetStore\<close>: a successful save is what the next load returns.
  The tracker's restart behaviour is proved once from it.
\<close>

lemma save_threads_distinct:
  assumes "distinct (map fst m)" "inj show_tid"
  shows "save_threads show_tid m = map (\<lambda>(tid, v). (show_tid tid, v)) m"
proof -
  have "fold (\<lambda>(tid, tokens) out. AList.update (show_tid tid) tokens out) m acc =
        acc @ map (\<lambda>(tid, v). (show_tid tid, v)) m"
    if "fst ` set acc \<inter> show_tid ` fst ` set m = {}" for acc
    using assms(1) that
  proof (induction m arbitrary: acc)
    case Nil
    show ?case by simp
  next
    case (Cons x m)
    obtain tid v where x: "x = (tid, v)" by (cases x)
    have new: "show_tid tid \<notin> fst ` set acc" using Cons.prems x by auto
    then have upd: "AList.update (show_tid tid) v acc = acc @ [(show_tid tid, v)]"
      by (induction acc) auto
    have "show_tid tid \<notin> show_tid ` fst ` set m"
      using Cons.prems(1) x by (simp add: inj_image_mem_iff [OF assms(2)])
    then have "fst ` set (acc @ [(show_tid tid, v)]) \<inter> show_tid ` fst ` set m = {}"
      using Cons.prems(2) by auto
    with Cons.IH [of "acc @ [(show_tid tid, v)]"] Cons.prems upd x show ?case by simp
  qed
  from this [of "[]"] show ?thesis by (simp add: save_threads_def)
qed

lemma restore_threads_saved:
  assumes "distinct (map fst m)" "\<And>tid. parse_tid (show_tid tid) = Some tid"
  shows "restore_threads parse_tid (map (\<lambda>(tid, v). (show_tid tid, v)) m) = m"
proof -
  have "fold (\<lambda>(s, tokens) m. case parse_tid s of Some tid \<Rightarrow> AList.update tid tokens m | None \<Rightarrow> m)
          (map (\<lambda>(tid, v). (show_tid tid, v)) m) acc = acc @ m"
    if "fst ` set acc \<inter> fst ` set m = {}" for acc
    using assms(1) that
  proof (induction m arbitrary: acc)
    case Nil
    show ?case by simp
  next
    case (Cons x m)
    obtain tid v where x: "x = (tid, v)" by (cases x)
    have "tid \<notin> fst ` set acc" using Cons.prems x by auto
    then have "AList.update tid v acc = acc @ [(tid, v)]" by (induction acc) auto
    with Cons.IH [of "acc @ [(tid, v)]"] Cons.prems x assms(2) show ?case by auto
  qed
  from this [of "[]"] show ?thesis by (simp add: restore_threads_def)
qed

lemma persist_restore_threads:
  assumes "distinct (map fst m)" "\<And>tid. parse_tid (show_tid tid) = Some tid"
  shows "restore_threads parse_tid (save_threads show_tid m) = m"
proof -
  have "inj show_tid" by (rule injI) (metis assms(2) option.inject)
  with assms show ?thesis by (simp add: save_threads_distinct restore_threads_saved)
qed

locale budget_store =
  fixes save :: "persisted_budget_state \<Rightarrow> 'st \<Rightarrow> 'st exo_result"
    and load :: "'st \<Rightarrow> persisted_budget_state option exo_result"
  assumes load_save: "save p st = Inr st' \<Longrightarrow> load st' = Inr (Some p)"
begin

text \<open>
  A restart inside the window: the tracker built anew from the same configuration and loaded
  from the store continues with every counter of the window.
\<close>

lemma restart_in_window:
  assumes saved: "persist save show_tid t st = Inr st'"
    and ids: "\<And>tid. parse_tid (show_tid tid) = Some tid"
    and keys: "distinct (map fst (per_thread_consumed (bt_state t)))"
    and active: "now < plus_seconds ch (window_start (bt_state t))
                   (sint (cb_time_window_secs (bt_config t)))"
  shows "load_or_reset ch parse_tid now now' (load st') (tracker_new boot (bt_config t)) =
    (None, (tracker_new boot (bt_config t))\<lparr>bt_state := (bt_state t)\<lparr>tick_tokens_this_tick := 0\<rparr>\<rparr>)"
proof -
  have "load st' = Inr (Some (persisted_of show_tid t))"
    using saved load_save by (simp add: persist_def)
  with active show ?thesis
    by (simp add: load_or_reset_def tracker_new_def persisted_of_def budget_state_new_def Let_def
        persist_restore_threads [OF keys ids])
qed

lemma restart_after_window:
  assumes saved: "persist save show_tid t st = Inr st'"
    and over: "plus_seconds ch (window_start (bt_state t))
                   (sint (cb_time_window_secs (bt_config t))) \<le> now"
  shows "load_or_reset ch parse_tid now now' (load st') (tracker_new boot (bt_config t)) =
    (None, (tracker_new now' (bt_config t))\<lparr>bt_state := (budget_state_new now')\<lparr>
        consecutive_failures := consecutive_failures (bt_state t)\<rparr>\<rparr>)"
proof -
  have "load st' = Inr (Some (persisted_of show_tid t))"
    using saved load_save by (simp add: persist_def)
  with over show ?thesis
    by (simp add: load_or_reset_def tracker_new_def persisted_of_def budget_state_new_def Let_def)
qed

lemma reset_window_then_load:
  assumes "reset_window save show_tid now t st = (t', Inr st')"
  shows "load st' = Inr (Some (persisted_of show_tid t'))"
  using assms load_save by (auto simp: reset_window_def persist_def Let_def)

end

interpretation mem_budget: budget_store mem_budget_save mem_budget_load
  by unfold_locales (auto simp: mem_budget_save_def mem_budget_load_def)

section \<open>Accounting\<close>

type_synonym llm_call = "llm_backend \<times> u64 \<times> u64 \<times> f64"

definition record_llm_calls :: "llm_call list \<Rightarrow> tracker \<Rightarrow> tracker" where
  "record_llm_calls cs t = fold (\<lambda>(b, i, out, cost). record_llm_call b i out cost) cs t"

definition call_tokens :: "llm_backend \<Rightarrow> llm_call list \<Rightarrow> nat" where
  "call_tokens b cs = (\<Sum>(b', i, out, cost)\<leftarrow>cs. if b' = b then unat i + unat out else 0)"

lemma record_llm_calls_simps [simp]:
  "record_llm_calls [] t = t"
  "record_llm_calls ((b, i, out, cost) # cs) t = record_llm_calls cs (record_llm_call b i out cost t)"
  by (simp_all add: record_llm_calls_def)

lemma call_tokens_simps [simp]:
  "call_tokens b [] = 0"
  "call_tokens b ((b', i, out, cost) # cs) =
     (if b' = b then unat i + unat out else 0) + call_tokens b cs"
  by (simp_all add: call_tokens_def)

lemmas record_llm_call_defs = record_llm_call_def Let_def unat_sat_add

lemma record_llm_call_config [simp]: "bt_config (record_llm_call b i out cost t) = bt_config t"
  by (simp add: record_llm_call_def Let_def)

lemma record_llm_calls_config [simp]: "bt_config (record_llm_calls cs t) = bt_config t"
  by (induction cs arbitrary: t) (auto simp: split_paired_all)

lemma record_llm_call_local:
  "unat (local_tokens_consumed (bt_state (record_llm_call b i out cost t))) =
     min (unat (local_tokens_consumed (bt_state t)) + (if b = Local then unat i + unat out else 0))
         (2 ^ 64 - 1)"
  using unat_bound [of "local_tokens_consumed (bt_state t)"]
  by (cases b) (simp_all add: record_llm_call_defs)

lemma record_llm_call_frontier:
  "unat (frontier_tokens_consumed (bt_state (record_llm_call b i out cost t))) =
     min (unat (frontier_tokens_consumed (bt_state t)) + (if b = Frontier then unat i + unat out else 0))
         (2 ^ 64 - 1)"
  using unat_bound [of "frontier_tokens_consumed (bt_state t)"]
  by (cases b) (simp_all add: record_llm_call_defs)

lemma record_llm_call_tick:
  "unat (tick_tokens_this_tick (bt_state (record_llm_call b i out cost t))) =
     min (unat (tick_tokens_this_tick (bt_state t)) + (unat i + unat out)) (2 ^ 64 - 1)"
  by (cases b) (simp_all add: record_llm_call_defs)

lemma record_llm_call_cost_mono:
  "frontier_cost_consumed (bt_state t) \<le> frontier_cost_consumed (bt_state (record_llm_call b i out cost t))"
  by (cases b) (simp_all add: record_llm_call_def Let_def sat_add_mono)

text \<open>
  C1. Token accounting is exact up to saturation: after any sequence of recorded calls, whatever
  their interleaving over the two backends, the local counter, the frontier counter and the
  per-tick counter hold the sums of the tokens of the calls they are charged for, capped at
  the largest \<open>u64\<close>, and never wrap around.
\<close>

theorem token_accounting_exact:
  "unat (local_tokens_consumed (bt_state (record_llm_calls cs t))) =
     min (unat (local_tokens_consumed (bt_state t)) + call_tokens Local cs) (2 ^ 64 - 1)
   \<and> unat (frontier_tokens_consumed (bt_state (record_llm_calls cs t))) =
     min (unat (frontier_tokens_consumed (bt_state t)) + call_tokens Frontier cs) (2 ^ 64 - 1)
   \<and> unat (tick_tokens_this_tick (bt_state (record_llm_calls cs t))) =
     min (unat (tick_tokens_this_tick (bt_state t)) + call_tokens Local cs + call_tokens Frontier cs)
         (2 ^ 64 - 1)"
proof (induction cs arbitrary: t)
  case Nil
  show ?case
    using unat_bound [of "local_tokens_consumed (bt_state t)"]
      unat_bound [of "frontier_tokens_consumed (bt_state t)"]
      unat_bound [of "tick_tokens_this_tick (bt_state t)"]
    by simp
next
  case (Cons c cs)
  obtain b i out cost where c: "c = (b, i, out, cost)" by (cases c)
  let ?t = "record_llm_call b i out cost t"
  note step = record_llm_call_local [of b i out cost t] record_llm_call_frontier [of b i out cost t]
    record_llm_call_tick [of b i out cost t]
  show ?case
    using Cons.IH [of ?t] step by (cases b) (simp_all add: c min_def)
qed

lemma record_llm_calls_mono:
  "local_tokens_consumed (bt_state t) \<le> local_tokens_consumed (bt_state (record_llm_calls cs t))
   \<and> frontier_tokens_consumed (bt_state t) \<le> frontier_tokens_consumed (bt_state (record_llm_calls cs t))
   \<and> frontier_cost_consumed (bt_state t) \<le> frontier_cost_consumed (bt_state (record_llm_calls cs t))"
proof (induction cs arbitrary: t)
  case Nil
  show ?case by simp
next
  case (Cons c cs)
  obtain b i out cost where c: "c = (b, i, out, cost)" by (cases c)
  have "local_tokens_consumed (bt_state t) \<le> local_tokens_consumed (bt_state (record_llm_call b i out cost t))"
    and "frontier_tokens_consumed (bt_state t) \<le> frontier_tokens_consumed (bt_state (record_llm_call b i out cost t))"
    by (cases b; simp add: record_llm_call_def Let_def sat_add_mono)+
  with record_llm_call_cost_mono [of t b i out cost] Cons.IH [of "record_llm_call b i out cost t"]
  show ?case unfolding c record_llm_calls_simps by (meson order_trans)
qed

lemma check_cognitive_budget_exhausted_iff:
  "check_cognitive_budget t = Exhausted \<longleftrightarrow>
     local_token_budget (bt_config t) \<le> local_tokens_consumed (bt_state t) \<and>
     (frontier_token_budget (bt_config t) \<le> frontier_tokens_consumed (bt_state t) \<or>
      frontier_cost_budget_cents (bt_config t) \<le> frontier_cost_consumed (bt_state t))"
  by (auto simp: check_cognitive_budget_def remaining_local_tokens_def remaining_frontier_tokens_def
      remaining_frontier_cost_def sat_sub_gt_0_iff not_less)

text \<open>
  C2. An exhausted window stays exhausted: once \<open>check_cognitive_budget\<close> answers \<open>Exhausted\<close>, no
  sequence of recorded calls makes it answer anything else; only a window reset can.
\<close>

theorem exhausted_is_stable:
  assumes "check_cognitive_budget t = Exhausted"
  shows "check_cognitive_budget (record_llm_calls cs t) = Exhausted"
  using assms record_llm_calls_mono [of t cs]
  by (auto simp: check_cognitive_budget_exhausted_iff intro: order_trans)

text \<open>
  A window reset gives the configured budget back: afterwards the check is
  \<open>Available Local\<close> when there is a local budget, falls back to the frontier model when only a
  frontier token and cost budget exist, and is \<open>Exhausted\<close> otherwise; every thread is again
  below its cap when the cap is positive; and the failure count survives.
\<close>

lemma reset_window_replenishes:
  "check_cognitive_budget (fst (reset_window save show_tid now t st)) =
     (if local_token_budget (bt_config t) \<noteq> 0 then Available Local
      else if frontier_token_budget (bt_config t) \<noteq> 0 \<and> frontier_cost_budget_cents (bt_config t) \<noteq> 0
      then Fallback Frontier else Exhausted)
   \<and> check_thread_budget tid (fst (reset_window save show_tid now t st)) =
       (per_thread_token_cap (bt_config t) \<noteq> 0)
   \<and> consecutive_failures (bt_state (fst (reset_window save show_tid now t st))) =
       consecutive_failures (bt_state t)"
  by (simp add: reset_window_def reset_window_state_def check_cognitive_budget_def
      check_thread_budget_def remaining_local_tokens_def remaining_frontier_tokens_def
      remaining_frontier_cost_def Let_def word_neq_0_conv)


text \<open>
  Restarting inside a budget window loses nothing: a tracker that persisted its state and is
  rebuilt from the same configuration continues with the same window, the same counters, the
  same per-thread consumption and the same failure count, and with an empty tick.
\<close>

lemma restart_keeps_window:
  assumes "persist mem_budget_save show_tid t st = Inr st'"
    and "\<And>tid. parse_tid (show_tid tid) = Some tid"
    and "distinct (map fst (per_thread_consumed (bt_state t)))"
    and "now < plus_seconds ch (window_start (bt_state t)) (sint (cb_time_window_secs (bt_config t)))"
  shows "load_or_reset ch parse_tid now now' (mem_budget_load st') (tracker_new boot (bt_config t)) =
    (None, (tracker_new boot (bt_config t))\<lparr>bt_state := (bt_state t)\<lparr>tick_tokens_this_tick := 0\<rparr>\<rparr>)"
  using assms by (rule mem_budget.restart_in_window)

text \<open>
  Restarting after the window has expired starts a fresh window with empty counters and keeps
  only the consecutive failure count.
\<close>

lemma restart_after_expiry:
  assumes "persist mem_budget_save show_tid t st = Inr st'"
    and "plus_seconds ch (window_start (bt_state t)) (sint (cb_time_window_secs (bt_config t))) \<le> now"
  shows "load_or_reset ch parse_tid now now' (mem_budget_load st') (tracker_new boot (bt_config t)) =
    (None, (tracker_new now' (bt_config t))\<lparr>bt_state := (budget_state_new now')\<lparr>
        consecutive_failures := consecutive_failures (bt_state t)\<rparr>\<rparr>)"
  using assms by (rule mem_budget.restart_after_window)

text \<open>
  The reported status never hides an exhausted budget: when the tracker's own check is
  \<open>Exhausted\<close>, \<open>is_exhausted\<close> of the status in the snapshot is true.
\<close>

lemma exhausted_is_reported:
  assumes "check_cognitive_budget t = Exhausted"
  shows "is_exhausted (budget_status ch now tools t)"
  using assms
  by (auto simp: check_cognitive_budget_def is_exhausted_def budget_status_def Let_def
      word_gt_0 split: if_splits)

section \<open>Witnesses\<close>

definition sample_tracker :: tracker where
  "sample_tracker = record_thread_consumption 7 400 (record_llm_call Local 1000000 5 (Fin 0)
     (record_llm_call Frontier 100000 1 (Fin (3 / 2)) (tracker_new 10 cognitive_budget_default)))"

definition unary_tid :: "uuid \<Rightarrow> string" where
  "unary_tid w = replicate (unat w) CHR ''x''"

definition parse_unary_tid :: "string \<Rightarrow> uuid option" where
  "parse_unary_tid s = Some (word_of_nat (length s))"

lemma parse_unary_tid: "parse_unary_tid (unary_tid w) = Some w"
  by (simp add: parse_unary_tid_def unary_tid_def)

lemma sample_tracker_keys: "distinct (map fst (per_thread_consumed (bt_state sample_tracker)))"
  by (simp add: sample_tracker_def record_thread_consumption_def distinct_entry_update
      record_llm_call_def tracker_new_def budget_state_new_def Let_def)

lemma sample_tracker_window:
  "window_start (bt_state sample_tracker) = 10"
  "bt_config sample_tracker = cognitive_budget_default"
  by (simp_all add: sample_tracker_def record_thread_consumption_def record_llm_call_def
      tracker_new_def budget_state_new_def Let_def)

lemma sample_tracker_exhausted: "check_cognitive_budget sample_tracker = Exhausted"
  by (simp add: check_cognitive_budget_exhausted_iff sample_tracker_def sat_add_def
      record_thread_consumption_def record_llm_call_def tracker_new_def budget_state_new_def
      cognitive_budget_default_def Let_def)

lemma sint_3600: "sint (3600 :: u64) = 3600"
  by code_simp

theorem exhausted_is_stable_witness:
  "check_cognitive_budget sample_tracker = Exhausted
   \<and> check_cognitive_budget (record_llm_calls [(Local, 1, 2, Fin 0)] sample_tracker) = Exhausted"
  using exhausted_is_stable [OF sample_tracker_exhausted] sample_tracker_exhausted by blast

end
