(* ===== verification/Plans.thy ===== *)
theory Plans
  imports Exo_Core
begin

text \<open>
  Structured plans (\<open>exoskeleton-core/src/plan.rs\<close>): the task list with its incremental
  operations, the migration of legacy plans and the lenient task ids. A plan with distinct task
  ids refines a finite map from task ids to statuses.
\<close>

section \<open>Types\<close>

datatype plan_task_status = TPending | TInProgress | TCompleted | TFailed | TBlocked | TSkipped

record plan_task =
  pt_id :: uuid
  pt_description :: string
  pt_status :: plan_task_status
  pt_depends_on :: "uuid list"
  pt_tool_hint :: "string option"
  pt_metadata :: "(string \<times> string) list"

record plan =
  pl_objective :: string
  pl_tasks :: "plan_task list"
  pl_updated_at :: datetime

datatype plan_op =
    AddTask plan_task
  | UpdateStatus uuid plan_task_status
  | RemoveTask uuid
  | UpdateObjective string

datatype plan_update = Replace plan | Patch "plan_op list"

section \<open>Operations\<close>

fun plan_apply_op :: "plan_op \<Rightarrow> plan \<Rightarrow> plan" where
  "plan_apply_op (AddTask task) p = p\<lparr>pl_tasks := pl_tasks p @ [task]\<rparr>"
| "plan_apply_op (UpdateStatus task_id new_status) p =
     p\<lparr>pl_tasks := update_first (\<lambda>t. pt_id t = task_id) (\<lambda>t. t\<lparr>pt_status := new_status\<rparr>) (pl_tasks p)\<rparr>"
| "plan_apply_op (RemoveTask task_id) p = p\<lparr>pl_tasks := filter (\<lambda>t. pt_id t \<noteq> task_id) (pl_tasks p)\<rparr>"
| "plan_apply_op (UpdateObjective objective) p = p\<lparr>pl_objective := objective\<rparr>"

definition plan_apply_ops :: "plan_op list \<Rightarrow> plan \<Rightarrow> plan" where
  "plan_apply_ops ops p = fold plan_apply_op ops p"

fun plan_apply_update :: "datetime \<Rightarrow> plan_update \<Rightarrow> plan \<Rightarrow> plan" where
  "plan_apply_update now (Replace plan) p = plan"
| "plan_apply_update now (Patch operations) p = (plan_apply_ops operations p)\<lparr>pl_updated_at := now\<rparr>"

definition plan_from_legacy_string :: "datetime \<Rightarrow> string \<Rightarrow> plan" where
  "plan_from_legacy_string now txt = \<lparr>pl_objective = txt, pl_tasks = [], pl_updated_at = now\<rparr>"

definition task_counts :: "plan \<Rightarrow> (plan_task_status \<times> nat) list" where
  "task_counts p = fold (\<lambda>t counts. entry_update (pt_status t) 0 Suc counts) (pl_tasks p) []"

text \<open>
  \<open>deserialize_plan_compat\<close> on the JSON value of the field (\<open>None\<close> when it is absent). The
  deserialiser of the struct is the serde crate's and is a parameter, as is the text of its errors.
\<close>

definition deserialize_plan_compat ::
  "(json \<Rightarrow> string + plan) \<Rightarrow> (json \<Rightarrow> string) \<Rightarrow> datetime \<Rightarrow> json option \<Rightarrow> string + plan option" where
  "deserialize_plan_compat from_value show_json now value = (case value of
     None \<Rightarrow> Inr None
   | Some JNull \<Rightarrow> Inr None
   | Some (JStr s) \<Rightarrow> if s = [] then Inr None else Inr (Some (plan_from_legacy_string now s))
   | Some (JObj kvs) \<Rightarrow> (case from_value (JObj kvs) of Inl e \<Rightarrow> Inl e | Inr p \<Rightarrow> Inr (Some p))
   | Some other \<Rightarrow> Inl (''expected string, object, or null for plan, got: '' @ show_json other))"

text \<open>Lenient task ids: a UUID is taken as it is, any other string is hashed in a fixed namespace.\<close>

definition plan_task_id_from_str :: "(string \<Rightarrow> uuid option) \<Rightarrow> (uuid \<Rightarrow> string \<Rightarrow> uuid) \<Rightarrow> string \<Rightarrow> uuid" where
  "plan_task_id_from_str parse_uuid new_v5 s = (case parse_uuid s of
     Some i \<Rightarrow> i
   | None \<Rightarrow> new_v5 0x5a1b3c7e9f4d4a8ba26e7c0d1f3a5b9c s)"

definition plan_task_ids_lenient ::
  "(string \<Rightarrow> uuid option) \<Rightarrow> (uuid \<Rightarrow> string \<Rightarrow> uuid) \<Rightarrow> string list \<Rightarrow> uuid list" where
  "plan_task_ids_lenient parse_uuid new_v5 ss = map (plan_task_id_from_str parse_uuid new_v5) ss"

section \<open>Plans as maps\<close>

definition plan_ids :: "plan \<Rightarrow> uuid set" where
  "plan_ids p = pt_id ` set (pl_tasks p)"

definition plan_wf :: "plan \<Rightarrow> bool" where
  "plan_wf p \<longleftrightarrow> distinct (map pt_id (pl_tasks p))"

definition plan_statuses :: "plan \<Rightarrow> uuid \<Rightarrow> plan_task_status option" where
  "plan_statuses p = map_of (map (\<lambda>t. (pt_id t, pt_status t)) (pl_tasks p))"

text \<open>The abstract operations, on maps from ids to statuses.\<close>

fun map_op :: "plan_op \<Rightarrow> (uuid \<Rightarrow> plan_task_status option) \<Rightarrow> uuid \<Rightarrow> plan_task_status option" where
  "map_op (AddTask t) m = m(pt_id t \<mapsto> pt_status t)"
| "map_op (UpdateStatus i s) m = (if m i = None then m else m(i \<mapsto> s))"
| "map_op (RemoveTask i) m = m(i := None)"
| "map_op (UpdateObjective _) m = m"

text \<open>A patch whose added ids are new when they are added.\<close>

fun adds_fresh :: "plan_op list \<Rightarrow> plan \<Rightarrow> bool" where
  "adds_fresh [] p = True"
| "adds_fresh (op # ops) p = ((case op of AddTask t \<Rightarrow> pt_id t \<notin> plan_ids p | _ \<Rightarrow> True)
     \<and> adds_fresh ops (plan_apply_op op p))"

lemma map_of_None_ids: "map_of (map (\<lambda>t. (pt_id t, pt_status t)) ts) i = None \<longleftrightarrow> i \<notin> pt_id ` set ts"
  by (induction ts) auto

lemma plan_op_wf:
  assumes "plan_wf p" "case op of AddTask t \<Rightarrow> pt_id t \<notin> plan_ids p | _ \<Rightarrow> True"
  shows "plan_wf (plan_apply_op op p)"
  using assms
  by (cases op) (auto simp: plan_wf_def plan_ids_def map_update_first_same distinct_map_filter)

lemma plan_op_refines:
  assumes "case op of AddTask t \<Rightarrow> pt_id t \<notin> plan_ids p | _ \<Rightarrow> True"
  shows "plan_statuses (plan_apply_op op p) = map_op op (plan_statuses p)"
proof (cases op)
  case (AddTask t)
  with assms show ?thesis by (simp add: plan_statuses_def plan_ids_def map_of_append_key)
next
  case (UpdateStatus i s)
  have "List.find (\<lambda>t. pt_id t = i) (pl_tasks p) = None \<longleftrightarrow> plan_statuses p i = None"
    by (simp add: find_key_iff plan_statuses_def map_of_None_ids)
  with UpdateStatus show ?thesis
    by (auto simp: plan_statuses_def map_of_update_first split: option.split)
next
  case (RemoveTask i)
  then show ?thesis by (simp add: plan_statuses_def map_of_filter_key)
qed (simp add: plan_statuses_def)

lemma plan_ops_refine:
  "plan_wf p \<Longrightarrow> adds_fresh ops p \<Longrightarrow>
    plan_wf (fold plan_apply_op ops p) \<and> plan_statuses (fold plan_apply_op ops p) = fold map_op ops (plan_statuses p)"
proof (induction ops arbitrary: p)
  case (Cons op ops)
  then have op: "case op of AddTask t \<Rightarrow> pt_id t \<notin> plan_ids p | _ \<Rightarrow> True" by simp
  from Cons.IH [OF plan_op_wf [OF Cons.prems(1) op]] Cons.prems(2) plan_op_refines [OF op] show ?case by simp
qed simp

text \<open>
  C12. A patch refines the map from task ids to statuses: when the ids of a plan are distinct and
  every added task has a new id, the ids stay distinct and the statuses afterwards are those of
  the corresponding map updates in order; an update of an unknown id changes nothing.
\<close>

theorem patch_refines_map:
  assumes "plan_wf p" "adds_fresh ops p"
  shows "plan_wf (plan_apply_update now (Patch ops) p)
    \<and> plan_statuses (plan_apply_update now (Patch ops) p) = fold map_op ops (plan_statuses p)
    \<and> pl_updated_at (plan_apply_update now (Patch ops) p) = now"
  using plan_ops_refine [OF assms] by (simp add: plan_apply_ops_def plan_wf_def plan_statuses_def)

section \<open>Counting tasks\<close>

definition status_count :: "plan_task_status \<Rightarrow> plan_task list \<Rightarrow> nat" where
  "status_count s ts = length (filter (\<lambda>t. pt_status t = s) ts)"

lemma fold_counts:
  "map_of (fold (\<lambda>t counts. entry_update (pt_status t) 0 Suc counts) ts m) s =
     (if status_count s ts = 0 then map_of m s
      else Some (status_count s ts + (case map_of m s of None \<Rightarrow> 0 | Some n \<Rightarrow> n)))"
proof (induction ts arbitrary: m)
  case Nil
  then show ?case by (simp add: status_count_def)
next
  case (Cons t ts)
  show ?case
    using Cons.IH [of "entry_update (pt_status t) 0 Suc m"]
    by (auto simp: map_of_entry_update status_count_def split: option.split)
qed

text \<open>The summary of a plan counts its tasks: each status with a task appears with its number.\<close>

lemma task_counts_exact:
  "map_of (task_counts p) s = (if status_count s (pl_tasks p) = 0 then None else Some (status_count s (pl_tasks p)))"
  by (simp add: task_counts_def fold_counts)

section \<open>The properties at concrete inputs\<close>

definition sample_task :: "uuid \<Rightarrow> plan_task_status \<Rightarrow> plan_task" where
  "sample_task i s = \<lparr>pt_id = i, pt_description = ''t'', pt_status = s, pt_depends_on = [],
     pt_tool_hint = None, pt_metadata = []\<rparr>"

definition sample_plan :: plan where
  "sample_plan = \<lparr>pl_objective = ''o'', pl_tasks = [sample_task 1 TPending, sample_task 2 TPending],
     pl_updated_at = 0\<rparr>"

theorem patch_refines_map_witness:
  "plan_statuses (plan_apply_update 9 (Patch [AddTask (sample_task 3 TPending), UpdateStatus 1 TCompleted,
     RemoveTask 2, UpdateStatus 7 TFailed]) sample_plan) = [3 \<mapsto> TPending, 1 \<mapsto> TCompleted]"
proof -
  let ?ops = "[AddTask (sample_task 3 TPending), UpdateStatus 1 TCompleted, RemoveTask 2, UpdateStatus 7 TFailed]"
  have "plan_wf sample_plan" "adds_fresh ?ops sample_plan"
    by (simp_all add: plan_wf_def sample_plan_def sample_task_def plan_ids_def)
  from patch_refines_map [OF this, of 9]
  show ?thesis by (auto simp: plan_statuses_def sample_plan_def sample_task_def fun_eq_iff)
qed

end
