(* ===== verification/Working_Memory.thy ===== *)
theory Working_Memory
  imports Exo_Core
begin

text \<open>
  The working-memory scratchpad (\<open>exoskeleton-core/src/working_memory.rs\<close>): keyed entries with a
  time to live, written by the Decide and Reflect steps and trimmed by the Amend step. With
  distinct keys it refines a finite map; expiry removes exactly the expired entries; and because
  nothing ever lowers a relevance score, the cap drops the most recently added keys.
\<close>

section \<open>Types and operations\<close>

record wm_entry =
  wme_key :: string
  wme_value :: string
  wme_written_at_tick :: u64
  wme_ttl_ticks :: "u64 option"
  wme_relevance :: f64

type_synonym working_memory = "wm_entry list"

datatype wm_op = WmSet string string "u64 option" | WmRemove string | WmClear

definition wm_new :: working_memory where
  "wm_new = []"

definition wm_from_legacy_string :: "string \<Rightarrow> working_memory" where
  "wm_from_legacy_string txt = (if txt = [] then wm_new
     else [\<lparr>wme_key = ''legacy_context'', wme_value = txt, wme_written_at_tick = 0,
            wme_ttl_ticks = None, wme_relevance = Fin 1\<rparr>])"

fun wm_apply_op :: "u64 \<Rightarrow> wm_op \<Rightarrow> working_memory \<Rightarrow> working_memory" where
  "wm_apply_op tick (WmSet key val ttl) es =
     (if list_ex (\<lambda>e. wme_key e = key) es
      then update_first (\<lambda>e. wme_key e = key)
             (\<lambda>e. e\<lparr>wme_value := val, wme_written_at_tick := tick, wme_ttl_ticks := ttl, wme_relevance := Fin 1\<rparr>) es
      else es @ [\<lparr>wme_key = key, wme_value = val, wme_written_at_tick = tick, wme_ttl_ticks = ttl,
                  wme_relevance = Fin 1\<rparr>])"
| "wm_apply_op tick (WmRemove key) es = filter (\<lambda>e. wme_key e \<noteq> key) es"
| "wm_apply_op tick WmClear es = []"

definition wm_apply_ops :: "u64 \<Rightarrow> wm_op list \<Rightarrow> working_memory \<Rightarrow> working_memory" where
  "wm_apply_ops tick ops es = fold (wm_apply_op tick) ops es"

definition wm_live :: "u64 \<Rightarrow> wm_entry \<Rightarrow> bool" where
  "wm_live tick e = (case wme_ttl_ticks e of
     Some ttl \<Rightarrow> sat_sub tick (wme_written_at_tick e) < ttl
   | None \<Rightarrow> True)"

definition wm_evict_expired :: "u64 \<Rightarrow> working_memory \<Rightarrow> working_memory" where
  "wm_evict_expired tick es = filter (wm_live tick) es"

text \<open>
  The stable sort by descending relevance. A score read from JSON is never NaN and the code writes
  only 1, so \<open>partial_cmp\<close> always answers.
\<close>

definition wm_enforce_cap :: "nat \<Rightarrow> working_memory \<Rightarrow> working_memory" where
  "wm_enforce_cap max_entries es =
     (if length es \<le> max_entries then es
      else take max_entries (sort_key (\<lambda>e. f64_neg (wme_relevance e)) es))"

definition deserialize_working_memory_compat ::
  "(json \<Rightarrow> string + working_memory) \<Rightarrow> (json \<Rightarrow> string) \<Rightarrow> json \<Rightarrow> string + working_memory" where
  "deserialize_working_memory_compat from_value show_json v = (case v of
     JNull \<Rightarrow> Inr wm_new
   | JStr s \<Rightarrow> Inr (wm_from_legacy_string s)
   | JObj kvs \<Rightarrow> from_value (JObj kvs)
   | other \<Rightarrow> Inl (''expected string or object for working_memory, got: '' @ show_json other))"

section \<open>Invariants\<close>

definition wm_wf :: "working_memory \<Rightarrow> bool" where
  "wm_wf es \<longleftrightarrow> distinct (map wme_key es)"

definition full_relevance :: "working_memory \<Rightarrow> bool" where
  "full_relevance es \<longleftrightarrow> (\<forall>e \<in> set es. wme_relevance e = Fin 1)"

text \<open>The steps that the Amend phase takes on the scratchpad.\<close>

inductive wm_step :: "working_memory \<Rightarrow> working_memory \<Rightarrow> bool" where
  wm_write: "wm_step es (wm_apply_op tick op es)"
| wm_evict: "wm_step es (wm_evict_expired tick es)"
| wm_cap: "wm_step es (wm_enforce_cap n es)"

lemma distinct_sort_key_map: "distinct (map f (sort_key g xs)) \<longleftrightarrow> distinct (map f xs)"
  by (metis distinct_map inj_on_def distinct_sort set_sort)

lemma wm_apply_op_wf: "wm_wf es \<Longrightarrow> wm_wf (wm_apply_op tick op es)"
  by (cases op) (auto simp: wm_wf_def map_update_first_same distinct_map_filter list_ex_iff)

lemma wm_step_wf: "wm_step es es' \<Longrightarrow> wm_wf es \<Longrightarrow> wm_wf es'"
proof (induction rule: wm_step.induct)
  case (wm_write es tick op)
  then show ?case by (rule wm_apply_op_wf)
next
  case (wm_evict es tick)
  then show ?case by (simp add: wm_wf_def wm_evict_expired_def distinct_map_filter)
next
  case (wm_cap es n)
  then show ?case
    by (simp add: wm_wf_def wm_enforce_cap_def take_map [symmetric] distinct_sort_key_map)
qed

lemma wm_apply_op_relevance: "full_relevance es \<Longrightarrow> full_relevance (wm_apply_op tick op es)"
proof (cases op)
  case (WmSet key val ttl)
  assume "full_relevance es"
  with WmSet show ?thesis
    using set_update_first [of "\<lambda>e. wme_key e = key" "\<lambda>e. e\<lparr>wme_value := val, wme_written_at_tick := tick,
      wme_ttl_ticks := ttl, wme_relevance := Fin 1\<rparr>" es]
    by (auto simp: full_relevance_def)
qed (auto simp: full_relevance_def)

lemma wm_step_relevance: "wm_step es es' \<Longrightarrow> full_relevance es \<Longrightarrow> full_relevance es'"
proof (induction rule: wm_step.induct)
  case (wm_write es tick op)
  then show ?case by (rule wm_apply_op_relevance)
next
  case (wm_evict es tick)
  then show ?case by (simp add: full_relevance_def wm_evict_expired_def)
next
  case (wm_cap es n)
  then show ?case by (auto simp: full_relevance_def wm_enforce_cap_def dest: in_set_takeD)
qed

lemma wm_reach_invariant:
  assumes "wm_step\<^sup>*\<^sup>* es es'" "wm_wf es" "full_relevance es"
  shows "wm_wf es' \<and> full_relevance es'"
  using assms by (induction rule: rtranclp_induct) (auto intro: wm_step_wf wm_step_relevance)

lemma cap_full_relevance:
  assumes "full_relevance es"
  shows "wm_enforce_cap n es = take n es"
proof -
  have "sorted (map (\<lambda>e. f64_neg (wme_relevance e)) es)"
    using assms by (auto simp: full_relevance_def sorted_iff_nth_mono)
  then have "sort_key (\<lambda>e. f64_neg (wme_relevance e)) es = es" by (rule sort_key_id_if_sorted)
  then show ?thesis by (simp add: wm_enforce_cap_def)
qed


section \<open>The scratchpad as a map\<close>

definition wm_map :: "working_memory \<Rightarrow> string \<Rightarrow> (string \<times> u64 \<times> u64 option) option" where
  "wm_map es = map_of (map (\<lambda>e. (wme_key e, (wme_value e, wme_written_at_tick e, wme_ttl_ticks e))) es)"

fun wm_map_op :: "u64 \<Rightarrow> wm_op \<Rightarrow> (string \<Rightarrow> (string \<times> u64 \<times> u64 option) option) \<Rightarrow>
    string \<Rightarrow> (string \<times> u64 \<times> u64 option) option" where
  "wm_map_op tick (WmSet key val ttl) m = m(key \<mapsto> (val, tick, ttl))"
| "wm_map_op tick (WmRemove key) m = m(key := None)"
| "wm_map_op tick WmClear m = Map.empty"

lemma wm_op_refines: "wm_map (wm_apply_op tick op es) = wm_map_op tick op (wm_map es)"
proof (cases op)
  case (WmSet key val ttl)
  show ?thesis
  proof (cases "list_ex (\<lambda>e. wme_key e = key) es")
    case True
    then have "key \<in> wme_key ` set es" by (auto simp: list_ex_iff)
    then obtain e where "List.find (\<lambda>e. wme_key e = key) es = Some e"
      using find_key_iff [of wme_key key es] by (metis not_None_eq)
    then show ?thesis using True WmSet by (simp add: wm_map_def map_of_update_first)
  next
    case False
    then have "key \<notin> wme_key ` set es" by (auto simp: list_ex_iff)
    then show ?thesis using False WmSet by (simp add: wm_map_def map_of_append_key)
  qed
qed (simp_all add: wm_map_def map_of_filter_key)

lemma wm_ops_refine: "wm_map (fold (wm_apply_op tick) ops es) = fold (wm_map_op tick) ops (wm_map es)"
  by (induction ops arbitrary: es) (simp_all add: wm_op_refines)

lemma wm_map_simps [simp]:
  "wm_map [] = Map.empty"
  "wm_map (e # es) = (wm_map es)(wme_key e \<mapsto> (wme_value e, wme_written_at_tick e, wme_ttl_ticks e))"
  by (simp_all add: wm_map_def)

lemma wm_map_None: "k \<notin> wme_key ` set es \<Longrightarrow> wm_map es k = None"
  by (induction es) auto

lemma wm_map_filter:
  assumes "wm_wf es"
  shows "wm_map (filter P es) k = (case List.find (\<lambda>e. wme_key e = k) es of
     Some e \<Rightarrow> if P e then wm_map es k else None | None \<Rightarrow> None)"
  using assms
proof (induction es)
  case Nil
  then show ?case by simp
next
  case (Cons e es)
  then have IH: "wm_map (filter P es) k = (case List.find (\<lambda>e. wme_key e = k) es of
      Some e \<Rightarrow> if P e then wm_map es k else None | None \<Rightarrow> None)" and "wme_key e \<notin> wme_key ` set es"
    by (auto simp: wm_wf_def)
  moreover from this(2) have "wme_key e = k \<Longrightarrow> wm_map (filter P es) k = None"
    by (intro wm_map_None) auto
  ultimately show ?case by (auto split: option.split)
qed

lemma wm_map_find:
  "wm_map es k = map_option (\<lambda>e. (wme_value e, wme_written_at_tick e, wme_ttl_ticks e))
     (List.find (\<lambda>e. wme_key e = k) es)"
  by (induction es) auto

text \<open>
  C14. The scratchpad is a map with expiry: after the writes and removals of a tick and the expiry
  at a later tick, a key is present exactly when the map updated by those operations holds it and
  its time to live, counted from the tick that wrote it, has not run out.
\<close>

theorem scratchpad_refines_map:
  assumes "wm_wf es"
  shows "wm_map (wm_evict_expired later (wm_apply_ops tick ops es)) k =
    (case fold (wm_map_op tick) ops (wm_map es) k of
       None \<Rightarrow> None
     | Some (val, written, ttl) \<Rightarrow>
         if (case ttl of None \<Rightarrow> True | Some n \<Rightarrow> unat later - unat written < unat n)
         then Some (val, written, ttl) else None)"
proof -
  let ?es = "fold (wm_apply_op tick) ops es"
  have wf: "wm_wf ?es" using assms by (induction ops arbitrary: es) (simp_all add: wm_apply_op_wf)
  have live: "wm_live later e \<longleftrightarrow>
      (case wme_ttl_ticks e of None \<Rightarrow> True | Some n \<Rightarrow> unat later - unat (wme_written_at_tick e) < unat n)" for e
    by (simp add: wm_live_def word_less_nat_alt unat_sat_sub split: option.split)
  show ?thesis
  proof (cases "List.find (\<lambda>e. wme_key e = k) ?es")
    case None
    then show ?thesis
      using wm_map_filter [OF wf, of "wm_live later" k] wm_map_find [of ?es k]
      by (simp add: wm_evict_expired_def wm_apply_ops_def wm_ops_refine)
  next
    case (Some e)
    have m: "wm_map ?es k = Some (wme_value e, wme_written_at_tick e, wme_ttl_ticks e)"
      using wm_map_find [of ?es k] Some by simp
    with Some show ?thesis
      using wm_map_filter [OF wf, of "wm_live later" k]
      by (simp add: wm_evict_expired_def wm_apply_ops_def live flip: wm_ops_refine split: option.split)
  qed
qed

section \<open>The properties at concrete inputs\<close>


theorem scratchpad_refines_map_witness:
  "wm_map (wm_evict_expired 10 (wm_apply_ops 7 [WmSet ''a'' ''1'' (Some 3), WmSet ''b'' ''2'' (Some 4)] wm_new)) ''a'' = None
   \<and> wm_map (wm_evict_expired 10 (wm_apply_ops 7 [WmSet ''a'' ''1'' (Some 3), WmSet ''b'' ''2'' (Some 4)] wm_new)) ''b''
     = Some (''2'', 7, Some 4)"
proof -
  have wf: "wm_wf wm_new" by (simp add: wm_wf_def wm_new_def)
  show ?thesis
    using scratchpad_refines_map [OF wf, of 10 7 "[WmSet ''a'' ''1'' (Some 3), WmSet ''b'' ''2'' (Some 4)]" "''a''"]
      scratchpad_refines_map [OF wf, of 10 7 "[WmSet ''a'' ''1'' (Some 3), WmSet ''b'' ''2'' (Some 4)]" "''b''"]
    by simp
qed

end
