(* ===== verification/Threads.thy ===== *)
theory Threads
  imports Exo_Core
begin

text \<open>
  Cognitive and executable threads: the domain types (\<open>exoskeleton-core/src/thread.rs\<close>,
  \<open>exec_thread.rs\<close>), the schedule (\<open>exoskeleton-threads/src/scheduling.rs\<close>), the store
  (\<open>store.rs\<close>) and the registry over it (\<open>registry.rs\<close>).

  The trait \<open>ThreadStore\<close> is the record \<open>thread_ops\<close> of its operations with the locale
  \<open>thread_store\<close> of its laws; the in-memory store is the interpretation \<open>mem_threads\<close>.
\<close>

section \<open>Types\<close>

datatype thread_flavor = FCognitive | FExecutable

datatype thread_role =
    ThreatMonitor | SelfCritique | MemoryConsolidation | MetaCognition | CreativeSynthesis
  | Initiative | RCoding | ROther

datatype thread_priority = PBackground | PLow | PNormal | PHigh | PCritical

datatype thread_schedule = EveryTick | EveryNTicks u32 | OnDemand

datatype thread_status = ThActive | ThSuspended | ThCompleted | ThFailed

record thread_spec =
  sp_thread_id :: uuid
  sp_role :: thread_role
  sp_flavor :: thread_flavor
  sp_name :: string
  sp_charter :: string
  sp_priority :: thread_priority
  sp_token_budget :: u64
  sp_schedule :: thread_schedule
  sp_workspace_root :: "string option"

fun thread_status_is_terminal :: "thread_status \<Rightarrow> bool" where
  "thread_status_is_terminal ThCompleted = True"
| "thread_status_is_terminal ThFailed = True"
| "thread_status_is_terminal _ = False"

record thread_output =
  to_thread_id :: uuid
  to_tick_id :: uuid
  to_artifact_id :: artifact_id
  to_summary :: string
  to_recommendations :: "string list"

datatype exec_thread_status = ExIdle | ExActive | ExBlocked | ExCompleted | ExFailed

fun exec_status_is_terminal :: "exec_thread_status \<Rightarrow> bool" where
  "exec_status_is_terminal ExCompleted = True"
| "exec_status_is_terminal ExFailed = True"
| "exec_status_is_terminal _ = False"

datatype proposal_confidence = ConfLow | ConfMedium | ConfHigh

record exec_thread_local_state =
  ls_scratchpad :: "string option"
  ls_current_focus :: "string option"
  ls_last_completion_reason :: "string option"
  ls_work_phase :: "string option"
  ls_evidence_complete :: bool
  ls_verification_pending :: bool
  ls_verification_attempted :: bool
  ls_proposal_confidence :: "proposal_confidence option"
  ls_inspection_target_file :: "string option"
  ls_inspection_read_streak :: u32
  ls_edit_hypothesis_file :: "string option"
  ls_edit_hypothesis_summary :: "string option"
  ls_semantic_target_symbol_id :: "string option"
  ls_semantic_target_name :: "string option"
  ls_semantic_target_kind :: "string option"
  ls_semantic_target_file :: "string option"
  ls_semantic_target_query :: "string option"
  ls_semantic_target_start_line :: "u32 option"
  ls_semantic_target_end_line :: "u32 option"
  ls_last_proposed_tool :: "string option"
  ls_last_proposed_target :: "string option"
  ls_repeated_same_proposal_count :: u32
  ls_awaiting_feedback :: bool
  ls_should_wake_master :: bool

definition local_state_default :: exec_thread_local_state where
  "local_state_default = \<lparr>
     ls_scratchpad = None, ls_current_focus = None, ls_last_completion_reason = None,
     ls_work_phase = None, ls_evidence_complete = False, ls_verification_pending = False,
     ls_verification_attempted = False, ls_proposal_confidence = None,
     ls_inspection_target_file = None, ls_inspection_read_streak = 0,
     ls_edit_hypothesis_file = None, ls_edit_hypothesis_summary = None,
     ls_semantic_target_symbol_id = None, ls_semantic_target_name = None,
     ls_semantic_target_kind = None, ls_semantic_target_file = None,
     ls_semantic_target_query = None, ls_semantic_target_start_line = None,
     ls_semantic_target_end_line = None, ls_last_proposed_tool = None,
     ls_last_proposed_target = None, ls_repeated_same_proposal_count = 0,
     ls_awaiting_feedback = False, ls_should_wake_master = False\<rparr>"

record exec_thread_proposal =
  xp_proposal_id :: string
  xp_tool_name :: string
  xp_params :: json
  xp_rationale :: string

record exec_thread_output =
  xo_thread_id :: uuid
  xo_tick_id :: uuid
  xo_artifact_id :: artifact_id
  xo_kind :: exec_thread_kind
  xo_summary :: string
  xo_status :: exec_thread_status
  xo_evidence_complete :: bool
  xo_proposal_confidence :: "proposal_confidence option"
  xo_proposed_action :: "exec_thread_proposal option"
  xo_local_state :: exec_thread_local_state

datatype thread_execution_payload = PayCognitive thread_output | PayExecutable exec_thread_output

record thread_execution_result =
  te_thread_id :: uuid
  te_tick_id :: uuid
  te_artifact_id :: artifact_id
  te_payload :: thread_execution_payload

definition result_of_output :: "thread_output \<Rightarrow> thread_execution_result" where
  "result_of_output o' = \<lparr>te_thread_id = to_thread_id o', te_tick_id = to_tick_id o',
     te_artifact_id = to_artifact_id o', te_payload = PayCognitive o'\<rparr>"

definition result_of_exec_output :: "exec_thread_output \<Rightarrow> thread_execution_result" where
  "result_of_exec_output o' = \<lparr>te_thread_id = xo_thread_id o', te_tick_id = xo_tick_id o',
     te_artifact_id = xo_artifact_id o', te_payload = PayExecutable o'\<rparr>"

text \<open>\<open>ExecThreadKind::try_from\<close> of a role.\<close>

fun exec_kind_of_role :: "thread_role \<Rightarrow> exec_thread_kind option" where
  "exec_kind_of_role RCoding = Some ExecCoding"
| "exec_kind_of_role _ = None"

record thread_summary =
  su_thread_id :: uuid
  su_name :: string
  su_status :: thread_status
  su_last_output_summary :: "string option"
  su_token_budget_remaining :: u64

record exec_thread_summary =
  xs_thread_id :: uuid
  xs_kind :: exec_thread_kind
  xs_name :: string
  xs_status :: exec_thread_status
  xs_last_output_summary :: "string option"
  xs_current_focus :: "string option"
  xs_work_phase :: "string option"
  xs_evidence_complete :: bool
  xs_proposal_confidence :: "proposal_confidence option"
  xs_last_completion_reason :: "string option"

text \<open>The derived order of priorities: the order of declaration.\<close>

fun priority_rank :: "thread_priority \<Rightarrow> nat" where
  "priority_rank PBackground = 0"
| "priority_rank PLow = 1"
| "priority_rank PNormal = 2"
| "priority_rank PHigh = 3"
| "priority_rank PCritical = 4"

section \<open>Scheduling\<close>

definition is_thread_due :: "thread_schedule \<Rightarrow> thread_status \<Rightarrow> u64 \<Rightarrow> u64 option \<Rightarrow> bool" where
  "is_thread_due schedule status current_tick last_run_tick =
     (if status \<noteq> ThActive then False
      else case schedule of
          EveryTick \<Rightarrow> True
        | EveryNTicks n \<Rightarrow> (case last_run_tick of
            None \<Rightarrow> True
          | Some lst \<Rightarrow> sat_sub current_tick lst \<ge> ucast n)
        | OnDemand \<Rightarrow> False)"

section \<open>The store\<close>

datatype registered_status = Cognitive thread_status | Executable exec_thread_status

fun registered_is_terminal :: "registered_status \<Rightarrow> bool" where
  "registered_is_terminal (Cognitive s) = thread_status_is_terminal s"
| "registered_is_terminal (Executable s) = exec_status_is_terminal s"

record 's thread_ops =
  ts_save :: "thread_spec \<Rightarrow> registered_status \<Rightarrow> 's \<Rightarrow> 's exo_result"
  ts_get :: "'s \<Rightarrow> uuid \<Rightarrow> (thread_spec \<times> registered_status) option exo_result"
  ts_list :: "'s \<Rightarrow> (thread_spec \<times> registered_status) list exo_result"
  ts_remove :: "uuid \<Rightarrow> 's \<Rightarrow> 's exo_result"
  ts_update_status :: "uuid \<Rightarrow> registered_status \<Rightarrow> 's \<Rightarrow> 's exo_result"
  ts_save_last_run :: "uuid \<Rightarrow> u64 \<Rightarrow> 's \<Rightarrow> 's exo_result"
  ts_get_last_run :: "'s \<Rightarrow> uuid \<Rightarrow> u64 option exo_result"
  ts_recent_results :: "'s \<Rightarrow> uuid \<Rightarrow> nat \<Rightarrow> thread_execution_result list exo_result"
  ts_save_result :: "thread_execution_result \<Rightarrow> 's \<Rightarrow> 's exo_result"
  ts_get_local_state :: "'s \<Rightarrow> uuid \<Rightarrow> exec_thread_local_state option exo_result"
  ts_save_local_state :: "uuid \<Rightarrow> exec_thread_local_state \<Rightarrow> 's \<Rightarrow> 's exo_result"
  ts_update_charter :: "uuid \<Rightarrow> string \<Rightarrow> 's \<Rightarrow> 's exo_result"

text \<open>The default methods of the trait.\<close>

definition ts_recent_outputs :: "'s thread_ops \<Rightarrow> 's \<Rightarrow> uuid \<Rightarrow> nat \<Rightarrow> thread_output list exo_result" where
  "ts_recent_outputs ops st i limit = (case ts_recent_results ops st i limit of
     Inl e \<Rightarrow> Inl e
   | Inr rs \<Rightarrow> Inr (List.map_filter
       (\<lambda>r. case te_payload r of PayCognitive x \<Rightarrow> Some x | PayExecutable _ \<Rightarrow> None) rs))"

definition ts_recent_exec_outputs ::
  "'s thread_ops \<Rightarrow> 's \<Rightarrow> uuid \<Rightarrow> nat \<Rightarrow> exec_thread_output list exo_result" where
  "ts_recent_exec_outputs ops st i limit = (case ts_recent_results ops st i limit of
     Inl e \<Rightarrow> Inl e
   | Inr rs \<Rightarrow> Inr (List.map_filter
       (\<lambda>r. case te_payload r of PayExecutable x \<Rightarrow> Some x | PayCognitive _ \<Rightarrow> None) rs))"

text \<open>The in-memory store: four maps, each behind its own lock.\<close>

record mem_threads =
  mt_specs_poisoned :: bool
  mt_specs :: "(uuid \<times> (thread_spec \<times> registered_status)) list"
  mt_last_runs_poisoned :: bool
  mt_last_runs :: "(uuid \<times> u64) list"
  mt_outputs_poisoned :: bool
  mt_outputs :: "(uuid \<times> thread_execution_result list) list"
  mt_local_state_poisoned :: bool
  mt_local_state :: "(uuid \<times> exec_thread_local_state) list"

definition mem_threads_new :: mem_threads where
  "mem_threads_new = \<lparr>
     mt_specs_poisoned = False, mt_specs = [],
     mt_last_runs_poisoned = False, mt_last_runs = [],
     mt_outputs_poisoned = False, mt_outputs = [],
     mt_local_state_poisoned = False, mt_local_state = []\<rparr>"

definition mt_save :: "thread_spec \<Rightarrow> registered_status \<Rightarrow> mem_threads \<Rightarrow> mem_threads exo_result" where
  "mt_save spec status st = locked (mt_specs_poisoned st)
     (Inr (st\<lparr>mt_specs := AList.update (sp_thread_id spec) (spec, status) (mt_specs st)\<rparr>))"

definition mt_get :: "mem_threads \<Rightarrow> uuid \<Rightarrow> (thread_spec \<times> registered_status) option exo_result" where
  "mt_get st i = locked (mt_specs_poisoned st) (Inr (map_of (mt_specs st) i))"

definition mt_list :: "mem_threads \<Rightarrow> (thread_spec \<times> registered_status) list exo_result" where
  "mt_list st = locked (mt_specs_poisoned st) (Inr (map snd (mt_specs st)))"

definition mt_remove :: "uuid \<Rightarrow> mem_threads \<Rightarrow> mem_threads exo_result" where
  "mt_remove i st = locked (mt_specs_poisoned st) (Inr (st\<lparr>mt_specs := AList.delete i (mt_specs st)\<rparr>))"

definition thread_not_found :: exo_error where
  "thread_not_found = Storage ''thread not found''"

definition mt_update_status :: "uuid \<Rightarrow> registered_status \<Rightarrow> mem_threads \<Rightarrow> mem_threads exo_result" where
  "mt_update_status i status st = locked (mt_specs_poisoned st) (case map_of (mt_specs st) i of
     Some entry \<Rightarrow> Inr (st\<lparr>mt_specs := AList.update i (fst entry, status) (mt_specs st)\<rparr>)
   | None \<Rightarrow> Inl thread_not_found)"

definition mt_save_last_run :: "uuid \<Rightarrow> u64 \<Rightarrow> mem_threads \<Rightarrow> mem_threads exo_result" where
  "mt_save_last_run i tick st = locked (mt_last_runs_poisoned st)
     (Inr (st\<lparr>mt_last_runs := AList.update i tick (mt_last_runs st)\<rparr>))"

definition mt_get_last_run :: "mem_threads \<Rightarrow> uuid \<Rightarrow> u64 option exo_result" where
  "mt_get_last_run st i = locked (mt_last_runs_poisoned st) (Inr (map_of (mt_last_runs st) i))"

definition mt_recent_results :: "mem_threads \<Rightarrow> uuid \<Rightarrow> nat \<Rightarrow> thread_execution_result list exo_result" where
  "mt_recent_results st i limit = locked (mt_outputs_poisoned st) (case map_of (mt_outputs st) i of
     Some outs \<Rightarrow> Inr (rev (drop (length outs - limit) outs))
   | None \<Rightarrow> Inr [])"

definition mt_save_result :: "thread_execution_result \<Rightarrow> mem_threads \<Rightarrow> mem_threads exo_result" where
  "mt_save_result r st = locked (mt_outputs_poisoned st)
     (Inr (st\<lparr>mt_outputs := entry_update (te_thread_id r) [] (\<lambda>rs. rs @ [r]) (mt_outputs st)\<rparr>))"

definition mt_get_local_state :: "mem_threads \<Rightarrow> uuid \<Rightarrow> exec_thread_local_state option exo_result" where
  "mt_get_local_state st i = locked (mt_local_state_poisoned st) (Inr (map_of (mt_local_state st) i))"

definition mt_save_local_state ::
  "uuid \<Rightarrow> exec_thread_local_state \<Rightarrow> mem_threads \<Rightarrow> mem_threads exo_result" where
  "mt_save_local_state i ls st = locked (mt_local_state_poisoned st)
     (Inr (st\<lparr>mt_local_state := AList.update i ls (mt_local_state st)\<rparr>))"

definition mt_update_charter :: "uuid \<Rightarrow> string \<Rightarrow> mem_threads \<Rightarrow> mem_threads exo_result" where
  "mt_update_charter i charter st = locked (mt_specs_poisoned st) (case map_of (mt_specs st) i of
     Some entry \<Rightarrow> Inr (st\<lparr>mt_specs :=
       AList.update i ((fst entry)\<lparr>sp_charter := charter\<rparr>, snd entry) (mt_specs st)\<rparr>)
   | None \<Rightarrow> Inl thread_not_found)"

definition mem_thread_ops :: "mem_threads thread_ops" where
  "mem_thread_ops = \<lparr>
     ts_save = mt_save, ts_get = mt_get, ts_list = mt_list, ts_remove = mt_remove,
     ts_update_status = mt_update_status, ts_save_last_run = mt_save_last_run,
     ts_get_last_run = mt_get_last_run, ts_recent_results = mt_recent_results,
     ts_save_result = mt_save_result, ts_get_local_state = mt_get_local_state,
     ts_save_local_state = mt_save_local_state, ts_update_charter = mt_update_charter\<rparr>"

section \<open>The registry\<close>

definition register_with_status ::
  "'s thread_ops \<Rightarrow> thread_spec \<Rightarrow> registered_status \<Rightarrow> 's \<Rightarrow> (uuid \<times> 's) exo_result" where
  "register_with_status ops spec status st = (case ts_save ops spec status st of
     Inl e \<Rightarrow> Inl e
   | Inr st' \<Rightarrow> Inr (sp_thread_id spec, st'))"

definition register :: "'s thread_ops \<Rightarrow> thread_spec \<Rightarrow> 's \<Rightarrow> (uuid \<times> 's) exo_result" where
  "register ops spec st = register_with_status ops spec
     (case sp_flavor spec of FCognitive \<Rightarrow> Cognitive ThActive | FExecutable \<Rightarrow> Executable ExActive) st"

definition deregister :: "'s thread_ops \<Rightarrow> uuid \<Rightarrow> 's \<Rightarrow> 's exo_result" where
  "deregister ops i st = ts_remove ops i st"

fun as_cognitive :: "thread_spec \<times> registered_status \<Rightarrow> (thread_spec \<times> thread_status) option" where
  "as_cognitive (spec, Cognitive s) = Some (spec, s)"
| "as_cognitive (spec, Executable _) = None"

fun as_executable :: "thread_spec \<times> registered_status \<Rightarrow> (thread_spec \<times> exec_thread_status) option" where
  "as_executable (spec, Executable s) = Some (spec, s)"
| "as_executable (spec, Cognitive _) = None"

definition reg_get :: "'s thread_ops \<Rightarrow> 's \<Rightarrow> uuid \<Rightarrow> (thread_spec \<times> thread_status) option exo_result" where
  "reg_get ops st i = (case ts_get ops st i of
     Inl e \<Rightarrow> Inl e
   | Inr entry \<Rightarrow> Inr (Option.bind entry as_cognitive))"

definition reg_list :: "'s thread_ops \<Rightarrow> 's \<Rightarrow> (thread_spec \<times> thread_status) list exo_result" where
  "reg_list ops st = (case ts_list ops st of
     Inl e \<Rightarrow> Inl e
   | Inr all \<Rightarrow> Inr (List.map_filter as_cognitive all))"

definition reg_list_executable :: "'s thread_ops \<Rightarrow> 's \<Rightarrow> (thread_spec \<times> exec_thread_status) list exo_result" where
  "reg_list_executable ops st = (case ts_list ops st of
     Inl e \<Rightarrow> Inl e
   | Inr all \<Rightarrow> Inr (List.map_filter as_executable all))"

definition reg_list_active :: "'s thread_ops \<Rightarrow> 's \<Rightarrow> thread_spec list exo_result" where
  "reg_list_active ops st = (case ts_list ops st of
     Inl e \<Rightarrow> Inl e
   | Inr all \<Rightarrow> Inr (List.map_filter
       (\<lambda>(spec, status). if status = Cognitive ThActive then Some spec else None) all))"

definition reg_list_active_executable :: "'s thread_ops \<Rightarrow> 's \<Rightarrow> thread_spec list exo_result" where
  "reg_list_active_executable ops st = (case ts_list ops st of
     Inl e \<Rightarrow> Inl e
   | Inr all \<Rightarrow> Inr (List.map_filter
       (\<lambda>(spec, status). if status = Executable ExActive then Some spec else None) all))"

text \<open>The debug print of a status, used in one error message.\<close>

fun status_debug :: "registered_status \<Rightarrow> string" where
  "status_debug (Cognitive ThActive) = ''Cognitive(Active)''"
| "status_debug (Cognitive ThSuspended) = ''Cognitive(Suspended)''"
| "status_debug (Cognitive ThCompleted) = ''Cognitive(Completed)''"
| "status_debug (Cognitive ThFailed) = ''Cognitive(Failed)''"
| "status_debug (Executable ExIdle) = ''Executable(Idle)''"
| "status_debug (Executable ExActive) = ''Executable(Active)''"
| "status_debug (Executable ExBlocked) = ''Executable(Blocked)''"
| "status_debug (Executable ExCompleted) = ''Executable(Completed)''"
| "status_debug (Executable ExFailed) = ''Executable(Failed)''"

definition reg_update_status :: "'s thread_ops \<Rightarrow> uuid \<Rightarrow> thread_status \<Rightarrow> 's \<Rightarrow> 's exo_result" where
  "reg_update_status ops i status st = (case ts_get ops st i of
     Inl e \<Rightarrow> Inl e
   | Inr None \<Rightarrow> Inl thread_not_found
   | Inr (Some (spec, current)) \<Rightarrow>
       if registered_is_terminal current
       then Inl (Engine (''cannot transition from terminal state '' @ status_debug current))
       else case current of
           Cognitive _ \<Rightarrow> ts_update_status ops i (Cognitive status) st
         | Executable _ \<Rightarrow> Inl (Config ''cannot apply cognitive thread status to executable thread''))"

definition reg_update_executable_status ::
  "'s thread_ops \<Rightarrow> uuid \<Rightarrow> exec_thread_status \<Rightarrow> 's \<Rightarrow> 's exo_result" where
  "reg_update_executable_status ops i status st = (case ts_get ops st i of
     Inl e \<Rightarrow> Inl e
   | Inr None \<Rightarrow> Inl thread_not_found
   | Inr (Some (spec, current)) \<Rightarrow>
       if registered_is_terminal current
       then Inl (Engine (''cannot transition from terminal state '' @ status_debug current))
       else case current of
           Cognitive _ \<Rightarrow> Inl (Config ''cannot apply executable thread status to cognitive thread'')
         | Executable _ \<Rightarrow> ts_update_status ops i (Executable status) st)"

definition record_run :: "'s thread_ops \<Rightarrow> uuid \<Rightarrow> u64 \<Rightarrow> 's \<Rightarrow> 's exo_result" where
  "record_run ops i tick st = ts_save_last_run ops i tick st"

definition save_output :: "'s thread_ops \<Rightarrow> thread_output \<Rightarrow> 's \<Rightarrow> 's exo_result" where
  "save_output ops o' st = ts_save_result ops (result_of_output o') st"

definition save_exec_output :: "'s thread_ops \<Rightarrow> exec_thread_output \<Rightarrow> 's \<Rightarrow> 's exo_result" where
  "save_exec_output ops o' st = ts_save_result ops (result_of_exec_output o') st"

definition reg_local_state :: "'s thread_ops \<Rightarrow> 's \<Rightarrow> uuid \<Rightarrow> exec_thread_local_state exo_result" where
  "reg_local_state ops st i = (case ts_get_local_state ops st i of
     Inl e \<Rightarrow> Inl e
   | Inr ls \<Rightarrow> Inr (case ls of None \<Rightarrow> local_state_default | Some x \<Rightarrow> x))"

text \<open>
  Charters are reloaded from the prompt registry, read through \<open>prompt_get\<close>; \<open>to_lowercase\<close> is the
  Unicode lower-casing of the standard library.
\<close>

definition charter_key :: "(string \<Rightarrow> string) \<Rightarrow> string \<Rightarrow> string" where
  "charter_key to_lowercase name =
     ''charter-'' @ map (\<lambda>c. if c = CHR '' '' then CHR ''-'' else c) (to_lowercase name)"

fun reload_each ::
  "'s thread_ops \<Rightarrow> (string \<Rightarrow> string) \<Rightarrow> (string \<Rightarrow> string option) \<Rightarrow>
   (thread_spec \<times> registered_status) list \<Rightarrow> u32 \<Rightarrow> 's \<Rightarrow> u32 exo_result \<times> 's" where
  "reload_each ops to_lowercase prompt_get [] updated st = (Inr updated, st)"
| "reload_each ops to_lowercase prompt_get ((spec, _) # rest) updated st =
     (case prompt_get (charter_key to_lowercase (sp_name spec)) of
        None \<Rightarrow> reload_each ops to_lowercase prompt_get rest updated st
      | Some new_charter \<Rightarrow>
          if new_charter = sp_charter spec then reload_each ops to_lowercase prompt_get rest updated st
          else case ts_update_charter ops (sp_thread_id spec) new_charter st of
              Inl e \<Rightarrow> (Inl e, st)
            | Inr st' \<Rightarrow> reload_each ops to_lowercase prompt_get rest (updated + 1) st')"

definition reload_charters ::
  "'s thread_ops \<Rightarrow> (string \<Rightarrow> string) \<Rightarrow> (string \<Rightarrow> string option) \<Rightarrow> 's \<Rightarrow> u32 exo_result \<times> 's" where
  "reload_charters ops to_lowercase prompt_get st = (case ts_list ops st of
     Inl e \<Rightarrow> (Inl e, st)
   | Inr threads \<Rightarrow> reload_each ops to_lowercase prompt_get threads 0 st)"

definition due_threads :: "'s thread_ops \<Rightarrow> 's \<Rightarrow> u64 \<Rightarrow> thread_spec list exo_result" where
  "due_threads ops st tick = (case ts_list ops st of
     Inl e \<Rightarrow> Inl e
   | Inr all \<Rightarrow> Inr (sort_desc (\<lambda>s. int (priority_rank (sp_priority s)))
       (List.map_filter (\<lambda>(spec, status). case status of
            Cognitive s \<Rightarrow>
              (let last_run = (case ts_get_last_run ops st (sp_thread_id spec) of Inl _ \<Rightarrow> None | Inr r \<Rightarrow> r)
               in if is_thread_due (sp_schedule spec) s tick last_run then Some spec else None)
          | Executable _ \<Rightarrow> None) all)))"

text \<open>The summaries for the snapshot; the first error of the store ends the loop.\<close>

fun summarise_threads ::
  "'s thread_ops \<Rightarrow> 's \<Rightarrow> (thread_spec \<times> registered_status) list \<Rightarrow> thread_summary list exo_result" where
  "summarise_threads ops st [] = Inr []"
| "summarise_threads ops st ((spec, Executable _) # rest) = summarise_threads ops st rest"
| "summarise_threads ops st ((spec, Cognitive status) # rest) =
     (case ts_recent_outputs ops st (sp_thread_id spec) 1 of
        Inl e \<Rightarrow> Inl e
      | Inr outs \<Rightarrow> (case summarise_threads ops st rest of
          Inl e \<Rightarrow> Inl e
        | Inr acc \<Rightarrow> Inr (\<lparr>
            su_thread_id = sp_thread_id spec,
            su_name = sp_name spec,
            su_status = status,
            su_last_output_summary = (case outs of [] \<Rightarrow> None | x # _ \<Rightarrow> Some (to_summary x)),
            su_token_budget_remaining = sp_token_budget spec\<rparr> # acc)))"

definition thread_summaries :: "'s thread_ops \<Rightarrow> 's \<Rightarrow> thread_summary list exo_result" where
  "thread_summaries ops st = (case ts_list ops st of
     Inl e \<Rightarrow> Inl e
   | Inr all \<Rightarrow> summarise_threads ops st all)"

text \<open>The debug print of a role.\<close>

fun role_debug :: "thread_role \<Rightarrow> string" where
  "role_debug ThreatMonitor = ''ThreatMonitor''"
| "role_debug SelfCritique = ''SelfCritique''"
| "role_debug MemoryConsolidation = ''MemoryConsolidation''"
| "role_debug MetaCognition = ''MetaCognition''"
| "role_debug CreativeSynthesis = ''CreativeSynthesis''"
| "role_debug Initiative = ''Initiative''"
| "role_debug RCoding = ''Coding''"
| "role_debug ROther = ''Other''"

fun summarise_exec_threads ::
  "'s thread_ops \<Rightarrow> 's \<Rightarrow> (thread_spec \<times> registered_status) list \<Rightarrow> exec_thread_summary list exo_result" where
  "summarise_exec_threads ops st [] = Inr []"
| "summarise_exec_threads ops st ((spec, Cognitive _) # rest) = summarise_exec_threads ops st rest"
| "summarise_exec_threads ops st ((spec, Executable status) # rest) =
     (case ts_get_local_state ops st (sp_thread_id spec) of
        Inl e \<Rightarrow> Inl e
      | Inr found \<Rightarrow> (let local_state = (case found of None \<Rightarrow> local_state_default | Some x \<Rightarrow> x) in
          case ts_recent_exec_outputs ops st (sp_thread_id spec) 1 of
            Inl e \<Rightarrow> Inl e
          | Inr outs \<Rightarrow> (case exec_kind_of_role (sp_role spec) of
              None \<Rightarrow> Inl (Config (''thread role '' @ role_debug (sp_role spec) @ '' is not executable''))
            | Some kind \<Rightarrow> (case summarise_exec_threads ops st rest of
                Inl e \<Rightarrow> Inl e
              | Inr acc \<Rightarrow> Inr (\<lparr>
                  xs_thread_id = sp_thread_id spec,
                  xs_kind = kind,
                  xs_name = sp_name spec,
                  xs_status = status,
                  xs_last_output_summary = (case outs of [] \<Rightarrow> None | x # _ \<Rightarrow> Some (xo_summary x)),
                  xs_current_focus = ls_current_focus local_state,
                  xs_work_phase = ls_work_phase local_state,
                  xs_evidence_complete = ls_evidence_complete local_state,
                  xs_proposal_confidence = ls_proposal_confidence local_state,
                  xs_last_completion_reason = ls_last_completion_reason local_state\<rparr> # acc)))))"

definition exec_thread_summaries :: "'s thread_ops \<Rightarrow> 's \<Rightarrow> exec_thread_summary list exo_result" where
  "exec_thread_summaries ops st = (case ts_list ops st of
     Inl e \<Rightarrow> Inl e
   | Inr all \<Rightarrow> summarise_exec_threads ops st all)"

definition find_registered_by_role ::
  "'s thread_ops \<Rightarrow> 's \<Rightarrow> thread_role \<Rightarrow> (thread_spec \<times> registered_status) option exo_result" where
  "find_registered_by_role ops st role = (case ts_list ops st of
     Inl e \<Rightarrow> Inl e
   | Inr all \<Rightarrow> Inr (List.find (\<lambda>(spec, _). sp_role spec = role) all))"

section \<open>The store as an interface\<close>

text \<open>The operations of a running vessel on its registered threads, whatever their outcome.\<close>

definition or_same :: "'s exo_result \<Rightarrow> 's \<Rightarrow> 's" where
  "or_same r st = (case r of Inl _ \<Rightarrow> st | Inr st' \<Rightarrow> st')"

inductive registry_step :: "'s thread_ops \<Rightarrow> 's \<Rightarrow> 's \<Rightarrow> bool" for ops where
  rs_status: "registry_step ops st (or_same (reg_update_status ops i s st) st)"
| rs_exec_status: "registry_step ops st (or_same (reg_update_executable_status ops i x st) st)"
| rs_run: "registry_step ops st (or_same (record_run ops i tick st) st)"
| rs_output: "registry_step ops st (or_same (save_output ops out st) st)"
| rs_exec_output: "registry_step ops st (or_same (save_exec_output ops xout st) st)"
| rs_local: "registry_step ops st (or_same (ts_save_local_state ops i ls st) st)"
| rs_charter: "registry_step ops st (or_same (ts_update_charter ops i charter st) st)"
| rs_reload: "registry_step ops st (snd (reload_charters ops lower prompts st))"

definition due_entry :: "(uuid \<Rightarrow> u64 option) \<Rightarrow> u64 \<Rightarrow> thread_spec \<times> registered_status \<Rightarrow> thread_spec option" where
  "due_entry last_run tick = (\<lambda>(spec, status). case status of
     Cognitive s \<Rightarrow> if is_thread_due (sp_schedule spec) s tick (last_run (sp_thread_id spec)) then Some spec else None
   | Executable _ \<Rightarrow> None)"

lemma due_entry_Some:
  "due_entry last_run tick p = Some spec \<longleftrightarrow>
    (\<exists>s. p = (spec, Cognitive s) \<and> is_thread_due (sp_schedule spec) s tick (last_run (sp_thread_id spec)))"
  by (cases p) (auto simp: due_entry_def split: registered_status.splits if_splits)

lemma distinct_map_filter_key:
  assumes "distinct (map k xs)" "\<And>x y. f x = Some y \<Longrightarrow> h y = k x"
  shows "distinct (map h (List.map_filter f xs))"
  using assms
proof (induction xs)
  case (Cons x xs)
  then have IH: "distinct (map h (List.map_filter f xs))" by auto
  show ?case
  proof (cases "f x")
    case (Some y)
    have "h y \<notin> h ` set (List.map_filter f xs)"
    proof
      assume "h y \<in> h ` set (List.map_filter f xs)"
      then obtain x' z where "x' \<in> set xs" "f x' = Some z" "h z = h y" by (auto simp: set_map_filter)
      with Cons.prems Some show False by (metis distinct.simps(2) image_eqI list.simps(9) set_map)
    qed
    with IH Some show ?thesis by (simp add: map_filter_simps)
  qed (use IH in \<open>simp add: map_filter_simps\<close>)
qed (simp add: map_filter_simps)

locale thread_store =
  fixes ops :: "'s thread_ops"
    and entries :: "'s \<Rightarrow> uuid \<Rightarrow> (thread_spec \<times> registered_status) option"
    and usable :: "'s \<Rightarrow> bool"
  assumes get_law: "usable st \<Longrightarrow> ts_get ops st i = Inr (entries st i)"
    and list_law: "usable st \<Longrightarrow> \<exists>xs. ts_list ops st = Inr xs \<and> distinct (map (sp_thread_id \<circ> fst) xs)
      \<and> (\<forall>p. p \<in> set xs \<longleftrightarrow> entries st (sp_thread_id (fst p)) = Some p)"
    and update_law: "usable st \<Longrightarrow> ts_update_status ops i s st = Inr st' \<Longrightarrow>
      usable st' \<and> entries st' = (entries st)(i := map_option (\<lambda>(sp, _). (sp, s)) (entries st i))"
    and charter_law: "usable st \<Longrightarrow> ts_update_charter ops i c st = Inr st' \<Longrightarrow>
      usable st' \<and> entries st' = (entries st)(i := map_option (\<lambda>(sp, s). (sp\<lparr>sp_charter := c\<rparr>, s)) (entries st i))"
    and run_law: "usable st \<Longrightarrow> ts_save_last_run ops i t st = Inr st' \<Longrightarrow> usable st' \<and> entries st' = entries st"
    and result_law: "usable st \<Longrightarrow> ts_save_result ops r st = Inr st' \<Longrightarrow> usable st' \<and> entries st' = entries st"
    and local_law: "usable st \<Longrightarrow> ts_save_local_state ops i ls st = Inr st' \<Longrightarrow> usable st' \<and> entries st' = entries st"
begin

definition status_of :: "'s \<Rightarrow> uuid \<Rightarrow> registered_status option" where
  "status_of st i = map_option snd (entries st i)"

lemma due_exact:
  assumes "usable st"
  shows "\<exists>due. due_threads ops st tick = Inr due
    \<and> (\<forall>spec. spec \<in> set due \<longleftrightarrow> (\<exists>s. entries st (sp_thread_id spec) = Some (spec, Cognitive s)
        \<and> is_thread_due (sp_schedule spec) s tick
            (case ts_get_last_run ops st (sp_thread_id spec) of Inl _ \<Rightarrow> None | Inr r \<Rightarrow> r)))
    \<and> distinct (map sp_thread_id due)
    \<and> sorted_wrt (\<lambda>a b. priority_rank (sp_priority b) \<le> priority_rank (sp_priority a)) due"
proof -
  let ?run = "\<lambda>i. case ts_get_last_run ops st i of Inl _ \<Rightarrow> None | Inr r \<Rightarrow> r"
  obtain xs where xs: "ts_list ops st = Inr xs" "distinct (map (sp_thread_id \<circ> fst) xs)"
    "\<And>p. p \<in> set xs \<longleftrightarrow> entries st (sp_thread_id (fst p)) = Some p" using list_law [OF assms] by blast
  let ?due = "sort_desc (\<lambda>s. int (priority_rank (sp_priority s))) (List.map_filter (due_entry ?run tick) xs)"
  have eq: "due_threads ops st tick = Inr ?due"
    by (simp add: due_threads_def xs(1) due_entry_def Let_def)
  have mem: "spec \<in> set ?due \<longleftrightarrow> (\<exists>s. entries st (sp_thread_id spec) = Some (spec, Cognitive s)
      \<and> is_thread_due (sp_schedule spec) s tick (?run (sp_thread_id spec)))" for spec
  proof -
    have "spec \<in> set ?due \<longleftrightarrow> (\<exists>p \<in> set xs. due_entry ?run tick p = Some spec)"
      by (simp add: set_map_filter)
    also have "\<dots> \<longleftrightarrow> (\<exists>s. (spec, Cognitive s) \<in> set xs \<and> is_thread_due (sp_schedule spec) s tick (?run (sp_thread_id spec)))"
      unfolding due_entry_Some by blast
    finally show ?thesis by (simp add: xs(3))
  qed
  have "distinct (map sp_thread_id (List.map_filter (due_entry ?run tick) xs))"
    using xs(2) by (rule distinct_map_filter_key) (auto simp: due_entry_Some)
  then have "distinct (map sp_thread_id ?due)"
    by (metis (no_types, lifting) distinct_map distinct_sort inj_on_def set_sort sort_desc_def)
  moreover have "sorted_wrt (\<lambda>a b. priority_rank (sp_priority b) \<le> priority_rank (sp_priority a)) ?due"
    using sorted_sort_desc [of "\<lambda>s. int (priority_rank (sp_priority s))"] by simp
  ultimately show ?thesis using eq mem by blast
qed

lemma reload_keeps:
  "usable st \<Longrightarrow> usable (snd (reload_each ops lower prompts xs n st))
    \<and> status_of (snd (reload_each ops lower prompts xs n st)) = status_of st"
proof (induction xs arbitrary: n st)
  case (Cons p xs)
  obtain spec status where p: "p = (spec, status)" by (cases p)
  have keep: "usable st' \<and> status_of st' = status_of st"
    if "ts_update_charter ops i c st = Inr st'" for i c st'
    using charter_law [OF Cons.prems that]
    by (auto simp: status_of_def fun_eq_iff option.map_comp comp_def split: prod.split intro!: option.map_cong)
  show ?case
    using Cons keep p by (auto split: option.split sum.split)
qed simp

lemma update_keeps:
  assumes "usable st" "ts_update_status ops j s' st = Inr st'" "j \<noteq> i"
  shows "usable st' \<and> status_of st' i = status_of st i"
  using update_law [OF assms(1,2)] assms(3) by (simp add: status_of_def)

lemma status_step:
  assumes "registry_step ops st st'" "usable st" "status_of st i = Some s" "registered_is_terminal s"
  shows "usable st' \<and> status_of st' i = Some s"
  using assms
proof (induction rule: registry_step.induct)
  case (rs_status st j s')
  then show ?case
    using get_law [OF rs_status(1), of j] update_keeps [OF rs_status(1)] update_law [OF rs_status(1)]
    by (cases "j = i")
      (auto simp: or_same_def reg_update_status_def status_of_def split: sum.split option.splits registered_status.split)
next
  case (rs_exec_status st j x)
  then show ?case
    using get_law [OF rs_exec_status(1), of j] update_keeps [OF rs_exec_status(1)] update_law [OF rs_exec_status(1)]
    by (cases "j = i")
      (auto simp: or_same_def reg_update_executable_status_def status_of_def split: sum.split option.splits registered_status.split)
next
  case (rs_run st j tick)
  then show ?case using run_law [of st] by (auto simp: or_same_def record_run_def status_of_def split: sum.split)
next
  case (rs_output st out)
  then show ?case using result_law [of st] by (auto simp: or_same_def save_output_def status_of_def split: sum.split)
next
  case (rs_exec_output st xout)
  then show ?case using result_law [of st] by (auto simp: or_same_def save_exec_output_def status_of_def split: sum.split)
next
  case (rs_local st j ls)
  then show ?case using local_law [of st] by (auto simp: or_same_def status_of_def split: sum.split)
next
  case (rs_charter st j c)
  then show ?case
    using charter_law [of st j c] by (auto simp: or_same_def status_of_def split: sum.split prod.split)
next
  case (rs_reload st lower prompts)
  then show ?case using reload_keeps [of st lower prompts] by (auto simp: reload_charters_def split: sum.split)
qed

lemma terminal_stays:
  assumes "(registry_step ops)\<^sup>*\<^sup>* st st'" "usable st" "status_of st i = Some s" "registered_is_terminal s"
  shows "usable st' \<and> status_of st' i = Some s"
  using assms by (induction rule: rtranclp_induct) (auto dest: status_step)

end

text \<open>The in-memory store keeps one entry per id, under the id of its specification.\<close>

definition mt_wf :: "mem_threads \<Rightarrow> bool" where
  "mt_wf st \<longleftrightarrow> \<not> mt_specs_poisoned st \<and> distinct (map fst (mt_specs st))
     \<and> (\<forall>(i, p) \<in> set (mt_specs st). sp_thread_id (fst p) = i)"

lemma set_update_subset: "set (AList.update k v al) \<subseteq> insert (k, v) (set al)"
  by (induction al) auto

lemma mt_wf_update:
  assumes "mt_wf st" "sp_thread_id (fst p) = i"
  shows "mt_wf (st\<lparr>mt_specs := AList.update i p (mt_specs st)\<rparr>)"
  using assms set_update_subset [of i p "mt_specs st"]
  by (auto simp: mt_wf_def distinct_update)

lemma mt_wf_cong [simp]:
  "mt_wf (st\<lparr>mt_last_runs := a\<rparr>) = mt_wf st" "mt_wf (st\<lparr>mt_outputs := b\<rparr>) = mt_wf st"
  "mt_wf (st\<lparr>mt_local_state := c\<rparr>) = mt_wf st"
  by (simp_all add: mt_wf_def)

lemma mt_wf_entry: "mt_wf st \<Longrightarrow> map_of (mt_specs st) i = Some p \<Longrightarrow> sp_thread_id (fst p) = i"
  by (auto simp: mt_wf_def dest!: map_of_SomeD)

lemma mt_list_law:
  assumes "mt_wf st"
  shows "distinct (map (sp_thread_id \<circ> fst) (map snd (mt_specs st)))"
    and "p \<in> set (map snd (mt_specs st)) \<longleftrightarrow> map_of (mt_specs st) (sp_thread_id (fst p)) = Some p"
proof -
  have "map (sp_thread_id \<circ> fst) (map snd (mt_specs st)) = map fst (mt_specs st)"
    using assms by (auto simp: mt_wf_def)
  moreover have "distinct (map fst (mt_specs st))" using assms by (simp add: mt_wf_def)
  ultimately show "distinct (map (sp_thread_id \<circ> fst) (map snd (mt_specs st)))" by (simp only:)
  show "p \<in> set (map snd (mt_specs st)) \<longleftrightarrow> map_of (mt_specs st) (sp_thread_id (fst p)) = Some p"
  proof
    assume "p \<in> set (map snd (mt_specs st))"
    then obtain i where i: "(i, p) \<in> set (mt_specs st)" by auto
    then have "sp_thread_id (fst p) = i" using assms by (auto simp: mt_wf_def)
    with i assms show "map_of (mt_specs st) (sp_thread_id (fst p)) = Some p" by (simp add: mt_wf_def)
  qed (force dest: map_of_SomeD)
qed

lemmas mt_op_defs = mem_thread_ops_def mt_get_def mt_list_def mt_update_status_def mt_update_charter_def
  mt_save_last_run_def mt_save_result_def mt_save_local_state_def locked_def

interpretation mem_threads: thread_store mem_thread_ops "\<lambda>st. map_of (mt_specs st)" mt_wf
proof
  fix st st' :: mem_threads and i s c t r ls
  assume wf: "mt_wf st"
  then have np: "\<not> mt_specs_poisoned st" by (simp add: mt_wf_def)
  show "ts_get mem_thread_ops st i = Inr (map_of (mt_specs st) i)" using np by (simp add: mt_op_defs)
  have "ts_list mem_thread_ops st = Inr (map snd (mt_specs st))" using np by (simp add: mt_op_defs)
  then show "\<exists>xs. ts_list mem_thread_ops st = Inr xs \<and> distinct (map (sp_thread_id \<circ> fst) xs)
      \<and> (\<forall>p. p \<in> set xs \<longleftrightarrow> map_of (mt_specs st) (sp_thread_id (fst p)) = Some p)"
    using mt_list_law [OF wf] by blast
  show "mt_wf st' \<and> map_of (mt_specs st') =
      (map_of (mt_specs st))(i := map_option (\<lambda>(sp, _). (sp, s)) (map_of (mt_specs st) i))"
    if "ts_update_status mem_thread_ops i s st = Inr st'"
    using that np wf mt_wf_entry [OF wf, of i]
    by (auto simp: mt_op_defs update_conv' case_prod_unfold intro!: mt_wf_update split: option.splits)
  show "mt_wf st' \<and> map_of (mt_specs st') =
      (map_of (mt_specs st))(i := map_option (\<lambda>(sp, s). (sp\<lparr>sp_charter := c\<rparr>, s)) (map_of (mt_specs st) i))"
    if "ts_update_charter mem_thread_ops i c st = Inr st'"
    using that np wf mt_wf_entry [OF wf, of i]
    by (auto simp: mt_op_defs update_conv' case_prod_unfold intro!: mt_wf_update split: option.splits)
  show "mt_wf st' \<and> map_of (mt_specs st') = map_of (mt_specs st)"
    if "ts_save_last_run mem_thread_ops i t st = Inr st'"
    using that wf by (auto simp: mt_op_defs mt_wf_cong split: if_splits)
  show "mt_wf st' \<and> map_of (mt_specs st') = map_of (mt_specs st)"
    if "ts_save_result mem_thread_ops r st = Inr st'"
    using that wf by (auto simp: mt_op_defs mt_wf_cong split: if_splits)
  show "mt_wf st' \<and> map_of (mt_specs st') = map_of (mt_specs st)"
    if "ts_save_local_state mem_thread_ops i ls st = Inr st'"
    using that wf by (auto simp: mt_op_defs mt_wf_cong split: if_splits)
qed

section \<open>Properties\<close>


text \<open>
  C17. A finished thread stays finished: once a thread is completed or failed, no sequence of status
  updates, recorded runs, saved outputs or local states and charter reloads changes its status;
  only registering or removing it can.
\<close>

theorem terminal_is_final:
  assumes "(registry_step mem_thread_ops)\<^sup>*\<^sup>* st st'" "mt_wf st"
    and "map_option snd (map_of (mt_specs st) i) = Some s" "registered_is_terminal s"
  shows "map_option snd (map_of (mt_specs st') i) = Some s"
  using mem_threads.terminal_stays [OF assms(1,2)] assms(3,4) by (simp add: mem_threads.status_of_def)

lemma recent_after_save:
  assumes "\<not> mt_outputs_poisoned st"
  shows "\<exists>st'. save_output mem_thread_ops out st = Inr st'
    \<and> (\<forall>n. \<exists>rest. mt_recent_results st' (to_thread_id out) (Suc n) = Inr (result_of_output out # rest)
        \<and> mt_recent_results st (to_thread_id out) n = Inr rest)"
proof -
  let ?old = "case map_of (mt_outputs st) (to_thread_id out) of None \<Rightarrow> [] | Some rs \<Rightarrow> rs"
  have drop: "rev (drop (Suc (length rs) - Suc n) (rs @ [r])) = r # rev (drop (length rs - n) rs)" for rs r n
    by simp
  show ?thesis
    using assms drop [of ?old]
    by (auto simp: save_output_def mem_thread_ops_def mt_save_result_def mt_recent_results_def
        map_of_entry_update result_of_output_def split: option.splits)
qed

text \<open>
  Outputs are read back newest first: after an output is saved, the most recent outputs of its
  thread are that output followed by what was most recent before.
\<close>

lemma recent_outputs_after_save:
  assumes "\<not> mt_outputs_poisoned st"
  shows "\<exists>st'. save_output mem_thread_ops out st = Inr st'
    \<and> (\<forall>n. \<exists>rest. ts_recent_outputs mem_thread_ops st' (to_thread_id out) (Suc n) = Inr (out # rest)
        \<and> ts_recent_outputs mem_thread_ops st (to_thread_id out) n = Inr rest)"
proof -
  obtain st' where st': "save_output mem_thread_ops out st = Inr st'"
    "\<And>n. \<exists>rest. mt_recent_results st' (to_thread_id out) (Suc n) = Inr (result_of_output out # rest)
        \<and> mt_recent_results st (to_thread_id out) n = Inr rest"
    using recent_after_save [OF assms] by blast
  have "\<exists>rest. ts_recent_outputs mem_thread_ops st' (to_thread_id out) (Suc n) = Inr (out # rest)
        \<and> ts_recent_outputs mem_thread_ops st (to_thread_id out) n = Inr rest" for n
    using st'(2) [of n]
    by (auto simp: ts_recent_outputs_def mem_thread_ops_def result_of_output_def map_filter_simps)
  with st'(1) show ?thesis by blast
qed

section \<open>The properties at concrete inputs\<close>

definition sample_spec :: "uuid \<Rightarrow> thread_priority \<Rightarrow> thread_schedule \<Rightarrow> thread_spec" where
  "sample_spec i p sched = \<lparr>sp_thread_id = i, sp_role = ROther, sp_flavor = FCognitive, sp_name = ''t'',
     sp_charter = ''c'', sp_priority = p, sp_token_budget = 100, sp_schedule = sched, sp_workspace_root = None\<rparr>"

definition sample_threads :: mem_threads where
  "sample_threads = mem_threads_new\<lparr>mt_specs :=
     [(1, (sample_spec 1 PLow EveryTick, Cognitive ThActive)),
      (2, (sample_spec 2 PHigh (EveryNTicks 3), Cognitive ThFailed))]\<rparr>"

lemma sample_threads_wf: "mt_wf sample_threads" "\<not> mt_outputs_poisoned sample_threads"
  by (simp_all add: mt_wf_def sample_threads_def mem_threads_new_def sample_spec_def)


theorem terminal_is_final_witness:
  "map_option snd (map_of (mt_specs (or_same (reg_update_status mem_thread_ops 2 ThActive sample_threads)
     sample_threads)) 2) = Some (Cognitive ThFailed)"
  by (rule terminal_is_final [OF r_into_rtranclp [of "registry_step mem_thread_ops"] sample_threads_wf(1)])
    (auto simp: sample_threads_def mem_threads_new_def intro: registry_step.intros)

end
