(* ===== verification/Tokens.thy ===== *)
theory Tokens
  imports Exo_Prelude
begin

text \<open>
  Token counting (\<open>exoskeleton-memory/src/tokens.rs\<close>) on UTF-8 strings: the count of four
  characters per token and the truncation to a token budget at a word boundary. The trait
  \<open>TokenCounter\<close> is the locale \<open>token_counter\<close>, interpreted on the approximate counter.

  A string is the list of its UTF-8 bytes. Its characters are the runs that start at a byte that is
  not a continuation byte. Slicing a string at a byte index that is not a character boundary
  panics in Rust, so slicing returns an option.
\<close>

section \<open>UTF-8 strings\<close>

definition is_cont :: "char \<Rightarrow> bool" where
  "is_cont c \<longleftrightarrow> 128 \<le> (of_char c :: nat) \<and> (of_char c :: nat) < 192"

function utf8_chars :: "string \<Rightarrow> string list" where
  "utf8_chars [] = []"
| "utf8_chars (c # cs) = (c # takeWhile is_cont cs) # utf8_chars (dropWhile is_cont cs)"
  by pat_completeness auto
termination by (relation "measure length") (auto intro: le_imp_less_Suc length_dropWhile_le)

definition char_count :: "string \<Rightarrow> nat" where
  "char_count s = length (utf8_chars s)"

text \<open>\<open>&s[..i]\<close>: \<open>None\<close> is the panic at an index that is no character boundary.\<close>

definition slice_to :: "nat \<Rightarrow> string \<Rightarrow> string option" where
  "slice_to i s = (if i = length s \<or> (i < length s \<and> (i = 0 \<or> \<not> is_cont (s ! i))) then Some (take i s) else None)"

text \<open>\<open>char::is_whitespace\<close>: the code points of the Unicode property, in UTF-8.\<close>

definition is_whitespace :: "string \<Rightarrow> bool" where
  "is_whitespace ch \<longleftrightarrow> List.member
     ([[CHR 0x09], [CHR 0x0A], [CHR 0x0B], [CHR 0x0C], [CHR 0x0D], [CHR 0x20],
       [CHR 0xC2, CHR 0x85], [CHR 0xC2, CHR 0xA0], [CHR 0xE1, CHR 0x9A, CHR 0x80]]
      @ map (\<lambda>b. [CHR 0xE2, CHR 0x80, char_of b]) ([128..<139] @ [168, 169, 175 :: nat])
      @ [[CHR 0xE2, CHR 0x81, CHR 0x9F], [CHR 0xE3, CHR 0x80, CHR 0x80]]) ch"

text \<open>\<open>str::trim\<close>.\<close>

definition str_trim :: "string \<Rightarrow> string" where
  "str_trim s = concat (rev (dropWhile is_whitespace (rev (dropWhile is_whitespace (utf8_chars s)))))"

section \<open>The approximate counter\<close>

definition approximate_token_count :: "string \<Rightarrow> u64" where
  "approximate_token_count tx = of_nat ((char_count tx + 3) div 4)"

text \<open>The characters before the last whitespace character, or all of them.\<close>

definition before_last_whitespace :: "string list \<Rightarrow> string list" where
  "before_last_whitespace cs =
     (if list_ex is_whitespace cs then rev (tl (dropWhile (\<lambda>c. \<not> is_whitespace c) (rev cs))) else cs)"

definition truncate_to_budget :: "string \<Rightarrow> u64 \<Rightarrow> string" where
  "truncate_to_budget tx budget =
     (if budget = 0 then []
      else if approximate_token_count tx \<le> budget then tx
      else concat (before_last_whitespace (take (unat (budget * 4)) (utf8_chars tx))))"

section \<open>Characters and bytes\<close>

lemma concat_utf8_chars: "concat (utf8_chars s) = s"
  by (induction s rule: utf8_chars.induct) simp_all

text \<open>A character: a byte followed by continuation bytes.\<close>

definition is_char :: "string \<Rightarrow> bool" where
  "is_char ch \<longleftrightarrow> (case ch of [] \<Rightarrow> False | _ # bs \<Rightarrow> list_all is_cont bs)"

lemma utf8_chars_are_chars: "ch \<in> set (utf8_chars s) \<Longrightarrow> is_char ch"
  by (induction s rule: utf8_chars.induct)
    (auto simp: is_char_def list_all_iff dest: set_takeWhileD)

lemma char_count_append_cont: "list_all is_cont bs \<Longrightarrow> char_count (c # bs @ s) = Suc (char_count (dropWhile is_cont s))"
  by (simp add: char_count_def dropWhile_append2 list_all_iff)

lemma char_count_dropWhile: "char_count (dropWhile is_cont s) \<le> char_count s"
proof (cases s)
  case (Cons c cs)
  then show ?thesis
    by (cases "is_cont c") (simp_all add: char_count_def)
qed (simp add: char_count_def)

lemma char_count_chars: "\<forall>ch \<in> set chs. is_char ch \<Longrightarrow> char_count (concat chs) \<le> length chs"
proof (induction chs)
  case Nil
  then show ?case by (simp add: char_count_def)
next
  case (Cons ch chs)
  then obtain c bs where ch: "ch = c # bs" "list_all is_cont bs" by (cases ch) (auto simp: is_char_def)
  have "char_count (concat (ch # chs)) = Suc (char_count (dropWhile is_cont (concat chs)))"
    using ch by (simp add: char_count_append_cont)
  also have "\<dots> \<le> Suc (length chs)" using Cons char_count_dropWhile [of "concat chs"] by force
  finally show ?case by simp
qed

lemma char_count_append: "char_count (s @ t) \<le> char_count s + char_count t"
proof (induction s rule: utf8_chars.induct)
  case 1
  then show ?case by (simp add: char_count_def)
next
  case (2 c cs)
  show ?case
  proof (cases "\<forall>x \<in> set cs. is_cont x")
    case True
    then have "char_count ((c # cs) @ t) = Suc (char_count (dropWhile is_cont t))"
      using char_count_append_cont [of cs c t] by (simp add: list_all_iff)
    moreover have "1 \<le> char_count (c # cs)" by (simp add: char_count_def)
    ultimately show ?thesis using char_count_dropWhile [of t] by linarith
  next
    case False
    then have "dropWhile is_cont (cs @ t) = dropWhile is_cont cs @ t" by (auto simp: dropWhile_append1)
    with 2 show ?thesis by (simp add: char_count_def)
  qed
qed

lemma char_count_le_length: "char_count s \<le> length s"
proof (induction s rule: utf8_chars.induct)
  case (2 c cs)
  then show ?case using length_dropWhile_le [of is_cont cs] by (simp add: char_count_def)
qed (simp add: char_count_def)

lemma unat_token_count:
  assumes "length s < 2 ^ 64"
  shows "unat (approximate_token_count s) = (char_count s + 3) div 4"
proof -
  have "(char_count s + 3) div 4 < 2 ^ 64" using assms char_count_le_length [of s] by simp
  then show ?thesis by (simp add: approximate_token_count_def unat_of_nat)
qed

lemma before_last_whitespace_prefix: "\<exists>r. cs = before_last_whitespace cs @ r"
proof (cases "list_ex is_whitespace cs")
  case True
  let ?d = "dropWhile (\<lambda>c. \<not> is_whitespace c) (rev cs)"
  have "?d \<noteq> []" using True by (auto simp: list_ex_iff dropWhile_eq_Nil_conv)
  then have "rev cs = takeWhile (\<lambda>c. \<not> is_whitespace c) (rev cs) @ [hd ?d] @ tl ?d" by simp
  then have "cs = rev (tl ?d) @ [hd ?d] @ rev (takeWhile (\<lambda>c. \<not> is_whitespace c) (rev cs))"
    by (metis append_assoc rev_append rev_rev_ident rev_singleton_conv)
  with True show ?thesis by (auto simp: before_last_whitespace_def)
qed (simp add: before_last_whitespace_def)

lemma truncate_long:
  assumes "length tx < 2 ^ 64" "\<not> approximate_token_count tx \<le> budget"
  shows "unat (budget * 4) = 4 * unat budget"
proof -
  have "unat budget < (char_count tx + 3) div 4"
    using assms unat_token_count by (simp add: word_le_nat_alt)
  then have "4 * unat budget < 2 ^ 64" using assms(1) char_count_le_length [of tx] by linarith
  then have "unat (budget * 4 :: u64) = unat budget * unat (4 :: u64)"
    by (subst unat_mult_lem [symmetric]) simp
  then show ?thesis by simp
qed

lemma truncate_fits:
  assumes "length tx < 2 ^ 64"
  shows "approximate_token_count (truncate_to_budget tx budget) \<le> budget"
proof (cases "budget = 0 \<or> approximate_token_count tx \<le> budget")
  case True
  then show ?thesis by (auto simp: truncate_to_budget_def approximate_token_count_def char_count_def)
next
  case False
  let ?cs = "take (4 * unat budget) (utf8_chars tx)"
  obtain r where r: "?cs = before_last_whitespace ?cs @ r" using before_last_whitespace_prefix by blast
  have "\<forall>ch \<in> set (before_last_whitespace ?cs). is_char ch"
    using r utf8_chars_are_chars by (metis Un_iff in_set_takeD set_append)
  then have "char_count (concat (before_last_whitespace ?cs)) \<le> length (before_last_whitespace ?cs)"
    by (rule char_count_chars)
  also have "\<dots> \<le> 4 * unat budget" using arg_cong [OF r, of length] by simp
  finally have n: "char_count (concat (before_last_whitespace ?cs)) \<le> 4 * unat budget" .
  have t: "truncate_to_budget tx budget = concat (before_last_whitespace ?cs)"
    using False truncate_long [OF assms] by (simp add: truncate_to_budget_def)
  have "concat (before_last_whitespace ?cs) @ concat r @ concat (drop (4 * unat budget) (utf8_chars tx)) = tx"
    by (metis append_assoc append_take_drop_id concat_append concat_utf8_chars r)
  then have "length (concat (before_last_whitespace ?cs)) < 2 ^ 64"
    using assms by (metis le_add1 le_less_trans length_append)
  from unat_token_count [OF this] n t show ?thesis by (simp add: word_le_nat_alt)
qed

lemma truncate_prefix: "\<exists>rest. tx = truncate_to_budget tx budget @ rest"
proof -
  let ?n = "unat (budget * 4)"
  obtain r where "take ?n (utf8_chars tx) = before_last_whitespace (take ?n (utf8_chars tx)) @ r"
    using before_last_whitespace_prefix by blast
  then have "tx = concat (before_last_whitespace (take ?n (utf8_chars tx))) @ concat r
      @ concat (drop ?n (utf8_chars tx))"
    by (metis append_assoc append_take_drop_id concat_append concat_utf8_chars)
  then show ?thesis by (auto simp: truncate_to_budget_def)
qed

section \<open>The counter as an interface\<close>

text \<open>
  What the context compiler relies on: truncation meets its budget, the empty text costs nothing,
  and joining two texts with a newline costs at most one token more than the two.
\<close>

locale token_counter =
  fixes count :: "string \<Rightarrow> u64" and truncate :: "string \<Rightarrow> u64 \<Rightarrow> string"
  assumes truncate_law: "length tx < 2 ^ 64 \<Longrightarrow> count (truncate tx b) \<le> b"
    and truncate_shorter: "length (truncate tx b) \<le> length tx"
    and count_empty: "count [] = 0"
    and count_join: "length (s @ [CHR 0x0A] @ t) < 2 ^ 64 \<Longrightarrow>
      unat (count (s @ [CHR 0x0A] @ t)) \<le> unat (count s) + 1 + unat (count t)"

interpretation approximate: token_counter approximate_token_count truncate_to_budget
proof
  show "length tx < 2 ^ 64 \<Longrightarrow> approximate_token_count (truncate_to_budget tx b) \<le> b" for tx b
    by (rule truncate_fits)
  show "length (truncate_to_budget tx b) \<le> length tx" for tx b
    using truncate_prefix [of tx b] by (metis le_add1 length_append)
  show "approximate_token_count [] = 0" by (simp add: approximate_token_count_def char_count_def)
  fix s t :: string
  assume len: "length (s @ [CHR 0x0A] @ t) < 2 ^ 64"
  have "char_count (s @ [CHR 0x0A] @ t) \<le> char_count s + 1 + char_count t"
    using char_count_append [of s "[CHR 0x0A] @ t"] char_count_append [of "[CHR 0x0A]" t]
      char_count_le_length [of "[CHR 0x0A]"] by simp
  then show "unat (approximate_token_count (s @ [CHR 0x0A] @ t)) \<le>
      unat (approximate_token_count s) + 1 + unat (approximate_token_count t)"
    using len unat_token_count [OF len] unat_token_count [of s] unat_token_count [of t] by simp
qed



end
