(* ===== verification/State_Snapshot.thy ===== *)
theory State_Snapshot
  imports Budget Plans Working_Memory Threads Tokens
begin

text \<open>
  The state of a vessel between ticks (\<open>exoskeleton-core/src/snapshot.rs\<close>, \<open>vessel_mode.rs\<close>) and the
  entries of its episodic and long-term memory (\<open>exoskeleton-core/src/memory.rs\<close>).
\<close>

datatype vessel_mode = MNormal | MPlanning | MExecuting

datatype vessel_status = VIdle | VThinking | VActing | VReflecting | VSuspended | VShutdown

fun vessel_status_is_terminal :: "vessel_status \<Rightarrow> bool" where
  "vessel_status_is_terminal VSuspended = True"
| "vessel_status_is_terminal VShutdown = True"
| "vessel_status_is_terminal _ = False"

fun vessel_status_debug :: "vessel_status \<Rightarrow> string" where
  "vessel_status_debug VIdle = ''Idle''"
| "vessel_status_debug VThinking = ''Thinking''"
| "vessel_status_debug VActing = ''Acting''"
| "vessel_status_debug VReflecting = ''Reflecting''"
| "vessel_status_debug VSuspended = ''Suspended''"
| "vessel_status_debug VShutdown = ''Shutdown''"

record state_snapshot =
  ss_vessel_id :: uuid
  ss_tick_number :: u64
  ss_mission :: string
  ss_plan :: "plan option"
  ss_status :: vessel_status
  ss_vessel_mode :: vessel_mode
  ss_working_memory :: working_memory
  ss_thread_summaries :: "thread_summary list"
  ss_exec_thread_summaries :: "exec_thread_summary list"
  ss_relationship_snapshot_ref :: "artifact_id option"
  ss_budget_status :: budget_status
  ss_last_action_summary :: "string option"
  ss_started_at :: "datetime option"
  ss_updated_at :: datetime

definition snapshot_initial :: "datetime \<Rightarrow> uuid \<Rightarrow> string \<Rightarrow> state_snapshot" where
  "snapshot_initial now vessel_id mission = \<lparr>
     ss_vessel_id = vessel_id,
     ss_tick_number = 0,
     ss_mission = mission,
     ss_plan = None,
     ss_status = VIdle,
     ss_vessel_mode = MNormal,
     ss_working_memory = wm_new,
     ss_thread_summaries = [],
     ss_exec_thread_summaries = [],
     ss_relationship_snapshot_ref = None,
     ss_budget_status = budget_status_unlimited,
     ss_last_action_summary = None,
     ss_started_at = Some now,
     ss_updated_at = now\<rparr>"

section \<open>Memory entries\<close>

record episodic_summary =
  ep_id :: artifact_id
  ep_start_tick :: u64
  ep_end_tick :: u64
  ep_summary :: string
  ep_key_events :: "string list"
  ep_token_count :: u64
  ep_created_at :: datetime

record long_term_note =
  lt_id :: artifact_id
  lt_topic :: string
  lt_content :: string
  lt_tags :: "string list"
  lt_token_count :: u64
  lt_created_at :: datetime

text \<open>
  \<open>EpisodicSummary::new\<close>: the id hashes the JSON text of the four fields. Writing JSON and
  hashing are library functions: \<open>to_json_text\<close> and \<open>sha256_hex\<close>.
\<close>

definition episodic_new ::
  "(json \<Rightarrow> string) \<Rightarrow> (string \<Rightarrow> artifact_id) \<Rightarrow> datetime \<Rightarrow>
   u64 \<Rightarrow> u64 \<Rightarrow> string \<Rightarrow> string list \<Rightarrow> episodic_summary" where
  "episodic_new to_json_text sha256_hex now start_tick end_tick summary key_events = \<lparr>
     ep_id = sha256_hex (to_json_text (JObj [
       (''start_tick'', JInt (uint start_tick)),
       (''end_tick'', JInt (uint end_tick)),
       (''summary'', JStr summary),
       (''key_events'', JArr (map JStr key_events))])),
     ep_start_tick = start_tick,
     ep_end_tick = end_tick,
     ep_summary = summary,
     ep_key_events = key_events,
     ep_token_count = of_nat (length summary div 4),
     ep_created_at = now\<rparr>"

end
