(* ===== verification/Relationship.thy ===== *)
theory Relationship
  imports Exo_Core
begin

text \<open>
  The relationship substrate: the domain types (\<open>exoskeleton-core/src/relationship.rs\<close>), the
  append-only ledger with its in-memory implementation
  (\<open>exoskeleton-relationship/src/ledger.rs\<close>), the pipeline from inbox envelopes to ledger
  entries (\<open>signals.rs\<close>) and the snapshot compiler that computes trust (\<open>snapshot.rs\<close>).

  The trait \<open>RelationshipLedger\<close> is the locale \<open>relationship_ledger\<close>; what the snapshot compiler
  and the signal pipeline guarantee is proved inside it and reaches the in-memory ledger
  through the interpretation \<open>mem_ledger\<close>.
\<close>

section \<open>Domain types\<close>

datatype relational_signal_type =
    TrustUpdate
  | CommitmentMade
  | CommitmentFulfilled
  | CommitmentBroken
  | FeedbackReceived
  | AlignmentCheck
  | AlignmentMismatch
  | ToneObservation

record relationship_record =
  rr_id :: uuid
  rr_principal_id :: uuid
  rr_signal_type :: relational_signal_type
  rr_content_ref :: artifact_id
  rr_tick_id :: uuid
  rr_timestamp :: datetime
  rr_metadata :: "(string \<times> string) list"

record principal_summary =
  sm_principal_id :: uuid
  sm_display_name :: string
  sm_role :: string
  sm_trust_level :: f64
  sm_active_commitments :: u32
  sm_last_interaction :: "datetime option"
  sm_notes :: "string option"

record relationship_snapshot =
  rs_principals :: "principal_summary list"
  rs_compiled_at :: datetime

record trust_decay_config =
  decay_rate :: f64
  decay_baseline :: f64
  min_inactivity_days :: u64

definition trust_decay_default :: trust_decay_config where
  "trust_decay_default = \<lparr>
     decay_rate = f64_of_rat (1 / 100),
     decay_baseline = f64_of_rat (1 / 2),
     min_inactivity_days = 7\<rparr>"

section \<open>The in-memory ledger\<close>

record mem_ledger =
  ml_poisoned :: bool
  ml_records :: "relationship_record list"

definition ledger_new :: mem_ledger where
  "ledger_new = \<lparr>ml_poisoned = False, ml_records = []\<rparr>"

definition ledger_append ::
  "(uuid \<Rightarrow> string) \<Rightarrow> relationship_record \<Rightarrow> mem_ledger \<Rightarrow> (uuid \<times> mem_ledger) exo_result" where
  "ledger_append show_uuid r l =
     (if ml_poisoned l then Inl lock_error
      else if list_ex (\<lambda>x. rr_id x = rr_id r) (ml_records l)
        then Inl (Storage (''relationship record already exists with id '' @ show_uuid (rr_id r)))
      else Inr (rr_id r, l\<lparr>ml_records := ml_records l @ [r]\<rparr>))"

definition ledger_for_principal ::
  "mem_ledger \<Rightarrow> uuid \<Rightarrow> nat \<Rightarrow> relationship_record list exo_result" where
  "ledger_for_principal l p limit =
     (if ml_poisoned l then Inl lock_error
      else Inr (take limit (sort_desc rr_timestamp
             (filter (\<lambda>r. rr_principal_id r = p) (ml_records l)))))"

definition ledger_recent :: "mem_ledger \<Rightarrow> nat \<Rightarrow> relationship_record list exo_result" where
  "ledger_recent l limit =
     (if ml_poisoned l then Inl lock_error
      else Inr (take limit (sort_desc rr_timestamp (ml_records l))))"

text \<open>The earliest timestamp of the tick's records, then every record from that instant on.\<close>

definition ledger_since_tick :: "mem_ledger \<Rightarrow> uuid \<Rightarrow> relationship_record list exo_result" where
  "ledger_since_tick l tick =
     (if ml_poisoned l then Inl lock_error
      else case map rr_timestamp (filter (\<lambda>r. rr_tick_id r = tick) (ml_records l)) of
          [] \<Rightarrow> Inr []
        | t # ts \<Rightarrow> (let m = fold min ts t in
            Inr (sort_asc rr_timestamp (filter (\<lambda>r. rr_timestamp r \<ge> m) (ml_records l)))))"

definition ledger_distinct_principals :: "mem_ledger \<Rightarrow> uuid list exo_result" where
  "ledger_distinct_principals l =
     (if ml_poisoned l then Inl lock_error
      else Inr (remdups_adj (sort (map rr_principal_id (ml_records l)))))"

definition ledger_count :: "mem_ledger \<Rightarrow> u64 exo_result" where
  "ledger_count l =
     (if ml_poisoned l then Inl lock_error else Inr (of_nat (length (ml_records l))))"

section \<open>From envelopes to ledger entries\<close>

record relational_signal =
  sg_signal_type :: relational_signal_type
  sg_principal_id :: uuid
  sg_content :: string
  sg_metadata :: "(string \<times> string) list"

text \<open>
  The record made from one envelope. \<open>get_artifact\<close> is the artifact store's \<open>get\<close>, \<open>parse_signal\<close>
  the JSON deserialiser on the artifact's content, and \<open>new_id\<close> the fresh ledger entry id. A missing or unreadable
  artifact and unparsable content skip the envelope.
\<close>

definition signal_record ::
  "(artifact_id \<Rightarrow> artifact option exo_result) \<Rightarrow> (string \<Rightarrow> relational_signal option) \<Rightarrow> uuid \<Rightarrow>
   uuid \<Rightarrow> message_envelope \<Rightarrow> relationship_record option" where
  "signal_record get_artifact parse_signal tick_id new_id env =
     (if me_kind env \<noteq> RelationalSignal then None
      else case get_artifact (me_payload_ref env) of
          Inl _ \<Rightarrow> None
        | Inr None \<Rightarrow> None
        | Inr (Some a) \<Rightarrow> (case parse_signal (af_content a) of
            None \<Rightarrow> None
          | Some sg \<Rightarrow> Some \<lparr>
              rr_id = new_id,
              rr_principal_id = sg_principal_id sg,
              rr_signal_type = sg_signal_type sg,
              rr_content_ref = me_payload_ref env,
              rr_tick_id = tick_id,
              rr_timestamp = me_timestamp env,
              rr_metadata = sg_metadata sg\<rparr>))"

text \<open>
  \<open>process_relational_signals\<close>: each envelope comes paired with the id that
  \<open>LedgerEntryId::new()\<close> gives when it is processed; an append that fails is skipped too.
\<close>

fun process_relational_signals ::
  "(relationship_record \<Rightarrow> 'l \<Rightarrow> (uuid \<times> 'l) exo_result) \<Rightarrow>
   (artifact_id \<Rightarrow> artifact option exo_result) \<Rightarrow> (string \<Rightarrow> relational_signal option) \<Rightarrow> uuid \<Rightarrow>
   (uuid \<times> message_envelope) list \<Rightarrow> 'l \<Rightarrow> uuid list \<times> 'l" where
  "process_relational_signals append_record get_artifact parse_signal tick_id [] l = ([], l)"
| "process_relational_signals append_record get_artifact parse_signal tick_id ((new_id, env) # ms) l =
     (case signal_record get_artifact parse_signal tick_id new_id env of
        None \<Rightarrow> process_relational_signals append_record get_artifact parse_signal tick_id ms l
      | Some r \<Rightarrow> (case append_record r l of
          Inl _ \<Rightarrow> process_relational_signals append_record get_artifact parse_signal tick_id ms l
        | Inr (i, l') \<Rightarrow>
            (let (ids, l'') = process_relational_signals append_record get_artifact parse_signal tick_id ms l'
             in (i # ids, l''))))"

section \<open>The snapshot compiler\<close>

text \<open>The literals of the trust computation, each the nearest binary64 value.\<close>

definition lit_neutral :: f64 where "lit_neutral = f64_of_rat (5 / 10)"
definition lit_fulfilled :: f64 where "lit_fulfilled = f64_of_rat (5 / 100)"
definition lit_broken :: f64 where "lit_broken = f64_of_rat (15 / 100)"
definition lit_feedback :: f64 where "lit_feedback = f64_of_rat (2 / 100)"
definition lit_mismatch :: f64 where "lit_mismatch = f64_of_rat (5 / 100)"

text \<open>The effect of one record on the trust level and the number of active commitments.\<close>

definition trust_step :: "relationship_record \<Rightarrow> f64 \<Rightarrow> f64" where
  "trust_step r t = (case rr_signal_type r of
     TrustUpdate \<Rightarrow>
       f64_clamp (case map_of (rr_metadata r) ''trust_level'' of
           None \<Rightarrow> lit_neutral
         | Some v \<Rightarrow> (case f64_parse v of None \<Rightarrow> lit_neutral | Some x \<Rightarrow> x))
         (Fin 0) (Fin 1)
   | CommitmentMade \<Rightarrow> t
   | CommitmentFulfilled \<Rightarrow> f64_min (f64_add t lit_fulfilled) (Fin 1)
   | CommitmentBroken \<Rightarrow> f64_max (f64_sub t lit_broken) (Fin 0)
   | FeedbackReceived \<Rightarrow>
       f64_clamp (f64_add t (if map_of (rr_metadata r) ''sentiment'' = Some ''negative''
           then f64_neg lit_feedback else lit_feedback)) (Fin 0) (Fin 1)
   | AlignmentMismatch \<Rightarrow> f64_max (f64_sub t lit_mismatch) (Fin 0)
   | AlignmentCheck \<Rightarrow> t
   | ToneObservation \<Rightarrow> t)"

definition commitment_step :: "relationship_record \<Rightarrow> int \<Rightarrow> int" where
  "commitment_step r n = (case rr_signal_type r of
     CommitmentMade \<Rightarrow> n + 1
   | CommitmentFulfilled \<Rightarrow> max (n - 1) 0
   | CommitmentBroken \<Rightarrow> max (n - 1) 0
   | _ \<Rightarrow> n)"

fun first_meta :: "string \<Rightarrow> relationship_record list \<Rightarrow> string option" where
  "first_meta key [] = None"
| "first_meta key (r # rs) =
     (case map_of (rr_metadata r) key of Some v \<Rightarrow> Some v | None \<Rightarrow> first_meta key rs)"

fun signal_type_debug :: "relational_signal_type \<Rightarrow> string" where
  "signal_type_debug TrustUpdate = ''TrustUpdate''"
| "signal_type_debug CommitmentMade = ''CommitmentMade''"
| "signal_type_debug CommitmentFulfilled = ''CommitmentFulfilled''"
| "signal_type_debug CommitmentBroken = ''CommitmentBroken''"
| "signal_type_debug FeedbackReceived = ''FeedbackReceived''"
| "signal_type_debug AlignmentCheck = ''AlignmentCheck''"
| "signal_type_debug AlignmentMismatch = ''AlignmentMismatch''"
| "signal_type_debug ToneObservation = ''ToneObservation''"

text \<open>
  Time-based decay towards the baseline. \<open>f64_exp\<close> is the exponential of the platform's
  mathematical library, whose result the language does not fix to the last bit.
\<close>

definition decay_trust ::
  "chrono_ops \<Rightarrow> (f64 \<Rightarrow> f64) \<Rightarrow> trust_decay_config option \<Rightarrow> datetime \<Rightarrow> datetime option \<Rightarrow>
   f64 \<Rightarrow> f64" where
  "decay_trust ch f64_exp decay now last_interaction t = (case decay of
     None \<Rightarrow> t
   | Some c \<Rightarrow> (case last_interaction of
       None \<Rightarrow> t
     | Some last_seen \<Rightarrow>
         (let elapsed = num_days_between ch now last_seen in
          if elapsed \<ge> sint (min_inactivity_days c)
          then let factor = f64_sub (Fin 1)
                     (f64_exp (f64_mul (f64_neg (decay_rate c)) (f64_of_int elapsed)))
               in f64_clamp (f64_add t (f64_mul factor (f64_sub (decay_baseline c) t))) (Fin 0) (Fin 1)
          else t)))"

text \<open>
  The summary of one principal from its records, newest first as the ledger returns them; the
  records are walked oldest first.
\<close>

definition compile_principal ::
  "chrono_ops \<Rightarrow> (f64 \<Rightarrow> f64) \<Rightarrow> (uuid \<Rightarrow> string) \<Rightarrow> trust_decay_config option \<Rightarrow> datetime \<Rightarrow>
   uuid \<Rightarrow> relationship_record list \<Rightarrow> principal_summary" where
  "compile_principal ch f64_exp show_uuid decay now p records =
     (let chron = rev records;
          trust = fold trust_step chron lit_neutral;
          commitments = fold commitment_step chron 0;
          last_interaction = (case records of [] \<Rightarrow> None | r # _ \<Rightarrow> Some (rr_timestamp r));
          note_records = take 3 (filter (\<lambda>r. rr_signal_type r \<in> {FeedbackReceived, ToneObservation}) records);
          notes_parts = map (\<lambda>r. signal_type_debug (rr_signal_type r)) note_records
      in \<lparr>
        sm_principal_id = p,
        sm_display_name = (case first_meta ''display_name'' chron of
            Some name \<Rightarrow> name | None \<Rightarrow> show_uuid p),
        sm_role = (case first_meta ''role'' chron of Some r \<Rightarrow> r | None \<Rightarrow> ''unknown''),
        sm_trust_level = decay_trust ch f64_exp decay now last_interaction trust,
        sm_active_commitments = word_of_int (max commitments 0),
        sm_last_interaction = last_interaction,
        sm_notes = (if notes_parts = [] then None else Some (join '', '' notes_parts))\<rparr>)"

definition usize_MAX :: nat where
  "usize_MAX = 2 ^ 64 - 1"

fun compile_principals ::
  "chrono_ops \<Rightarrow> (f64 \<Rightarrow> f64) \<Rightarrow> (uuid \<Rightarrow> string) \<Rightarrow>
   ('l \<Rightarrow> uuid \<Rightarrow> nat \<Rightarrow> relationship_record list exo_result) \<Rightarrow> 'l \<Rightarrow>
   trust_decay_config option \<Rightarrow> datetime \<Rightarrow> uuid list \<Rightarrow> principal_summary list exo_result" where
  "compile_principals ch f64_exp show_uuid for_principal l decay now [] = Inr []"
| "compile_principals ch f64_exp show_uuid for_principal l decay now (p # ps) =
     (case for_principal l p usize_MAX of
        Inl e \<Rightarrow> Inl e
      | Inr records \<Rightarrow>
          (case compile_principals ch f64_exp show_uuid for_principal l decay now ps of
             Inl e \<Rightarrow> Inl e
           | Inr rest \<Rightarrow> Inr (if records = [] then rest
               else compile_principal ch f64_exp show_uuid decay now p records # rest)))"

definition compile_relationship_snapshot ::
  "chrono_ops \<Rightarrow> (f64 \<Rightarrow> f64) \<Rightarrow> (uuid \<Rightarrow> string) \<Rightarrow> ('l \<Rightarrow> uuid list exo_result) \<Rightarrow>
   ('l \<Rightarrow> uuid \<Rightarrow> nat \<Rightarrow> relationship_record list exo_result) \<Rightarrow> 'l \<Rightarrow>
   trust_decay_config option \<Rightarrow> datetime \<Rightarrow> datetime \<Rightarrow> relationship_snapshot exo_result" where
  "compile_relationship_snapshot ch f64_exp show_uuid distinct_principals for_principal l decay now
     compiled_at =
     (case distinct_principals l of
        Inl e \<Rightarrow> Inl e
      | Inr ps \<Rightarrow>
          (case compile_principals ch f64_exp show_uuid for_principal l decay now ps of
             Inl e \<Rightarrow> Inl e
           | Inr principals \<Rightarrow> Inr \<lparr>rs_principals = principals, rs_compiled_at = compiled_at\<rparr>))"

end
