(* ===== verification/Conversations.thy ===== *)
theory Conversations
  imports Exo_Core "HOL-Library.Multiset"
begin

text \<open>
  Conversations (\<open>exoskeleton-core/src/conversation.rs\<close>), the grouping of incoming envelopes into
  them by the Perceive step (\<open>exoskeleton-host/src/kernel/perceive.rs\<close>) and the detection of stale
  conversations by the Amend step (\<open>amend.rs\<close>).

  The trait \<open>ConversationStore\<close> is the locale \<open>conversation_store\<close>: grouping and staleness are proved
  to lose and invent no message for every store that keeps its laws, and the in-memory store is
  its interpretation \<open>mem_conversations\<close>.
\<close>

section \<open>Types\<close>

record conversation_message =
  cm_envelope_id :: uuid
  cm_source :: uuid
  cm_payload_ref :: artifact_id
  cm_timestamp :: datetime

datatype conversation_state = CActive | CStale | CClosed

record conversation =
  cv_id :: uuid
  cv_participants :: "uuid list"
  cv_message_refs :: "conversation_message list"
  cv_state :: conversation_state
  cv_topic :: "string option"
  cv_created_at :: datetime
  cv_updated_at :: datetime

definition from_first_message :: "uuid \<Rightarrow> uuid \<Rightarrow> uuid \<Rightarrow> artifact_id \<Rightarrow> datetime \<Rightarrow> conversation" where
  "from_first_message new_id source envelope_id payload_ref timestamp = \<lparr>
     cv_id = new_id,
     cv_participants = [source],
     cv_message_refs = [\<lparr>cm_envelope_id = envelope_id, cm_source = source,
       cm_payload_ref = payload_ref, cm_timestamp = timestamp\<rparr>],
     cv_state = CActive,
     cv_topic = None,
     cv_created_at = timestamp,
     cv_updated_at = timestamp\<rparr>"

definition add_message :: "uuid \<Rightarrow> uuid \<Rightarrow> artifact_id \<Rightarrow> datetime \<Rightarrow> conversation \<Rightarrow> conversation" where
  "add_message source envelope_id payload_ref timestamp c =
     (let c1 = (if List.member (cv_participants c) source then c
                else c\<lparr>cv_participants := cv_participants c @ [source]\<rparr>);
          c2 = c1\<lparr>cv_message_refs := cv_message_refs c1 @ [\<lparr>cm_envelope_id = envelope_id, cm_source = source,
                   cm_payload_ref = payload_ref, cm_timestamp = timestamp\<rparr>],
                 cv_updated_at := timestamp\<rparr>
      in if cv_state c2 = CStale then c2\<lparr>cv_state := CActive\<rparr> else c2)"

section \<open>The in-memory store\<close>

record mem_conversations =
  mc_poisoned :: bool
  mc_conversations :: "conversation list"

definition conv_store_new :: mem_conversations where
  "conv_store_new = \<lparr>mc_poisoned = False, mc_conversations = []\<rparr>"

text \<open>Replace the conversation with the same id, or add a new one at the end.\<close>

definition upsert :: "conversation \<Rightarrow> conversation list \<Rightarrow> conversation list" where
  "upsert c cs = (if list_ex (\<lambda>x. cv_id x = cv_id c) cs
     then update_first (\<lambda>x. cv_id x = cv_id c) (\<lambda>_. c) cs else cs @ [c])"

definition conv_save :: "conversation \<Rightarrow> mem_conversations \<Rightarrow> mem_conversations exo_result" where
  "conv_save c st = (if mc_poisoned st then Inl lock_error
     else Inr (st\<lparr>mc_conversations := upsert c (mc_conversations st)\<rparr>))"

definition conv_get :: "mem_conversations \<Rightarrow> uuid \<Rightarrow> conversation option exo_result" where
  "conv_get st i = (if mc_poisoned st then Inl lock_error
     else Inr (List.find (\<lambda>c. cv_id c = i) (mc_conversations st)))"

definition conv_find_by_envelope :: "mem_conversations \<Rightarrow> uuid \<Rightarrow> uuid option exo_result" where
  "conv_find_by_envelope st e = (if mc_poisoned st then Inl lock_error
     else Inr (map_option cv_id (List.find
       (\<lambda>c. list_ex (\<lambda>m. cm_envelope_id m = e) (cv_message_refs c)) (mc_conversations st))))"

definition conv_find_by_principal :: "mem_conversations \<Rightarrow> uuid \<Rightarrow> nat \<Rightarrow> conversation list exo_result" where
  "conv_find_by_principal st p limit = (if mc_poisoned st then Inl lock_error
     else Inr (take limit (filter (\<lambda>c. List.member (cv_participants c) p) (mc_conversations st))))"

definition active_conversations :: "mem_conversations \<Rightarrow> nat \<Rightarrow> conversation list exo_result" where
  "active_conversations st limit = (if mc_poisoned st then Inl lock_error
     else Inr (take limit (sort_desc cv_updated_at
       (filter (\<lambda>c. cv_state c = CActive) (mc_conversations st)))))"

section \<open>Grouping\<close>

text \<open>The operations of a store that the kernel calls.\<close>

record 's conv_ops =
  co_save :: "conversation \<Rightarrow> 's \<Rightarrow> 's exo_result"
  co_get :: "'s \<Rightarrow> uuid \<Rightarrow> conversation option exo_result"
  co_find_by_envelope :: "'s \<Rightarrow> uuid \<Rightarrow> uuid option exo_result"
  co_active :: "'s \<Rightarrow> nat \<Rightarrow> conversation list exo_result"

definition mem_ops :: "mem_conversations conv_ops" where
  "mem_ops = \<lparr>co_save = conv_save, co_get = conv_get, co_find_by_envelope = conv_find_by_envelope,
     co_active = active_conversations\<rparr>"

definition GROUPING_WINDOW_SECS :: int where
  "GROUPING_WINDOW_SECS = 600"

definition with_envelope :: "message_envelope \<Rightarrow> conversation \<Rightarrow> conversation" where
  "with_envelope e c = add_message (me_source e) (me_id e) (me_payload_ref e) (me_timestamp e) c"

definition in_window :: "chrono_ops \<Rightarrow> message_envelope \<Rightarrow> conversation \<Rightarrow> bool" where
  "in_window ch e c \<longleftrightarrow> List.member (cv_participants c) (me_source e)
     \<and> diff_lt_seconds ch (me_timestamp e) (cv_updated_at c) GROUPING_WINDOW_SECS"

text \<open>The conversation that an explicit reply names, if the parent is known.\<close>

definition reply_target :: "'s conv_ops \<Rightarrow> message_envelope \<Rightarrow> 's \<Rightarrow> conversation option exo_result" where
  "reply_target ops e st = (case me_in_reply_to e of
     None \<Rightarrow> Inr None
   | Some parent_id \<Rightarrow> (case co_find_by_envelope ops st parent_id of
       Inl err \<Rightarrow> Inl err
     | Inr None \<Rightarrow> Inr None
     | Inr (Some conv_id) \<Rightarrow> co_get ops st conv_id))"

text \<open>One envelope; \<open>new_id\<close> is the id of the conversation that would be created for it.\<close>

definition group_envelope ::
  "chrono_ops \<Rightarrow> 's conv_ops \<Rightarrow> uuid \<Rightarrow> message_envelope \<Rightarrow> 's \<Rightarrow> 's exo_result" where
  "group_envelope ch ops new_id e st =
     (if me_kind e \<in> {SystemEvent, RelationalSignal} then Inr st
      else case reply_target ops e st of
          Inl err \<Rightarrow> Inl err
        | Inr (Some conv) \<Rightarrow> co_save ops (with_envelope e conv) st
        | Inr None \<Rightarrow> (case co_active ops st 50 of
            Inl err \<Rightarrow> Inl err
          | Inr active \<Rightarrow> (case List.find (in_window ch e) active of
              Some conv \<Rightarrow> co_save ops (with_envelope e conv) st
            | None \<Rightarrow> co_save ops (from_first_message new_id (me_source e) (me_id e) (me_payload_ref e)
                (me_timestamp e)) st)))"

text \<open>The first error of the store ends the loop; what was saved before it stays saved.\<close>

fun group_envelopes_into_conversations ::
  "chrono_ops \<Rightarrow> 's conv_ops \<Rightarrow> (uuid \<times> message_envelope) list \<Rightarrow> 's \<Rightarrow> unit exo_result \<times> 's" where
  "group_envelopes_into_conversations ch ops [] st = (Inr (), st)"
| "group_envelopes_into_conversations ch ops ((new_id, e) # es) st =
     (case group_envelope ch ops new_id e st of
        Inl err \<Rightarrow> (Inl err, st)
      | Inr st' \<Rightarrow> group_envelopes_into_conversations ch ops es st')"

section \<open>Stale conversations\<close>

definition STALE_THRESHOLD_MINUTES :: int where
  "STALE_THRESHOLD_MINUTES = 30"

fun mark_each_stale ::
  "chrono_ops \<Rightarrow> 's conv_ops \<Rightarrow> datetime \<Rightarrow> conversation list \<Rightarrow> 's \<Rightarrow> 's" where
  "mark_each_stale ch ops now [] st = st"
| "mark_each_stale ch ops now (c # cs) st =
     (if diff_gt_minutes ch now (cv_updated_at c) STALE_THRESHOLD_MINUTES
      then case co_save ops (c\<lparr>cv_state := CStale, cv_updated_at := now\<rparr>) st of
          Inl _ \<Rightarrow> mark_each_stale ch ops now cs st
        | Inr st' \<Rightarrow> mark_each_stale ch ops now cs st'
      else mark_each_stale ch ops now cs st)"

definition mark_stale_conversations :: "chrono_ops \<Rightarrow> 's conv_ops \<Rightarrow> datetime \<Rightarrow> 's \<Rightarrow> 's" where
  "mark_stale_conversations ch ops now st = (case co_active ops st 100 of
     Inl _ \<Rightarrow> st
   | Inr active \<Rightarrow> mark_each_stale ch ops now active st)"

section \<open>The store as an interface\<close>

definition conversational :: "message_envelope \<Rightarrow> bool" where
  "conversational e \<longleftrightarrow> me_kind e \<in> {HumanMessage, AgentMessage}"

definition message_of :: "message_envelope \<Rightarrow> conversation_message" where
  "message_of e = \<lparr>cm_envelope_id = me_id e, cm_source = me_source e, cm_payload_ref = me_payload_ref e,
     cm_timestamp = me_timestamp e\<rparr>"

definition all_messages :: "conversation list \<Rightarrow> conversation_message multiset" where
  "all_messages cs = (\<Sum>c \<leftarrow> cs. mset (cv_message_refs c))"

definition convs_wf :: "conversation list \<Rightarrow> bool" where
  "convs_wf cs \<longleftrightarrow> distinct (map cv_id cs)"

lemma conversational_iff: "me_kind e \<in> {SystemEvent, RelationalSignal} \<longleftrightarrow> \<not> conversational e"
  by (cases "me_kind e") (simp_all add: conversational_def)

lemmas group_envelope_alt = group_envelope_def [unfolded conversational_iff]

lemma with_envelope_simps [simp]:
  "cv_id (with_envelope e c) = cv_id c"
  "cv_message_refs (with_envelope e c) = cv_message_refs c @ [message_of e]"
  by (simp_all add: with_envelope_def add_message_def Let_def message_of_def)

lemma upsert_ids: "cv_id ` set (upsert c cs) = insert (cv_id c) (cv_id ` set cs)"
proof -
  have "map cv_id (update_first (\<lambda>x. cv_id x = cv_id c) (\<lambda>_. c) cs) = map cv_id cs"
    by (rule map_update_first_same) simp
  then have "cv_id ` set (update_first (\<lambda>x. cv_id x = cv_id c) (\<lambda>_. c) cs) = cv_id ` set cs"
    by (metis set_map)
  then show ?thesis by (auto simp: upsert_def list_ex_image_iff)
qed

lemma upsert_wf: "convs_wf cs \<Longrightarrow> convs_wf (upsert c cs)"
  by (auto simp: convs_wf_def upsert_def map_update_first_same list_ex_image_iff)

lemma all_messages_upsert_new:
  "cv_id c \<notin> cv_id ` set cs \<Longrightarrow> all_messages (upsert c cs) = all_messages cs + mset (cv_message_refs c)"
  by (simp add: all_messages_def upsert_def list_ex_image_iff)

lemma all_messages_update_first:
  assumes "c \<in> set cs" "distinct (map cv_id cs)" "cv_id c' = cv_id c"
    and "mset (cv_message_refs c') = mset (cv_message_refs c) + d"
  shows "all_messages (update_first (\<lambda>x. cv_id x = cv_id c') (\<lambda>_. c') cs) = all_messages cs + d"
  using assms
proof (induction cs)
  case (Cons x xs)
  show ?case
  proof (cases "x = c")
    case True
    with Cons.prems show ?thesis by (simp add: all_messages_def)
  next
    case False
    with Cons.prems have "c \<in> set xs" "cv_id x \<noteq> cv_id c" by auto
    with Cons show ?thesis by (simp add: all_messages_def)
  qed
qed simp

lemma all_messages_upsert_old:
  assumes "c \<in> set cs" "convs_wf cs" "cv_id c' = cv_id c"
    and "mset (cv_message_refs c') = mset (cv_message_refs c) + d"
  shows "all_messages (upsert c' cs) = all_messages cs + d"
proof -
  have "list_ex (\<lambda>x. cv_id x = cv_id c') cs" using assms(1,3) by (auto simp: list_ex_iff)
  with all_messages_update_first [OF assms(1) _ assms(3,4)] assms(2) show ?thesis
    by (simp add: upsert_def convs_wf_def)
qed

lemma find_member: "List.find P xs = Some x \<Longrightarrow> x \<in> set xs"
  by (induction xs) (auto split: if_splits)

text \<open>The conversation that staleness detection leaves behind for one it examined.\<close>

definition staled :: "chrono_ops \<Rightarrow> datetime \<Rightarrow> conversation \<Rightarrow> conversation" where
  "staled ch now c = (if diff_gt_minutes ch now (cv_updated_at c) STALE_THRESHOLD_MINUTES
     then c\<lparr>cv_state := CStale, cv_updated_at := now\<rparr> else c)"

lemma upsert_unique:
  assumes "c \<in> set cs" "convs_wf cs" "cv_id c' = cv_id c"
  shows "upsert c' cs = map (\<lambda>x. if x = c then c' else x) cs"
proof -
  have ex: "list_ex (\<lambda>x. cv_id x = cv_id c') cs" using assms(1,3) by (auto simp: list_ex_iff)
  have "update_first (\<lambda>x. cv_id x = cv_id c') (\<lambda>_. c') cs = map (\<lambda>x. if x = c then c' else x) cs"
    using assms unfolding convs_wf_def
  proof (induction cs)
    case (Cons x xs)
    show ?case
    proof (cases "x = c")
      case True
      with Cons.prems have "c \<notin> set xs" by auto
      then have "map (\<lambda>x. if x = c then c' else x) xs = xs" by (intro map_idI) auto
      with True Cons.prems show ?thesis by simp
    next
      case False
      with Cons show ?thesis by (auto simp: image_iff)
    qed
  qed simp
  with ex show ?thesis by (simp add: upsert_def)
qed

locale conversation_store =
  fixes ops :: "'s conv_ops"
    and convs :: "'s \<Rightarrow> conversation list"
    and usable :: "'s \<Rightarrow> bool"
  assumes save_law: "usable st \<Longrightarrow>
      \<exists>st'. co_save ops c st = Inr st' \<and> usable st' \<and> convs st' = upsert c (convs st)"
    and get_law: "usable st \<Longrightarrow> co_get ops st i = Inr (List.find (\<lambda>c. cv_id c = i) (convs st))"
    and find_law: "usable st \<Longrightarrow> co_find_by_envelope ops st e = Inr (map_option cv_id
      (List.find (\<lambda>c. list_ex (\<lambda>m. cm_envelope_id m = e) (cv_message_refs c)) (convs st)))"
    and active_law: "usable st \<Longrightarrow> co_active ops st n =
      Inr (take n (sort_desc cv_updated_at (filter (\<lambda>c. cv_state c = CActive) (convs st))))"
begin

lemma save_with_envelope:
  assumes "usable st" "convs_wf (convs st)" "c \<in> set (convs st)"
  shows "\<exists>st'. co_save ops (with_envelope e c) st = Inr st' \<and> usable st' \<and> convs_wf (convs st')
    \<and> cv_id ` set (convs st') = cv_id ` set (convs st)
    \<and> all_messages (convs st') = all_messages (convs st) + {#message_of e#}"
proof -
  obtain st' where st': "co_save ops (with_envelope e c) st = Inr st'" "usable st'"
    "convs st' = upsert (with_envelope e c) (convs st)" using save_law [OF assms(1)] by blast
  moreover have "all_messages (convs st') = all_messages (convs st) + {#message_of e#}"
    unfolding st'(3) by (rule all_messages_upsert_old [OF assms(3,2)]) simp_all
  moreover have "cv_id ` set (convs st') = cv_id ` set (convs st)"
    using assms(3) by (auto simp: st'(3) upsert_ids)
  ultimately show ?thesis using upsert_wf assms(2) by auto
qed

lemma group_one:
  assumes "usable st" "convs_wf (convs st)" "new_id \<notin> cv_id ` set (convs st)"
  shows "\<exists>st'. group_envelope ch ops new_id e st = Inr st' \<and> usable st' \<and> convs_wf (convs st')
    \<and> cv_id ` set (convs st') \<subseteq> insert new_id (cv_id ` set (convs st))
    \<and> all_messages (convs st') = all_messages (convs st) + (if conversational e then {#message_of e#} else {#})"
proof (cases "conversational e")
  case False
  with assms show ?thesis by (auto simp: group_envelope_alt)
next
  case True
  have old: ?thesis if "c \<in> set (convs st)" "group_envelope ch ops new_id e st = co_save ops (with_envelope e c) st" for c
    using save_with_envelope [OF assms(1,2) that(1), of e] that(2) True by auto
  obtain r where r: "reply_target ops e st = Inr r" "\<And>c. r = Some c \<Longrightarrow> c \<in> set (convs st)"
  proof (cases "me_in_reply_to e")
    case None
    then show ?thesis using that [of None] by (simp add: reply_target_def)
  next
    case (Some p)
    let ?f = "List.find (\<lambda>c. list_ex (\<lambda>m. cm_envelope_id m = p) (cv_message_refs c)) (convs st)"
    have "reply_target ops e st = Inr (case ?f of None \<Rightarrow> None
        | Some c \<Rightarrow> List.find (\<lambda>x. cv_id x = cv_id c) (convs st))"
      using find_law [OF assms(1), of p] get_law [OF assms(1)] Some
      by (simp add: reply_target_def split: option.split)
    then show ?thesis using that by (auto dest: find_member split: option.splits)
  qed
  show ?thesis
  proof (cases r)
    case (Some c)
    with old [OF r(2)] r(1) True show ?thesis by (simp add: group_envelope_alt)
  next
    case None
    let ?active = "take 50 (sort_desc cv_updated_at (filter (\<lambda>c. cv_state c = CActive) (convs st)))"
    show ?thesis
    proof (cases "List.find (in_window ch e) ?active")
      case (Some c)
      then have "c \<in> set (convs st)" by (auto dest!: find_member in_set_takeD)
      with old Some None r(1) True active_law [OF assms(1)] show ?thesis
        by (simp add: group_envelope_alt)
    next
      case find_none: None
      let ?c = "from_first_message new_id (me_source e) (me_id e) (me_payload_ref e) (me_timestamp e)"
      have id: "cv_id ?c = new_id" "mset (cv_message_refs ?c) = {#message_of e#}"
        by (simp_all add: from_first_message_def message_of_def)
      obtain st' where st': "co_save ops ?c st = Inr st'" "usable st'" "convs st' = upsert ?c (convs st)"
        using save_law [OF assms(1)] by blast
      have "group_envelope ch ops new_id e st = Inr st'"
        using find_none None r(1) True active_law [OF assms(1)] st'(1)
        by (simp add: group_envelope_alt)
      moreover have "all_messages (convs st') = all_messages (convs st) + {#message_of e#}"
        using all_messages_upsert_new [of ?c "convs st"] assms(3) id st'(3) by simp
      ultimately show ?thesis
        using st' id True upsert_wf [OF assms(2)] by (auto simp: upsert_ids)
    qed
  qed
qed

lemma group_all:
  assumes "usable st" "convs_wf (convs st)" "distinct (map fst es)"
    and "fst ` set es \<inter> cv_id ` set (convs st) = {}"
  shows "\<exists>st'. group_envelopes_into_conversations ch ops es st = (Inr (), st') \<and> usable st' \<and> convs_wf (convs st')
    \<and> all_messages (convs st') =
        all_messages (convs st) + mset (map message_of (filter conversational (map snd es)))"
  using assms
proof (induction es arbitrary: st)
  case (Cons ie es)
  obtain i e where ie: "ie = (i, e)" by (cases ie)
  from Cons.prems(4) ie have "i \<notin> cv_id ` set (convs st)" by auto
  from group_one [OF Cons.prems(1,2) this, of ch e] obtain st1 where
    st1: "group_envelope ch ops i e st = Inr st1" "usable st1" "convs_wf (convs st1)"
      "cv_id ` set (convs st1) \<subseteq> insert i (cv_id ` set (convs st))"
      "all_messages (convs st1) = all_messages (convs st) + (if conversational e then {#message_of e#} else {#})"
    by blast
  have "fst ` set es \<inter> cv_id ` set (convs st1) = {}"
  proof -
    have "fst ` set es \<inter> insert i (cv_id ` set (convs st)) = {}" using Cons.prems(3,4) ie by auto
    with st1(4) show ?thesis by blast
  qed
  from Cons.IH [OF st1(2,3) _ this] Cons.prems(3) ie obtain st2 where
    "group_envelopes_into_conversations ch ops es st1 = (Inr (), st2)" "usable st2" "convs_wf (convs st2)"
    "all_messages (convs st2) = all_messages (convs st1)
      + mset (map message_of (filter conversational (map snd es)))" by auto
  then show ?case using st1(1,5) ie by simp
qed simp

text \<open>Marking the examined conversations one after the other replaces each of them in place.\<close>

lemma mark_each:
  assumes "usable st" "convs_wf (convs st)" "set cs \<subseteq> set (convs st)" "distinct cs"
  shows "convs (mark_each_stale ch ops now cs st) =
    map (\<lambda>c. if c \<in> set cs then staled ch now c else c) (convs st)"
  using assms
proof (induction cs arbitrary: st)
  case (Cons c cs)
  show ?case
  proof (cases "diff_gt_minutes ch now (cv_updated_at c) STALE_THRESHOLD_MINUTES")
    case False
    with Cons show ?thesis by (auto simp: staled_def intro!: map_cong)
  next
    case True
    let ?c = "c\<lparr>cv_state := CStale, cv_updated_at := now\<rparr>"
    have c: "c \<in> set (convs st)" and new: "c \<notin> set cs" using Cons.prems by auto
    obtain st1 where st1: "co_save ops ?c st = Inr st1" "usable st1" "convs st1 = upsert ?c (convs st)"
      using save_law [OF Cons.prems(1)] by blast
    have eq: "convs st1 = map (\<lambda>x. if x = c then ?c else x) (convs st)"
      unfolding st1(3) by (rule upsert_unique [OF c Cons.prems(2)]) simp
    have wf: "convs_wf (convs st1)" using upsert_wf [OF Cons.prems(2)] st1(3) by simp
    have sub: "set cs \<subseteq> set (convs st1)" using Cons.prems(3) new by (auto simp: eq)
    have fresh: "?c \<in> set cs \<Longrightarrow> ?c = c"
    proof -
      assume "?c \<in> set cs"
      then have "?c \<in> set (convs st)" using Cons.prems(3) by auto
      with c Cons.prems(2) show "?c = c" by (auto simp: convs_wf_def distinct_map inj_on_def)
    qed
    have "convs (mark_each_stale ch ops now (c # cs) st) =
        map (\<lambda>x. if x \<in> set cs then staled ch now x else x) (convs st1)"
      using Cons.IH [OF st1(2) wf sub] Cons.prems(4) True st1(1) by simp
    also have "\<dots> = map (\<lambda>x. if x \<in> set (c # cs) then staled ch now x else x) (convs st)"
      using True new fresh by (auto simp: eq staled_def)
    finally show ?thesis .
  qed
qed simp

lemma mark_all:
  assumes "usable st" "convs_wf (convs st)"
  shows "convs (mark_stale_conversations ch ops now st) =
    map (\<lambda>c. if c \<in> set (take 100 (sort_desc cv_updated_at (filter (\<lambda>c. cv_state c = CActive) (convs st))))
         then staled ch now c else c) (convs st)"
proof -
  let ?cs = "take 100 (sort_desc cv_updated_at (filter (\<lambda>c. cv_state c = CActive) (convs st)))"
  have "distinct (convs st)" using assms(2) by (auto simp: convs_wf_def distinct_map)
  then have "distinct ?cs" by (simp add: sort_desc_def)
  moreover have "set ?cs \<subseteq> set (convs st)" by (auto dest!: in_set_takeD)
  ultimately show ?thesis
    using mark_each [OF assms] active_law [OF assms(1)] by (simp add: mark_stale_conversations_def)
qed

end

interpretation mem_conversations: conversation_store mem_ops mc_conversations "\<lambda>st. \<not> mc_poisoned st"
  by unfold_locales
    (auto simp: mem_ops_def conv_save_def conv_get_def conv_find_by_envelope_def active_conversations_def)

text \<open>
  C15. Grouping loses no message and invents none: whatever the reply chains and the time windows,
  every human or agent envelope is appended to exactly one conversation, system events and
  relational signals to none, earlier messages stay, and conversation ids stay distinct.
\<close>

theorem grouping_conserves_messages:
  assumes "\<not> mc_poisoned st" "convs_wf (mc_conversations st)" "distinct (map fst es)"
    and "fst ` set es \<inter> cv_id ` set (mc_conversations st) = {}"
  shows "\<exists>st'. group_envelopes_into_conversations ch mem_ops es st = (Inr (), st') \<and> \<not> mc_poisoned st'
    \<and> convs_wf (mc_conversations st')
    \<and> all_messages (mc_conversations st') = all_messages (mc_conversations st)
        + mset (map message_of (filter conversational (map snd es)))"
  using assms by (rule mem_conversations.group_all)

text \<open>
  Staleness detection touches only the hundred most recently updated active conversations: of
  those, exactly the ones without a message for more than thirty minutes become stale, with
  their messages and participants unchanged; every other conversation is left as it is.
\<close>

lemma stale_marks_exactly:
  assumes "\<not> mc_poisoned st" "convs_wf (mc_conversations st)"
  shows "mc_conversations (mark_stale_conversations ch mem_ops now st) =
    map (\<lambda>c. if c \<in> set (take 100 (sort_desc cv_updated_at
            (filter (\<lambda>c. cv_state c = CActive) (mc_conversations st))))
         then staled ch now c else c) (mc_conversations st)"
  using assms by (rule mem_conversations.mark_all)

section \<open>The properties at concrete inputs\<close>

definition sample_message :: "uuid \<Rightarrow> envelope_kind \<Rightarrow> message_envelope" where
  "sample_message i k = \<lparr>me_id = i, me_source = 7, me_target = None, me_kind = k,
     me_payload_ref = ''c0ffee'', me_timestamp = 30, me_in_reply_to = None\<rparr>"

definition sample_conversations :: mem_conversations where
  "sample_conversations = \<lparr>mc_poisoned = False,
     mc_conversations = [from_first_message 50 7 1 ''c0ffee'' 10]\<rparr>"

lemma sample_conversations_ok:
  "\<not> mc_poisoned sample_conversations" "convs_wf (mc_conversations sample_conversations)"
  by (simp_all add: sample_conversations_def convs_wf_def)

theorem grouping_conserves_messages_witness:
  "\<exists>st'. group_envelopes_into_conversations nanos_chrono mem_ops
       [(60, sample_message 2 HumanMessage), (61, sample_message 3 SystemEvent)] sample_conversations = (Inr (), st')
     \<and> size (all_messages (mc_conversations st')) = 2"
proof -
  have fresh: "fst ` set [(60 :: uuid, sample_message 2 HumanMessage), (61, sample_message 3 SystemEvent)]
      \<inter> cv_id ` set (mc_conversations sample_conversations) = {}"
    by (simp add: sample_conversations_def from_first_message_def)
  have "size (all_messages (mc_conversations sample_conversations)) = 1"
    by (simp add: sample_conversations_def from_first_message_def all_messages_def)
  then show ?thesis
    using grouping_conserves_messages [OF sample_conversations_ok _ fresh, of nanos_chrono]
    by (auto simp: conversational_def sample_message_def)
qed

end
