(* ===== verification/Context_Compiler.thy ===== *)
theory Context_Compiler
  imports Tokens Exo_Core
begin

text \<open>
  The context compiler (\<open>exoskeleton-memory/src/compiler.rs\<close>): from the rendered sections of a tick
  it assembles a prompt within a token budget. The phases of \<open>compile\<close> are the definitions
  \<open>initial_states\<close> (targets), \<open>allocate\<close>, \<open>redistribute\<close>, \<open>trim\<close> and \<open>assemble\<close>; the token counter is an
  argument, used through the locale \<open>token_counter\<close>.

  Counts are 64-bit words; sums wrap as in a release build, and the theorems that need it assume
  that the sums of targets and of section sizes stay below the width.
\<close>

section \<open>Types\<close>

datatype section_priority = SecLow | SecMedium | SecHigh | SecCritical

fun section_rank :: "section_priority \<Rightarrow> nat" where
  "section_rank SecLow = 0"
| "section_rank SecMedium = 1"
| "section_rank SecHigh = 2"
| "section_rank SecCritical = 3"

record section_allocation =
  sa_priority :: section_priority
  sa_target_pct :: f64

record section_priorities =
  sp_system :: section_allocation
  sp_state_snapshot :: section_allocation
  sp_repo_instructions :: section_allocation
  sp_git_context :: section_allocation
  sp_plan :: section_allocation
  sp_relationship_snapshot :: section_allocation
  sp_conversations :: section_allocation
  sp_working_memory :: section_allocation
  sp_thread_outputs :: section_allocation
  sp_exec_thread_outputs :: section_allocation
  sp_recent_events :: section_allocation
  sp_episodic_memory :: section_allocation
  sp_long_term_memory :: section_allocation

definition alloc :: "section_priority \<Rightarrow> rat \<Rightarrow> section_allocation" where
  "alloc p pct = \<lparr>sa_priority = p, sa_target_pct = f64_of_rat pct\<rparr>"

definition section_priorities_default :: section_priorities where
  "section_priorities_default = \<lparr>
     sp_system = alloc SecCritical (10 / 100),
     sp_state_snapshot = alloc SecCritical (10 / 100),
     sp_repo_instructions = alloc SecHigh (5 / 100),
     sp_git_context = alloc SecMedium (3 / 100),
     sp_plan = alloc SecCritical (8 / 100),
     sp_relationship_snapshot = alloc SecHigh (8 / 100),
     sp_conversations = alloc SecHigh (7 / 100),
     sp_working_memory = alloc SecMedium (10 / 100),
     sp_thread_outputs = alloc SecMedium (55 / 1000),
     sp_exec_thread_outputs = alloc SecMedium (55 / 1000),
     sp_recent_events = alloc SecMedium (10 / 100),
     sp_episodic_memory = alloc SecMedium (11 / 100),
     sp_long_term_memory = alloc SecLow (7 / 100)\<rparr>"

definition as_ordered_pairs :: "section_priorities \<Rightarrow> (string \<times> section_allocation) list" where
  "as_ordered_pairs p = [
     (''system'', sp_system p),
     (''state_snapshot'', sp_state_snapshot p),
     (''repo_instructions'', sp_repo_instructions p),
     (''git_context'', sp_git_context p),
     (''plan'', sp_plan p),
     (''relationship_snapshot'', sp_relationship_snapshot p),
     (''conversations'', sp_conversations p),
     (''working_memory'', sp_working_memory p),
     (''thread_outputs'', sp_thread_outputs p),
     (''exec_thread_outputs'', sp_exec_thread_outputs p),
     (''recent_events'', sp_recent_events p),
     (''episodic_memory'', sp_episodic_memory p),
     (''long_term_memory'', sp_long_term_memory p)]"

record section_state =
  ss_name :: string
  ss_text :: string
  ss_actual_tokens :: u64
  ss_target :: u64
  ss_allocated :: u64
  ss_priority :: section_priority
  ss_truncated :: bool

record section_result =
  sr_name :: string
  sr_allocated :: u64
  sr_used :: u64
  sr_truncated :: bool

record compiled_context =
  cc_prompt :: string
  cc_total_tokens :: u64
  cc_budget :: u64
  cc_sections :: "section_result list"
  cc_truncated_sections :: "string list"

section \<open>The phases\<close>

type_synonym rendered = "(string \<times> string \<times> section_priority) list"

definition measure_section :: "(string \<Rightarrow> u64) \<Rightarrow> string \<Rightarrow> u64" where
  "measure_section count tx = (if tx = [] then 0 else count tx)"

definition critical_total :: "(string \<Rightarrow> u64) \<Rightarrow> rendered \<Rightarrow> u64" where
  "critical_total count rendered = sum_list (map (\<lambda>(_, tx, _). measure_section count tx)
     (filter (\<lambda>(_, tx, p). tx \<noteq> [] \<and> p = SecCritical) rendered))"

definition effective_budget :: "u64 \<Rightarrow> rendered \<Rightarrow> u64" where
  "effective_budget total_budget rendered =
     sat_sub total_budget (sat_sub (of_nat (length (filter (\<lambda>(_, tx, _). tx \<noteq> []) rendered))) 1)"

definition target_of :: "u64 \<Rightarrow> section_allocation \<Rightarrow> u64" where
  "target_of eff a = f64_as_u64 (f64_mul (f64_of_int (uint eff)) (sa_target_pct a))"

definition initial_states ::
  "(string \<Rightarrow> u64) \<Rightarrow> u64 \<Rightarrow> (string \<times> section_allocation) list \<Rightarrow> rendered \<Rightarrow> section_state list" where
  "initial_states count eff pairs rendered = map (\<lambda>((name, tx, p), (_, a)). \<lparr>
     ss_name = name, ss_text = tx, ss_actual_tokens = measure_section count tx,
     ss_target = target_of eff a, ss_allocated = 0, ss_priority = p, ss_truncated = False\<rparr>)
   (zip rendered pairs)"

text \<open>Phase 3: the first allocation of a section, what it leaves over, and whether it needs more.\<close>

definition needs_more :: "section_state \<Rightarrow> bool" where
  "needs_more s \<longleftrightarrow> ss_actual_tokens s \<noteq> 0 \<and> \<not> ss_actual_tokens s \<le> ss_target s"

definition allocate_one :: "section_state \<Rightarrow> section_state" where
  "allocate_one s =
     (if ss_actual_tokens s = 0 then s\<lparr>ss_allocated := 0\<rparr>
      else if ss_actual_tokens s \<le> ss_target s then s\<lparr>ss_allocated := ss_actual_tokens s\<rparr>
      else s\<lparr>ss_allocated := ss_target s\<rparr>)"

definition surplus_one :: "section_state \<Rightarrow> u64" where
  "surplus_one s =
     (if ss_actual_tokens s = 0 then ss_target s
      else if ss_actual_tokens s \<le> ss_target s then ss_target s - ss_actual_tokens s
      else 0)"

definition allocate :: "section_state list \<Rightarrow> section_state list \<times> u64 \<times> nat list" where
  "allocate ss = (map allocate_one ss, sum_list (map surplus_one ss),
     filter (\<lambda>i. needs_more (ss ! i)) [0..<length ss])"

text \<open>
  Phase 4: the surplus goes to the sections that need more, by descending priority and ascending
  index. The sort is stable and the indices ascend, so sorting by priority alone gives that order.
\<close>

definition redistribution_order :: "section_state list \<Rightarrow> nat list \<Rightarrow> nat list" where
  "redistribution_order ss is = sort_desc (\<lambda>i. int (section_rank (ss_priority (ss ! i)))) is"

fun redistribute :: "nat list \<Rightarrow> section_state list \<Rightarrow> u64 \<Rightarrow> section_state list \<times> u64" where
  "redistribute [] ss surplus = (ss, surplus)"
| "redistribute (i # is) ss surplus =
     (let s = ss ! i;
          additional = min (ss_actual_tokens s - ss_target s) surplus
      in redistribute is (ss[i := s\<lparr>ss_allocated := ss_allocated s + additional\<rparr>]) (surplus - additional))"

text \<open>
  Phase 5: allocations above the effective budget are reduced from the lowest priority and the last
  section on, leaving critical sections alone.
\<close>

definition truncation_order :: "section_state list \<Rightarrow> nat list" where
  "truncation_order ss = sort_key (\<lambda>i. section_rank (ss_priority (ss ! i)))
     (rev (filter (\<lambda>i. 0 < ss_allocated (ss ! i)) [0..<length ss]))"

fun trim :: "u64 \<Rightarrow> nat list \<Rightarrow> section_state list \<Rightarrow> u64 \<Rightarrow> section_state list" where
  "trim eff [] ss current = ss"
| "trim eff (i # is) ss current =
     (if current \<le> eff then ss
      else if ss_priority (ss ! i) = SecCritical then trim eff is ss current
      else let s = ss ! i;
               reduce = min (current - eff) (ss_allocated s);
               s1 = s\<lparr>ss_allocated := ss_allocated s - reduce\<rparr>;
               s2 = (if ss_allocated s1 < ss_actual_tokens s1 then s1\<lparr>ss_truncated := True\<rparr> else s1)
           in trim eff is (ss[i := s2]) (current - reduce))"

definition total_allocated :: "section_state list \<Rightarrow> u64" where
  "total_allocated ss = sum_list (map ss_allocated ss)"

definition allocations :: "u64 \<Rightarrow> section_state list \<Rightarrow> section_state list" where
  "allocations eff ss =
     (let (ss1, surplus, needy) = allocate ss;
          (ss2, _) = redistribute (redistribution_order ss1 needy) ss1 surplus
      in if total_allocated ss2 > eff then trim eff (truncation_order ss2) ss2 (total_allocated ss2) else ss2)"

text \<open>Phase 6: the text, the result and the truncation mark of one section.\<close>

definition is_truncated :: "section_state \<Rightarrow> bool" where
  "is_truncated s \<longleftrightarrow> ss_truncated s \<or> ss_actual_tokens s > ss_allocated s"

definition final_text :: "(string \<Rightarrow> u64 \<Rightarrow> string) \<Rightarrow> section_state \<Rightarrow> string" where
  "final_text trunc s = (if is_truncated s then trunc (ss_text s) (ss_allocated s) else ss_text s)"

definition push_section :: "string \<Rightarrow> string \<Rightarrow> string" where
  "push_section prompt tx =
     (if tx = [] then prompt else if prompt = [] then tx else prompt @ [CHR 0x0A] @ tx)"

fun assemble ::
  "(string \<Rightarrow> u64) \<Rightarrow> (string \<Rightarrow> u64 \<Rightarrow> string) \<Rightarrow> section_state list \<Rightarrow> string \<Rightarrow>
   string \<times> section_result list \<times> string list" where
  "assemble count trunc [] prompt = (prompt, [], [])"
| "assemble count trunc (s # ss) prompt =
     (if ss_allocated s = 0 \<or> ss_text s = []
      then let (p, rs, ts) = assemble count trunc ss prompt
           in (p, \<lparr>sr_name = ss_name s, sr_allocated = ss_allocated s, sr_used = 0, sr_truncated = False\<rparr> # rs, ts)
      else let tx = final_text trunc s;
               (p, rs, ts) = assemble count trunc ss (push_section prompt tx)
           in (p, \<lparr>sr_name = ss_name s, sr_allocated = ss_allocated s, sr_used = count tx,
                  sr_truncated = is_truncated s\<rparr> # rs,
               (if is_truncated s then ss_name s # ts else ts)))"

definition compile_rendered ::
  "(string \<Rightarrow> u64) \<Rightarrow> (string \<Rightarrow> u64 \<Rightarrow> string) \<Rightarrow> u64 \<Rightarrow> section_priorities \<Rightarrow> rendered \<Rightarrow>
   compiled_context exo_result" where
  "compile_rendered count trunc total_budget priorities rendered =
     (if critical_total count rendered > total_budget
      then Inl (ContextCompilation (''Critical sections require '' @ show_u64 (critical_total count rendered)
        @ '' tokens but budget is only '' @ show_u64 total_budget))
      else let eff = effective_budget total_budget rendered;
               ss = allocations eff (initial_states count eff (as_ordered_pairs priorities) rendered);
               (prompt, results, truncated) = assemble count trunc ss [];
               prompt' = (if count prompt > total_budget then trunc prompt total_budget else prompt)
           in Inr \<lparr>cc_prompt = prompt', cc_total_tokens = count prompt', cc_budget = total_budget,
                  cc_sections = results, cc_truncated_sections = truncated\<rparr>)"

section \<open>Allocation\<close>

lemma unat_sum_list:
  fixes xs :: "u64 list"
  shows "sum_list (map unat xs) < 2 ^ 64 \<Longrightarrow> unat (sum_list xs) = sum_list (map unat xs)"
proof (induction xs)
  case (Cons x xs)
  then have "unat x + unat (sum_list xs) < 2 ^ 64" by simp
  then have "unat (x + sum_list xs) = unat x + unat (sum_list xs)" by (simp add: unat_word_ariths)
  with Cons show ?case by simp
qed simp

definition sum_allocated :: "section_state list \<Rightarrow> nat" where
  "sum_allocated ss = sum_list (map (\<lambda>s. unat (ss_allocated s)) ss)"

definition sum_targets :: "section_state list \<Rightarrow> nat" where
  "sum_targets ss = sum_list (map (\<lambda>s. unat (ss_target s)) ss)"

lemma allocate_one_simps [simp]:
  "ss_text (allocate_one s) = ss_text s" "ss_actual_tokens (allocate_one s) = ss_actual_tokens s"
  "ss_target (allocate_one s) = ss_target s" "ss_priority (allocate_one s) = ss_priority s"
  "ss_name (allocate_one s) = ss_name s" "ss_truncated (allocate_one s) = ss_truncated s"
  by (simp_all add: allocate_one_def)

lemma allocate_one_conserves:
  "unat (ss_allocated (allocate_one s)) + unat (surplus_one s) = unat (ss_target s)"
  by (auto simp: allocate_one_def surplus_one_def unat_sub word_le_nat_alt)

lemma allocate_one_bound: "ss_allocated (allocate_one s) \<le> ss_actual_tokens s"
  by (auto simp: allocate_one_def)

lemma allocate_conserves:
  assumes "sum_targets ss < 2 ^ 64" "allocate ss = (ss1, surplus, needy)"
  shows "sum_allocated ss1 + unat surplus = sum_targets ss"
proof -
  have eq: "sum_list (map (\<lambda>s. unat (ss_allocated s)) (map allocate_one ss)) + sum_list (map unat (map surplus_one ss))
      = sum_targets ss"
    by (induction ss) (simp_all add: sum_targets_def flip: allocate_one_conserves)
  then have "sum_list (map unat (map surplus_one ss)) < 2 ^ 64" using assms(1) by linarith
  with eq assms(2) show ?thesis
    by (auto simp: allocate_def sum_allocated_def unat_sum_list simp del: map_map)
qed

text \<open>The invariant of the redistribution loop.\<close>

definition alloc_within :: "section_state list \<Rightarrow> bool" where
  "alloc_within ss \<longleftrightarrow> (\<forall>s \<in> set ss. ss_allocated s \<le> ss_actual_tokens s)"

definition needy_ok :: "section_state list \<Rightarrow> nat list \<Rightarrow> bool" where
  "needy_ok ss is \<longleftrightarrow> distinct is \<and> (\<forall>i \<in> set is. i < length ss
     \<and> ss_allocated (ss ! i) = ss_target (ss ! i) \<and> ss_target (ss ! i) \<le> ss_actual_tokens (ss ! i))"

lemma additional_unat:
  fixes surplus :: u64 and s :: section_state
  assumes "ss_target s \<le> ss_actual_tokens s" "ss_allocated s = ss_target s"
  defines "a \<equiv> min (ss_actual_tokens s - ss_target s) surplus"
  shows "unat (ss_allocated s + a) = unat (ss_allocated s) + unat a"
    and "ss_allocated s + a \<le> ss_actual_tokens s"
    and "unat (surplus - a) = unat surplus - unat a" and "unat a \<le> unat surplus"
proof -
  have a: "unat a = min (unat (ss_actual_tokens s) - unat (ss_target s)) (unat surplus)"
    using assms(1) by (auto simp: a_def min_def word_le_nat_alt unat_sub)
  have "unat (ss_allocated s) + unat a \<le> unat (ss_actual_tokens s)"
    using a assms(1,2) by (simp add: word_le_nat_alt)
  moreover from this have "unat (ss_allocated s) + unat a < 2 ^ 64"
    using unat_bound [of "ss_actual_tokens s"] by simp
  ultimately show eq: "unat (ss_allocated s + a) = unat (ss_allocated s) + unat a"
    by (simp add: unat_word_ariths)
  show "ss_allocated s + a \<le> ss_actual_tokens s"
    using eq \<open>unat (ss_allocated s) + unat a \<le> unat (ss_actual_tokens s)\<close> by (simp add: word_le_nat_alt)
  show "unat a \<le> unat surplus" using a by simp
  then show "unat (surplus - a) = unat surplus - unat a" by (simp add: unat_sub word_le_nat_alt)
qed

lemma sum_allocated_update:
  assumes "i < length ss" "unat (ss_allocated v) = unat (ss_allocated (ss ! i)) + d"
  shows "sum_allocated (ss[i := v]) = sum_allocated ss + d"
proof -
  let ?f = "\<lambda>s. unat (ss_allocated s)"
  have "sum_list (map ?f (ss[i := v])) = sum_list (map ?f ss) + ?f v - ?f (ss ! i)"
    using assms(1) by (simp add: map_update sum_list_update)
  then show ?thesis using assms(2) by (simp add: sum_allocated_def)
qed

lemma redistribute_conserves:
  assumes "needy_ok ss is" "alloc_within ss" "redistribute is ss surplus = (ss', surplus')"
  shows "alloc_within ss' \<and> sum_allocated ss' + unat surplus' = sum_allocated ss + unat surplus
    \<and> map ss_text ss' = map ss_text ss \<and> map ss_name ss' = map ss_name ss
    \<and> map ss_truncated ss' = map ss_truncated ss \<and> map ss_actual_tokens ss' = map ss_actual_tokens ss"
  using assms
proof (induction "is" arbitrary: ss surplus)
  case (Cons i "is")
  let ?s = "ss ! i"
  let ?a = "min (ss_actual_tokens ?s - ss_target ?s) surplus"
  let ?v = "?s\<lparr>ss_allocated := ss_allocated ?s + ?a\<rparr>"
  have i: "i < length ss" "ss_allocated ?s = ss_target ?s" "ss_target ?s \<le> ss_actual_tokens ?s" "i \<notin> set is"
    using Cons.prems(1) by (auto simp: needy_ok_def)
  note a = additional_unat [OF i(3,2), of surplus]
  have "needy_ok (ss[i := ?v]) is" using Cons.prems(1) by (auto simp: needy_ok_def nth_list_update)
  moreover have "alloc_within (ss[i := ?v])"
    using Cons.prems(2) a(2) by (auto simp: alloc_within_def dest!: set_update_subset_insert [THEN subsetD])
  moreover have "sum_allocated (ss[i := ?v]) = sum_allocated ss + unat ?a"
    using i(1) a(1) by (intro sum_allocated_update) simp_all
  moreover have "redistribute is (ss[i := ?v]) (surplus - ?a) = (ss', surplus')"
    using Cons.prems(3) by (simp add: Let_def)
  moreover have "map ss_text (ss[i := ?v]) = map ss_text ss" "map ss_name (ss[i := ?v]) = map ss_name ss"
    "map ss_truncated (ss[i := ?v]) = map ss_truncated ss"
    "map ss_actual_tokens (ss[i := ?v]) = map ss_actual_tokens ss"
    using i(1) by (simp_all add: map_update list_update_same_conv)
  ultimately show ?case using Cons.IH a(3,4) by force
qed simp

lemma map_update_same: "f v = f (xs ! i) \<Longrightarrow> map f (xs[i := v]) = map f xs"
  by (cases "i < length xs") (simp_all add: map_update list_update_same_conv list_update_beyond)

lemma redistribute_texts: "map ss_text (fst (redistribute is ss surplus)) = map ss_text ss"
  by (induction "is" arbitrary: ss surplus) (simp_all add: Let_def map_update_same)

lemma trim_texts: "map ss_text (trim eff is ss current) = map ss_text ss"
  by (induction "is" arbitrary: ss current) (simp_all add: Let_def map_update_same)

lemma allocations_texts: "map ss_text (allocations eff ss) = map ss_text ss"
proof -
  have "map ss_text (map allocate_one ss) = map ss_text ss" by simp
  then show ?thesis
    unfolding allocations_def allocate_def
    by (simp add: case_prod_unfold Let_def redistribute_texts trim_texts del: map_map)
qed

lemma needy_ok_allocate:
  "needy_ok (map allocate_one ss)
     (redistribution_order (map allocate_one ss) (filter (\<lambda>i. needs_more (ss ! i)) [0..<length ss]))"
  by (auto simp: needy_ok_def redistribution_order_def sort_desc_def needs_more_def allocate_one_def)

lemma alloc_within_allocate: "alloc_within (map allocate_one ss)"
  using allocate_one_bound by (auto simp: alloc_within_def)

text \<open>
  When the targets add up to no more than the effective budget, allocation ends without trimming,
  gives no section more than it needs and no more in total than the targets.
\<close>

lemma allocations_sound:
  assumes "sum_targets ss \<le> unat eff"
  shows "alloc_within (allocations eff ss)" "sum_allocated (allocations eff ss) \<le> sum_targets ss"
    "map ss_truncated (allocations eff ss) = map ss_truncated ss"
    "map ss_actual_tokens (allocations eff ss) = map ss_actual_tokens ss"
    "map ss_name (allocations eff ss) = map ss_name ss"
proof -
  let ?ss1 = "map allocate_one ss" and ?surplus = "sum_list (map surplus_one ss)"
  let ?is = "redistribution_order ?ss1 (filter (\<lambda>i. needs_more (ss ! i)) [0..<length ss])"
  obtain ss2 rest where r: "redistribute ?is ?ss1 ?surplus = (ss2, rest)" by fastforce
  have lt: "sum_targets ss < 2 ^ 64" using assms unat_bound [of eff] by simp
  have c: "sum_allocated ?ss1 + unat ?surplus = sum_targets ss"
    by (rule allocate_conserves [OF lt]) (simp add: allocate_def)
  note k = redistribute_conserves [OF needy_ok_allocate alloc_within_allocate r]
  have sum: "sum_allocated ss2 \<le> sum_targets ss" using k c by linarith
  then have "unat (total_allocated ss2) = sum_allocated ss2"
    using lt unat_sum_list [of "map ss_allocated ss2"]
    by (simp add: total_allocated_def sum_allocated_def comp_def)
  then have "\<not> total_allocated ss2 > eff" using sum assms by (simp add: word_less_nat_alt)
  then have eq: "allocations eff ss = ss2" by (simp add: allocations_def allocate_def r)
  show "alloc_within (allocations eff ss)" "sum_allocated (allocations eff ss) \<le> sum_targets ss"
    using k sum by (simp_all add: eq)
  show "map ss_truncated (allocations eff ss) = map ss_truncated ss"
    "map ss_actual_tokens (allocations eff ss) = map ss_actual_tokens ss"
    "map ss_name (allocations eff ss) = map ss_name ss"
    using k by (simp_all add: eq comp_def)
qed

section \<open>The compiled prompt\<close>

definition text_room :: "string list \<Rightarrow> nat" where
  "text_room txs = sum_list (map (\<lambda>t. Suc (length t)) txs)"

context token_counter
begin

lemma final_text_shorter: "length (final_text truncate s) \<le> length (ss_text s)"
  using truncate_shorter by (simp add: final_text_def)

lemma assemble_length:
  "length (fst (assemble count truncate ss prompt)) \<le> length prompt + text_room (map ss_text ss)"
proof (induction ss arbitrary: prompt)
  case (Cons s ss)
  have "length (push_section prompt (final_text truncate s)) \<le> length prompt + Suc (length (ss_text s))"
    using final_text_shorter [of s] by (simp add: push_section_def)
  with Cons.IH [of prompt] Cons.IH [of "push_section prompt (final_text truncate s)"] show ?case
    by (auto simp: text_room_def case_prod_unfold Let_def)
qed (simp add: text_room_def)

lemma initial_states_texts:
  "length rendered = length pairs \<Longrightarrow>
    map ss_text (initial_states count eff pairs rendered) = map (fst \<circ> snd) rendered"
  by (induction rendered pairs rule: list_induct2) (auto simp: initial_states_def)

lemma compiled_fits:
  assumes "length rendered = 13" "text_room (map (fst \<circ> snd) rendered) < 2 ^ 64"
    and "compile_rendered count truncate total_budget priorities rendered = Inr ctx"
  shows "cc_total_tokens ctx \<le> total_budget \<and> cc_total_tokens ctx = count (cc_prompt ctx)
    \<and> \<not> total_budget < critical_total count rendered"
proof -
  let ?eff = "effective_budget total_budget rendered"
  let ?ss = "allocations ?eff (initial_states count ?eff (as_ordered_pairs priorities) rendered)"
  let ?prompt = "fst (assemble count truncate ?ss [])"
  have "length rendered = length (as_ordered_pairs priorities)"
    using assms(1) by (simp add: as_ordered_pairs_def)
  then have "length ?prompt < 2 ^ 64"
    using assemble_length [of ?ss "[]"] assms(2) initial_states_texts by (simp add: allocations_texts)
  then have "\<not> count ?prompt \<le> total_budget \<Longrightarrow> count (truncate ?prompt total_budget) \<le> total_budget"
    by (intro truncate_law)
  then show ?thesis
    using assms(3) by (auto simp: compile_rendered_def Let_def case_prod_unfold split: if_splits)
qed

end

text \<open>
  Compilation fails exactly when the critical sections alone do not fit; otherwise the prompt is
  within the budget.
\<close>

lemma compile_rendered_cases:
  assumes "length rendered = 13" "text_room (map (fst \<circ> snd) rendered) < 2 ^ 64"
  shows "case compile_rendered approximate_token_count truncate_to_budget total_budget priorities rendered of
      Inr ctx \<Rightarrow> cc_total_tokens ctx \<le> total_budget
        \<and> cc_total_tokens ctx = approximate_token_count (cc_prompt ctx)
        \<and> critical_total approximate_token_count rendered \<le> total_budget
    | Inl _ \<Rightarrow> total_budget < critical_total approximate_token_count rendered"
proof (cases "compile_rendered approximate_token_count truncate_to_budget total_budget priorities rendered")
  case (Inl e)
  then show ?thesis
    by (auto simp: compile_rendered_def Let_def case_prod_unfold split: if_splits)
next
  case (Inr ctx)
  then show ?thesis using approximate.compiled_fits [OF assms Inr] by (auto simp: not_less)
qed

text \<open>
  Allocation is sound: when the section targets add up to no more than the effective budget,
  no section is given more than it needs, the allocations add up to at most the targets, and no
  section is marked as trimmed.
\<close>

lemma allocation_sound:
  assumes "sum_targets (initial_states count eff pairs rendered) \<le> unat eff"
  shows "(\<forall>s \<in> set (allocations eff (initial_states count eff pairs rendered)).
        ss_allocated s \<le> ss_actual_tokens s \<and> \<not> ss_truncated s)
    \<and> sum_allocated (allocations eff (initial_states count eff pairs rendered))
        \<le> sum_targets (initial_states count eff pairs rendered)"
proof -
  let ?ss = "initial_states count eff pairs rendered"
  have "True \<notin> set (map ss_truncated ?ss)" by (auto simp: initial_states_def)
  then have "True \<notin> ss_truncated ` set (allocations eff ?ss)"
    using allocations_sound(3) [OF assms] by (metis set_map)
  then have "\<forall>s \<in> set (allocations eff ?ss). \<not> ss_truncated s" by force
  with allocations_sound(1,2) [OF assms] show ?thesis by (simp add: alloc_within_def)
qed

section \<open>Starved sections\<close>

lemma redistribute_none:
  "redistribute is ss 0 = (ss, 0)"
  by (induction "is") (simp_all add: Let_def)

lemma allocations_starved:
  assumes "\<forall>s \<in> set ss. surplus_one s = 0" "sum_targets ss \<le> unat eff"
  shows "allocations eff ss = map allocate_one ss"
proof -
  have "map surplus_one ss = replicate (length ss) 0"
    using assms(1) by (auto simp: list_eq_iff_nth_eq)
  then have z: "sum_list (map surplus_one ss) = 0" by (simp add: sum_list_replicate)
  have lt: "sum_targets ss < 2 ^ 64" using assms(2) unat_bound [of eff] by simp
  have "sum_allocated (map allocate_one ss) + unat (sum_list (map surplus_one ss)) = sum_targets ss"
    by (rule allocate_conserves [OF lt]) (simp add: allocate_def)
  then have sum: "sum_allocated (map allocate_one ss) = sum_targets ss" using z by simp
  then have "unat (total_allocated (map allocate_one ss)) = sum_targets ss"
    using lt unat_sum_list [of "map ss_allocated (map allocate_one ss)"]
    by (simp add: total_allocated_def sum_allocated_def comp_def)
  then have "\<not> total_allocated (map allocate_one ss) > eff" using assms(2) by (simp add: word_less_nat_alt)
  with z show ?thesis by (simp add: allocations_def allocate_def redistribute_none)
qed

lemma assemble_truncated:
  "set (snd (snd (assemble count trunc ss prompt))) =
    ss_name ` {s \<in> set ss. ss_allocated s \<noteq> 0 \<and> ss_text s \<noteq> [] \<and> is_truncated s}"
  by (induction ss arbitrary: prompt) (auto simp: Let_def case_prod_unfold)

text \<open>
  A critical section can be truncated although all critical sections together fit the budget:
  surplus only comes from sections that stay below their targets, so when every other section
  uses its whole target, a critical section that needs more than its own target is cut down to it
  and reported as truncated, and compilation succeeds.
\<close>

lemma critical_section_truncated:
  assumes "critical_total count rendered \<le> total_budget"
    and "eff = effective_budget total_budget rendered"
    and "ss = initial_states count eff (as_ordered_pairs priorities) rendered"
    and "\<forall>s \<in> set ss. surplus_one s = 0" "sum_targets ss \<le> unat eff"
    and "s \<in> set ss" "ss_priority s = SecCritical" "ss_text s \<noteq> []"
    and "0 < ss_target s" "ss_target s < ss_actual_tokens s"
  shows "\<exists>ctx. compile_rendered count trunc total_budget priorities rendered = Inr ctx
    \<and> ss_name s \<in> set (cc_truncated_sections ctx)"
proof -
  have "allocations eff ss = map allocate_one ss" using assms(4,5) by (rule allocations_starved)
  moreover have "allocate_one s = s\<lparr>ss_allocated := ss_target s\<rparr>"
    using assms(9,10) by (auto simp: allocate_one_def)
  then have "ss_allocated (allocate_one s) \<noteq> 0 \<and> is_truncated (allocate_one s)"
    using assms(9,10) by (auto simp: is_truncated_def)
  then have "ss_name s \<in> ss_name ` {s \<in> set (map allocate_one ss). ss_allocated s \<noteq> 0 \<and> ss_text s \<noteq> [] \<and> is_truncated s}"
    using assms(6,8) by (intro image_eqI [of _ _ "allocate_one s"]) auto
  ultimately show ?thesis
    using assms(1-3) by (auto simp: compile_rendered_def Let_def case_prod_unfold assemble_truncated)
qed

section \<open>The properties at concrete inputs\<close>

text \<open>Thirteen sections of plain characters, given by their sizes in tokens.\<close>

definition plain :: "nat \<Rightarrow> string" where
  "plain n = replicate (4 * n) CHR ''x''"

definition plain_sections :: "nat list \<Rightarrow> rendered" where
  "plain_sections ns = map2 (\<lambda>(name, a) n. (name, plain n, sa_priority a))
     (as_ordered_pairs section_priorities_default) ns"

lemma char_count_plain: "char_count (replicate n CHR ''x'') = n"
proof -
  have "utf8_chars (replicate n CHR ''x'') = replicate n ''x''"
    by (induction n) (simp_all add: is_cont_def dropWhile_replicate takeWhile_replicate)
  then show ?thesis by (simp add: char_count_def)
qed

lemma plain_tokens: "measure_section approximate_token_count (plain n) = of_nat n"
  by (simp add: measure_section_def approximate_token_count_def char_count_plain plain_def)

lemma plain_text_empty: "plain n = [] \<longleftrightarrow> n = 0"
  by (simp add: plain_def)

lemma target_88:
  assumes "0 \<le> p" "p \<le> 1" "\<lfloor>rndq (88 * rndq p)\<rfloor> = int n" "n \<le> 88"
  shows "target_of 88 (alloc pr p) = of_nat n"
proof -
  have eighty: "rndq 88 = 88" by code_simp
  have u: "0 \<le> rndq p" "rndq p \<le> 1" using rndq_unit assms(1,2) by blast+
  then have r: "0 \<le> rndq (88 * rndq p)" "rndq (88 * rndq p) \<le> 88"
    using rndq_nonneg [of "88 * rndq p"] rndq_mono [of "88 * rndq p" 88] by (simp_all add: eighty)
  have "rndq (88 * rndq p) < 2 ^ 64" using r(2) by (rule le_less_trans) simp
  with r u assms show ?thesis
    by (simp add: target_of_def alloc_def f64_of_int_def f64_of_rat_bounded eighty)
qed

lemma default_targets_88:
  "map (\<lambda>(_, a). target_of 88 a) (as_ordered_pairs section_priorities_default)
     = [8, 8, 4, 2, 7, 7, 6, 8, 4, 4, 8, 9, 6]"
proof -
  have "\<lfloor>rndq (88 * rndq (10 / 100))\<rfloor> = 8" "\<lfloor>rndq (88 * rndq (5 / 100))\<rfloor> = 4"
    "\<lfloor>rndq (88 * rndq (3 / 100))\<rfloor> = 2" "\<lfloor>rndq (88 * rndq (8 / 100))\<rfloor> = 7"
    "\<lfloor>rndq (88 * rndq (7 / 100))\<rfloor> = 6" "\<lfloor>rndq (88 * rndq (55 / 1000))\<rfloor> = 4"
    "\<lfloor>rndq (88 * rndq (11 / 100))\<rfloor> = 9" by code_simp+
  then show ?thesis
    using target_88 [of "10 / 100" 8] target_88 [of "5 / 100" 4] target_88 [of "3 / 100" 2]
      target_88 [of "8 / 100" 7] target_88 [of "7 / 100" 6] target_88 [of "55 / 1000" 4]
      target_88 [of "11 / 100" 9]
    unfolding as_ordered_pairs_def section_priorities_default_def by simp
qed

definition full_sections :: rendered where
  "full_sections = plain_sections [40, 8, 4, 2, 7, 7, 6, 8, 4, 4, 8, 9, 6]"

definition full_states :: "section_state list" where
  "full_states = initial_states approximate_token_count 88 (as_ordered_pairs section_priorities_default) full_sections"

lemma full_sections_eq:
  "full_sections = map2 (\<lambda>(name, a) n. (name, plain n, sa_priority a))
     (as_ordered_pairs section_priorities_default) [40, 8, 4, 2, 7, 7, 6, 8, 4, 4, 8, 9, 6]"
  by (simp add: full_sections_def plain_sections_def)

lemma full_states_eq:
  "full_states = map2 (\<lambda>(name, a) n. \<lparr>ss_name = name, ss_text = plain n,
      ss_actual_tokens = of_nat n, ss_target = target_of 88 a, ss_allocated = 0, ss_priority = sa_priority a,
      ss_truncated = False\<rparr>) (as_ordered_pairs section_priorities_default) [40, 8, 4, 2, 7, 7, 6, 8, 4, 4, 8, 9, 6]"
  by (simp add: full_states_def full_sections_eq initial_states_def as_ordered_pairs_def plain_tokens)

lemma full_states_numbers:
  "map ss_target full_states = [8, 8, 4, 2, 7, 7, 6, 8, 4, 4, 8, 9, 6]"
  "map ss_actual_tokens full_states = [40, 8, 4, 2, 7, 7, 6, 8, 4, 4, 8, 9, 6]"
proof -
  have "map ss_target full_states = map (\<lambda>(_, a). target_of 88 a) (as_ordered_pairs section_priorities_default)"
    by (simp add: full_states_eq as_ordered_pairs_def)
  then show "map ss_target full_states = [8, 8, 4, 2, 7, 7, 6, 8, 4, 4, 8, 9, 6]"
    by (simp add: default_targets_88)
  show "map ss_actual_tokens full_states = [40, 8, 4, 2, 7, 7, 6, 8, 4, 4, 8, 9, 6]"
    by (simp add: full_states_eq as_ordered_pairs_def)
qed

lemma full_sum_targets: "sum_targets full_states = 81"
proof -
  have "sum_targets full_states = sum_list (map unat (map ss_target full_states))"
    by (simp add: sum_targets_def comp_def)
  then show ?thesis unfolding full_states_numbers by simp
qed

lemma full_effective: "effective_budget 100 full_sections = 88"
  by (simp add: effective_budget_def full_sections_eq as_ordered_pairs_def plain_text_empty sat_sub_def)

lemma full_critical: "critical_total approximate_token_count full_sections = 55"
  by (simp add: critical_total_def full_sections_eq as_ordered_pairs_def section_priorities_default_def
      alloc_def plain_text_empty plain_tokens)

lemma full_no_surplus: "\<forall>s \<in> set full_states. surplus_one s = 0"
proof -
  have "list_all2 (\<le>) (map ss_target full_states) (map ss_actual_tokens full_states)"
    unfolding full_states_numbers by simp
  then have le: "ss_target s \<le> ss_actual_tokens s" if "s \<in> set full_states" for s
    using that by (auto simp: list_all2_conv_all_nth in_set_conv_nth)
  have "surplus_one s = 0" if "ss_target s \<le> ss_actual_tokens s" for s
    using that by (auto simp: surplus_one_def)
  then show ?thesis using le by blast
qed

definition full_system :: section_state where
  "full_system = \<lparr>ss_name = ''system'', ss_text = plain 40, ss_actual_tokens = 40, ss_target = 8,
     ss_allocated = 0, ss_priority = SecCritical, ss_truncated = False\<rparr>"

lemma full_system_in: "full_system \<in> set full_states"
proof -
  have h: "hd full_states = full_system\<lparr>ss_target := hd (map ss_target full_states)\<rparr>"
    by (simp add: full_states_eq as_ordered_pairs_def full_system_def section_priorities_default_def alloc_def)
  then have "hd full_states = full_system" unfolding full_states_numbers by (simp add: full_system_def)
  moreover have "full_states \<noteq> []" by (simp add: full_states_eq as_ordered_pairs_def)
  ultimately show ?thesis using hd_in_set by metis
qed

end
