(* ===== verification/Render.thy ===== *)
theory Render
  imports State_Snapshot Relationship Conversations Context_Compiler
begin

text \<open>
  The section renderers (\<open>exoskeleton-memory/src/render.rs\<close>) and the whole context compilation
  \<open>ContextCompiler::compile\<close> over its sources (\<open>exoskeleton-memory/src/compiler.rs\<close>). Printing a UUID and
  the time of day are functions of the uuid and chrono crates: the record \<open>display_ops\<close>.
\<close>

record display_ops =
  show_uuid :: "uuid \<Rightarrow> string"
  fmt_hms :: "datetime \<Rightarrow> string" \<comment> \<open>\<open>t.format("%H:%M:%S")\<close>\<close>

text \<open>\<open>format!("{:.1}", x)\<close>.\<close>

fun fmt_f64_1 :: "f64 \<Rightarrow> string" where
  "fmt_f64_1 NaN = ''NaN''"
| "fmt_f64_1 PInf = ''inf''"
| "fmt_f64_1 NInf = ''-inf''"
| "fmt_f64_1 (Fin a) = (let n = nat (round_half_even (\<bar>a\<bar> * 10)) in
     (if a < 0 then ''-'' else []) @ show_nat (n div 10) @ ''.'' @ [digit_char (n mod 10)])"

text \<open>The debug print of an enum without fields is the name of its variant.\<close>

fun event_type_debug :: "event_type \<Rightarrow> string" where
  "event_type_debug VesselStarted = ''VesselStarted''"
| "event_type_debug VesselStopped = ''VesselStopped''"
| "event_type_debug TickStarted = ''TickStarted''"
| "event_type_debug TickCompleted = ''TickCompleted''"
| "event_type_debug ActionExecuted = ''ActionExecuted''"
| "event_type_debug LlmCalled = ''LlmCalled''"
| "event_type_debug ThreadRan = ''ThreadRan''"
| "event_type_debug RelationshipUpdated = ''RelationshipUpdated''"
| "event_type_debug BudgetConsumed = ''BudgetConsumed''"
| "event_type_debug MessageReceived = ''MessageReceived''"
| "event_type_debug VesselForked = ''VesselForked''"
| "event_type_debug EpisodicEvicted = ''EpisodicEvicted''"
| "event_type_debug VesselResponseSent = ''VesselResponseSent''"
| "event_type_debug CapabilityRequest = ''CapabilityRequest''"
| "event_type_debug WatchTriggered = ''WatchTriggered''"
| "event_type_debug CharterProposal = ''CharterProposal''"
| "event_type_debug ConnectorLoaded = ''ConnectorLoaded''"
| "event_type_debug ConnectorUnloaded = ''ConnectorUnloaded''"
| "event_type_debug ExecThreadUpdated = ''ExecThreadUpdated''"
| "event_type_debug QuestionAsked = ''QuestionAsked''"
| "event_type_debug QuestionAnswered = ''QuestionAnswered''"
| "event_type_debug PolicyApprovalRequired = ''PolicyApprovalRequired''"
| "event_type_debug PolicyApprovalGranted = ''PolicyApprovalGranted''"
| "event_type_debug PlanModeTransition = ''PlanModeTransition''"
| "event_type_debug LlmTextDelta = ''LlmTextDelta''"
| "event_type_debug EventError = ''Error''"

fun thread_status_debug :: "thread_status \<Rightarrow> string" where
  "thread_status_debug ThActive = ''Active''"
| "thread_status_debug ThSuspended = ''Suspended''"
| "thread_status_debug ThCompleted = ''Completed''"
| "thread_status_debug ThFailed = ''Failed''"

fun exec_kind_debug :: "exec_thread_kind \<Rightarrow> string" where
  "exec_kind_debug ExecCoding = ''Coding''"

section \<open>The renderers\<close>

text \<open>The arrow of the system section, as its UTF-8 bytes.\<close>

definition arrow :: string where
  "arrow = '' '' @ [CHR 0xE2, CHR 0x86, CHR 0x92] @ '' ''"

definition render_system_section :: "display_ops \<Rightarrow> uuid \<Rightarrow> string \<Rightarrow> string" where
  "render_system_section d vessel_id mission =
     ''=== SYSTEM ==='' @ nl @
     ''Vessel: '' @ show_uuid d vessel_id @ nl @
     ''Mission: '' @ mission @ nl @ nl @
     ''You are an Exoskeleton vessel operating under the PODAARA cognitive loop (''
       @ join arrow [''Perceive'', ''Orient'', ''Decide'', ''Align'', ''Act'', ''Reflect'', ''Amend''] @ '').'' @ nl @
     ''Your decisions are bounded by budget constraints and relationship awareness.'' @ nl @
     ''Respond with structured decisions when asked.''"

definition render_snapshot_section :: "state_snapshot \<Rightarrow> string" where
  "render_snapshot_section s =
     ''=== STATE (Tick '' @ show_u64 (ss_tick_number s) @ '') ==='' @ nl @
     ''Status: '' @ vessel_status_debug (ss_status s) @ nl @
     ''Budget: '' @ show_u64 (bs_local_tokens_remaining (ss_budget_status s)) @ '' local + ''
       @ show_u64 (bs_frontier_tokens_remaining (ss_budget_status s)) @ '' frontier tokens, ''
       @ show_u64 (bs_frontier_cost_cents_remaining (ss_budget_status s)) @ '' cost-cents, ''
       @ show_u64 (bs_time_secs_remaining (ss_budget_status s)) @ ''s remaining'' @ nl @
     (case ss_last_action_summary s of None \<Rightarrow> [] | Some t \<Rightarrow> ''Last action: '' @ t @ nl) @
     (if ss_thread_summaries s = [] then []
      else ''Active threads:'' @ nl @ concat (map (\<lambda>ts.
        ''  - '' @ su_name ts @ '' ('' @ thread_status_debug (su_status ts) @ ''): ''
        @ (case su_last_output_summary ts of None \<Rightarrow> ''no output yet'' | Some t \<Rightarrow> t) @ nl) (ss_thread_summaries s)))"

definition render_principal :: "principal_summary \<Rightarrow> string" where
  "render_principal p =
     ''- '' @ sm_display_name p @ '' ('' @ sm_role p @ ''): trust='' @ fmt_f64_2 (sm_trust_level p)
       @ '', commitments='' @ show_nat (unat (sm_active_commitments p)) @ nl @
     (case sm_notes p of None \<Rightarrow> [] | Some notes \<Rightarrow> ''  Notes: '' @ notes @ nl)"

definition render_relationship_section :: "relationship_snapshot \<Rightarrow> string" where
  "render_relationship_section snap =
     (if rs_principals snap = [] then []
      else ''=== RELATIONSHIPS ==='' @ nl @ concat (map render_principal (rs_principals snap)))"

definition render_thread_outputs :: "display_ops \<Rightarrow> thread_contribution list \<Rightarrow> string" where
  "render_thread_outputs d cs =
     (if cs = [] then []
      else ''=== THREAD OUTPUTS ==='' @ nl @ concat (map (\<lambda>c.
        ''- ['' @ show_uuid d (tc_thread_id c) @ '']: '' @ tc_summary c @ nl) cs))"

definition render_exec_thread_outputs :: "display_ops \<Rightarrow> exec_thread_contribution list \<Rightarrow> string" where
  "render_exec_thread_outputs d cs =
     (if cs = [] then []
      else ''=== EXEC THREAD OUTPUTS ==='' @ nl @ concat (map (\<lambda>c.
        ''- ['' @ exec_kind_debug (xc_kind c) @ ''/'' @ show_uuid d (xc_thread_id c) @ '']: '' @ xc_summary c @ nl @
        (case xc_proposed_action_summary c of None \<Rightarrow> []
         | Some p \<Rightarrow> ''  Recommended next action: '' @ p @ nl)) cs))"

definition render_recent_events :: "display_ops \<Rightarrow> event_entry list \<Rightarrow> string" where
  "render_recent_events d es =
     (if es = [] then []
      else ''=== RECENT EVENTS ==='' @ nl @ concat (map (\<lambda>e.
        ''- ['' @ fmt_hms d (ev_timestamp e) @ ''] '' @ event_type_debug (ev_event_type e) @ '': ''
        @ ev_summary e @ nl) es))"

definition render_episodic_memory :: "episodic_summary list \<Rightarrow> string" where
  "render_episodic_memory es =
     (if es = [] then []
      else ''=== EPISODIC MEMORY ==='' @ nl @ concat (map (\<lambda>e.
        ''- Ticks '' @ show_u64 (ep_start_tick e) @ ''-'' @ show_u64 (ep_end_tick e) @ '': '' @ ep_summary e @ nl
        @ concat (map (\<lambda>k. ''    * '' @ k @ nl) (ep_key_events e))) es))"

definition render_long_term_memory :: "long_term_note list \<Rightarrow> string" where
  "render_long_term_memory ns =
     (if ns = [] then []
      else ''=== LONG-TERM MEMORY ==='' @ nl @ concat (map (\<lambda>n.
        ''- ['' @ lt_topic n @ '']: '' @ lt_content n @ nl @
        (if lt_tags n = [] then [] else ''  Tags: '' @ join '', '' (lt_tags n) @ nl)) ns))"

fun task_indicator :: "plan_task_status \<Rightarrow> string" where
  "task_indicator TPending = ''[ ]''"
| "task_indicator TInProgress = ''[>]''"
| "task_indicator TCompleted = ''[x]''"
| "task_indicator TFailed = ''[!]''"
| "task_indicator TBlocked = ''[#]''"
| "task_indicator TSkipped = ''[-]''"

definition render_plan :: "display_ops \<Rightarrow> plan \<Rightarrow> string" where
  "render_plan d p =
     ''=== PLAN ==='' @ nl @ ''Objective: '' @ pl_objective p @ nl @
     (if pl_tasks p = [] then ''(no tasks defined)'' @ nl
      else concat (map (\<lambda>t.
        task_indicator (pt_status t) @ '' '' @ pt_description t @ '' ('' @ show_uuid d (pt_id t) @ '')'' @ nl @
        (if pt_depends_on t = [] then []
         else ''    depends on: '' @ join '', '' (map (show_uuid d) (pt_depends_on t)) @ nl) @
        (case pt_tool_hint t of None \<Rightarrow> [] | Some h \<Rightarrow> ''    tool: '' @ h @ nl)) (pl_tasks p)))"

definition render_working_memory :: "working_memory \<Rightarrow> string" where
  "render_working_memory es =
     (if es = [] then []
      else ''=== WORKING MEMORY ==='' @ nl @ concat (map (\<lambda>e.
        ''- '' @ wme_key e @ '': '' @ wme_value e @
        (case wme_ttl_ticks e of None \<Rightarrow> []
         | Some ttl \<Rightarrow> '' (ttl: '' @ show_u64 ttl @ ''t, written: t'' @ show_u64 (wme_written_at_tick e) @ '')'') @
        '' [rel: '' @ fmt_f64_1 (wme_relevance e) @ '']'' @ nl)
      (sort_key (\<lambda>e. f64_neg (wme_relevance e)) es)))"

fun conversation_status :: "conversation_state \<Rightarrow> string" where
  "conversation_status CActive = ''active''"
| "conversation_status CStale = ''stale''"
| "conversation_status CClosed = ''closed''"

text \<open>\<open>iter().rev().take(3)\<close>, reversed again: the last three messages in order.\<close>

definition last_three :: "'a list \<Rightarrow> 'a list" where
  "last_three xs = rev (take 3 (rev xs))"

definition render_message ::
  "display_ops \<Rightarrow> (artifact_id \<times> string) list option \<Rightarrow> conversation_message \<Rightarrow> string" where
  "render_message d resolved m =
     ''  ['' @ show_uuid d (cm_source m) @ '' '' @ fmt_hms d (cm_timestamp m) @ '']: ''
     @ (case Option.bind resolved (\<lambda>r. map_of r (cm_payload_ref m)) of
          Some tx \<Rightarrow> tx
        | None \<Rightarrow> ''(unresolved envelope:'' @ show_uuid d (cm_envelope_id m) @ '')'') @ nl"

definition render_conversations ::
  "display_ops \<Rightarrow> conversation list \<Rightarrow> (artifact_id \<times> string) list option \<Rightarrow> string" where
  "render_conversations d cs resolved =
     (if cs = [] then []
      else ''=== CONVERSATIONS ==='' @ nl @ concat (map (\<lambda>c.
        ''- '' @ (case cv_topic c of None \<Rightarrow> ''(untitled)'' | Some t \<Rightarrow> t) @ '' ['' @ show_uuid d (cv_id c) @ ''] (''
          @ show_nat (length (cv_message_refs c)) @ '' msgs, '' @ conversation_status (cv_state c) @ '')'' @ nl @
        ''  Participants: '' @ join '', '' (map (show_uuid d) (cv_participants c)) @ nl @
        concat (map (render_message d resolved) (last_three (cv_message_refs c)))) cs))"

definition render_repo_instructions :: "string \<Rightarrow> string" where
  "render_repo_instructions tx = ''=== REPO INSTRUCTIONS ==='' @ nl @ tx"

definition render_git_context :: "string \<Rightarrow> string" where
  "render_git_context tx = ''=== GIT CONTEXT ==='' @ nl @ tx"

section \<open>Compilation from the sources\<close>

record context_sources =
  cs_vessel_id :: uuid
  cs_mission :: string
  cs_snapshot :: state_snapshot
  cs_relationship_snapshot :: "relationship_snapshot option"
  cs_thread_contributions :: "thread_contribution list"
  cs_exec_thread_contributions :: "exec_thread_contribution list"
  cs_recent_events :: "event_entry list"
  cs_episodic_summaries :: "episodic_summary list"
  cs_long_term_notes :: "long_term_note list"
  cs_plan :: "plan option"
  cs_working_memory :: working_memory
  cs_conversations :: "conversation list"
  cs_resolved_message_content :: "(artifact_id \<times> string) list option"
  cs_system_section_override :: "string option"
  cs_repo_instructions :: "string option"
  cs_git_context :: "string option"

definition map_or_empty :: "('a \<Rightarrow> string) \<Rightarrow> 'a option \<Rightarrow> string" where
  "map_or_empty f x = (case x of None \<Rightarrow> [] | Some a \<Rightarrow> f a)"

definition render_sections :: "display_ops \<Rightarrow> section_priorities \<Rightarrow> context_sources \<Rightarrow> rendered" where
  "render_sections d p s = [
     (''system'',
       (case cs_system_section_override s of
          Some tx \<Rightarrow> ''=== SYSTEM ==='' @ nl @ tx
        | None \<Rightarrow> render_system_section d (cs_vessel_id s) (cs_mission s)),
       sa_priority (sp_system p)),
     (''state_snapshot'', render_snapshot_section (cs_snapshot s), sa_priority (sp_state_snapshot p)),
     (''repo_instructions'', map_or_empty render_repo_instructions (cs_repo_instructions s),
       sa_priority (sp_repo_instructions p)),
     (''git_context'', map_or_empty render_git_context (cs_git_context s), sa_priority (sp_git_context p)),
     (''plan'', map_or_empty (render_plan d) (cs_plan s), sa_priority (sp_plan p)),
     (''relationship_snapshot'', map_or_empty render_relationship_section (cs_relationship_snapshot s),
       sa_priority (sp_relationship_snapshot p)),
     (''conversations'', render_conversations d (cs_conversations s) (cs_resolved_message_content s),
       sa_priority (sp_conversations p)),
     (''working_memory'', render_working_memory (cs_working_memory s), sa_priority (sp_working_memory p)),
     (''thread_outputs'', render_thread_outputs d (cs_thread_contributions s), sa_priority (sp_thread_outputs p)),
     (''exec_thread_outputs'', render_exec_thread_outputs d (cs_exec_thread_contributions s),
       sa_priority (sp_exec_thread_outputs p)),
     (''recent_events'', render_recent_events d (cs_recent_events s), sa_priority (sp_recent_events p)),
     (''episodic_memory'', render_episodic_memory (cs_episodic_summaries s), sa_priority (sp_episodic_memory p)),
     (''long_term_memory'', render_long_term_memory (cs_long_term_notes s), sa_priority (sp_long_term_memory p))]"

text \<open>\<open>ContextCompiler\<close>: the token counter, the budget and the priorities.\<close>

record context_compiler =
  ccp_count :: "string \<Rightarrow> u64"
  ccp_truncate :: "string \<Rightarrow> u64 \<Rightarrow> string"
  ccp_total_budget :: u64
  ccp_section_priorities :: section_priorities

definition compile :: "display_ops \<Rightarrow> context_compiler \<Rightarrow> context_sources \<Rightarrow> compiled_context exo_result" where
  "compile d c s = compile_rendered (ccp_count c) (ccp_truncate c) (ccp_total_budget c)
     (ccp_section_priorities c) (render_sections d (ccp_section_priorities c) s)"

section \<open>The compiled prompt\<close>

text \<open>
  C19. A compiled context never exceeds its budget: whatever the sources, priorities and percentages,
  compilation fails exactly when the rendered critical sections alone do not fit the budget, and
  otherwise yields a prompt whose reported total is its token count and at most the budget.
\<close>

theorem compile_within_budget:
  assumes "text_room (map (fst \<circ> snd) (render_sections d p s)) < 2 ^ 64"
    and "c = \<lparr>ccp_count = approximate_token_count, ccp_truncate = truncate_to_budget,
      ccp_total_budget = budget, ccp_section_priorities = p\<rparr>"
  shows "case compile d c s of
      Inr ctx \<Rightarrow> cc_total_tokens ctx \<le> budget
        \<and> cc_total_tokens ctx = approximate_token_count (cc_prompt ctx)
        \<and> critical_total approximate_token_count (render_sections d p s) \<le> budget
    | Inl _ \<Rightarrow> budget < critical_total approximate_token_count (render_sections d p s)"
proof -
  have "length (render_sections d p s) = 13" by (simp add: render_sections_def)
  then show ?thesis using compile_rendered_cases [OF _ assms(1)] by (simp add: compile_def assms(2))
qed

text \<open>A vessel before its first tick, and priorities with literal percentages.\<close>

definition plain_display :: display_ops where
  "plain_display = \<lparr>show_uuid = (\<lambda>u. show_nat (unat u)), fmt_hms = (\<lambda>t. ''12:00:00'')\<rparr>"

definition plain_priorities :: section_priorities where
  "plain_priorities = (let a = \<lparr>sa_priority = SecCritical, sa_target_pct = Fin (1 / 2)\<rparr>;
       b = \<lparr>sa_priority = SecLow, sa_target_pct = Fin 0\<rparr>
     in \<lparr>sp_system = a, sp_state_snapshot = a, sp_repo_instructions = b, sp_git_context = b, sp_plan = b,
       sp_relationship_snapshot = b, sp_conversations = b, sp_working_memory = b, sp_thread_outputs = b,
       sp_exec_thread_outputs = b, sp_recent_events = b, sp_episodic_memory = b, sp_long_term_memory = b\<rparr>)"

definition idle_budget :: budget_status where
  "idle_budget = \<lparr>bs_local_tokens_remaining = 5, bs_frontier_tokens_remaining = 5,
     bs_frontier_cost_cents_remaining = 5, bs_time_secs_remaining = 5, bs_thrash_level = ThrashNone,
     bs_tool_invocations_remaining = 5\<rparr>"

definition first_sources :: context_sources where
  "first_sources = \<lparr>cs_vessel_id = 7, cs_mission = ''explore'', cs_snapshot = (snapshot_initial 0 7 ''explore'')\<lparr>ss_budget_status := idle_budget\<rparr>,
     cs_relationship_snapshot = None, cs_thread_contributions = [], cs_exec_thread_contributions = [],
     cs_recent_events = [], cs_episodic_summaries = [], cs_long_term_notes = [], cs_plan = None,
     cs_working_memory = [], cs_conversations = [], cs_resolved_message_content = None,
     cs_system_section_override = Some ''explore'', cs_repo_instructions = None, cs_git_context = None\<rparr>"

lemmas first_sections = render_sections_def first_sources_def plain_priorities_def snapshot_initial_def
  idle_budget_def map_or_empty_def render_conversations_def render_working_memory_def
  render_thread_outputs_def render_exec_thread_outputs_def render_recent_events_def
  render_episodic_memory_def render_long_term_memory_def render_snapshot_section_def
  show_u64_def show_nat.simps wm_new_def

lemma first_sources_room:
  "text_room (map (fst \<circ> snd) (render_sections plain_display plain_priorities first_sources)) < 2 ^ 64"
  by (simp add: text_room_def first_sections)

lemma first_sources_critical:
  "critical_total approximate_token_count (render_sections plain_display plain_priorities first_sources) \<le> 1000"
  by (simp add: first_sections critical_total_def measure_section_def approximate_token_count_def
      char_count_def is_cont_def)

theorem compile_within_budget_witness:
  "case compile plain_display \<lparr>ccp_count = approximate_token_count, ccp_truncate = truncate_to_budget,
      ccp_total_budget = 1000, ccp_section_priorities = plain_priorities\<rparr> first_sources of
      Inr ctx \<Rightarrow> cc_total_tokens ctx \<le> 1000
    | Inl _ \<Rightarrow> False"
  using compile_within_budget [OF first_sources_room refl, of 1000] first_sources_critical
  by (auto split: sum.splits)

end
