(* ===== verification/Thread_Context.thy ===== *)
theory Thread_Context
  imports Render
begin

text \<open>
  The context slice of a cognitive thread (\<open>exoskeleton-threads/src/context.rs\<close>): the charter, the
  vessel state and the thread's recent outputs, cut to the token budget of the thread.
\<close>

section \<open>The compiler\<close>

fun thread_priority_debug :: "thread_priority \<Rightarrow> string" where
  "thread_priority_debug PBackground = ''Background''"
| "thread_priority_debug PLow = ''Low''"
| "thread_priority_debug PNormal = ''Normal''"
| "thread_priority_debug PHigh = ''High''"
| "thread_priority_debug PCritical = ''Critical''"

definition quoted :: "string \<Rightarrow> string" where
  "quoted s = [CHR 0x22] @ s @ [CHR 0x22]"

definition charter_section ::
  "display_ops \<Rightarrow> thread_spec \<Rightarrow> state_snapshot \<Rightarrow> string option \<Rightarrow> string option \<Rightarrow> string" where
  "charter_section d th snap charter_template bootstrap_preamble =
     (let body = (case charter_template of
            Some template \<Rightarrow> template
          | None \<Rightarrow>
              ''=== THREAD: '' @ sp_name th @ '' ==='' @ nl @
              ''Thread ID: '' @ show_uuid d (sp_thread_id th) @ nl @
              ''Charter: '' @ sp_charter th @ nl @
              ''Priority: '' @ thread_priority_debug (sp_priority th) @ nl @
              ''Current Tick: '' @ show_u64 (ss_tick_number snap) @ nl @ nl @
              ''You are a cognitive thread within an Exoskeleton vessel.'' @ nl @
              ''Your purpose is described by your charter above.'' @ nl @
              ''Analyze the context below and produce:'' @ nl @
              ''1. A concise summary of your analysis'' @ nl @
              ''2. Specific recommendations for the master loop'' @ nl @ nl @
              ''Respond with JSON:'' @ nl @ ''{'' @ nl @
              quoted ''summary'' @ '': '' @ quoted ''Your analysis in one sentence'' @ '','' @ nl @
              quoted ''recommendations'' @ '': ['' @ quoted ''Specific actionable recommendation'' @ '', ...]'' @ nl @
              ''}'')
      in case bootstrap_preamble of Some preamble \<Rightarrow> preamble @ nl @ nl @ body | None \<Rightarrow> body)"

definition vessel_state_section :: "state_snapshot \<Rightarrow> string" where
  "vessel_state_section snap =
     ''=== VESSEL STATE ==='' @ nl @
     ''Mission: '' @ ss_mission snap @ nl @
     ''Status: '' @ vessel_status_debug (ss_status snap) @ nl @
     ''Plan: '' @ (case ss_plan snap of None \<Rightarrow> ''None'' | Some p \<Rightarrow> pl_objective p) @ nl @
     ''Working Memory: '' @ (if ss_working_memory snap = [] then ''None''
        else join ''; '' (map (\<lambda>e. wme_key e @ '': '' @ wme_value e) (ss_working_memory snap))) @ nl @
     ''Last Action: '' @ (case ss_last_action_summary snap of None \<Rightarrow> ''None'' | Some t \<Rightarrow> t)"

definition recent_outputs_section :: "display_ops \<Rightarrow> thread_output list \<Rightarrow> string" where
  "recent_outputs_section d outs =
     (if outs = [] then []
      else join nl (''=== YOUR RECENT OUTPUTS ==='' # map (\<lambda>o1.
        ''- Tick '' @ show_uuid d (to_tick_id o1) @ '': '' @ to_summary o1 @ nl
        @ ''  Recommendations: '' @ join '', '' (to_recommendations o1)) outs))"

text \<open>A section cut to its share: its text, the tokens used and whether it was truncated.\<close>

definition fit_section ::
  "(string \<Rightarrow> u64) \<Rightarrow> (string \<Rightarrow> u64 \<Rightarrow> string) \<Rightarrow> string \<Rightarrow> u64 \<Rightarrow> string \<times> u64 \<times> bool" where
  "fit_section cnt trunc tx budget =
     (if cnt tx > budget then (trunc tx budget, cnt (trunc tx budget), True) else (tx, cnt tx, False))"

definition compile_thread_context ::
  "display_ops \<Rightarrow> (string \<Rightarrow> u64) \<Rightarrow> (string \<Rightarrow> u64 \<Rightarrow> string) \<Rightarrow> thread_spec \<Rightarrow> state_snapshot \<Rightarrow>
   thread_output list \<Rightarrow> string option \<Rightarrow> string option \<Rightarrow> compiled_context exo_result" where
  "compile_thread_context d cnt trunc th snap outs charter_template bootstrap_preamble =
     (let charter = charter_section d th snap charter_template bootstrap_preamble;
          charter_tokens = cnt charter
      in if charter_tokens > sp_token_budget th then Inl (Config ''thread charter exceeds token budget'')
         else let remaining = sp_token_budget th - charter_tokens;
                  snap_budget = remaining div 2;
                  out_budget = remaining - snap_budget;
                  (final_snapshot, snap_used, snap_truncated) = fit_section cnt trunc (vessel_state_section snap) snap_budget;
                  (final_outputs, out_used, out_truncated) = fit_section cnt trunc (recent_outputs_section d outs) out_budget;
                  parts = [charter] @ (if final_snapshot = [] then [] else [final_snapshot])
                    @ (if final_outputs = [] then [] else [final_outputs]);
                  prompt = join (nl @ nl) parts
              in Inr \<lparr>cc_prompt = prompt, cc_total_tokens = cnt prompt, cc_budget = sp_token_budget th,
                   cc_sections = [
                     \<lparr>sr_name = ''charter'', sr_allocated = charter_tokens, sr_used = charter_tokens, sr_truncated = False\<rparr>,
                     \<lparr>sr_name = ''snapshot'', sr_allocated = snap_budget, sr_used = snap_used, sr_truncated = snap_truncated\<rparr>,
                     \<lparr>sr_name = ''recent_outputs'', sr_allocated = out_budget, sr_used = out_used, sr_truncated = out_truncated\<rparr>],
                   cc_truncated_sections = (if snap_truncated then [''snapshot''] else [])
                     @ (if out_truncated then [''recent_outputs''] else [])\<rparr>)"

section \<open>The budget of a thread\<close>

lemma fit_section_bound:
  assumes "length tx < 2 ^ 64" "fit_section approximate_token_count truncate_to_budget tx b = (out, used, tr)"
  shows "char_count out \<le> 4 * unat b" "length out \<le> length tx" "used = approximate_token_count out"
proof -
  have len: "length (truncate_to_budget tx b) \<le> length tx" by (rule approximate.truncate_shorter)
  then show len_out: "length out \<le> length tx" "used = approximate_token_count out"
    using assms(2) by (auto simp: fit_section_def split: if_splits)
  have "approximate_token_count out \<le> b"
    using assms truncate_fits [OF assms(1), of b] by (auto simp: fit_section_def split: if_splits)
  then show "char_count out \<le> 4 * unat b"
    using unat_token_count [of out] len_out assms(1) by (simp add: word_le_nat_alt)
qed

lemma char_count_sep: "char_count (s @ nl @ nl @ t) \<le> char_count s + char_count t + 2"
  using char_count_append [of s "nl @ nl @ t"] char_count_append [of "nl @ nl" t]
    char_count_le_length [of "nl @ nl"] by simp

lemma char_count_three:
  "char_count (join (nl @ nl) ([a] @ (if b = [] then [] else [b]) @ (if c = [] then [] else [c])))
    \<le> char_count a + char_count b + char_count c + 4"
  using char_count_sep [of a b] char_count_sep [of a c] char_count_sep [of a "b @ nl @ nl @ c"]
    char_count_sep [of b c] by auto

lemma join_three_length:
  "length (join (nl @ nl) ([a] @ (if b = [] then [] else [b]) @ (if c = [] then [] else [c])))
    \<le> length a + length b + length c + 4"
  by simp

lemma split_budget:
  fixes total used :: u64
  assumes "used \<le> total" "r = total - used"
  shows "unat used + (unat (r div 2) + unat (r - r div 2)) = unat total"
proof -
  have "r div 2 \<le> r" by (simp add: word_le_nat_alt unat_div)
  then have "unat (r - r div 2) = unat r - unat (r div 2)" "unat (r div 2) \<le> unat r"
    by (simp_all add: unat_sub word_le_nat_alt)
  with assms show ?thesis by (simp add: unat_sub word_le_nat_alt)
qed

text \<open>
  The context of a thread starts with its whole charter and stays within one token of the
  thread's budget: the two separators between the sections are not charged, which can cost one
  token. Compilation fails exactly when the charter alone is over the budget.
\<close>

lemma thread_context_bound:
  assumes "charter = charter_section d th snap template preamble"
    and "length charter + length (vessel_state_section snap) + length (recent_outputs_section d outs) + 4 < 2 ^ 64"
  shows "case compile_thread_context d approximate_token_count truncate_to_budget th snap outs template preamble of
      Inl e \<Rightarrow> e = Config ''thread charter exceeds token budget''
        \<and> sp_token_budget th < approximate_token_count charter
    | Inr ctx \<Rightarrow> (\<exists>rest. cc_prompt ctx = charter @ rest)
        \<and> cc_total_tokens ctx = approximate_token_count (cc_prompt ctx)
        \<and> unat (cc_total_tokens ctx) \<le> unat (sp_token_budget th) + 1"
proof (cases "approximate_token_count charter > sp_token_budget th")
  case True
  then show ?thesis using assms(1) by (simp add: compile_thread_context_def Let_def)
next
  case False
  define r where "r = sp_token_budget th - approximate_token_count charter"
  obtain a au atr where a: "fit_section approximate_token_count truncate_to_budget (vessel_state_section snap) (r div 2)
      = (a, au, atr)" by (metis prod_cases3)
  obtain b bu btr where b: "fit_section approximate_token_count truncate_to_budget (recent_outputs_section d outs)
      (r - r div 2) = (b, bu, btr)" by (metis prod_cases3)
  let ?p = "join (nl @ nl) ([charter] @ (if a = [] then [] else [a]) @ (if b = [] then [] else [b]))"
  have lens: "length (vessel_state_section snap) < 2 ^ 64" "length (recent_outputs_section d outs) < 2 ^ 64"
    "length charter < 2 ^ 64" using assms(2) by linarith+
  note ba = fit_section_bound [OF lens(1) a] and bb = fit_section_bound [OF lens(2) b]
  have "length ?p < 2 ^ 64" using join_three_length [of charter a b] ba(2) bb(2) assms(2) by linarith
  then have "unat (approximate_token_count ?p) = (char_count ?p + 3) div 4" by (rule unat_token_count)
  moreover have "unat (approximate_token_count charter) = (char_count charter + 3) div 4"
    by (rule unat_token_count [OF lens(3)])
  moreover have "unat (approximate_token_count charter) + (unat (r div 2) + unat (r - r div 2)) = unat (sp_token_budget th)"
    using False by (intro split_budget) (simp_all add: r_def not_less)
  ultimately have bound: "unat (approximate_token_count ?p) \<le> unat (sp_token_budget th) + 1"
    using char_count_three [of charter a b] ba(1) bb(1) by linarith
  have "\<exists>rest. ?p = charter @ rest" by simp
  with bound False a b show ?thesis
    by (simp add: compile_thread_context_def Let_def assms(1) [symmetric] r_def [symmetric])
qed

section \<open>A thread whose context is over its budget\<close>

definition exact_thread :: thread_spec where
  "exact_thread = (sample_spec 1 PNormal EveryTick)\<lparr>sp_token_budget := 49\<rparr>"

definition exact_snapshot :: state_snapshot where
  "exact_snapshot = snapshot_initial 0 7 ''go!''"

definition exact_outputs :: "thread_output list" where
  "exact_outputs = [\<lparr>to_thread_id = 1, to_tick_id = 1, to_artifact_id = [],
     to_summary = ''thirty-eight characters of plain text.'', to_recommendations = []\<rparr>]"

lemma digit_one: "digit_char (Suc 0) = CHR ''1''"
  by code_simp

lemma exact_sections:
  "vessel_state_section exact_snapshot =
     ''=== VESSEL STATE ==='' @ nl @ ''Mission: go!'' @ nl @ ''Status: Idle'' @ nl @ ''Plan: None'' @ nl
       @ ''Working Memory: None'' @ nl @ ''Last Action: None''"
  "recent_outputs_section plain_display exact_outputs =
     ''=== YOUR RECENT OUTPUTS ==='' @ nl @ ''- Tick 1: thirty-eight characters of plain text.'' @ nl
       @ ''  Recommendations: ''"
  "charter_section plain_display exact_thread exact_snapshot (Some ''abcd'') None = ''abcd''"
  by (simp_all add: vessel_state_section_def exact_snapshot_def snapshot_initial_def wm_new_def
      recent_outputs_section_def exact_outputs_def plain_display_def show_nat.simps digit_one
      charter_section_def)

lemma exact_tokens:
  "approximate_token_count (vessel_state_section exact_snapshot) = 24"
  "approximate_token_count (recent_outputs_section plain_display exact_outputs) = 24"
  "approximate_token_count ''abcd'' = 1"
  unfolding exact_sections by (simp_all add: approximate_token_count_def char_count_def is_cont_def)

lemma exact_prompt_tokens:
  "approximate_token_count (''abcd'' @ nl @ nl @ vessel_state_section exact_snapshot @ nl @ nl
     @ recent_outputs_section plain_display exact_outputs) = 50"
  unfolding exact_sections by (simp add: approximate_token_count_def char_count_def is_cont_def)

end
