(* ===== verification/Inbox.thy ===== *)
theory Inbox
  imports Exo_Core
begin

text \<open>
  The inbox of the Perceive step (\<open>exoskeleton-core/src/inbox.rs\<close>) with its two implementations in
  \<open>exoskeleton-host/src/inbox/\<close>: in memory, and as a directory of JSON files. The contract is the locale
  \<open>inbox\<close>: what was submitted is received until it is acknowledged.
\<close>

section \<open>The operations\<close>

record 's inbox_ops =
  ib_receive :: "'s \<Rightarrow> message_envelope list exo_result"
  ib_acknowledge :: "uuid list \<Rightarrow> 's \<Rightarrow> unit exo_result \<times> 's"
  ib_submit :: "message_envelope \<Rightarrow> 's \<Rightarrow> unit exo_result \<times> 's"

section \<open>In memory\<close>

record mem_inbox =
  mi_pending :: "message_envelope list"
  mi_acknowledged :: "uuid list"

definition mem_inbox_new :: mem_inbox where
  "mem_inbox_new = \<lparr>mi_pending = [], mi_acknowledged = []\<rparr>"

definition mem_receive :: "mem_inbox \<Rightarrow> message_envelope list exo_result" where
  "mem_receive st = Inr (filter (\<lambda>e. \<not> List.member (mi_acknowledged st) (me_id e)) (mi_pending st))"

definition mem_acknowledge :: "uuid list \<Rightarrow> mem_inbox \<Rightarrow> unit exo_result \<times> mem_inbox" where
  "mem_acknowledge ids st = (Inr (), st\<lparr>mi_acknowledged :=
     fold (\<lambda>i acked. if List.member acked i then acked else acked @ [i]) ids (mi_acknowledged st)\<rparr>)"

definition mem_submit :: "message_envelope \<Rightarrow> mem_inbox \<Rightarrow> unit exo_result \<times> mem_inbox" where
  "mem_submit e st = (Inr (), st\<lparr>mi_pending := mi_pending st @ [e]\<rparr>)"

definition mem_inbox_ops :: "mem_inbox inbox_ops" where
  "mem_inbox_ops = \<lparr>ib_receive = mem_receive, ib_acknowledge = mem_acknowledge, ib_submit = mem_submit\<rparr>"

section \<open>A directory of files\<close>

text \<open>
  The directory and its subdirectory \<open>processed\<close>: names with contents, in the order the operating
  system lists them; unreadable contents are \<open>None\<close>. A file system that fails reports \<open>fi_fault\<close>.
  JSON is read and written by functions of serde_json.
\<close>

record file_inbox =
  fi_files :: "(string \<times> string option) list"
  fi_processed :: "(string \<times> string option) list"
  fi_fault :: "string option"

record envelope_codec =
  ec_show :: "uuid \<Rightarrow> string"
  ec_read :: "string \<Rightarrow> message_envelope option"
  ec_write :: "message_envelope \<Rightarrow> string + string"

definition file_name :: "envelope_codec \<Rightarrow> uuid \<Rightarrow> string" where
  "file_name c i = ec_show c i @ ''.json''"

text \<open>\<open>path.extension() == "json"\<close>.\<close>

definition has_json_extension :: "string \<Rightarrow> bool" where
  "has_json_extension name \<longleftrightarrow> 5 < length name \<and> drop (length name - 5) name = ''.json''"

definition read_file :: "envelope_codec \<Rightarrow> string \<times> string option \<Rightarrow> message_envelope option" where
  "read_file c f = (if has_json_extension (fst f) then Option.bind (snd f) (ec_read c) else None)"

definition file_receive :: "envelope_codec \<Rightarrow> file_inbox \<Rightarrow> message_envelope list exo_result" where
  "file_receive c st = (case fi_fault st of
     Some e \<Rightarrow> Inl (Io e)
   | None \<Rightarrow> Inr (sort_asc me_timestamp (List.map_filter (read_file c) (fi_files st))))"

fun file_acknowledge :: "envelope_codec \<Rightarrow> uuid list \<Rightarrow> file_inbox \<Rightarrow> unit exo_result \<times> file_inbox" where
  "file_acknowledge c [] st = (Inr (), st)"
| "file_acknowledge c (i # ids) st = (case map_of (fi_files st) (file_name c i) of
     None \<Rightarrow> file_acknowledge c ids st
   | Some contents \<Rightarrow> (case fi_fault st of
       Some e \<Rightarrow> (Inl (Io e), st)
     | None \<Rightarrow> file_acknowledge c ids (st\<lparr>
         fi_files := AList.delete (file_name c i) (fi_files st),
         fi_processed := AList.update (file_name c i) contents (fi_processed st)\<rparr>)))"

definition file_submit :: "envelope_codec \<Rightarrow> message_envelope \<Rightarrow> file_inbox \<Rightarrow> unit exo_result \<times> file_inbox" where
  "file_submit c e st = (case ec_write c e of
     Inl err \<Rightarrow> (Inl (Storage (''envelope serialize: '' @ err)), st)
   | Inr tx \<Rightarrow> (case fi_fault st of
       Some err \<Rightarrow> (Inl (Io err), st)
     | None \<Rightarrow> (Inr (), st\<lparr>fi_files := AList.update (file_name c (me_id e)) (Some tx) (fi_files st)\<rparr>)))"

definition file_inbox_ops :: "envelope_codec \<Rightarrow> file_inbox inbox_ops" where
  "file_inbox_ops c = \<lparr>ib_receive = file_receive c, ib_acknowledge = file_acknowledge c, ib_submit = file_submit c\<rparr>"

section \<open>The contract\<close>

text \<open>
  \<open>accepts st e\<close> says when a submitted envelope is a new one for the inbox: an acknowledged id is
  never received again.
\<close>

locale inbox =
  fixes ops :: "'s inbox_ops" and ok :: "'s \<Rightarrow> bool" and pending :: "'s \<Rightarrow> message_envelope set"
    and accepts :: "'s \<Rightarrow> message_envelope \<Rightarrow> bool"
  assumes receive_law: "ok st \<Longrightarrow> \<exists>es. ib_receive ops st = Inr es \<and> set es = pending st"
    and acknowledge_law: "ok st \<Longrightarrow> \<exists>st'. ib_acknowledge ops ids st = (Inr (), st') \<and> ok st'
      \<and> pending st' = {e \<in> pending st. me_id e \<notin> set ids}"
    and submit_law: "ok st \<Longrightarrow> accepts st e \<Longrightarrow>
      \<exists>st'. ib_submit ops e st = (Inr (), st') \<and> ok st' \<and> pending st' = insert e (pending st)"
begin

text \<open>What is received and acknowledged as a whole leaves nothing behind.\<close>

lemma acknowledge_received:
  assumes "ok st" "ib_receive ops st = Inr es" "ib_acknowledge ops (map me_id es) st = (r, st')"
  shows "r = Inr () \<and> ok st' \<and> ib_receive ops st' = Inr []"
proof -
  have "set es = pending st" using receive_law [OF assms(1)] assms(2) by simp
  moreover obtain st1 where "ib_acknowledge ops (map me_id es) st = (Inr (), st1)" "ok st1"
      "pending st1 = {e \<in> pending st. me_id e \<notin> set (map me_id es)}"
    using acknowledge_law [OF assms(1)] by blast
  ultimately have "r = Inr ()" "ok st'" "pending st' = {}" using assms(3) by auto
  then show ?thesis using receive_law by fastforce
qed

text \<open>A submitted envelope is received until its id is acknowledged.\<close>

lemma submit_then_acknowledge:
  assumes "ok st" "accepts st e"
  shows "\<exists>st1 st2 es1 es2. ib_submit ops e st = (Inr (), st1)
    \<and> ib_acknowledge ops ids st1 = (Inr (), st2)
    \<and> ib_receive ops st1 = Inr es1 \<and> e \<in> set es1
    \<and> ib_receive ops st2 = Inr es2 \<and> (e \<in> set es2 \<longleftrightarrow> me_id e \<notin> set ids)"
proof -
  obtain st1 where st1: "ib_submit ops e st = (Inr (), st1)" "ok st1" "pending st1 = insert e (pending st)"
    using submit_law [OF assms] by blast
  obtain st2 where st2: "ib_acknowledge ops ids st1 = (Inr (), st2)" "ok st2"
      "pending st2 = {e \<in> pending st1. me_id e \<notin> set ids}"
    using acknowledge_law [OF st1(2)] by blast
  obtain es1 es2 where "ib_receive ops st1 = Inr es1" "set es1 = pending st1"
      "ib_receive ops st2 = Inr es2" "set es2 = pending st2"
    using receive_law [OF st1(2)] receive_law [OF st2(2)] by blast
  moreover from this have "e \<in> set es1" "e \<in> set es2 \<longleftrightarrow> me_id e \<notin> set ids" using st1(3) st2(3) by simp_all
  ultimately show ?thesis using st1(1) st2(1) by blast
qed

end

section \<open>Both inboxes keep it\<close>

lemma fold_ack: "set (fold (\<lambda>i acked. if i \<in> set acked then acked else acked @ [i]) ids acked)
    = set acked \<union> set ids"
  by (induction ids arbitrary: acked) auto

interpretation memory_inbox: inbox mem_inbox_ops "\<lambda>st. True"
  "\<lambda>st. {e \<in> set (mi_pending st). me_id e \<notin> set (mi_acknowledged st)}"
  "\<lambda>st e. me_id e \<notin> set (mi_acknowledged st)"
  by unfold_locales
    (auto simp: mem_inbox_ops_def mem_receive_def mem_acknowledge_def mem_submit_def fold_ack)

text \<open>
  The directory keeps it while serde_json reads back what it wrote, ids have distinct, non-empty
  texts, the file system works and every readable envelope is in the file named after its id.
\<close>

definition codec_ok :: "envelope_codec \<Rightarrow> bool" where
  "codec_ok c \<longleftrightarrow> inj (ec_show c) \<and> (\<forall>i. ec_show c i \<noteq> []) \<and>
     (\<forall>e tx. ec_write c e = Inr tx \<longrightarrow> ec_read c tx = Some e)"

definition named_by_id :: "envelope_codec \<Rightarrow> string \<times> string option \<Rightarrow> bool" where
  "named_by_id c f \<longleftrightarrow> (case read_file c f of None \<Rightarrow> True | Some e \<Rightarrow> fst f = file_name c (me_id e))"

definition file_ok :: "envelope_codec \<Rightarrow> file_inbox \<Rightarrow> bool" where
  "file_ok c st \<longleftrightarrow> codec_ok c \<and> fi_fault st = None \<and> distinct (map fst (fi_files st)) \<and>
     list_all (named_by_id c) (fi_files st)"

definition file_pending :: "envelope_codec \<Rightarrow> file_inbox \<Rightarrow> message_envelope set" where
  "file_pending c st = {e. \<exists>f \<in> set (fi_files st). read_file c f = Some e}"

definition file_accepts :: "envelope_codec \<Rightarrow> file_inbox \<Rightarrow> message_envelope \<Rightarrow> bool" where
  "file_accepts c st e \<longleftrightarrow> \<not> isl (ec_write c e) \<and> map_of (fi_files st) (file_name c (me_id e)) = None"

lemma file_name_inj: "codec_ok c \<Longrightarrow> file_name c i = file_name c j \<longleftrightarrow> i = j"
  by (auto simp: codec_ok_def file_name_def inj_eq)

lemma has_json_file_name: "codec_ok c \<Longrightarrow> has_json_extension (file_name c i)"
  by (simp add: codec_ok_def file_name_def has_json_extension_def)

lemma update_fresh: "map_of xs k = None \<Longrightarrow> AList.update k v xs = xs @ [(k, v)]"
  by (induction xs) (auto split: if_splits)

lemma file_receive_law: "file_ok c st \<Longrightarrow> \<exists>es. file_receive c st = Inr es \<and> set es = file_pending c st"
  by (auto simp: file_receive_def file_ok_def file_pending_def set_map_filter)

lemma file_ok_named:
  "file_ok c st \<Longrightarrow> f \<in> set (fi_files st) \<Longrightarrow> read_file c f = Some e \<Longrightarrow> fst f = file_name c (me_id e)"
  by (auto simp: file_ok_def named_by_id_def list_all_iff split: option.splits)

lemma file_pending_delete:
  assumes "file_ok c st"
  shows "file_pending c (st\<lparr>fi_files := AList.delete (file_name c i) (fi_files st), fi_processed := ps\<rparr>)
    = {e \<in> file_pending c st. me_id e \<noteq> i}"
proof -
  have "fst f \<noteq> file_name c i \<longleftrightarrow> me_id e \<noteq> i" if "f \<in> set (fi_files st)" "read_file c f = Some e" for f e
    using file_ok_named [OF assms that] assms by (simp add: file_ok_def file_name_inj)
  then show ?thesis unfolding file_pending_def AList.delete_eq
    by (simp add: case_prod_beta set_eq_iff) (metis fst_conv surj_pair)
qed

lemma file_ok_delete:
  "file_ok c st \<Longrightarrow> file_ok c (st\<lparr>fi_files := AList.delete k (fi_files st), fi_processed := ps\<rparr>)"
  by (auto simp: file_ok_def AList.delete_eq list_all_iff distinct_map_filter)

lemma file_pending_absent:
  assumes "file_ok c st" "map_of (fi_files st) (file_name c i) = None" "e \<in> file_pending c st"
  shows "me_id e \<noteq> i"
proof -
  obtain f where f: "f \<in> set (fi_files st)" "read_file c f = Some e" using assms(3) by (auto simp: file_pending_def)
  then have "file_name c (me_id e) \<in> fst ` set (fi_files st)"
    using file_ok_named [OF assms(1) f] by (metis imageI)
  then show ?thesis using assms(2) by (auto simp: map_of_eq_None_iff)
qed

lemma file_acknowledge_law: "file_ok c st \<Longrightarrow> \<exists>st'. file_acknowledge c ids st = (Inr (), st') \<and> file_ok c st'
    \<and> file_pending c st' = {e \<in> file_pending c st. me_id e \<notin> set ids}"
proof (induction ids arbitrary: st)
  case (Cons i ids)
  show ?case
  proof (cases "map_of (fi_files st) (file_name c i)")
    case None
    then show ?thesis using Cons.IH [OF Cons.prems] file_pending_absent [OF Cons.prems None] by auto
  next
    case (Some contents)
    let ?st = "st\<lparr>fi_files := AList.delete (file_name c i) (fi_files st),
      fi_processed := AList.update (file_name c i) contents (fi_processed st)\<rparr>"
    have "file_acknowledge c (i # ids) st = file_acknowledge c ids ?st"
      using Some Cons.prems by (simp add: file_ok_def)
    moreover have "{e \<in> file_pending c ?st. me_id e \<notin> set ids} = {e \<in> file_pending c st. me_id e \<notin> set (i # ids)}"
      using file_pending_delete [OF Cons.prems] by auto
    ultimately show ?thesis
      using Cons.IH [of ?st, OF file_ok_delete [OF Cons.prems]] by (simp only:)
  qed
qed simp

lemma file_submit_law:
  assumes "file_ok c st" "file_accepts c st e"
  shows "\<exists>st'. file_submit c e st = (Inr (), st') \<and> file_ok c st' \<and> file_pending c st' = insert e (file_pending c st)"
proof -
  obtain tx where tx: "ec_write c e = Inr tx" using assms(2) by (cases "ec_write c e") (auto simp: file_accepts_def)
  have fresh: "map_of (fi_files st) (file_name c (me_id e)) = None" using assms(2) by (simp add: file_accepts_def)
  have c: "codec_ok c" using assms(1) by (simp add: file_ok_def)
  then have r: "read_file c (file_name c (me_id e), Some tx) = Some e"
    using tx by (simp add: read_file_def has_json_file_name) (simp add: codec_ok_def)
  let ?st = "st\<lparr>fi_files := fi_files st @ [(file_name c (me_id e), Some tx)]\<rparr>"
  have "file_submit c e st = (Inr (), ?st)"
    using assms(1) tx by (simp add: file_submit_def file_ok_def update_fresh [OF fresh])
  moreover have "file_ok c ?st"
    using assms(1) fresh r by (auto simp: file_ok_def named_by_id_def map_of_eq_None_iff)
  moreover have "file_pending c ?st = insert e (file_pending c st)" using r by (auto simp: file_pending_def)
  ultimately show ?thesis by blast
qed

interpretation file_inbox: inbox "file_inbox_ops c" "file_ok c" "file_pending c" "file_accepts c" for c
  by unfold_locales
    (simp_all add: file_inbox_ops_def file_receive_law file_acknowledge_law file_submit_law)

text \<open>
  A readable envelope under another name than its id is received again after every acknowledgement:
  acknowledging looks for the file named after the id and ignores that it is missing.
\<close>

lemma misnamed_redelivered:
  assumes "fi_fault st = None" "f \<in> set (fi_files st)" "read_file c f = Some e" "list_all (\<lambda>i. file_name c i \<noteq> fst f) ids"
  shows "\<exists>st' es. file_acknowledge c ids st = (Inr (), st') \<and> file_receive c st' = Inr es \<and> e \<in> set es"
  using assms
proof (induction ids arbitrary: st)
  case Nil
  then show ?case by (auto simp: file_receive_def set_map_filter)
next
  case (Cons i ids)
  then show ?case by (auto simp: AList.delete_eq case_prod_beta split: option.splits)
qed

section \<open>Delivery\<close>

text \<open>
  C23. At least once until acknowledged: an envelope submitted to a well-kept directory is in the
  batch received next, the batch is in the order of the timestamps, and after an acknowledgement the
  envelope is received exactly when its id was not among the acknowledged ones.
\<close>

theorem file_inbox_delivers:
  assumes "file_ok c st" "file_accepts c st e"
  shows "\<exists>st1 st2 es1 es2. file_submit c e st = (Inr (), st1) \<and> file_acknowledge c ids st1 = (Inr (), st2)
    \<and> file_receive c st1 = Inr es1 \<and> e \<in> set es1 \<and> sorted (map me_timestamp es1)
    \<and> file_receive c st2 = Inr es2 \<and> (e \<in> set es2 \<longleftrightarrow> me_id e \<notin> set ids)"
proof -
  obtain st1 st2 es1 es2 where "file_submit c e st = (Inr (), st1)" "file_acknowledge c ids st1 = (Inr (), st2)"
      "file_receive c st1 = Inr es1" "e \<in> set es1" "file_receive c st2 = Inr es2" "e \<in> set es2 \<longleftrightarrow> me_id e \<notin> set ids"
    using file_inbox.submit_then_acknowledge [OF assms, of ids] unfolding file_inbox_ops_def inbox_ops.simps by blast
  moreover from this have "sorted (map me_timestamp es1)"
    by (auto simp: file_receive_def sorted_sort_asc split: option.splits)
  ultimately show ?thesis by blast
qed

text \<open>A codec for the envelopes of one test, and an empty directory.\<close>

definition test_envelope :: "uuid \<Rightarrow> message_envelope" where
  "test_envelope i = \<lparr>me_id = i, me_source = 7, me_target = None, me_kind = HumanMessage,
     me_payload_ref = ''p'', me_timestamp = 5, me_in_reply_to = None\<rparr>"

definition test_codec :: envelope_codec where
  "test_codec = \<lparr>ec_show = (\<lambda>i. CHR ''u'' # replicate (unat i) CHR ''1''),
     ec_read = (\<lambda>tx. if tx = [] then None else Some (test_envelope (of_nat (length tx - 1)))),
     ec_write = (\<lambda>e. if e = test_envelope (me_id e) then Inr (CHR ''{'' # replicate (unat (me_id e)) CHR ''1'')
       else Inl ''unsupported'')\<rparr>"

lemma test_codec_ok: "codec_ok test_codec"
  by (auto simp: codec_ok_def test_codec_def inj_def replicate_eq_replicate unsigned_word_eqI split: if_splits)

theorem file_inbox_delivers_witness:
  "\<exists>st1 st2 es1 es2. file_submit test_codec (test_envelope 3) \<lparr>fi_files = [], fi_processed = [], fi_fault = None\<rparr> = (Inr (), st1)
    \<and> file_acknowledge test_codec [3] st1 = (Inr (), st2)
    \<and> file_receive test_codec st1 = Inr es1 \<and> test_envelope 3 \<in> set es1
    \<and> file_receive test_codec st2 = Inr es2 \<and> test_envelope 3 \<notin> set es2"
  using file_inbox_delivers [of test_codec "\<lparr>fi_files = [], fi_processed = [], fi_fault = None\<rparr>" "test_envelope 3" "[3]"]
  by (auto simp: file_ok_def file_accepts_def test_codec_ok) (auto simp: test_codec_def test_envelope_def)

end
