(* ===== verification/Llm_Types.thy ===== *)
theory Llm_Types
  imports Exo_Core
begin

text \<open>
  The vocabulary of LLM requests and responses (\<open>exoskeleton-core/src/llm.rs\<close>) and the artifact store
  that the steps of a tick write to (the trait of \<open>exoskeleton-core/src/artifact.rs\<close>).
\<close>

section \<open>Requests and responses\<close>

datatype llm_role = RoleSystem | RoleUser | RoleAssistant

datatype content_block =
    TextBlock string
  | ToolUseBlock string string json      \<comment> \<open>id, name, input\<close>
  | ToolResultBlock string string bool   \<comment> \<open>tool_use_id, content, is_error\<close>

record tool_definition =
  tdf_name :: string
  tdf_description :: string
  tdf_input_schema :: json

record llm_message =
  lm_role :: llm_role
  lm_content :: "content_block list"

definition llm_message_text :: "llm_role \<Rightarrow> string \<Rightarrow> llm_message" where
  "llm_message_text role content = \<lparr>lm_role = role, lm_content = [TextBlock content]\<rparr>"

record llm_request =
  lr_backend :: "llm_backend option"
  lr_system_prompt :: "string option"
  lr_messages :: "llm_message list"
  lr_max_output_tokens :: u64
  lr_temperature :: "f64 option"
  lr_stop_sequences :: "string list"
  lr_stream :: bool
  lr_tools :: "tool_definition list"

datatype stop_reason = EndTurn | MaxTokens | StopSequence | StopToolUse

record llm_response =
  rp_content_blocks :: "content_block list"
  rp_model :: string
  rp_tokens_in :: u64
  rp_tokens_out :: u64
  rp_latency_ms :: u64
  rp_stop_reason :: stop_reason
  rp_cost_estimate_cents :: "f64 option"
  rp_backend :: llm_backend

fun block_text :: "content_block \<Rightarrow> string" where
  "block_text (TextBlock t) = t"
| "block_text _ = []"

definition response_text :: "llm_response \<Rightarrow> string" where
  "response_text r = concat (map block_text (rp_content_blocks r))"

fun is_tool_use :: "content_block \<Rightarrow> bool" where
  "is_tool_use (ToolUseBlock _ _ _) = True"
| "is_tool_use _ = False"

definition tool_use_blocks :: "llm_response \<Rightarrow> content_block list" where
  "tool_use_blocks r = filter is_tool_use (rp_content_blocks r)"

definition has_tool_use :: "llm_response \<Rightarrow> bool" where
  "has_tool_use r = list_ex is_tool_use (rp_content_blocks r)"

section \<open>The artifact store\<close>

text \<open>
  The operations a step uses. Hashing is done by the sha2 crate and writing JSON by serde_json; the
  text of a JSON value always exists. The state of the store is what \<open>put\<close> leaves behind, also
  when it fails.
\<close>

record 'a artifact_ops =
  ao_sha256_hex :: "string \<Rightarrow> artifact_id"
  ao_json_text :: "json \<Rightarrow> string"
  ao_put :: "artifact \<Rightarrow> 'a \<Rightarrow> artifact_id exo_result \<times> 'a"
  ao_get :: "'a \<Rightarrow> artifact_id \<Rightarrow> artifact option exo_result"

text \<open>\<open>Artifact::from_json\<close> on a JSON value.\<close>

definition artifact_from_json :: "'a artifact_ops \<Rightarrow> datetime \<Rightarrow> artifact_kind \<Rightarrow> json \<Rightarrow> artifact" where
  "artifact_from_json ops now kind v =
     artifact_new (ao_sha256_hex ops) now kind (ao_json_text ops v) ''application/json''"

definition store_json ::
  "'a artifact_ops \<Rightarrow> datetime \<Rightarrow> artifact_kind \<Rightarrow> json \<Rightarrow> 'a \<Rightarrow> artifact_id exo_result \<times> 'a" where
  "store_json ops now kind v st = ao_put ops (artifact_from_json ops now kind v) st"

fun ok_option :: "'b exo_result \<Rightarrow> 'b option" where
  "ok_option (Inr x) = Some x"
| "ok_option (Inl _) = None"

text \<open>\<open>Value::as_i64\<close>, and a signed 64-bit integer in decimal.\<close>

type_synonym i64 = "64 word"

fun json_as_i64 :: "json \<Rightarrow> i64 option" where
  "json_as_i64 (JInt n) = (if - (2 ^ 63) \<le> n \<and> n < 2 ^ 63 then Some (word_of_int n) else None)"
| "json_as_i64 _ = None"

definition show_i64 :: "i64 \<Rightarrow> string" where
  "show_i64 w = (if sint w < 0 then ''-'' @ show_nat (nat (- sint w)) else show_nat (nat (sint w)))"

end
