(* ===== verification/Sql_Stores.thy ===== *)
theory Sql_Stores
  imports State_Snapshot Llm_Types "HOL-Library.Multiset" "HOL-Library.Countable"
begin

text \<open>
  The SQLite stores of snapshots, tick records, events and artifacts
  (\<open>exoskeleton-host/src/storage/snapshot_store.rs\<close>, \<open>tick_store.rs\<close>, \<open>event_ledger.rs\<close>,
  \<open>artifact_store.rs\<close>). A table is the list of its rows; the SQL statements of the source are
  operations on that list.

  SQLite itself is outside the repository. What it leaves open is a parameter: \<open>db_scan\<close> is the order in
  which it visits the rows (any permutation), which decides the order of rows with equal keys, and
  \<open>db_fault\<close> is the error every statement of a broken connection reports. The text forms of
  identifiers and instants read back as written and, for instants, sort as the instants do; the JSON
  blobs are written and read by the functions of a \<open>codec\<close>.
\<close>

section \<open>Tables\<close>

record 'r sql_db =
  db_rows :: "'r list"
  db_poisoned :: bool
  db_fault :: "string option"
  db_scan :: "'r list \<Rightarrow> 'r list"

definition db_wf :: "'r sql_db \<Rightarrow> bool" where
  "db_wf db \<longleftrightarrow> (\<forall>rs. mset (db_scan db rs) = mset rs)"

definition db_ok :: "'r sql_db \<Rightarrow> bool" where
  "db_ok db \<longleftrightarrow> db_wf db \<and> \<not> db_poisoned db \<and> db_fault db = None"

text \<open>A statement under the lock: the lock may be poisoned and the statement may fail.\<close>

definition with_db :: "string \<Rightarrow> 'r sql_db \<Rightarrow> ('r list \<Rightarrow> 'b exo_result) \<Rightarrow> 'b exo_result" where
  "with_db what db k = locked (db_poisoned db) (case db_fault db of
     Some e \<Rightarrow> Inl (Storage (what @ '': '' @ e))
   | None \<Rightarrow> k (db_rows db))"

definition open_db :: "'r sql_db" where
  "open_db = \<lparr>db_rows = [], db_poisoned = False, db_fault = None, db_scan = id\<rparr>"

lemma open_db_ok: "db_ok open_db"
  by (simp add: db_ok_def db_wf_def open_db_def)

lemma with_db_ok: "db_ok db \<Longrightarrow> with_db what db k = k (db_rows db)"
  by (simp add: with_db_def db_ok_def)

lemma db_ok_rows [simp]: "db_ok (db\<lparr>db_rows := rs\<rparr>) = db_ok db"
  by (simp add: db_ok_def db_wf_def)

lemma set_db_scan: "db_ok db \<Longrightarrow> set (db_scan db rs) = set rs"
  by (metis db_ok_def db_wf_def set_mset_mset)

text \<open>\<open>ORDER BY key ASC\<close> and \<open>ORDER BY key DESC\<close>.\<close>

definition order_asc :: "'r sql_db \<Rightarrow> ('r \<Rightarrow> int) \<Rightarrow> 'r list \<Rightarrow> 'r list" where
  "order_asc db key rs = sort_asc key (db_scan db rs)"

definition order_desc :: "'r sql_db \<Rightarrow> ('r \<Rightarrow> int) \<Rightarrow> 'r list \<Rightarrow> 'r list" where
  "order_desc db key rs = sort_desc key (db_scan db rs)"

lemma order_desc_hd:
  assumes "db_ok db" "r \<in> set rs" "\<And>x. x \<in> set rs \<Longrightarrow> x \<noteq> r \<Longrightarrow> key x < key r"
  shows "\<exists>rest. order_desc db key rs = r # rest"
proof -
  have set: "set (order_desc db key rs) = set rs" using set_db_scan [OF assms(1)] by (simp add: order_desc_def)
  then obtain x rest where x: "order_desc db key rs = x # rest" using assms(2) by (cases "order_desc db key rs") auto
  have "sorted_wrt (\<lambda>x y. key y \<le> key x) (x # rest)"
    using sorted_sort_desc [of key "db_scan db rs"] x by (simp add: order_desc_def)
  then have "key r \<le> key x" using set x assms(2) by auto
  then have "x = r" using assms(3) [of x] set x by force
  with x show ?thesis by blast
qed

section \<open>JSON blobs\<close>

record 'v codec =
  enc :: "'v \<Rightarrow> string + string"
  dec :: "string \<Rightarrow> string + 'v"

definition codec_ok :: "'v codec \<Rightarrow> bool" where
  "codec_ok c \<longleftrightarrow> (\<forall>v. \<exists>s. enc c v = Inr s \<and> dec c s = Inr v)"

text \<open>For a countable type there is such a codec.\<close>

definition counting_codec :: "('v :: countable) codec" where
  "counting_codec = \<lparr>enc = (\<lambda>v. Inr (replicate (to_nat v) CHR ''1'')), dec = (\<lambda>s. Inr (from_nat (length s)))\<rparr>"

lemma counting_codec_ok: "codec_ok counting_codec"
  by (simp add: codec_ok_def counting_codec_def)

fun decode_all :: "('r \<Rightarrow> 'b exo_result) \<Rightarrow> 'r list \<Rightarrow> 'b list exo_result" where
  "decode_all f [] = Inr []"
| "decode_all f (r # rs) = (case f r of
     Inl e \<Rightarrow> Inl e
   | Inr x \<Rightarrow> (case decode_all f rs of Inl e \<Rightarrow> Inl e | Inr xs \<Rightarrow> Inr (x # xs)))"

lemma decode_all_Inr: "\<forall>r \<in> set rs. f r = Inr (g r) \<Longrightarrow> decode_all f rs = Inr (map g rs)"
  by (induction rs) auto

section \<open>Snapshots\<close>

record snapshot_row =
  sn_tick_number :: i64
  sn_vessel_id :: uuid
  sn_data :: string
  sn_created_at :: datetime

definition snapshot_deserialize :: "state_snapshot codec \<Rightarrow> snapshot_row \<Rightarrow> state_snapshot exo_result" where
  "snapshot_deserialize c r = (case dec c (sn_data r) of
     Inr s \<Rightarrow> Inr s | Inl e \<Rightarrow> Inl (Storage (''snapshot deserialization: '' @ e)))"

definition snapshot_save ::
  "state_snapshot codec \<Rightarrow> state_snapshot \<Rightarrow> snapshot_row sql_db \<Rightarrow> snapshot_row sql_db exo_result" where
  "snapshot_save c snap db = locked (db_poisoned db) (case enc c snap of
     Inl e \<Rightarrow> Inl (Storage (''snapshot serialization: '' @ e))
   | Inr data \<Rightarrow> with_db ''snapshot save'' db (\<lambda>rows.
       if list_ex (\<lambda>r. sn_tick_number r = ss_tick_number snap) rows
       then Inl (Storage (''snapshot already exists for tick_number '' @ show_u64 (ss_tick_number snap)))
       else Inr (db\<lparr>db_rows := rows @ [\<lparr>sn_tick_number = ss_tick_number snap, sn_vessel_id = ss_vessel_id snap,
              sn_data = data, sn_created_at = ss_updated_at snap\<rparr>]\<rparr>)))"

definition snapshot_latest ::
  "state_snapshot codec \<Rightarrow> snapshot_row sql_db \<Rightarrow> state_snapshot option exo_result" where
  "snapshot_latest c db = with_db ''prepare'' db (\<lambda>rows.
     case order_desc db (\<lambda>r. sint (sn_tick_number r)) rows of
       [] \<Rightarrow> Inr None
     | r # _ \<Rightarrow> (case snapshot_deserialize c r of Inl e \<Rightarrow> Inl e | Inr s \<Rightarrow> Inr (Some s)))"

definition snapshot_at_tick ::
  "state_snapshot codec \<Rightarrow> snapshot_row sql_db \<Rightarrow> u64 \<Rightarrow> state_snapshot option exo_result" where
  "snapshot_at_tick c db n = with_db ''prepare'' db (\<lambda>rows.
     case filter (\<lambda>r. sn_tick_number r = n) (db_scan db rows) of
       [] \<Rightarrow> Inr None
     | r # _ \<Rightarrow> (case snapshot_deserialize c r of Inl e \<Rightarrow> Inl e | Inr s \<Rightarrow> Inr (Some s)))"

definition snapshot_history ::
  "state_snapshot codec \<Rightarrow> snapshot_row sql_db \<Rightarrow> nat \<Rightarrow> state_snapshot list exo_result" where
  "snapshot_history c db limit = with_db ''prepare'' db (\<lambda>rows.
     decode_all (snapshot_deserialize c) (take limit (order_desc db (\<lambda>r. sint (sn_tick_number r)) rows)))"

section \<open>Tick records\<close>

record tick_row =
  tk_tick_id :: uuid
  tk_tick_number :: i64
  tk_data :: string
  tk_started_at :: datetime
  tk_completed_at :: "datetime option"

definition tick_deserialize :: "tick_record codec \<Rightarrow> tick_row \<Rightarrow> tick_record exo_result" where
  "tick_deserialize c r = (case dec c (tk_data r) of
     Inr s \<Rightarrow> Inr s | Inl e \<Rightarrow> Inl (Storage (''tick record deserialization: '' @ e)))"

definition tick_save ::
  "(uuid \<Rightarrow> string) \<Rightarrow> tick_record codec \<Rightarrow> tick_record \<Rightarrow> tick_row sql_db \<Rightarrow> tick_row sql_db exo_result" where
  "tick_save show_tick_id c t db = locked (db_poisoned db) (case enc c t of
     Inl e \<Rightarrow> Inl (Storage (''tick record serialization: '' @ e))
   | Inr data \<Rightarrow> with_db ''tick save'' db (\<lambda>rows.
       if list_ex (\<lambda>r. tk_tick_id r = tr_tick_id t \<or> tk_tick_number r = tr_tick_number t) rows
       then Inl (Storage (''tick record already exists (tick_id='' @ show_tick_id (tr_tick_id t)
              @ '', tick_number='' @ show_u64 (tr_tick_number t) @ '')''))
       else Inr (db\<lparr>db_rows := rows @ [\<lparr>tk_tick_id = tr_tick_id t, tk_tick_number = tr_tick_number t,
              tk_data = data, tk_started_at = tr_started_at t, tk_completed_at = tr_completed_at t\<rparr>]\<rparr>)))"

definition tick_latest :: "tick_record codec \<Rightarrow> tick_row sql_db \<Rightarrow> tick_record option exo_result" where
  "tick_latest c db = with_db ''prepare'' db (\<lambda>rows.
     case order_desc db (\<lambda>r. sint (tk_tick_number r)) rows of
       [] \<Rightarrow> Inr None
     | r # _ \<Rightarrow> (case tick_deserialize c r of Inl e \<Rightarrow> Inl e | Inr s \<Rightarrow> Inr (Some s)))"

definition tick_get :: "tick_record codec \<Rightarrow> tick_row sql_db \<Rightarrow> uuid \<Rightarrow> tick_record option exo_result" where
  "tick_get c db i = with_db ''prepare'' db (\<lambda>rows.
     case filter (\<lambda>r. tk_tick_id r = i) (db_scan db rows) of
       [] \<Rightarrow> Inr None
     | r # _ \<Rightarrow> (case tick_deserialize c r of Inl e \<Rightarrow> Inl e | Inr s \<Rightarrow> Inr (Some s)))"

definition tick_range ::
  "tick_record codec \<Rightarrow> tick_row sql_db \<Rightarrow> u64 \<Rightarrow> u64 \<Rightarrow> tick_record list exo_result" where
  "tick_range c db from_tick to_tick = with_db ''prepare'' db (\<lambda>rows.
     decode_all (tick_deserialize c) (order_asc db (\<lambda>r. sint (tk_tick_number r))
       (filter (\<lambda>r. sint (from_tick :: i64) \<le> sint (tk_tick_number r) \<and> sint (tk_tick_number r) \<le> sint (to_tick :: i64)) rows)))"

section \<open>Events\<close>

definition event_append ::
  "(uuid \<Rightarrow> string) \<Rightarrow> event_entry \<Rightarrow> event_entry sql_db \<Rightarrow> (uuid \<times> event_entry sql_db) exo_result" where
  "event_append show_id e db = with_db ''event append'' db (\<lambda>rows.
     if list_ex (\<lambda>r. ev_id r = ev_id e) rows
     then Inl (Storage (''event entry already exists with id '' @ show_id (ev_id e)))
     else Inr (ev_id e, db\<lparr>db_rows := rows @ [e]\<rparr>))"

definition event_recent :: "event_entry sql_db \<Rightarrow> nat \<Rightarrow> event_entry list exo_result" where
  "event_recent db limit = with_db ''prepare'' db (\<lambda>rows. Inr (take limit (order_desc db ev_timestamp rows)))"

definition event_for_tick :: "event_entry sql_db \<Rightarrow> uuid \<Rightarrow> event_entry list exo_result" where
  "event_for_tick db i = with_db ''prepare'' db (\<lambda>rows.
     Inr (order_asc db ev_timestamp (filter (\<lambda>e. ev_tick_id e = Some i) rows)))"

definition event_by_type :: "event_entry sql_db \<Rightarrow> event_type \<Rightarrow> nat \<Rightarrow> event_entry list exo_result" where
  "event_by_type db ty limit = with_db ''prepare'' db (\<lambda>rows.
     Inr (take limit (order_desc db ev_timestamp (filter (\<lambda>e. ev_event_type e = ty) rows))))"

section \<open>Artifacts\<close>

definition artifact_put ::
  "artifact \<Rightarrow> artifact sql_db \<Rightarrow> artifact_id exo_result \<times> artifact sql_db" where
  "artifact_put a db = (case with_db ''artifact put'' db (\<lambda>rows.
       Inr (if list_ex (\<lambda>r. af_id r = af_id a) rows then rows else rows @ [a])) of
     Inl e \<Rightarrow> (Inl e, db)
   | Inr rows \<Rightarrow> (Inr (af_id a), db\<lparr>db_rows := rows\<rparr>))"

definition artifact_get :: "artifact sql_db \<Rightarrow> artifact_id \<Rightarrow> artifact option exo_result" where
  "artifact_get db i = with_db ''prepare'' db (\<lambda>rows. Inr (List.find (\<lambda>r. af_id r = i) (db_scan db rows)))"

definition artifact_exists :: "artifact sql_db \<Rightarrow> artifact_id \<Rightarrow> bool exo_result" where
  "artifact_exists db i = with_db ''artifact exists'' db (\<lambda>rows.
     Inr (0 < length (filter (\<lambda>r. af_id r = i) rows)))"

definition artifact_list_by_kind ::
  "artifact sql_db \<Rightarrow> artifact_kind \<Rightarrow> nat \<Rightarrow> (artifact_id \<times> artifact_kind) list exo_result" where
  "artifact_list_by_kind db kind limit = with_db ''prepare'' db (\<lambda>rows.
     Inr (map (\<lambda>a. (af_id a, kind)) (take limit (order_desc db af_created_at
       (filter (\<lambda>a. af_kind a = kind) rows)))))"

end
