(* ===== verification/Memory_Store.thy ===== *)
theory Memory_Store
  imports Sql_Stores
begin

text \<open>
  The memory store (\<open>exoskeleton-memory/src/store.rs\<close>, \<open>exoskeleton-host/src/storage/memory_store.rs\<close>):
  episodic summaries and long-term notes in two tables of one SQLite database. Rows hold the
  entries themselves: counters are stored as signed 64-bit integers of the same bits, and
  tags, key events and instants read back as written.
\<close>

section \<open>The store\<close>

record memory_db =
  md_episodic :: "episodic_summary list"
  md_long_term :: "long_term_note list"
  md_poisoned :: bool
  md_fault :: "string option"
  md_scan :: "episodic_summary list \<Rightarrow> episodic_summary list"
  md_scan_notes :: "long_term_note list \<Rightarrow> long_term_note list"

definition open_memory :: memory_db where
  "open_memory = \<lparr>md_episodic = [], md_long_term = [], md_poisoned = False, md_fault = None,
     md_scan = id, md_scan_notes = id\<rparr>"

definition with_memory :: "string \<Rightarrow> memory_db \<Rightarrow> 'b exo_result \<Rightarrow> 'b exo_result" where
  "with_memory what m r = locked (md_poisoned m) (case md_fault m of
     Some e \<Rightarrow> Inl (Storage (what @ '': '' @ e)) | None \<Rightarrow> r)"

text \<open>\<open>INSERT OR IGNORE\<close> on a primary key.\<close>

definition insert_ignore :: "('r \<Rightarrow> artifact_id) \<Rightarrow> 'r \<Rightarrow> 'r list \<Rightarrow> 'r list" where
  "insert_ignore key r rs = (if list_ex (\<lambda>x. key x = key r) rs then rs else rs @ [r])"

definition write_episodic :: "episodic_summary \<Rightarrow> memory_db \<Rightarrow> (artifact_id \<times> memory_db) exo_result" where
  "write_episodic s m = with_memory ''write_episodic'' m
     (Inr (ep_id s, m\<lparr>md_episodic := insert_ignore ep_id s (md_episodic m)\<rparr>))"

text \<open>Ticks are compared as the signed integers they are stored as.\<close>

definition end_key :: "episodic_summary \<Rightarrow> int" where
  "end_key s = sint (ep_end_tick s)"

definition recent_episodic :: "memory_db \<Rightarrow> nat \<Rightarrow> episodic_summary list exo_result" where
  "recent_episodic m limit = with_memory ''prepare'' m
     (Inr (take limit (sort_desc end_key (md_scan m (md_episodic m)))))"

definition write_long_term :: "long_term_note \<Rightarrow> memory_db \<Rightarrow> (artifact_id \<times> memory_db) exo_result" where
  "write_long_term n m = with_memory ''write_long_term'' m
     (Inr (lt_id n, m\<lparr>md_long_term := insert_ignore lt_id n (md_long_term m)\<rparr>))"

definition all_long_term :: "memory_db \<Rightarrow> nat \<Rightarrow> long_term_note list exo_result" where
  "all_long_term m limit = with_memory ''prepare'' m
     (Inr (take limit (sort_desc lt_created_at (md_scan_notes m (md_long_term m)))))"

definition count_episodic :: "memory_db \<Rightarrow> u64 exo_result" where
  "count_episodic m = with_memory ''count_episodic'' m (Inr (of_nat (length (md_episodic m))))"

definition count_long_term :: "memory_db \<Rightarrow> u64 exo_result" where
  "count_long_term m = with_memory ''count_long_term'' m (Inr (of_nat (length (md_long_term m))))"

definition evict_episodic_beyond :: "u64 \<Rightarrow> memory_db \<Rightarrow> (u64 \<times> memory_db) exo_result" where
  "evict_episodic_beyond capacity m = with_memory ''count_episodic'' m
     (let count = int (length (md_episodic m)); cap = sint (capacity :: i64)
      in if count \<le> cap then Inr (0, m)
         else let to_evict = count - cap;
                  evicted = ep_id ` set (take (nat to_evict) (sort_asc end_key (md_scan m (md_episodic m))))
              in Inr (word_of_int to_evict, m\<lparr>md_episodic := filter (\<lambda>s. ep_id s \<notin> evicted) (md_episodic m)\<rparr>))"

definition delete_episodic :: "artifact_id \<Rightarrow> memory_db \<Rightarrow> (bool \<times> memory_db) exo_result" where
  "delete_episodic i m = with_memory ''delete_episodic'' m
     (Inr (list_ex (\<lambda>s. ep_id s = i) (md_episodic m),
       m\<lparr>md_episodic := filter (\<lambda>s. ep_id s \<noteq> i) (md_episodic m)\<rparr>))"

section \<open>Keyword search\<close>

text \<open>\<open>str::replace\<close> of one character, and the escaping of the wildcards of \<open>LIKE\<close>.\<close>

definition replace_char :: "char \<Rightarrow> string \<Rightarrow> string \<Rightarrow> string" where
  "replace_char c by_text s = concat (map (\<lambda>x. if x = c then by_text else [x]) s)"

abbreviation backslash :: char where
  "backslash \<equiv> CHR 0x5C"

definition escape_like :: "string \<Rightarrow> string" where
  "escape_like query = replace_char CHR ''_'' [backslash, CHR ''_'']
     (replace_char CHR ''%'' [backslash, CHR ''%''] (replace_char backslash [backslash, backslash] query))"

text \<open>\<open>LIKE\<close> is a function of SQLite: an argument of the search, applied to pattern and text.\<close>

definition search_long_term ::
  "(string \<Rightarrow> string \<Rightarrow> bool) \<Rightarrow> memory_db \<Rightarrow> string \<Rightarrow> nat \<Rightarrow> long_term_note list exo_result" where
  "search_long_term like m query limit = with_memory ''prepare'' m
     (let pat = ''%'' @ escape_like query @ ''%''
      in Inr (take limit (sort_desc lt_created_at (md_scan_notes m
           (filter (\<lambda>n. like pat (lt_topic n) \<or> like pat (lt_content n)) (md_long_term m))))))"

text \<open>
  The documented meaning of \<open>LIKE ... ESCAPE '\'\<close>: a percent sign matches any sequence, an
  underscore one character, an escaped character itself, and letters match regardless of case.
\<close>

definition same_letter :: "char \<Rightarrow> char \<Rightarrow> bool" where
  "same_letter a b \<longleftrightarrow> ascii_lower a = ascii_lower b"

locale sql_like =
  fixes like :: "string \<Rightarrow> string \<Rightarrow> bool"
  assumes like_end: "like [] tx \<longleftrightarrow> tx = []"
    and like_percent: "like (CHR ''%'' # p) tx \<longleftrightarrow> (\<exists>k \<le> length tx. like p (drop k tx))"
    and like_escaped: "c \<in> {CHR ''%'', CHR ''_'', backslash} \<Longrightarrow>
      like (backslash # c # p) tx \<longleftrightarrow> (\<exists>ts. tx = c # ts \<and> like p ts)"
    and like_literal: "c \<notin> {CHR ''%'', CHR ''_'', backslash} \<Longrightarrow>
      like (c # p) tx \<longleftrightarrow> (\<exists>t ts. tx = t # ts \<and> same_letter c t \<and> like p ts)"

definition escape_one :: "char \<Rightarrow> string" where
  "escape_one c = (if c \<in> {CHR ''%'', CHR ''_'', backslash} then [backslash, c] else [c])"

lemma escape_like_alt: "escape_like q = concat (map escape_one q)"
  by (induction q) (auto simp: escape_like_def escape_one_def replace_char_def)

lemma same_letter_special:
  "c \<in> {CHR ''%'', CHR ''_'', backslash} \<Longrightarrow> same_letter c t \<longleftrightarrow> t = c"
proof -
  assume c: "c \<in> {CHR ''%'', CHR ''_'', backslash}"
  have low: "ascii_lower c = c" using c by (auto simp: ascii_lower_def)
  have "ascii_lower t = c \<longleftrightarrow> t = c"
  proof
    assume t: "ascii_lower t = c"
    show "t = c"
    proof (cases "65 \<le> (of_char t :: nat) \<and> (of_char t :: nat) \<le> 90")
      case True
      then have "(of_char c :: nat) = of_char t + 32" using t by (auto simp: ascii_lower_def)
      with True have "97 \<le> (of_char c :: nat) \<and> (of_char c :: nat) \<le> 122" by simp
      with c show ?thesis by auto
    qed (use t in \<open>auto simp: ascii_lower_def\<close>)
  qed (use low in simp)
  then show ?thesis by (auto simp: same_letter_def low)
qed

context sql_like
begin

lemma like_escape:
  "like (concat (map escape_one q) @ p) tx \<longleftrightarrow>
    (\<exists>a b. tx = a @ b \<and> list_all2 same_letter q a \<and> like p b)"
proof (induction q arbitrary: tx)
  case Nil
  show ?case by simp
next
  case (Cons c q)
  have split: "(\<exists>a b. tx = a @ b \<and> list_all2 same_letter (c # q) a \<and> like p b) \<longleftrightarrow>
      (\<exists>t ts. tx = t # ts \<and> same_letter c t \<and> (\<exists>a b. ts = a @ b \<and> list_all2 same_letter q a \<and> like p b))"
  proof
    assume "\<exists>t ts. tx = t # ts \<and> same_letter c t \<and> (\<exists>a b. ts = a @ b \<and> list_all2 same_letter q a \<and> like p b)"
    then obtain t a b where "tx = (t # a) @ b" "list_all2 same_letter (c # q) (t # a)" "like p b" by auto
    then show "\<exists>a b. tx = a @ b \<and> list_all2 same_letter (c # q) a \<and> like p b" by blast
  qed (auto simp: list_all2_Cons1; blast)
  show ?case
  proof (cases "c \<in> {CHR ''%'', CHR ''_'', backslash}")
    case True
    then have "like (concat (map escape_one (c # q)) @ p) tx \<longleftrightarrow>
        (\<exists>ts. tx = c # ts \<and> like (concat (map escape_one q) @ p) ts)"
      using like_escaped [OF True] by (simp add: escape_one_def)
    with split Cons.IH same_letter_special [OF True] show ?thesis by auto
  next
    case False
    then have "like (concat (map escape_one (c # q)) @ p) tx \<longleftrightarrow>
        (\<exists>t ts. tx = t # ts \<and> same_letter c t \<and> like (concat (map escape_one q) @ p) ts)"
      using like_literal [OF False] by (simp add: escape_one_def)
    with split Cons.IH show ?thesis by simp
  qed
qed

lemma like_any: "like ''%'' tx"
  using like_percent [of "[]" tx] like_end by auto

lemma search_pattern:
  "like (''%'' @ escape_like q @ ''%'') tx \<longleftrightarrow> (\<exists>pre a post. tx = pre @ a @ post \<and> list_all2 same_letter q a)"
proof -
  have "like (''%'' @ escape_like q @ ''%'') tx \<longleftrightarrow>
      (\<exists>k \<le> length tx. \<exists>a b. drop k tx = a @ b \<and> list_all2 same_letter q a)"
    using like_percent [of "escape_like q @ ''%''" tx] like_escape [of q "''%''"]
    by (simp add: escape_like_alt like_any del: like_percent)
  also have "\<dots> \<longleftrightarrow> (\<exists>pre a post. tx = pre @ a @ post \<and> list_all2 same_letter q a)"
    by (metis append_eq_conv_conj append_take_drop_id le_add1 length_append)
  finally show ?thesis .
qed

end

text \<open>The documentation as a function, and the contract for it.\<close>

fun like_match :: "string \<Rightarrow> string \<Rightarrow> bool" where
  "like_match [] tx \<longleftrightarrow> tx = []"
| "like_match (c # p) tx =
     (if c = CHR ''%'' then list_ex (\<lambda>k. like_match p (drop k tx)) [0..<Suc (length tx)]
      else if c = backslash
      then (case p of [] \<Rightarrow> False
            | d # p' \<Rightarrow> (case tx of [] \<Rightarrow> False | t # ts \<Rightarrow> same_letter d t \<and> like_match p' ts))
      else (case tx of [] \<Rightarrow> False | t # ts \<Rightarrow> (c = CHR ''_'' \<or> same_letter c t) \<and> like_match p ts))"

declare like_match.simps [simp del]

interpretation documented_like: sql_like like_match
proof
  show "like_match [] tx \<longleftrightarrow> tx = []" for tx by (simp add: like_match.simps)
  show "like_match (CHR ''%'' # p) tx \<longleftrightarrow> (\<exists>k \<le> length tx. like_match p (drop k tx))" for p tx
    by (auto simp: like_match.simps(2) [of "CHR ''%''"] list_ex_iff less_Suc_eq_le simp del: upt_Suc)
  show "c \<in> {CHR ''%'', CHR ''_'', backslash} \<Longrightarrow>
      like_match (backslash # c # p) tx \<longleftrightarrow> (\<exists>ts. tx = c # ts \<and> like_match p ts)" for c p tx
    using same_letter_special [of c] by (auto simp: like_match.simps(2) [of backslash] split: list.split)
  show "c \<notin> {CHR ''%'', CHR ''_'', backslash} \<Longrightarrow>
      like_match (c # p) tx \<longleftrightarrow> (\<exists>t ts. tx = t # ts \<and> same_letter c t \<and> like_match p ts)" for c p tx
    by (auto simp: like_match.simps(2) [of c] split: list.split)
qed

text \<open>A text mentions a query when the query occurs in it, regardless of the case of letters.\<close>

definition mentions :: "string \<Rightarrow> string \<Rightarrow> bool" where
  "mentions q tx \<longleftrightarrow> list_ex (\<lambda>k. list_all2 same_letter q (take (length q) (drop k tx))) [0..<Suc (length tx)]"

lemma mentions_iff: "mentions q tx \<longleftrightarrow> (\<exists>pre a post. tx = pre @ a @ post \<and> list_all2 same_letter q a)"
proof
  assume "mentions q tx"
  then obtain k where "list_all2 same_letter q (take (length q) (drop k tx))"
    by (auto simp: mentions_def list_ex_iff simp del: upt_Suc)
  then show "\<exists>pre a post. tx = pre @ a @ post \<and> list_all2 same_letter q a"
    by (intro exI [of _ "take k tx"] exI [of _ "take (length q) (drop k tx)"] exI [of _ "drop (length q) (drop k tx)"])
      (simp del: drop_drop)
next
  assume "\<exists>pre a post. tx = pre @ a @ post \<and> list_all2 same_letter q a"
  then obtain pre a post where "tx = pre @ a @ post" "list_all2 same_letter q a" by blast
  then show "mentions q tx"
    by (auto simp: mentions_def list_ex_iff list_all2_lengthD simp del: upt_Suc intro!: bexI [of _ "length pre"])
qed

text \<open>
  C22. Keyword search is substring search: whatever wildcards and backslashes the query contains, the
  notes found are those whose topic or content contains the query literally, letters compared
  regardless of case, newest first and at most as many as asked for.
\<close>

theorem search_is_substring:
  assumes "sql_like like" "\<not> md_poisoned m" "md_fault m = None" "\<And>rs. mset (md_scan_notes m rs) = mset rs"
  shows "\<exists>found. mset found = mset (filter (\<lambda>n. mentions query (lt_topic n) \<or> mentions query (lt_content n)) (md_long_term m))
    \<and> search_long_term like m query limit = Inr (take limit (sort_desc lt_created_at found))"
  using assms(2-4) sql_like.search_pattern [OF assms(1)]
  by (intro exI [of _ "md_scan_notes m (filter (\<lambda>n. mentions query (lt_topic n) \<or> mentions query (lt_content n)) (md_long_term m))"])
    (simp add: search_long_term_def with_memory_def mentions_iff)

lemma ascii_lower_small: "(of_char c :: nat) < 65 \<or> 90 < (of_char c :: nat) \<Longrightarrow> ascii_lower c = c"
  by (auto simp: ascii_lower_def)

definition sample_note :: "string \<Rightarrow> datetime \<Rightarrow> long_term_note" where
  "sample_note tx at_time = \<lparr>lt_id = tx, lt_topic = ''t'', lt_content = tx, lt_tags = [], lt_token_count = 1,
     lt_created_at = at_time\<rparr>"

definition sample_memory :: memory_db where
  "sample_memory = open_memory\<lparr>md_long_term := [sample_note ''100% Sure'' 1, sample_note ''100 sure'' 2]\<rparr>"

theorem search_is_substring_witness:
  "\<exists>found. mset found = mset [sample_note ''100% Sure'' 1]
    \<and> search_long_term like_match sample_memory ''0% s'' 5 = Inr (take 5 (sort_desc lt_created_at found))"
proof -
  have low: "ascii_lower CHR ''S'' = CHR ''s''" by code_simp
  have "filter (\<lambda>n. mentions ''0% s'' (lt_topic n) \<or> mentions ''0% s'' (lt_content n)) (md_long_term sample_memory)
      = [sample_note ''100% Sure'' 1]"
    by (simp add: sample_memory_def sample_note_def mentions_def same_letter_def upt_rec low ascii_lower_small)
  then show ?thesis
    using search_is_substring [OF documented_like.sql_like_axioms, of sample_memory "''0% s''" 5]
    by (simp add: sample_memory_def open_memory_def)
qed

end
