(* ===== verification/Utf8.thy ===== *)
theory Utf8
  imports Tokens
begin

text \<open>
  Decoding of bytes as UTF-8, as the standard library of Rust does it: \<open>String::from_utf8\<close> accepts
  exactly the well-formed texts, \<open>String::from_utf8_lossy\<close> replaces each maximal ill-formed part by the
  replacement character.
\<close>

definition byte :: "char \<Rightarrow> nat" where
  "byte c = of_char c"

text \<open>The length of a character by its first byte, and the range of its second byte.\<close>

definition lead_length :: "nat \<Rightarrow> nat" where
  "lead_length b = (if b < 0x80 then 1 else if b < 0xC2 then 0 else if b < 0xE0 then 2
     else if b < 0xF0 then 3 else if b < 0xF5 then 4 else 0)"

definition second_ok :: "nat \<Rightarrow> char \<Rightarrow> bool" where
  "second_ok b c \<longleftrightarrow>
     (if b = 0xE0 then 0xA0 \<le> byte c \<and> byte c < 0xC0
      else if b = 0xED then 0x80 \<le> byte c \<and> byte c < 0xA0
      else if b = 0xF0 then 0x90 \<le> byte c \<and> byte c < 0xC0
      else if b = 0xF4 then 0x80 \<le> byte c \<and> byte c < 0x90
      else is_cont c)"

text \<open>How many bytes the first character takes, and whether they are well-formed.\<close>

fun utf8_scan :: "string \<Rightarrow> nat \<times> bool" where
  "utf8_scan [] = (1, False)"
| "utf8_scan (c # cs) =
     (let n = lead_length (byte c) in
      if n = 0 then (1, False)
      else if n = 1 then (1, True)
      else case cs of
          [] \<Rightarrow> (1, False)
        | c2 # cs2 \<Rightarrow>
            if \<not> second_ok (byte c) c2 then (1, False)
            else if n = 2 then (2, True)
            else (case cs2 of
                [] \<Rightarrow> (2, False)
              | c3 # cs3 \<Rightarrow>
                  if \<not> is_cont c3 then (2, False)
                  else if n = 3 then (3, True)
                  else (case cs3 of [] \<Rightarrow> (3, False) | c4 # _ \<Rightarrow> if is_cont c4 then (4, True) else (3, False))))"

lemma utf8_scan_pos: "0 < fst (utf8_scan s)"
  by (cases s) (auto simp: Let_def split: list.split)

lemma utf8_scan_shorter: "(n, ok) = utf8_scan s \<Longrightarrow> s \<noteq> [] \<Longrightarrow> length (drop n s) < length s"
  using utf8_scan_pos [of s] by (metis diff_less fst_conv length_drop length_greater_0_conv)

declare utf8_scan.simps [simp del]

definition replacement_char :: string where
  "replacement_char = [CHR 0xEF, CHR 0xBF, CHR 0xBD]"

function from_utf8_lossy :: "string \<Rightarrow> string" where
  "from_utf8_lossy s = (if s = [] then []
     else let (n, ok) = utf8_scan s
       in (if ok then take n s else replacement_char) @ from_utf8_lossy (drop n s))"
  by auto
termination
  by (relation "measure length") (use utf8_scan_shorter in auto)

declare from_utf8_lossy.simps [simp del]

function valid_utf8 :: "string \<Rightarrow> bool" where
  "valid_utf8 s = (if s = [] then True
     else let (n, ok) = utf8_scan s in if ok then valid_utf8 (drop n s) else False)"
  by auto
termination
  by (relation "measure length") (use utf8_scan_shorter in auto)

declare valid_utf8.simps [simp del]

definition from_utf8 :: "string \<Rightarrow> string option" where
  "from_utf8 s = (if valid_utf8 s then Some s else None)"

text \<open>Well-formed bytes are kept as they are.\<close>

lemma lossy_valid: "valid_utf8 s \<Longrightarrow> from_utf8_lossy s = s"
proof (induction s rule: valid_utf8.induct)
  case (1 s)
  obtain n ok where scan: "utf8_scan s = (n, ok)" by force
  show ?case
  proof (cases "s = []")
    case False
    then have "ok" "valid_utf8 (drop n s)"
      using 1(2) scan valid_utf8.simps [of s] by (auto split: if_splits)
    then have "from_utf8_lossy (drop n s) = drop n s" using 1(1) [OF False refl scan [symmetric]] by simp
    then show ?thesis using False scan \<open>ok\<close> by (simp add: from_utf8_lossy.simps [of s])
  qed (simp add: from_utf8_lossy.simps)
qed

end
