(* ===== verification/Kernel.thy ===== *)
theory Kernel
  imports Conversations Inbox Memory_Store Threads Budget Utf8
begin

text \<open>
  The stores that a tick works on (\<open>KernelContext\<close> of \<open>exoskeleton-host/src/kernel/mod.rs\<close>) and the Perceive
  step (\<open>exoskeleton-host/src/kernel/perceive.rs\<close>).

  Snapshots, ticks, events, artifacts and memories are the SQLite stores; conversations, threads, the
  relationship ledger and the inbox are traits of the code, used through their operations. The readings
  of clocks and the fresh ids of a step are functions of the place where they are taken.
\<close>

section \<open>The stores\<close>

record ('c, 't, 'l, 'i) kernel_world =
  kw_snapshots :: "snapshot_row sql_db"
  kw_ticks :: "tick_row sql_db"
  kw_events :: "event_entry sql_db"
  kw_artifacts :: "artifact sql_db"
  kw_memory :: memory_db
  kw_conversations :: 'c
  kw_threads :: 't
  kw_ledger :: 'l
  kw_inbox :: 'i
  kw_tracker :: "tracker option"
  kw_gate :: "tool_budget_gate option"
  kw_mode :: vessel_mode

text \<open>\<open>let _ = event_ledger.append(..)\<close>: a failure leaves the ledger as it was.\<close>

definition append_event :: "(uuid \<Rightarrow> string) \<Rightarrow> event_entry \<Rightarrow> event_entry sql_db \<Rightarrow> event_entry sql_db" where
  "append_event show_id e db = (case event_append show_id e db of Inl _ \<Rightarrow> db | Inr (_, db') \<Rightarrow> db')"

lemma append_event_rows:
  "db_rows (append_event show_id e db) = db_rows db \<or> db_rows (append_event show_id e db) = db_rows db @ [e]"
  by (auto simp: append_event_def event_append_def with_db_def locked_def split: if_splits option.splits)

section \<open>Perceive\<close>

record perception =
  pe_new_messages :: "message_envelope list"
  pe_active_conversations :: "conversation list"
  pe_thread_outputs :: "thread_contribution list"
  pe_exec_thread_outputs :: "exec_thread_contribution list"
  pe_pending_action_results :: "event_entry list"

definition pending_results :: "uuid option \<Rightarrow> event_entry sql_db \<Rightarrow> event_entry list exo_result" where
  "pending_results previous_tick_id db = (case previous_tick_id of
     None \<Rightarrow> Inr []
   | Some i \<Rightarrow> (case event_for_tick db i of
       Inl e \<Rightarrow> Inl e | Inr es \<Rightarrow> Inr (filter (\<lambda>e. ev_event_type e = ActionExecuted) es)))"

text \<open>\<open>new_conv k\<close> is the id of the conversation that the \<open>k\<close>-th message may start.\<close>

definition perceive ::
  "chrono_ops \<Rightarrow> 'i inbox_ops \<Rightarrow> 'c conv_ops \<Rightarrow> (nat \<Rightarrow> uuid) \<Rightarrow> uuid option \<Rightarrow>
   ('c, 't, 'l, 'i) kernel_world \<Rightarrow> perception exo_result \<times> ('c, 't, 'l, 'i) kernel_world" where
  "perceive ch ib conv new_conv previous_tick_id w = (case ib_receive ib (kw_inbox w) of
     Inl e \<Rightarrow> (Inl e, w)
   | Inr new_messages \<Rightarrow> (case pending_results previous_tick_id (kw_events w) of
       Inl e \<Rightarrow> (Inl e, w)
     | Inr pending_action_results \<Rightarrow>
         (case group_envelopes_into_conversations ch conv
             (zip (map new_conv [0..<length new_messages]) new_messages) (kw_conversations w) of
            (Inl e, convs) \<Rightarrow> (Inl e, w\<lparr>kw_conversations := convs\<rparr>)
          | (Inr _, convs) \<Rightarrow> (case co_active conv convs 20 of
              Inl e \<Rightarrow> (Inl e, w\<lparr>kw_conversations := convs\<rparr>)
            | Inr active \<Rightarrow> (Inr \<lparr>pe_new_messages = new_messages, pe_active_conversations = active,
                pe_thread_outputs = [], pe_exec_thread_outputs = [],
                pe_pending_action_results = pending_action_results\<rparr>, w\<lparr>kw_conversations := convs\<rparr>)))))"

text \<open>
  Perceiving only groups conversations. The inbox is left alone: messages are received again until
  a later step acknowledges them.
\<close>

lemma perceive_frame:
  assumes "perceive ch ib conv new_conv prev w = (r, w')"
  shows "\<exists>convs. w' = w\<lparr>kw_conversations := convs\<rparr>"
  using assms
  by (auto simp: perceive_def split: sum.splits prod.splits) (metis kernel_world.surjective kernel_world.update_convs(6))+

lemma perceive_messages:
  assumes "perceive ch ib conv new_conv prev w = (Inr p, w')"
  shows "ib_receive ib (kw_inbox w) = Inr (pe_new_messages p)" "pe_thread_outputs p = []"
  using assms by (auto simp: perceive_def split: sum.splits prod.splits)

end
