(* ===== verification/Prompts.thy ===== *)
theory Prompts
  imports Exo_Core Tokens
begin

text \<open>
  The registry of prompt templates (\<open>exoskeleton-core/src/prompt.rs\<close>) with the substitution of
  \<open>{{name}}\<close> placeholders. The variables are replaced one after the other in the whole text, so a
  value is searched again for later placeholders; \<open>resolve_substitutes\<close> shows that this is the
  simultaneous substitution when values contain no braces.

  The Unicode table behind \<open>char::is_alphanumeric\<close> is the argument \<open>alnum\<close>, on characters in UTF-8.
\<close>

section \<open>Searching and replacing\<close>

text \<open>\<open>s.find(pat)\<close>: the byte index of the first match.\<close>

definition find_str :: "string \<Rightarrow> string \<Rightarrow> nat option" where
  "find_str pat s = List.find (\<lambda>k. take (length pat) (drop k s) = pat) [0..<Suc (length s)]"

text \<open>\<open>s.replace(pat, by)\<close> of a non-empty pattern: matches from the left, without overlap.\<close>

function replace_all :: "string \<Rightarrow> string \<Rightarrow> string \<Rightarrow> string" where
  "replace_all pat by_text [] = []"
| "replace_all pat by_text (c # cs) =
     (if pat \<noteq> [] \<and> take (length pat) (c # cs) = pat
      then by_text @ replace_all pat by_text (drop (length pat) (c # cs))
      else c # replace_all pat by_text cs)"
  by pat_completeness auto
termination
  by (relation "measure (\<lambda>(_, _, s). length s)") (auto simp: neq_Nil_conv)

section \<open>The registry\<close>

type_synonym prompt_registry = "(string \<times> string) list"

definition prompts_new :: prompt_registry where
  "prompts_new = []"

definition prompt_insert :: "string \<Rightarrow> string \<Rightarrow> prompt_registry \<Rightarrow> prompt_registry" where
  "prompt_insert name template r = AList.update name template r"

definition prompt_get :: "prompt_registry \<Rightarrow> string \<Rightarrow> string option" where
  "prompt_get r name = map_of r name"

text \<open>The compiled-in files: name and path below \<open>prompts/\<close>.\<close>

definition default_prompts :: "(string \<times> string) list" where
  "default_prompts = [
     (''decide-system'', ''decide-system.md''),
     (''coding-system'', ''coding-system.md''),
     (''context-system-section'', ''context-system-section.md''),
     (''thread-execution'', ''thread-execution.md''),
     (''thread-user-message'', ''thread-user-message.md''),
     (''charter-threat-monitor'', ''charters/threat-monitor.md''),
     (''charter-self-critique'', ''charters/self-critique.md''),
     (''charter-memory-consolidation'', ''charters/memory-consolidation.md''),
     (''reflect-system'', ''reflect-system.md''),
     (''bootstrap-first-contact'', ''bootstrap/first-contact.md''),
     (''bootstrap-identity-extraction'', ''bootstrap/identity-extraction.md''),
     (''bootstrap-preamble'', ''bootstrap-preamble.md''),
     (''charter-creative-synthesis'', ''charters/creative-synthesis.md''),
     (''charter-initiative'', ''charters/initiative.md''),
     (''coding-thread-system'', ''coding-thread-system.md''),
     (''charter-coding-thread'', ''charters/coding-thread.md'')]"

definition prompts_with_defaults :: "(string \<Rightarrow> string) \<Rightarrow> prompt_registry" where
  "prompts_with_defaults file = fold (\<lambda>(name, path). prompt_insert name (file path)) default_prompts prompts_new"

definition placeholder :: "string \<Rightarrow> string" where
  "placeholder key = ''{{'' @ key @ ''}}''"

fun substitute :: "(string \<times> string) list \<Rightarrow> string \<Rightarrow> string" where
  "substitute [] s = s"
| "substitute ((key, v) # vars) s = substitute vars (replace_all (placeholder key) v s)"

definition is_variable_name :: "(string \<Rightarrow> bool) \<Rightarrow> string \<Rightarrow> bool" where
  "is_variable_name alnum name \<longleftrightarrow> list_all (\<lambda>ch. alnum ch \<or> ch = ''_'') (utf8_chars name) \<and> name \<noteq> []"

text \<open>The first placeholder left in a text, if it looks like a variable.\<close>

definition unresolved :: "(string \<Rightarrow> bool) \<Rightarrow> string \<Rightarrow> string option" where
  "unresolved alnum s = (case find_str ''{{'' s of
     None \<Rightarrow> None
   | Some start \<Rightarrow> (case find_str ''}}'' (drop (start + 2) s) of
       None \<Rightarrow> None
     | Some fin \<Rightarrow> (let name = take fin (drop (start + 2) s) in
         if is_variable_name alnum name then Some name else None)))"

definition resolve ::
  "(string \<Rightarrow> bool) \<Rightarrow> prompt_registry \<Rightarrow> string \<Rightarrow> (string \<times> string) list \<Rightarrow> string exo_result" where
  "resolve alnum r name vars = (case map_of r name of
     None \<Rightarrow> Inl (Config (''prompt template not found: '' @ name))
   | Some template \<Rightarrow>
       (let result = substitute vars template in
        case unresolved alnum result of
          Some v \<Rightarrow> Inl (Config (''unresolved variable in template '' @ [CHR 0x27] @ name @ [CHR 0x27]
            @ '': '' @ placeholder v))
        | None \<Rightarrow> Inr result))"

section \<open>Substitution\<close>

text \<open>A template in pieces, its text, and the simultaneous substitution.\<close>

datatype piece = Lit string | Var string

fun piece_text :: "piece \<Rightarrow> string" where
  "piece_text (Lit s) = s"
| "piece_text (Var k) = placeholder k"

definition template_text :: "piece list \<Rightarrow> string" where
  "template_text ps = concat (map piece_text ps)"

definition no_brace :: "string \<Rightarrow> bool" where
  "no_brace s \<longleftrightarrow> CHR ''{'' \<notin> set s \<and> CHR ''}'' \<notin> set s"

fun plain_piece :: "piece \<Rightarrow> bool" where
  "plain_piece (Lit s) = no_brace s"
| "plain_piece (Var k) = no_brace k"

fun fill :: "(string \<times> string) list \<Rightarrow> piece \<Rightarrow> piece" where
  "fill vars (Lit s) = Lit s"
| "fill vars (Var k) = (case map_of vars k of None \<Rightarrow> Var k | Some v \<Rightarrow> Lit v)"

lemma replace_all_no_open:
  "CHR ''{'' \<notin> set s \<Longrightarrow> replace_all (placeholder key) v (s @ t) = s @ replace_all (placeholder key) v t"
  by (induction s) (auto simp: placeholder_def)

lemma same_key_tail:
  "no_brace key \<Longrightarrow> no_brace k \<Longrightarrow> take (length key + 2) (k @ ''}}'' @ t) = key @ ''}}'' \<longleftrightarrow> k = key"
proof (induction key arbitrary: k)
  case Nil
  then show ?case by (cases k) (auto simp: no_brace_def)
next
  case (Cons d key)
  then show ?case by (cases k) (auto simp: no_brace_def)
qed

lemma same_key:
  "no_brace key \<Longrightarrow> no_brace k \<Longrightarrow>
    take (length (placeholder key)) (placeholder k @ t) = placeholder key \<longleftrightarrow> k = key"
  using same_key_tail [of key k t] by (simp add: placeholder_def)

text \<open>One replacement fills the placeholders of its variable and leaves every other piece alone.\<close>

lemma replace_var:
  assumes "no_brace key" "no_brace k"
  shows "replace_all (placeholder key) v (placeholder k @ t) =
    (if k = key then v else placeholder k) @ replace_all (placeholder key) v t"
proof (cases "k = key")
  case True
  have "placeholder k @ t = CHR ''{'' # drop 1 (placeholder k) @ t" by (simp add: placeholder_def)
  then have "replace_all (placeholder key) v (placeholder k @ t) =
      v @ replace_all (placeholder key) v (drop (length (placeholder key)) (placeholder k @ t))"
    using same_key [OF assms, of t] True by (simp add: placeholder_def)
  with True show ?thesis by simp
next
  case False
  have open2: "take (length (placeholder key)) (CHR ''{'' # k @ u) \<noteq> placeholder key" if "u = ''}}'' @ t" for u
    using assms(2) that by (cases k) (auto simp: placeholder_def no_brace_def)
  have "replace_all (placeholder key) v (placeholder k @ t) =
      CHR ''{'' # CHR ''{'' # replace_all (placeholder key) v (k @ ''}}'' @ t)"
    using same_key [OF assms, of t] False open2 [OF refl] by (simp add: placeholder_def)
  also have "replace_all (placeholder key) v (k @ ''}}'' @ t) = (k @ ''}}'') @ replace_all (placeholder key) v t"
    using replace_all_no_open [of "k @ ''}}''" key v t] assms(2) by (simp add: no_brace_def)
  finally show ?thesis using False by (simp add: placeholder_def)
qed

lemma replace_template:
  "no_brace key \<Longrightarrow> list_all plain_piece ps \<Longrightarrow>
    replace_all (placeholder key) v (template_text ps) = template_text (map (fill [(key, v)]) ps)"
proof (induction ps)
  case Nil
  then show ?case by (simp add: template_text_def)
next
  case (Cons p ps)
  then show ?case
    using replace_all_no_open [of _ key v "template_text ps"] replace_var [of key _ v "template_text ps"]
    by (cases p) (auto simp: template_text_def no_brace_def)
qed

lemma fill_plain: "list_all (\<lambda>kv. no_brace (snd kv)) vars \<Longrightarrow> plain_piece p \<Longrightarrow> plain_piece (fill vars p)"
  by (cases p) (fastforce simp: list_all_iff split: option.split dest: map_of_SomeD)+

lemma fill_Cons: "fill vars (fill [(k, v)] p) = fill ((k, v) # vars) p"
  by (cases p) auto

lemma substitute_template:
  "list_all (\<lambda>kv. no_brace (fst kv) \<and> no_brace (snd kv)) vars \<Longrightarrow> list_all plain_piece ps \<Longrightarrow>
    substitute vars (template_text ps) = template_text (map (fill vars) ps)"
proof (induction vars arbitrary: ps)
  case Nil
  have "map (fill []) ps = ps" by (rule map_idI) (metis fill.elims fill.simps(1) map_of.simps(1) option.simps(4) piece.exhaust fill.simps(2))
  then show ?case by simp
next
  case (Cons kv vars)
  obtain k v where kv: "kv = (k, v)" by force
  have "list_all plain_piece (map (fill [(k, v)]) ps)"
    using Cons.prems kv by (auto simp: list_all_iff intro!: fill_plain)
  then show ?case
    using Cons kv replace_template [of k ps v] by (simp add: fill_Cons comp_def)
qed

lemma find_str_Some: "find_str pat s = Some k \<Longrightarrow> set pat \<subseteq> set s"
  by (auto simp: find_str_def find_Some_iff dest: arg_cong [where f = set] in_set_takeD in_set_dropD)

text \<open>
  When every placeholder of a template has a variable and neither names, literal text nor values
  contain braces, resolving the template is the simultaneous substitution of the values.
\<close>

lemma resolve_substitutes:
  assumes "map_of r name = Some (template_text ps)" "list_all plain_piece ps"
    "list_all (\<lambda>kv. no_brace (fst kv) \<and> no_brace (snd kv)) vars"
    "list_all (\<lambda>p. case p of Lit _ \<Rightarrow> True | Var k \<Rightarrow> map_of vars k \<noteq> None) ps"
  shows "resolve alnum r name vars =
    Inr (concat (map (\<lambda>p. case p of Lit s \<Rightarrow> s | Var k \<Rightarrow> the (map_of vars k)) ps))" (is "_ = Inr ?filled")
proof -
  have "piece_text (fill vars p) = (case p of Lit s \<Rightarrow> s | Var k \<Rightarrow> the (map_of vars k))" if "p \<in> set ps" for p
    using assms(4) that by (auto simp: list_all_iff split: piece.splits option.splits)
  then have eq: "substitute vars (template_text ps) = ?filled"
    using substitute_template [OF assms(3,2)] by (auto simp: template_text_def comp_def intro!: arg_cong [where f = concat])
  have "CHR ''{'' \<notin> set (piece_text (fill vars p))" if "p \<in> set ps" for p
    using assms(2-4) that fill_plain [of vars p]
    by (cases p) (auto simp: list_all_iff no_brace_def split: option.splits)
  then have "CHR ''{'' \<notin> set (substitute vars (template_text ps))"
    using substitute_template [OF assms(3,2)] by (auto simp: template_text_def)
  then have "find_str ''{{'' (substitute vars (template_text ps)) = None"
    using find_str_Some [of "''{{''"] by (cases "find_str ''{{'' (substitute vars (template_text ps))") auto
  then show ?thesis using assms(1) eq by (simp add: resolve_def unresolved_def)
qed

section \<open>What the check for unresolved variables misses\<close>

text \<open>
  Only the first pair of opening braces is examined: a later unresolved variable passes when the
  first pair is no variable. A value that contains a placeholder is taken for an unresolved variable.
\<close>

lemma later_variable_unresolved:
  assumes "\<not> alnum '' ''"
  shows "resolve alnum [(''t'', ''{{ a }} {{name}}'')] ''t'' [] = Inr ''{{ a }} {{name}}''"
  using assms by (simp add: resolve_def unresolved_def find_str_def is_variable_name_def is_cont_def upt_rec)

lemma value_taken_for_variable:
  assumes "alnum ''x''"
  shows "isl (resolve alnum [(''t'', ''{{mission}}'')] ''t'' [(''mission'', ''{{x}}'')])"
  using assms
  by (simp add: resolve_def unresolved_def find_str_def is_variable_name_def is_cont_def upt_rec placeholder_def)

end
