(* ===== verification/Orient.thy ===== *)
theory Orient
  imports Kernel Render Repo_Context Prompts
begin

text \<open>
  The Orient step (\<open>exoskeleton-host/src/kernel/orient.rs\<close>): it gathers what the context compiler renders. The
  stores of memory and events must answer; a missing or unreadable artifact is left out. \<open>None\<close> is a panic in the
  assembly of the repository section, which the theory \<open>Repo_Context\<close> excludes for texts in UTF-8.
\<close>

section \<open>Surroundings\<close>

record workspace =
  wk_files :: fs_node
  wk_branch :: "(bool \<times> string) option"
  wk_status :: "string option"
  wk_log :: "string option"

record orient_env =
  or_arts :: "artifact sql_db artifact_ops"
  or_display :: display_ops
  or_alnum :: "string \<Rightarrow> bool"
  or_prompts :: prompt_registry
  or_vessel_id :: uuid
  or_mission :: string
  or_workspace :: "workspace option"
  or_parse_json :: "string \<Rightarrow> json option"
  or_parse_relationships :: "string \<Rightarrow> relationship_snapshot option"
  or_compiler :: context_compiler

section \<open>The step\<close>

definition load_relationships :: "orient_env \<Rightarrow> state_snapshot \<Rightarrow> artifact sql_db \<Rightarrow> relationship_snapshot option" where
  "load_relationships env snap arts = (case ss_relationship_snapshot_ref snap of
     None \<Rightarrow> None
   | Some i \<Rightarrow> (case ao_get (or_arts env) arts i of
       Inr (Some a) \<Rightarrow> or_parse_relationships env (af_content a) | _ \<Rightarrow> None))"

definition resolve_message ::
  "orient_env \<Rightarrow> artifact sql_db \<Rightarrow> conversation_message \<Rightarrow> (artifact_id \<times> string) list \<Rightarrow> (artifact_id \<times> string) list" where
  "resolve_message env arts msg m =
     (if map_of m (cm_payload_ref msg) \<noteq> None then m
      else case ao_get (or_arts env) arts (cm_payload_ref msg) of
        Inr (Some a) \<Rightarrow> (case from_utf8 (af_content a) of
          Some tx \<Rightarrow> (cm_payload_ref msg, tx) # m | None \<Rightarrow> m)
      | _ \<Rightarrow> m)"

definition resolve_messages :: "orient_env \<Rightarrow> artifact sql_db \<Rightarrow> conversation list \<Rightarrow> (artifact_id \<times> string) list" where
  "resolve_messages env arts convs =
     fold (\<lambda>c. fold (resolve_message env arts) (take 3 (rev (cv_message_refs c)))) convs []"

definition non_empty :: "string option \<Rightarrow> string option" where
  "non_empty s = (case s of Some t \<Rightarrow> if t = [] then None else Some t | None \<Rightarrow> None)"

definition git_section :: "orient_env \<Rightarrow> string option" where
  "git_section env = non_empty (map_option (\<lambda>wk.
     render_git_context_optional (capture_git_state (wk_branch wk) (wk_status wk) (wk_log wk))) (or_workspace env))"

definition system_section :: "orient_env \<Rightarrow> string option" where
  "system_section env = (case resolve (or_alnum env) (or_prompts env) ''context-system-section''
       [(''vessel_id'', show_uuid (or_display env) (or_vessel_id env)), (''mission'', or_mission env)] of
     Inr t \<Rightarrow> Some t | Inl _ \<Rightarrow> None)"

definition orient ::
  "orient_env \<Rightarrow> state_snapshot \<Rightarrow> perception \<Rightarrow> ('c, 't, 'l, 'i) kernel_world \<Rightarrow> compiled_context exo_result option" where
  "orient env snap p w = (case recent_episodic (kw_memory w) 10 of
     Inl e \<Rightarrow> Some (Inl e)
   | Inr episodic \<Rightarrow> (case all_long_term (kw_memory w) 100 of
       Inl e \<Rightarrow> Some (Inl e)
     | Inr notes \<Rightarrow> (case event_recent (kw_events w) 20 of
         Inl e \<Rightarrow> Some (Inl e)
       | Inr events \<Rightarrow>
           (case (case or_workspace env of
                    None \<Rightarrow> Some None
                  | Some wk \<Rightarrow> map_option Some (assemble_repo_instruction_text (or_parse_json env) (wk_files wk))) of
              None \<Rightarrow> None
            | Some instructions \<Rightarrow> Some (compile (or_display env) (or_compiler env) \<lparr>
                cs_vessel_id = or_vessel_id env, cs_mission = or_mission env, cs_snapshot = snap,
                cs_relationship_snapshot = load_relationships env snap (kw_artifacts w),
                cs_thread_contributions = pe_thread_outputs p, cs_exec_thread_contributions = pe_exec_thread_outputs p,
                cs_recent_events = events, cs_episodic_summaries = episodic, cs_long_term_notes = notes,
                cs_plan = ss_plan snap, cs_working_memory = ss_working_memory snap,
                cs_conversations = pe_active_conversations p,
                cs_resolved_message_content = Some (resolve_messages env (kw_artifacts w) (pe_active_conversations p)),
                cs_system_section_override = system_section env,
                cs_repo_instructions = non_empty instructions, cs_git_context = git_section env\<rparr>)))))"

end
