(* ===== verification/Policy.thy ===== *)
theory Policy
  imports State_Snapshot
begin

text \<open>
  The tool policy of the Act step (\<open>exoskeleton-host/src/kernel/policy.rs\<close>): rules per tool, approvals
  of the session, and the restriction to read-only tools in planning mode.
\<close>

datatype policy_rule = RuleAllow | RuleDeny | RuleAsk

record tool_policy_config =
  tp_default :: policy_rule
  tp_rules :: "(string \<times> policy_rule) list"

definition tool_policy_default :: tool_policy_config where
  "tool_policy_default = \<lparr>tp_default = RuleAllow, tp_rules = []\<rparr>"

definition rule_for :: "tool_policy_config \<Rightarrow> string \<Rightarrow> policy_rule" where
  "rule_for c tool = (case map_of (tp_rules c) tool of Some r \<Rightarrow> r | None \<Rightarrow> tp_default c)"

type_synonym session_approvals = "(string \<times> bool) list"

definition is_approved :: "session_approvals \<Rightarrow> string \<Rightarrow> bool" where
  "is_approved s tool = (case map_of s tool of Some b \<Rightarrow> b | None \<Rightarrow> False)"

definition approve :: "string \<Rightarrow> session_approvals \<Rightarrow> session_approvals" where
  "approve tool s = AList.update tool True s"

datatype policy_decision = Allowed | Denied string | NeedsApproval

definition squote :: "string \<Rightarrow> string" where
  "squote s = [CHR 0x27] @ s @ [CHR 0x27]"

definition evaluate_policy ::
  "string \<Rightarrow> bool \<Rightarrow> vessel_mode \<Rightarrow> tool_policy_config \<Rightarrow> session_approvals \<Rightarrow> policy_decision" where
  "evaluate_policy tool is_read_only mode c approvals =
     (if mode = MPlanning \<and> \<not> is_read_only
      then Denied (''tool '' @ squote tool @ '' is mutating; blocked in planning mode (read-only only)'')
      else case rule_for c tool of
          RuleAllow \<Rightarrow> Allowed
        | RuleDeny \<Rightarrow> Denied (''tool '' @ squote tool @ '' denied by policy'')
        | RuleAsk \<Rightarrow> if is_approved approvals tool then Allowed else NeedsApproval)"

text \<open>What the policy lets through.\<close>

lemma policy_allowed_iff:
  "evaluate_policy tool ro mode c approvals = Allowed \<longleftrightarrow>
     (mode = MPlanning \<longrightarrow> ro) \<and> rule_for c tool \<noteq> RuleDeny
     \<and> (rule_for c tool = RuleAsk \<longrightarrow> is_approved approvals tool)"
  by (auto simp: evaluate_policy_def split: policy_rule.splits)

lemma is_approved_approve: "is_approved (approve tool s) t \<longleftrightarrow> t = tool \<or> is_approved s t"
  by (auto simp: is_approved_def approve_def update_conv' split: option.splits)

end
