(* ===== verification/Virtual_Tools.thy ===== *)
theory Virtual_Tools
  imports Llm_Types Policy
begin

text \<open>
  Virtual tools (\<open>exoskeleton-host/src/kernel/virtual_tools.rs\<close>): the tools \<open>agent.ask_user\<close> and
  \<open>peer.resolve\<close> that the model sees, translated to connector calls of the WorldInterface host and
  their results translated back. The descriptor type belongs to the WorldInterface crates; its
  fields are those the source sets and reads, and the categories the source does not name are one
  constructor.
\<close>

section \<open>Descriptors\<close>

datatype connector_category = CatCode | CatHttp | CatCustom string | CatOther string

record tool_descriptor =
  td_name :: string
  td_display_name :: string
  td_description :: string
  td_category :: connector_category
  td_input_schema :: "json option"
  td_output_schema :: "json option"
  td_idempotent :: bool
  td_side_effects :: bool
  td_is_read_only :: bool
  td_is_mutating :: bool
  td_is_concurrency_safe :: bool
  td_requires_read_before_write :: bool

definition AGENT_ASK_USER :: string where
  "AGENT_ASK_USER = ''agent.ask_user''"

definition PEER_RESOLVE :: string where
  "PEER_RESOLVE = ''peer.resolve''"

definition is_virtual_tool :: "string \<Rightarrow> bool" where
  "is_virtual_tool name \<longleftrightarrow> name = AGENT_ASK_USER \<or> name = PEER_RESOLVE"

definition field_schema :: "string \<Rightarrow> string \<Rightarrow> json" where
  "field_schema ty description = JObj [(''type'', JStr ty), (''description'', JStr description)]"

definition typed :: "string \<Rightarrow> json" where
  "typed ty = JObj [(''type'', JStr ty)]"

definition ask_user_descriptor :: tool_descriptor where
  "ask_user_descriptor = \<lparr>
     td_name = AGENT_ASK_USER,
     td_display_name = ''Ask User'',
     td_description = ''Present a question to the operator and wait for a response. ''
       @ ''If the operator answers promptly, returns the answer. On timeout, ''
       @ ''returns pending status and the coding session yields gracefully.'',
     td_category = CatCustom ''interaction'',
     td_input_schema = Some (JObj [
       (''type'', JStr ''object''),
       (''required'', JArr [JStr ''question'']),
       (''properties'', JObj [
         (''question'', field_schema ''string'' ''The question text''),
         (''choices'', JObj [(''type'', JStr ''array''), (''items'', typed ''string''),
           (''description'', JStr ''Bounded choices (omit for free-text)'')]),
         (''timeout_secs'', JObj [(''type'', JStr ''integer''),
           (''description'', JStr ''Wait timeout. Default: 30''), (''minimum'', JInt 1)]),
         (''context'', field_schema ''string'' ''Additional context'')])]),
     td_output_schema = Some (JObj [
       (''type'', JStr ''object''),
       (''properties'', JObj [
         (''status'', JObj [(''type'', JStr ''string''),
           (''enum'', JArr [JStr ''answered'', JStr ''pending''])]),
         (''question_id'', typed ''string''),
         (''answer'', typed ''string'')])]),
     td_idempotent = True,
     td_side_effects = False,
     td_is_read_only = True,
     td_is_mutating = False,
     td_is_concurrency_safe = False,
     td_requires_read_before_write = False\<rparr>"

definition peer_resolve_descriptor :: tool_descriptor where
  "peer_resolve_descriptor = \<lparr>
     td_name = PEER_RESOLVE,
     td_display_name = ''Peer Resolve'',
     td_description = ''Resolves a vessel name to its inbox URL via the fleet registry.'',
     td_category = CatHttp,
     td_input_schema = Some (JObj [
       (''type'', JStr ''object''),
       (''required'', JArr [JStr ''name'']),
       (''properties'', JObj [(''name'', field_schema ''string'' ''Vessel name to resolve'')])]),
     td_output_schema = Some (JObj [
       (''type'', JStr ''object''),
       (''properties'', JObj [(''name'', typed ''string''), (''inbox_url'', typed ''string''),
         (''vessel_id'', typed ''string'')])]),
     td_idempotent = True,
     td_side_effects = False,
     td_is_read_only = True,
     td_is_mutating = False,
     td_is_concurrency_safe = True,
     td_requires_read_before_write = False\<rparr>"

definition virtual_tool_descriptors :: "tool_descriptor list" where
  "virtual_tool_descriptors = [ask_user_descriptor, peer_resolve_descriptor]"

definition virtual_tool_definitions :: "tool_definition list" where
  "virtual_tool_definitions = map (\<lambda>t. \<lparr>
     tdf_name = td_name t,
     tdf_description = td_description t,
     tdf_input_schema = (case td_input_schema t of Some v \<Rightarrow> v
       | None \<Rightarrow> JObj [(''type'', JStr ''object''), (''properties'', JObj [])])\<rparr>) virtual_tool_descriptors"

section \<open>Translation\<close>

datatype virtual_context = CtxAskUser string | CtxPeerResolve

text \<open>
  What a translation draws from its surroundings: a fresh question id, the time of asking as an
  instant and as text, and the address and token of the fleet registry.
\<close>

record translate_env =
  te_question_id :: string
  te_now :: datetime
  te_asked_at :: string
  te_observatory_url :: "string option"
  te_observatory_token :: "string option"

definition json_or_null :: "json option \<Rightarrow> json" where
  "json_or_null v = (case v of Some x \<Rightarrow> x | None \<Rightarrow> JNull)"

definition translate_ask_user ::
  "'a artifact_ops \<Rightarrow> translate_env \<Rightarrow> json \<Rightarrow> 'a \<Rightarrow> (string \<times> json \<times> string) exo_result \<times> 'a" where
  "translate_ask_user ops env params arts = (case json_get_str params ''question'' of
     None \<Rightarrow> (Inl (Engine (''agent.ask_user: missing '' @ squote ''question'')), arts)
   | Some question \<Rightarrow>
       let timeout_secs = (case Option.bind (json_get params ''timeout_secs'') json_as_u64 of
             Some n \<Rightarrow> n | None \<Rightarrow> 30);
           question_artifact = JObj [
             (''question_id'', JStr (te_question_id env)),
             (''question'', JStr question),
             (''choices'', json_or_null (json_get params ''choices'')),
             (''context'', json_or_null (json_get params ''context'')),
             (''asked_at'', JStr (te_asked_at env))]
       in case store_json ops (te_now env) AkEvent question_artifact arts of
           (Inl e, arts') \<Rightarrow> (Inl e, arts')
         | (Inr _, arts') \<Rightarrow> (Inr (''signal.await'',
             JObj [(''key'', JStr (''question:'' @ te_question_id env)),
                   (''timeout_secs'', JInt (uint timeout_secs))], te_question_id env), arts'))"

definition is_name_char :: "char \<Rightarrow> bool" where
  "is_name_char c \<longleftrightarrow> is_digit c \<or>
     (97 \<le> (of_char (ascii_lower c) :: nat) \<and> (of_char (ascii_lower c) :: nat) \<le> 122)
     \<or> c = CHR ''.'' \<or> c = CHR ''-'' \<or> c = CHR ''_''"

definition translate_peer_resolve ::
  "json \<Rightarrow> string \<Rightarrow> string option \<Rightarrow> (string \<times> json) exo_result" where
  "translate_peer_resolve params observatory_url observatory_token = (case json_get_str params ''name'' of
     None \<Rightarrow> Inl (Engine (''peer.resolve: missing '' @ squote ''name''))
   | Some name \<Rightarrow>
       if name = [] \<or> \<not> list_all is_name_char name
       then Inl (Engine (''peer.resolve: invalid vessel name '' @ squote name))
       else Inr (''http.request'', JObj [
         (''url'', JStr (observatory_url @ ''/api/v1/fleet/vessels/'' @ name @ ''/inbox-url'')),
         (''method'', JStr ''GET''),
         (''headers'', JObj (case observatory_token of None \<Rightarrow> []
            | Some token \<Rightarrow> [(''Authorization'', JStr (''Bearer '' @ token))]))]))"

definition translate ::
  "'a artifact_ops \<Rightarrow> translate_env \<Rightarrow> string \<Rightarrow> json \<Rightarrow> 'a \<Rightarrow>
   (string \<times> json \<times> virtual_context) exo_result \<times> 'a" where
  "translate ops env virtual_name params arts =
     (if virtual_name = AGENT_ASK_USER then
        (case translate_ask_user ops env params arts of
           (Inl e, arts') \<Rightarrow> (Inl e, arts')
         | (Inr (tool, ps, qid), arts') \<Rightarrow> (Inr (tool, ps, CtxAskUser qid), arts'))
      else if virtual_name = PEER_RESOLVE then
        (case te_observatory_url env of
           None \<Rightarrow> (Inl (Engine ''peer.resolve: observatory_url not configured''), arts)
         | Some url \<Rightarrow>
             (case translate_peer_resolve params url (te_observatory_token env) of
                Inl e \<Rightarrow> (Inl e, arts)
              | Inr (tool, ps) \<Rightarrow> (Inr (tool, ps, CtxPeerResolve), arts)))
      else (Inl (Engine (''unknown virtual tool: '' @ virtual_name)), arts))"

section \<open>Results\<close>

definition post_process_ask_user :: "string \<Rightarrow> json \<Rightarrow> json" where
  "post_process_ask_user question_id signal_result =
     (let status = (case json_get_str signal_result ''status'' of Some s \<Rightarrow> s | None \<Rightarrow> ''timeout'')
      in if status = ''received''
         then let payload = (case json_get signal_result ''payload'' of Some p \<Rightarrow> p | None \<Rightarrow> JObj [])
              in JObj [(''status'', JStr ''answered''), (''question_id'', JStr question_id),
                   (''answer'', json_or_null (json_get payload ''answer'')),
                   (''answered_by'', json_or_null (json_get payload ''answered_by''))]
         else JObj [(''status'', JStr ''pending''), (''question_id'', JStr question_id)])"

definition post_process_peer_resolve :: "string + json \<Rightarrow> string + json" where
  "post_process_peer_resolve http_result = (case http_result of
     Inl e \<Rightarrow> Inl e
   | Inr v \<Rightarrow>
       let body = (case json_get v ''body'' of Some b \<Rightarrow> b | None \<Rightarrow> v)
       in case Option.bind (json_get v ''status_code'') json_as_u64 of
            Some status \<Rightarrow>
              if status = 404 then Inl ''vessel not found''
              else if status \<ge> 400 then Inl (''fleet registry returned HTTP '' @ show_u64 status)
              else Inr body
          | None \<Rightarrow> Inr body)"

fun post_process :: "virtual_context \<Rightarrow> string + json \<Rightarrow> string + json" where
  "post_process (CtxAskUser question_id) result = (case result of
     Inr signal_result \<Rightarrow> Inr (post_process_ask_user question_id signal_result)
   | Inl e \<Rightarrow> Inl e)"
| "post_process CtxPeerResolve result = post_process_peer_resolve result"

section \<open>Properties\<close>

text \<open>The virtual tools are exactly the described ones, and all of them are read-only.\<close>

lemma virtual_tool_described:
  "is_virtual_tool name \<longleftrightarrow> name \<in> td_name ` set virtual_tool_descriptors"
  "t \<in> set virtual_tool_descriptors \<Longrightarrow> td_is_read_only t"
  by (auto simp: is_virtual_tool_def virtual_tool_descriptors_def ask_user_descriptor_def
      peer_resolve_descriptor_def)

text \<open>A virtual tool reaches the host only as \<open>signal.await\<close> or as \<open>http.request\<close>.\<close>

lemma translate_target:
  "fst (translate ops env name params arts) = Inr (tool, ps, ctx) \<Longrightarrow>
    is_virtual_tool name \<and> (tool = ''signal.await'' \<or> tool = ''http.request'')"
  by (auto simp: translate_def translate_ask_user_def translate_peer_resolve_def is_virtual_tool_def Let_def
      split: if_splits option.splits sum.splits prod.splits)

text \<open>An accepted vessel name holds no path separator, query or fragment character.\<close>

lemma accepted_name_plain:
  assumes "translate_peer_resolve params url token = Inr r" "json_get_str params ''name'' = Some name"
  shows "name \<noteq> [] \<and> CHR ''/'' \<notin> set name \<and> CHR ''?'' \<notin> set name \<and> CHR ''#'' \<notin> set name"
proof -
  have "list_all is_name_char name \<and> name \<noteq> []"
    using assms by (auto simp: translate_peer_resolve_def split: if_splits)
  moreover have "\<not> is_name_char CHR ''/''" "\<not> is_name_char CHR ''?''" "\<not> is_name_char CHR ''#''"
    by (simp_all add: is_name_char_def is_digit_def ascii_lower_def)
  ultimately show ?thesis by (auto simp: list_all_iff)
qed

text \<open>The name \<open>..\<close> is accepted, so a request can leave the directory of the vessels.\<close>

lemma dotdot_accepted:
  "translate_peer_resolve (JObj [(''name'', JStr ''..'')]) ''http://host'' None =
     Inr (''http.request'', JObj [
       (''url'', JStr ''http://host/api/v1/fleet/vessels/../inbox-url''),
       (''method'', JStr ''GET''), (''headers'', JObj [])])"
  by (simp add: translate_peer_resolve_def json_get_str_def is_name_char_def)

end
