(* ===== verification/Watches.thy ===== *)
theory Watches
  imports Exo_Core
begin

text \<open>
  Watches: persistent observations proposed by Decide, admitted by Align and checked in
  Perceive. The types and the in-memory store are those of
  \<open>exoskeleton-core/src/watch.rs\<close>, the executor is \<open>exoskeleton-host/src/kernel/watches.rs\<close>, and
  the admission of proposals is the last part of \<open>exoskeleton-host/src/kernel/align.rs\<close>.

  The executor's metric source (\<open>IntrospectionService::query_metric\<close>), the artifact store, the
  event ledger and the JSON encoder are arguments. The live broadcast to observers is not modelled: its result is ignored.
\<close>

section \<open>Types\<close>

datatype metric_kind =
    TrustLevel uuid
  | BudgetRemaining string
  | ConsecutiveFailures
  | TickDuration
  | EventCount string u32

definition default_lookback :: u32 where
  "default_lookback = 10"

datatype watch_condition = Above f64 | Below f64 | Changed

datatype watch_type =
    Threshold metric_kind watch_condition
  | Poll string json "string option" "watch_condition option"

datatype watch_schedule = WEveryNTicks u32 | WOnce

datatype watch_status = WActive | WPaused | WCompleted

record watch_definition =
  wd_id :: uuid
  wd_name :: string
  wd_description :: string
  wd_watch_type :: watch_type
  wd_schedule :: watch_schedule
  wd_status :: watch_status
  wd_created_at_tick :: u64
  wd_last_checked_tick :: "u64 option"
  wd_trigger_count :: u32
  wd_created_at :: datetime

record watch_proposal =
  wp_name :: string
  wp_description :: string
  wp_watch_type :: watch_type
  wp_schedule :: watch_schedule

definition DEFAULT_MAX_WATCHES :: u32 where
  "DEFAULT_MAX_WATCHES = 20"

text \<open>\<open>f64::EPSILON\<close> and \<open>f64::abs\<close>.\<close>

definition f64_EPSILON :: f64 where
  "f64_EPSILON = Fin (1 / 2 ^ 52)"

fun f64_abs :: "f64 \<Rightarrow> f64" where
  "f64_abs (Fin a) = Fin \<bar>a\<bar>"
| "f64_abs NaN = NaN"
| "f64_abs _ = PInf"

fun is_triggered :: "watch_condition \<Rightarrow> f64 \<Rightarrow> f64 option \<Rightarrow> bool" where
  "is_triggered (Above v) current previous = f64_lt v current"
| "is_triggered (Below v) current previous = f64_lt current v"
| "is_triggered Changed current (Some prev) = f64_lt f64_EPSILON (f64_abs (f64_sub current prev))"
| "is_triggered Changed current None = False"

section \<open>The in-memory store\<close>

type_synonym watch_store = "(uuid \<times> watch_definition) list"

definition ws_save :: "watch_definition \<Rightarrow> watch_store \<Rightarrow> watch_store exo_result" where
  "ws_save w st = Inr (AList.update (wd_id w) w st)"

definition ws_get :: "uuid \<Rightarrow> watch_store \<Rightarrow> watch_definition option exo_result" where
  "ws_get i st = Inr (map_of st i)"

definition ws_list :: "watch_store \<Rightarrow> watch_definition list exo_result" where
  "ws_list st = Inr (map snd st)"

definition watch_due :: "u64 \<Rightarrow> watch_definition \<Rightarrow> bool" where
  "watch_due tick w \<longleftrightarrow> (if wd_status w \<noteq> WActive then False
     else case wd_schedule w of
         WOnce \<Rightarrow> wd_trigger_count w = 0
       | WEveryNTicks n \<Rightarrow>
           (let lst = (case wd_last_checked_tick w of Some t \<Rightarrow> t | None \<Rightarrow> wd_created_at_tick w)
            in sat_sub tick lst \<ge> ucast n))"

definition due_watches :: "u64 \<Rightarrow> watch_store \<Rightarrow> watch_definition list exo_result" where
  "due_watches tick st = Inr (filter (watch_due tick) (map snd st))"

definition watch_not_found :: "(uuid \<Rightarrow> string) \<Rightarrow> uuid \<Rightarrow> exo_error" where
  "watch_not_found show_uuid i = Storage (''watch '' @ show_uuid i @ '' not found'')"

definition update_status ::
  "(uuid \<Rightarrow> string) \<Rightarrow> uuid \<Rightarrow> watch_status \<Rightarrow> watch_store \<Rightarrow> watch_store exo_result" where
  "update_status show_uuid i status st = (case map_of st i of
     Some w \<Rightarrow> Inr (AList.update i (w\<lparr>wd_status := status\<rparr>) st)
   | None \<Rightarrow> Inl (watch_not_found show_uuid i))"

definition triggered_watch :: "u64 \<Rightarrow> watch_definition \<Rightarrow> watch_definition" where
  "triggered_watch tick w =
     (let w1 = w\<lparr>wd_trigger_count := wd_trigger_count w + 1, wd_last_checked_tick := Some tick\<rparr>
      in if wd_schedule w = WOnce then w1\<lparr>wd_status := WCompleted\<rparr> else w1)"

definition record_trigger ::
  "(uuid \<Rightarrow> string) \<Rightarrow> uuid \<Rightarrow> u64 \<Rightarrow> watch_store \<Rightarrow> watch_store exo_result" where
  "record_trigger show_uuid i tick st = (case map_of st i of
     Some w \<Rightarrow> Inr (AList.update i (triggered_watch tick w) st)
   | None \<Rightarrow> Inl (watch_not_found show_uuid i))"

definition record_check ::
  "(uuid \<Rightarrow> string) \<Rightarrow> uuid \<Rightarrow> u64 \<Rightarrow> watch_store \<Rightarrow> watch_store exo_result" where
  "record_check show_uuid i tick st = (case map_of st i of
     Some w \<Rightarrow> Inr (AList.update i (w\<lparr>wd_last_checked_tick := Some tick\<rparr>) st)
   | None \<Rightarrow> Inl (watch_not_found show_uuid i))"

definition ws_delete :: "uuid \<Rightarrow> watch_store \<Rightarrow> watch_store exo_result" where
  "ws_delete i st = Inr (AList.delete i st)"

definition active_count :: "watch_store \<Rightarrow> u32 exo_result" where
  "active_count st = Inr (of_nat (length (filter (\<lambda>w. wd_status w = WActive) (map snd st))))"

section \<open>The executor\<close>

record planned_action =
  pa_call_id :: string
  pa_tool_name :: string
  pa_params :: json
  pa_rationale :: string
  pa_plan_task_id :: "uuid option"
  pa_origin_exec_thread_id :: "uuid option"
  pa_proposal_id :: "string option"

text \<open>
  The surroundings of the executor: identifiers and clock readings for the \<open>n\<close>-th watch of the
  round, and the services it calls. \<open>put\<close> is \<open>artifact_store.put(..).ok()\<close>; appending an event
  ignores the ledger's answer, so \<open>log_event\<close> is the ledger after the attempt.
\<close>

record ('a, 'e) watch_env =
  we_show_uuid :: "uuid \<Rightarrow> string"
  we_sha256_hex :: "string \<Rightarrow> artifact_id"
  we_new_id :: "nat \<Rightarrow> uuid"
  we_created_at :: "nat \<Rightarrow> datetime"
  we_event_time :: "nat \<Rightarrow> datetime"
  we_query_metric :: "metric_kind \<Rightarrow> f64 exo_result"
  we_encode :: "watch_definition \<Rightarrow> f64 \<Rightarrow> watch_condition \<Rightarrow> string"
  we_put :: "artifact \<Rightarrow> 'a \<Rightarrow> artifact_id option \<times> 'a"
  we_log_event :: "event_entry \<Rightarrow> 'e \<Rightarrow> 'e"

record ('a, 'e) watch_world =
  ww_store :: watch_store
  ww_artifacts :: 'a
  ww_events :: 'e

text \<open>\<open>let _ = store.op(..)\<close>: an error leaves the store unchanged.\<close>

definition ignore_err :: "'s exo_result \<Rightarrow> 's \<Rightarrow> 's" where
  "ignore_err r s = (case r of Inl _ \<Rightarrow> s | Inr s' \<Rightarrow> s')"

definition watch_event :: "('a, 'e) watch_env \<Rightarrow> nat \<Rightarrow> watch_definition \<Rightarrow> f64 \<Rightarrow>
    artifact_id option \<Rightarrow> event_entry" where
  "watch_event env k w value payload_ref = \<lparr>
     ev_id = we_new_id env k,
     ev_tick_id = None,
     ev_event_type = WatchTriggered,
     ev_payload_ref = payload_ref,
     ev_summary = ''Watch '' @ [CHR 0x27] @ wd_name w @ [CHR 0x27] @ '' triggered: value='' @ fmt_f64_2 value,
     ev_timestamp = we_event_time env k\<rparr>"

definition poll_action :: "('a, 'e) watch_env \<Rightarrow> watch_definition \<Rightarrow> string \<Rightarrow> json \<Rightarrow> planned_action" where
  "poll_action env w connector params = \<lparr>
     pa_call_id = ''watch_'' @ we_show_uuid env (wd_id w) @ ''_'' @ connector,
     pa_tool_name = connector,
     pa_params = params,
     pa_rationale = ''Poll watch '' @ [CHR 0x27] @ wd_name w @ [CHR 0x27] @ '' scheduled check'',
     pa_plan_task_id = None,
     pa_origin_exec_thread_id = None,
     pa_proposal_id = None\<rparr>"

text \<open>One due watch: the events and actions it adds, and the world after it.\<close>

definition check_watch ::
  "('a, 'e) watch_env \<Rightarrow> u64 \<Rightarrow> nat \<Rightarrow> watch_definition \<Rightarrow> ('a, 'e) watch_world \<Rightarrow>
   event_entry list \<times> planned_action list \<times> ('a, 'e) watch_world" where
  "check_watch env tick k w s = (case wd_watch_type w of
     Threshold metric condition \<Rightarrow>
       (case we_query_metric env metric of
          Inr value \<Rightarrow>
            if is_triggered condition value None
            then let a = artifact_new (we_sha256_hex env) (we_created_at env k) AkEvent
                           (we_encode env w value condition) ''application/json'';
                     (payload_ref, arts) = we_put env a (ww_artifacts s);
                     e = watch_event env k w value payload_ref
                 in ([e], [], s\<lparr>ww_artifacts := arts, ww_events := we_log_event env e (ww_events s),
                       ww_store := ignore_err (record_trigger (we_show_uuid env) (wd_id w) tick (ww_store s))
                         (ww_store s)\<rparr>)
            else ([], [], s\<lparr>ww_store :=
                   ignore_err (record_check (we_show_uuid env) (wd_id w) tick (ww_store s)) (ww_store s)\<rparr>)
        | Inl _ \<Rightarrow> ([], [], s\<lparr>ww_store :=
                   ignore_err (record_check (we_show_uuid env) (wd_id w) tick (ww_store s)) (ww_store s)\<rparr>))
   | Poll connector params extract condition \<Rightarrow>
       ([], [poll_action env w connector params], s\<lparr>ww_store :=
          ignore_err (record_check (we_show_uuid env) (wd_id w) tick (ww_store s)) (ww_store s)\<rparr>))"

fun check_due ::
  "('a, 'e) watch_env \<Rightarrow> u64 \<Rightarrow> nat \<Rightarrow> watch_definition list \<Rightarrow> ('a, 'e) watch_world \<Rightarrow>
   event_entry list \<times> planned_action list \<times> ('a, 'e) watch_world" where
  "check_due env tick k [] s = ([], [], s)"
| "check_due env tick k (w # ws) s =
     (let (es, as, s1) = check_watch env tick k w s;
          (es', as', s2) = check_due env tick (Suc k) ws s1
      in (es @ es', as @ as', s2))"

definition check_watches ::
  "('a, 'e) watch_env \<Rightarrow> u64 \<Rightarrow> ('a, 'e) watch_world \<Rightarrow>
   event_entry list \<times> planned_action list \<times> ('a, 'e) watch_world" where
  "check_watches env tick s = (case due_watches tick (ww_store s) of
     Inl _ \<Rightarrow> ([], [], s)
   | Inr due \<Rightarrow> check_due env tick 0 due s)"

section \<open>Admission of proposals\<close>

text \<open>
  The end of the Align step: each proposal is admitted while the number of active watches is
  below the limit. \<open>fresh\<close> gives the new id and the creation time of the \<open>k\<close>-th proposal.
\<close>

definition proposed_watch :: "uuid \<times> datetime \<Rightarrow> u64 \<Rightarrow> watch_proposal \<Rightarrow> watch_definition" where
  "proposed_watch fresh tick p = \<lparr>
     wd_id = fst fresh,
     wd_name = wp_name p,
     wd_description = wp_description p,
     wd_watch_type = wp_watch_type p,
     wd_schedule = wp_schedule p,
     wd_status = WActive,
     wd_created_at_tick = tick,
     wd_last_checked_tick = None,
     wd_trigger_count = 0,
     wd_created_at = snd fresh\<rparr>"

fun admit_watches ::
  "('s \<Rightarrow> u32 exo_result) \<Rightarrow> (watch_definition \<Rightarrow> 's \<Rightarrow> 's exo_result) \<Rightarrow> u32 \<Rightarrow> u64 \<Rightarrow>
   ((uuid \<times> datetime) \<times> watch_proposal) list \<Rightarrow> 's \<Rightarrow> 's" where
  "admit_watches count save max_watches tick [] st = st"
| "admit_watches count save max_watches tick ((fresh, p) # ps) st =
     (let current = (case count st of Inr n \<Rightarrow> n | Inl _ \<Rightarrow> 0) in
      if current \<ge> max_watches then admit_watches count save max_watches tick ps st
      else case save (proposed_watch fresh tick p) st of
          Inl _ \<Rightarrow> admit_watches count save max_watches tick ps st
        | Inr st' \<Rightarrow> admit_watches count save max_watches tick ps st')"

section \<open>Due watches and their lifecycle\<close>

definition store_wf :: "watch_store \<Rightarrow> bool" where
  "store_wf st \<longleftrightarrow> distinct (map fst st) \<and> (\<forall>(i, w) \<in> set st. wd_id w = i)"

definition triggers :: "('a, 'e) watch_env \<Rightarrow> watch_definition \<Rightarrow> bool" where
  "triggers env w \<longleftrightarrow> (case wd_watch_type w of
     Threshold metric condition \<Rightarrow> (case we_query_metric env metric of
       Inr value \<Rightarrow> is_triggered condition value None | Inl _ \<Rightarrow> False)
   | Poll _ _ _ _ \<Rightarrow> False)"

definition after_check :: "('a, 'e) watch_env \<Rightarrow> u64 \<Rightarrow> watch_definition \<Rightarrow> watch_definition" where
  "after_check env tick w =
     (if triggers env w then triggered_watch tick w else w\<lparr>wd_last_checked_tick := Some tick\<rparr>)"

lemma map_of_update: "map_of (AList.update k v al) = (map_of al)(k \<mapsto> v)"
  by (rule update_conv')

lemma check_watch_store:
  assumes "map_of (ww_store s) (wd_id w) = Some w"
  shows "ww_store (snd (snd (check_watch env tick k w s))) =
    AList.update (wd_id w) (after_check env tick w) (ww_store s)"
  using assms
  by (auto simp: check_watch_def after_check_def triggers_def record_trigger_def record_check_def
      ignore_err_def Let_def split: watch_type.split sum.split prod.split)

lemma check_watch_events:
  "map ev_event_type (fst (check_watch env tick k w s)) = (if triggers env w then [WatchTriggered] else [])"
  by (auto simp: check_watch_def triggers_def watch_event_def Let_def
      split: watch_type.split sum.split prod.split)

lemma check_due_spec:
  assumes "distinct (map wd_id ws)" "\<forall>w \<in> set ws. map_of (ww_store s) (wd_id w) = Some w"
  shows "map_of (ww_store (snd (snd (check_due env tick k ws s)))) =
      (\<lambda>i. if i \<in> wd_id ` set ws then map_option (after_check env tick) (map_of (ww_store s) i)
           else map_of (ww_store s) i)
    \<and> length (fst (check_due env tick k ws s)) = length (filter (triggers env) ws)"
  using assms
proof (induction ws arbitrary: s k)
  case Nil
  then show ?case by simp
next
  case (Cons w ws)
  obtain es as s1 where c: "check_watch env tick k w s = (es, as, s1)" by (metis prod_cases3)
  obtain es' as' s2 where d: "check_due env tick (Suc k) ws s1 = (es', as', s2)" by (metis prod_cases3)
  have w: "map_of (ww_store s) (wd_id w) = Some w" using Cons.prems(2) by simp
  have s1: "map_of (ww_store s1) = (map_of (ww_store s))(wd_id w \<mapsto> after_check env tick w)"
    using check_watch_store [OF w, of env tick k] c by (simp add: map_of_update)
  have es: "length es = (if triggers env w then 1 else 0)"
    using arg_cong [OF check_watch_events [of env tick k w s], of length] c by simp
  have "\<forall>v \<in> set ws. map_of (ww_store s1) (wd_id v) = Some v"
  proof
    fix v assume v: "v \<in> set ws"
    then have "wd_id v \<noteq> wd_id w" using Cons.prems(1) by (metis distinct.simps(2) image_eqI list.simps(9) set_map)
    with v show "map_of (ww_store s1) (wd_id v) = Some v" using Cons.prems(2) by (simp add: s1)
  qed
  from Cons.IH [OF _ this, of "Suc k"] Cons.prems(1) d
  have s2: "map_of (ww_store s2) i = (if i \<in> wd_id ` set ws
        then map_option (after_check env tick) (map_of (ww_store s1) i) else map_of (ww_store s1) i)"
    and es': "length es' = length (filter (triggers env) ws)" for i by simp_all
  have new: "wd_id w \<notin> wd_id ` set ws" using Cons.prems(1) by simp
  have "map_of (ww_store s2) i = (if i \<in> wd_id ` set (w # ws)
        then map_option (after_check env tick) (map_of (ww_store s) i) else map_of (ww_store s) i)" for i
    using s2 [of i] new w by (cases "i = wd_id w") (simp_all add: s1)
  then show ?case using c d es es' by (simp add: fun_eq_iff)
qed

lemma due_in_store:
  assumes "store_wf st"
  shows "distinct (map wd_id (filter (watch_due tick) (map snd st)))"
    and "w \<in> set (filter (watch_due tick) (map snd st)) \<Longrightarrow> map_of st (wd_id w) = Some w"
    and "map_of st i = Some w \<Longrightarrow> wd_id w = i"
    and "map_of st i = Some w \<Longrightarrow> i \<in> wd_id ` set (filter (watch_due tick) (map snd st)) \<longleftrightarrow> watch_due tick w"
proof -
  have ids: "map wd_id (map snd st) = map fst st" using assms by (auto simp: store_wf_def)
  have d: "distinct (map fst st)" using assms by (simp add: store_wf_def)
  show "distinct (map wd_id (filter (watch_due tick) (map snd st)))"
    using d ids by (metis distinct_map_filter)
  have key: "map_of st (wd_id v) = Some v" if "v \<in> set (map snd st)" for v
    using that assms d by (auto simp: store_wf_def)
  then show "w \<in> set (filter (watch_due tick) (map snd st)) \<Longrightarrow> map_of st (wd_id w) = Some w" by auto
  show id: "map_of st i = Some w \<Longrightarrow> wd_id w = i" using assms by (auto simp: store_wf_def dest: map_of_SomeD)
  show "map_of st i = Some w \<Longrightarrow> i \<in> wd_id ` set (filter (watch_due tick) (map snd st)) \<longleftrightarrow> watch_due tick w"
  proof -
    assume w: "map_of st i = Some w"
    then have "w \<in> set (map snd st)" by (force dest: map_of_SomeD)
    show ?thesis
    proof
      assume "i \<in> wd_id ` set (filter (watch_due tick) (map snd st))"
      then obtain v where v: "v \<in> set (map snd st)" "watch_due tick v" "wd_id v = i" by auto
      with key [OF v(1)] w show "watch_due tick w" by simp
    next
      assume "watch_due tick w"
      with \<open>w \<in> set (map snd st)\<close> id [OF w] show "i \<in> wd_id ` set (filter (watch_due tick) (map snd st))"
        by (force simp: image_iff)
    qed
  qed
qed

lemma watch_round:
  assumes "store_wf (ww_store s)"
  shows "map_of (ww_store (snd (snd (check_watches env tick s)))) i =
      map_option (\<lambda>w. if watch_due tick w then after_check env tick w else w) (map_of (ww_store s) i)"
    and "length (fst (check_watches env tick s)) =
        length (filter (\<lambda>w. watch_due tick w \<and> triggers env w) (map snd (ww_store s)))"
proof -
  let ?due = "filter (watch_due tick) (map snd (ww_store s))"
  have eq: "check_watches env tick s = check_due env tick 0 ?due s"
    by (simp add: check_watches_def due_watches_def)
  have "distinct (map wd_id ?due)" "\<forall>w \<in> set ?due. map_of (ww_store s) (wd_id w) = Some w"
    using due_in_store(1,2) [OF assms] by blast+
  note spec = check_due_spec [OF this, of env tick 0]
  show "map_of (ww_store (snd (snd (check_watches env tick s)))) i =
      map_option (\<lambda>w. if watch_due tick w then after_check env tick w else w) (map_of (ww_store s) i)"
  proof (cases "map_of (ww_store s) i")
    case None
    with spec show ?thesis unfolding eq by simp
  next
    case (Some w)
    with spec due_in_store(4) [OF assms Some, of tick] show ?thesis unfolding eq by simp
  qed
  have "filter (triggers env) ?due =
      filter (\<lambda>w. watch_due tick w \<and> triggers env w) (map snd (ww_store s))"
    by (simp add: filter_filter conj_commute)
  then show "length (fst (check_watches env tick s)) =
        length (filter (\<lambda>w. watch_due tick w \<and> triggers env w) (map snd (ww_store s)))"
    using spec unfolding eq by simp
qed

lemma watch_round_due:
  assumes "store_wf (ww_store s)" "map_of (ww_store s) i = Some w" "watch_due tick w"
  shows "map_of (ww_store (snd (snd (check_watches env tick s)))) i = Some (after_check env tick w)"
  using watch_round(1) [OF assms(1)] assms(2,3) by simp

text \<open>
  C7. One round of the watch executor: every watch that is due is checked exactly once and moved
  on (triggered when its threshold condition holds, otherwise only marked as checked), every
  other watch is left as it was, and one event is emitted per triggered watch.
\<close>

theorem watch_round_spec:
  assumes "store_wf (ww_store s)"
  shows "map_of (ww_store (snd (snd (check_watches env tick s)))) i =
      map_option (\<lambda>w. if watch_due tick w then after_check env tick w else w) (map_of (ww_store s) i)
    \<and> length (fst (check_watches env tick s)) =
        length (filter (\<lambda>w. watch_due tick w \<and> triggers env w) (map snd (ww_store s)))"
  using watch_round [OF assms] by blast

lemma not_due_within_period:
  assumes "wd_schedule w = WEveryNTicks n" "tick \<le> t" "unat t - unat tick < unat n"
  shows "\<not> watch_due t (after_check env tick w)"
proof -
  have "unat (sat_sub t tick) < unat (ucast n :: u64)"
    using assms(3) by (simp add: unat_sat_sub unat_ucast_u32)
  then show ?thesis
    using assms(1) by (simp add: after_check_def triggered_watch_def watch_due_def Let_def word_le_nat_alt)
qed

text \<open>
  A periodic watch is checked at most once per period: after a round in which it was due, it
  is not due again until the period it asked for has passed, whatever its check found.
\<close>

lemma periodic_watch_waits:
  assumes "store_wf (ww_store s)" "map_of (ww_store s) i = Some w" "watch_due tick w"
    and "wd_schedule w = WEveryNTicks n" "tick \<le> t" "unat t - unat tick < unat n"
  shows "\<exists>w'. map_of (ww_store (snd (snd (check_watches env tick s)))) i = Some w' \<and> \<not> watch_due t w'"
  using watch_round_due [OF assms(1-3)] not_due_within_period [OF assms(4-6)] by blast

text \<open>
  C8. A one-shot threshold watch fires once: in the round where its condition holds it becomes
  \<open>Completed\<close> with trigger count one, and it is never due afterwards.
\<close>

theorem once_watch_completes:
  assumes "store_wf (ww_store s)" "map_of (ww_store s) i = Some w" "watch_due tick w"
    and "wd_schedule w = WOnce" "triggers env w"
  shows "\<exists>w'. map_of (ww_store (snd (snd (check_watches env tick s)))) i = Some w'
      \<and> wd_status w' = WCompleted \<and> wd_trigger_count w' = 1 \<and> (\<forall>t. \<not> watch_due t w')"
  unfolding watch_round_due [OF assms(1-3)]
  using assms(3-) by (simp add: after_check_def triggered_watch_def watch_due_def Let_def split: if_splits)

text \<open>
  A watch on the condition \<open>Changed\<close> never triggers: the executor always passes no previous
  value, and without one the condition is false, whatever the metric reads.
\<close>

lemma changed_watch_never_triggers:
  assumes "wd_watch_type w = Threshold metric Changed"
  shows "\<not> triggers env w
    \<and> check_watch env tick k w s = ([], [], s\<lparr>ww_store :=
        ignore_err (record_check (we_show_uuid env) (wd_id w) tick (ww_store s)) (ww_store s)\<rparr>)"
  using assms by (auto simp: triggers_def check_watch_def split: sum.split)

text \<open>
  A one-shot poll watch never completes: the executor only records a check for poll watches,
  so a due one-shot poll is still due after the round, at every later tick, and polls again.
\<close>

lemma once_poll_repeats:
  assumes "store_wf (ww_store s)" "map_of (ww_store s) i = Some w" "watch_due tick w"
    and "wd_schedule w = WOnce" "wd_watch_type w = Poll connector params extract condition"
  shows "\<exists>w'. map_of (ww_store (snd (snd (check_watches env tick s)))) i = Some w'
      \<and> wd_watch_type w' = wd_watch_type w \<and> (\<forall>t. watch_due t w')"
  unfolding watch_round_due [OF assms(1-3)]
  using assms(3-) by (simp add: after_check_def triggers_def watch_due_def split: if_splits)

section \<open>The limit on active watches\<close>

text \<open>
  What admission relies on of the store: where a save succeeds, \<open>active_count\<close> counts, and the save adds
  at most one active watch. \<open>usable\<close> is what an implementation assumes of its own state.
\<close>

locale watch_admission =
  fixes count :: "'s \<Rightarrow> u32 exo_result"
    and save :: "watch_definition \<Rightarrow> 's \<Rightarrow> 's exo_result"
    and active :: "'s \<Rightarrow> nat"
    and usable :: "'s \<Rightarrow> bool"
  assumes count_eq: "usable st \<Longrightarrow> save w st = Inr st' \<Longrightarrow> count st = Inr (of_nat (active st))"
    and save_active: "usable st \<Longrightarrow> save w st = Inr st' \<Longrightarrow> usable st' \<and> active st' \<le> Suc (active st)"
begin

lemma admit_bounded:
  "usable st \<Longrightarrow> active st \<le> unat max_watches \<Longrightarrow>
    active (admit_watches count save max_watches tick ps st) \<le> unat max_watches"
proof (induction ps arbitrary: st)
  case Nil
  then show ?case by simp
next
  case (Cons fp ps)
  obtain fresh p where fp: "fp = (fresh, p)" by (cases fp)
  show ?case
  proof (cases "save (proposed_watch fresh tick p) st")
    case (Inl e)
    then show ?thesis using Cons fp by simp
  next
    case (Inr st')
    have "active st < 2 ^ 32" using Cons.prems(2) unat_bound [of max_watches] by simp
    then have "unat (of_nat (active st) :: u32) = active st" by (simp add: unat_of_nat)
    then have "\<not> of_nat (active st) \<ge> max_watches \<Longrightarrow> Suc (active st) \<le> unat max_watches"
      by (simp add: word_le_nat_alt)
    then show ?thesis
      using Cons Inr fp count_eq [OF Cons.prems(1) Inr] save_active [OF Cons.prems(1) Inr]
      by (auto intro!: Cons.IH intro: order_trans)
  qed
qed

end

definition active_watches :: "watch_store \<Rightarrow> nat" where
  "active_watches st = length (filter (\<lambda>w. wd_status w = WActive) (map snd st))"

lemma active_watches_update: "active_watches (AList.update i w st) \<le> Suc (active_watches st)"
  unfolding active_watches_def by (induction st) auto

interpretation mem_watches: watch_admission active_count ws_save active_watches "\<lambda>_. True"
proof
  show "active_count st = Inr (of_nat (active_watches st))" for st
    by (simp only: active_count_def active_watches_def)
  show "ws_save w st = Inr st' \<Longrightarrow> True \<and> active_watches st' \<le> Suc (active_watches st)" for w st st'
    by (auto simp: ws_save_def active_watches_update)
qed

text \<open>
  Admission keeps the limit: however many watches a decision proposes, the number of active
  watches does not exceed the configured maximum afterwards when it did not before.
\<close>

lemma watch_limit_kept:
  assumes "active_watches st \<le> unat max_watches"
  shows "active_watches (admit_watches active_count ws_save max_watches tick ps st) \<le> unat max_watches"
  using assms by (rule mem_watches.admit_bounded [OF TrueI])

section \<open>The properties at concrete inputs\<close>

definition sample_watch :: "uuid \<Rightarrow> watch_type \<Rightarrow> watch_schedule \<Rightarrow> watch_definition" where
  "sample_watch i ty sched = proposed_watch (i, 0) 1
     \<lparr>wp_name = ''w'', wp_description = ''d'', wp_watch_type = ty, wp_schedule = sched\<rparr>"

definition sample_threshold :: watch_type where
  "sample_threshold = Threshold ConsecutiveFailures (Above (Fin 3))"

definition sample_store :: watch_store where
  "sample_store = [(1, sample_watch 1 sample_threshold WOnce),
     (2, sample_watch 2 sample_threshold (WEveryNTicks 5)),
     (3, sample_watch 3 (Poll ''http.get'' JNull None None) WOnce)]"

definition sample_watch_env :: "(artifact list, event_entry list) watch_env" where
  "sample_watch_env = \<lparr>
     we_show_uuid = (\<lambda>_. ''id''), we_sha256_hex = (\<lambda>_. ''c0ffee''), we_new_id = of_nat,
     we_created_at = (\<lambda>_. 0), we_event_time = (\<lambda>_. 0), we_query_metric = (\<lambda>_. Inr (Fin 4)),
     we_encode = (\<lambda>_ _ _. ''{}''), we_put = (\<lambda>a as. (Some (af_id a), a # as)),
     we_log_event = (#)\<rparr>"

definition sample_watch_world :: "(artifact list, event_entry list) watch_world" where
  "sample_watch_world = \<lparr>ww_store = sample_store, ww_artifacts = [], ww_events = []\<rparr>"

lemmas sample_watch_defs = sample_watch_def proposed_watch_def sample_threshold_def sample_store_def
  sample_watch_world_def

lemma sample_watches_ok:
  "store_wf (ww_store sample_watch_world)"
  "map_of (ww_store sample_watch_world) 1 = Some (sample_watch 1 sample_threshold WOnce)"
  "map_of (ww_store sample_watch_world) 2 = Some (sample_watch 2 sample_threshold (WEveryNTicks 5))"
  "map_of (ww_store sample_watch_world) 3 = Some (sample_watch 3 (Poll ''http.get'' JNull None None) WOnce)"
  "watch_due 8 (sample_watch 1 sample_threshold WOnce)"
  "watch_due 8 (sample_watch 2 sample_threshold (WEveryNTicks 5))"
  "watch_due 8 (sample_watch 3 (Poll ''http.get'' JNull None None) WOnce)"
  "triggers sample_watch_env (sample_watch 1 sample_threshold WOnce)"
  "triggers sample_watch_env (sample_watch 2 sample_threshold (WEveryNTicks 5))"
  "\<not> triggers sample_watch_env (sample_watch 3 (Poll ''http.get'' JNull None None) WOnce)"
  by (simp_all add: store_wf_def sample_watch_defs watch_due_def sat_sub_def triggers_def sample_watch_env_def)

theorem watch_round_spec_witness:
  "map_of (ww_store (snd (snd (check_watches sample_watch_env 8 sample_watch_world)))) 1 =
     Some (after_check sample_watch_env 8 (sample_watch 1 sample_threshold WOnce))
   \<and> length (fst (check_watches sample_watch_env 8 sample_watch_world)) = 2"
proof -
  have "map snd (ww_store sample_watch_world) = [sample_watch 1 sample_threshold WOnce,
      sample_watch 2 sample_threshold (WEveryNTicks 5), sample_watch 3 (Poll ''http.get'' JNull None None) WOnce]"
    by (simp add: sample_watch_world_def sample_store_def)
  then show ?thesis
    using watch_round_spec [OF sample_watches_ok(1), of sample_watch_env 8 1]
    by (simp add: sample_watches_ok)
qed

theorem once_watch_completes_witness:
  "\<exists>w'. map_of (ww_store (snd (snd (check_watches sample_watch_env 8 sample_watch_world)))) 1 = Some w'
      \<and> wd_status w' = WCompleted \<and> wd_trigger_count w' = 1 \<and> (\<forall>t. \<not> watch_due t w')"
  by (rule once_watch_completes [OF sample_watches_ok(1,2,5) _ sample_watches_ok(8)])
    (simp add: sample_watch_def proposed_watch_def)

end
