(* ===== verification/Tools.thy ===== *)
theory Tools
  imports Virtual_Tools Plans Working_Memory Watches State_Snapshot
begin

text \<open>
  The tools a language model is offered (\<open>exoskeleton-host/src/kernel/tools.rs\<close>): connectors of the host,
  virtual tools, cognitive tools that the kernel processes itself, and introspection queries. Reading a
  typed value from JSON is done by serde_json: the functions of \<open>tool_codec\<close>.
\<close>

section \<open>Names\<close>

definition COGNITIVE_TOOLS :: "string list" where
  "COGNITIVE_TOOLS = [''update_plan'', ''set_working_memory'', ''save_memory_note'', ''propose_watch'',
     ''request_vessel_mode'', ''reply_to_user'']"

definition INTROSPECTION_TOOLS :: "string list" where
  "INTROSPECTION_TOOLS = [''introspect_tick_history'', ''introspect_budget_status'', ''introspect_thread_status'',
     ''introspect_memory_search'', ''introspect_trust_scores'', ''introspect_connector_details'',
     ''introspect_watch_list'', ''introspect_event_history'']"

definition FILTERED_TOOL_NAMES :: "string list" where
  "FILTERED_TOOL_NAMES = [''signal.await'', ''signal.emit'']"

definition is_cognitive_tool :: "string \<Rightarrow> bool" where
  "is_cognitive_tool name = List.member COGNITIVE_TOOLS name"

definition is_introspection_tool :: "string \<Rightarrow> bool" where
  "is_introspection_tool name = List.member INTROSPECTION_TOOLS name"

section \<open>Definitions\<close>

definition update_plan_definition :: tool_definition where
  "update_plan_definition = \<lparr>
     tdf_name = ''update_plan'',
     tdf_description = ''Replace the current plan or patch it with incremental operations.'',
     tdf_input_schema = JObj [
       (''type'', JStr ''object''),
       (''required'', JArr [JStr ''type'']),
       (''properties'', JObj [
           (''type'', JObj [
               (''type'', JStr ''string''),
               (''enum'', JArr [JStr ''replace'', JStr ''patch''])]),
           (''plan'', JObj [
               (''type'', JStr ''object''),
               (''properties'', JObj [
                   (''objective'', JObj [
                       (''type'', JStr ''string'')]),
                   (''tasks'', JObj [
                       (''type'', JStr ''array''),
                       (''items'', JObj [
                           (''type'', JStr ''object''),
                           (''properties'', JObj [
                               (''id'', JObj [
                                   (''type'', JStr ''string'')]),
                               (''description'', JObj [
                                   (''type'', JStr ''string'')]),
                               (''status'', JObj [
                                   (''type'', JStr ''string''),
                                   (''enum'', JArr [JStr ''pending'', JStr ''in_progress'', JStr ''completed'', JStr ''failed'', JStr ''blocked'', JStr ''skipped''])]),
                               (''depends_on'', JObj [
                                   (''type'', JStr ''array''),
                                   (''items'', JObj [
                                       (''type'', JStr ''string'')])]),
                               (''tool_hint'', JObj [
                                   (''type'', JStr ''string'')])])])]),
                   (''updated_at'', JObj [
                       (''type'', JStr ''string''),
                       (''format'', JStr ''date-time'')])])]),
           (''operations'', JObj [
               (''type'', JStr ''array''),
               (''items'', JObj [
                   (''type'', JStr ''object''),
                   (''properties'', JObj [
                       (''op'', JObj [
                           (''type'', JStr ''string''),
                           (''enum'', JArr [JStr ''add_task'', JStr ''update_status'', JStr ''remove_task'', JStr ''update_objective''])]),
                       (''task_id'', JObj [
                           (''type'', JStr ''string'')]),
                       (''task'', JObj [
                           (''type'', JStr ''object'')]),
                       (''new_status'', JObj [
                           (''type'', JStr ''string'')]),
                       (''objective'', JObj [
                           (''type'', JStr ''string'')])])])])])]\<rparr>"

definition set_working_memory_definition :: tool_definition where
  "set_working_memory_definition = \<lparr>
     tdf_name = ''set_working_memory'',
     tdf_description = ''Set or remove entries in working memory that persist across ticks.'',
     tdf_input_schema = JObj [
       (''type'', JStr ''object''),
       (''required'', JArr [JStr ''ops'']),
       (''properties'', JObj [
           (''ops'', JObj [
               (''type'', JStr ''array''),
               (''items'', JObj [
                   (''type'', JStr ''object''),
                   (''required'', JArr [JStr ''op'', JStr ''key'']),
                   (''properties'', JObj [
                       (''op'', JObj [
                           (''type'', JStr ''string''),
                           (''enum'', JArr [JStr ''set'', JStr ''remove''])]),
                       (''key'', JObj [
                           (''type'', JStr ''string'')]),
                       (''value'', JObj [
                           (''type'', JStr ''string'')]),
                       (''ttl_ticks'', JObj [
                           (''type'', JStr ''integer''),
                           (''minimum'', JInt 1)])])])])])]\<rparr>"

definition save_memory_note_definition :: tool_definition where
  "save_memory_note_definition = \<lparr>
     tdf_name = ''save_memory_note'',
     tdf_description = ''Store an episodic memory note describing an observation worth keeping.'',
     tdf_input_schema = JObj [
       (''type'', JStr ''object''),
       (''required'', JArr [JStr ''note'']),
       (''properties'', JObj [
           (''note'', JObj [
               (''type'', JStr ''string'')])])]\<rparr>"

definition propose_watch_definition :: tool_definition where
  "propose_watch_definition = \<lparr>
     tdf_name = ''propose_watch'',
     tdf_description = ''Propose a persistent watch that should be reviewed by Align.'',
     tdf_input_schema = JObj [
       (''type'', JStr ''object''),
       (''required'', JArr [JStr ''name'', JStr ''description'', JStr ''watch_type'', JStr ''schedule'']),
       (''properties'', JObj [
           (''name'', JObj [
               (''type'', JStr ''string'')]),
           (''description'', JObj [
               (''type'', JStr ''string'')]),
           (''watch_type'', JObj [
               (''type'', JStr ''object''),
               (''description'', JStr (''Tagged watch type (field '' @ [CHR 0x22] @ ''type'' @ [CHR 0x22] @ '' selects variant). Threshold example: {'' @ [CHR 0x22] @ ''type'' @ [CHR 0x22] @ '': '' @ [CHR 0x22] @ ''threshold'' @ [CHR 0x22] @ '', '' @ [CHR 0x22] @ ''metric'' @ [CHR 0x22] @ '': {'' @ [CHR 0x22] @ ''metric'' @ [CHR 0x22] @ '': '' @ [CHR 0x22] @ ''budget_remaining'' @ [CHR 0x22] @ '', '' @ [CHR 0x22] @ ''dimension'' @ [CHR 0x22] @ '': '' @ [CHR 0x22] @ ''frontier_tokens'' @ [CHR 0x22] @ ''}, '' @ [CHR 0x22] @ ''condition'' @ [CHR 0x22] @ '': {'' @ [CHR 0x22] @ ''op'' @ [CHR 0x22] @ '': '' @ [CHR 0x22] @ ''below'' @ [CHR 0x22] @ '', '' @ [CHR 0x22] @ ''value'' @ [CHR 0x22] @ '': 100}}. Poll example: {'' @ [CHR 0x22] @ ''type'' @ [CHR 0x22] @ '': '' @ [CHR 0x22] @ ''poll'' @ [CHR 0x22] @ '', '' @ [CHR 0x22] @ ''connector'' @ [CHR 0x22] @ '': '' @ [CHR 0x22] @ ''http.request'' @ [CHR 0x22] @ '', '' @ [CHR 0x22] @ ''params'' @ [CHR 0x22] @ '': {'' @ [CHR 0x22] @ ''url'' @ [CHR 0x22] @ '': '' @ [CHR 0x22] @ ''https://example.com/health'' @ [CHR 0x22] @ ''}, '' @ [CHR 0x22] @ ''extract'' @ [CHR 0x22] @ '': '' @ [CHR 0x22] @ ''status'' @ [CHR 0x22] @ '', '' @ [CHR 0x22] @ ''condition'' @ [CHR 0x22] @ '': {'' @ [CHR 0x22] @ ''op'' @ [CHR 0x22] @ '': '' @ [CHR 0x22] @ ''above'' @ [CHR 0x22] @ '', '' @ [CHR 0x22] @ ''value'' @ [CHR 0x22] @ '': 500}}. Metric variants: trust_level (principal_id), budget_remaining (dimension), consecutive_failures, tick_duration, event_count (event_type, lookback_ticks). Condition ops: above (value), below (value), changed.''))]),
           (''schedule'', JObj [
               (''type'', JStr ''object''),
               (''description'', JStr (''Tagged schedule (field '' @ [CHR 0x22] @ ''type'' @ [CHR 0x22] @ '' selects variant). Examples: {'' @ [CHR 0x22] @ ''type'' @ [CHR 0x22] @ '': '' @ [CHR 0x22] @ ''every_n_ticks'' @ [CHR 0x22] @ '', '' @ [CHR 0x22] @ ''n'' @ [CHR 0x22] @ '': 5} or {'' @ [CHR 0x22] @ ''type'' @ [CHR 0x22] @ '': '' @ [CHR 0x22] @ ''once'' @ [CHR 0x22] @ ''}.''))])])]\<rparr>"

definition request_vessel_mode_definition :: tool_definition where
  "request_vessel_mode_definition = \<lparr>
     tdf_name = ''request_vessel_mode'',
     tdf_description = ''Request a vessel mode transition to planning, executing, or normal.'',
     tdf_input_schema = JObj [
       (''type'', JStr ''object''),
       (''required'', JArr [JStr ''mode'']),
       (''properties'', JObj [
           (''mode'', JObj [
               (''type'', JStr ''string''),
               (''enum'', JArr [JStr ''planning'', JStr ''executing'', JStr ''normal''])])])]\<rparr>"

definition reply_to_user_definition :: tool_definition where
  "reply_to_user_definition = \<lparr>
     tdf_name = ''reply_to_user'',
     tdf_description = ''Send a direct conversational reply to the user.'',
     tdf_input_schema = JObj [
       (''type'', JStr ''object''),
       (''required'', JArr [JStr ''message'']),
       (''properties'', JObj [
           (''message'', JObj [
               (''type'', JStr ''string'')])])]\<rparr>"

definition cognitive_tool_definitions :: "tool_definition list" where
  "cognitive_tool_definitions = [update_plan_definition, set_working_memory_definition, save_memory_note_definition, propose_watch_definition, request_vessel_mode_definition, reply_to_user_definition]"

definition introspect_tick_history_definition :: tool_definition where
  "introspect_tick_history_definition = \<lparr>
     tdf_name = ''introspect_tick_history'',
     tdf_description = ''Query recent ticks with action counts, success rates, and token usage.'',
     tdf_input_schema = JObj [
       (''type'', JStr ''object''),
       (''properties'', JObj [
           (''limit'', JObj [
               (''type'', JStr ''integer''),
               (''default'', JInt 10),
               (''minimum'', JInt 1),
               (''maximum'', JInt 50)])])]\<rparr>"

definition introspect_budget_status_definition :: tool_definition where
  "introspect_budget_status_definition = \<lparr>
     tdf_name = ''introspect_budget_status'',
     tdf_description = ''Query current cognitive budget consumption and remaining allowance.'',
     tdf_input_schema = JObj [
       (''type'', JStr ''object''),
       (''properties'', JObj [])]\<rparr>"

definition introspect_thread_status_definition :: tool_definition where
  "introspect_thread_status_definition = \<lparr>
     tdf_name = ''introspect_thread_status'',
     tdf_description = ''Query registered threads with their statuses and recent outputs.'',
     tdf_input_schema = JObj [
       (''type'', JStr ''object''),
       (''properties'', JObj [])]\<rparr>"

definition introspect_memory_search_definition :: tool_definition where
  "introspect_memory_search_definition = \<lparr>
     tdf_name = ''introspect_memory_search'',
     tdf_description = ''Search episodic memory by topic and optional tags.'',
     tdf_input_schema = JObj [
       (''type'', JStr ''object''),
       (''properties'', JObj [
           (''topic'', JObj [
               (''type'', JStr ''string'')]),
           (''tags'', JObj [
               (''type'', JStr ''array''),
               (''items'', JObj [
                   (''type'', JStr ''string'')])])])]\<rparr>"

definition introspect_trust_scores_definition :: tool_definition where
  "introspect_trust_scores_definition = \<lparr>
     tdf_name = ''introspect_trust_scores'',
     tdf_description = ''Query current trust levels for known principals.'',
     tdf_input_schema = JObj [
       (''type'', JStr ''object''),
       (''properties'', JObj [])]\<rparr>"

definition introspect_connector_details_definition :: tool_definition where
  "introspect_connector_details_definition = \<lparr>
     tdf_name = ''introspect_connector_details'',
     tdf_description = ''Look up the full descriptor for a named connector.'',
     tdf_input_schema = JObj [
       (''type'', JStr ''object''),
       (''required'', JArr [JStr ''name'']),
       (''properties'', JObj [
           (''name'', JObj [
               (''type'', JStr ''string'')])])]\<rparr>"

definition introspect_watch_list_definition :: tool_definition where
  "introspect_watch_list_definition = \<lparr>
     tdf_name = ''introspect_watch_list'',
     tdf_description = ''List all active watches and their current status.'',
     tdf_input_schema = JObj [
       (''type'', JStr ''object''),
       (''properties'', JObj [])]\<rparr>"

definition introspect_event_history_definition :: tool_definition where
  "introspect_event_history_definition = \<lparr>
     tdf_name = ''introspect_event_history'',
     tdf_description = ''Query recent events, optionally filtered by event type.'',
     tdf_input_schema = JObj [
       (''type'', JStr ''object''),
       (''properties'', JObj [
           (''event_type'', JObj [
               (''type'', JStr ''string'')]),
           (''limit'', JObj [
               (''type'', JStr ''integer''),
               (''default'', JInt 20),
               (''minimum'', JInt 1),
               (''maximum'', JInt 50)])])]\<rparr>"

definition introspection_tool_definitions :: "tool_definition list" where
  "introspection_tool_definitions = [introspect_tick_history_definition, introspect_budget_status_definition, introspect_thread_status_definition, introspect_memory_search_definition, introspect_trust_scores_definition, introspect_connector_details_definition, introspect_watch_list_definition, introspect_event_history_definition]"

section \<open>The list of tools\<close>

text \<open>The capabilities of the host: none while its slot is locked or empty.\<close>

definition connector_tool_definitions :: "tool_descriptor list option \<Rightarrow> tool_definition list" where
  "connector_tool_definitions capabilities =
     map (\<lambda>d. \<lparr>tdf_name = td_name d, tdf_description = td_description d,
            tdf_input_schema = (case td_input_schema d of Some v \<Rightarrow> v
              | None \<Rightarrow> JObj [(''type'', JStr ''object''), (''properties'', JObj [])])\<rparr>)
       (filter (\<lambda>d. \<not> List.member FILTERED_TOOL_NAMES (td_name d))
         (case capabilities of Some ds \<Rightarrow> ds | None \<Rightarrow> []))"

definition build_decide_tools :: "tool_descriptor list option \<Rightarrow> string option \<Rightarrow> tool_definition list" where
  "build_decide_tools capabilities observatory_url =
     connector_tool_definitions capabilities
     @ filter (\<lambda>t. tdf_name t \<noteq> PEER_RESOLVE \<or> observatory_url \<noteq> None) virtual_tool_definitions
     @ cognitive_tool_definitions @ introspection_tool_definitions"

definition build_coding_thread_tools :: "tool_descriptor list option \<Rightarrow> tool_definition list" where
  "build_coding_thread_tools capabilities = connector_tool_definitions capabilities @ cognitive_tool_definitions"

section \<open>Cognitive tools\<close>

record tool_codec =
  tc_plan_update :: "json \<Rightarrow> string + plan_update"
  tc_wm_ops :: "json \<Rightarrow> string + wm_op list"
  tc_watch_proposal :: "json \<Rightarrow> string + watch_proposal"
  tc_vessel_mode :: "json \<Rightarrow> string + vessel_mode"
  tc_strings :: "json \<Rightarrow> string list option"

record cognitive_tool_result =
  cr_plan_update :: "plan_update option"
  cr_working_memory_ops :: "wm_op list"
  cr_memory_note :: "string option"
  cr_watch_proposal :: "watch_proposal option"
  cr_vessel_mode_request :: "vessel_mode option"
  cr_reply :: "string option"

definition cognitive_tool_default :: cognitive_tool_result where
  "cognitive_tool_default = \<lparr>cr_plan_update = None, cr_working_memory_ops = [], cr_memory_note = None,
     cr_watch_proposal = None, cr_vessel_mode_request = None, cr_reply = None\<rparr>"

definition required_str :: "string \<Rightarrow> string \<Rightarrow> json \<Rightarrow> string exo_result" where
  "required_str tool k input = (case json_get_str input k of
     Some s \<Rightarrow> Inr s
   | None \<Rightarrow> Inl (Engine (tool @ '' requires string field '' @ [CHR 0x27] @ k @ [CHR 0x27])))"

definition process_cognitive_tool :: "tool_codec \<Rightarrow> string \<Rightarrow> json \<Rightarrow> cognitive_tool_result exo_result" where
  "process_cognitive_tool c name input =
     (if name = ''update_plan'' then
        (case tc_plan_update c input of
           Inl e \<Rightarrow> Inl (Engine (''update_plan invalid input: '' @ e))
         | Inr u \<Rightarrow> Inr (cognitive_tool_default\<lparr>cr_plan_update := Some u\<rparr>))
      else if name = ''set_working_memory'' then
        (case json_get input ''ops'' of
           None \<Rightarrow> Inl (Engine (''set_working_memory requires field '' @ [CHR 0x27] @ ''ops'' @ [CHR 0x27]))
         | Some v \<Rightarrow> (case tc_wm_ops c v of
             Inl e \<Rightarrow> Inl (Engine (''set_working_memory invalid ops: '' @ e))
           | Inr ops \<Rightarrow> Inr (cognitive_tool_default\<lparr>cr_working_memory_ops := ops\<rparr>)))
      else if name = ''save_memory_note'' then
        (case required_str ''save_memory_note'' ''note'' input of
           Inl e \<Rightarrow> Inl e | Inr s \<Rightarrow> Inr (cognitive_tool_default\<lparr>cr_memory_note := Some s\<rparr>))
      else if name = ''propose_watch'' then
        (case tc_watch_proposal c input of
           Inl e \<Rightarrow> Inl (Engine (''propose_watch invalid watch proposal: '' @ e))
         | Inr p \<Rightarrow> Inr (cognitive_tool_default\<lparr>cr_watch_proposal := Some p\<rparr>))
      else if name = ''request_vessel_mode'' then
        (case json_get input ''mode'' of
           None \<Rightarrow> Inl (Engine (''request_vessel_mode requires field '' @ [CHR 0x27] @ ''mode'' @ [CHR 0x27]))
         | Some v \<Rightarrow> (case tc_vessel_mode c v of
             Inl e \<Rightarrow> Inl (Engine (''request_vessel_mode invalid mode: '' @ e))
           | Inr m \<Rightarrow> Inr (cognitive_tool_default\<lparr>cr_vessel_mode_request := Some m\<rparr>)))
      else if name = ''reply_to_user'' then
        (case required_str ''reply_to_user'' ''message'' input of
           Inl e \<Rightarrow> Inl e | Inr s \<Rightarrow> Inr (cognitive_tool_default\<lparr>cr_reply := Some s\<rparr>))
      else Inl (Engine (''unknown cognitive tool: '' @ name)))"

record cognitive_accumulator =
  ac_reasoning_parts :: "string list"
  ac_reply :: "string option"
  ac_actions :: "planned_action list"
  ac_plan_update :: "plan_update option"
  ac_wm_ops :: "wm_op list option"
  ac_memory_notes :: "string list"
  ac_watch_proposals :: "watch_proposal list"
  ac_vessel_mode_request :: "vessel_mode option"

definition accumulator_default :: cognitive_accumulator where
  "accumulator_default = \<lparr>ac_reasoning_parts = [], ac_reply = None, ac_actions = [], ac_plan_update = None,
     ac_wm_ops = None, ac_memory_notes = [], ac_watch_proposals = [], ac_vessel_mode_request = None\<rparr>"

definition or_else :: "'x option \<Rightarrow> 'x option \<Rightarrow> 'x option" where
  "or_else a b = (case a of Some x \<Rightarrow> Some x | None \<Rightarrow> b)"

definition accumulate_cognitive_outcome ::
  "cognitive_tool_result \<Rightarrow> cognitive_accumulator \<Rightarrow> cognitive_accumulator" where
  "accumulate_cognitive_outcome r ac = ac\<lparr>
     ac_plan_update := or_else (cr_plan_update r) (ac_plan_update ac),
     ac_wm_ops := (if cr_working_memory_ops r = [] then ac_wm_ops ac
       else Some ((case ac_wm_ops ac of Some ops \<Rightarrow> ops | None \<Rightarrow> []) @ cr_working_memory_ops r)),
     ac_memory_notes := ac_memory_notes ac @ (case cr_memory_note r of Some n \<Rightarrow> [n] | None \<Rightarrow> []),
     ac_watch_proposals := ac_watch_proposals ac @ (case cr_watch_proposal r of Some p \<Rightarrow> [p] | None \<Rightarrow> []),
     ac_vessel_mode_request := or_else (cr_vessel_mode_request r) (ac_vessel_mode_request ac),
     ac_reply := or_else (cr_reply r) (ac_reply ac)\<rparr>"

section \<open>Introspection queries\<close>

datatype introspection_query =
    TickHistory u32
  | TickDetail string
  | EventHistory "string option" u32
  | TrustScores
  | TrustHistory string u32
  | BudgetStatusQuery
  | ThreadStatusQuery
  | MemorySearch "string option" "string list option"
  | ConnectorDetails string
  | WatchList

definition MAX_INTROSPECTION_LIMIT :: u32 where
  "MAX_INTROSPECTION_LIMIT = 100"

text \<open>\<open>as u32\<close> keeps the low bits.\<close>

definition limit_of :: "json \<Rightarrow> u64 \<Rightarrow> u32" where
  "limit_of input d = ucast (case Option.bind (json_get input ''limit'') json_as_u64 of Some n \<Rightarrow> n | None \<Rightarrow> d)"

definition introspection_tool_to_query :: "tool_codec \<Rightarrow> string \<Rightarrow> json \<Rightarrow> introspection_query exo_result" where
  "introspection_tool_to_query c name input =
     (if name = ''introspect_tick_history'' then Inr (TickHistory (limit_of input 10))
      else if name = ''introspect_budget_status'' then Inr BudgetStatusQuery
      else if name = ''introspect_thread_status'' then Inr ThreadStatusQuery
      else if name = ''introspect_memory_search'' then
        Inr (MemorySearch (json_get_str input ''topic'') (Option.bind (json_get input ''tags'') (tc_strings c)))
      else if name = ''introspect_trust_scores'' then Inr TrustScores
      else if name = ''introspect_connector_details'' then
        (case json_get_str input ''name'' of
           Some n \<Rightarrow> Inr (ConnectorDetails n)
         | None \<Rightarrow> Inl (Engine (''introspect_connector_details requires string field '' @ [CHR 0x27] @ ''name'' @ [CHR 0x27])))
      else if name = ''introspect_watch_list'' then Inr WatchList
      else if name = ''introspect_event_history'' then
        Inr (EventHistory (json_get_str input ''event_type'') (limit_of input 20))
      else Inl (Engine (''unknown introspection tool: '' @ name)))"

section \<open>Every tool has one owner\<close>

lemma inline_tools_disjoint: "is_cognitive_tool n \<Longrightarrow> \<not> is_introspection_tool n \<and> \<not> is_virtual_tool n"
  by (auto simp: is_cognitive_tool_def is_introspection_tool_def is_virtual_tool_def COGNITIVE_TOOLS_def
      INTROSPECTION_TOOLS_def AGENT_ASK_USER_def PEER_RESOLVE_def)

lemma introspection_tools_known: "is_introspection_tool n \<Longrightarrow> introspection_tool_to_query c n input
    \<noteq> Inl (Engine (''unknown introspection tool: '' @ n))"
  by (auto simp: is_introspection_tool_def INTROSPECTION_TOOLS_def introspection_tool_to_query_def split: option.splits)

end
