(* ===== verification/Introspection.thy ===== *)
theory Introspection
  imports Tools Memory_Store Budget Relationship Threads Prompts
begin

text \<open>
  The read-only queries over the stores of the vessel (\<open>exoskeleton-host/src/introspection.rs\<close>), which the
  Decide step answers inline, and the metrics that threshold watches read. The stores at the time of
  the query are the record \<open>stores_view\<close>; serde_json, chrono and Unicode lower-casing are the functions of
  \<open>intro_env\<close>.
\<close>

section \<open>Surroundings\<close>

record intro_env =
  ie_chrono :: chrono_ops
  ie_exp :: "f64 \<Rightarrow> f64"
  ie_millis_between :: "datetime \<Rightarrow> datetime \<Rightarrow> int"
  ie_show_uuid :: "uuid \<Rightarrow> string"
  ie_parse_uuid :: "string \<Rightarrow> uuid option"
  ie_rfc3339 :: "datetime \<Rightarrow> string"
  ie_lower :: "string \<Rightarrow> string"
  ie_tick_codec :: "tick_record codec"
  ie_tick_json :: "tick_record \<Rightarrow> string + json"
  ie_event_type_json :: "event_type \<Rightarrow> json"
  ie_parse_event_type :: "string \<Rightarrow> event_type option"
  ie_signal_type_json :: "relational_signal_type \<Rightarrow> json"
  ie_metadata_json :: "(string \<times> string) list \<Rightarrow> json"
  ie_budget_json :: "budget_status \<Rightarrow> string + json"
  ie_summaries_json :: "thread_summary list \<Rightarrow> string + json"
  ie_note_json :: "long_term_note \<Rightarrow> json"
  ie_descriptor_json :: "tool_descriptor \<Rightarrow> string + json"
  ie_watch_type_json :: "watch_type \<Rightarrow> json"
  ie_schedule_json :: "watch_schedule \<Rightarrow> json"
  ie_watch_status_json :: "watch_status \<Rightarrow> json"

record ('l, 't) stores_view =
  sv_ticks :: "tick_row sql_db"
  sv_events :: "event_entry sql_db"
  sv_ledger :: 'l
  sv_distinct_principals :: "'l \<Rightarrow> uuid list exo_result"
  sv_for_principal :: "'l \<Rightarrow> uuid \<Rightarrow> nat \<Rightarrow> relationship_record list exo_result"
  sv_decay :: "trust_decay_config option"
  sv_now :: datetime
  sv_compiled_at :: datetime
  sv_tracker :: "tracker option"
  sv_tracker_free :: bool \<comment> \<open>\<open>try_lock\<close> succeeds\<close>
  sv_threads :: 't
  sv_thread_ops :: "'t thread_ops"
  sv_memory :: memory_db
  sv_host :: "(string \<Rightarrow> tool_descriptor option) option option" \<comment> \<open>locked slot, empty slot, host\<close>
  sv_watches :: "watch_definition list exo_result"

definition capped :: "u32 \<Rightarrow> nat" where
  "capped limit = unat (min limit MAX_INTROSPECTION_LIMIT)"

definition json_f64 :: "f64 \<Rightarrow> json" where
  "json_f64 x = (case x of Fin _ \<Rightarrow> JFloat x | _ \<Rightarrow> JNull)"

definition json_opt :: "('x \<Rightarrow> json) \<Rightarrow> 'x option \<Rightarrow> json" where
  "json_opt f x = (case x of Some v \<Rightarrow> f v | None \<Rightarrow> JNull)"

definition serde :: "string + 'x \<Rightarrow> 'x exo_result" where
  "serde r = (case r of Inl e \<Rightarrow> Inl (Serde e) | Inr x \<Rightarrow> Inr x)"

section \<open>Queries\<close>

definition tick_summary_json :: "intro_env \<Rightarrow> tick_record \<Rightarrow> json" where
  "tick_summary_json env t = JObj [
     (''tick_number'', JInt (uint (tr_tick_number t))),
     (''started_at'', JStr (ie_rfc3339 env (tr_started_at t))),
     (''actions_taken'', JInt (int (length (tr_actions_taken t)))),
     (''actions_succeeded'', JInt (int (length (filter (\<lambda>a. ar_outcome a = Success) (tr_actions_taken t))))),
     (''llm_calls'', JInt (int (length (tr_llm_calls t)))),
     (''total_tokens'', JInt (uint (foldl (+) 0 (map (\<lambda>c. lc_tokens_in c + lc_tokens_out c) (tr_llm_calls t)))))]"

definition tick_history :: "intro_env \<Rightarrow> ('l, 't) stores_view \<Rightarrow> u32 \<Rightarrow> json exo_result" where
  "tick_history env v limit0 =
     (let limit = capped limit0 in
      case tick_latest (ie_tick_codec env) (sv_ticks v) of
        Inl e \<Rightarrow> Inl e
      | Inr None \<Rightarrow> Inr (JArr [])
      | Inr (Some latest) \<Rightarrow>
          (case tick_range (ie_tick_codec env) (sv_ticks v)
              (sat_sub (tr_tick_number latest) (of_nat limit)) (tr_tick_number latest) of
             Inl e \<Rightarrow> Inl e
           | Inr ticks \<Rightarrow> Inr (JArr (map (tick_summary_json env) (take limit (rev ticks))))))"

definition tick_detail :: "intro_env \<Rightarrow> ('l, 't) stores_view \<Rightarrow> string \<Rightarrow> json exo_result" where
  "tick_detail env v tick_id = (case ie_parse_uuid env tick_id of
     None \<Rightarrow> Inl (Config ''invalid tick_id'')
   | Some i \<Rightarrow> (case tick_get (ie_tick_codec env) (sv_ticks v) i of
       Inl e \<Rightarrow> Inl e
     | Inr (Some t) \<Rightarrow> serde (ie_tick_json env t)
     | Inr None \<Rightarrow> Inr (JObj [(''error'', JStr ''tick not found'')])))"

definition event_json :: "intro_env \<Rightarrow> event_entry \<Rightarrow> json" where
  "event_json env e = JObj [
     (''id'', JStr (ie_show_uuid env (ev_id e))),
     (''event_type'', ie_event_type_json env (ev_event_type e)),
     (''summary'', JStr (ev_summary e)),
     (''timestamp'', JStr (ie_rfc3339 env (ev_timestamp e))),
     (''tick_id'', json_opt (\<lambda>i. JStr (ie_show_uuid env i)) (ev_tick_id e)),
     (''payload_ref'', json_opt JStr (ev_payload_ref e))]"

definition event_history :: "intro_env \<Rightarrow> ('l, 't) stores_view \<Rightarrow> string option \<Rightarrow> u32 \<Rightarrow> json exo_result" where
  "event_history env v ty limit0 =
     (let limit = capped limit0;
          events = (case ty of
            Some s \<Rightarrow> (case ie_parse_event_type env s of
                None \<Rightarrow> Inl (Config (''unknown event type: '' @ s))
              | Some et \<Rightarrow> event_by_type (sv_events v) et limit)
          | None \<Rightarrow> event_recent (sv_events v) limit)
      in case events of Inl e \<Rightarrow> Inl e | Inr es \<Rightarrow> Inr (JArr (map (event_json env) es)))"

definition current_trust :: "intro_env \<Rightarrow> ('l, 't) stores_view \<Rightarrow> relationship_snapshot exo_result" where
  "current_trust env v = compile_relationship_snapshot (ie_chrono env) (ie_exp env) (ie_show_uuid env)
     (sv_distinct_principals v) (sv_for_principal v) (sv_ledger v) (sv_decay v) (sv_now v) (sv_compiled_at v)"

definition trust_scores :: "intro_env \<Rightarrow> ('l, 't) stores_view \<Rightarrow> json exo_result" where
  "trust_scores env v = (case current_trust env v of
     Inl e \<Rightarrow> Inl e
   | Inr snap \<Rightarrow> Inr (JArr (map (\<lambda>p. JObj [
       (''principal_id'', JStr (ie_show_uuid env (sm_principal_id p))),
       (''display_name'', JStr (sm_display_name p)),
       (''role'', JStr (sm_role p)),
       (''trust_level'', json_f64 (sm_trust_level p)),
       (''active_commitments'', JInt (uint (sm_active_commitments p)))]) (rs_principals snap))))"

definition trust_history :: "intro_env \<Rightarrow> ('l, 't) stores_view \<Rightarrow> string \<Rightarrow> u32 \<Rightarrow> json exo_result" where
  "trust_history env v principal_id limit0 = (case ie_parse_uuid env principal_id of
     None \<Rightarrow> Inl (Config ''invalid principal_id'')
   | Some p \<Rightarrow> (case sv_for_principal v (sv_ledger v) p (capped limit0) of
       Inl e \<Rightarrow> Inl e
     | Inr rs \<Rightarrow> Inr (JArr (map (\<lambda>r. JObj [
         (''signal_type'', ie_signal_type_json env (rr_signal_type r)),
         (''timestamp'', JStr (ie_rfc3339 env (rr_timestamp r))),
         (''metadata'', ie_metadata_json env (rr_metadata r))]) rs))))"

definition query_budget_status :: "intro_env \<Rightarrow> ('l, 't) stores_view \<Rightarrow> json exo_result" where
  "query_budget_status env v = (case sv_tracker v of
     Some t \<Rightarrow> if sv_tracker_free v then serde (ie_budget_json env (budget_status (ie_chrono env) (sv_now v) (- 1) t))
       else Inr (JObj [(''error'', JStr ''budget tracker locked'')])
   | None \<Rightarrow> Inr (JObj [(''message'', JStr ''no budget configured'')]))"

definition query_thread_status :: "intro_env \<Rightarrow> ('l, 't) stores_view \<Rightarrow> json exo_result" where
  "query_thread_status env v = (case thread_summaries (sv_thread_ops v) (sv_threads v) of
     Inl e \<Rightarrow> Inl e | Inr ss \<Rightarrow> serde (ie_summaries_json env ss))"

definition contains_str :: "string \<Rightarrow> string \<Rightarrow> bool" where
  "contains_str pat s \<longleftrightarrow> find_str pat s \<noteq> None"

definition memory_search ::
  "intro_env \<Rightarrow> ('l, 't) stores_view \<Rightarrow> string option \<Rightarrow> string list option \<Rightarrow> json exo_result" where
  "memory_search env v topic tags = (case all_long_term (sv_memory v) (unat MAX_INTROSPECTION_LIMIT) of
     Inl e \<Rightarrow> Inl e
   | Inr notes \<Rightarrow> Inr (JArr (map (ie_note_json env) (filter (\<lambda>n.
       (case topic of None \<Rightarrow> True
        | Some t \<Rightarrow> contains_str (ie_lower env t) (ie_lower env (lt_topic n))
            \<or> contains_str (ie_lower env t) (ie_lower env (lt_content n)))
       \<and> (case tags of None \<Rightarrow> True | Some ts \<Rightarrow> list_ex (\<lambda>t. List.member (lt_tags n) t) ts)) notes))))"

definition connector_details :: "intro_env \<Rightarrow> ('l, 't) stores_view \<Rightarrow> string \<Rightarrow> json exo_result" where
  "connector_details env v name = (case sv_host v of
     None \<Rightarrow> Inl (Engine ''WI host slot locked'')
   | Some None \<Rightarrow> Inr (JObj [(''error'', JStr ''WI host not ready'')])
   | Some (Some describe) \<Rightarrow> (case describe name of
       Some d \<Rightarrow> serde (ie_descriptor_json env d)
     | None \<Rightarrow> Inr (JObj [(''error'', JStr ''connector not found'')])))"

definition watch_list :: "intro_env \<Rightarrow> ('l, 't) stores_view \<Rightarrow> json exo_result" where
  "watch_list env v = (case sv_watches v of
     Inl e \<Rightarrow> Inl e
   | Inr ws \<Rightarrow> Inr (JArr (map (\<lambda>w. JObj [
       (''id'', JStr (ie_show_uuid env (wd_id w))),
       (''name'', JStr (wd_name w)),
       (''description'', JStr (wd_description w)),
       (''watch_type'', ie_watch_type_json env (wd_watch_type w)),
       (''schedule'', ie_schedule_json env (wd_schedule w)),
       (''status'', ie_watch_status_json env (wd_status w)),
       (''trigger_count'', JInt (uint (wd_trigger_count w))),
       (''last_checked_tick'', json_opt (\<lambda>n. JInt (uint n)) (wd_last_checked_tick w))]) ws)))"

fun introspect :: "intro_env \<Rightarrow> ('l, 't) stores_view \<Rightarrow> introspection_query \<Rightarrow> json exo_result" where
  "introspect env v (TickHistory limit) = tick_history env v limit"
| "introspect env v (TickDetail tick_id) = tick_detail env v tick_id"
| "introspect env v (EventHistory ty limit) = event_history env v ty limit"
| "introspect env v TrustScores = trust_scores env v"
| "introspect env v (TrustHistory p limit) = trust_history env v p limit"
| "introspect env v BudgetStatusQuery = query_budget_status env v"
| "introspect env v ThreadStatusQuery = query_thread_status env v"
| "introspect env v (MemorySearch topic tags) = memory_search env v topic tags"
| "introspect env v (ConnectorDetails name) = connector_details env v name"
| "introspect env v WatchList = watch_list env v"

section \<open>Metrics\<close>

definition all_failed :: "tick_record \<Rightarrow> bool" where
  "all_failed t \<longleftrightarrow> tr_actions_taken t \<noteq> [] \<and> list_all (\<lambda>a. ar_outcome a \<noteq> Success) (tr_actions_taken t)"

definition budget_metric :: "string \<Rightarrow> budget_status \<Rightarrow> f64" where
  "budget_metric dimension s =
     (if dimension = ''local_tokens'' then f64_of_int (uint (bs_local_tokens_remaining s))
      else if dimension = ''frontier_tokens'' then f64_of_int (uint (bs_frontier_tokens_remaining s))
      else if dimension = ''frontier_cost_cents'' then f64_of_int (uint (bs_frontier_cost_cents_remaining s))
      else if dimension = ''time_secs'' then f64_of_int (uint (bs_time_secs_remaining s))
      else if dimension = ''tool_invocations'' then f64_of_int (uint (bs_tool_invocations_remaining s))
      else Fin 0)"

fun query_metric :: "intro_env \<Rightarrow> ('l, 't) stores_view \<Rightarrow> metric_kind \<Rightarrow> f64 exo_result" where
  "query_metric env v (TrustLevel p) = (case current_trust env v of
     Inl e \<Rightarrow> Inl e
   | Inr snap \<Rightarrow> Inr (case List.find (\<lambda>s. sm_principal_id s = p) (rs_principals snap) of
       Some s \<Rightarrow> sm_trust_level s | None \<Rightarrow> lit_neutral))"
| "query_metric env v (BudgetRemaining dimension) = Inr (case sv_tracker v of
     Some t \<Rightarrow> if sv_tracker_free v then budget_metric dimension (budget_status (ie_chrono env) (sv_now v) (- 1) t) else NaN
   | None \<Rightarrow> PInf)"
| "query_metric env v ConsecutiveFailures = (case tick_latest (ie_tick_codec env) (sv_ticks v) of
     Inl e \<Rightarrow> Inl e
   | Inr latest \<Rightarrow>
       (let last_tick = (case latest of Some t \<Rightarrow> tr_tick_number t | None \<Rightarrow> 0) in
        case tick_range (ie_tick_codec env) (sv_ticks v) (sat_sub last_tick 50) last_tick of
          Inl e \<Rightarrow> Inl e
        | Inr ticks \<Rightarrow> Inr (f64_of_int (int (length (takeWhile all_failed (rev ticks)))))))"
| "query_metric env v TickDuration = (case tick_latest (ie_tick_codec env) (sv_ticks v) of
     Inl e \<Rightarrow> Inl e
   | Inr None \<Rightarrow> Inr (Fin 0)
   | Inr (Some t) \<Rightarrow> Inr (case tr_completed_at t of
       Some c \<Rightarrow> f64_of_int (ie_millis_between env c (tr_started_at t)) | None \<Rightarrow> Fin 0))"
| "query_metric env v (EventCount ty lookback_ticks) = (case ie_parse_event_type env ty of
     None \<Rightarrow> Inl (Config (''unknown event type: '' @ ty))
   | Some et \<Rightarrow> (case event_by_type (sv_events v) et (unat lookback_ticks * 10) of
       Inl e \<Rightarrow> Inl e | Inr es \<Rightarrow> Inr (f64_of_int (int (length es)))))"

section \<open>Laws\<close>

lemma capped_bound: "capped limit \<le> 100"
proof -
  have "min limit MAX_INTROSPECTION_LIMIT \<le> 100" by (simp add: MAX_INTROSPECTION_LIMIT_def)
  then have "unat (min limit MAX_INTROSPECTION_LIMIT) \<le> unat (100 :: u32)" by (simp only: word_le_nat_alt)
  then show ?thesis by (simp add: capped_def)
qed

lemma event_lists_bounded:
  "event_by_type db ty n = Inr es \<Longrightarrow> length es \<le> n" "event_recent db n = Inr es \<Longrightarrow> length es \<le> n"
  by (auto simp: event_by_type_def event_recent_def with_db_def locked_def split: if_splits option.splits)

text \<open>The answers to the queries with a limit have at most a hundred entries, whatever the limit asked for.\<close>

lemma introspection_bounded:
  assumes "introspect env v q = Inr (JArr xs)"
    "q \<in> {TickHistory n, EventHistory ty n, MemorySearch topic tags}"
  shows "length xs \<le> 100"
  using assms(2)
proof (elim insertE emptyE)
  assume "q = TickHistory n"
  then show ?thesis using assms(1) capped_bound [of n]
    by (auto simp: tick_history_def Let_def split: sum.splits option.splits)
next
  assume "q = EventHistory ty n"
  then show ?thesis using assms(1) capped_bound [of n]
    by (auto simp: event_history_def Let_def split: sum.splits option.splits dest!: event_lists_bounded)
next
  assume "q = MemorySearch topic tags"
  moreover have "length ns \<le> 100" if "all_long_term (sv_memory v) (unat MAX_INTROSPECTION_LIMIT) = Inr ns" for ns
    using that by (auto simp: all_long_term_def with_memory_def locked_def MAX_INTROSPECTION_LIMIT_def
        split: if_splits option.splits)
  ultimately show ?thesis using assms(1)
    by (auto simp: memory_search_def split: sum.splits intro: order_trans [OF length_filter_le])
qed

text \<open>
  The metric documented as the number of events in the last ticks counts events of any tick: it
  is the number of all events of the type, cut off at ten per tick of lookback.
\<close>

lemma event_count_ignores_ticks:
  assumes "db_ok (sv_events v)" "ie_parse_event_type env ty = Some et"
  shows "query_metric env v (EventCount ty n) =
    Inr (f64_of_int (int (min (unat n * 10) (length (filter (\<lambda>e. ev_event_type e = et) (db_rows (sv_events v)))))))"
proof -
  have "length (order_desc (sv_events v) ev_timestamp rs) = length rs" for rs
    using assms(1) by (metis db_ok_def db_wf_def length_sort_desc mset_eq_length order_desc_def)
  then show ?thesis using assms by (simp add: event_by_type_def with_db_ok min.commute)
qed

text \<open>Library functions and empty stores for concrete runs.\<close>

definition plain_intro :: intro_env where
  "plain_intro = \<lparr>ie_chrono = nanos_chrono, ie_exp = id, ie_millis_between = (\<lambda>a b. a - b),
     ie_show_uuid = (\<lambda>i. show_nat (unat i)), ie_parse_uuid = (\<lambda>_. None), ie_rfc3339 = (\<lambda>_. ''now''), ie_lower = id,
     ie_tick_codec = \<lparr>enc = (\<lambda>_. Inl ''none''), dec = (\<lambda>_. Inl ''none'')\<rparr>, ie_tick_json = (\<lambda>_. Inr JNull),
     ie_event_type_json = (\<lambda>_. JNull), ie_parse_event_type = (\<lambda>_. None), ie_signal_type_json = (\<lambda>_. JNull),
     ie_metadata_json = (\<lambda>_. JNull), ie_budget_json = (\<lambda>_. Inr JNull), ie_summaries_json = (\<lambda>_. Inr JNull),
     ie_note_json = (\<lambda>_. JNull), ie_descriptor_json = (\<lambda>_. Inr JNull), ie_watch_type_json = (\<lambda>_. JNull),
     ie_schedule_json = (\<lambda>_. JNull), ie_watch_status_json = (\<lambda>_. JNull)\<rparr>"

definition empty_view :: "(mem_ledger, mem_threads) stores_view" where
  "empty_view = \<lparr>sv_ticks = open_db, sv_events = open_db, sv_ledger = ledger_new,
     sv_distinct_principals = ledger_distinct_principals, sv_for_principal = ledger_for_principal, sv_decay = None,
     sv_now = 0, sv_compiled_at = 0, sv_tracker = None, sv_tracker_free = True, sv_threads = mem_threads_new,
     sv_thread_ops = mem_thread_ops, sv_memory = open_memory, sv_host = Some None, sv_watches = Inr []\<rparr>"

end
