(* ===== verification/Llm_Call.thy ===== *)
theory Llm_Call
  imports Llm_Types Budget
begin

text \<open>
  The one path from the kernel to a language model (\<open>exoskeleton-host/src/llm/direct.rs\<close>,
  \<open>handler_direct_llm_call\<close>): choose a backend, call it, charge the budget tracker, store the response as
  an artifact and describe the call. The backends are trait objects over HTTP services: functions of
  the running number of the call and the request. Streaming deltas and metrics are left out.
\<close>

section \<open>The call\<close>

type_synonym backend_fn = "nat \<Rightarrow> llm_request \<Rightarrow> llm_response exo_result"

record llm_handler =
  lh_default_backend :: llm_backend
  lh_local :: "backend_fn option"
  lh_frontier :: "backend_fn option"
  lh_latency_ms :: "nat \<Rightarrow> u64" \<comment> \<open>the measured duration of the call\<close>
  lh_created :: "nat \<Rightarrow> datetime" \<comment> \<open>the time stamped on its artifact\<close>
  lh_encode :: "llm_response \<Rightarrow> string + string" \<comment> \<open>serde_json on the response\<close>
  lh_tracker_poisoned :: bool

text \<open>What a call may change: the tracker, the artifact store, and the number of calls made.\<close>

record 'a llm_world =
  lw_tracker :: "tracker option"
  lw_artifacts :: 'a
  lw_calls :: nat

record direct_llm_result =
  dl_response :: llm_response
  dl_artifact_id :: artifact_id
  dl_record :: llm_call_record

definition backend_of :: "llm_handler \<Rightarrow> llm_backend \<Rightarrow> backend_fn option" where
  "backend_of h b = (case b of Local \<Rightarrow> lh_local h | Frontier \<Rightarrow> lh_frontier h)"

definition other_backend :: "llm_backend \<Rightarrow> llm_backend" where
  "other_backend b = (case b of Local \<Rightarrow> Frontier | Frontier \<Rightarrow> Local)"

definition resolve_handler_backend :: "llm_handler \<Rightarrow> llm_request \<Rightarrow> (backend_fn \<times> llm_backend) exo_result" where
  "resolve_handler_backend h request =
     (let preferred = (case lr_backend request of Some b \<Rightarrow> b | None \<Rightarrow> lh_default_backend h) in
      case backend_of h preferred of
        Some f \<Rightarrow> Inr (f, preferred)
      | None \<Rightarrow> (case backend_of h (other_backend preferred) of
          Some f \<Rightarrow> Inr (f, other_backend preferred)
        | None \<Rightarrow> Inl (LlmInvocation ''no LLM backend configured'')))"

definition cost_of :: "llm_response \<Rightarrow> f64" where
  "cost_of r = (case rp_cost_estimate_cents r of Some c \<Rightarrow> c | None \<Rightarrow> Fin 0)"

definition charge :: "llm_handler \<Rightarrow> llm_backend \<Rightarrow> llm_response \<Rightarrow> tracker option \<Rightarrow> tracker option" where
  "charge h b r t = (if lh_tracker_poisoned h then t
     else map_option (record_llm_call b (rp_tokens_in r) (rp_tokens_out r) (cost_of r)) t)"

definition handler_direct_llm_call ::
  "llm_handler \<Rightarrow> 'a artifact_ops \<Rightarrow> llm_request \<Rightarrow> 'a llm_world \<Rightarrow> direct_llm_result exo_result \<times> 'a llm_world" where
  "handler_direct_llm_call h ops request w = (case resolve_handler_backend h request of
     Inl e \<Rightarrow> (Inl e, w)
   | Inr (f, b) \<Rightarrow>
       (let n = lw_calls w; w1 = w\<lparr>lw_calls := Suc n\<rparr> in
        case f n request of
          Inl e \<Rightarrow> (Inl e, w1)
        | Inr resp \<Rightarrow>
            (let r = resp\<lparr>rp_latency_ms := lh_latency_ms h n\<rparr>;
                 w2 = w1\<lparr>lw_tracker := charge h b r (lw_tracker w1)\<rparr> in
             case lh_encode h r of
               Inl e \<Rightarrow> (Inl (Serde e), w2)
             | Inr tx \<Rightarrow>
                 (case ao_put ops (artifact_new (ao_sha256_hex ops) (lh_created h n) AkLlmResponse tx ''application/json'')
                      (lw_artifacts w2) of
                    (Inl e, arts) \<Rightarrow> (Inl e, w2\<lparr>lw_artifacts := arts\<rparr>)
                  | (Inr i, arts) \<Rightarrow>
                      (Inr \<lparr>dl_response = r, dl_artifact_id = i, dl_record = \<lparr>
                         lc_model = rp_model r, lc_tokens_in = rp_tokens_in r, lc_tokens_out = rp_tokens_out r,
                         lc_cost_cents = cost_of r, lc_latency_ms = lh_latency_ms h n,
                         lc_response_artifact_ref = Some i, lc_turns = 1\<rparr>\<rparr>, w2\<lparr>lw_artifacts := arts\<rparr>)))))"

section \<open>Laws\<close>

lemma call_counts_one:
  assumes "handler_direct_llm_call h ops request w = (r, w')"
  shows "lw_calls w' \<le> Suc (lw_calls w)" "r = Inr x \<Longrightarrow> lw_calls w' = Suc (lw_calls w)"
  using assms by (auto simp: handler_direct_llm_call_def Let_def split: sum.splits prod.splits)

text \<open>Every response that came back is charged to the backend that produced it, also when storing it fails.\<close>

lemma call_is_charged:
  assumes "resolve_handler_backend h request = Inr (f, b)" "f (lw_calls w) request = Inr resp"
    "\<not> lh_tracker_poisoned h" "lw_tracker w = Some t" "handler_direct_llm_call h ops request w = (r, w')"
  shows "lw_tracker w' = Some (record_llm_call b (rp_tokens_in resp) (rp_tokens_out resp) (cost_of resp) t)"
  using assms
  by (auto simp: handler_direct_llm_call_def Let_def charge_def cost_of_def split: sum.splits prod.splits)

text \<open>A request for the local model is served by the frontier model when no local one is configured.\<close>

lemma local_request_falls_back:
  "lr_backend request = Some Local \<Longrightarrow> lh_local h = None \<Longrightarrow> lh_frontier h = Some f \<Longrightarrow>
    resolve_handler_backend h request = Inr (f, Frontier)"
  by (simp add: resolve_handler_backend_def backend_of_def other_backend_def)

end
