(* ===== verification/Relationship_Laws.thy ===== *)
theory Relationship_Laws
  imports Relationship
begin

text \<open>
  What the relationship substrate guarantees: the ledger is append-only with distinct ids, the
  signal pipeline appends exactly the readable signals, the compiled snapshot has one summary
  per principal, and trust stays in the unit interval and moves in the documented direction,
  as long as no signal carries a NaN.
\<close>

section \<open>Trust\<close>

text \<open>
  A trust update is \<open>sane\<close> when its \<open>trust_level\<close>, if it parses at all, is not NaN.
\<close>

definition sane_record :: "relationship_record \<Rightarrow> bool" where
  "sane_record r \<longleftrightarrow> (case map_of (rr_metadata r) ''trust_level'' of
     None \<Rightarrow> True | Some v \<Rightarrow> f64_parse v \<noteq> Some NaN)"

definition trust_ok :: "f64 \<Rightarrow> bool" where
  "trust_ok t \<longleftrightarrow> unit_f64 t \<and> f64_repr t"

lemmas lit_defs = lit_neutral_def lit_fulfilled_def lit_broken_def lit_feedback_def lit_mismatch_def

lemma unit_f64_of_rat: "0 \<le> q \<Longrightarrow> q \<le> 1 \<Longrightarrow> unit_f64 (f64_of_rat q)"
  using rndq_unit [of q] by (simp add: f64_of_rat_small)

lemma unit_lits [simp]:
  "unit_f64 lit_neutral" "unit_f64 lit_fulfilled" "unit_f64 lit_broken"
  "unit_f64 lit_feedback" "unit_f64 lit_mismatch"
  by (simp_all add: lit_defs unit_f64_of_rat)

lemma repr_lits [simp]:
  "f64_repr lit_neutral" "f64_repr lit_fulfilled" "f64_repr lit_broken"
  "f64_repr lit_feedback" "f64_repr lit_mismatch"
  by (simp_all add: lit_defs f64_repr_of_rat)

lemma unit_not_NaN: "unit_f64 x \<Longrightarrow> x \<noteq> NaN"
  by auto

lemma f64_repr_clamp: "f64_repr x \<Longrightarrow> f64_repr (f64_clamp x (Fin 0) (Fin 1))"
  by (simp add: f64_clamp_def rndq_one)

lemma f64_repr_add: "f64_repr (f64_add x y)" if "f64_repr x" "f64_repr y"
  using that by (cases x; cases y) (simp_all add: f64_repr_of_rat)

lemma f64_repr_neg: "f64_repr x \<Longrightarrow> f64_repr (f64_neg x)"
  by (cases x) (simp_all add: rndq_minus)

lemma f64_repr_sub: "f64_repr x \<Longrightarrow> f64_repr y \<Longrightarrow> f64_repr (f64_sub x y)"
  by (simp add: f64_sub_def f64_repr_add f64_repr_neg)

lemma f64_repr_min: "f64_repr x \<Longrightarrow> f64_repr (f64_min x (Fin 1))"
  by (simp add: f64_min_def rndq_one)

lemma f64_repr_max: "f64_repr x \<Longrightarrow> f64_repr (f64_max x (Fin 0))"
  by (simp add: f64_max_def)

lemma f64_repr_parse: "f64_parse s = Some x \<Longrightarrow> f64_repr x"
  by (auto simp: f64_parse_def Let_def f64_repr_of_rat f64_signed_inf_def split: prod.splits if_splits)

lemma unit_add_delta:
  assumes "unit_f64 t" "unit_f64 d"
  shows "unit_f64 (f64_clamp (f64_add t d) (Fin 0) (Fin 1))"
    and "unit_f64 (f64_clamp (f64_add t (f64_neg d)) (Fin 0) (Fin 1))"
proof -
  obtain b where b: "d = Fin b" "0 \<le> b" "b \<le> 1" using assms(2) by (auto simp: unit_f64_iff)
  show "unit_f64 (f64_clamp (f64_add t d) (Fin 0) (Fin 1))"
    using assms(1) b by (intro unit_f64_add_clamp [of _ _ b]) simp_all
  show "unit_f64 (f64_clamp (f64_add t (f64_neg d)) (Fin 0) (Fin 1))"
    using assms(1) b by (intro unit_f64_add_clamp [of _ _ "- b"]) simp_all
qed

lemma trust_update_ok:
  assumes "sane_record r"
  shows "trust_ok (f64_clamp (case map_of (rr_metadata r) ''trust_level'' of
      None \<Rightarrow> lit_neutral
    | Some v \<Rightarrow> (case f64_parse v of None \<Rightarrow> lit_neutral | Some x \<Rightarrow> x)) (Fin 0) (Fin 1))"
  using assms
  by (auto simp: trust_ok_def sane_record_def unit_not_NaN
      intro!: unit_f64_clamp f64_repr_clamp dest: f64_repr_parse split: option.splits)

lemma trust_step_ok:
  assumes "sane_record r" "trust_ok t"
  shows "trust_ok (trust_step r t)"
proof (cases "rr_signal_type r")
  case TrustUpdate
  with trust_update_ok [OF assms(1)] show ?thesis by (simp add: trust_step_def)
next
  case FeedbackReceived
  with assms(2) show ?thesis
    by (simp add: trust_step_def trust_ok_def unit_add_delta f64_repr_clamp f64_repr_add
        f64_repr_neg)
qed (use assms(2) in \<open>simp_all add: trust_step_def trust_ok_def unit_f64_add_min unit_f64_sub_max
        f64_repr_min f64_repr_max f64_repr_add f64_repr_sub\<close>)

lemma fold_trust_ok:
  "\<forall>r \<in> set rs. sane_record r \<Longrightarrow> trust_ok t \<Longrightarrow> trust_ok (fold trust_step rs t)"
  by (induction rs arbitrary: t) (auto simp: trust_step_ok)

lemma trust_ok_half: "trust_ok (lit_neutral)"
  by (simp add: trust_ok_def)

text \<open>The direction of each signal.\<close>

lemma f64_le_min_one: "a \<le> c \<Longrightarrow> a \<le> 1 \<Longrightarrow> f64_le (Fin a) (f64_min (Fin c) (Fin 1))"
  by (simp add: f64_le_def f64_min_def)

lemma f64_max_zero_le: "c \<le> a \<Longrightarrow> 0 \<le> a \<Longrightarrow> f64_le (f64_max (Fin c) (Fin 0)) (Fin a)"
  by (simp add: f64_le_def f64_max_def)

lemma trust_cases:
  assumes "trust_ok t"
  obtains a where "t = Fin a" "0 \<le> a" "a \<le> 1" "rndq a = a"
  using assms by (auto simp: trust_ok_def unit_f64_iff)

lemma f64_add_ge':
  assumes "trust_ok t" "unit_f64 d"
  shows "\<exists>a c. t = Fin a \<and> f64_add t d = Fin c \<and> a \<le> c \<and> 0 \<le> a \<and> a \<le> 1"
proof -
  obtain a where a: "t = Fin a" "0 \<le> a" "a \<le> 1" "rndq a = a" using assms(1) by (rule trust_cases)
  moreover obtain b where "d = Fin b" "0 \<le> b" "b \<le> 1" using assms(2) by (auto simp: unit_f64_iff)
  ultimately show ?thesis using f64_add_ge [of a b] by auto
qed

lemma f64_sub_le':
  assumes "trust_ok t" "unit_f64 d"
  shows "\<exists>a c. t = Fin a \<and> f64_sub t d = Fin c \<and> c \<le> a \<and> 0 \<le> a \<and> a \<le> 1"
proof -
  obtain a where a: "t = Fin a" "0 \<le> a" "a \<le> 1" "rndq a = a" using assms(1) by (rule trust_cases)
  moreover obtain b where "d = Fin b" "0 \<le> b" "b \<le> 1" using assms(2) by (auto simp: unit_f64_iff)
  ultimately show ?thesis using f64_sub_le [of a b] by auto
qed

lemma fulfilled_raises:
  "trust_ok t \<Longrightarrow> rr_signal_type r = CommitmentFulfilled \<Longrightarrow> f64_le t (trust_step r t)"
  using f64_add_ge' [of t lit_fulfilled] by (auto simp: trust_step_def intro!: f64_le_min_one)

lemma broken_lowers:
  "trust_ok t \<Longrightarrow> rr_signal_type r \<in> {CommitmentBroken, AlignmentMismatch} \<Longrightarrow> f64_le (trust_step r t) t"
  using f64_sub_le' [of t lit_broken] f64_sub_le' [of t lit_mismatch]
  by (auto simp: trust_step_def intro!: f64_max_zero_le)

lemma feedback_direction:
  assumes "trust_ok t" "rr_signal_type r = FeedbackReceived"
  shows "if map_of (rr_metadata r) ''sentiment'' = Some ''negative''
    then f64_le (trust_step r t) t else f64_le t (trust_step r t)"
proof -
  have "f64_le (f64_clamp (f64_sub t lit_feedback) (Fin 0) (Fin 1)) t"
    using f64_sub_le' [OF assms(1), of lit_feedback] by (auto simp: f64_clamp_def f64_le_def)
  moreover have "f64_le t (f64_clamp (f64_add t lit_feedback) (Fin 0) (Fin 1))"
    using f64_add_ge' [OF assms(1), of lit_feedback] by (auto simp: f64_clamp_def f64_le_def)
  ultimately show ?thesis using assms(2) by (simp add: trust_step_def f64_sub_def)
qed

section \<open>Decay\<close>

text \<open>
  What the decay relies on of the exponential: on a nonpositive argument its result lies in the
  unit interval.
\<close>

definition exp_law :: "(f64 \<Rightarrow> f64) \<Rightarrow> bool" where
  "exp_law f64_exp \<longleftrightarrow> (\<forall>x. f64_le x (Fin 0) \<longrightarrow> unit_f64 (f64_exp x))"

definition decay_config_ok :: "trust_decay_config \<Rightarrow> bool" where
  "decay_config_ok c \<longleftrightarrow> unit_f64 (decay_baseline c)
     \<and> (\<exists>a. decay_rate c = Fin a \<and> 0 < a) \<and> 0 \<le> sint (min_inactivity_days c)"

lemma f64_of_rat_nonpos: "x \<le> 0 \<Longrightarrow> f64_le (f64_of_rat x) (Fin 0)"
  using rndq_nonneg [of "- x"] by (simp add: f64_of_rat_def Let_def f64_le_def rndq_minus)

lemma f64_of_int_nonneg:
  "0 \<le> n \<Longrightarrow> f64_of_int n = PInf \<or> (\<exists>m. f64_of_int n = Fin m \<and> 0 \<le> m)"
  using rndq_nonneg [of "of_int n"] by (simp add: f64_of_int_def f64_of_rat_def Let_def)

lemma decay_exponent_nonpos:
  assumes "0 < r" "0 \<le> n"
  shows "f64_le (f64_mul (f64_neg (Fin r)) (f64_of_int n)) (Fin 0)"
proof -
  consider "f64_of_int n = PInf" | m where "f64_of_int n = Fin m" "0 \<le> m"
    using f64_of_int_nonneg [OF assms(2)] by blast
  then show ?thesis
  proof cases
    case 1
    with assms(1) show ?thesis by (simp add: f64_signed_inf_def f64_le_def)
  next
    case 2
    with assms(1) have "- r * m \<le> 0" by (simp add: mult_nonpos_nonneg)
    with 2 f64_of_rat_nonpos show ?thesis by simp
  qed
qed

lemma f64_sub_unit:
  assumes "unit_f64 x" "unit_f64 y"
  shows "\<exists>c. f64_sub x y = Fin c \<and> - 1 \<le> c \<and> c \<le> 1"
proof -
  obtain a b where ab: "x = Fin a" "y = Fin b" "0 \<le> a" "a \<le> 1" "0 \<le> b" "b \<le> 1"
    using assms by (auto simp: unit_f64_iff)
  have "- 1 \<le> rndq (a - b)" "rndq (a - b) \<le> 1"
    using rndq_mono [of "- 1" "a - b"] rndq_mono [of "a - b" 1] ab rndq_minus [of 1]
    by (simp_all add: rndq_one)
  with ab show ?thesis by (simp add: f64_sub_def f64_of_rat_small)
qed

lemma f64_one_minus_unit: "unit_f64 x \<Longrightarrow> unit_f64 (f64_sub (Fin 1) x)"
  using rndq_unit by (auto simp: unit_f64_iff f64_sub_def f64_of_rat_small)

lemma decay_trust_unit:
  assumes "exp_law f64_exp" "\<And>c. decay = Some c \<Longrightarrow> decay_config_ok c" "unit_f64 t"
  shows "unit_f64 (decay_trust ch f64_exp decay now lst t)"
proof -
  have "unit_f64 (f64_clamp (f64_add t (f64_mul (f64_sub (Fin 1)
      (f64_exp (f64_mul (f64_neg (decay_rate c)) (f64_of_int n)))) (f64_sub (decay_baseline c) t)))
      (Fin 0) (Fin 1))"
    if c: "decay_config_ok c" and n: "sint (min_inactivity_days c) \<le> n" for c n
  proof -
    have "unit_f64 (f64_exp (f64_mul (f64_neg (decay_rate c)) (f64_of_int n)))"
      using c n assms(1) decay_exponent_nonpos by (auto simp: exp_law_def decay_config_ok_def)
    then obtain f where f: "f64_sub (Fin 1) (f64_exp (f64_mul (f64_neg (decay_rate c)) (f64_of_int n)))
        = Fin f" "0 \<le> f" "f \<le> 1"
      using f64_one_minus_unit by (metis unit_f64_iff)
    obtain d where d: "f64_sub (decay_baseline c) t = Fin d" "- 1 \<le> d" "d \<le> 1"
      using f64_sub_unit c assms(3) by (metis decay_config_ok_def)
    have fd: "\<bar>f * d\<bar> \<le> 1" using f d by (simp add: abs_mult mult_le_one abs_le_iff)
    then have "- 1 \<le> rndq (f * d)" "rndq (f * d) \<le> 1"
      using rndq_mono [of "- 1" "f * d"] rndq_mono [of "f * d" 1] rndq_minus [of 1]
      by (simp_all add: rndq_one abs_le_iff)
    with fd f d show ?thesis
      using unit_f64_add_clamp [OF assms(3), of "Fin (rndq (f * d))"]
      by (simp add: f64_of_rat_small abs_le_iff)
  qed
  with assms(2,3) show ?thesis
    by (auto simp: decay_trust_def Let_def split: option.splits)
qed

section \<open>The ledger as an interface\<close>

text \<open>
  The contract of the trait \<open>RelationshipLedger\<close> as far as its clients use it. \<open>recs\<close> is the
  list of records in append order, \<open>usable\<close> that the lock is not poisoned.
\<close>

definition principal_records :: "uuid \<Rightarrow> relationship_record list \<Rightarrow> relationship_record list" where
  "principal_records p rs = sort_desc rr_timestamp (filter (\<lambda>r. rr_principal_id r = p) rs)"

locale relationship_ledger =
  fixes append_record :: "relationship_record \<Rightarrow> 'l \<Rightarrow> (uuid \<times> 'l) exo_result"
    and for_principal :: "'l \<Rightarrow> uuid \<Rightarrow> nat \<Rightarrow> relationship_record list exo_result"
    and distinct_principals :: "'l \<Rightarrow> uuid list exo_result"
    and recs :: "'l \<Rightarrow> relationship_record list"
    and usable :: "'l \<Rightarrow> bool"
  assumes append_new: "usable l \<Longrightarrow> rr_id r \<notin> rr_id ` set (recs l) \<Longrightarrow>
      \<exists>l'. append_record r l = Inr (rr_id r, l') \<and> recs l' = recs l @ [r] \<and> usable l'"
    and append_old: "usable l \<Longrightarrow> rr_id r \<in> rr_id ` set (recs l) \<Longrightarrow> isl (append_record r l)"
    and for_principal_eq: "usable l \<Longrightarrow> for_principal l p n = Inr (take n (principal_records p (recs l)))"
    and distinct_principals_eq: "usable l \<Longrightarrow>
      distinct_principals l = Inr (sorted_list_of_set (rr_principal_id ` set (recs l)))"
begin

lemma append_prefix:
  assumes "usable l" "append_record r l = Inr (i, l')"
  shows "i = rr_id r \<and> recs l' = recs l @ [r] \<and> usable l' \<and> rr_id r \<notin> rr_id ` set (recs l)"
proof (cases "rr_id r \<in> rr_id ` set (recs l)")
  case True
  with append_old [OF assms(1)] assms(2) show ?thesis by fastforce
next
  case False
  with append_new [OF assms(1)] assms(2) show ?thesis by fastforce
qed

text \<open>
  The pipeline: with fresh ids, the records of the readable signals are appended in the order of
  their envelopes and their ids are returned; nothing else changes.
\<close>

lemma signals_appended:
  fixes get_artifact parse_signal tick
  defines "made \<equiv> \<lambda>ms. List.map_filter (\<lambda>(i, env). signal_record get_artifact parse_signal tick i env) ms"
  assumes "usable l" "distinct (map fst ms)" "fst ` set ms \<inter> rr_id ` set (recs l) = {}"
  shows "\<exists>l'. process_relational_signals append_record get_artifact parse_signal tick ms l =
      (map rr_id (made ms), l') \<and> recs l' = recs l @ made ms \<and> usable l'"
  using assms(2-) unfolding made_def
proof (induction ms arbitrary: l)
  case Nil
  then show ?case by simp
next
  case (Cons m ms)
  obtain i env where m: "m = (i, env)" by (cases m)
  show ?case
  proof (cases "signal_record get_artifact parse_signal tick i env")
    case None
    then show ?thesis using Cons m by simp
  next
    case (Some r)
    then have i: "rr_id r = i" by (auto simp: signal_record_def split: if_splits option.splits sum.splits)
    with Cons.prems m have "rr_id r \<notin> rr_id ` set (recs l)" by auto
    then obtain l1 where l1: "append_record r l = Inr (rr_id r, l1)" "recs l1 = recs l @ [r]" "usable l1"
      using append_new Cons.prems(1) by blast
    have "fst ` set ms \<inter> rr_id ` set (recs l1) = {}" using Cons.prems m l1(2) i by auto
    with Cons.IH [OF l1(3)] Cons.prems(2) m obtain l2 where
      "process_relational_signals append_record get_artifact parse_signal tick ms l1 =
        (map rr_id (List.map_filter (\<lambda>(i, env). signal_record get_artifact parse_signal tick i env) ms), l2)"
      "recs l2 = recs l1 @ List.map_filter (\<lambda>(i, env). signal_record get_artifact parse_signal tick i env) ms"
      "usable l2" by auto
    then show ?thesis using m Some l1 by simp
  qed
qed

text \<open>The compiled snapshot has one summary per principal of the ledger, in ascending order.\<close>

lemma snapshot_summaries:
  assumes "usable l" "length (recs l) \<le> usize_MAX"
  shows "compile_relationship_snapshot ch f64_exp show_uuid distinct_principals for_principal l decay now t =
    Inr \<lparr>rs_principals = map (\<lambda>p. compile_principal ch f64_exp show_uuid decay now p
            (principal_records p (recs l))) (sorted_list_of_set (rr_principal_id ` set (recs l))),
         rs_compiled_at = t\<rparr>"
proof -
  have full: "take usize_MAX (principal_records p (recs l)) = principal_records p (recs l)" for p
    using order_trans [OF length_filter_le assms(2)] by (simp add: principal_records_def)
  have "compile_principals ch f64_exp show_uuid for_principal l decay now ps =
      Inr (map (\<lambda>p. compile_principal ch f64_exp show_uuid decay now p (principal_records p (recs l))) ps)"
    if "set ps \<subseteq> rr_principal_id ` set (recs l)" for ps
    using that
  proof (induction ps)
    case Nil
    show ?case by simp
  next
    case (Cons p ps)
    then have "principal_records p (recs l) \<noteq> []"
      by (auto simp: principal_records_def simp flip: set_empty)
    with Cons show ?case by (simp add: for_principal_eq [OF assms(1)] full)
  qed
  then show ?thesis
    by (simp add: compile_relationship_snapshot_def distinct_principals_eq [OF assms(1)])
qed

lemma snapshot_trust_unit:
  assumes "usable l" "length (recs l) \<le> usize_MAX" "\<forall>r \<in> set (recs l). sane_record r"
    and "exp_law f64_exp" "\<And>c. decay = Some c \<Longrightarrow> decay_config_ok c"
    and "compile_relationship_snapshot ch f64_exp show_uuid distinct_principals for_principal l decay now t
      = Inr snap"
  shows "\<forall>s \<in> set (rs_principals snap). unit_f64 (sm_trust_level s)"
proof -
  have "unit_f64 (sm_trust_level (compile_principal ch f64_exp show_uuid decay now p
      (principal_records p (recs l))))" for p
  proof -
    have "\<forall>r \<in> set (rev (principal_records p (recs l))). sane_record r"
      using assms(3) by (simp add: principal_records_def)
    then have "unit_f64 (fold trust_step (rev (principal_records p (recs l))) lit_neutral)"
      using fold_trust_ok trust_ok_half trust_ok_def by blast
    then show ?thesis
      using decay_trust_unit [OF assms(4,5)] by (simp add: compile_principal_def Let_def)
  qed
  then show ?thesis
    using assms(6) snapshot_summaries [OF assms(1,2), of ch f64_exp show_uuid decay now t] by auto
qed

end

lemma remdups_adj_sort: "remdups_adj (sort xs) = sorted_list_of_set (set xs)"
proof (rule sorted_distinct_set_unique)
  show "sorted (remdups_adj (sort xs))" by (simp add: sorted_remdups_adj)
  have "distinct (remdups_adj ys)" if "sorted ys" for ys :: "'a::linorder list"
    using that by (induction ys rule: remdups_adj.induct) (auto simp: order_le_less_trans)
  then show "distinct (remdups_adj (sort xs))" by simp
qed simp_all

interpretation mem_ledger: relationship_ledger
  "ledger_append show_uuid" ledger_for_principal ledger_distinct_principals
  ml_records "\<lambda>l. \<not> ml_poisoned l" for show_uuid
  by unfold_locales
    (auto simp: ledger_append_def ledger_for_principal_def ledger_distinct_principals_def
      principal_records_def list_ex_image_iff remdups_adj_sort)

section \<open>Properties of the in-memory ledger\<close>

text \<open>A ledger is well formed when its entry ids are distinct.\<close>

definition ledger_wf :: "mem_ledger \<Rightarrow> bool" where
  "ledger_wf l \<longleftrightarrow> distinct (map rr_id (ml_records l))"

text \<open>A run of appends, failed ones included.\<close>

fun ledger_run :: "(uuid \<Rightarrow> string) \<Rightarrow> relationship_record list \<Rightarrow> mem_ledger \<Rightarrow> mem_ledger" where
  "ledger_run show_uuid [] l = l"
| "ledger_run show_uuid (r # rs) l =
     (case ledger_append show_uuid r l of Inl _ \<Rightarrow> ledger_run show_uuid rs l
      | Inr (_, l') \<Rightarrow> ledger_run show_uuid rs l')"

lemma ledger_append_cases:
  assumes "ledger_append show_uuid r l = Inr (i, l')"
  shows "i = rr_id r" "ml_records l' = ml_records l @ [r]" "rr_id r \<notin> rr_id ` set (ml_records l)"
  using assms by (auto simp: ledger_append_def list_ex_image_iff split: if_splits)

text \<open>
  C5. The ledger is append-only: whatever is appended, in whatever order and with whatever
  duplicates, earlier records stay where they were, entry ids stay distinct, and every record
  present at the end was present before or was one of those appended.
\<close>

theorem ledger_append_only:
  assumes "ledger_wf l"
  shows "ledger_wf (ledger_run show_uuid rs l)
    \<and> (\<exists>new. ml_records (ledger_run show_uuid rs l) = ml_records l @ new \<and> set new \<subseteq> set rs)"
  using assms
proof (induction rs arbitrary: l)
  case Nil
  then show ?case by simp
next
  case (Cons r rs)
  show ?case
  proof (cases "ledger_append show_uuid r l")
    case (Inl e)
    with Cons show ?thesis by fastforce
  next
    case (Inr x)
    then obtain i l' where l': "ledger_append show_uuid r l = Inr (i, l')" by (cases x) auto
    have "ledger_wf l'"
      using ledger_append_cases [OF l'] Cons.prems by (auto simp: ledger_wf_def)
    from Cons.IH [OF this] l' ledger_append_cases(2) [OF l'] show ?thesis by auto
  qed
qed

text \<open>
  The signal pipeline records exactly the readable signals: given fresh entry ids, every
  relational-signal envelope whose artifact is found and parses becomes one ledger record, in
  the order of the envelopes, carrying the signal's principal, type and metadata and the
  envelope's payload reference and timestamp; every other envelope leaves the ledger as it is;
  and the returned ids are those of the new records.
\<close>

lemma signals_recorded_exactly:
  assumes "\<not> ml_poisoned l" "distinct (map fst ms)"
    and "fst ` set ms \<inter> rr_id ` set (ml_records l) = {}"
  shows "\<exists>l'. process_relational_signals (ledger_append show_uuid) get_artifact parse_signal tick ms l =
      (map rr_id (List.map_filter (\<lambda>(i, env). signal_record get_artifact parse_signal tick i env) ms), l')
    \<and> ml_records l' = ml_records l @
        List.map_filter (\<lambda>(i, env). signal_record get_artifact parse_signal tick i env) ms
    \<and> \<not> ml_poisoned l'"
  using assms by (rule mem_ledger.signals_appended)

text \<open>
  The snapshot is compiled from the whole ledger: it has exactly one summary for each
  principal with a record, in ascending order of ids, computed from that principal's records
  newest first, and compilation cannot fail on a usable ledger.
\<close>

lemma snapshot_covers_ledger:
  assumes "\<not> ml_poisoned l" "length (ml_records l) \<le> usize_MAX"
  shows "compile_relationship_snapshot ch f64_exp show_uuid ledger_distinct_principals
      ledger_for_principal l decay now t =
    Inr \<lparr>rs_principals = map (\<lambda>p. compile_principal ch f64_exp show_uuid decay now p
            (principal_records p (ml_records l)))
            (sorted_list_of_set (rr_principal_id ` set (ml_records l))),
         rs_compiled_at = t\<rparr>"
  using assms by (rule mem_ledger.snapshot_summaries)


text \<open>
  Signals move trust in the documented direction, rounding included: from any trust level
  that signals can produce, a fulfilled commitment never lowers it, a broken commitment or an
  alignment mismatch never raises it, feedback moves it by its sentiment, and made commitments,
  alignment checks and tone observations leave it unchanged.
\<close>

lemma trust_directions:
  assumes "\<forall>r \<in> set rs. sane_record r" and "t = fold trust_step rs lit_neutral"
  shows "case rr_signal_type r of
      CommitmentFulfilled \<Rightarrow> f64_le t (trust_step r t)
    | CommitmentBroken \<Rightarrow> f64_le (trust_step r t) t
    | AlignmentMismatch \<Rightarrow> f64_le (trust_step r t) t
    | FeedbackReceived \<Rightarrow> (if map_of (rr_metadata r) ''sentiment'' = Some ''negative''
        then f64_le (trust_step r t) t else f64_le t (trust_step r t))
    | TrustUpdate \<Rightarrow> True
    | _ \<Rightarrow> trust_step r t = t"
proof -
  have ok: "trust_ok t" using assms fold_trust_ok trust_ok_half by blast
  show ?thesis
  proof (cases "rr_signal_type r")
    case CommitmentFulfilled
    with fulfilled_raises [OF ok] show ?thesis by simp
  next
    case FeedbackReceived
    with feedback_direction [OF ok] show ?thesis by simp
  qed (use broken_lowers [OF ok, of r] in \<open>simp_all add: trust_step_def\<close>)
qed

section \<open>The properties at concrete inputs\<close>

definition sample_record :: "uuid \<Rightarrow> uuid \<Rightarrow> relational_signal_type \<Rightarrow> (string \<times> string) list \<Rightarrow>
    datetime \<Rightarrow> relationship_record" where
  "sample_record i p ty meta t = \<lparr>
     rr_id = i, rr_principal_id = p, rr_signal_type = ty, rr_content_ref = ''c0ffee'',
     rr_tick_id = 1, rr_timestamp = t, rr_metadata = meta\<rparr>"

definition sample_ledger :: mem_ledger where
  "sample_ledger = \<lparr>ml_poisoned = False, ml_records =
     [sample_record 1 7 CommitmentFulfilled [(''role'', ''operator'')] 10,
      sample_record 2 5 FeedbackReceived [(''sentiment'', ''negative'')] 20]\<rparr>"

definition sample_envelope :: message_envelope where
  "sample_envelope = \<lparr>me_id = 90, me_source = 7, me_target = None, me_kind = RelationalSignal,
     me_payload_ref = ''c0ffee'', me_timestamp = 30, me_in_reply_to = None\<rparr>"

definition sample_signal :: relational_signal where
  "sample_signal = \<lparr>sg_signal_type = CommitmentMade, sg_principal_id = 7, sg_content = ''tests'',
     sg_metadata = []\<rparr>"

definition sample_artifact :: artifact where
  "sample_artifact = artifact_new (\<lambda>_. ''c0ffee'') 0 AkEnvelope ''signal'' ''application/json''"

text \<open>An exponential that is 1 from 0 on and flushes every negative argument to 0.\<close>

definition flush_exp :: "f64 \<Rightarrow> f64" where
  "flush_exp x = (if f64_le (Fin 0) x then Fin 1 else Fin 0)"

lemmas sample_defs = sample_record_def sample_ledger_def sample_envelope_def sample_signal_def
  sample_artifact_def

lemma flush_exp_law: "exp_law flush_exp"
  by (simp add: exp_law_def flush_exp_def)

lemma sample_ledger_ok:
  "ledger_wf sample_ledger" "\<not> ml_poisoned sample_ledger"
  "length (ml_records sample_ledger) \<le> usize_MAX" "\<forall>r \<in> set (ml_records sample_ledger). sane_record r"
  by (simp_all add: ledger_wf_def sample_defs usize_MAX_def sane_record_def)

lemma sample_decay_ok: "Some trust_decay_default = Some c \<Longrightarrow> decay_config_ok c"
proof -
  have "rndq (1 / 100) \<noteq> 0" by code_simp
  then have "0 < rndq (1 / 100)" using rndq_nonneg [of "1 / 100"] by linarith
  then show "Some trust_decay_default = Some c \<Longrightarrow> decay_config_ok c"
    using rndq_unit [of "1 / 2"]
    by (auto simp: decay_config_ok_def trust_decay_default_def f64_of_rat_small)
qed

theorem ledger_append_only_witness:
  "ledger_wf sample_ledger
   \<and> ledger_wf (ledger_run (\<lambda>_. ''id'') [sample_record 2 9 ToneObservation [] 5,
       sample_record 3 9 ToneObservation [] 6] sample_ledger)
   \<and> (\<exists>new. ml_records (ledger_run (\<lambda>_. ''id'') [sample_record 2 9 ToneObservation [] 5,
         sample_record 3 9 ToneObservation [] 6] sample_ledger) = ml_records sample_ledger @ new
       \<and> set new \<subseteq> set [sample_record 2 9 ToneObservation [] 5, sample_record 3 9 ToneObservation [] 6])"
  using sample_ledger_ok(1) ledger_append_only [OF sample_ledger_ok(1)] by blast


end
