(* ===== verification/Align_Gate.thy ===== *)
theory Align_Gate
  imports Relationship_Laws Watches
begin

text \<open>
  The Align step: the trust gate of \<open>exoskeleton-relationship/src/align.rs\<close> and the kernel's step
  around it (\<open>exoskeleton-host/src/kernel/align.rs\<close>), which processes the relational signals of
  the tick, compiles a fresh snapshot, splits the decided actions into approved and blocked
  ones, logs a capability request for each blocked one and admits watch proposals.
\<close>

section \<open>The trust gate\<close>

record align_config =
  min_trust_for_action :: f64
  min_trust_for_destructive :: f64
  destructive_tools :: "string list"
  dynamic_destructive_tools :: "string list"
  block_on_broken_commitments :: bool
  min_trust_for_vessel_messaging :: f64
  vessel_messaging_tools :: "string list"

definition add_destructive_tool :: "string \<Rightarrow> align_config \<Rightarrow> align_config" where
  "add_destructive_tool name c =
     (if List.member (dynamic_destructive_tools c) name then c
      else c\<lparr>dynamic_destructive_tools := dynamic_destructive_tools c @ [name]\<rparr>)"

definition is_destructive :: "align_config \<Rightarrow> string \<Rightarrow> bool" where
  "is_destructive c tool \<longleftrightarrow> list_ex (\<lambda>t. t = tool) (destructive_tools c)
     \<or> list_ex (\<lambda>t. t = tool) (dynamic_destructive_tools c)"

definition align_config_default :: align_config where
  "align_config_default = \<lparr>
     min_trust_for_action = f64_of_rat (3 / 10),
     min_trust_for_destructive = f64_of_rat (6 / 10),
     destructive_tools = [''fs.write'', ''http.request'', ''shell.exec'', ''sandbox.exec'',
       ''webhook.send'', ''web.search'', ''discord'', ''code.edit'', ''code.write'',
       ''code.apply_patch''],
     dynamic_destructive_tools = [],
     block_on_broken_commitments = False,
     min_trust_for_vessel_messaging = f64_of_rat (6 / 10),
     vessel_messaging_tools = []\<rparr>"

record align_action =
  aa_tool_name :: string
  aa_rationale :: string

text \<open>The lowest trust over all principals, folded from \<open>f64::MAX\<close> with \<open>f64::min\<close>.\<close>

definition min_trust :: "relationship_snapshot \<Rightarrow> f64" where
  "min_trust snap = foldl f64_min f64_MAX (map sm_trust_level (rs_principals snap))"

definition has_broken_commitments :: "align_config \<Rightarrow> relationship_snapshot \<Rightarrow> bool" where
  "has_broken_commitments c snap \<longleftrightarrow> block_on_broken_commitments c
     \<and> list_ex (\<lambda>p. f64_lt (sm_trust_level p) (min_trust_for_action c)) (rs_principals snap)"

definition threshold_for :: "align_config \<Rightarrow> string \<Rightarrow> f64" where
  "threshold_for c tool =
     (if is_destructive c tool then min_trust_for_destructive c else min_trust_for_action c)"

definition quote :: "string \<Rightarrow> string" where
  "quote s = [CHR 0x27] @ s @ [CHR 0x27]"

definition block_reason :: "align_config \<Rightarrow> relationship_snapshot \<Rightarrow> string \<Rightarrow> string option" where
  "block_reason c snap tool =
     (if f64_lt (min_trust snap) (threshold_for c tool)
      then Some (''trust gate: minimum trust ('' @ fmt_f64_2 (min_trust snap)
        @ '') below threshold ('' @ fmt_f64_2 (threshold_for c tool) @ '') for ''
        @ (if is_destructive c tool then ''destructive '' else []) @ ''tool '' @ quote tool)
      else if has_broken_commitments c snap \<and> is_destructive c tool
      then Some (''commitment check: action '' @ quote tool
        @ '' blocked due to unresolved commitment violations'')
      else None)"

text \<open>
  The alignment record of one reviewed action; \<open>fresh\<close> is its new entry id and timestamp.
\<close>

definition alignment_record ::
  "(string \<Rightarrow> artifact_id) \<Rightarrow> uuid \<Rightarrow> uuid \<times> datetime \<Rightarrow> uuid \<Rightarrow> string \<Rightarrow> string option \<Rightarrow>
   relationship_record" where
  "alignment_record sha256_hex tick_id fresh prin tool reason = \<lparr>
     rr_id = fst fresh,
     rr_principal_id = prin,
     rr_signal_type = (case reason of Some _ \<Rightarrow> AlignmentMismatch | None \<Rightarrow> AlignmentCheck),
     rr_content_ref = sha256_hex ((case reason of Some _ \<Rightarrow> ''blocked:'' | None \<Rightarrow> ''approved:'') @ tool),
     rr_tick_id = tick_id,
     rr_timestamp = snd fresh,
     rr_metadata = []\<rparr>"

fun check_actions ::
  "(string \<Rightarrow> artifact_id) \<Rightarrow> uuid \<Rightarrow> (nat \<Rightarrow> uuid \<times> datetime) \<Rightarrow> align_config \<Rightarrow> relationship_snapshot \<Rightarrow>
   nat \<Rightarrow> align_action list \<Rightarrow> nat list \<times> (nat \<times> string) list \<times> relationship_record list" where
  "check_actions sha256_hex tick_id fresh c snap i [] = ([], [], [])"
| "check_actions sha256_hex tick_id fresh c snap i (a # as) =
     (let reason = block_reason c snap (aa_tool_name a);
          upd = (case rs_principals snap of
              [] \<Rightarrow> []
            | p # _ \<Rightarrow> [alignment_record sha256_hex tick_id (fresh i) (sm_principal_id p)
                (aa_tool_name a) reason]);
          (approved, blocked, updates) = check_actions sha256_hex tick_id fresh c snap (Suc i) as
      in case reason of
          Some r \<Rightarrow> (approved, (i, r) # blocked, upd @ updates)
        | None \<Rightarrow> (i # approved, blocked, upd @ updates))"

definition check_alignment ::
  "(string \<Rightarrow> artifact_id) \<Rightarrow> (nat \<Rightarrow> uuid \<times> datetime) \<Rightarrow> align_action list \<Rightarrow> relationship_snapshot \<Rightarrow>
   align_config \<Rightarrow> uuid \<Rightarrow> nat list \<times> (nat \<times> string) list \<times> relationship_record list" where
  "check_alignment sha256_hex fresh actions snap c tick_id =
     (if rs_principals snap = [] then ([0..<length actions], [], [])
      else check_actions sha256_hex tick_id fresh c snap 0 actions)"

section \<open>The Align step of the kernel\<close>

text \<open>The fields of \<open>DecisionResult\<close> that the step reads.\<close>

record decision_result =
  dr_actions :: "planned_action list"
  dr_watch_proposals :: "watch_proposal list"

record alignment_result =
  al_approved_actions :: "planned_action list"
  al_blocked_actions :: "(planned_action \<times> string) list"
  al_relationship_updates :: "relationship_record list"
  al_relationship_snapshot :: "relationship_snapshot option"

text \<open>
  The services and readings of the step. The fresh ids and times are indexed by the item they
  are drawn for; \<open>ae_encode_request\<close> is the JSON encoding of a capability request.
\<close>

record ('l, 'a, 'e, 'w) align_env =
  ae_chrono :: chrono_ops
  ae_exp :: "f64 \<Rightarrow> f64"
  ae_show_uuid :: "uuid \<Rightarrow> string"
  ae_sha256_hex :: "string \<Rightarrow> artifact_id"
  ae_append :: "relationship_record \<Rightarrow> 'l \<Rightarrow> (uuid \<times> 'l) exo_result"
  ae_distinct_principals :: "'l \<Rightarrow> uuid list exo_result"
  ae_for_principal :: "'l \<Rightarrow> uuid \<Rightarrow> nat \<Rightarrow> relationship_record list exo_result"
  ae_get_artifact :: "'a \<Rightarrow> artifact_id \<Rightarrow> artifact option exo_result"
  ae_put_artifact :: "artifact \<Rightarrow> 'a \<Rightarrow> artifact_id option \<times> 'a"
  ae_parse_signal :: "string \<Rightarrow> relational_signal option"
  ae_encode_request :: "string \<Rightarrow> string \<Rightarrow> string \<Rightarrow> bool \<Rightarrow> string"
  ae_log_event :: "event_entry \<Rightarrow> 'e \<Rightarrow> 'e"
  ae_active_count :: "'w \<Rightarrow> u32 exo_result"
  ae_save_watch :: "watch_definition \<Rightarrow> 'w \<Rightarrow> 'w exo_result"
  ae_trust_decay :: "trust_decay_config option"
  ae_max_watches :: u32
  ae_signal_id :: "nat \<Rightarrow> uuid"
  ae_now :: datetime
  ae_compiled_at :: datetime
  ae_check_fresh :: "nat \<Rightarrow> uuid \<times> datetime"
  ae_request_created :: "nat \<Rightarrow> datetime"
  ae_request_fresh :: "nat \<Rightarrow> uuid \<times> datetime"
  ae_watch_fresh :: "nat \<Rightarrow> uuid \<times> datetime"

record ('l, 'a, 'e, 'w) align_world =
  aw_ledger :: 'l
  aw_artifacts :: 'a
  aw_events :: 'e
  aw_watches :: 'w

text \<open>The capability request logged for the \<open>k\<close>-th blocked action.\<close>

definition request_event ::
  "('l, 'a, 'e, 'w) align_env \<Rightarrow> uuid \<Rightarrow> nat \<Rightarrow> planned_action \<times> string \<Rightarrow> artifact_id option \<Rightarrow> event_entry" where
  "request_event env tick_id k ar payload_ref = \<lparr>
     ev_id = fst (ae_request_fresh env k),
     ev_tick_id = Some tick_id,
     ev_event_type = CapabilityRequest,
     ev_payload_ref = payload_ref,
     ev_summary = ''Capability request: '' @ pa_tool_name (fst ar) @ '' blocked '' @ em_dash
       @ '' '' @ snd ar,
     ev_timestamp = snd (ae_request_fresh env k)\<rparr>"

definition log_request ::
  "('l, 'a, 'e, 'w) align_env \<Rightarrow> uuid \<Rightarrow> nat \<Rightarrow> planned_action \<times> string \<Rightarrow>
   ('l, 'a, 'e, 'w) align_world \<Rightarrow> ('l, 'a, 'e, 'w) align_world" where
  "log_request env tick_id k ar s = (let (action, reason) = ar;
       a = artifact_new (ae_sha256_hex env) (ae_request_created env k) AkEvent
             (ae_encode_request env (pa_tool_name action) reason (pa_rationale action) False)
             ''application/json'';
       (payload_ref, arts) = ae_put_artifact env a (aw_artifacts s)
     in s\<lparr>aw_artifacts := arts,
          aw_events := ae_log_event env (request_event env tick_id k ar payload_ref) (aw_events s)\<rparr>)"

fun log_requests ::
  "('l, 'a, 'e, 'w) align_env \<Rightarrow> uuid \<Rightarrow> nat \<Rightarrow> (planned_action \<times> string) list \<Rightarrow>
   ('l, 'a, 'e, 'w) align_world \<Rightarrow> ('l, 'a, 'e, 'w) align_world" where
  "log_requests env tick_id k [] s = s"
| "log_requests env tick_id k (ar # ars) s =
     log_requests env tick_id (Suc k) ars (log_request env tick_id k ar s)"

definition align_step ::
  "('l, 'a, 'e, 'w) align_env \<Rightarrow> decision_result \<Rightarrow> message_envelope list \<Rightarrow> uuid \<Rightarrow> u64 \<Rightarrow>
   ('l, 'a, 'e, 'w) align_world \<Rightarrow> alignment_result \<times> ('l, 'a, 'e, 'w) align_world" where
  "align_step env decision new_messages tick_id tick_number s =
     (let (_, ledger) = process_relational_signals (ae_append env) (ae_get_artifact env (aw_artifacts s))
            (ae_parse_signal env) tick_id
            (zip (map (ae_signal_id env) [0..<length new_messages]) new_messages) (aw_ledger s);
          s1 = s\<lparr>aw_ledger := ledger\<rparr>
      in case compile_relationship_snapshot (ae_chrono env) (ae_exp env) (ae_show_uuid env)
             (ae_distinct_principals env) (ae_for_principal env) ledger (ae_trust_decay env)
             (ae_now env) (ae_compiled_at env) of
           Inl _ \<Rightarrow> (\<lparr>al_approved_actions = dr_actions decision, al_blocked_actions = [],
                      al_relationship_updates = [], al_relationship_snapshot = None\<rparr>, s1)
         | Inr snap \<Rightarrow>
             (let config = align_config_default;
                  align_actions = map (\<lambda>a. \<lparr>aa_tool_name = pa_tool_name a, aa_rationale = pa_rationale a\<rparr>)
                    (dr_actions decision);
                  (approved, blocked, updates) = check_alignment (ae_sha256_hex env) (ae_check_fresh env)
                    align_actions snap config tick_id;
                  approved_actions = map (\<lambda>i. dr_actions decision ! i) approved;
                  blocked_actions = map (\<lambda>(i, reason). (dr_actions decision ! i, reason)) blocked;
                  s2 = log_requests env tick_id 0 blocked_actions s1;
                  watches = admit_watches (ae_active_count env) (ae_save_watch env) (ae_max_watches env)
                    tick_number (zip (map (ae_watch_fresh env) [0..<length (dr_watch_proposals decision)])
                      (dr_watch_proposals decision)) (aw_watches s2)
              in (\<lparr>al_approved_actions = approved_actions, al_blocked_actions = blocked_actions,
                   al_relationship_updates = updates, al_relationship_snapshot = Some snap\<rparr>,
                  s2\<lparr>aw_watches := watches\<rparr>)))"

section \<open>The gate approves or blocks\<close>

definition verdict :: "align_config \<Rightarrow> relationship_snapshot \<Rightarrow> align_action \<Rightarrow> string option" where
  "verdict c snap a = block_reason c snap (aa_tool_name a)"

lemma check_actions_eq:
  "check_actions sha tick fresh c snap i as =
     (map fst (filter (\<lambda>(j, a). verdict c snap a = None) (List.enumerate i as)),
      List.map_filter (\<lambda>(j, a). map_option (Pair j) (verdict c snap a)) (List.enumerate i as),
      (case rs_principals snap of [] \<Rightarrow> []
       | p # _ \<Rightarrow> map (\<lambda>(j, a). alignment_record sha tick (fresh j) (sm_principal_id p)
            (aa_tool_name a) (verdict c snap a)) (List.enumerate i as)))"
  by (induction as arbitrary: i) (auto simp: verdict_def Let_def split: option.split list.split)

lemma enumerate_nth: "(j, a) \<in> set (List.enumerate 0 as) \<longleftrightarrow> j < length as \<and> a = as ! j"
  by (auto simp: in_set_conv_nth nth_enumerate_eq)

lemma approved_iff:
  assumes "check_alignment sha fresh as snap c tick = (approved, blocked, upd)" "rs_principals snap \<noteq> []"
  shows "j \<in> set approved \<longleftrightarrow> j < length as \<and> verdict c snap (as ! j) = None"
    and "(j, r) \<in> set blocked \<longleftrightarrow> j < length as \<and> verdict c snap (as ! j) = Some r"
    and "length upd = length as"
proof -
  obtain p ps where ps: "rs_principals snap = p # ps" using assms(2) by (cases "rs_principals snap") auto
  have eqs: "approved = map fst (filter (\<lambda>(j, a). verdict c snap a = None) (List.enumerate 0 as))"
    "blocked = List.map_filter (\<lambda>(j, a). map_option (Pair j) (verdict c snap a)) (List.enumerate 0 as)"
    "length upd = length as"
    using assms(1) ps by (auto simp: check_alignment_def check_actions_eq)
  show "j \<in> set approved \<longleftrightarrow> j < length as \<and> verdict c snap (as ! j) = None"
    by (auto simp: eqs image_iff enumerate_nth)
  show "length upd = length as" by (rule eqs)
  have "(j, r) \<in> set blocked \<longleftrightarrow>
      (\<exists>i a. (i, a) \<in> set (List.enumerate 0 as) \<and> map_option (Pair i) (verdict c snap a) = Some (j, r))"
    by (simp only: eqs set_map_filter) force
  then show "(j, r) \<in> set blocked \<longleftrightarrow> j < length as \<and> verdict c snap (as ! j) = Some r"
    by (auto simp: enumerate_nth)
qed

lemma distinct_approved:
  assumes "check_alignment sha fresh as snap c tick = (approved, blocked, upd)" "rs_principals snap \<noteq> []"
  shows "distinct approved"
  using assms by (auto simp: check_alignment_def check_actions_eq distinct_map_filter)

text \<open>The minimum over the principals.\<close>

lemma f64_lt_min:
  "a \<noteq> NaN \<Longrightarrow> b \<noteq> NaN \<Longrightarrow> f64_lt (f64_min a b) x \<longleftrightarrow> f64_lt a x \<or> f64_lt b x"
  by (cases a; cases b; cases x) (auto simp: f64_min_def)

lemma f64_min_not_NaN: "a \<noteq> NaN \<Longrightarrow> f64_min a b \<noteq> NaN"
  by (auto simp: f64_min_def)

lemma foldl_min_lt:
  assumes "a \<noteq> NaN" "NaN \<notin> set ts"
  shows "f64_lt (foldl f64_min a ts) x \<longleftrightarrow> f64_lt a x \<or> (\<exists>t \<in> set ts. f64_lt t x)"
  using assms by (induction ts arbitrary: a) (auto simp: f64_lt_min f64_min_not_NaN)

lemma min_trust_lt:
  assumes "\<forall>p \<in> set (rs_principals snap). unit_f64 (sm_trust_level p)" "unit_f64 x"
  shows "f64_lt (min_trust snap) x \<longleftrightarrow> (\<exists>p \<in> set (rs_principals snap). f64_lt (sm_trust_level p) x)"
proof -
  have "NaN \<notin> set (map sm_trust_level (rs_principals snap))" using assms(1) by force
  moreover have "\<not> f64_lt f64_MAX x"
    using assms(2) by (cases x) (auto simp: f64_MAX_def)
  ultimately show ?thesis by (simp add: min_trust_def foldl_min_lt f64_MAX_def)
qed

lemma verdict_None_iff:
  assumes "\<forall>p \<in> set (rs_principals snap). unit_f64 (sm_trust_level p)"
    and "unit_f64 (min_trust_for_action c)" "unit_f64 (min_trust_for_destructive c)"
    and "f64_le (min_trust_for_action c) (min_trust_for_destructive c)"
  shows "verdict c snap a = None \<longleftrightarrow>
    (\<forall>p \<in> set (rs_principals snap). \<not> f64_lt (sm_trust_level p) (threshold_for c (aa_tool_name a)))"
proof -
  have th: "unit_f64 (threshold_for c (aa_tool_name a))"
    using assms(2,3) by (simp add: threshold_for_def)
  have lt: "f64_lt t (min_trust_for_action c) \<Longrightarrow> f64_lt t (min_trust_for_destructive c)" for t
    using assms(2-4) by (cases t) (auto simp: unit_f64_iff f64_le_def)
  have dead: "\<not> f64_lt (min_trust snap) (threshold_for c (aa_tool_name a)) \<Longrightarrow>
      \<not> (has_broken_commitments c snap \<and> is_destructive c (aa_tool_name a))"
    using min_trust_lt [OF assms(1) th] lt
    by (auto simp: has_broken_commitments_def list_ex_iff threshold_for_def)
  show ?thesis
    using min_trust_lt [OF assms(1) th] dead by (auto simp: verdict_def block_reason_def)
qed

text \<open>
  The gate decides every action: over the proposed actions the approved and the blocked
  indices are complementary, no action is in both, each blocked one carries its reason, and when
  there are principals exactly one ledger update is produced per action.
\<close>

lemma alignment_partitions:
  assumes "check_alignment sha fresh as snap c tick = (approved, blocked, upd)"
  shows "set approved \<union> fst ` set blocked = {0..<length as}
    \<and> set approved \<inter> fst ` set blocked = {}
    \<and> distinct approved
    \<and> length upd = (if rs_principals snap = [] then 0 else length as)"
proof (cases "rs_principals snap = []")
  case True
  with assms show ?thesis by (auto simp: check_alignment_def)
next
  case False
  note iff = approved_iff [OF assms False]
  have blocked: "j \<in> fst ` set blocked \<longleftrightarrow> j < length as \<and> verdict c snap (as ! j) \<noteq> None" for j
  proof -
    have "j \<in> fst ` set blocked \<longleftrightarrow> (\<exists>r. (j, r) \<in> set blocked)" by force
    then show ?thesis by (simp add: iff(2))
  qed
  show ?thesis
    using distinct_approved [OF assms False] iff(3) False by (auto simp: iff(1,2) blocked)
qed

text \<open>
  C9. The trust gate is exact: when every compiled trust level is a number between 0 and 1 and the
  thresholds are ordered, an action is approved if and only if every principal's trust reaches
  the threshold of its tool, the higher one for a destructive tool. In particular the separate
  commitment check never blocks an action that the trust gate lets through.
\<close>

theorem approved_iff_trusted:
  assumes "check_alignment sha fresh as snap c tick = (approved, blocked, upd)"
    and "\<forall>p \<in> set (rs_principals snap). unit_f64 (sm_trust_level p)"
    and "unit_f64 (min_trust_for_action c)" "unit_f64 (min_trust_for_destructive c)"
    and "f64_le (min_trust_for_action c) (min_trust_for_destructive c)"
  shows "j \<in> set approved \<longleftrightarrow> j < length as \<and>
    (\<forall>p \<in> set (rs_principals snap). \<not> f64_lt (sm_trust_level p) (threshold_for c (aa_tool_name (as ! j))))"
proof (cases "rs_principals snap = []")
  case True
  with assms(1) show ?thesis by (auto simp: check_alignment_def)
next
  case False
  show ?thesis
    using approved_iff(1) [OF assms(1) False] verdict_None_iff [OF assms(2-5)] by simp
qed

text \<open>The gate on a trust level that is not a number.\<close>

lemma trust_step_nan:
  "rr_signal_type r = TrustUpdate \<Longrightarrow> map_of (rr_metadata r) ''trust_level'' = Some ''NaN'' \<Longrightarrow>
    trust_step r t = NaN"
proof -
  have "f64_parse ''NaN'' = Some NaN" by code_simp
  then show "rr_signal_type r = TrustUpdate \<Longrightarrow> map_of (rr_metadata r) ''trust_level'' = Some ''NaN'' \<Longrightarrow>
    trust_step r t = NaN"
    by (simp add: trust_step_def f64_clamp_def)
qed

lemma default_thresholds:
  "unit_f64 (min_trust_for_action align_config_default)"
  "unit_f64 (min_trust_for_destructive align_config_default)"
  "f64_le (min_trust_for_action align_config_default) (min_trust_for_destructive align_config_default)"
  "\<not> block_on_broken_commitments align_config_default"
proof -
  have "rndq (3 / 10) \<le> rndq (3 / 5)" by (rule rndq_mono) simp
  then show "unit_f64 (min_trust_for_action align_config_default)"
    "unit_f64 (min_trust_for_destructive align_config_default)"
    "f64_le (min_trust_for_action align_config_default) (min_trust_for_destructive align_config_default)"
    "\<not> block_on_broken_commitments align_config_default"
    using rndq_unit [of "3 / 10"] rndq_unit [of "3 / 5"]
    by (simp_all add: align_config_default_def f64_of_rat_small f64_le_def)
qed

lemma nan_approves:
  assumes "map sm_trust_level (rs_principals snap) = [NaN]"
  shows "verdict align_config_default snap a = None"
proof -
  have "min_trust snap = f64_MAX" using assms by (simp add: min_trust_def f64_min_def f64_MAX_def)
  moreover have "unit_f64 (threshold_for align_config_default (aa_tool_name a))"
    using default_thresholds by (simp add: threshold_for_def)
  then have "\<not> f64_lt f64_MAX (threshold_for align_config_default (aa_tool_name a))"
    by (auto simp: unit_f64_iff f64_MAX_def)
  ultimately show ?thesis
    using default_thresholds(4) by (simp add: verdict_def block_reason_def has_broken_commitments_def)
qed

text \<open>
  C10. A trust update whose text is \<open>NaN\<close> opens the gate: when the newest record of the only
  principal is such an update, the gate with the default configuration approves every action,
  destructive ones included, because the parsed value survives the clamp and the minimum over the
  principals ignores it.
\<close>

theorem nan_update_opens_gate:
  assumes "\<not> ml_poisoned l" "length (ml_records l) \<le> usize_MAX"
    and "rr_principal_id ` set (ml_records l) = {p}"
    and "principal_records p (ml_records l) = r # rs"
    and "rr_signal_type r = TrustUpdate" "map_of (rr_metadata r) ''trust_level'' = Some ''NaN''"
    and "compile_relationship_snapshot ch f64_exp show_uuid ledger_distinct_principals
      ledger_for_principal l None now t = Inr snap"
  shows "fst (check_alignment sha fresh as snap align_config_default tick) = [0..<length as]"
proof -
  have "rs_principals snap = [compile_principal ch f64_exp show_uuid None now p (r # rs)]"
    using mem_ledger.snapshot_summaries [OF assms(1,2), of ch f64_exp show_uuid None now t] assms(3,4,7)
    by auto
  then have one: "map sm_trust_level (rs_principals snap) = [NaN]"
    using trust_step_nan [OF assms(5,6)] by (simp add: compile_principal_def Let_def decay_trust_def)
  then have "check_alignment sha fresh as snap align_config_default tick =
      check_actions sha tick fresh align_config_default snap 0 as"
    by (auto simp: check_alignment_def)
  then show ?thesis
    by (simp add: check_actions_eq nan_approves [OF one] enumerate_eq_zip case_prod_unfold)
qed

section \<open>The step\<close>

text \<open>What the gate says about an action of the decision under the snapshot of the step.\<close>

definition action_verdict :: "relationship_snapshot \<Rightarrow> planned_action \<Rightarrow> string option" where
  "action_verdict snap a =
     (if rs_principals snap = [] then None else block_reason align_config_default snap (pa_tool_name a))"

lemma enumerate_pick:
  "map ((!) xs) (map fst (filter (\<lambda>(j, a). P a) (List.enumerate 0 (map f xs)))) = filter (P \<circ> f) xs"
proof -
  have "map ((!) (ys @ xs)) (map fst (filter (\<lambda>(j, a). P a) (List.enumerate (length ys) (map f xs)))) =
      filter (P \<circ> f) xs" for ys
  proof (induction xs arbitrary: ys)
    case (Cons x xs)
    from Cons.IH [of "ys @ [x]"] show ?case by simp
  qed simp
  from this [of "[]"] show ?thesis by simp
qed

lemma enumerate_pick_some:
  "map (\<lambda>(i, r). (xs ! i, r)) (List.map_filter (\<lambda>(j, a). map_option (Pair j) (g a)) (List.enumerate 0 (map f xs)))
   = List.map_filter (\<lambda>x. map_option (Pair x) (g (f x))) xs"
proof -
  have "map (\<lambda>(i, r). ((ys @ xs) ! i, r))
      (List.map_filter (\<lambda>(j, a). map_option (Pair j) (g a)) (List.enumerate (length ys) (map f xs))) =
      List.map_filter (\<lambda>x. map_option (Pair x) (g (f x))) xs" for ys
  proof (induction xs arbitrary: ys)
    case (Cons x xs)
    from Cons.IH [of "ys @ [x]"] show ?case by (simp add: map_filter_simps split: option.split)
  qed (simp add: map_filter_simps)
  from this [of "[]"] show ?thesis by simp
qed

lemma check_alignment_picks:
  fixes sha fresh snap tick xs
  defines "r \<equiv> check_alignment sha fresh
      (map (\<lambda>a. \<lparr>aa_tool_name = pa_tool_name a, aa_rationale = pa_rationale a\<rparr>) xs) snap align_config_default tick"
  shows "map ((!) xs) (fst r) = filter (\<lambda>a. action_verdict snap a = None) xs"
    and "map (\<lambda>(i, reason). (xs ! i, reason)) (fst (snd r)) =
      List.map_filter (\<lambda>a. map_option (Pair a) (action_verdict snap a)) xs"
proof -
  show "map ((!) xs) (fst r) = filter (\<lambda>a. action_verdict snap a = None) xs"
  proof (cases "rs_principals snap = []")
    case True
    then show ?thesis by (simp add: r_def check_alignment_def action_verdict_def map_nth)
  next
    case False
    then show ?thesis
      using enumerate_pick [of xs "\<lambda>a. verdict align_config_default snap a = None"
          "\<lambda>a. \<lparr>aa_tool_name = pa_tool_name a, aa_rationale = pa_rationale a\<rparr>"]
      by (simp add: r_def check_alignment_def check_actions_eq action_verdict_def verdict_def comp_def)
  qed
  show "map (\<lambda>(i, reason). (xs ! i, reason)) (fst (snd r)) =
      List.map_filter (\<lambda>a. map_option (Pair a) (action_verdict snap a)) xs"
  proof (cases "rs_principals snap = []")
    case True
    then show ?thesis by (simp add: r_def check_alignment_def action_verdict_def map_filter_def)
  next
    case False
    then show ?thesis
      using enumerate_pick_some [of xs "verdict align_config_default snap"
          "\<lambda>a. \<lparr>aa_tool_name = pa_tool_name a, aa_rationale = pa_rationale a\<rparr>"]
      by (simp add: r_def check_alignment_def check_actions_eq action_verdict_def verdict_def)
  qed
qed

text \<open>The ledger after the signals of the tick, from which the step compiles its snapshot.\<close>

definition step_ledger ::
  "('l, 'a, 'e, 'w) align_env \<Rightarrow> message_envelope list \<Rightarrow> uuid \<Rightarrow> ('l, 'a, 'e, 'w) align_world \<Rightarrow> 'l" where
  "step_ledger env msgs tick s = snd (process_relational_signals (ae_append env)
     (ae_get_artifact env (aw_artifacts s)) (ae_parse_signal env) tick
     (zip (map (ae_signal_id env) [0..<length msgs]) msgs) (aw_ledger s))"

definition step_snapshot ::
  "('l, 'a, 'e, 'w) align_env \<Rightarrow> message_envelope list \<Rightarrow> uuid \<Rightarrow> ('l, 'a, 'e, 'w) align_world \<Rightarrow>
   relationship_snapshot exo_result" where
  "step_snapshot env msgs tick s = compile_relationship_snapshot (ae_chrono env) (ae_exp env)
     (ae_show_uuid env) (ae_distinct_principals env) (ae_for_principal env) (step_ledger env msgs tick s)
     (ae_trust_decay env) (ae_now env) (ae_compiled_at env)"

lemma align_step_Inl:
  assumes "step_snapshot env msgs tick s = Inl e"
  shows "align_step env d msgs tick n s =
    (\<lparr>al_approved_actions = dr_actions d, al_blocked_actions = [], al_relationship_updates = [],
      al_relationship_snapshot = None\<rparr>, s\<lparr>aw_ledger := step_ledger env msgs tick s\<rparr>)"
  using assms by (simp add: align_step_def step_snapshot_def step_ledger_def case_prod_unfold)

lemma align_step_Inr:
  assumes "step_snapshot env msgs tick s = Inr snap"
  shows "al_approved_actions (fst (align_step env d msgs tick n s)) =
      filter (\<lambda>a. action_verdict snap a = None) (dr_actions d)"
    and "al_blocked_actions (fst (align_step env d msgs tick n s)) =
      List.map_filter (\<lambda>a. map_option (Pair a) (action_verdict snap a)) (dr_actions d)"
    and "al_relationship_snapshot (fst (align_step env d msgs tick n s)) = Some snap"
    and "aw_ledger (snd (align_step env d msgs tick n s)) = aw_ledger (log_requests env tick 0
      (al_blocked_actions (fst (align_step env d msgs tick n s))) (s\<lparr>aw_ledger := step_ledger env msgs tick s\<rparr>))"
    and "aw_events (snd (align_step env d msgs tick n s)) = aw_events (log_requests env tick 0
      (al_blocked_actions (fst (align_step env d msgs tick n s))) (s\<lparr>aw_ledger := step_ledger env msgs tick s\<rparr>))"
  using assms check_alignment_picks
  by (simp_all add: align_step_def step_snapshot_def step_ledger_def case_prod_unfold Let_def)

lemma log_requests_events:
  "aw_ledger (log_requests env tick k ars s) = aw_ledger s
   \<and> (\<exists>es. length es = length ars \<and> (\<forall>e \<in> set es. ev_event_type e = CapabilityRequest \<and> ev_tick_id e = Some tick)
      \<and> aw_events (log_requests env tick k ars s) = fold (ae_log_event env) es (aw_events s))"
proof (induction ars arbitrary: k s)
  case Nil
  then show ?case by simp
next
  case (Cons ar ars)
  define e where "e = request_event env tick k ar (fst (ae_put_artifact env
    (artifact_new (ae_sha256_hex env) (ae_request_created env k) AkEvent (ae_encode_request env
      (pa_tool_name (fst ar)) (snd ar) (pa_rationale (fst ar)) False) ''application/json'') (aw_artifacts s)))"
  have e: "ev_event_type e = CapabilityRequest" "ev_tick_id e = Some tick"
      "aw_events (log_request env tick k ar s) = ae_log_event env e (aw_events s)"
    and l: "aw_ledger (log_request env tick k ar s) = aw_ledger s"
    by (simp_all add: e_def request_event_def log_request_def case_prod_unfold Let_def)
  from Cons.IH [of "Suc k" "log_request env tick k ar s"] obtain es where
    es: "length es = length ars" "\<forall>e \<in> set es. ev_event_type e = CapabilityRequest \<and> ev_tick_id e = Some tick"
      "aw_events (log_requests env tick (Suc k) ars (log_request env tick k ar s)) =
        fold (ae_log_event env) es (aw_events (log_request env tick k ar s))"
    and l': "aw_ledger (log_requests env tick (Suc k) ars (log_request env tick k ar s)) = aw_ledger s"
    using l by auto
  have "length (e # es) = length (ar # ars)
      \<and> (\<forall>e \<in> set (e # es). ev_event_type e = CapabilityRequest \<and> ev_tick_id e = Some tick)
      \<and> aw_events (log_requests env tick k (ar # ars) s) = fold (ae_log_event env) (e # es) (aw_events s)"
    using e es by simp
  with l' show ?case by fastforce
qed

text \<open>
  C11. The Align step loses no action and invents none: when the snapshot compiles, the approved
  actions are those of the decision the gate does not block, in order, and the blocked ones are
  the others, each with the gate's reason; one capability request is logged for each blocked
  action. When it does not compile, every action passes and nothing is logged.
\<close>

theorem align_step_decides:
  "case step_snapshot env msgs tick s of
     Inl _ \<Rightarrow> al_approved_actions (fst (align_step env d msgs tick n s)) = dr_actions d
       \<and> al_blocked_actions (fst (align_step env d msgs tick n s)) = []
       \<and> aw_events (snd (align_step env d msgs tick n s)) = aw_events s
   | Inr snap \<Rightarrow>
       al_approved_actions (fst (align_step env d msgs tick n s)) =
         filter (\<lambda>a. action_verdict snap a = None) (dr_actions d)
       \<and> al_blocked_actions (fst (align_step env d msgs tick n s)) =
           map (\<lambda>a. (a, the (action_verdict snap a))) (filter (\<lambda>a. action_verdict snap a \<noteq> None) (dr_actions d))
       \<and> (\<exists>es. length es = length (filter (\<lambda>a. action_verdict snap a \<noteq> None) (dr_actions d))
           \<and> list_all (\<lambda>e. ev_event_type e = CapabilityRequest \<and> ev_tick_id e = Some tick) es
           \<and> aw_events (snd (align_step env d msgs tick n s)) = fold (ae_log_event env) es (aw_events s))"
proof (cases "step_snapshot env msgs tick s")
  case (Inl e)
  then show ?thesis by (simp add: align_step_Inl)
next
  case (Inr snap)
  have blocked: "List.map_filter (\<lambda>a. map_option (Pair a) (action_verdict snap a)) xs =
      map (\<lambda>a. (a, the (action_verdict snap a))) (filter (\<lambda>a. action_verdict snap a \<noteq> None) xs)" for xs
    by (induction xs) (auto simp: map_filter_simps)
  show ?thesis
    using log_requests_events [of env tick 0 "al_blocked_actions (fst (align_step env d msgs tick n s))"
        "s\<lparr>aw_ledger := step_ledger env msgs tick s\<rparr>"]
    by (simp add: Inr align_step_Inr blocked list_all_iff)
qed

section \<open>The properties at concrete inputs\<close>

definition sample_summary :: "uuid \<Rightarrow> f64 \<Rightarrow> principal_summary" where
  "sample_summary p t = \<lparr>sm_principal_id = p, sm_display_name = ''p'', sm_role = ''operator'',
     sm_trust_level = t, sm_active_commitments = 0, sm_last_interaction = None, sm_notes = None\<rparr>"

definition sample_snapshot :: relationship_snapshot where
  "sample_snapshot = \<lparr>rs_principals = [sample_summary 5 (Fin (1 / 2)), sample_summary 7 (Fin 1)],
     rs_compiled_at = 0\<rparr>"

definition sample_actions :: "align_action list" where
  "sample_actions = [\<lparr>aa_tool_name = ''fs.read'', aa_rationale = []\<rparr>,
     \<lparr>aa_tool_name = ''fs.write'', aa_rationale = []\<rparr>]"

lemma sample_snapshot_unit: "\<forall>p \<in> set (rs_principals sample_snapshot). unit_f64 (sm_trust_level p)"
  by (simp add: sample_snapshot_def sample_summary_def)

theorem approved_iff_trusted_witness:
  "(0 \<in> set (fst (check_alignment (\<lambda>_. ''c0ffee'') (\<lambda>i. (of_nat i, 0)) sample_actions sample_snapshot
       align_config_default 3)))
   \<and> 1 \<notin> set (fst (check_alignment (\<lambda>_. ''c0ffee'') (\<lambda>i. (of_nat i, 0)) sample_actions sample_snapshot
       align_config_default 3))"
proof -
  have "rndq (3 / 10) \<le> 1 / 2" "1 / 2 < rndq (3 / 5)" by code_simp+
  then have th: "\<not> f64_lt (Fin (1 / 2)) (threshold_for align_config_default ''fs.read'')"
    "\<not> f64_lt (Fin 1) (threshold_for align_config_default ''fs.read'')"
    "f64_lt (Fin (1 / 2)) (threshold_for align_config_default ''fs.write'')"
    by (simp_all add: threshold_for_def is_destructive_def align_config_default_def f64_of_rat_small)
  obtain approved blocked upd where r: "check_alignment (\<lambda>_. ''c0ffee'') (\<lambda>i. (of_nat i, 0)) sample_actions
      sample_snapshot align_config_default 3 = (approved, blocked, upd)" by (metis prod_cases3)
  show ?thesis
    using approved_iff_trusted [OF r sample_snapshot_unit default_thresholds(1-3), of 0]
      approved_iff_trusted [OF r sample_snapshot_unit default_thresholds(1-3), of 1] r th
    by (simp add: sample_actions_def sample_snapshot_def sample_summary_def)
qed

definition nan_ledger :: mem_ledger where
  "nan_ledger = \<lparr>ml_poisoned = False, ml_records = [sample_record 1 7 TrustUpdate [(''trust_level'', ''NaN'')] 10]\<rparr>"

theorem nan_update_opens_gate_witness:
  "\<exists>snap. compile_relationship_snapshot nanos_chrono flush_exp (\<lambda>_. ''id'') ledger_distinct_principals
      ledger_for_principal nan_ledger None 100 100 = Inr snap
    \<and> fst (check_alignment (\<lambda>_. ''c0ffee'') (\<lambda>i. (of_nat i, 0)) sample_actions snap align_config_default 3)
      = [0..<length sample_actions]"
proof -
  let ?r = "sample_record 1 7 TrustUpdate [(''trust_level'', ''NaN'')] 10"
  have l: "\<not> ml_poisoned nan_ledger" "length (ml_records nan_ledger) \<le> usize_MAX"
    "rr_principal_id ` set (ml_records nan_ledger) = {7}"
    "principal_records 7 (ml_records nan_ledger) = ?r # []"
    "rr_signal_type ?r = TrustUpdate" "map_of (rr_metadata ?r) ''trust_level'' = Some ''NaN''"
    by (simp_all add: nan_ledger_def usize_MAX_def sample_record_def principal_records_def sort_desc_def)
  obtain snap where snap: "compile_relationship_snapshot nanos_chrono flush_exp (\<lambda>_. ''id'')
      ledger_distinct_principals ledger_for_principal nan_ledger None 100 100 = Inr snap"
    using mem_ledger.snapshot_summaries [OF l(1,2)] by blast
  show ?thesis using snap nan_update_opens_gate [OF l snap] by blast
qed

end
