(* ===== verification/Decide.thy ===== *)
theory Decide
  imports Introspection Llm_Call Align_Gate Context_Compiler
begin

text \<open>
  The Decide step (\<open>exoskeleton-host/src/kernel/decide.rs\<close>): a bounded conversation with the language
  model. Introspection and cognitive tools are answered inline; the first turn with other tool calls
  ends the loop and hands them on as planned actions. The stores that introspection reads are given
  per call, the budget tracker among them is the current one.
\<close>

section \<open>Types and surroundings\<close>

record decision = decision_result +
  dc_reasoning :: string
  dc_reply :: "string option"
  dc_plan_update :: "plan_update option"
  dc_working_memory_ops :: "wm_op list option"
  dc_memory_notes :: "string list"
  dc_llm_call_record :: llm_call_record
  dc_response_artifact_id :: artifact_id
  dc_vessel_mode_request :: "vessel_mode option"

datatype threat_severity = SevNone | SevLow | SevMedium | SevHigh | SevCritical

record ('a, 'l, 't) decide_env =
  de_handler :: llm_handler
  de_arts :: "'a artifact_ops"
  de_alnum :: "string \<Rightarrow> bool"
  de_prompts :: prompt_registry
  de_vessel_id :: uuid
  de_mission :: string
  de_workspace_root :: "string option"
  de_sandbox_exists :: bool
  de_coding_enabled :: bool
  de_mode :: vessel_mode
  de_max_turns :: u32
  de_max_output_tokens :: u64
  de_capabilities :: "tool_descriptor list option"
  de_observatory_url :: "string option"
  de_intro :: intro_env
  de_view :: "nat \<Rightarrow> ('l, 't) stores_view"
  de_codec :: tool_codec
  de_cancelled_before :: bool
  de_cancelled :: "nat \<Rightarrow> bool" \<comment> \<open>at the start of a turn\<close>
  de_decision_json :: "string \<Rightarrow> cognitive_accumulator \<Rightarrow> json"
  de_decision_created :: datetime
  de_parse_thrash :: "string \<Rightarrow> f64 option" \<comment> \<open>serde_json on \<open>SelfCritique\<close>\<close>
  de_parse_severity :: "string \<Rightarrow> threat_severity option" \<comment> \<open>serde_json on \<open>ThreatAssessment\<close>\<close>

definition THREAT_MONITOR_ID :: uuid where
  "THREAT_MONITOR_ID = 0xcae10001000040008000000000000001"

definition SELF_CRITIQUE_ID :: uuid where
  "SELF_CRITIQUE_ID = 0xcae10002000040008000000000000002"

section \<open>The system prompt\<close>

definition render_environment_context :: "string option \<Rightarrow> bool \<Rightarrow> string" where
  "render_environment_context workspace_root sandbox_exists = join nl (
     (case workspace_root of
        Some root_dir \<Rightarrow> [''Active code workspace root: '' @ root_dir,
          ''Treat that workspace root as the default in-scope repository for code.* tools.'']
      | None \<Rightarrow> [''No explicit workspace root is configured for this vessel.'',
          ''Infer the in-scope repo from the task prompt, operator context, and recent successful reads.''])
     @ [''Do not assume /data or /data/workspace unless the task prompt or operator explicitly identifies those paths.'',
        ''The vessel state data directory is not your code workspace unless the task explicitly says so.'',
        (if sandbox_exists then ''The /sandbox directory is available as scratch space for sandbox.exec experiments.''
         else ''A /sandbox scratch directory may or may not be available depending on runtime; verify before relying on it.'')])"

fun plan_section :: "vessel_mode \<Rightarrow> string" where
  "plan_section MPlanning = ''You are in Planning mode. Restrict yourself to read-only external tools and use cognitive tools to draft or refine a plan.''"
| "plan_section MExecuting = ''You are in Executing mode. Follow the approved plan and use cognitive tools to update task status as work progresses.''"
| "plan_section MNormal = ''Use cognitive tools for plan, memory, mode, watch, and reply updates. External tool calls are threaded into Act automatically.''"

definition build_system_prompt :: "('a, 'l, 't) decide_env \<Rightarrow> string exo_result" where
  "build_system_prompt env = (case resolve (de_alnum env) (de_prompts env) ''decide-system''
       [(''vessel_id'', ie_show_uuid (de_intro env) (de_vessel_id env)), (''mission'', de_mission env),
        (''environment_context'', render_environment_context (de_workspace_root env) (de_sandbox_exists env))] of
     Inl e \<Rightarrow> Inl e
   | Inr system \<Rightarrow>
       if de_coding_enabled env \<or> de_mode env \<noteq> MNormal
       then (case resolve (de_alnum env) (de_prompts env) ''coding-system'' [(''plan_section'', plan_section (de_mode env))] of
               Inl _ \<Rightarrow> Inr system
             | Inr coding_section \<Rightarrow> Inr (system @ nl @ nl @ coding_section))
       else Inr system)"

section \<open>The backend\<close>

definition newest_output_artifact ::
  "('a, 'l, 't) decide_env \<Rightarrow> uuid \<Rightarrow> 'a llm_world \<Rightarrow> artifact option" where
  "newest_output_artifact env i w =
     (case ts_recent_outputs (sv_thread_ops (de_view env (lw_calls w))) (sv_threads (de_view env (lw_calls w))) i 1 of
        Inr (o1 # _) \<Rightarrow> (case ao_get (de_arts env) (lw_artifacts w) (to_artifact_id o1) of Inr a \<Rightarrow> a | Inl _ \<Rightarrow> None)
      | _ \<Rightarrow> None)"

definition extract_thrash_indicator :: "('a, 'l, 't) decide_env \<Rightarrow> 'a llm_world \<Rightarrow> f64 option" where
  "extract_thrash_indicator env w =
     Option.bind (newest_output_artifact env SELF_CRITIQUE_ID w) (\<lambda>a. de_parse_thrash env (af_content a))"

definition extract_high_threat :: "('a, 'l, 't) decide_env \<Rightarrow> 'a llm_world \<Rightarrow> bool" where
  "extract_high_threat env w =
     (case Option.bind (newest_output_artifact env THREAT_MONITOR_ID w) (\<lambda>a. de_parse_severity env (af_content a)) of
        Some s \<Rightarrow> s = SevHigh \<or> s = SevCritical
      | None \<Rightarrow> False)"

definition check_escalation_triggers :: "('a, 'l, 't) decide_env \<Rightarrow> 'a llm_world \<Rightarrow> tracker \<Rightarrow> bool" where
  "check_escalation_triggers env w t =
     (let policy = cb_escalation_policy (bt_config t) in
      if escalate_on_consecutive_failures policy \<le> consecutive_failures (bt_state t) then True
      else if (case extract_thrash_indicator env w of
                 Some x \<Rightarrow> f64_lt (escalate_on_uncertainty policy) x | None \<Rightarrow> False) then True
      else extract_high_threat env w)"

definition resolve_backend :: "('a, 'l, 't) decide_env \<Rightarrow> 'a llm_world \<Rightarrow> llm_backend" where
  "resolve_backend env w =
     (let h = de_handler env in
      case lw_tracker w of
        None \<Rightarrow> lh_default_backend h
      | Some t \<Rightarrow>
          if lh_tracker_poisoned h then lh_default_backend h
          else if lh_frontier h = None then lh_default_backend h
          else if \<not> check_escalation_triggers env w t then lh_default_backend h
          else if remaining_frontier_tokens t = 0 \<or> remaining_frontier_cost t = 0 then Local
          else if max_frontier_calls_per_window (cb_escalation_policy (bt_config t)) \<le> frontier_calls (bt_state t)
          then Local
          else Frontier)"

section \<open>One turn\<close>

definition resolve_introspection_tool ::
  "('a, 'l, 't) decide_env \<Rightarrow> 'a llm_world \<Rightarrow> string \<Rightarrow> json \<Rightarrow> string \<Rightarrow> content_block" where
  "resolve_introspection_tool env w name input call_id = (case introspection_tool_to_query (de_codec env) name input of
     Inr q \<Rightarrow>
       (let result = (case introspect (de_intro env) ((de_view env (lw_calls w))\<lparr>sv_tracker := lw_tracker w\<rparr>) q of
              Inr v \<Rightarrow> v | Inl e \<Rightarrow> JObj [(''error'', JStr (exo_error_display e))])
        in ToolResultBlock call_id (ao_json_text (de_arts env) result) (json_get result ''error'' \<noteq> None))
   | Inl e \<Rightarrow> ToolResultBlock call_id (exo_error_display e) True)"

definition resolve_cognitive_tool ::
  "('a, 'l, 't) decide_env \<Rightarrow> string \<Rightarrow> json \<Rightarrow> string \<Rightarrow> cognitive_accumulator \<Rightarrow> content_block \<times> cognitive_accumulator" where
  "resolve_cognitive_tool env name input call_id ac = (case process_cognitive_tool (de_codec env) name input of
     Inr r \<Rightarrow> (ToolResultBlock call_id ''ok'' False, accumulate_cognitive_outcome r ac)
   | Inl e \<Rightarrow> (ToolResultBlock call_id (exo_error_display e) True, ac))"

definition action_rationale :: "string \<Rightarrow> string \<Rightarrow> string" where
  "action_rationale reasoning tool_name =
     (if str_trim reasoning = [] then ''model selected '' @ tool_name else str_trim reasoning)"

definition planned :: "string \<Rightarrow> string \<Rightarrow> string \<Rightarrow> json \<Rightarrow> planned_action" where
  "planned reasoning call_id name input = \<lparr>pa_call_id = call_id, pa_tool_name = name, pa_params = input,
     pa_rationale = action_rationale reasoning name, pa_plan_task_id = None,
     pa_origin_exec_thread_id = None, pa_proposal_id = None\<rparr>"

fun process_block ::
  "('a, 'l, 't) decide_env \<Rightarrow> 'a llm_world \<Rightarrow> string \<Rightarrow> content_block \<Rightarrow>
   content_block list \<times> cognitive_accumulator \<Rightarrow> content_block list \<times> cognitive_accumulator" where
  "process_block env w reasoning (ToolUseBlock call_id name input) (results, ac) =
     (if is_introspection_tool name
      then (results @ [resolve_introspection_tool env w name input call_id], ac)
      else if is_cognitive_tool name
      then (let (r, ac') = resolve_cognitive_tool env name input call_id ac in (results @ [r], ac'))
      else (results, ac\<lparr>ac_actions := ac_actions ac @ [planned reasoning call_id name input]\<rparr>))"
| "process_block env w reasoning _ (results, ac) = (results, ac)"

definition decide_request ::
  "('a, 'l, 't) decide_env \<Rightarrow> string \<Rightarrow> llm_backend \<Rightarrow> llm_message list \<Rightarrow> llm_request" where
  "decide_request env system b messages = \<lparr>lr_backend = Some b, lr_system_prompt = Some system,
     lr_messages = messages, lr_max_output_tokens = de_max_output_tokens env,
     lr_temperature = Some (f64_of_rat (7 / 10)), lr_stop_sequences = [], lr_stream = True,
     lr_tools = build_decide_tools (de_capabilities env) (de_observatory_url env)\<rparr>"

text \<open>After a first turn the loop ends when the local budget is used up.\<close>

definition local_budget_gone :: "('a, 'l, 't) decide_env \<Rightarrow> 'a llm_world \<Rightarrow> bool" where
  "local_budget_gone env w = (case lw_tracker w of
     Some t \<Rightarrow> \<not> lh_tracker_poisoned (de_handler env) \<and> remaining_local_tokens t = 0
   | None \<Rightarrow> False)"

section \<open>The loop\<close>

record decide_progress =
  dp_messages :: "llm_message list"
  dp_records :: "llm_call_record list"
  dp_acc :: cognitive_accumulator
  dp_last :: "artifact_id option"

text \<open>The state after a response, and whether its inline results are to be sent back.\<close>

definition after_response ::
  "('a, 'l, 't) decide_env \<Rightarrow> 'a llm_world \<Rightarrow> direct_llm_result \<Rightarrow> decide_progress \<Rightarrow> decide_progress \<times> bool" where
  "after_response env w result p =
     (let resp = dl_response result; reasoning = response_text resp;
          ac1 = (if str_trim reasoning = [] then dp_acc p
                 else (dp_acc p)\<lparr>ac_reasoning_parts := ac_reasoning_parts (dp_acc p) @ [reasoning]\<rparr>);
          (results, ac2) = fold (process_block env w reasoning) (rp_content_blocks resp) ([], ac1);
          p' = \<lparr>dp_messages = dp_messages p @ [\<lparr>lm_role = RoleAssistant, lm_content = rp_content_blocks resp\<rparr>]
                  @ (if results = [] then [] else [\<lparr>lm_role = RoleUser, lm_content = results\<rparr>]),
                dp_records = dp_records p @ [dl_record result], dp_acc = ac2,
                dp_last = Some (dl_artifact_id result)\<rparr>
      in (p', \<not> length (ac_actions (dp_acc p)) < length (ac_actions ac2)
            \<and> rp_stop_reason resp = StopToolUse \<and> results \<noteq> []))"

text \<open>The first argument counts the turns left, the second is the number of the turn.\<close>

fun decide_loop ::
  "('a, 'l, 't) decide_env \<Rightarrow> string \<Rightarrow> llm_backend \<Rightarrow> nat \<Rightarrow> nat \<Rightarrow> decide_progress \<Rightarrow> 'a llm_world \<Rightarrow>
   decide_progress exo_result \<times> 'a llm_world" where
  "decide_loop env system b 0 turn p w = (Inr p, w)"
| "decide_loop env system b (Suc k) turn p w =
     (if de_cancelled env turn then (Inl (LlmInvocation ''cancelled during Decide loop''), w)
      else if 0 < turn \<and> local_budget_gone env w then (Inr p, w)
      else case handler_direct_llm_call (de_handler env) (de_arts env) (decide_request env system b (dp_messages p)) w of
        (Inl e, w') \<Rightarrow> (Inl e, w')
      | (Inr result, w') \<Rightarrow>
          (case after_response env w' result p of
             (p', True) \<Rightarrow> decide_loop env system b k (Suc turn) p' w'
           | (p', False) \<Rightarrow> (Inr p', w')))"

definition build_decision_result ::
  "('a, 'l, 't) decide_env \<Rightarrow> cognitive_accumulator \<Rightarrow> llm_call_record list \<Rightarrow> artifact_id \<Rightarrow> 'a llm_world \<Rightarrow>
   decision exo_result \<times> 'a llm_world" where
  "build_decision_result env ac records response_id w =
     (let reasoning = join nl (ac_reasoning_parts ac) in
      case store_json (de_arts env) (de_decision_created env) AkDecision (de_decision_json env reasoning ac) (lw_artifacts w) of
        (Inl e, arts) \<Rightarrow> (Inl e, w\<lparr>lw_artifacts := arts\<rparr>)
      | (Inr _, arts) \<Rightarrow>
          (Inr \<lparr>dr_actions = ac_actions ac, dr_watch_proposals = ac_watch_proposals ac,
             dc_reasoning = reasoning, dc_reply = ac_reply ac, dc_plan_update = ac_plan_update ac,
             dc_working_memory_ops = ac_wm_ops ac, dc_memory_notes = ac_memory_notes ac,
             dc_llm_call_record = (llm_call_merge records)\<lparr>lc_response_artifact_ref := Some response_id\<rparr>,
             dc_response_artifact_id = response_id, dc_vessel_mode_request = ac_vessel_mode_request ac\<rparr>,
           w\<lparr>lw_artifacts := arts\<rparr>))"

definition decide ::
  "('a, 'l, 't) decide_env \<Rightarrow> compiled_context \<Rightarrow> 'a llm_world \<Rightarrow> decision exo_result \<times> 'a llm_world" where
  "decide env orientation w =
     (if de_cancelled_before env then (Inl (LlmInvocation ''cancelled before Decide step''), w)
      else case build_system_prompt env of
        Inl e \<Rightarrow> (Inl e, w)
      | Inr system \<Rightarrow>
          (case decide_loop env system (resolve_backend env w) (unat (de_max_turns env)) 0
               \<lparr>dp_messages = [llm_message_text RoleUser (cc_prompt orientation)], dp_records = [],
                dp_acc = accumulator_default, dp_last = None\<rparr> w of
             (Inl e, w') \<Rightarrow> (Inl e, w')
           | (Inr p, w') \<Rightarrow> (case dp_last p of
               None \<Rightarrow> (Inl (LlmInvocation ''Decide produced no LLM response artifact''), w')
             | Some i \<Rightarrow> build_decision_result env (dp_acc p) (dp_records p) i w')))"

section \<open>What a decision consists of\<close>

text \<open>The actions that a response plans: its tool calls that are not answered inline.\<close>

fun external_action :: "string \<Rightarrow> content_block \<Rightarrow> planned_action option" where
  "external_action reasoning (ToolUseBlock call_id name input) =
     (if is_introspection_tool name \<or> is_cognitive_tool name then None else Some (planned reasoning call_id name input))"
| "external_action reasoning _ = None"

definition turn_actions :: "llm_response \<Rightarrow> planned_action list" where
  "turn_actions r = List.map_filter (external_action (response_text r)) (rp_content_blocks r)"

lemma turn_actions_latency [simp]: "turn_actions (r\<lparr>rp_latency_ms := l\<rparr>) = turn_actions r"
  by (simp add: turn_actions_def response_text_def)

lemma accumulate_actions [simp]: "ac_actions (accumulate_cognitive_outcome r ac) = ac_actions ac"
  by (simp add: accumulate_cognitive_outcome_def)

lemma process_block_actions:
  "ac_actions (snd (process_block env w reasoning blk (results, ac))) =
    ac_actions ac @ (case external_action reasoning blk of Some a \<Rightarrow> [a] | None \<Rightarrow> [])"
  by (cases blk) (auto simp: resolve_cognitive_tool_def split: sum.split)

lemma process_blocks_actions:
  "ac_actions (snd (fold (process_block env w reasoning) bs (results, ac))) =
    ac_actions ac @ List.map_filter (external_action reasoning) bs"
proof (induction bs arbitrary: results ac)
  case (Cons blk bs)
  obtain results' ac' where step: "process_block env w reasoning blk (results, ac) = (results', ac')" by force
  then have "ac_actions ac' = ac_actions ac @ (case external_action reasoning blk of Some a \<Rightarrow> [a] | None \<Rightarrow> [])"
    using process_block_actions [of env w reasoning blk results ac] by simp
  with step Cons [of results' ac'] show ?case by (auto simp: map_filter_simps split: option.splits)
qed (simp add: map_filter_simps)

lemma after_response_actions:
  assumes "after_response env w result p = (p', go_on)"
  shows "ac_actions (dp_acc p') = ac_actions (dp_acc p) @ turn_actions (dl_response result)"
    "go_on \<Longrightarrow> turn_actions (dl_response result) = []"
    "length (dp_records p') = Suc (length (dp_records p))" "dp_last p' \<noteq> None"
proof -
  define ac1 where "ac1 = (if str_trim (response_text (dl_response result)) = [] then dp_acc p
    else (dp_acc p)\<lparr>ac_reasoning_parts := ac_reasoning_parts (dp_acc p) @ [response_text (dl_response result)]\<rparr>)"
  obtain results ac2 where run: "fold (process_block env w (response_text (dl_response result)))
      (rp_content_blocks (dl_response result)) ([], ac1) = (results, ac2)" by force
  then have "ac_actions ac2 = ac_actions (dp_acc p) @ turn_actions (dl_response result)"
    using process_blocks_actions [of env w "response_text (dl_response result)" "rp_content_blocks (dl_response result)" "[]" ac1]
    by (simp add: turn_actions_def ac1_def)
  moreover have "dp_acc p' = ac2" "dp_records p' = dp_records p @ [dl_record result]" "dp_last p' \<noteq> None"
      "go_on \<Longrightarrow> \<not> length (ac_actions (dp_acc p)) < length (ac_actions ac2)"
    using assms run by (auto simp: after_response_def Let_def ac1_def [symmetric])
  ultimately show "ac_actions (dp_acc p') = ac_actions (dp_acc p) @ turn_actions (dl_response result)"
    "go_on \<Longrightarrow> turn_actions (dl_response result) = []"
    "length (dp_records p') = Suc (length (dp_records p))" "dp_last p' \<noteq> None" by auto
qed

lemma call_success:
  assumes "handler_direct_llm_call h ops req w = (Inr res, w')"
  shows "\<exists>f b resp. resolve_handler_backend h req = Inr (f, b) \<and> f (lw_calls w) req = Inr resp
    \<and> turn_actions (dl_response res) = turn_actions resp \<and> lw_calls w' = Suc (lw_calls w)"
  using assms
  by (auto simp: handler_direct_llm_call_def Let_def split: sum.splits prod.splits)

text \<open>The last call made so far, and that its response planned the actions.\<close>

definition last_turn :: "('a, 'l, 't) decide_env \<Rightarrow> 'a llm_world \<Rightarrow> planned_action list \<Rightarrow> bool" where
  "last_turn env w actions \<longleftrightarrow> (\<exists>f b req resp. resolve_handler_backend (de_handler env) req = Inr (f, b)
     \<and> 0 < lw_calls w \<and> f (lw_calls w - 1) req = Inr resp \<and> actions = turn_actions resp)"

lemma decide_loop_bounded: "lw_calls (snd (decide_loop env system b k turn p w)) \<le> lw_calls w + k"
proof (induction k arbitrary: turn p w)
  case (Suc k)
  obtain r w1 where call: "handler_direct_llm_call (de_handler env) (de_arts env)
      (decide_request env system b (dp_messages p)) w = (r, w1)" by force
  have one: "lw_calls w1 \<le> Suc (lw_calls w)" using call_counts_one(1) [OF call] .
  show ?case
  proof (cases r)
    case (Inr result)
    obtain p1 go_on where step: "after_response env w1 result p = (p1, go_on)" by force
    have "lw_calls (snd (decide_loop env system b k (Suc turn) p1 w1)) \<le> lw_calls w + Suc k"
      using Suc [of "Suc turn" p1 w1] one by simp
    then show ?thesis using call step Inr one by (cases go_on) auto
  qed (use call one in auto)
qed simp

lemma decide_loop_result:
  assumes "decide_loop env system b k turn p w = (Inr p', w')" "ac_actions (dp_acc p) = []"
    "dp_last p = None \<or> last_turn env w []"
  shows "(dp_last p' = None \<or> last_turn env w' (ac_actions (dp_acc p')))
    \<and> lw_calls w \<le> lw_calls w' \<and> length (dp_records p') = length (dp_records p) + (lw_calls w' - lw_calls w)
    \<and> (dp_last p = None \<longrightarrow> dp_last p' \<noteq> None \<longrightarrow> lw_calls w < lw_calls w')"
  using assms
proof (induction k arbitrary: turn p w)
  case (Suc k)
  obtain r w1 where call: "handler_direct_llm_call (de_handler env) (de_arts env)
      (decide_request env system b (dp_messages p)) w = (r, w1)" by force
  show ?case
  proof (cases "\<not> (de_cancelled env turn \<or> 0 < turn \<and> local_budget_gone env w) \<and> \<not> isl r")
    case True
    then obtain result where r: "r = Inr result" by (cases r) auto
    obtain p1 go_on where step: "after_response env w1 result p = (p1, go_on)" by force
    have "last_turn env w1 (turn_actions (dl_response result))" "lw_calls w1 = Suc (lw_calls w)"
      using call_success [of "de_handler env" "de_arts env" _ w result w1] call r by (fastforce simp: last_turn_def)+
    note after_response_actions [OF step]
    show ?thesis
    proof (cases go_on)
      case True
      then have "decide_loop env system b k (Suc turn) p1 w1 = (Inr p', w')"
        using Suc.prems(1) call r step \<open>\<not> (_ \<or> _) \<and> _\<close> by (auto split: if_splits)
      from Suc.IH [OF this] show ?thesis
        using \<open>last_turn env w1 _\<close> \<open>lw_calls w1 = _\<close> after_response_actions [OF step] True Suc.prems(2) by auto
    next
      case False
      then have "p' = p1" "w' = w1"
        using Suc.prems(1) call r step \<open>\<not> (_ \<or> _) \<and> _\<close> by (auto split: if_splits)
      then show ?thesis
        using \<open>last_turn env w1 _\<close> \<open>lw_calls w1 = _\<close> after_response_actions [OF step] Suc.prems(2) by auto
    qed
  next
    case False
    then have "p' = p" "w' = w" using Suc.prems(1) call by (cases r; auto split: if_splits)+
    then show ?thesis using Suc.prems by auto
  qed
qed auto

lemma merge_turns: "lc_turns (llm_call_merge rs) = of_nat (length rs)"
  by (cases rs) (simp_all add: llm_call_merge_def)

text \<open>
  C26. Deciding ends: whatever the model answers, the step makes at most as many calls as turns are
  allowed. A decision plans exactly the tool calls of the last response that were not answered
  inline, in order, and its call record counts the calls that were made.
\<close>

theorem decide_ends:
  "lw_calls (snd (decide env orientation w)) \<le> lw_calls w + unat (de_max_turns env)
   \<and> (case fst (decide env orientation w) of
        Inl _ \<Rightarrow> True
      | Inr d \<Rightarrow> lw_calls w < lw_calls (snd (decide env orientation w))
          \<and> lc_turns (dc_llm_call_record d) = of_nat (lw_calls (snd (decide env orientation w)) - lw_calls w)
          \<and> (\<exists>f b req resp. resolve_handler_backend (de_handler env) req = Inr (f, b)
              \<and> f (lw_calls (snd (decide env orientation w)) - 1) req = Inr resp \<and> dr_actions d = turn_actions resp))"
proof (cases "de_cancelled_before env \<or> isl (build_system_prompt env)")
  case True
  then show ?thesis by (cases "build_system_prompt env") (auto simp: decide_def)
next
  case False
  then obtain system where system: "build_system_prompt env = Inr system" "\<not> de_cancelled_before env"
    by (cases "build_system_prompt env") auto
  define p0 where "p0 = \<lparr>dp_messages = [llm_message_text RoleUser (cc_prompt orientation)], dp_records = [],
    dp_acc = accumulator_default, dp_last = None\<rparr>"
  obtain r w1 where loop: "decide_loop env system (resolve_backend env w) (unat (de_max_turns env)) 0 p0 w = (r, w1)" by force
  have bound: "lw_calls w1 \<le> lw_calls w + unat (de_max_turns env)"
    using decide_loop_bounded [of env system "resolve_backend env w" "unat (de_max_turns env)" 0 p0 w] loop by simp
  show ?thesis
  proof (cases "\<exists>p i. r = Inr p \<and> dp_last p = Some i")
    case True
    then obtain p i where p: "r = Inr p" "dp_last p = Some i" by blast
    have "last_turn env w1 (ac_actions (dp_acc p))" "lw_calls w < lw_calls w1" "length (dp_records p) = lw_calls w1 - lw_calls w"
      using decide_loop_result [of env system _ "unat (de_max_turns env)" 0 p0 w p w1] loop p
      by (auto simp: p0_def accumulator_default_def)
    moreover from this have "lc_turns (llm_call_merge (dp_records p)) = of_nat (lw_calls w1 - lw_calls w)"
      using merge_turns [of "dp_records p"] by (simp only:)
    ultimately show ?thesis
      using system loop p bound
      by (auto simp: decide_def p0_def [symmetric] build_decision_result_def store_json_def Let_def last_turn_def
          split: sum.splits prod.splits)
  next
    case False
    then show ?thesis using system loop bound
      by (cases r) (auto simp: decide_def p0_def [symmetric] split: option.splits)
  qed
qed

text \<open>
  Escalation respects the frontier budget: when the local model is the default, the frontier
  model is chosen only while tokens, cost and calls of its window are left and a trigger holds.
\<close>

lemma escalation_within_budget:
  assumes "lh_default_backend (de_handler env) = Local" "resolve_backend env w = Frontier"
  shows "\<exists>t. lw_tracker w = Some t \<and> 0 < remaining_frontier_tokens t \<and> 0 < remaining_frontier_cost t
    \<and> frontier_calls (bt_state t) < max_frontier_calls_per_window (cb_escalation_policy (bt_config t))
    \<and> check_escalation_triggers env w t"
  using assms by (auto simp: resolve_backend_def Let_def word_neq_0_conv not_le split: option.splits if_splits)

definition silent_handler :: llm_handler where
  "silent_handler = \<lparr>lh_default_backend = Local, lh_local = Some (\<lambda>_ _. Inl (LlmInvocation ''down'')),
     lh_frontier = Some (\<lambda>_ _. Inl (LlmInvocation ''down'')), lh_latency_ms = (\<lambda>_. 0), lh_created = (\<lambda>_. 0),
     lh_encode = (\<lambda>_. Inr ''{}''), lh_tracker_poisoned = False\<rparr>"

definition plain_arts :: "artifact sql_db artifact_ops" where
  "plain_arts = \<lparr>ao_sha256_hex = id, ao_json_text = (\<lambda>_. ''{}''), ao_put = artifact_put, ao_get = artifact_get\<rparr>"

definition plain_decide_env :: "(artifact sql_db, mem_ledger, mem_threads) decide_env" where
  "plain_decide_env = \<lparr>de_handler = silent_handler, de_arts = plain_arts, de_alnum = (\<lambda>_. True), de_prompts = [],
     de_vessel_id = 1, de_mission = ''m'', de_workspace_root = None, de_sandbox_exists = False,
     de_coding_enabled = False, de_mode = MNormal, de_max_turns = 5, de_max_output_tokens = 100,
     de_capabilities = None, de_observatory_url = None, de_intro = plain_intro, de_view = (\<lambda>_. empty_view),
     de_codec = \<lparr>tc_plan_update = (\<lambda>_. Inl ''none''), tc_wm_ops = (\<lambda>_. Inl ''none''),
       tc_watch_proposal = (\<lambda>_. Inl ''none''), tc_vessel_mode = (\<lambda>_. Inl ''none''), tc_strings = (\<lambda>_. None)\<rparr>,
     de_cancelled_before = False, de_cancelled = (\<lambda>_. False), de_decision_json = (\<lambda>_ _. JNull),
     de_decision_created = 0, de_parse_thrash = (\<lambda>_. None), de_parse_severity = (\<lambda>_. None)\<rparr>"

definition failing_tracker :: tracker where
  "failing_tracker = \<lparr>bt_config = cognitive_budget_default,
     bt_state = \<lparr>window_start = 0, local_tokens_consumed = 0, frontier_tokens_consumed = 0, frontier_cost_consumed = 0,
       frontier_calls = 0, per_thread_consumed = [], consecutive_failures = 3, tick_tokens_this_tick = 0\<rparr>,
     bt_thrash_level = ThrashNone\<rparr>"

end
