(* ===== verification/Act_Step.thy ===== *)
theory Act_Step
  imports Virtual_Tools Align_Gate Tokens
begin

text \<open>
  The Act step (\<open>exoskeleton-host/src/kernel/act.rs\<close>): the one place where a tick calls tools. Every
  approved action passes the tool budget gate, the read-before-write check, the check of its
  target path and the tool policy before it is invoked on the WorldInterface host.

  The host, its connectors and the file system are the outside world, a state \<open>'h\<close> that only
  invocations change. Readings that other threads may change between two actions (the vessel mode,
  the approvals, cancellation, contention on the gate) are functions of the position of the action.
  A panic at a byte index inside a character ends the step: the result \<open>None\<close>. Live broadcasts and metrics
  are left out.
\<close>

section \<open>Types and surroundings\<close>

datatype code_diff_operation = DiffEdit | DiffWrite | DiffCreate | DiffPatch

record code_diff_content =
  cd_file_path :: string
  cd_tool_name :: string
  cd_operation :: code_diff_operation
  cd_diff_text :: string
  cd_lines_added :: i64
  cd_lines_removed :: i64
  cd_before_sha256 :: "string option"
  cd_after_sha256 :: "string option"

record action_execution =
  xn_action :: planned_action
  xn_result :: "string + json"
  xn_record :: action_record
  xn_tool_result :: content_block
  xn_pending_question :: bool
  xn_code_diff :: "(artifact_id \<times> code_diff_content) option"

datatype host_slot = SlotLocked | SlotEmpty | SlotReady

record ('h, 'a, 'e) act_env =
  xe_slot :: host_slot
  xe_arts :: "'a artifact_ops"
  xe_describe :: "'h \<Rightarrow> string \<Rightarrow> tool_descriptor option"
  xe_invoke :: "string \<Rightarrow> json \<Rightarrow> 'h \<Rightarrow> (string + json) \<times> 'h"
  xe_internal_error :: "string \<Rightarrow> string" \<comment> \<open>the text of \<open>HostError::InternalError\<close>\<close>
  xe_path_exists :: "'h \<Rightarrow> string \<Rightarrow> bool"
  xe_path_is_file :: "'h \<Rightarrow> string \<Rightarrow> bool"
  xe_encode_diff :: "code_diff_content \<Rightarrow> string option"
  xe_log_event :: "event_entry \<Rightarrow> 'e \<Rightarrow> 'e"
  xe_latest_tick :: "tick_record option exo_result"
  xe_tick_range :: "u64 \<Rightarrow> u64 \<Rightarrow> tick_record list exo_result"
  xe_gate_poisoned :: bool
  xe_gate_free :: "nat \<Rightarrow> bool" \<comment> \<open>\<open>try_lock\<close> succeeds\<close>
  xe_mode :: "nat \<Rightarrow> vessel_mode"
  xe_policy :: tool_policy_config
  xe_approvals :: "nat \<Rightarrow> session_approvals"
  xe_translate :: "nat \<Rightarrow> translate_env"
  xe_fresh :: "nat \<Rightarrow> uuid \<times> datetime"
  xe_created :: "nat \<Rightarrow> datetime"
  xe_diff_created :: "nat \<Rightarrow> datetime"
  xe_cancelled :: "nat \<Rightarrow> bool"

record ('h, 'a, 'e) act_world =
  xw_host :: 'h
  xw_artifacts :: 'a
  xw_events :: 'e
  xw_gate :: "tool_budget_gate option"
  xw_read_paths :: "string list"

section \<open>Helpers\<close>

definition MAX_TOOL_RESULT_CHARS :: nat where
  "MAX_TOOL_RESULT_CHARS = 4000"

definition tool_result_content :: "(json \<Rightarrow> string) \<Rightarrow> string + json \<Rightarrow> string \<times> bool" where
  "tool_result_content json_text v =
     (let raw = (case v of Inr j \<Rightarrow> json_text j | Inl e \<Rightarrow> e);
          cut = (if char_count raw > MAX_TOOL_RESULT_CHARS
                 then concat (take (MAX_TOOL_RESULT_CHARS - 3) (utf8_chars raw)) @ ''...'' else raw)
      in (cut, isl v))"

definition extract_action_path :: "json \<Rightarrow> string option" where
  "extract_action_path params = (case json_get_str params ''file_path'' of
     Some p \<Rightarrow> Some p | None \<Rightarrow> json_get_str params ''path'')"

definition resolved_action_path :: "string \<Rightarrow> json \<Rightarrow> json option \<Rightarrow> string option" where
  "resolved_action_path tool params result_value =
     (case (if tool = ''code.read_symbol'' then Option.bind result_value (\<lambda>v. json_get_str v ''file_path'') else None) of
        Some p \<Rightarrow> Some p
      | None \<Rightarrow> extract_action_path params)"

definition action_target_summary :: "(json \<Rightarrow> string) \<Rightarrow> planned_action \<Rightarrow> string" where
  "action_target_summary json_text a = (case extract_action_path (pa_params a) of
     Some p \<Rightarrow> p | None \<Rightarrow> json_text (pa_params a))"

definition action_target_summary_with_result ::
  "(json \<Rightarrow> string) \<Rightarrow> planned_action \<Rightarrow> json option \<Rightarrow> string" where
  "action_target_summary_with_result json_text a v =
     (case resolved_action_path (pa_tool_name a) (pa_params a) v of
        Some p \<Rightarrow> p | None \<Rightarrow> action_target_summary json_text a)"

definition is_read_action_type :: "string \<Rightarrow> bool" where
  "is_read_action_type tool \<longleftrightarrow> List.member [''code.read'', ''code.read_symbol'', ''fs.read''] tool"

definition is_mutating_action_type :: "string \<Rightarrow> bool" where
  "is_mutating_action_type tool \<longleftrightarrow>
     List.member [''code.edit'', ''code.write'', ''code.apply_patch'', ''fs.write''] tool"

datatype path_requirement = ExistingFile | ExistingPath

definition path_requirement_for_tool :: "string \<Rightarrow> path_requirement option" where
  "path_requirement_for_tool tool =
     (if List.member [''code.read'', ''fs.read'', ''code.edit'', ''code.apply_patch''] tool then Some ExistingFile
      else if List.member [''code.grep'', ''code.ls'', ''code.glob'', ''repo.context'', ''repo.locate'',
        ''code.symbol'', ''code.read_symbol'', ''code.references'', ''code.impls'', ''code.test''] tool
      then Some ExistingPath else None)"

text \<open>The complaint about a path that does not meet the requirement of the tool.\<close>

definition path_problem ::
  "('h, 'a, 'e) act_env \<Rightarrow> 'h \<Rightarrow> string \<Rightarrow> string \<Rightarrow> string option" where
  "path_problem env h tool path = (case path_requirement_for_tool tool of
     None \<Rightarrow> None
   | Some ExistingFile \<Rightarrow>
       if \<not> xe_path_exists env h path then Some (''target file does not exist: '' @ path)
       else if \<not> xe_path_is_file env h path then Some (''target path is not a file: '' @ path)
       else None
   | Some ExistingPath \<Rightarrow>
       if \<not> xe_path_exists env h path then Some (''target path does not exist: '' @ path) else None)"

definition validate_action_target_path ::
  "('h, 'a, 'e) act_env \<Rightarrow> 'h \<Rightarrow> string \<Rightarrow> json \<Rightarrow> (string \<times> json) option" where
  "validate_action_target_path env h tool params =
     Option.bind (extract_action_path params) (\<lambda>path. map_option (\<lambda>err. (err, JObj [
       (''error'', JStr err), (''tool'', JStr tool), (''params'', params),
       (''validation'', JStr ''preflight_target_path'')])) (path_problem env h tool path))"

text \<open>\<open>Map::extend\<close>.\<close>

definition extend_object :: "(string \<times> json) list \<Rightarrow> json \<Rightarrow> (string \<times> json) list" where
  "extend_object kvs extra = (case extra of JObj extras \<Rightarrow> fold (\<lambda>(k, v). AList.update k v) extras kvs | _ \<Rightarrow> kvs)"

definition build_error_receipt ::
  "('h, 'a, 'e) act_env \<Rightarrow> nat \<Rightarrow> string \<Rightarrow> json \<Rightarrow> string \<Rightarrow> json \<Rightarrow> 'a \<Rightarrow> artifact_id option \<times> 'a" where
  "build_error_receipt env i tool params msg extra arts =
     (let v = JObj (extend_object [(''error'', JStr msg), (''tool'', JStr tool), (''params'', params)] extra);
          (r, arts') = store_json (xe_arts env) (xe_created env i) AkReceipt v arts
      in (ok_option r, arts'))"

datatype recent_path_context = CtxRead | CtxMutation

fun first_context :: "string \<Rightarrow> action_record list \<Rightarrow> recent_path_context option" where
  "first_context path [] = None"
| "first_context path (a # as) =
     (if ar_outcome a \<noteq> Success \<or> ar_target a \<noteq> path then first_context path as
      else if is_read_action_type (ar_action_type a) then Some CtxRead
      else if is_mutating_action_type (ar_action_type a) then Some CtxMutation
      else first_context path as)"

definition recent_path_context ::
  "('h, 'a, 'e) act_env \<Rightarrow> string list \<Rightarrow> string \<Rightarrow> recent_path_context option" where
  "recent_path_context env read_paths path =
     (if path \<in> set read_paths then Some CtxRead
      else case xe_latest_tick env of
          Inr (Some latest) \<Rightarrow>
            (case xe_tick_range env (sat_sub (tr_tick_number latest) 3) (tr_tick_number latest) of
               Inr ticks \<Rightarrow> first_context path (concat (map (\<lambda>t. rev (tr_actions_taken t)) (rev ticks)))
             | Inl _ \<Rightarrow> None)
        | _ \<Rightarrow> None)"

definition satisfies_read_before_write ::
  "('h, 'a, 'e) act_env \<Rightarrow> string list \<Rightarrow> string \<Rightarrow> string \<Rightarrow> bool" where
  "satisfies_read_before_write env read_paths tool path =
     (case recent_path_context env read_paths path of
        Some CtxRead \<Rightarrow> True
      | Some CtxMutation \<Rightarrow> tool = ''code.edit'' \<or> tool = ''code.apply_patch''
      | None \<Rightarrow> False)"

definition diff_operation :: "string \<Rightarrow> json \<Rightarrow> code_diff_operation" where
  "diff_operation tool v =
     (if tool = ''code.edit'' then DiffEdit
      else if tool = ''code.apply_patch'' then DiffPatch
      else if tool = ''code.write'' then
        (if Option.bind (json_get v ''created'') json_as_bool = Some True then DiffCreate else DiffWrite)
      else DiffEdit)"

text \<open>
  The diff that a successful result of a mutating code tool describes; \<open>?\<close> on a missing or
  mistyped field ends with no diff.
\<close>

definition code_diff_of :: "string \<Rightarrow> tool_descriptor option \<Rightarrow> json \<Rightarrow> code_diff_content option" where
  "code_diff_of tool descriptor v =
     (case descriptor of
        None \<Rightarrow> None
      | Some desc \<Rightarrow>
          if \<not> td_is_mutating desc \<or> td_category desc \<noteq> CatCode then None
          else case json_get v ''diff'' of
              None \<Rightarrow> None
            | Some diff \<Rightarrow>
                if diff = JNull then None
                else Option.bind (json_get_str v ''file_path'') (\<lambda>file_path.
                  Option.bind (json_get_str diff ''unified'') (\<lambda>unified.
                  Option.bind (json_get diff ''lines_added'') (\<lambda>added.
                  Option.bind (json_get diff ''lines_removed'') (\<lambda>removed.
                  Some \<lparr>cd_file_path = file_path, cd_tool_name = tool, cd_operation = diff_operation tool v,
                    cd_diff_text = unified,
                    cd_lines_added = (case json_as_i64 added of Some n \<Rightarrow> n | None \<Rightarrow> 0),
                    cd_lines_removed = (case json_as_i64 removed of Some n \<Rightarrow> n | None \<Rightarrow> 0),
                    cd_before_sha256 = None, cd_after_sha256 = None\<rparr>)))))"

definition try_extract_code_diff ::
  "('h, 'a, 'e) act_env \<Rightarrow> nat \<Rightarrow> string \<Rightarrow> tool_descriptor option \<Rightarrow> json \<Rightarrow> 'a \<Rightarrow>
   (artifact_id \<times> code_diff_content) option \<times> 'a" where
  "try_extract_code_diff env i tool descriptor v arts = (case code_diff_of tool descriptor v of
     None \<Rightarrow> (None, arts)
   | Some content \<Rightarrow>
       (case xe_encode_diff env content of
          None \<Rightarrow> (None, arts)
        | Some tx \<Rightarrow>
            (case ao_put (xe_arts env) (artifact_new (ao_sha256_hex (xe_arts env)) (xe_diff_created env i)
                AkCodeDiff tx ''application/json'') arts of
               (Inr aid, arts') \<Rightarrow> (Some (aid, content), arts')
             | (Inl _, arts') \<Rightarrow> (None, arts'))))"

section \<open>One action\<close>

text \<open>An action that is not invoked, or whose invocation is not recorded in full: its error text.\<close>

definition refused ::
  "planned_action \<Rightarrow> string \<Rightarrow> artifact_id option \<Rightarrow> action_outcome \<Rightarrow> string \<Rightarrow> action_execution" where
  "refused a target receipt_ref outcome err = \<lparr>
     xn_action = a,
     xn_result = Inl err,
     xn_record = \<lparr>ar_action_type = pa_tool_name a, ar_target = target, ar_receipt_ref = receipt_ref,
       ar_outcome = outcome, ar_origin_exec_thread_id = pa_origin_exec_thread_id a,
       ar_proposal_id = pa_proposal_id a\<rparr>,
     xn_tool_result = ToolResultBlock (pa_call_id a) err True,
     xn_pending_question = False,
     xn_code_diff = None\<rparr>"

definition act_event ::
  "('h, 'a, 'e) act_env \<Rightarrow> uuid \<Rightarrow> nat \<Rightarrow> event_type \<Rightarrow> artifact_id option \<Rightarrow> string \<Rightarrow> event_entry" where
  "act_event env tick_id i ty payload_ref summary = \<lparr>
     ev_id = fst (xe_fresh env i), ev_tick_id = Some tick_id, ev_event_type = ty,
     ev_payload_ref = payload_ref, ev_summary = summary, ev_timestamp = snd (xe_fresh env i)\<rparr>"

definition log_act ::
  "('h, 'a, 'e) act_env \<Rightarrow> uuid \<Rightarrow> nat \<Rightarrow> event_type \<Rightarrow> artifact_id option \<Rightarrow> string \<Rightarrow>
   ('h, 'a, 'e) act_world \<Rightarrow> ('h, 'a, 'e) act_world" where
  "log_act env tick_id i ty payload_ref summary w =
     w\<lparr>xw_events := xe_log_event env (act_event env tick_id i ty payload_ref summary) (xw_events w)\<rparr>"

definition act_descriptor ::
  "('h, 'a, 'e) act_env \<Rightarrow> 'h \<Rightarrow> string \<Rightarrow> tool_descriptor option" where
  "act_descriptor env h tool =
     (if is_virtual_tool tool then List.find (\<lambda>d. td_name d = tool) virtual_tool_descriptors
      else xe_describe env h tool)"

definition gate_blocks :: "('h, 'a, 'e) act_env \<Rightarrow> ('h, 'a, 'e) act_world \<Rightarrow> bool" where
  "gate_blocks env w = (case xw_gate w of
     None \<Rightarrow> False
   | Some g \<Rightarrow> \<not> xe_gate_poisoned env \<and> \<not> gate_check g)"

definition read_missing ::
  "('h, 'a, 'e) act_env \<Rightarrow> ('h, 'a, 'e) act_world \<Rightarrow> tool_descriptor option \<Rightarrow> planned_action \<Rightarrow> string option" where
  "read_missing env w descriptor a = (case descriptor of
     None \<Rightarrow> None
   | Some desc \<Rightarrow>
       if \<not> td_requires_read_before_write desc then None
       else case extract_action_path (pa_params a) of
           None \<Rightarrow> None
         | Some path \<Rightarrow>
             if xe_path_exists env (xw_host w) path
                \<and> \<not> satisfies_read_before_write env (xw_read_paths w) (pa_tool_name a) path
             then Some path else None)"

definition act_target ::
  "('h, 'a, 'e) act_env \<Rightarrow> nat \<Rightarrow> planned_action \<Rightarrow> 'a \<Rightarrow>
   (string \<times> json \<times> virtual_context option) exo_result \<times> 'a" where
  "act_target env i a arts =
     (if is_virtual_tool (pa_tool_name a) then
        (case translate (xe_arts env) (xe_translate env i) (pa_tool_name a) (pa_params a) arts of
           (Inl e, arts') \<Rightarrow> (Inl e, arts')
         | (Inr (tool, ps, ctx), arts') \<Rightarrow> (Inr (tool, ps, Some ctx), arts'))
      else (Inr (pa_tool_name a, pa_params a, None), arts))"

definition processed_result ::
  "('h, 'a, 'e) act_env \<Rightarrow> virtual_context option \<Rightarrow> string + json \<Rightarrow> string + json" where
  "processed_result env ctx raw = (case ctx of
     None \<Rightarrow> raw
   | Some c \<Rightarrow> (case post_process c raw of Inr v \<Rightarrow> Inr v | Inl e \<Rightarrow> Inl (xe_internal_error env e)))"

text \<open>The outcome of an invocation: the result, its receipt and its diff.\<close>

definition invocation_outcome ::
  "('h, 'a, 'e) act_env \<Rightarrow> nat \<Rightarrow> planned_action \<Rightarrow> tool_descriptor option \<Rightarrow> 'h \<Rightarrow> string + json \<Rightarrow> 'a \<Rightarrow>
   (string + json) \<times> artifact_id option \<times> (artifact_id \<times> code_diff_content) option \<times> 'a" where
  "invocation_outcome env i a descriptor h result arts = (case result of
     Inr v \<Rightarrow>
       (let (r, arts1) = store_json (xe_arts env) (xe_created env i) AkReceipt v arts;
            (diff, arts2) = try_extract_code_diff env i (pa_tool_name a) descriptor v arts1
        in (Inr v, ok_option r, diff, arts2))
   | Inl e \<Rightarrow>
       (let msg = (case Option.bind (extract_action_path (pa_params a)) (path_problem env h (pa_tool_name a)) of
              Some problem \<Rightarrow> problem @ '' (underlying error: '' @ e @ '')''
            | None \<Rightarrow> e);
            (receipt, arts1) = build_error_receipt env i (pa_tool_name a) (pa_params a) msg
              (JObj [(''underlying_error'', JStr e)]) arts
        in (Inl msg, receipt, None, arts1)))"

text \<open>The summary of the event; \<open>None\<close> is the panic of \<open>&json_str[..497]\<close>.\<close>

definition result_summary :: "(json \<Rightarrow> string) \<Rightarrow> string + json \<Rightarrow> string option" where
  "result_summary json_text result = (case result of
     Inl e \<Rightarrow> Some (''failed: '' @ e)
   | Inr v \<Rightarrow>
       (let tx = json_text v
        in if length tx > 500
           then map_option (\<lambda>s. ''succeeded '' @ em_dash @ '' '' @ s @ ''...'') (slice_to 497 tx)
           else Some (''succeeded '' @ em_dash @ '' '' @ tx)))"

definition record_gate ::
  "('h, 'a, 'e) act_env \<Rightarrow> nat \<Rightarrow> tool_budget_gate option \<Rightarrow> tool_budget_gate option" where
  "record_gate env i gate =
     (if xe_gate_poisoned env \<or> \<not> xe_gate_free env i then gate else map_option gate_record_invocation gate)"

definition tracked_paths ::
  "planned_action \<Rightarrow> tool_descriptor option \<Rightarrow> string + json \<Rightarrow> string list \<Rightarrow> string list" where
  "tracked_paths a descriptor result paths = (case result of
     Inl _ \<Rightarrow> paths
   | Inr v \<Rightarrow>
       (case (descriptor, resolved_action_path (pa_tool_name a) (pa_params a) (Some v)) of
          (Some desc, Some path) \<Rightarrow> if td_is_read_only desc then List.insert path paths else paths
        | _ \<Rightarrow> paths))"

definition is_pending :: "planned_action \<Rightarrow> string + json \<Rightarrow> bool" where
  "is_pending a result \<longleftrightarrow> pa_tool_name a = AGENT_ASK_USER \<and>
     (case result of Inr v \<Rightarrow> json_get_str v ''status'' = Some ''pending'' | Inl _ \<Rightarrow> False)"

text \<open>
  How one action ends: refused before or at the call (the loop goes on without looking at
  cancellation), executed, or panicked.
\<close>

datatype act_end = Refused action_execution | Executed action_execution | Panicked

definition act_invoke ::
  "('h, 'a, 'e) act_env \<Rightarrow> uuid \<Rightarrow> nat \<Rightarrow> planned_action \<Rightarrow> tool_descriptor option \<Rightarrow>
   ('h, 'a, 'e) act_world \<Rightarrow> act_end \<times> ('h, 'a, 'e) act_world" where
  "act_invoke env tick_id i a descriptor w =
     (let json_text = ao_json_text (xe_arts env) in
      case act_target env i a (xw_artifacts w) of
        (Inl e, arts) \<Rightarrow>
          (Refused (refused a (action_target_summary json_text a) None Failure (exo_error_display e)),
           w\<lparr>xw_artifacts := arts\<rparr>)
      | (Inr (tool, ps, ctx), arts) \<Rightarrow>
          (let (raw, h) = xe_invoke env tool ps (xw_host w);
               (result, receipt, diff, arts1) =
                 invocation_outcome env i a descriptor h (processed_result env ctx raw) arts;
               w1 = w\<lparr>xw_host := h, xw_artifacts := arts1\<rparr>;
               exn = \<lparr>xn_action = a, xn_result = result,
                 xn_record = \<lparr>ar_action_type = pa_tool_name a,
                   ar_target = action_target_summary_with_result json_text a (case result of Inr v \<Rightarrow> Some v | Inl _ \<Rightarrow> None),
                   ar_receipt_ref = receipt, ar_outcome = (if isl result then Failure else Success),
                   ar_origin_exec_thread_id = pa_origin_exec_thread_id a, ar_proposal_id = pa_proposal_id a\<rparr>,
                 xn_tool_result = (let (content, is_error) = tool_result_content json_text result
                   in ToolResultBlock (pa_call_id a) content is_error),
                 xn_pending_question = is_pending a result, xn_code_diff = diff\<rparr>
           in case result_summary json_text result of
               None \<Rightarrow> (Panicked, w1)
             | Some summary \<Rightarrow>
                 let w2 = log_act env tick_id i ActionExecuted receipt (''Action '' @ pa_tool_name a @ '': '' @ summary) w1
                 in (Executed exn, w2\<lparr>xw_gate := record_gate env i (xw_gate w2),
                      xw_read_paths := tracked_paths a descriptor result (xw_read_paths w2)\<rparr>)))"

definition act_one ::
  "('h, 'a, 'e) act_env \<Rightarrow> uuid \<Rightarrow> nat \<Rightarrow> planned_action \<Rightarrow> ('h, 'a, 'e) act_world \<Rightarrow>
   act_end \<times> ('h, 'a, 'e) act_world" where
  "act_one env tick_id i a w =
     (let json_text = ao_json_text (xe_arts env);
          tool = pa_tool_name a;
          target = action_target_summary json_text a;
          descriptor = act_descriptor env (xw_host w) tool
      in if gate_blocks env w then
           (Refused (refused a (json_text (pa_params a)) None RateLimited ''rate_limited''),
            log_act env tick_id i ActionExecuted None
              (''Action '' @ tool @ '': rate-limited ('' @ pa_rationale a @ '')'') w)
         else case read_missing env w descriptor a of
             Some path \<Rightarrow>
               (let (r, arts) = store_json (xe_arts env) (xe_created env i) AkReceipt (JObj [
                      (''error'', JStr (''read-before-write required: '' @ path
                         @ '' must be read earlier in this tick before invoking '' @ tool)),
                      (''tool'', JStr tool), (''params'', pa_params a),
                      (''safety_check'', JStr ''requires_read_before_write'')]) (xw_artifacts w)
                in (Refused (refused a target (ok_option r) Failure ''read_before_write_required''),
                    log_act env tick_id i ActionExecuted (ok_option r)
                      (''Action '' @ tool @ '': failed: read-before-write required for '' @ path)
                      (w\<lparr>xw_artifacts := arts\<rparr>)))
           | None \<Rightarrow>
               (case validate_action_target_path env (xw_host w) tool (pa_params a) of
                  Some (err, err_json) \<Rightarrow>
                    (let (receipt, arts) = build_error_receipt env i tool (pa_params a) err err_json (xw_artifacts w)
                     in (Refused (refused a target receipt Failure err),
                         log_act env tick_id i ActionExecuted receipt
                           (''Action '' @ tool @ '': failed: '' @ err) (w\<lparr>xw_artifacts := arts\<rparr>)))
                | None \<Rightarrow>
                    (case evaluate_policy tool (case descriptor of Some d \<Rightarrow> td_is_read_only d | None \<Rightarrow> False)
                            (xe_mode env i) (xe_policy env) (xe_approvals env i) of
                       Denied reason \<Rightarrow>
                         (Refused (refused a target None PolicyDenied reason),
                          log_act env tick_id i PolicyApprovalRequired None reason w)
                     | NeedsApproval \<Rightarrow>
                         (let reason = ''tool '' @ squote tool @ '' requires approval (policy: ask)''
                          in (Refused (refused a target None PolicyDenied reason),
                              log_act env tick_id i PolicyApprovalRequired None reason w))
                     | Allowed \<Rightarrow> act_invoke env tick_id i a descriptor w)))"

section \<open>The step\<close>

fun skip_rest ::
  "('h, 'a, 'e) act_env \<Rightarrow> uuid \<Rightarrow> nat \<Rightarrow> planned_action list \<Rightarrow> ('h, 'a, 'e) act_world \<Rightarrow>
   action_execution list \<times> ('h, 'a, 'e) act_world" where
  "skip_rest env tick_id i [] w = ([], w)"
| "skip_rest env tick_id i (a # as) w =
     (let w1 = log_act env tick_id i ActionExecuted None (''Action '' @ pa_tool_name a @ '': skipped (cancelled)'') w;
          (rest, w2) = skip_rest env tick_id (Suc i) as w1
      in (refused a (action_target_summary (ao_json_text (xe_arts env)) a) None Skipped ''cancelled'' # rest, w2))"

fun act_loop ::
  "('h, 'a, 'e) act_env \<Rightarrow> uuid \<Rightarrow> nat \<Rightarrow> planned_action list \<Rightarrow> ('h, 'a, 'e) act_world \<Rightarrow>
   action_execution list option \<times> ('h, 'a, 'e) act_world" where
  "act_loop env tick_id i [] w = (Some [], w)"
| "act_loop env tick_id i (a # as) w = (case act_one env tick_id i a w of
     (Panicked, w1) \<Rightarrow> (None, w1)
   | (Refused x, w1) \<Rightarrow>
       (case act_loop env tick_id (Suc i) as w1 of (rest, w2) \<Rightarrow> (map_option ((#) x) rest, w2))
   | (Executed x, w1) \<Rightarrow>
       if xe_cancelled env i
       then (case skip_rest env tick_id (Suc i) as w1 of (rest, w2) \<Rightarrow> (Some (x # rest), w2))
       else (case act_loop env tick_id (Suc i) as w1 of (rest, w2) \<Rightarrow> (map_option ((#) x) rest, w2)))"

text \<open>\<open>act\<close>: \<open>None\<close> is a panic, otherwise an error or the executions.\<close>

definition act ::
  "('h, 'a, 'e) act_env \<Rightarrow> alignment_result \<Rightarrow> uuid \<Rightarrow> ('h, 'a, 'e) act_world \<Rightarrow>
   action_execution list exo_result option \<times> ('h, 'a, 'e) act_world" where
  "act env alignment tick_id w =
     (if al_approved_actions alignment = [] then (Some (Inr []), w)
      else case xe_slot env of
          SlotLocked \<Rightarrow> (Some (Inl (Engine ''WI host slot locked (concurrent access)'')), w)
        | SlotEmpty \<Rightarrow> (Some (Inl (Engine ''WI host not available'')), w)
        | SlotReady \<Rightarrow>
            (case act_loop env tick_id 0 (al_approved_actions alignment) w of
               (r, w') \<Rightarrow> (map_option Inr r, w')))"

section \<open>What reaches the host\<close>

text \<open>An action the policy allows, given the descriptor of its tool at the host state \<open>h\<close>.\<close>

definition authorised :: "('h, 'a, 'e) act_env \<Rightarrow> nat \<Rightarrow> planned_action \<Rightarrow> 'h \<Rightarrow> bool" where
  "authorised env i a h \<longleftrightarrow> evaluate_policy (pa_tool_name a)
     (case act_descriptor env h (pa_tool_name a) of Some d \<Rightarrow> td_is_read_only d | None \<Rightarrow> False)
     (xe_mode env i) (xe_policy env) (xe_approvals env i) = Allowed"

text \<open>The call an action makes: itself, or what a virtual tool stands for.\<close>

definition sends :: "planned_action \<Rightarrow> string \<Rightarrow> json \<Rightarrow> bool" where
  "sends a tool ps \<longleftrightarrow> (if is_virtual_tool (pa_tool_name a) then tool = ''signal.await'' \<or> tool = ''http.request''
     else tool = pa_tool_name a \<and> ps = pa_params a)"

lemma log_act_simps [simp]:
  "xw_host (log_act env t i ty r s w) = xw_host w" "xw_gate (log_act env t i ty r s w) = xw_gate w"
  "xw_read_paths (log_act env t i ty r s w) = xw_read_paths w"
  by (simp_all add: log_act_def)

lemma refused_simps [simp]:
  "xn_action (refused a tg r oc e) = a" "xn_result (refused a tg r oc e) = Inl e"
  "ar_outcome (xn_record (refused a tg r oc e)) = oc" "xn_code_diff (refused a tg r oc e) = None"
  by (simp_all add: refused_def)

lemma act_target_sends: "act_target env i a arts = (Inr (tool, ps, ctx), arts') \<Longrightarrow> sends a tool ps"
  using translate_target [of "xe_arts env" "xe_translate env i" "pa_tool_name a" "pa_params a" arts tool ps]
  by (auto simp: act_target_def sends_def split: if_splits sum.splits prod.splits)

text \<open>Either the action is refused and the host is as before, or it is called once.\<close>

definition untouched :: "('h, 'a, 'e) act_world \<Rightarrow> ('h, 'a, 'e) act_world \<Rightarrow> bool" where
  "untouched w w' \<longleftrightarrow> xw_host w' = xw_host w \<and> xw_gate w' = xw_gate w \<and> xw_read_paths w' = xw_read_paths w"

lemma act_invoke_cases:
  assumes "act_invoke env t i a desc w = (r, w')"
  obtains (Refused) x where "r = Refused x" "xn_action x = a" "isl (xn_result x)" "untouched w w'"
      "ar_outcome (xn_record x) = Failure"
  | (Called) tool ps where "sends a tool ps" "xw_host w' = snd (xe_invoke env tool ps (xw_host w))"
      "r = Panicked \<and> xw_gate w' = xw_gate w
        \<or> (\<exists>x. r = Executed x \<and> xn_action x = a \<and> xw_gate w' = record_gate env i (xw_gate w)
            \<and> ar_outcome (xn_record x) = (if isl (xn_result x) then Failure else Success))"
proof (cases "fst (act_target env i a (xw_artifacts w))")
  case (Inl e)
  then obtain arts where "act_target env i a (xw_artifacts w) = (Inl e, arts)" by (metis prod.collapse)
  then have eq: "r = Refused (refused a (action_target_summary (ao_json_text (xe_arts env)) a) None Failure
      (exo_error_display e))" "w' = w\<lparr>xw_artifacts := arts\<rparr>"
    using assms by (simp_all add: act_invoke_def)
  show thesis by (rule Refused [OF eq(1)]) (simp_all add: eq(2) untouched_def)
next
  case (Inr tgt)
  obtain tool ps ctx where tgt: "tgt = (tool, ps, ctx)" by (metis prod_cases3)
  obtain arts where at: "act_target env i a (xw_artifacts w) = (Inr (tool, ps, ctx), arts)"
    using Inr tgt by (metis prod.collapse)
  obtain raw h where inv: "xe_invoke env tool ps (xw_host w) = (raw, h)" by fastforce
  obtain result receipt diff arts1 where oc:
    "invocation_outcome env i a desc h (processed_result env ctx raw) arts = (result, receipt, diff, arts1)"
    by (metis prod_cases4)
  show thesis
  proof (rule Called)
    show "sends a tool ps" using at by (rule act_target_sends)
    show "xw_host w' = snd (xe_invoke env tool ps (xw_host w))"
      using assms at inv oc by (auto simp: act_invoke_def Let_def split: option.splits)
    show "r = Panicked \<and> xw_gate w' = xw_gate w
        \<or> (\<exists>x. r = Executed x \<and> xn_action x = a \<and> xw_gate w' = record_gate env i (xw_gate w)
            \<and> ar_outcome (xn_record x) = (if isl (xn_result x) then Failure else Success))"
      using assms at inv oc by (auto simp: act_invoke_def Let_def split: option.splits)
  qed
qed

lemma act_one_cases:
  assumes "act_one env t i a w = (r, w')"
  obtains (Refused) x where "r = Refused x" "xn_action x = a" "isl (xn_result x)" "untouched w w'"
      "ar_outcome (xn_record x) \<noteq> Success"
  | (Called) tool ps where "sends a tool ps" "authorised env i a (xw_host w)" "\<not> gate_blocks env w"
      "xw_host w' = snd (xe_invoke env tool ps (xw_host w))"
      "r = Panicked \<and> xw_gate w' = xw_gate w
        \<or> (\<exists>x. r = Executed x \<and> xn_action x = a \<and> xw_gate w' = record_gate env i (xw_gate w)
            \<and> ar_outcome (xn_record x) = (if isl (xn_result x) then Failure else Success))"
proof -
  let ?d = "act_descriptor env (xw_host w) (pa_tool_name a)"
  show thesis
  proof (cases "\<not> gate_blocks env w \<and> read_missing env w ?d a = None
      \<and> validate_action_target_path env (xw_host w) (pa_tool_name a) (pa_params a) = None
      \<and> authorised env i a (xw_host w)")
    case True
    then have "act_invoke env t i a ?d w = (r, w')"
      using assms by (simp add: act_one_def Let_def authorised_def)
    then show thesis
    proof (cases rule: act_invoke_cases)
      case (Refused x)
      then show thesis using that(1) by simp
    next
      case (Called tool ps)
      then show thesis using that(2) True by blast
    qed
  next
    case False
    then have "\<exists>x. r = Refused x \<and> xn_action x = a \<and> isl (xn_result x) \<and> untouched w w'
        \<and> ar_outcome (xn_record x) \<noteq> Success"
      using assms
      by (auto simp: act_one_def Let_def authorised_def untouched_def case_prod_unfold
          split: if_splits option.splits policy_decision.splits)
    then show thesis using that(1) by blast
  qed
qed

lemma skip_rest_refuses:
  assumes "skip_rest env t i as w = (xs, w')"
  shows "map xn_action xs = as \<and> untouched w w' \<and> list_all (\<lambda>x. isl (xn_result x) \<and> ar_outcome (xn_record x) = Skipped) xs"
  using assms
proof (induction as arbitrary: i w xs)
  case (Cons a as)
  then show ?case by (auto simp: Let_def untouched_def split: prod.splits)
qed (simp add: untouched_def)

text \<open>
  The calls of a run of the loop: each names the position of its action and the host state at which it
  was made.
\<close>

type_synonym 'h call = "nat \<times> 'h \<times> string \<times> json"

definition call_ok :: "('h, 'a, 'e) act_env \<Rightarrow> nat \<Rightarrow> planned_action list \<Rightarrow> 'h call \<Rightarrow> bool" where
  "call_ok env i as c = (case c of (j, h, tool, ps) \<Rightarrow>
     i \<le> j \<and> j < i + length as \<and> authorised env j (as ! (j - i)) h \<and> sends (as ! (j - i)) tool ps)"

definition calls_ok :: "('h, 'a, 'e) act_env \<Rightarrow> nat \<Rightarrow> planned_action list \<Rightarrow> 'h call list \<Rightarrow> bool" where
  "calls_ok env i as cs \<longleftrightarrow> list_all (call_ok env i as) cs \<and> sorted_wrt (<) (map fst cs)"

definition gate_exclusive :: "('h, 'a, 'e) act_env \<Rightarrow> bool" where
  "gate_exclusive env \<longleftrightarrow> \<not> xe_gate_poisoned env \<and> (\<forall>i. xe_gate_free env i)"

definition within_gate :: "('h, 'a, 'e) act_env \<Rightarrow> ('h, 'a, 'e) act_world \<Rightarrow> 'h call list \<Rightarrow> bool" where
  "within_gate env w cs \<longleftrightarrow> (gate_exclusive env \<longrightarrow>
     (case xw_gate w of None \<Rightarrow> True | Some g \<Rightarrow> length cs \<le> unat (gate_remaining g)))"

lemma call_ok_later: "call_ok env (Suc i) as c \<Longrightarrow> call_ok env i (a # as) c"
  by (auto simp: call_ok_def nth_Cons' split: prod.splits)

lemma calls_ok_later: "calls_ok env (Suc i) as cs \<Longrightarrow> calls_ok env i (a # as) cs"
  using call_ok_later [of env i as _ a] by (auto simp: calls_ok_def list_all_iff)

lemma calls_ok_Cons:
  assumes "calls_ok env (Suc i) as cs" "authorised env i a h" "sends a tool ps"
  shows "calls_ok env i (a # as) ((i, h, tool, ps) # cs)"
proof -
  have "i < fst c" if "c \<in> set cs" for c
    using assms(1) that by (cases c) (auto simp: calls_ok_def call_ok_def list_all_iff)
  then show ?thesis
    using calls_ok_later [OF assms(1), of a] assms(2,3) by (auto simp: calls_ok_def call_ok_def)
qed

lemma within_gate_untouched: "untouched w w1 \<Longrightarrow> within_gate env w1 cs \<Longrightarrow> within_gate env w cs"
  by (simp add: within_gate_def untouched_def)

lemma within_gate_Cons:
  assumes "\<not> gate_blocks env w" "xw_gate w1 = record_gate env i (xw_gate w)" "within_gate env w1 cs"
  shows "within_gate env w (c # cs)"
proof (cases "xw_gate w")
  case (Some g)
  have "length cs < unat (gate_remaining g)" if ex: "gate_exclusive env"
  proof -
    have "gate_check g" using assms(1) Some ex by (simp add: gate_blocks_def gate_exclusive_def)
    then have "unat (gate_remaining (gate_record_invocation g)) = unat (gate_remaining g) - 1"
      "0 < unat (gate_remaining g)"
      using tool_gate.left_rec tool_gate.check_iff by simp_all
    with assms(2,3) Some ex show ?thesis by (simp add: within_gate_def record_gate_def gate_exclusive_def)
  qed
  with Some show ?thesis by (simp add: within_gate_def Suc_le_eq)
qed (simp add: within_gate_def)

lemma within_gate_single: "\<not> gate_blocks env w \<Longrightarrow> within_gate env w [c]"
  using tool_gate.check_iff by (auto simp: within_gate_def gate_blocks_def gate_exclusive_def Suc_le_eq split: option.splits)

lemma calls_ok_Nil [simp]: "calls_ok env i as []"
  by (simp add: calls_ok_def)

lemma within_gate_Nil [simp]: "within_gate env w []"
  by (simp add: within_gate_def split: option.split)

definition calls_made :: "('h \<Rightarrow> (string \<times> json) list) \<Rightarrow> 'h \<Rightarrow> 'h call list \<Rightarrow> 'h \<Rightarrow> bool" where
  "calls_made journal h cs h' \<longleftrightarrow> journal h' = journal h @ map (\<lambda>(j, h, tool, ps). (tool, ps)) cs"

lemma act_loop_calls:
  assumes journal: "\<And>tool ps h. journal (snd (xe_invoke env tool ps h)) = journal h @ [(tool, ps)]"
    and "act_loop env t i as w = (r, w')"
  shows "\<exists>cs. calls_made journal (xw_host w) cs (xw_host w') \<and> calls_ok env i as cs \<and> within_gate env w cs"
  using assms(2)
proof (induction as arbitrary: i w r)
  case Nil
  then show ?case by (auto simp: calls_made_def intro!: exI [of _ "[]"])
next
  case (Cons a as)
  obtain e w1 where one: "act_one env t i a w = (e, w1)" by fastforce
  note IH = Cons.IH [of "Suc i" w1]
  show ?case
    using one
  proof (cases rule: act_one_cases)
    case (Refused x)
    then obtain r1 where "act_loop env t (Suc i) as w1 = (r1, w')"
      using Cons.prems one by (auto split: prod.splits)
    then obtain cs where "calls_made journal (xw_host w1) cs (xw_host w')" "calls_ok env (Suc i) as cs" "within_gate env w1 cs"
      using IH by blast
    then show ?thesis
      using Refused(4) calls_ok_later [of env i as cs a] within_gate_untouched [OF Refused(4)]
      by (intro exI [of _ cs]) (simp add: untouched_def)
  next
    case (Called tool ps)
    let ?c = "(i, xw_host w, tool, ps)"
    have made: "calls_made journal (xw_host w) (?c # cs) (xw_host w')" if "calls_made journal (xw_host w1) cs (xw_host w')" for cs
      using that Called(4) journal by (simp add: calls_made_def)
    show ?thesis
    proof (cases "xw_host w' = xw_host w1")
      case True
      then have "calls_made journal (xw_host w1) [] (xw_host w')" by (simp add: calls_made_def)
      then show ?thesis
        using made calls_ok_Cons [OF _ Called(2,1), of as "[]"] within_gate_single [OF Called(3)]
        by (metis calls_ok_Nil)
    next
      case False
      then obtain x r1 where e: "e = Executed x" "xw_gate w1 = record_gate env i (xw_gate w)"
          "act_loop env t (Suc i) as w1 = (r1, w')"
        using Called(5) Cons.prems one skip_rest_refuses [of env t "Suc i" as w1]
        by (auto simp: untouched_def split: if_splits prod.splits)
      then obtain cs where "calls_made journal (xw_host w1) cs (xw_host w')" "calls_ok env (Suc i) as cs" "within_gate env w1 cs"
        using IH by blast
      then show ?thesis
        using made calls_ok_Cons [OF _ Called(2,1)] within_gate_Cons [OF Called(3) e(2)] by blast
    qed
  qed
qed


section \<open>What the step reports\<close>

definition splits_character :: "string \<Rightarrow> bool" where
  "splits_character tx \<longleftrightarrow> 500 < length tx \<and> is_cont (tx ! 497)"

lemma result_summary_None: "result_summary json_text result = None \<longleftrightarrow>
    (\<exists>v. result = Inr v \<and> splits_character (json_text v))"
  by (auto simp: result_summary_def splits_character_def slice_to_def Let_def split: sum.splits)

lemma act_invoke_panics:
  "act_invoke env t i a desc w = (Panicked, w') \<Longrightarrow> \<exists>v. splits_character (ao_json_text (xe_arts env) v)"
  by (auto simp: act_invoke_def Let_def case_prod_unfold result_summary_None split: sum.splits option.splits prod.splits)

lemma act_one_panics:
  "act_one env t i a w = (Panicked, w') \<Longrightarrow> \<exists>v. splits_character (ao_json_text (xe_arts env) v)"
  using act_invoke_panics
  by (fastforce simp: act_one_def Let_def case_prod_unfold split: if_splits option.splits policy_decision.splits)

definition faithful :: "action_execution \<Rightarrow> bool" where
  "faithful x \<longleftrightarrow> (ar_outcome (xn_record x) = Success) = (\<not> isl (xn_result x))"

lemma act_loop_accounts:
  assumes "act_loop env t i as w = (r, w')"
  shows "case r of Some xs \<Rightarrow> map xn_action xs = as \<and> list_all faithful xs
    | None \<Rightarrow> \<exists>v. splits_character (ao_json_text (xe_arts env) v)"
  using assms
proof (induction as arbitrary: i w r)
  case (Cons a as)
  obtain e w1 where one: "act_one env t i a w = (e, w1)" by fastforce
  have later: ?case if x: "xn_action x = a" "faithful x" and r: "act_loop env t (Suc i) as w1 = (r1, w')"
      "r = map_option ((#) x) r1" for x r1
    using Cons.IH [OF r(1)] x r(2) by (auto split: option.splits)
  show ?case
    using one
  proof (cases rule: act_one_cases)
    case (Refused x)
    then obtain r1 where "act_loop env t (Suc i) as w1 = (r1, w')" "r = map_option ((#) x) r1"
      using Cons.prems one by (auto split: prod.splits)
    with Refused show ?thesis by (intro later [of x]) (simp_all add: faithful_def)
  next
    case (Called tool ps)
    then consider "e = Panicked" | x where "e = Executed x" "xn_action x = a" "faithful x"
      by (auto simp: faithful_def)
    then show ?thesis
    proof cases
      case 1
      then show ?thesis using Cons.prems one act_one_panics by auto
    next
      case 2
      then show ?thesis
        using Cons.prems one skip_rest_refuses [of env t "Suc i" as w1] later [OF 2(2,3)]
        by (force simp: faithful_def list_all_iff split: if_splits prod.splits)
    qed
  qed
qed simp


section \<open>The properties at concrete inputs\<close>

text \<open>A host that remembers its calls and answers with a text, in planning mode.\<close>

definition sample_text :: string where
  "sample_text = replicate 496 CHR ''x'' @ [CHR 0xC3, CHR 0xA9] @ replicate 10 CHR ''x''"

definition sample_describe :: "string \<Rightarrow> tool_descriptor option" where
  "sample_describe tool = Some (ask_user_descriptor\<lparr>td_name := tool, td_is_read_only := tool = ''web.get''\<rparr>)"

definition sample_act_env :: "((string \<times> json) list, unit, event_entry list) act_env" where
  "sample_act_env = \<lparr>
     xe_slot = SlotReady,
     xe_arts = \<lparr>ao_sha256_hex = (\<lambda>s. ''c0ffee''), ao_json_text = (\<lambda>v. case v of JStr s \<Rightarrow> s | _ \<Rightarrow> ''{}''),
       ao_put = (\<lambda>a u. (Inr (af_id a), u)), ao_get = (\<lambda>u i. Inr None)\<rparr>,
     xe_describe = (\<lambda>h. sample_describe),
     xe_invoke = (\<lambda>tool ps h. (Inr ps, h @ [(tool, ps)])),
     xe_internal_error = (\<lambda>e. ''internal error: '' @ e),
     xe_path_exists = (\<lambda>h p. False),
     xe_path_is_file = (\<lambda>h p. False),
     xe_encode_diff = (\<lambda>d. None),
     xe_log_event = (\<lambda>e es. es @ [e]),
     xe_latest_tick = Inr None,
     xe_tick_range = (\<lambda>a b. Inr []),
     xe_gate_poisoned = False,
     xe_gate_free = (\<lambda>i. True),
     xe_mode = (\<lambda>i. MPlanning),
     xe_policy = tool_policy_default,
     xe_approvals = (\<lambda>i. []),
     xe_translate = (\<lambda>i. \<lparr>te_question_id = ''q'', te_now = 0, te_asked_at = [], te_observatory_url = None,
       te_observatory_token = None\<rparr>),
     xe_fresh = (\<lambda>i. (of_nat i, int i)),
     xe_created = int,
     xe_diff_created = int,
     xe_cancelled = (\<lambda>i. False)\<rparr>"

definition sample_action :: "string \<Rightarrow> json \<Rightarrow> planned_action" where
  "sample_action tool ps = \<lparr>pa_call_id = ''c'', pa_tool_name = tool, pa_params = ps, pa_rationale = ''r'',
     pa_plan_task_id = None, pa_origin_exec_thread_id = None, pa_proposal_id = None\<rparr>"

definition sample_alignment :: "planned_action list \<Rightarrow> alignment_result" where
  "sample_alignment as = \<lparr>al_approved_actions = as, al_blocked_actions = [], al_relationship_updates = [],
     al_relationship_snapshot = None\<rparr>"

definition sample_world :: "((string \<times> json) list, unit, event_entry list) act_world" where
  "sample_world = \<lparr>xw_host = [], xw_artifacts = (), xw_events = [],
     xw_gate = Some (gate_new 0 tool_budget_default), xw_read_paths = []\<rparr>"

lemmas act_sample_defs = act_def act_one_def act_invoke_def act_descriptor_def gate_blocks_def read_missing_def
  validate_action_target_path_def extract_action_path_def json_get_str_def act_target_def processed_result_def
  invocation_outcome_def store_json_def try_extract_code_diff_def code_diff_of_def result_summary_def
  evaluate_policy_def rule_for_def tool_policy_default_def is_virtual_tool_def AGENT_ASK_USER_def PEER_RESOLVE_def
  sample_act_env_def sample_action_def sample_alignment_def sample_world_def sample_describe_def

text \<open>In planning mode the read-only tool is called and the other one is not.\<close>

lemma sample_act_calls:
  "\<exists>r w'. act sample_act_env (sample_alignment [sample_action ''web.get'' JNull, sample_action ''web.post'' JNull]) 1
      sample_world = (r, w') \<and> xw_host w' = [(''web.get'', JNull)]"
  by (simp add: act_sample_defs Let_def ask_user_descriptor_def gate_new_def tool_budget_default_def gate_check_def
      log_act_def artifact_from_json_def)


text \<open>A tool result with a two-byte character at the wrong place makes the step panic.\<close>

lemma sample_text_split: "splits_character sample_text"
  by (simp add: splits_character_def sample_text_def nth_append is_cont_def)

lemma act_can_panic:
  "fst (act sample_act_env (sample_alignment [sample_action ''web.get'' (JStr sample_text)]) 1 sample_world) = None"
proof -
  have "slice_to 497 sample_text = None" "500 < length sample_text"
    using sample_text_split by (auto simp: splits_character_def slice_to_def)
  then show ?thesis
    by (simp add: act_sample_defs Let_def ask_user_descriptor_def gate_new_def tool_budget_default_def gate_check_def
      log_act_def artifact_from_json_def)
qed

end
