(* ===== verification/Diff_Tracker.thy ===== *)
theory Diff_Tracker
  imports Act_Step
begin

text \<open>
  What a tick makes of its executions: the accumulator of code diffs
  (\<open>exoskeleton-host/src/kernel/diff_tracker.rs\<close>, types of \<open>exoskeleton-core/src/diff.rs\<close>) and the
  windowed list of tool results (\<open>exoskeleton-host/src/kernel/context_window.rs\<close>). Sums of line counts
  are sums of 64-bit integers and wrap.
\<close>

section \<open>Code diffs of a tick\<close>

record file_diff_entry =
  fd_path :: string
  fd_lines_added :: i64
  fd_lines_removed :: i64
  fd_operation :: code_diff_operation

record tick_diff_summary =
  tds_tick_number :: u64
  tds_files :: "file_diff_entry list"
  tds_total_lines_added :: i64
  tds_total_lines_removed :: i64
  tds_diff_artifact_ids :: "string list"
  tds_is_summary :: bool

record diff_summary =
  ds_files_modified :: u32
  ds_lines_added :: i64
  ds_lines_removed :: i64
  ds_net_delta :: i64
  ds_files :: "file_diff_entry list"

record diff_tracker =
  dt_entries :: "(artifact_id \<times> code_diff_content) list"
  dt_tick_number :: u64

definition diff_tracker_new :: "u64 \<Rightarrow> diff_tracker" where
  "diff_tracker_new n = \<lparr>dt_entries = [], dt_tick_number = n\<rparr>"

definition diff_record :: "artifact_id \<Rightarrow> code_diff_content \<Rightarrow> diff_tracker \<Rightarrow> diff_tracker" where
  "diff_record i content t = t\<lparr>dt_entries := dt_entries t @ [(i, content)]\<rparr>"

definition file_entry :: "artifact_id \<times> code_diff_content \<Rightarrow> file_diff_entry" where
  "file_entry e = \<lparr>fd_path = cd_file_path (snd e), fd_lines_added = cd_lines_added (snd e),
     fd_lines_removed = cd_lines_removed (snd e), fd_operation = cd_operation (snd e)\<rparr>"

definition total_added :: "diff_tracker \<Rightarrow> i64" where
  "total_added t = sum_list (map (\<lambda>e. cd_lines_added (snd e)) (dt_entries t))"

definition total_removed :: "diff_tracker \<Rightarrow> i64" where
  "total_removed t = sum_list (map (\<lambda>e. cd_lines_removed (snd e)) (dt_entries t))"

definition build_event_summary :: "diff_tracker \<Rightarrow> diff_summary option" where
  "build_event_summary t =
     (if dt_entries t = [] then None
      else Some \<lparr>ds_files_modified = of_nat (length (dt_entries t)), ds_lines_added = total_added t,
        ds_lines_removed = total_removed t, ds_net_delta = total_added t - total_removed t,
        ds_files = map file_entry (dt_entries t)\<rparr>)"

definition tick_diff_summary_of :: "diff_tracker \<Rightarrow> tick_diff_summary" where
  "tick_diff_summary_of t = \<lparr>tds_tick_number = dt_tick_number t, tds_files = map file_entry (dt_entries t),
     tds_total_lines_added = total_added t, tds_total_lines_removed = total_removed t,
     tds_diff_artifact_ids = map fst (dt_entries t), tds_is_summary = True\<rparr>"

text \<open>Serialising the summary is serde_json's \<open>encode\<close>; the artifact is stamped \<open>now\<close>.\<close>

definition diff_finalize ::
  "'a artifact_ops \<Rightarrow> (tick_diff_summary \<Rightarrow> string option) \<Rightarrow> datetime \<Rightarrow> diff_tracker \<Rightarrow> 'a
   \<Rightarrow> (artifact_id \<times> tick_diff_summary) option \<times> 'a" where
  "diff_finalize ops encode now t arts =
     (if dt_entries t = [] then (None, arts)
      else let summary = tick_diff_summary_of t in
        case encode summary of
          None \<Rightarrow> (None, arts)
        | Some tx \<Rightarrow>
            (case ao_put ops (artifact_new (ao_sha256_hex ops) now AkCodeDiff tx ''application/json'') arts of
               (Inr i, arts') \<Rightarrow> (Some (i, summary), arts')
             | (Inl _, arts') \<Rightarrow> (None, arts')))"

fun diff_operation_debug :: "code_diff_operation \<Rightarrow> string" where
  "diff_operation_debug DiffEdit = ''Edit''"
| "diff_operation_debug DiffWrite = ''Write''"
| "diff_operation_debug DiffCreate = ''Create''"
| "diff_operation_debug DiffPatch = ''Patch''"

definition format_for_reflect :: "diff_tracker \<Rightarrow> string" where
  "format_for_reflect t =
     (if dt_entries t = [] then []
      else nl @ ''## File Changes This Tick'' @ nl @ nl @ ''Modified '' @ show_nat (length (dt_entries t))
        @ '' file(s) (+'' @ show_i64 (total_added t) @ '' lines, -'' @ show_i64 (total_removed t) @ '' lines):'' @ nl
        @ concat (map (\<lambda>e. ''- '' @ cd_file_path (snd e) @ '': '' @ diff_operation_debug (cd_operation (snd e))
            @ '' (+'' @ show_i64 (cd_lines_added (snd e)) @ '', -'' @ show_i64 (cd_lines_removed (snd e)) @ '')'' @ nl)
            (dt_entries t))
        @ nl @ ''Review: Are these changes correct and complete? Did the agent miss any files?'' @ nl)"

text \<open>The loop of the tick that records the diffs of its executions.\<close>

definition record_diffs :: "action_execution list \<Rightarrow> diff_tracker \<Rightarrow> diff_tracker" where
  "record_diffs xs t = fold (\<lambda>x t. case xn_code_diff x of Some (i, c) \<Rightarrow> diff_record i c t | None \<Rightarrow> t) xs t"

lemma record_diffs_entries: "dt_entries (record_diffs xs t) = dt_entries t @ List.map_filter xn_code_diff xs"
proof (induction xs arbitrary: t)
  case (Cons x xs)
  then show ?case
    by (simp add: record_diffs_def diff_record_def map_filter_simps split: option.split prod.split)
qed (simp add: record_diffs_def map_filter_simps)

section \<open>Windowed tool results\<close>

definition FULL_OUTPUT_LIMIT :: nat where
  "FULL_OUTPUT_LIMIT = 2000"

text \<open>\<open>v[key]\<close> is null for a missing key.\<close>

definition json_index :: "json \<Rightarrow> string \<Rightarrow> json" where
  "json_index v k = (case json_get v k of Some x \<Rightarrow> x | None \<Rightarrow> JNull)"

definition or_text :: "string option \<Rightarrow> string \<Rightarrow> string" where
  "or_text x d = (case x of Some s \<Rightarrow> s | None \<Rightarrow> d)"

definition or_u64 :: "json \<Rightarrow> string \<Rightarrow> u64 \<Rightarrow> u64" where
  "or_u64 v k d = (case Option.bind (json_get v k) json_as_u64 of Some n \<Rightarrow> n | None \<Rightarrow> d)"

definition or_i64 :: "json \<Rightarrow> string \<Rightarrow> i64" where
  "or_i64 v k = (case Option.bind (json_get v k) json_as_i64 of Some n \<Rightarrow> n | None \<Rightarrow> 0)"

fun array_items :: "json \<Rightarrow> json list" where
  "array_items (JArr xs) = xs"
| "array_items _ = []"

definition array_len :: "json \<Rightarrow> string \<Rightarrow> string" where
  "array_len v k = show_nat (length (array_items (json_index v k)))"

definition top_of :: "json \<Rightarrow> string \<Rightarrow> string \<Rightarrow> string" where
  "top_of v k field = (case array_items (json_index v k) of
     [] \<Rightarrow> ''<none>'' | c # _ \<Rightarrow> or_text (json_get_str c field) ''<none>'')"

definition step_prefix :: "nat \<Rightarrow> string \<Rightarrow> string" where
  "step_prefix step tool = ''Step '' @ show_nat step @ '': '' @ tool"

definition summarize_code_read :: "nat \<Rightarrow> action_execution \<Rightarrow> json \<Rightarrow> string" where
  "summarize_code_read step x v =
     (let file_path = (case json_get_str (pa_params (xn_action x)) ''file_path'' of
            Some p \<Rightarrow> p | None \<Rightarrow> or_text (json_get_str v ''file_path'') ''<unknown>'');
          start = or_u64 v ''start_line'' 1; last_line = or_u64 v ''end_line'' start;
          lines_read = (if start \<le> last_line then last_line - start + 1 else 0)
      in step_prefix step ''code.read '' @ file_path @ '':'' @ show_u64 start @ ''-'' @ show_u64 last_line
         @ '' -> '' @ show_u64 lines_read @ '' lines (success)'')"

definition summarize_code_read_symbol :: "nat \<Rightarrow> json \<Rightarrow> string" where
  "summarize_code_read_symbol step v =
     (let file_path = or_text (json_get_str v ''file_path'') ''<unknown>'';
          symbol_name = or_text (json_get_str (json_index v ''symbol'') ''name'') ''<symbol>'';
          start = or_u64 (json_index v ''range'') ''start_line'' 1;
          last_line = or_u64 (json_index v ''range'') ''end_line'' start
      in step_prefix step ''code.read_symbol '' @ symbol_name @ '' -> '' @ file_path @ '':'' @ show_u64 start
         @ ''-'' @ show_u64 last_line @ '' (success)'')"

definition summarize_repo_locate :: "nat \<Rightarrow> json \<Rightarrow> string" where
  "summarize_repo_locate step v = step_prefix step ''repo.locate -> '' @ array_len v ''candidates''
     @ '' candidates, top='' @ top_of v ''candidates'' ''path'' @ '' (success)''"

definition summarize_repo_context :: "nat \<Rightarrow> json \<Rightarrow> string" where
  "summarize_repo_context step v = step_prefix step ''repo.context -> '' @ array_len v ''files'' @ '' files, ''
     @ array_len v ''patterns'' @ '' patterns, top='' @ top_of v ''files'' ''path'' @ '' (success)''"

definition summarize_code_grep :: "nat \<Rightarrow> action_execution \<Rightarrow> json \<Rightarrow> string" where
  "summarize_code_grep step x v = step_prefix step ''code.grep ''
     @ [CHR 0x27] @ or_text (json_get_str (pa_params (xn_action x)) ''pattern'') ''<pattern>'' @ [CHR 0x27]
     @ '' -> '' @ show_u64 (or_u64 v ''total_matches'' 0) @ '' matches in '' @ show_u64 (or_u64 v ''files_searched'' 0)
     @ '' files (success)''"

definition summarize_code_symbol :: "nat \<Rightarrow> json \<Rightarrow> string" where
  "summarize_code_symbol step v = step_prefix step ''code.symbol -> '' @ array_len v ''matches''
     @ '' matches, top='' @ top_of v ''matches'' ''file_path'' @ '' (success)''"

definition summarize_code_references :: "nat \<Rightarrow> json \<Rightarrow> string" where
  "summarize_code_references step v =
     step_prefix step ''code.references -> '' @ array_len v ''references'' @ '' references (success)''"

definition summarize_code_impls :: "nat \<Rightarrow> json \<Rightarrow> string" where
  "summarize_code_impls step v = step_prefix step ''code.impls -> '' @ array_len v ''impls'' @ '' impls (success)''"

definition summarize_code_mutation :: "nat \<Rightarrow> action_execution \<Rightarrow> json \<Rightarrow> string" where
  "summarize_code_mutation step x v =
     (let file_path = (case json_get_str v ''file_path'' of
            Some p \<Rightarrow> p | None \<Rightarrow> or_text (json_get_str (pa_params (xn_action x)) ''file_path'') ''<unknown>'')
      in step_prefix step (pa_tool_name (xn_action x)) @ '' '' @ file_path
         @ '' -> +'' @ show_i64 (or_i64 (json_index v ''diff'') ''lines_added'')
         @ ''/-'' @ show_i64 (or_i64 (json_index v ''diff'') ''lines_removed'') @ '' lines (success)'')"

definition summarize_code_glob :: "nat \<Rightarrow> json \<Rightarrow> string" where
  "summarize_code_glob step v =
     step_prefix step ''code.glob -> '' @ show_u64 (or_u64 v ''total_matches'' 0) @ '' files (success)''"

definition summarize_code_ls :: "nat \<Rightarrow> json \<Rightarrow> string" where
  "summarize_code_ls step v =
     step_prefix step ''code.ls -> '' @ show_u64 (or_u64 v ''total_entries'' 0) @ '' entries (success)''"

definition summarize_execution :: "nat \<Rightarrow> action_execution \<Rightarrow> string" where
  "summarize_execution step x =
     (let tool = pa_tool_name (xn_action x) in
      case xn_result x of
        Inl e \<Rightarrow> step_prefix step tool @ '' -> FAILED: '' @ e
      | Inr v \<Rightarrow>
          if tool = ''repo.context'' then summarize_repo_context step v
          else if tool = ''repo.locate'' then summarize_repo_locate step v
          else if tool = ''code.read'' then summarize_code_read step x v
          else if tool = ''code.read_symbol'' then summarize_code_read_symbol step v
          else if tool = ''code.grep'' then summarize_code_grep step x v
          else if tool = ''code.symbol'' then summarize_code_symbol step v
          else if tool = ''code.references'' then summarize_code_references step v
          else if tool = ''code.impls'' then summarize_code_impls step v
          else if List.member [''code.edit'', ''code.write'', ''code.apply_patch''] tool
          then summarize_code_mutation step x v
          else if tool = ''code.glob'' then summarize_code_glob step v
          else if tool = ''code.ls'' then summarize_code_ls step v
          else step_prefix step tool @ '' -> success'')"

text \<open>\<open>None\<close> is the panic of \<open>&json[..FULL_OUTPUT_LIMIT - 3]\<close>.\<close>

definition truncate_json :: "(json \<Rightarrow> string) \<Rightarrow> json \<Rightarrow> string option" where
  "truncate_json json_text v = (let tx = json_text v in
     if length tx > FULL_OUTPUT_LIMIT then map_option (\<lambda>s. s @ ''...'') (slice_to (FULL_OUTPUT_LIMIT - 3) tx) else Some tx)"

definition full_result :: "(json \<Rightarrow> string) \<Rightarrow> nat \<times> action_execution \<Rightarrow> string option" where
  "full_result json_text ix =
     (let x = snd ix; head = ''### Step '' @ show_nat (fst ix + 1) @ '': '' @ pa_tool_name (xn_action x)
            @ '' ['' @ (if isl (xn_result x) then ''FAILED'' else ''SUCCESS'') @ '']'' @ nl
      in case xn_result x of
           Inr v \<Rightarrow> map_option (\<lambda>t. head @ ''Output: '' @ t @ nl @ nl) (truncate_json json_text v)
         | Inl e \<Rightarrow> Some (head @ ''Error: '' @ e @ nl @ nl))"

definition format_windowed_results :: "(json \<Rightarrow> string) \<Rightarrow> action_execution list \<Rightarrow> u32 \<Rightarrow> string option" where
  "format_windowed_results json_text xs context_window_size =
     (if xs = [] then Some ''No tool results yet.''
      else let recent_start = length xs - unat context_window_size;
               steps = zip [0..<length xs] xs;
               earlier = (if recent_start > 0
                 then ''### Earlier Steps'' @ nl
                   @ concat (map (\<lambda>(i, x). summarize_execution (i + 1) x @ nl) (take recent_start steps)) @ nl
                 else [])
        in map_option (\<lambda>parts. ''## Tool Results'' @ nl @ nl @ earlier @ concat parts)
             (those (map (full_result json_text) (drop recent_start steps))))"

end
