(* ===== verification/Reflect.thy ===== *)
theory Reflect
  imports Decide Diff_Tracker
begin

text \<open>
  The Reflect step (\<open>exoskeleton-host/src/kernel/reflect.rs\<close>): an evaluation of the executions by the
  language model, with a heuristic as fallback for every failure. The user message quotes tool
  outputs cut at byte 497; a cut inside a character panics, which is the result \<open>None\<close>.
\<close>

section \<open>Types\<close>

record task_status_update =
  tu_task_id :: uuid
  tu_new_status :: plan_task_status
  tu_reason :: "string option"

record reflection_result =
  rf_action_success_rate :: f64
  rf_observations :: "string list"
  rf_concerns :: "string list"
  rf_task_updates :: "task_status_update list"
  rf_working_memory_ops :: "wm_op list"
  rf_should_replan :: bool
  rf_llm_call_record :: "llm_call_record option"

record reflect_protocol =
  rp_outcome_assessment :: string
  rp_task_updates :: "task_status_update list"
  rp_working_memory_ops :: "wm_op list"
  rp_observations :: "string list"
  rp_concerns :: "string list"
  rp_should_replan :: bool

record 'a reflect_env =
  re_handler :: llm_handler
  re_arts :: "'a artifact_ops"
  re_alnum :: "string \<Rightarrow> bool"
  re_prompts :: prompt_registry
  re_vessel_id :: uuid
  re_mission :: string
  re_show_uuid :: "uuid \<Rightarrow> string"
  re_max_output_tokens :: u64
  re_cancelled :: bool
  re_parse :: "string \<Rightarrow> reflect_protocol option" \<comment> \<open>serde_json on \<open>ReflectProtocol\<close>\<close>

section \<open>The heuristic\<close>

definition exec_succeeded :: "action_execution \<Rightarrow> bool" where
  "exec_succeeded x \<longleftrightarrow> ar_outcome (xn_record x) = Success"

definition failed_observation :: "action_execution \<Rightarrow> string option" where
  "failed_observation x = (case xn_result x of
     Inl e \<Rightarrow> Some (''Failed action: '' @ pa_tool_name (xn_action x) @ '': '' @ e) | Inr _ \<Rightarrow> None)"

definition heuristic_reflect :: "action_execution list \<Rightarrow> reflection_result" where
  "heuristic_reflect xs =
     (let total = length xs in
      if total = 0
      then \<lparr>rf_action_success_rate = NaN, rf_observations = [''No actions taken''], rf_concerns = [],
             rf_task_updates = [], rf_working_memory_ops = [], rf_should_replan = False, rf_llm_call_record = None\<rparr>
      else let successes = length (filter exec_succeeded xs);
               rate = f64_ratio (int successes) (int total)
        in \<lparr>rf_action_success_rate = rate,
            rf_observations = (''Executed '' @ show_nat total @ '' actions: '' @ show_nat successes @ '' succeeded, ''
                @ show_nat (total - successes) @ '' failed'') # List.map_filter failed_observation xs,
            rf_concerns = (if rate = Fin 0 then [''All actions failed '' @ em_dash @ '' possible misconfiguration'']
              else if f64_lt rate (Fin (1 / 2)) then [''More than half of actions failed''] else []),
            rf_task_updates = [], rf_working_memory_ops = [], rf_should_replan = False, rf_llm_call_record = None\<rparr>)"

section \<open>The model's evaluation\<close>

text \<open>The text between \<open>```json\<close> and the next \<open>```\<close>.\<close>

definition extract_json_from_code_fence :: "string \<Rightarrow> string option" where
  "extract_json_from_code_fence tx = (case find_str ''```json'' tx of
     None \<Rightarrow> None
   | Some start \<Rightarrow> (let rest = drop (start + 7) tx in
       map_option (\<lambda>k. str_trim (take k rest)) (find_str ''```'' rest)))"

definition parse_reflect_protocol :: "'a reflect_env \<Rightarrow> string \<Rightarrow> reflect_protocol" where
  "parse_reflect_protocol env tx = (case re_parse env tx of
     Some p \<Rightarrow> p
   | None \<Rightarrow> (case Option.bind (extract_json_from_code_fence tx) (re_parse env) of
       Some p \<Rightarrow> p
     | None \<Rightarrow> \<lparr>rp_outcome_assessment = tx, rp_task_updates = [], rp_working_memory_ops = [],
                rp_observations = [tx], rp_concerns = [], rp_should_replan = False\<rparr>))"

fun task_status_name :: "plan_task_status \<Rightarrow> string" where
  "task_status_name TPending = ''pending''"
| "task_status_name TInProgress = ''in_progress''"
| "task_status_name TCompleted = ''completed''"
| "task_status_name TFailed = ''failed''"
| "task_status_name TBlocked = ''blocked''"
| "task_status_name TSkipped = ''skipped''"

definition outcome_line :: "(json \<Rightarrow> string) \<Rightarrow> action_execution \<Rightarrow> string option" where
  "outcome_line json_text x =
     (let head = ''- '' @ pa_tool_name (xn_action x) @ '' ['' @ (if isl (xn_result x) then ''FAILED'' else ''SUCCESS'')
            @ '']: '' @ pa_rationale (xn_action x) @ nl
      in case xn_result x of
           Inl e \<Rightarrow> Some (head @ ''  Error: '' @ e @ nl)
         | Inr v \<Rightarrow> (let tx = json_text v in
             if length tx > 500 then map_option (\<lambda>s. head @ ''  Output: '' @ s @ ''...'' @ nl) (slice_to 497 tx)
             else Some (head @ ''  Output: '' @ tx @ nl)))"

definition plan_part :: "(uuid \<Rightarrow> string) \<Rightarrow> plan option \<Rightarrow> string" where
  "plan_part show_id p = (case p of
     None \<Rightarrow> []
   | Some pl \<Rightarrow> nl @ ''## Current Plan'' @ nl @ ''Objective: '' @ pl_objective pl @ nl
       @ concat (map (\<lambda>t. ''- ['' @ task_status_name (pt_status t) @ ''] '' @ pt_description t @ '' ('' @ show_id (pt_id t)
           @ '')'' @ nl) (pl_tasks pl)))"

definition build_reflect_user_message ::
  "'a reflect_env \<Rightarrow> state_snapshot \<Rightarrow> decision \<Rightarrow> action_execution list \<Rightarrow> string \<Rightarrow> string option" where
  "build_reflect_user_message env snap d xs diff_section =
     map_option (\<lambda>ls. ''## Action Outcomes'' @ nl @ nl @ concat ls @ plan_part (re_show_uuid env) (ss_plan snap)
         @ nl @ ''## Decision Reasoning'' @ nl @ dc_reasoning d @ nl @ diff_section)
       (those (map (outcome_line (ao_json_text (re_arts env))) xs))"

definition llm_reflect ::
  "'a reflect_env \<Rightarrow> state_snapshot \<Rightarrow> decision \<Rightarrow> action_execution list \<Rightarrow> string \<Rightarrow> 'a llm_world \<Rightarrow>
   reflection_result exo_result option \<times> 'a llm_world" where
  "llm_reflect env snap d xs diff_section w =
     (case resolve (re_alnum env) (re_prompts env) ''reflect-system''
         [(''vessel_id'', re_show_uuid env (re_vessel_id env)), (''mission'', re_mission env)] of
        Inl e \<Rightarrow> (Some (Inl e), w)
      | Inr system \<Rightarrow>
          (case build_reflect_user_message env snap d xs diff_section of
             None \<Rightarrow> (None, w)
           | Some msg \<Rightarrow>
               (case handler_direct_llm_call (re_handler env) (re_arts env)
                   \<lparr>lr_backend = None, lr_system_prompt = Some system, lr_messages = [llm_message_text RoleUser msg],
                    lr_max_output_tokens = re_max_output_tokens env div 2, lr_temperature = Some (f64_of_rat (3 / 10)),
                    lr_stop_sequences = [], lr_stream = False, lr_tools = []\<rparr> w of
                  (Inl e, w') \<Rightarrow> (Some (Inl e), w')
                | (Inr result, w') \<Rightarrow>
                    (let protocol = parse_reflect_protocol env (response_text (dl_response result)) in
                     (Some (Inr \<lparr>rf_action_success_rate = rf_action_success_rate (heuristic_reflect xs),
                        rf_observations = rp_observations protocol, rf_concerns = rp_concerns protocol,
                        rf_task_updates = rp_task_updates protocol, rf_working_memory_ops = rp_working_memory_ops protocol,
                        rf_should_replan = rp_should_replan protocol, rf_llm_call_record = Some (dl_record result)\<rparr>), w')))))"

definition reflect ::
  "'a reflect_env \<Rightarrow> state_snapshot \<Rightarrow> decision \<Rightarrow> action_execution list \<Rightarrow> string \<Rightarrow> 'a llm_world \<Rightarrow>
   reflection_result option \<times> 'a llm_world" where
  "reflect env snap d xs diff_section w =
     (if xs = [] \<or> re_cancelled env then (Some (heuristic_reflect xs), w)
      else case llm_reflect env snap d xs diff_section w of
        (None, w') \<Rightarrow> (None, w')
      | (Some (Inr r), w') \<Rightarrow> (Some r, w')
      | (Some (Inl _), w') \<Rightarrow> (Some (heuristic_reflect xs), w'))"

section \<open>Laws\<close>

lemma llm_reflect_cases:
  assumes "llm_reflect env snap d xs diff_section w = (r, w')"
    "build_reflect_user_message env snap d xs diff_section = Some msg"
  shows "(\<exists>e. r = Some (Inl e)) \<or> (\<exists>x. r = Some (Inr x) \<and> rf_action_success_rate x = rf_action_success_rate (heuristic_reflect xs))"
    "lw_calls w' \<le> Suc (lw_calls w)"
proof -
  show "(\<exists>e. r = Some (Inl e)) \<or> (\<exists>x. r = Some (Inr x) \<and> rf_action_success_rate x = rf_action_success_rate (heuristic_reflect xs))"
    using assms unfolding llm_reflect_def Let_def by (simp split: sum.splits prod.splits) auto
  show "lw_calls w' \<le> Suc (lw_calls w)"
    using assms call_counts_one(1) unfolding llm_reflect_def Let_def
    by (simp split: sum.splits prod.splits) blast+
qed

text \<open>
  Whatever the model and the backends do, the step has a result with the heuristic success rate,
  unless a long output is cut inside a character; it makes at most one call.
\<close>

lemma reflect_total:
  assumes "list_all (\<lambda>x. outcome_line (ao_json_text (re_arts env)) x \<noteq> None) xs"
  shows "\<exists>r. fst (reflect env snap d xs diff_section w) = Some r
    \<and> rf_action_success_rate r = rf_action_success_rate (heuristic_reflect xs)
    \<and> lw_calls (snd (reflect env snap d xs diff_section w)) \<le> Suc (lw_calls w)"
proof -
  obtain msg where msg: "build_reflect_user_message env snap d xs diff_section = Some msg"
    using assms
    by (cases "those (map (outcome_line (ao_json_text (re_arts env))) xs)")
      (auto simp: build_reflect_user_message_def those_eq_None list_all_iff)
  obtain r w' where llm: "llm_reflect env snap d xs diff_section w = (r, w')" by force
  show ?thesis
    using llm_reflect_cases [OF llm msg] llm by (auto simp: reflect_def)
qed

end
