(* ===== verification/Amend.thy ===== *)
theory Amend
  imports Kernel Reflect
begin

text \<open>
  The Amend step (\<open>exoskeleton-host/src/kernel/amend.rs\<close>): it builds the next snapshot, lets the memory
  consolidation thread's output into memory, stores the reply and the relationship updates, and then
  commits the tick: snapshot, tick record, completion event, acknowledgement of the messages, memory
  notes. Failures before the commit are logged and ignored by the code; in the commit each failure ends
  the step. The preview of a reply cuts at byte 80 and may panic: the result \<open>None\<close>.
\<close>

section \<open>Surroundings\<close>

record memory_note =
  mn_topic :: string
  mn_content :: string
  mn_tags :: "string list"

record memory_consolidation =
  mc_episodic_summary :: string
  mc_long_term_notes :: "memory_note list"
  mc_deprecated_notes :: "string list"

text \<open>The places where the step reads the clock or draws an id.\<close>

datatype amend_site =
    AtUpdated | AtPlanDefault | AtPlanUpdate | AtTaskUpdate nat | AtConsolidated nat | AtConsolidatedNote nat nat
  | AtEviction | AtStale | AtReplyArtifact | AtReplyMessage | AtReplyEvent | AtRelArtifact | AtRelEvent
  | AtBudget | AtSnapshotArtifact | AtCompleted | AtTickArtifact | AtTickEvent | AtMemoryNote nat

record ('c, 't, 'l, 'i) amend_env =
  am_arts :: "artifact sql_db artifact_ops"
  am_conv :: "'c conv_ops"
  am_threads :: "'t thread_ops"
  am_append :: "relationship_record \<Rightarrow> 'l \<Rightarrow> (uuid \<times> 'l) exo_result"
  am_inbox :: "'i inbox_ops"
  am_chrono :: chrono_ops
  am_show_uuid :: "uuid \<Rightarrow> string"
  am_snapshot_codec :: "state_snapshot codec"
  am_tick_codec :: "tick_record codec"
  am_encode_rel :: "relationship_snapshot \<Rightarrow> string + string"
  am_parse_mc :: "string \<Rightarrow> memory_consolidation option"
  am_capacity :: "u64 option"
  am_return_to_idle :: bool
  am_tracker_free :: bool
  am_gate_free :: bool
  am_now :: "amend_site \<Rightarrow> datetime"
  am_new_id :: "amend_site \<Rightarrow> uuid"

definition MEMORY_CONSOLIDATION_ID :: uuid where
  "MEMORY_CONSOLIDATION_ID = 0xcae10003000040008000000000000003"

definition amend_event ::
  "('c, 't, 'l, 'i) amend_env \<Rightarrow> uuid \<Rightarrow> amend_site \<Rightarrow> event_type \<Rightarrow> artifact_id option \<Rightarrow> string \<Rightarrow> event_entry" where
  "amend_event env tick_id site ty payload_ref summary = \<lparr>ev_id = am_new_id env site, ev_tick_id = Some tick_id,
     ev_event_type = ty, ev_payload_ref = payload_ref, ev_summary = summary, ev_timestamp = am_now env site\<rparr>"

definition log_amend ::
  "('c, 't, 'l, 'i) amend_env \<Rightarrow> event_entry \<Rightarrow> ('c, 't, 'l, 'i) kernel_world \<Rightarrow> ('c, 't, 'l, 'i) kernel_world" where
  "log_amend env e w = w\<lparr>kw_events := append_event (am_show_uuid env) e (kw_events w)\<rparr>"

section \<open>The next snapshot\<close>

definition with_plan_update ::
  "('c, 't, 'l, 'i) amend_env \<Rightarrow> plan_update option \<Rightarrow> plan option \<Rightarrow> plan option" where
  "with_plan_update env u p = (case u of
     None \<Rightarrow> p
   | Some upd \<Rightarrow> Some (plan_apply_update (am_now env AtPlanUpdate) upd (case p of
       Some current \<Rightarrow> current
     | None \<Rightarrow> \<lparr>pl_objective = [], pl_tasks = [], pl_updated_at = am_now env AtPlanDefault\<rparr>)))"

fun apply_task_updates ::
  "('c, 't, 'l, 'i) amend_env \<Rightarrow> nat \<Rightarrow> task_status_update list \<Rightarrow> plan option \<Rightarrow> plan option" where
  "apply_task_updates env k [] p = p"
| "apply_task_updates env k (u # us) p = apply_task_updates env (Suc k) us (map_option (\<lambda>pl.
     (plan_apply_op (UpdateStatus (tu_task_id u) (tu_new_status u)) pl)\<lparr>pl_updated_at := am_now env (AtTaskUpdate k)\<rparr>) p)"

definition amended_working_memory ::
  "u64 \<Rightarrow> wm_op list option \<Rightarrow> wm_op list \<Rightarrow> working_memory \<Rightarrow> working_memory" where
  "amended_working_memory tick decide_ops reflect_ops es =
     wm_enforce_cap 50 (wm_evict_expired tick (wm_apply_ops tick reflect_ops
       (case decide_ops of Some ops \<Rightarrow> wm_apply_ops tick ops es | None \<Rightarrow> es)))"

definition action_summary :: "action_execution list \<Rightarrow> string" where
  "action_summary xs =
     (if xs = [] then ''No actions taken''
      else show_nat (length xs) @ '' actions: '' @ show_nat (length (filter (\<lambda>x. \<not> isl (xn_result x)) xs)) @ '' succeeded, ''
        @ show_nat (length (filter (\<lambda>x. isl (xn_result x)) xs)) @ '' failed'')"

definition coding_idle :: "exec_thread_summary \<Rightarrow> bool" where
  "coding_idle s \<longleftrightarrow> xs_kind s = ExecCoding \<and> xs_status s = ExIdle \<and>
     (case xs_last_completion_reason s of Some r \<Rightarrow> str_trim r \<noteq> [] | None \<Rightarrow> False)"

definition prune_working_memory_for_bounded_coding_idle ::
  "('c, 't, 'l, 'i) amend_env \<Rightarrow> perception \<Rightarrow> state_snapshot \<Rightarrow> state_snapshot" where
  "prune_working_memory_for_bounded_coding_idle env p s =
     (if \<not> am_return_to_idle env \<or> pe_new_messages p \<noteq> [] \<or> \<not> list_ex coding_idle (ss_exec_thread_summaries s) then s
      else s\<lparr>ss_working_memory := filter (\<lambda>e. List.member [''session_status'', ''user_question_pending''] (wme_key e))
        (ss_working_memory s)\<rparr>)"

definition or_default :: "'x list exo_result \<Rightarrow> 'x list" where
  "or_default r = (case r of Inr xs \<Rightarrow> xs | Inl _ \<Rightarrow> [])"

definition amended_snapshot ::
  "('c, 't, 'l, 'i) amend_env \<Rightarrow> u64 \<Rightarrow> state_snapshot \<Rightarrow> perception \<Rightarrow> decision \<Rightarrow> action_execution list \<Rightarrow>
   reflection_result \<Rightarrow> ('c, 't, 'l, 'i) kernel_world \<Rightarrow> state_snapshot" where
  "amended_snapshot env tick before p d xs r w =
     prune_working_memory_for_bounded_coding_idle env p (before\<lparr>
       ss_tick_number := tick,
       ss_updated_at := am_now env AtUpdated,
       ss_plan := apply_task_updates env 0 (rf_task_updates r) (with_plan_update env (dc_plan_update d) (ss_plan before)),
       ss_working_memory := amended_working_memory tick (dc_working_memory_ops d) (rf_working_memory_ops r)
         (ss_working_memory before),
       ss_status := VIdle,
       ss_vessel_mode := kw_mode w,
       ss_last_action_summary := Some (action_summary xs),
       ss_thread_summaries := or_default (thread_summaries (am_threads env) (kw_threads w)),
       ss_exec_thread_summaries := or_default (exec_thread_summaries (am_threads env) (kw_threads w))\<rparr>)"

section \<open>Memory consolidation\<close>

definition parse_mc_output :: "('c, 't, 'l, 'i) amend_env \<Rightarrow> string \<Rightarrow> memory_consolidation" where
  "parse_mc_output env tx = (case am_parse_mc env tx of
     Some mc \<Rightarrow> mc
   | None \<Rightarrow> \<lparr>mc_episodic_summary = [], mc_long_term_notes = [], mc_deprecated_notes = []\<rparr>)"

text \<open>The schedule of the thread: every five ticks.\<close>

definition mc_span :: u64 where
  "mc_span = 5"

definition consolidation_of ::
  "('c, 't, 'l, 'i) amend_env \<Rightarrow> thread_contribution \<Rightarrow> thread_output \<Rightarrow> artifact sql_db \<Rightarrow> memory_consolidation" where
  "consolidation_of env contribution out arts =
     (let content = (case ao_get (am_arts env) arts (tc_artifact_id contribution) of
            Inr (Some a) \<Rightarrow> from_utf8_lossy (af_content a)
          | _ \<Rightarrow> to_summary out);
          mc = parse_mc_output env content
      in if mc_episodic_summary mc \<noteq> [] then mc
         else let alt = parse_mc_output env (to_summary out)
           in if mc_episodic_summary alt = [] then mc\<lparr>mc_episodic_summary := tc_summary contribution\<rparr> else alt)"

definition ignore_write :: "('x \<times> memory_db) exo_result \<Rightarrow> memory_db \<Rightarrow> memory_db" where
  "ignore_write r m = (case r of Inr (_, m') \<Rightarrow> m' | Inl _ \<Rightarrow> m)"

definition write_consolidation ::
  "('c, 't, 'l, 'i) amend_env \<Rightarrow> u64 \<Rightarrow> nat \<Rightarrow> memory_consolidation \<Rightarrow> memory_db \<Rightarrow> memory_db" where
  "write_consolidation env tick k mc m =
     (let sha = ao_sha256_hex (am_arts env);
          m1 = (if mc_episodic_summary mc = [] then m
                else ignore_write (write_episodic \<lparr>ep_id = sha (mc_episodic_summary mc),
                  ep_start_tick = sat_sub tick (sat_sub mc_span 1), ep_end_tick = tick,
                  ep_summary = mc_episodic_summary mc, ep_key_events = [],
                  ep_token_count = approximate_token_count (mc_episodic_summary mc),
                  ep_created_at = am_now env (AtConsolidated k)\<rparr> m) m)
      in fold (\<lambda>(j, n) m. ignore_write (write_long_term \<lparr>lt_id = sha (mn_content n), lt_topic = mn_topic n,
            lt_content = mn_content n, lt_tags = mn_tags n, lt_token_count = approximate_token_count (mn_content n),
            lt_created_at = am_now env (AtConsolidatedNote k j)\<rparr> m) m)
           (zip [0..<length (mc_long_term_notes mc)] (mc_long_term_notes mc)) m1)"

fun process_contributions ::
  "('c, 't, 'l, 'i) amend_env \<Rightarrow> u64 \<Rightarrow> nat \<Rightarrow> thread_contribution list \<Rightarrow> ('c, 't, 'l, 'i) kernel_world \<Rightarrow>
   ('c, 't, 'l, 'i) kernel_world" where
  "process_contributions env tick k [] w = w"
| "process_contributions env tick k (c # cs) w = process_contributions env tick (Suc k) cs
     (case ts_recent_outputs (am_threads env) (kw_threads w) MEMORY_CONSOLIDATION_ID 1 of
        Inr (out # _) \<Rightarrow> w\<lparr>kw_memory := write_consolidation env tick k (consolidation_of env c out (kw_artifacts w)) (kw_memory w)\<rparr>
      | _ \<Rightarrow> w)"

definition process_memory_consolidation_outputs ::
  "('c, 't, 'l, 'i) amend_env \<Rightarrow> perception \<Rightarrow> u64 \<Rightarrow> ('c, 't, 'l, 'i) kernel_world \<Rightarrow> ('c, 't, 'l, 'i) kernel_world" where
  "process_memory_consolidation_outputs env p tick w =
     process_contributions env tick 0 (filter (\<lambda>c. tc_thread_id c = MEMORY_CONSOLIDATION_ID) (pe_thread_outputs p)) w"

definition evict_memory ::
  "('c, 't, 'l, 'i) amend_env \<Rightarrow> uuid \<Rightarrow> ('c, 't, 'l, 'i) kernel_world \<Rightarrow> ('c, 't, 'l, 'i) kernel_world" where
  "evict_memory env tick_id w = (case am_capacity env of
     None \<Rightarrow> w
   | Some capacity \<Rightarrow> (case evict_episodic_beyond capacity (kw_memory w) of
       Inl _ \<Rightarrow> w
     | Inr (evicted, m) \<Rightarrow>
         if 0 < evicted
         then log_amend env (amend_event env tick_id AtEviction EpisodicEvicted None
                (''Evicted '' @ show_u64 evicted @ '' episodic entries (capacity: '' @ show_u64 capacity @ '')''))
              (w\<lparr>kw_memory := m\<rparr>)
         else w\<lparr>kw_memory := m\<rparr>))"

section \<open>Reply and relationship\<close>

definition reply_summary :: "string \<Rightarrow> string option" where
  "reply_summary tx = (if length tx > 80 then map_option (\<lambda>s. ''Vessel reply: '' @ s @ ''...'') (slice_to 80 tx)
     else Some (''Vessel reply: '' @ tx))"

definition process_reply ::
  "('c, 't, 'l, 'i) amend_env \<Rightarrow> uuid \<Rightarrow> uuid \<Rightarrow> perception \<Rightarrow> string option \<Rightarrow> ('c, 't, 'l, 'i) kernel_world \<Rightarrow>
   bool \<times> ('c, 't, 'l, 'i) kernel_world" where
  "process_reply env tick_id vessel_id p reply w = (case reply of
     None \<Rightarrow> (True, w)
   | Some tx \<Rightarrow>
       (case ao_put (am_arts env) (artifact_new (ao_sha256_hex (am_arts env)) (am_now env AtReplyArtifact) AkEnvelope tx ''text/plain'')
           (kw_artifacts w) of
          (Inl _, arts) \<Rightarrow> (True, w\<lparr>kw_artifacts := arts\<rparr>)
        | (Inr artifact_id, arts) \<Rightarrow>
            (let w1 = w\<lparr>kw_artifacts := arts\<rparr>;
                 w2 = (case pe_active_conversations p of
                     [] \<Rightarrow> w1
                   | conv # _ \<Rightarrow> (case co_save (am_conv env) (add_message vessel_id (am_new_id env AtReplyMessage) artifact_id
                         (am_now env AtReplyMessage) conv) (kw_conversations w1) of
                       Inr convs \<Rightarrow> w1\<lparr>kw_conversations := convs\<rparr> | Inl _ \<Rightarrow> w1))
             in case reply_summary tx of
                  None \<Rightarrow> (False, w2)
                | Some summary \<Rightarrow>
                    (True, log_amend env (amend_event env tick_id AtReplyEvent VesselResponseSent (Some artifact_id) summary) w2))))"

definition store_relationships ::
  "('c, 't, 'l, 'i) amend_env \<Rightarrow> alignment_result \<Rightarrow> state_snapshot \<Rightarrow> ('c, 't, 'l, 'i) kernel_world \<Rightarrow>
   state_snapshot \<times> ('c, 't, 'l, 'i) kernel_world" where
  "store_relationships env al s w = (case al_relationship_snapshot al of
     None \<Rightarrow> (s, w)
   | Some rel \<Rightarrow> (case am_encode_rel env rel of
       Inl _ \<Rightarrow> (s, w)
     | Inr tx \<Rightarrow> (case ao_put (am_arts env) (artifact_new (ao_sha256_hex (am_arts env)) (am_now env AtRelArtifact)
             AkRelationshipEntry tx ''application/json'') (kw_artifacts w) of
         (Inl _, arts) \<Rightarrow> (s, w\<lparr>kw_artifacts := arts\<rparr>)
       | (Inr i, arts) \<Rightarrow> (s\<lparr>ss_relationship_snapshot_ref := Some i\<rparr>, w\<lparr>kw_artifacts := arts\<rparr>))))"

definition append_updates ::
  "('c, 't, 'l, 'i) amend_env \<Rightarrow> uuid \<Rightarrow> relationship_record list \<Rightarrow> ('c, 't, 'l, 'i) kernel_world \<Rightarrow>
   ('c, 't, 'l, 'i) kernel_world" where
  "append_updates env tick_id updates w =
     (let ledger = fold (\<lambda>r l. case am_append env r l of Inr (_, l') \<Rightarrow> l' | Inl _ \<Rightarrow> l) updates (kw_ledger w);
          w1 = w\<lparr>kw_ledger := ledger\<rparr>
      in if updates = [] then w1
         else log_amend env (amend_event env tick_id AtRelEvent RelationshipUpdated None
                (show_nat (length updates) @ '' relationship updates from Align step'')) w1)"

definition with_budget :: "('c, 't, 'l, 'i) amend_env \<Rightarrow> ('c, 't, 'l, 'i) kernel_world \<Rightarrow> state_snapshot \<Rightarrow> state_snapshot" where
  "with_budget env w s = (case kw_tracker w of
     None \<Rightarrow> s
   | Some t \<Rightarrow>
       if \<not> am_tracker_free env then s
       else s\<lparr>ss_budget_status := budget_status (am_chrono env) (am_now env AtBudget)
         (case kw_gate w of Some g \<Rightarrow> if am_gate_free env then gate_remaining g else - 1 | None \<Rightarrow> - 1) t\<rparr>)"

section \<open>The commit\<close>

text \<open>\<open>artifact_store.put(&Artifact::from_json(kind, value)?)?\<close>.\<close>

definition put_encoded ::
  "('c, 't, 'l, 'i) amend_env \<Rightarrow> amend_site \<Rightarrow> artifact_kind \<Rightarrow> string + string \<Rightarrow> ('c, 't, 'l, 'i) kernel_world \<Rightarrow>
   artifact_id exo_result \<times> ('c, 't, 'l, 'i) kernel_world" where
  "put_encoded env site kind encoded w = (case encoded of
     Inl e \<Rightarrow> (Inl (Serde e), w)
   | Inr tx \<Rightarrow> (case ao_put (am_arts env) (artifact_new (ao_sha256_hex (am_arts env)) (am_now env site) kind tx ''application/json'')
         (kw_artifacts w) of (r, arts) \<Rightarrow> (r, w\<lparr>kw_artifacts := arts\<rparr>)))"

definition tick_record_of ::
  "('c, 't, 'l, 'i) amend_env \<Rightarrow> uuid \<Rightarrow> u64 \<Rightarrow> datetime \<Rightarrow> artifact_id \<Rightarrow> artifact_id \<Rightarrow> perception \<Rightarrow> decision \<Rightarrow>
   action_execution list \<Rightarrow> reflection_result \<Rightarrow> artifact_id option \<Rightarrow> tick_record" where
  "tick_record_of env tick_id tick started before_id after_id p d xs r breakdown = \<lparr>
     tr_tick_id = tick_id, tr_tick_number = tick, tr_phase = Amend, tr_started_at = started,
     tr_completed_at = Some (am_now env AtCompleted), tr_snapshot_before = before_id, tr_snapshot_after = Some after_id,
     tr_thread_contributions = pe_thread_outputs p, tr_exec_thread_contributions = pe_exec_thread_outputs p,
     tr_actions_taken = map xn_record xs,
     tr_llm_calls = dc_llm_call_record d # (case rf_llm_call_record r of Some c \<Rightarrow> [c] | None \<Rightarrow> []),
     tr_decision_rationale = Some (dc_reasoning d), tr_context_breakdown_ref = breakdown\<rparr>"

definition write_notes ::
  "('c, 't, 'l, 'i) amend_env \<Rightarrow> u64 \<Rightarrow> string list \<Rightarrow> memory_db \<Rightarrow> memory_db" where
  "write_notes env tick notes m = fold (\<lambda>(k, note) m. ignore_write (write_episodic \<lparr>
       ep_id = ao_sha256_hex (am_arts env) note, ep_start_tick = tick, ep_end_tick = tick, ep_summary = note,
       ep_key_events = [], ep_token_count = approximate_token_count note, ep_created_at = am_now env (AtMemoryNote k)\<rparr> m) m)
     (zip [0..<length notes] notes) m"

definition tick_output :: "('c, 't, 'l, 'i) amend_env \<Rightarrow> uuid \<Rightarrow> u64 \<Rightarrow> nat \<Rightarrow> f64 \<Rightarrow> string" where
  "tick_output env tick_id tick actions rate = ao_json_text (am_arts env) (JObj [
     (''tick_id'', JStr (am_show_uuid env tick_id)), (''tick_number'', JInt (uint tick)),
     (''actions'', JInt (int actions)), (''success_rate'', json_f64 rate)])"

definition acknowledge_consumed ::
  "('c, 't, 'l, 'i) amend_env \<Rightarrow> perception \<Rightarrow> ('c, 't, 'l, 'i) kernel_world \<Rightarrow> unit exo_result \<times> ('c, 't, 'l, 'i) kernel_world" where
  "acknowledge_consumed env p w =
     (if pe_new_messages p = [] then (Inr (), w)
      else case ib_acknowledge (am_inbox env) (map me_id (pe_new_messages p)) (kw_inbox w) of
        (r, ib) \<Rightarrow> (r, w\<lparr>kw_inbox := ib\<rparr>))"

definition commit ::
  "('c, 't, 'l, 'i) amend_env \<Rightarrow> uuid \<Rightarrow> u64 \<Rightarrow> datetime \<Rightarrow> artifact_id \<Rightarrow> state_snapshot \<Rightarrow> perception \<Rightarrow> decision \<Rightarrow>
   action_execution list \<Rightarrow> reflection_result \<Rightarrow> artifact_id option \<Rightarrow> ('c, 't, 'l, 'i) kernel_world \<Rightarrow>
   string exo_result \<times> ('c, 't, 'l, 'i) kernel_world" where
  "commit env tick_id tick started before_id s p d xs r breakdown w =
     (case put_encoded env AtSnapshotArtifact AkSnapshot (enc (am_snapshot_codec env) s) w of
        (Inl e, w1) \<Rightarrow> (Inl e, w1)
      | (Inr after_id, w1) \<Rightarrow>
     (case snapshot_save (am_snapshot_codec env) s (kw_snapshots w1) of
        Inl e \<Rightarrow> (Inl e, w1)
      | Inr snaps \<Rightarrow>
     (let w2 = w1\<lparr>kw_snapshots := snaps\<rparr>;
          t = tick_record_of env tick_id tick started before_id after_id p d xs r breakdown
      in case put_encoded env AtTickArtifact AkTick (enc (am_tick_codec env) t) w2 of
        (Inl e, w3) \<Rightarrow> (Inl e, w3)
      | (Inr _, w3) \<Rightarrow>
     (case tick_save (am_show_uuid env) (am_tick_codec env) t (kw_ticks w3) of
        Inl e \<Rightarrow> (Inl e, w3)
      | Inr ticks \<Rightarrow>
     (let w4 = w3\<lparr>kw_ticks := ticks\<rparr> in
      case event_append (am_show_uuid env) (amend_event env tick_id AtTickEvent TickCompleted None
          (''Tick '' @ show_u64 tick @ '' completed: '' @ (case ss_last_action_summary s of Some x \<Rightarrow> x | None \<Rightarrow> []))) (kw_events w4) of
        Inl e \<Rightarrow> (Inl e, w4)
      | Inr (_, events) \<Rightarrow>
     (case acknowledge_consumed env p (w4\<lparr>kw_events := events\<rparr>) of
        (Inl e, w5) \<Rightarrow> (Inl e, w5)
      | (Inr _, w5) \<Rightarrow>
          (Inr (tick_output env tick_id tick (length xs) (rf_action_success_rate r)),
           w5\<lparr>kw_memory := write_notes env tick (dc_memory_notes d) (kw_memory w5)\<rparr>)))))))"

definition amend ::
  "('c, 't, 'l, 'i) amend_env \<Rightarrow> uuid \<Rightarrow> u64 \<Rightarrow> datetime \<Rightarrow> state_snapshot \<Rightarrow> artifact_id \<Rightarrow> perception \<Rightarrow> decision \<Rightarrow>
   alignment_result \<Rightarrow> action_execution list \<Rightarrow> reflection_result \<Rightarrow> artifact_id option \<Rightarrow> ('c, 't, 'l, 'i) kernel_world \<Rightarrow>
   string exo_result option \<times> ('c, 't, 'l, 'i) kernel_world" where
  "amend env tick_id tick started before before_id p d al xs r breakdown w =
     (let s1 = amended_snapshot env tick before p d xs r w;
          w1 = process_memory_consolidation_outputs env p tick w;
          w2 = evict_memory env tick_id w1;
          w3 = w2\<lparr>kw_conversations := mark_stale_conversations (am_chrono env) (am_conv env) (am_now env AtStale) (kw_conversations w2)\<rparr>
      in case process_reply env tick_id (ss_vessel_id s1) p (dc_reply d) w3 of
           (False, w4) \<Rightarrow> (None, w4)
         | (True, w4) \<Rightarrow>
             (let (s2, w5) = store_relationships env al s1 w4;
                  w6 = append_updates env tick_id (al_relationship_updates al) w5;
                  (res, w7) = commit env tick_id tick started before_id (with_budget env w6 s2) p d xs r breakdown w6
              in (Some res, w7)))"

section \<open>What the step leaves alone until the commit\<close>

definition same_commit_tables :: "('c, 't, 'l, 'i) kernel_world \<Rightarrow> ('c, 't, 'l, 'i) kernel_world \<Rightarrow> bool" where
  "same_commit_tables w w' \<longleftrightarrow> kw_snapshots w' = kw_snapshots w \<and> kw_ticks w' = kw_ticks w \<and> kw_inbox w' = kw_inbox w"

lemma same_commit_tables_refl [simp]: "same_commit_tables w w"
  by (simp add: same_commit_tables_def)

lemma same_commit_tables_trans: "same_commit_tables a b \<Longrightarrow> same_commit_tables b c \<Longrightarrow> same_commit_tables a c"
  by (simp add: same_commit_tables_def)

lemma log_amend_frame [simp]: "same_commit_tables w (log_amend env e w') = same_commit_tables w w'"
  by (simp add: same_commit_tables_def log_amend_def)

lemma contributions_frame: "same_commit_tables w (process_contributions env tick k cs w)"
proof (induction cs arbitrary: k w)
  case (Cons c cs)
  show ?case
    unfolding process_contributions.simps
    by (rule same_commit_tables_trans [OF _ Cons]) (simp add: same_commit_tables_def split: sum.split list.split)
qed simp

lemma evict_frame: "same_commit_tables w (evict_memory env tick_id w)"
  by (auto simp: evict_memory_def split: option.split sum.split) (auto simp: same_commit_tables_def)

lemma reply_frame: "process_reply env tick_id v p reply w = (ok, w') \<Longrightarrow> same_commit_tables w w'"
  by (auto simp: process_reply_def Let_def split: option.splits prod.splits sum.splits list.splits)
    (auto simp: same_commit_tables_def)

lemma relationships_frame:
  "store_relationships env al s w = (s', w') \<Longrightarrow>
   same_commit_tables w w' \<and> ss_tick_number s' = ss_tick_number s \<and> ss_status s' = ss_status s"
  by (auto simp: store_relationships_def same_commit_tables_def split: option.splits prod.splits sum.splits)

lemma append_updates_frame: "same_commit_tables w (append_updates env tick_id us w)"
  by (auto simp: append_updates_def Let_def) (auto simp: same_commit_tables_def)

lemma put_encoded_frame: "put_encoded env site kind e w = (r, w') \<Longrightarrow> same_commit_tables w w' \<and> kw_events w' = kw_events w"
  by (auto simp: put_encoded_def same_commit_tables_def split: sum.splits prod.splits)

lemma with_budget_keeps [simp]:
  "ss_tick_number (with_budget env w s) = ss_tick_number s" "ss_status (with_budget env w s) = ss_status s"
  by (simp_all add: with_budget_def split: option.split)

lemma amended_snapshot_tick [simp]:
  "ss_tick_number (amended_snapshot env tick before p d xs r w) = tick"
  "ss_status (amended_snapshot env tick before p d xs r w) = VIdle"
  by (simp_all add: amended_snapshot_def prune_working_memory_for_bounded_coding_idle_def)

section \<open>The commit and the acknowledgement\<close>

text \<open>
  The tick is in the database: one new snapshot, taken while the vessel is idle, and one new tick
  record, both under the number of the tick.
\<close>

definition committed ::
  "('c, 't, 'l, 'i) amend_env \<Rightarrow> uuid \<Rightarrow> u64 \<Rightarrow> ('c, 't, 'l, 'i) kernel_world \<Rightarrow> ('c, 't, 'l, 'i) kernel_world \<Rightarrow> bool" where
  "committed env tick_id tick w w' \<longleftrightarrow>
     (\<exists>row s. db_rows (kw_snapshots w') = db_rows (kw_snapshots w) @ [row] \<and> sn_tick_number row = tick \<and>
       enc (am_snapshot_codec env) s = Inr (sn_data row) \<and> ss_tick_number s = tick \<and> ss_status s = VIdle) \<and>
     (\<exists>row. db_rows (kw_ticks w') = db_rows (kw_ticks w) @ [row] \<and> tk_tick_id row = tick_id \<and> tk_tick_number row = tick)"

lemma snapshot_save_Inr:
  assumes "snapshot_save c s db = Inr db'"
  shows "\<exists>row. db_rows db' = db_rows db @ [row] \<and> sn_tick_number row = ss_tick_number s \<and> enc c s = Inr (sn_data row)"
  using assms by (auto simp: snapshot_save_def with_db_def locked_def split: if_splits sum.splits option.splits)

lemma tick_save_Inr:
  assumes "tick_save sh c t db = Inr db'"
  shows "\<exists>row. db_rows db' = db_rows db @ [row] \<and> tk_tick_id row = tr_tick_id t \<and> tk_tick_number row = tr_tick_number t"
  using assms by (auto simp: tick_save_def with_db_def locked_def split: if_splits sum.splits option.splits)

lemma event_append_Inr:
  assumes "event_append sh e db = Inr (i, db')"
  shows "db_rows db' = db_rows db @ [e]"
  using assms by (auto simp: event_append_def with_db_def locked_def split: if_splits option.splits)

definition messages_acknowledged ::
  "('c, 't, 'l, 'i) amend_env \<Rightarrow> perception \<Rightarrow> 'i \<Rightarrow> 'i \<Rightarrow> bool" where
  "messages_acknowledged env p ib ib' \<longleftrightarrow>
     (if pe_new_messages p = [] then ib' = ib
      else ib_acknowledge (am_inbox env) (map me_id (pe_new_messages p)) ib = (Inr (), ib'))"

lemma acknowledge_frame:
  assumes "acknowledge_consumed env p w = (r, w')"
  shows "kw_snapshots w' = kw_snapshots w" "kw_ticks w' = kw_ticks w" "kw_events w' = kw_events w"
    "r = Inr u \<Longrightarrow> messages_acknowledged env p (kw_inbox w) (kw_inbox w')"
  using assms by (auto simp: acknowledge_consumed_def messages_acknowledged_def split: if_splits prod.splits)

lemma commit_before_acknowledge:
  assumes c: "commit env tick_id tick started before_id s p d xs r breakdown w = (res, w')"
    and s: "ss_tick_number s = tick" "ss_status s = VIdle"
  shows "kw_inbox w' = kw_inbox w \<and> (\<exists>e. res = Inl e) \<or>
    committed env tick_id tick w w' \<and>
    (\<forall>out. res = Inr out \<longrightarrow> messages_acknowledged env p (kw_inbox w) (kw_inbox w') \<and>
      (\<exists>e. db_rows (kw_events w') = db_rows (kw_events w) @ [e] \<and> ev_event_type e = TickCompleted \<and> ev_tick_id e = Some tick_id))"
proof -
  obtain r1 w1 where put1: "put_encoded env AtSnapshotArtifact AkSnapshot (enc (am_snapshot_codec env) s) w = (r1, w1)"
    by fastforce
  note f1 = put_encoded_frame [OF put1, unfolded same_commit_tables_def]
  show ?thesis
  proof (cases r1)
    case (Inl e)
    then show ?thesis using c put1 f1 by (simp add: commit_def) auto
  next
    case (Inr after_id)
    note r1 = this
    show ?thesis
    proof (cases "snapshot_save (am_snapshot_codec env) s (kw_snapshots w1)")
      case (Inl e)
      then show ?thesis using c put1 f1 r1 by (simp add: commit_def) auto
    next
      case (Inr snaps)
      note save = this
      define t where "t = tick_record_of env tick_id tick started before_id after_id p d xs r breakdown"
      obtain r3 w3 where put2: "put_encoded env AtTickArtifact AkTick (enc (am_tick_codec env) t) (w1\<lparr>kw_snapshots := snaps\<rparr>) = (r3, w3)"
        by fastforce
      note f3 = put_encoded_frame [OF put2, unfolded same_commit_tables_def]
      note c' = c [unfolded commit_def put1 r1, simplified, unfolded save Let_def, simplified, folded t_def, unfolded put2, simplified]
      show ?thesis
      proof (cases "\<exists>i ticks. r3 = Inr i \<and> tick_save (am_show_uuid env) (am_tick_codec env) t (kw_ticks w3) = Inr ticks")
        case False
        then show ?thesis using c' f1 f3 by (auto split: sum.splits)
      next
        case True
        then obtain i ticks where r3: "r3 = Inr i" and ts: "tick_save (am_show_uuid env) (am_tick_codec env) t (kw_ticks w3) = Inr ticks"
          by blast
        have both: "kw_snapshots v = snaps \<Longrightarrow> kw_ticks v = ticks \<Longrightarrow> committed env tick_id tick w v" for v :: "('a, 'b, 'c, 'd) kernel_world"
          using snapshot_save_Inr [OF save] tick_save_Inr [OF ts] f1 f3 s
          by (auto simp: committed_def t_def tick_record_of_def)
        note c'' = c' [unfolded r3 ts, simplified]
        show ?thesis
          using c'' f1 f3
          by (auto split: sum.splits prod.splits dest!: event_append_Inr dest: acknowledge_frame intro!: both simp: amend_event_def)
      qed
    qed
  qed
qed

lemma amend_effect:
  assumes "amend env tick_id tick started before before_id p d al xs r breakdown w = (res, w')"
  shows "kw_inbox w' = kw_inbox w \<and> (\<nexists>out. res = Some (Inr out)) \<or>
    committed env tick_id tick w w' \<and>
    (\<forall>out. res = Some (Inr out) \<longrightarrow> messages_acknowledged env p (kw_inbox w) (kw_inbox w') \<and>
      (\<exists>e. e \<in> set (db_rows (kw_events w')) \<and> ev_event_type e = TickCompleted \<and> ev_tick_id e = Some tick_id))"
proof -
  define s1 where "s1 = amended_snapshot env tick before p d xs r w"
  define w3 where "w3 = (let w2 = evict_memory env tick_id (process_memory_consolidation_outputs env p tick w)
    in w2\<lparr>kw_conversations := mark_stale_conversations (am_chrono env) (am_conv env) (am_now env AtStale) (kw_conversations w2)\<rparr>)"
  have f3: "same_commit_tables w w3"
    using same_commit_tables_trans [OF contributions_frame evict_frame]
    unfolding w3_def process_memory_consolidation_outputs_def Let_def same_commit_tables_def by fastforce
  obtain ok w4 where reply: "process_reply env tick_id (ss_vessel_id s1) p (dc_reply d) w3 = (ok, w4)" by fastforce
  note f4 = same_commit_tables_trans [OF f3 reply_frame [OF reply]]
  obtain s2 w5 where rel: "store_relationships env al s1 w4 = (s2, w5)" by fastforce
  define w6 where "w6 = append_updates env tick_id (al_relationship_updates al) w5"
  obtain res' w7 where com: "commit env tick_id tick started before_id (with_budget env w6 s2) p d xs r breakdown w6 = (res', w7)"
    by fastforce
  have f6: "same_commit_tables w w6"
    using f4 relationships_frame [OF rel] append_updates_frame unfolding w6_def by (blast intro: same_commit_tables_trans)
  have s2: "ss_tick_number (with_budget env w6 s2) = tick" "ss_status (with_budget env w6 s2) = VIdle"
    using relationships_frame [OF rel] by (simp_all add: s1_def)
  have eq: "(res, w') = (if ok then (Some res', w7) else (None, w4))"
    using assms [symmetric] reply rel com by (simp add: amend_def Let_def s1_def w3_def w6_def split: bool.split)
  show ?thesis
    using eq f4 f6 commit_before_acknowledge [OF com s2]
    by (cases ok) (auto simp: same_commit_tables_def committed_def)
qed

text \<open>
  C25. The Amend step acknowledges messages only once the tick is in the database. Either the step
  fails and the inbox is as before, or the new snapshot (with the number of the tick and the status idle)
  and the new tick record have been appended to their tables; and when the step succeeds, exactly
  the messages perceived in this tick have been acknowledged and the completion of the tick is in the
  event ledger. A crash or an error between the two leaves the messages for the next tick, never the reverse.
\<close>

theorem amend_acknowledges_after_commit:
  assumes "amend env tick_id tick started before before_id p d al xs r breakdown w = (res, w')"
  shows "kw_inbox w' = kw_inbox w \<and> (\<nexists>out. res = Some (Inr out)) \<or>
    committed env tick_id tick w w' \<and>
    (\<forall>out. res = Some (Inr out) \<longrightarrow> messages_acknowledged env p (kw_inbox w) (kw_inbox w') \<and>
      (\<exists>e. e \<in> set (db_rows (kw_events w')) \<and> ev_event_type e = TickCompleted \<and> ev_tick_id e = Some tick_id))"
  by (rule amend_effect [OF assms])

section \<open>The properties at concrete inputs\<close>

definition plain_amend_env :: "(mem_conversations, mem_threads, mem_ledger, mem_inbox) amend_env" where
  "plain_amend_env = \<lparr>am_arts = plain_arts, am_conv = mem_ops, am_threads = mem_thread_ops,
     am_append = ledger_append (\<lambda>_. []), am_inbox = mem_inbox_ops, am_chrono = nanos_chrono, am_show_uuid = (\<lambda>_. []),
     am_snapshot_codec = \<lparr>enc = (\<lambda>_. Inr ''snapshot''), dec = (\<lambda>_. Inl ''none'')\<rparr>,
     am_tick_codec = \<lparr>enc = (\<lambda>_. Inr ''tick''), dec = (\<lambda>_. Inl ''none'')\<rparr>,
     am_encode_rel = (\<lambda>_. Inl ''none''), am_parse_mc = (\<lambda>_. None), am_capacity = None, am_return_to_idle = False,
     am_tracker_free = True, am_gate_free = True, am_now = (\<lambda>_. 0), am_new_id = (\<lambda>_. 77)\<rparr>"

definition sample_kernel_world :: "(mem_conversations, mem_threads, mem_ledger, mem_inbox) kernel_world" where
  "sample_kernel_world = \<lparr>kw_snapshots = open_db, kw_ticks = open_db, kw_events = open_db, kw_artifacts = open_db,
     kw_memory = open_memory, kw_conversations = conv_store_new, kw_threads = mem_threads_new, kw_ledger = ledger_new,
     kw_inbox = \<lparr>mi_pending = [sample_message 5 HumanMessage], mi_acknowledged = []\<rparr>,
     kw_tracker = None, kw_gate = None, kw_mode = MNormal\<rparr>"

definition sample_decision :: decision where
  "sample_decision = \<lparr>dr_actions = [], dr_watch_proposals = [], dc_reasoning = [], dc_reply = None, dc_plan_update = None,
     dc_working_memory_ops = None, dc_memory_notes = [], dc_llm_call_record = \<lparr>lc_model = [], lc_tokens_in = 0,
       lc_tokens_out = 0, lc_cost_cents = Fin 0, lc_latency_ms = 0, lc_response_artifact_ref = None, lc_turns = 1\<rparr>,
     dc_response_artifact_id = [], dc_vessel_mode_request = None\<rparr>"

definition quiet_alignment :: alignment_result where
  "quiet_alignment = \<lparr>al_approved_actions = [], al_blocked_actions = [], al_relationship_updates = [],
     al_relationship_snapshot = None\<rparr>"

definition quiet_reflection :: reflection_result where
  "quiet_reflection = \<lparr>rf_action_success_rate = Fin 1, rf_observations = [], rf_concerns = [], rf_task_updates = [],
     rf_working_memory_ops = [], rf_should_replan = False, rf_llm_call_record = None\<rparr>"

definition one_message :: perception where
  "one_message = \<lparr>pe_new_messages = [sample_message 5 HumanMessage], pe_active_conversations = [], pe_thread_outputs = [],
     pe_exec_thread_outputs = [], pe_pending_action_results = []\<rparr>"

lemmas sample_amend_defs = plain_amend_env_def sample_kernel_world_def sample_decision_def quiet_alignment_def
  quiet_reflection_def one_message_def plain_arts_def open_db_def artifact_put_def with_db_def locked_def
  event_append_def snapshot_save_def tick_save_def

theorem amend_acknowledges_after_commit_witness:
  "let w = sample_kernel_world;
       w' = snd (amend plain_amend_env 9 1 0 (snapshot_initial 0 1 ''m'') ''b'' one_message sample_decision quiet_alignment []
         quiet_reflection None w)
   in kw_inbox w' \<noteq> kw_inbox w \<and> committed plain_amend_env 9 1 w w'"
proof -
  let ?r = "amend plain_amend_env 9 1 0 (snapshot_initial 0 1 ''m'') ''b'' one_message sample_decision quiet_alignment []
         quiet_reflection None sample_kernel_world"
  have "kw_inbox (snd ?r) \<noteq> kw_inbox sample_kernel_world"
    by (simp add: amend_def Let_def sample_amend_defs process_memory_consolidation_outputs_def evict_memory_def
        process_reply_def store_relationships_def append_updates_def commit_def put_encoded_def with_budget_def
        acknowledge_consumed_def mem_inbox_ops_def mem_acknowledge_def artifact_new_def artifact_new_with_timestamp_def)
  then show ?thesis using amend_acknowledges_after_commit [OF prod.collapse [symmetric, of ?r]] unfolding Let_def by blast
qed

end
