(* ===== verification/Coding_Feedback.thy ===== *)
theory Coding_Feedback
  imports Kernel Llm_Types
begin

text \<open>
  What a coding thread learns about its last action (\<open>exoskeleton-threads/src/runtime.rs\<close> and
  \<open>exoskeleton-host/src/kernel/threads.rs\<close>): success and failure of edits and of verification in the last tick, and the symbol that
  a semantic tool resolved.
\<close>

section \<open>Feedback for the coding thread\<close>

record semantic_feedback =
  sf_tool_name :: string
  sf_query :: "string option"
  sf_symbol_id :: "string option"
  sf_name :: "string option"
  sf_kind :: "string option"
  sf_file_path :: "string option"
  sf_start_line :: "u32 option"
  sf_end_line :: "u32 option"

record coding_feedback =
  cf_mutating_success :: bool
  cf_mutating_failure :: bool
  cf_verification_success :: bool
  cf_verification_failure :: bool
  cf_semantic_resolution :: "semantic_feedback option"

definition coding_feedback_default :: coding_feedback where
  "coding_feedback_default = \<lparr>cf_mutating_success = False, cf_mutating_failure = False, cf_verification_success = False,
     cf_verification_failure = False, cf_semantic_resolution = None\<rparr>"

definition feedback_of_action :: "uuid \<Rightarrow> action_record \<Rightarrow> coding_feedback \<Rightarrow> coding_feedback" where
  "feedback_of_action i a f =
     (if ar_origin_exec_thread_id a \<noteq> Some i then f
      else if List.member [''code.edit'', ''code.write'', ''code.apply_patch'', ''fs.write''] (ar_action_type a)
      then if ar_outcome a = Success then f\<lparr>cf_mutating_success := True\<rparr> else f\<lparr>cf_mutating_failure := True\<rparr>
      else if List.member [''code.read'', ''code.read_symbol'', ''code.grep'', ''shell.exec''] (ar_action_type a) \<and> ar_outcome a = Success
      then f\<lparr>cf_verification_success := True\<rparr>
      else f)"

definition coding_feedback_from_actions :: "uuid \<Rightarrow> action_record list \<Rightarrow> coding_feedback" where
  "coding_feedback_from_actions i actions = fold (feedback_of_action i) actions coding_feedback_default"

definition line_field :: "json \<Rightarrow> string \<Rightarrow> u32 option" where
  "line_field v k = map_option ucast (Option.bind (Option.bind (json_get v ''range'') (\<lambda>r. json_get r k)) json_as_u64)"

fun first_of :: "json option \<Rightarrow> json option" where
  "first_of (Some (JArr (x # _))) = Some x"
| "first_of _ = None"

definition semantic_feedback_from_receipt :: "string \<Rightarrow> json \<Rightarrow> semantic_feedback option" where
  "semantic_feedback_from_receipt tool v =
     (if tool = ''code.read_symbol'' then
        map_option (\<lambda>symbol. \<lparr>sf_tool_name = tool, sf_query = json_get_str symbol ''name'',
          sf_symbol_id = json_get_str symbol ''symbol_id'', sf_name = json_get_str symbol ''name'',
          sf_kind = json_get_str symbol ''kind'', sf_file_path = json_get_str v ''file_path'',
          sf_start_line = line_field v ''start_line'', sf_end_line = line_field v ''end_line''\<rparr>) (json_get v ''symbol'')
      else if tool = ''code.symbol'' then
        map_option (\<lambda>top. \<lparr>sf_tool_name = tool, sf_query = json_get_str top ''name'',
          sf_symbol_id = json_get_str top ''symbol_id'', sf_name = json_get_str top ''name'',
          sf_kind = json_get_str top ''kind'', sf_file_path = json_get_str top ''file_path'',
          sf_start_line = line_field top ''start_line'', sf_end_line = line_field top ''end_line''\<rparr>) (first_of (json_get v ''matches''))
      else if tool = ''code.impls'' then
        map_option (\<lambda>top. let trait_name = json_get_str top ''trait_name''; type_name = json_get_str top ''type_name'' in
          \<lparr>sf_tool_name = tool, sf_query = (case trait_name of Some t \<Rightarrow> Some t | None \<Rightarrow> type_name),
           sf_symbol_id = json_get_str top ''symbol_id'',
           sf_name = map_option (\<lambda>ty. case trait_name of Some t \<Rightarrow> t @ '' for '' @ ty | None \<Rightarrow> ty) type_name,
           sf_kind = Some ''impl'', sf_file_path = json_get_str top ''file_path'',
           sf_start_line = line_field top ''start_line'', sf_end_line = line_field top ''end_line''\<rparr>) (first_of (json_get v ''impls''))
      else None)"

text \<open>\<open>parse\<close> is \<open>serde_json::from_slice\<close>.\<close>

definition receipt_json ::
  "artifact sql_db artifact_ops \<Rightarrow> (string \<Rightarrow> json option) \<Rightarrow> artifact sql_db \<Rightarrow> action_record \<Rightarrow> json option" where
  "receipt_json ops parse arts a = Option.bind (ar_receipt_ref a) (\<lambda>i.
     case ao_get ops arts i of Inr (Some x) \<Rightarrow> parse (af_content x) | _ \<Rightarrow> None)"

definition latest_semantic_feedback ::
  "artifact sql_db artifact_ops \<Rightarrow> (string \<Rightarrow> json option) \<Rightarrow> artifact sql_db \<Rightarrow> uuid \<Rightarrow> action_record list \<Rightarrow>
   semantic_feedback option" where
  "latest_semantic_feedback ops parse arts i actions =
     (case List.map_filter (\<lambda>a. if ar_origin_exec_thread_id a \<noteq> Some i \<or> ar_outcome a \<noteq> Success then None
         else Option.bind (receipt_json ops parse arts a) (semantic_feedback_from_receipt (ar_action_type a))) (rev actions) of
        [] \<Rightarrow> None | f # _ \<Rightarrow> Some f)"

definition apply_latest_verification_feedback ::
  "artifact sql_db artifact_ops \<Rightarrow> (string \<Rightarrow> json option) \<Rightarrow> artifact sql_db \<Rightarrow> uuid \<Rightarrow> action_record list \<Rightarrow>
   coding_feedback \<Rightarrow> coding_feedback" where
  "apply_latest_verification_feedback ops parse arts i actions f =
     (case List.find (\<lambda>a. ar_origin_exec_thread_id a = Some i \<and> ar_action_type a = ''code.test'' \<and> ar_outcome a = Success)
         (rev actions) of
        None \<Rightarrow> f
      | Some a \<Rightarrow> (case Option.bind (receipt_json ops parse arts a) (\<lambda>v. Option.bind (json_get v ''passed'') json_as_bool) of
          Some True \<Rightarrow> f\<lparr>cf_verification_success := True\<rparr>
        | Some False \<Rightarrow> f\<lparr>cf_verification_success := False, cf_verification_failure := True\<rparr>
        | None \<Rightarrow> f))"

definition latest_coding_feedback ::
  "artifact sql_db artifact_ops \<Rightarrow> (string \<Rightarrow> json option) \<Rightarrow> tick_record codec \<Rightarrow> uuid \<Rightarrow> ('c, 't, 'l, 'i) kernel_world \<Rightarrow>
   coding_feedback exo_result" where
  "latest_coding_feedback ops parse codec i w = (case tick_latest codec (kw_ticks w) of
     Inl e \<Rightarrow> Inl e
   | Inr None \<Rightarrow> Inr coding_feedback_default
   | Inr (Some t) \<Rightarrow> Inr (apply_latest_verification_feedback ops parse (kw_artifacts w) i (tr_actions_taken t)
       ((coding_feedback_from_actions i (tr_actions_taken t))\<lparr>cf_semantic_resolution :=
          latest_semantic_feedback ops parse (kw_artifacts w) i (tr_actions_taken t)\<rparr>)))"

end
