(* ===== verification/Coding_Text.thy ===== *)
theory Coding_Text
  imports Coding_Feedback Tools Prompts
begin

text \<open>
  Texts, paths and proposals of the coding thread (\<open>exoskeleton-threads/src/builtin/coding.rs\<close>): the records that the model
  answers with, the lookups into the parameters of a proposal, the heuristics on identifiers, and the functions of
  \<open>std::path\<close> they rest on. The disk is a pair of functions on path texts; a JSON object is the list of its entries,
  whose order carries no meaning.
\<close>

section \<open>Types\<close>

record coding_policy_profile =
  cp_exploratory_stall_threshold :: u32
  cp_semantic_lookup_stall_threshold :: u32
  cp_same_file_inspection_threshold :: u32
  cp_prefer_semantic_navigation :: bool
  cp_prefer_trait_module_targets :: bool
  cp_post_edit_verification_limit :: u32

definition coding_policy_default :: coding_policy_profile where
  "coding_policy_default = \<lparr>cp_exploratory_stall_threshold = 3, cp_semantic_lookup_stall_threshold = 2,
     cp_same_file_inspection_threshold = 3, cp_prefer_semantic_navigation = True, cp_prefer_trait_module_targets = True,
     cp_post_edit_verification_limit = 1\<rparr>"

datatype coding_phase = PhIdle | PhLocating | PhInspecting | PhEditCandidate | PhEditing | PhVerifying | PhBlocked

fun phase_as_str :: "coding_phase \<Rightarrow> string" where
  "phase_as_str PhIdle = ''idle''"
| "phase_as_str PhLocating = ''locating''"
| "phase_as_str PhInspecting = ''inspecting''"
| "phase_as_str PhEditCandidate = ''edit_candidate''"
| "phase_as_str PhEditing = ''editing''"
| "phase_as_str PhVerifying = ''verifying''"
| "phase_as_str PhBlocked = ''blocked''"

definition phase_from_str :: "string \<Rightarrow> coding_phase option" where
  "phase_from_str s =
     (if s = ''idle'' then Some PhIdle
      else if s = ''locating'' \<or> s = ''discovery'' then Some PhLocating
      else if s = ''inspecting'' then Some PhInspecting
      else if s = ''edit_candidate'' then Some PhEditCandidate
      else if s = ''editing'' then Some PhEditing
      else if s = ''verifying'' then Some PhVerifying
      else if s = ''blocked'' then Some PhBlocked
      else None)"

record coding_proposal =
  cx_tool_name :: string
  cx_params :: json
  cx_rationale :: string

record coding_response =
  rx_status :: "exec_thread_status option"
  rx_summary :: string
  rx_current_focus :: "string option"
  rx_work_phase :: "string option"
  rx_scratchpad :: "string option"
  rx_evidence_complete :: bool
  rx_proposal_confidence :: "proposal_confidence option"
  rx_should_wake_master :: bool
  rx_completion_reason :: "string option"
  rx_proposed_action :: "coding_proposal option"

section \<open>Strings\<close>

text \<open>\<open>str::parse\<close> of an unsigned integer of at most \<open>bound\<close>: an optional plus sign and decimal digits.\<close>

definition digit_value :: "char \<Rightarrow> nat option" where
  "digit_value c = (let n = of_char c in if 48 \<le> n \<and> n \<le> 57 then Some (n - 48) else None)"

fun parse_digits :: "nat \<Rightarrow> nat \<Rightarrow> string \<Rightarrow> string + nat" where
  "parse_digits bound acc [] = Inr acc"
| "parse_digits bound acc (c # cs) = (case digit_value c of
     None \<Rightarrow> Inl ''invalid digit found in string''
   | Some d \<Rightarrow> if bound < acc * 10 + d then Inl ''number too large to fit in target type''
       else parse_digits bound (acc * 10 + d) cs)"

definition parse_uint :: "nat \<Rightarrow> string \<Rightarrow> string + nat" where
  "parse_uint bound s =
     (if s = [] then Inl ''cannot parse integer from empty string''
      else if s = ''+'' \<or> s = ''-'' then Inl ''invalid digit found in string''
      else parse_digits bound 0 (if hd s = CHR ''+'' then tl s else s))"

definition parse_u64 :: "string \<Rightarrow> string + u64" where
  "parse_u64 s = (case parse_uint (2 ^ 64 - 1) s of Inl e \<Rightarrow> Inl e | Inr n \<Rightarrow> Inr (of_nat n))"

definition parse_u32 :: "string \<Rightarrow> string + u32" where
  "parse_u32 s = (case parse_uint (2 ^ 32 - 1) s of Inl e \<Rightarrow> Inl e | Inr n \<Rightarrow> Inr (of_nat n))"

definition contains :: "string \<Rightarrow> string \<Rightarrow> bool" where
  "contains s pat \<longleftrightarrow> find_str pat s \<noteq> None"

definition lower_text :: "string \<Rightarrow> string" where
  "lower_text s = map ascii_lower s"

definition mentions_any :: "string list \<Rightarrow> string \<Rightarrow> bool" where
  "mentions_any pats s \<longleftrightarrow> list_ex (contains s) pats"

definition ascii_upper :: "char \<Rightarrow> char" where
  "ascii_upper c = (let n = of_char c :: nat in if 97 \<le> n \<and> n \<le> 122 then char_of (n - 32) else c)"

definition is_ascii_uppercase :: "char \<Rightarrow> bool" where
  "is_ascii_uppercase c \<longleftrightarrow> 65 \<le> (of_char c :: nat) \<and> (of_char c :: nat) \<le> 90"

definition is_word_char :: "char \<Rightarrow> bool" where
  "is_word_char c \<longleftrightarrow> is_digit c \<or> is_ascii_uppercase c \<or> 97 \<le> (of_char c :: nat) \<and> (of_char c :: nat) \<le> 122 \<or> c = CHR ''_''"

definition blank :: "string \<Rightarrow> bool" where
  "blank s \<longleftrightarrow> str_trim s = []"

definition show_int :: "int \<Rightarrow> string" where
  "show_int i = (if i < 0 then ''-'' @ show_nat (nat (- i)) else show_nat (nat i))"

fun split_on :: "char \<Rightarrow> string \<Rightarrow> string list" where
  "split_on d [] = [[]]"
| "split_on d (c # cs) = (case split_on d cs of
     w # ws \<Rightarrow> if c = d then [] # w # ws else (c # w) # ws
   | [] \<Rightarrow> [[c]])"

text \<open>\<open>split_whitespace\<close>.\<close>

fun words_of :: "string list \<Rightarrow> string \<Rightarrow> string list" where
  "words_of [] cur = (if cur = [] then [] else [cur])"
| "words_of (ch # chs) cur =
     (if is_whitespace ch then (if cur = [] then words_of chs [] else cur # words_of chs []) else words_of chs (cur @ ch))"

definition split_whitespace :: "string \<Rightarrow> string list" where
  "split_whitespace s = words_of (utf8_chars s) []"

section \<open>Paths\<close>

datatype path_component = RootDir | CurDir | ParentDir | Normal string

definition component_of :: "string \<Rightarrow> path_component" where
  "component_of s = (if s = ''.'' then CurDir else if s = ''..'' then ParentDir else Normal s)"

definition skipped :: "string \<Rightarrow> bool" where
  "skipped s \<longleftrightarrow> s = [] \<or> s = ''.''"

text \<open>Empty segments and dots are no components, a leading dot excepted.\<close>

definition path_components :: "string \<Rightarrow> path_component list" where
  "path_components p = (case split_on CHR ''/'' p of
     [] \<Rightarrow> []
   | s # rest \<Rightarrow> (if s = [] then (if p = [] then [] else [RootDir]) else [component_of s])
       @ map component_of (filter (\<lambda>x. \<not> skipped x) rest))"

definition path_file_name :: "string \<Rightarrow> string option" where
  "path_file_name p = (case rev (path_components p) of Normal n # _ \<Rightarrow> Some n | _ \<Rightarrow> None)"

definition path_join :: "string \<Rightarrow> string \<Rightarrow> string" where
  "path_join dir name = (if dir = [] then name else if last dir = CHR ''/'' then dir @ name else dir @ ''/'' @ name)"

definition trim_tail :: "string list \<Rightarrow> string list" where
  "trim_tail segs = (case segs of [] \<Rightarrow> [] | s # rest \<Rightarrow> s # rev (dropWhile skipped (rev rest)))"

text \<open>\<open>Path::parent\<close> with the text that \<open>display\<close> prints.\<close>

definition path_parent :: "string \<Rightarrow> string option" where
  "path_parent p = (case rev (path_components p) of
     [] \<Rightarrow> None
   | RootDir # _ \<Rightarrow> None
   | _ \<Rightarrow> (let segs = trim_tail (butlast (trim_tail (split_on CHR ''/'' p))) in
       Some (if segs = [[]] then ''/'' else join ''/'' segs)))"

text \<open>The parts of a file name before and after its last dot; a dot in front starts no extension.\<close>

definition dot_split :: "string \<Rightarrow> string option \<times> string option" where
  "dot_split name = (let after_rev = takeWhile (\<lambda>c. c \<noteq> CHR ''.'') (rev name) in
     if length after_rev = length name then (None, Some name)
     else let before = take (length name - length after_rev - 1) name in
       if before = [] then (Some name, None) else (Some before, Some (rev after_rev)))"

definition path_extension :: "string \<Rightarrow> string option" where
  "path_extension p = Option.bind (path_file_name p) (\<lambda>n. case dot_split n of
     (Some _, after) \<Rightarrow> after | (None, _) \<Rightarrow> None)"

definition file_stem :: "string \<Rightarrow> string option" where
  "file_stem p = Option.bind (path_file_name p) (\<lambda>n. case dot_split n of
     (Some before, _) \<Rightarrow> Some before | (None, after) \<Rightarrow> after)"

definition looks_like_file_path :: "string \<Rightarrow> bool" where
  "looks_like_file_path p \<longleftrightarrow> path_extension p \<noteq> None"

definition is_module_file :: "string \<Rightarrow> bool" where
  "is_module_file p \<longleftrightarrow> path_file_name p = Some ''mod.rs'' \<or> path_file_name p = Some ''lib.rs''"

definition parent_generic_module_file :: "string \<Rightarrow> string option" where
  "parent_generic_module_file p =
     Option.bind (file_stem p) (\<lambda>stem. Option.bind (path_parent p) (\<lambda>parent. Option.bind (path_file_name parent) (\<lambda>parent_name.
       if stem = parent_name then map_option (\<lambda>d. path_join d ''mod.rs'') (path_parent parent)
       else map_option (\<lambda>d. path_join d ''mod.rs'') (path_parent parent))))"

definition semantic_path_hint_for_target_file :: "string \<Rightarrow> string" where
  "semantic_path_hint_for_target_file target =
     (if is_module_file target then (case path_parent target of Some d \<Rightarrow> d | None \<Rightarrow> target) else target)"

definition semantic_path_hint_to_target_file :: "string \<Rightarrow> string" where
  "semantic_path_hint_to_target_file hint = (if looks_like_file_path hint then hint else path_join hint ''mod.rs'')"

definition repo_relative_components :: "string \<Rightarrow> string option \<Rightarrow> string list" where
  "repo_relative_components p workspace_root =
     (let comps = path_components p;
          rel = (case workspace_root of
            Some ws \<Rightarrow> (let rc = path_components ws in if take (length rc) comps = rc then drop (length rc) comps else comps)
          | None \<Rightarrow> comps)
      in List.map_filter (\<lambda>c. case c of Normal s \<Rightarrow> Some s | _ \<Rightarrow> None) rel)"

definition same_repo_subtree :: "string \<Rightarrow> string \<Rightarrow> string option \<Rightarrow> bool" where
  "same_repo_subtree left right workspace_root =
     (if left = right then True
      else let l = repo_relative_components left workspace_root; r = repo_relative_components right workspace_root in
        if l = [] \<or> r = [] then map_option path_components (path_parent left) = map_option path_components (path_parent right)
        else if hd l \<noteq> hd r then False
        else (case (tl l, tl r) of (a # _, b # _) \<Rightarrow> a = b | _ \<Rightarrow> True))"

section \<open>Parameters of a proposal\<close>

fun json_as_i64 :: "json \<Rightarrow> int option" where
  "json_as_i64 (JInt n) = (if - (2 ^ 63) \<le> n \<and> n < 2 ^ 63 then Some n else None)"
| "json_as_i64 _ = None"

definition unwrap_or :: "'a \<Rightarrow> 'a option \<Rightarrow> 'a" where
  "unwrap_or d x = (case x of Some y \<Rightarrow> y | None \<Rightarrow> d)"

fun is_object :: "json \<Rightarrow> bool" where
  "is_object (JObj _) = True"
| "is_object _ = False"

definition param_str :: "coding_proposal \<Rightarrow> string \<Rightarrow> string option" where
  "param_str p k = json_get_str (cx_params p) k"

definition param_i64 :: "coding_proposal \<Rightarrow> string \<Rightarrow> int option" where
  "param_i64 p k = Option.bind (json_get (cx_params p) k) json_as_i64"

definition param_u64 :: "coding_proposal \<Rightarrow> string \<Rightarrow> u64 option" where
  "param_u64 p k = Option.bind (json_get (cx_params p) k) json_as_u64"

definition param_array :: "coding_proposal \<Rightarrow> string \<Rightarrow> json list option" where
  "param_array p k = Option.bind (json_get (cx_params p) k) json_as_array"

definition is_semantic_lookup_tool :: "string \<Rightarrow> bool" where
  "is_semantic_lookup_tool t \<longleftrightarrow> List.member [''code.symbol'', ''code.read_symbol'', ''code.references'', ''code.impls''] t"

definition is_exploratory_tool :: "string \<Rightarrow> bool" where
  "is_exploratory_tool t \<longleftrightarrow> List.member [''repo.locate'', ''repo.context'', ''code.symbol'', ''code.read_symbol'', ''code.references'',
     ''code.impls'', ''code.read'', ''code.grep'', ''code.ls''] t"

definition is_verification_action :: "coding_proposal option \<Rightarrow> bool" where
  "is_verification_action p = (case p of
     Some x \<Rightarrow> List.member [''code.read'', ''code.read_symbol'', ''code.grep'', ''shell.exec'', ''code.test''] (cx_tool_name x)
   | None \<Rightarrow> False)"

definition proposal_file_path :: "coding_proposal \<Rightarrow> string option" where
  "proposal_file_path p = param_str p ''file_path''"

definition proposal_has_explicit_target_paths :: "coding_proposal \<Rightarrow> bool" where
  "proposal_has_explicit_target_paths p = (case param_array p ''target_paths'' of
     None \<Rightarrow> False
   | Some items \<Rightarrow> list_ex (\<lambda>i. case json_as_str i of Some s \<Rightarrow> \<not> blank s | None \<Rightarrow> False) items)"

definition proposal_symbol_file_hint :: "coding_proposal \<Rightarrow> string option" where
  "proposal_symbol_file_hint p = or_else (param_str p ''path_hint'')
     (case param_str p ''path'' of Some path \<Rightarrow> if looks_like_file_path path then Some path else None | None \<Rightarrow> None)"

definition proposal_has_symbol_anchor :: "coding_proposal \<Rightarrow> bool" where
  "proposal_has_symbol_anchor p = (case param_str p ''symbol_id'' of Some s \<Rightarrow> \<not> blank s | None \<Rightarrow> False)"

definition proposal_query :: "coding_proposal \<Rightarrow> string option" where
  "proposal_query p = (case param_str p ''query'' of Some q \<Rightarrow> if blank q then None else Some q | None \<Rightarrow> None)"

definition proposal_texts :: "coding_proposal \<Rightarrow> string list" where
  "proposal_texts p = cx_rationale p # List.map_filter (param_str p) [''query'', ''symbol_id'', ''path_hint'', ''kind_hint'']"

definition colons :: string where
  "colons = ''::''"

definition proposal_stall_target :: "coding_proposal \<Rightarrow> string option" where
  "proposal_stall_target p = (let t = cx_tool_name p in
     if t = ''code.read'' then map_option (\<lambda>f. f @ colons @ show_int (unwrap_or 0 (param_i64 p ''offset'')) @ '':'' @
       show_int (unwrap_or 0 (param_i64 p ''limit''))) (param_str p ''file_path'')
     else if t = ''code.read_symbol'' then or_else (param_str p ''symbol_id'')
       (map_option (\<lambda>q. unwrap_or [] (param_str p ''path_hint'') @ colons @ q) (param_str p ''query''))
     else if t = ''code.edit'' \<or> t = ''code.write'' then param_str p ''file_path''
     else if t = ''code.grep'' then map_option (\<lambda>d. d @ colons @ unwrap_or [] (param_str p ''pattern'')) (param_str p ''path'')
     else if t = ''repo.locate'' then map_option (\<lambda>d. d @ colons @ unwrap_or [] (param_str p ''query'')) (param_str p ''path'')
     else if t = ''repo.context'' then map_option (\<lambda>d. d @ colons @ unwrap_or [] (param_str p ''query'') @ colons @
       (case param_array p ''target_paths'' of Some items \<Rightarrow> join '','' (List.map_filter json_as_str items) | None \<Rightarrow> [])) (param_str p ''path'')
     else if t = ''code.symbol'' \<or> t = ''code.references'' \<or> t = ''code.impls'' then map_option (\<lambda>d. d @ colons @
       unwrap_or d (param_str p ''path_hint'') @ colons @
       unwrap_or [] (or_else (param_str p ''query'') (param_str p ''symbol_id''))) (param_str p ''path'')
     else None)"

section \<open>Identifiers\<close>

fun identifiers :: "string \<Rightarrow> string \<Rightarrow> string list" where
  "identifiers [] cur = (if cur = [] then [] else [cur])"
| "identifiers (c # cs) cur =
     (if is_word_char c then identifiers cs (cur @ [c])
      else if cur \<noteq> [] then cur # identifiers cs [] else identifiers cs [])"

definition collect_identifier_candidates :: "string \<Rightarrow> string list" where
  "collect_identifier_candidates s = identifiers s []"

definition collect_proposal_query_candidates :: "coding_proposal \<Rightarrow> string list" where
  "collect_proposal_query_candidates p =
     concat (map collect_identifier_candidates (List.map_filter (param_str p) [''query'', ''pattern'', ''symbol_id'']))
     @ (case param_array p ''symbols'' of
         Some ss \<Rightarrow> concat (map collect_identifier_candidates (List.map_filter json_as_str ss)) | None \<Rightarrow> [])"

definition is_trait_like_query :: "string \<Rightarrow> bool" where
  "is_trait_like_query c \<longleftrightarrow>
     List.member [''TryFrom'', ''From'', ''Into'', ''AsRef'', ''Borrow'', ''Clone'', ''Debug'', ''Default''] c"

definition looks_like_symbol_query :: "string \<Rightarrow> bool" where
  "looks_like_symbol_query c =
     (if length c < 3 then False
      else if List.member [''code'', ''read'', ''symbol'', ''references'', ''workspace'', ''search'', ''switch'', ''blocked'',
        ''focus'', ''target'', ''file'', ''explicit'', ''current'', ''none''] c then False
      else CHR ''_'' \<in> set c \<or> is_trait_like_query c \<or> list_ex is_ascii_uppercase (concat (tl (utf8_chars c))))"

definition capitalised :: "string \<Rightarrow> string" where
  "capitalised s = (case s of [] \<Rightarrow> [] | c # cs \<Rightarrow> ascii_upper c # map ascii_lower cs)"

definition snake_to_camel :: "string \<Rightarrow> string" where
  "snake_to_camel s = concat (map capitalised (filter (\<lambda>x. x \<noteq> []) (split_on CHR ''_'' s)))"

definition camel_to_snake :: "string \<Rightarrow> string" where
  "camel_to_snake s = (case s of [] \<Rightarrow> [] | c # cs \<Rightarrow>
     ascii_lower c # concat (map (\<lambda>x. if is_ascii_uppercase x then [CHR ''_'', ascii_lower x] else [ascii_lower x]) cs))"

definition regex_escape_literal :: "string \<Rightarrow> string" where
  "regex_escape_literal s = concat (map (\<lambda>c. if c \<in> set ([CHR 0x5C] @ ''.+*?()|[]{}^$'') then [CHR 0x5C, c] else [c]) s)"

definition text_mentions_trait_conversion :: "string \<Rightarrow> bool" where
  "text_mentions_trait_conversion s \<longleftrightarrow>
     mentions_any [''tryfrom'', ''try_from'', ''from<'', ''impl from'', ''impl tryfrom''] (lower_text s)"

text \<open>Whitespace runs become one space; a longer text is cut at a byte index, which panics inside a character.\<close>

definition compact_text :: "string \<Rightarrow> nat \<Rightarrow> string option" where
  "compact_text s max_len = (let trimmed = join '' '' (split_whitespace s) in
     if length trimmed \<le> max_len then Some trimmed else map_option (\<lambda>t. t @ ''...'') (slice_to max_len trimmed))"

definition compact_semantic_feedback :: "semantic_feedback \<Rightarrow> string" where
  "compact_semantic_feedback f =
     (let present = (\<lambda>x. case x of Some s \<Rightarrow> if blank s then None else Some s | None \<Rightarrow> None);
          s0 = sf_tool_name f @ '' result'';
          s1 = (case present (sf_name f) of Some n \<Rightarrow> s0 @ '': '' @ n
            | None \<Rightarrow> (case present (sf_query f) of Some q \<Rightarrow> s0 @ '': '' @ q | None \<Rightarrow> s0))
      in case present (sf_file_path f) of Some file \<Rightarrow> s1 @ '' in '' @ file | None \<Rightarrow> s1)"

section \<open>Line numbers in texts\<close>

definition positive_u32 :: "string \<Rightarrow> u32 option" where
  "positive_u32 s = (case parse_u32 s of Inr n \<Rightarrow> if n > 0 then Some n else None | Inl _ \<Rightarrow> None)"

lemma find_str_bound: "find_str pat s = Some k \<Longrightarrow> k + length pat \<le> length s"
proof -
  assume "find_str pat s = Some k"
  then have "k < Suc (length s)" "take (length pat) (drop k s) = pat"
    unfolding find_str_def by (auto dest: find_found simp del: upt_Suc)
  moreover from this(2) have "min (length s - k) (length pat) = length pat" by (metis length_drop length_take)
  ultimately show ?thesis by simp
qed

text \<open>The number after each occurrence of a marker, until one is positive.\<close>

function line_after_marker :: "string \<Rightarrow> string \<Rightarrow> u32 option" where
  "line_after_marker marker s = (if marker = [] then None else case find_str marker (lower_text s) of
     None \<Rightarrow> None
   | Some k \<Rightarrow> (let rest = drop (k + length marker) s in
       case positive_u32 (takeWhile is_digit (dropWhile (\<lambda>c. \<not> is_digit c) rest)) of
         Some n \<Rightarrow> Some n
       | None \<Rightarrow> line_after_marker marker rest))"
  by pat_completeness auto

termination
proof (relation "measure (\<lambda>(m, s). length s)")
  fix marker s k rest
  assume "marker \<noteq> []" "find_str marker (lower_text s) = Some k" "rest = drop (k + length marker) s"
  then show "((marker, rest), (marker, s)) \<in> measure (\<lambda>(m, s). length s)"
    using find_str_bound [of marker "lower_text s" k] by (cases marker) (simp_all add: lower_text_def)
qed simp

declare line_after_marker.simps [simp del]

fun first_some :: "('a \<Rightarrow> 'b option) \<Rightarrow> 'a list \<Rightarrow> 'b option" where
  "first_some f [] = None"
| "first_some f (x # xs) = (case f x of Some y \<Rightarrow> Some y | None \<Rightarrow> first_some f xs)"

definition infer_relevant_line_mention :: "string list \<Rightarrow> u32 option" where
  "infer_relevant_line_mention texts = first_some (\<lambda>t. first_some (\<lambda>m. line_after_marker m t) [''line '', ''lines '']) texts"

definition better_line :: "u32 option \<Rightarrow> string \<Rightarrow> u32 option" where
  "better_line best current = (case positive_u32 current of
     None \<Rightarrow> best | Some n \<Rightarrow> Some (case best of None \<Rightarrow> n | Some b \<Rightarrow> max b n))"

fun max_line :: "string \<Rightarrow> string \<Rightarrow> u32 option \<Rightarrow> u32 option" where
  "max_line [] cur best = (if cur = [] then best else better_line best cur)"
| "max_line (c # cs) cur best =
     (if is_digit c then max_line cs (cur @ [c]) best
      else let best' = (if cur = [] then best else better_line best cur) in
        if c = CHR ''.'' \<or> c = CHR 0x0A \<or> c = CHR '';'' then best' else max_line cs [] best')"

definition parse_max_line_number :: "string \<Rightarrow> u32 option" where
  "parse_max_line_number s = max_line s [] None"

text \<open>The first text with one of the markers that yields a number.\<close>

definition usage_line :: "string \<Rightarrow> u32 option" where
  "usage_line s = Option.bind (first_some (\<lambda>m. map_option (\<lambda>k. k + length m) (find_str m (lower_text s)))
     [''usages at lines'', ''usage at lines'', ''usages at line'', ''usage at line'']) (\<lambda>k. parse_max_line_number (drop k s))"

definition infer_macro_usage_line_mention :: "string list \<Rightarrow> u32 option" where
  "infer_macro_usage_line_mention texts = first_some usage_line texts"

section \<open>The response of the model\<close>

definition extract_json_from_code_fence :: "string \<Rightarrow> string option" where
  "extract_json_from_code_fence s = Option.bind (find_str ''```json'' s) (\<lambda>i.
     let rest = drop (i + 7) s in map_option (\<lambda>e. str_trim (take e rest)) (find_str ''```'' rest))"

definition parse_exec_response :: "(string \<Rightarrow> coding_response option) \<Rightarrow> string \<Rightarrow> coding_response" where
  "parse_exec_response parse s = (case or_else (parse s) (Option.bind (extract_json_from_code_fence s) parse) of
     Some r \<Rightarrow> r
   | None \<Rightarrow> \<lparr>rx_status = None, rx_summary = s, rx_current_focus = None, rx_work_phase = None, rx_scratchpad = None,
       rx_evidence_complete = False, rx_proposal_confidence = None, rx_should_wake_master = False, rx_completion_reason = None,
       rx_proposed_action = None\<rparr>)"

end
