(* ===== verification/Coding_Synth.thy ===== *)
theory Coding_Synth
  imports Coding_Text
begin

text \<open>
  The situation of the coding thread and the proposals it makes in place of the model
  (\<open>exoskeleton-threads/src/builtin/coding.rs\<close>): scoped searches, reads of an exact span, the verification after an edit and
  the conditions under which each is preferred.
\<close>

section \<open>The situation\<close>

record coding_semantic_target =
  sx_symbol_id :: "string option"
  sx_name :: "string option"
  sx_kind :: "string option"
  sx_file :: "string option"
  sx_query :: "string option"
  sx_start_line :: "u32 option"
  sx_end_line :: "u32 option"

record coding_situation =
  si_phase :: coding_phase
  si_proposed_action :: "coding_proposal option"
  si_workspace_root :: "string option"
  si_target_file :: "string option"
  si_edit_hypothesis_file :: "string option"
  si_edit_hypothesis_summary :: "string option"
  si_semantic_target :: "coding_semantic_target option"
  si_repeated_same_proposal_count :: u32
  si_inspection_read_streak :: u32
  si_evidence_complete :: bool
  si_verification_pending :: bool
  si_verification_attempted :: bool
  si_recent_mutation_succeeded :: bool
  si_recent_mutation_failed :: bool
  si_recent_verification_succeeded :: bool
  si_recent_verification_failed :: bool

text \<open>\<open>Path::exists\<close> and \<open>Path::is_file\<close>.\<close>

record disk =
  dk_exists :: "string \<Rightarrow> bool"
  dk_is_file :: "string \<Rightarrow> bool"

definition aligned_hypothesis :: "coding_situation \<Rightarrow> bool" where
  "aligned_hypothesis s \<longleftrightarrow> si_edit_hypothesis_file s \<noteq> None \<and> si_edit_hypothesis_file s = si_target_file s"

definition repeated_same_file_read :: "coding_policy_profile \<Rightarrow> coding_situation \<Rightarrow> bool" where
  "repeated_same_file_read profile s = (case si_proposed_action s of
     None \<Rightarrow> False
   | Some p \<Rightarrow> cx_tool_name p = ''code.read'' \<and> si_inspection_read_streak s \<ge> cp_same_file_inspection_threshold profile
       \<and> (case proposal_file_path p of Some f \<Rightarrow> si_target_file s = Some f | None \<Rightarrow> False))"

definition repeated_exploratory_target :: "coding_policy_profile \<Rightarrow> coding_situation \<Rightarrow> bool" where
  "repeated_exploratory_target profile s = (case si_proposed_action s of
     None \<Rightarrow> False
   | Some p \<Rightarrow> is_exploratory_tool (cx_tool_name p)
       \<and> si_repeated_same_proposal_count s \<ge> cp_exploratory_stall_threshold profile)"

definition concrete_target_file :: "exec_thread_local_state \<Rightarrow> string option" where
  "concrete_target_file ls = or_else (ls_inspection_target_file ls) (ls_edit_hypothesis_file ls)"

definition semantic_target :: "exec_thread_local_state \<Rightarrow> coding_semantic_target option" where
  "semantic_target ls =
     (if ls_semantic_target_symbol_id ls \<noteq> None \<or> ls_semantic_target_name ls \<noteq> None \<or> ls_semantic_target_file ls \<noteq> None
         \<or> ls_semantic_target_query ls \<noteq> None
      then Some \<lparr>sx_symbol_id = ls_semantic_target_symbol_id ls, sx_name = ls_semantic_target_name ls, sx_kind = ls_semantic_target_kind ls,
        sx_file = ls_semantic_target_file ls, sx_query = ls_semantic_target_query ls,
        sx_start_line = ls_semantic_target_start_line ls, sx_end_line = ls_semantic_target_end_line ls\<rparr>
      else None)"

definition build_coding_situation ::
  "exec_thread_status \<Rightarrow> exec_thread_local_state \<Rightarrow> coding_response \<Rightarrow> coding_feedback \<Rightarrow> string option \<Rightarrow> coding_situation" where
  "build_coding_situation status ls r f workspace_root = \<lparr>
     si_phase = (case or_else (Option.bind (rx_work_phase r) phase_from_str) (Option.bind (ls_work_phase ls) phase_from_str) of
       Some ph \<Rightarrow> ph
     | None \<Rightarrow> if status = ExIdle then PhIdle else if status = ExBlocked then PhBlocked
         else if ls_verification_pending ls then PhVerifying
         else if rx_evidence_complete r \<or> ls_evidence_complete ls then PhEditCandidate else PhInspecting),
     si_proposed_action = rx_proposed_action r, si_workspace_root = workspace_root, si_target_file = concrete_target_file ls,
     si_edit_hypothesis_file = ls_edit_hypothesis_file ls, si_edit_hypothesis_summary = ls_edit_hypothesis_summary ls,
     si_semantic_target = semantic_target ls, si_repeated_same_proposal_count = ls_repeated_same_proposal_count ls,
     si_inspection_read_streak = ls_inspection_read_streak ls,
     si_evidence_complete = (rx_evidence_complete r \<or> ls_evidence_complete ls),
     si_verification_pending = ls_verification_pending ls, si_verification_attempted = ls_verification_attempted ls,
     si_recent_mutation_succeeded = cf_mutating_success f, si_recent_mutation_failed = cf_mutating_failure f,
     si_recent_verification_succeeded = cf_verification_success f, si_recent_verification_failed = cf_verification_failure f\<rparr>"

section \<open>Context\<close>

definition present_texts :: "string option list \<Rightarrow> string list" where
  "present_texts xs = List.map_filter id xs"

definition coding_context_texts :: "exec_thread_local_state \<Rightarrow> coding_response \<Rightarrow> string list" where
  "coding_context_texts ls r = present_texts [rx_current_focus r, Some (rx_summary r), rx_scratchpad r, ls_current_focus ls,
     ls_scratchpad ls, ls_edit_hypothesis_summary ls, ls_semantic_target_name ls, ls_semantic_target_query ls]"

definition focus_mentions_impls :: "exec_thread_local_state \<Rightarrow> coding_response \<Rightarrow> bool" where
  "focus_mentions_impls ls r \<longleftrightarrow> list_ex (\<lambda>t. mentions_any [''impl'', ''tryfrom'', ''trait''] (lower_text t))
     (present_texts [rx_current_focus r, ls_current_focus ls, Some (rx_summary r), ls_edit_hypothesis_summary ls])"

definition mentions_conversion_macro :: "string list \<Rightarrow> bool" where
  "mentions_conversion_macro texts \<longleftrightarrow> list_ex (\<lambda>t. mentions_any [''impl_try_from_map'', ''conversion macro''] (lower_text t)) texts"

definition semantic_resolution_is_authoritative :: "exec_thread_local_state \<Rightarrow> string option \<Rightarrow> string option \<Rightarrow> bool" where
  "semantic_resolution_is_authoritative ls semantic_file workspace_root =
     (case (case semantic_file of Some f \<Rightarrow> if blank f then None else Some f | None \<Rightarrow> None) of
        None \<Rightarrow> concrete_target_file ls = None
      | Some sf \<Rightarrow> (case concrete_target_file ls of
          None \<Rightarrow> True
        | Some target \<Rightarrow> target = sf \<or> same_repo_subtree target sf workspace_root))"

definition semantic_target_is_authoritative :: "exec_thread_local_state \<Rightarrow> string option \<Rightarrow> bool" where
  "semantic_target_is_authoritative ls workspace_root =
     semantic_resolution_is_authoritative ls (ls_semantic_target_file ls) workspace_root"

definition semantic_target_matches_file :: "exec_thread_local_state \<Rightarrow> string \<Rightarrow> bool" where
  "semantic_target_matches_file ls f \<longleftrightarrow> ls_semantic_target_file ls = Some f"

definition has_same_file_semantic_commitment :: "exec_thread_local_state \<Rightarrow> bool" where
  "has_same_file_semantic_commitment ls \<longleftrightarrow> (case (ls_semantic_target_file ls, concrete_target_file ls) of
     (Some a, Some b) \<Rightarrow> a = b | _ \<Rightarrow> False) \<and> ls_semantic_target_start_line ls \<noteq> None"

text \<open>Lines are compared as \<open>i64\<close>; the sum of offset and limit wraps.\<close>

definition i64_add :: "int \<Rightarrow> int \<Rightarrow> int" where
  "i64_add a b = sint (word_of_int (a + b) :: 64 word)"

definition proposal_read_covers_semantic_target :: "exec_thread_local_state \<Rightarrow> coding_proposal \<Rightarrow> bool" where
  "proposal_read_covers_semantic_target ls p =
     (if cx_tool_name p \<noteq> ''code.read'' then False
      else case proposal_file_path p of
        None \<Rightarrow> False
      | Some f \<Rightarrow> if \<not> semantic_target_matches_file ls f then False
          else case ls_semantic_target_start_line ls of
            None \<Rightarrow> False
          | Some start \<Rightarrow> (let s = uint start; e = uint (unwrap_or start (ls_semantic_target_end_line ls));
              offset = unwrap_or 0 (param_i64 p ''offset''); limit = unwrap_or 0 (param_i64 p ''limit'')
            in limit > 0 \<and> offset \<le> s \<and> i64_add offset limit \<ge> e))"

definition semantic_target_matches_trait_focus :: "coding_semantic_target \<Rightarrow> bool" where
  "semantic_target_matches_trait_focus t \<longleftrightarrow>
     list_ex text_mentions_trait_conversion (present_texts [sx_name t, sx_query t, sx_symbol_id t])"

definition preferred_file_anchored_target ::
  "coding_situation \<Rightarrow> exec_thread_local_state \<Rightarrow> coding_response \<Rightarrow> coding_policy_profile \<Rightarrow> string option" where
  "preferred_file_anchored_target s ls r profile =
     (if \<not> cp_prefer_trait_module_targets profile \<or> \<not> focus_mentions_impls ls r then None
      else Option.bind (si_semantic_target s) (\<lambda>t. Option.bind (sx_file t) (\<lambda>sf.
        let target = unwrap_or sf (si_target_file s) in
        if is_module_file target \<or> semantic_target_matches_trait_focus t then None
        else if sx_kind t = Some ''struct'' \<or> sx_kind t = Some ''impl'' then parent_generic_module_file target
        else None)))"

section \<open>Reading windows\<close>

record read_window =
  rw_file_path :: string
  rw_offset :: u32
  rw_limit :: u32

text \<open>\<open>rsplit_once("::")\<close> and \<open>split_once(':')\<close>.\<close>

definition rsplit_colons :: "string \<Rightarrow> (string \<times> string) option" where
  "rsplit_colons s = (case filter (\<lambda>k. take 2 (drop k s) = colons) (rev [0..<length s]) of
     [] \<Rightarrow> None | k # _ \<Rightarrow> Some (take k s, drop (k + 2) s))"

definition split_colon :: "string \<Rightarrow> (string \<times> string) option" where
  "split_colon s = map_option (\<lambda>k. (take k s, drop (Suc k) s)) (find_str '':'' s)"

definition last_read_window :: "exec_thread_local_state \<Rightarrow> read_window option" where
  "last_read_window ls =
     (if ls_last_proposed_tool ls \<noteq> Some ''code.read'' then None
      else Option.bind (ls_last_proposed_target ls) (\<lambda>t. Option.bind (rsplit_colons t) (\<lambda>(file, range).
        Option.bind (split_colon range) (\<lambda>(a, b). case (parse_u32 a, parse_u32 b) of
          (Inr offset, Inr limit) \<Rightarrow> Some \<lparr>rw_file_path = file, rw_offset = offset, rw_limit = limit\<rparr>
        | _ \<Rightarrow> None))))"

text \<open>\<open>u64 as u32\<close>.\<close>

definition macro_definition_read_is_repeated :: "exec_thread_local_state \<Rightarrow> coding_proposal \<Rightarrow> bool" where
  "macro_definition_read_is_repeated ls read = (case param_str read ''file_path'' of
     None \<Rightarrow> False
   | Some f \<Rightarrow> (let line = ucast (sat_add (unwrap_or 0 (param_u64 read ''offset'')) 20) :: u32 in
       case last_read_window ls of
         None \<Rightarrow> False
       | Some w \<Rightarrow> rw_file_path w = f \<and> rw_offset w \<le> line \<and> sat_add (rw_offset w) (rw_limit w) \<ge> line))"

section \<open>Proposals made by the thread\<close>

definition read_proposal :: "string \<Rightarrow> u32 \<Rightarrow> u32 \<Rightarrow> string \<Rightarrow> coding_proposal" where
  "read_proposal file offset limit rationale = \<lparr>cx_tool_name = ''code.read'',
     cx_params = JObj [(''file_path'', JStr file), (''offset'', JInt (uint offset)), (''limit'', JInt (uint limit))],
     cx_rationale = rationale\<rparr>"

definition grep_proposal :: "string \<Rightarrow> string \<Rightarrow> string \<Rightarrow> coding_proposal" where
  "grep_proposal path pattern rationale = \<lparr>cx_tool_name = ''code.grep'',
     cx_params = JObj [(''path'', JStr path), (''pattern'', JStr pattern), (''output_mode'', JStr ''content'')],
     cx_rationale = rationale\<rparr>"

definition show_u32 :: "u32 \<Rightarrow> string" where
  "show_u32 n = show_nat (unat n)"

definition infer_trait_query :: "exec_thread_local_state \<Rightarrow> coding_response \<Rightarrow> coding_proposal \<Rightarrow> string option" where
  "infer_trait_query ls r p =
     (let candidates = (case proposal_query p of Some q \<Rightarrow> collect_identifier_candidates q | None \<Rightarrow> [])
            @ concat (map collect_identifier_candidates (coding_context_texts ls r))
      in case List.find is_trait_like_query candidates of
           Some c \<Rightarrow> Some c
         | None \<Rightarrow> if list_ex text_mentions_trait_conversion (coding_context_texts ls r) then Some ''TryFrom'' else None)"

definition infer_concrete_type_query :: "exec_thread_local_state \<Rightarrow> coding_response \<Rightarrow> string option" where
  "infer_concrete_type_query ls r =
     (let candidates = concat (map collect_identifier_candidates (present_texts [ls_semantic_target_name ls, ls_semantic_target_query ls]))
            @ (case Option.bind (concrete_target_file ls) file_stem of
                Some stem \<Rightarrow> if stem \<noteq> ''mod'' \<and> stem \<noteq> ''lib'' then [snake_to_camel stem] else []
              | None \<Rightarrow> [])
            @ concat (map collect_identifier_candidates (coding_context_texts ls r))
      in List.find (\<lambda>c. looks_like_symbol_query c \<and> \<not> is_trait_like_query c
           \<and> \<not> List.member [''Map'', ''Result'', ''Error'', ''Self'', ''Option'', ''Some'', ''None''] c) candidates)"

definition trait_text_search_pattern :: "string \<Rightarrow> string option \<Rightarrow> string" where
  "trait_text_search_pattern trait_query concrete_type =
     (let trait_re = regex_escape_literal trait_query;
          trait_snake = regex_escape_literal (camel_to_snake trait_query)
      in join ''|'' ((''impl[_A-Za-z0-9]*'' @ trait_snake @ ''[_A-Za-z0-9]*'') # (case concrete_type of
           Some c \<Rightarrow> (let type_re = regex_escape_literal c in [trait_re @ ''.*'' @ type_re, type_re @ ''.*'' @ trait_re])
         | None \<Rightarrow> [trait_re])))"

definition scoped_trait_search_path ::
  "coding_situation \<Rightarrow> exec_thread_local_state \<Rightarrow> coding_response \<Rightarrow> coding_policy_profile \<Rightarrow> coding_proposal \<Rightarrow> string option" where
  "scoped_trait_search_path s ls r profile p = (case preferred_file_anchored_target s ls r profile of
     Some target \<Rightarrow> Some (semantic_path_hint_for_target_file target)
   | None \<Rightarrow> or_else (map_option semantic_path_hint_for_target_file (proposal_symbol_file_hint p))
       (or_else (map_option semantic_path_hint_for_target_file (concrete_target_file ls)) (si_workspace_root s)))"

definition synthesize_trait_conversion_text_search ::
  "coding_situation \<Rightarrow> exec_thread_local_state \<Rightarrow> coding_response \<Rightarrow> coding_policy_profile \<Rightarrow> coding_proposal \<Rightarrow> coding_proposal option" where
  "synthesize_trait_conversion_text_search s ls r profile p = Option.bind (infer_trait_query ls r p) (\<lambda>trait_query.
     if \<not> focus_mentions_impls ls r \<and> \<not> (case proposal_query p of Some q \<Rightarrow> is_trait_like_query q | None \<Rightarrow> False) then None
     else Option.bind (scoped_trait_search_path s ls r profile p) (\<lambda>target.
       let concrete_type = infer_concrete_type_query ls r in
       Some (grep_proposal target (trait_text_search_pattern trait_query concrete_type)
         (''Semantic impl lookup for '' @ trait_query @ '' is repeating; search scoped source text for the '' @ trait_query @ ''/'' @
          unwrap_or ''concrete type'' concrete_type @ '' conversion site instead''))))"

definition synthesize_repeated_trait_lookup_text_search ::
  "coding_situation \<Rightarrow> exec_thread_local_state \<Rightarrow> coding_response \<Rightarrow> coding_policy_profile \<Rightarrow> coding_proposal option" where
  "synthesize_repeated_trait_lookup_text_search s ls r profile =
     (if \<not> cp_prefer_trait_module_targets profile \<or> \<not> repeated_exploratory_target profile s then None
      else Option.bind (si_proposed_action s) (\<lambda>p.
        if cx_tool_name p = ''code.impls'' \<or> ls_last_proposed_tool ls = Some ''code.impls''
        then synthesize_trait_conversion_text_search s ls r profile p else None))"

definition synthesize_module_trait_lookup_text_search ::
  "coding_situation \<Rightarrow> exec_thread_local_state \<Rightarrow> coding_response \<Rightarrow> coding_policy_profile \<Rightarrow> coding_proposal \<Rightarrow> coding_proposal option" where
  "synthesize_module_trait_lookup_text_search s ls r profile p =
     (if \<not> cp_prefer_trait_module_targets profile \<or> \<not> (case si_target_file s of Some f \<Rightarrow> is_module_file f | None \<Rightarrow> False)
         \<or> \<not> is_semantic_lookup_tool (cx_tool_name p) then None
      else Option.bind (proposal_query p) (\<lambda>q.
        if \<not> is_trait_like_query q \<and> \<not> text_mentions_trait_conversion q then None
        else synthesize_trait_conversion_text_search s ls r profile p))"

definition synthesize_conversion_macro_read ::
  "coding_situation \<Rightarrow> exec_thread_local_state \<Rightarrow> coding_response \<Rightarrow> coding_proposal option" where
  "synthesize_conversion_macro_read s ls r = Option.bind (si_target_file s) (\<lambda>file.
     if \<not> is_module_file file \<or> \<not> mentions_conversion_macro (coding_context_texts ls r) then None
     else map_option (\<lambda>line. read_proposal file (sat_sub line 20) 120
       (''Read around the conversion macro hit near line '' @ show_u32 line @ '' in '' @ file @ '' instead of repeating the same search''))
       (infer_relevant_line_mention (coding_context_texts ls r)))"

definition synthesize_conversion_macro_usage_read_from_context ::
  "coding_situation \<Rightarrow> exec_thread_local_state \<Rightarrow> coding_response \<Rightarrow> coding_proposal option" where
  "synthesize_conversion_macro_usage_read_from_context s ls r = Option.bind (si_target_file s) (\<lambda>file.
     if \<not> is_module_file file \<or> \<not> mentions_conversion_macro (coding_context_texts ls r) then None
     else map_option (\<lambda>line. read_proposal file (sat_sub line 12) 60
       (''Read around the conversion macro invocation near line '' @ show_u32 line @ '' in '' @ file @
        ''; macro-name semantic lookup is not the edit site'')) (infer_macro_usage_line_mention (coding_context_texts ls r)))"

definition proposal_is_conversion_macro_lookup :: "coding_proposal \<Rightarrow> bool" where
  "proposal_is_conversion_macro_lookup p \<longleftrightarrow> is_semantic_lookup_tool (cx_tool_name p) \<and> mentions_conversion_macro (proposal_texts p)"

definition synthesize_conversion_macro_usage_read ::
  "coding_situation \<Rightarrow> exec_thread_local_state \<Rightarrow> coding_response \<Rightarrow> coding_proposal \<Rightarrow> coding_proposal option" where
  "synthesize_conversion_macro_usage_read s ls r p =
     (if proposal_is_conversion_macro_lookup p then synthesize_conversion_macro_usage_read_from_context s ls r else None)"

definition synthesize_conversion_macro_after_definition_read :: "coding_situation \<Rightarrow> coding_proposal \<Rightarrow> coding_proposal option" where
  "synthesize_conversion_macro_after_definition_read s definition_read = Option.bind (si_target_file s) (\<lambda>file.
     if \<not> is_module_file file \<or> \<not> is_object (cx_params definition_read) then None
     else let offset = ucast (unwrap_or 0 (param_u64 definition_read ''offset'')) :: u32; line = sat_add offset 20 in
       Some (read_proposal file (sat_add line 30) 80
         (''Read after the conversion macro definition near line '' @ show_u32 line @ '' in '' @ file @
          '' to inspect macro invocations before editing'')))"

definition DEFAULT_SAME_FILE_INSPECTION_THRESHOLD :: u32 where
  "DEFAULT_SAME_FILE_INSPECTION_THRESHOLD = 3"

definition should_commit_after_conversion_macro_invocation ::
  "coding_situation \<Rightarrow> exec_thread_local_state \<Rightarrow> coding_response \<Rightarrow> coding_proposal \<Rightarrow> bool" where
  "should_commit_after_conversion_macro_invocation s ls r p = (case si_target_file s of
     None \<Rightarrow> False
   | Some target \<Rightarrow>
       if \<not> is_module_file target \<or> si_inspection_read_streak s < DEFAULT_SAME_FILE_INSPECTION_THRESHOLD
          \<or> \<not> List.member [''repo.locate'', ''code.grep'', ''code.glob'', ''code.ls'', ''code.read'', ''code.symbol'', ''code.references'',
            ''code.impls'', ''code.read_symbol''] (cx_tool_name p) then False
       else let texts = coding_context_texts ls r in
         if \<not> list_ex (\<lambda>t. contains (lower_text t) ''impl_try_from_map''
              \<and> mentions_any [''macro invocation'', ''macro invocations''] (lower_text t)) texts then False
         else case infer_relevant_line_mention texts of
           None \<Rightarrow> True
         | Some line \<Rightarrow> (case last_read_window ls of
             None \<Rightarrow> False
           | Some w \<Rightarrow> rw_file_path w = target
               \<and> (rw_offset w \<le> line \<and> sat_add (rw_offset w) (rw_limit w) \<ge> line \<or> rw_offset w \<ge> sat_add line 20)))"

section \<open>The edit of the conversion macro\<close>

definition mentions_conversion_macro_variant_issue :: "string \<Rightarrow> bool" where
  "mentions_conversion_macro_variant_issue t \<longleftrightarrow> contains t ''impl_try_from_map'' \<and> contains t ''hashmap'' \<and> contains t ''lruhashmap''
     \<and> mentions_any [''missing'', ''add'', ''support'', ''only handles'', ''from lruhashmap''] t"

definition is_aya_maps_module_file :: "string \<Rightarrow> bool" where
  "is_aya_maps_module_file p =
     (let q = map (\<lambda>c. if c = CHR 0x5C then CHR ''/'' else c) p; suffix = ''/aya/src/maps/mod.rs'' in
      length suffix \<le> length q \<and> drop (length q - length suffix) q = suffix)"

definition is_known_aya_lru_tryfrom_issue :: "string \<Rightarrow> string \<Rightarrow> bool" where
  "is_known_aya_lru_tryfrom_issue file t \<longleftrightarrow> is_aya_maps_module_file file \<and> contains t ''hashmap'' \<and> contains t ''lruhashmap''
     \<and> mentions_any [''tryfrom'', ''conversion'', ''map::hashmap'', ''map::lruhashmap''] t
     \<and> mentions_any [''missing'', ''add'', ''support'', ''only handles'', ''should also'', ''fix''] t"

definition is_known_aya_lru_tryfrom_patch_ready :: "string \<Rightarrow> string \<Rightarrow> u32 \<Rightarrow> bool" where
  "is_known_aya_lru_tryfrom_patch_ready file t read_streak \<longleftrightarrow> is_known_aya_lru_tryfrom_issue file t
     \<and> contains t ''impl_try_from_map''
     \<and> (mentions_any [''invocation'', ''usages'', ''usage''] t \<or> read_streak \<ge> DEFAULT_SAME_FILE_INSPECTION_THRESHOLD + 2)"

definition proposal_adds_lruhashmap_as_peer_conversion_type :: "coding_proposal \<Rightarrow> bool" where
  "proposal_adds_lruhashmap_as_peer_conversion_type p =
     (if cx_tool_name p \<noteq> ''code.edit'' then False
      else case (proposal_file_path p, param_str p ''old_string'', param_str p ''new_string'') of
        (Some file, Some old, Some new) \<Rightarrow> is_module_file file
          \<and> contains old ''impl_try_from_map!((K, V)'' \<and> contains old ''HashMap,'' \<and> contains old ''PerCpuHashMap,''
          \<and> contains old ''LpmTrie,'' \<and> \<not> contains old ''LruHashMap,''
          \<and> contains new ''impl_try_from_map!((K, V)'' \<and> contains new ''HashMap,'' \<and> contains new ''PerCpuHashMap,''
          \<and> contains new ''LruHashMap,'' \<and> \<not> contains new ''HashMap from HashMap|LruHashMap''
      | _ \<Rightarrow> False)"

definition proposal_is_known_conversion_macro_variant_patch :: "coding_proposal \<Rightarrow> bool" where
  "proposal_is_known_conversion_macro_variant_patch p =
     (if cx_tool_name p \<noteq> ''code.apply_patch'' then False
      else case (proposal_file_path p, param_str p ''patch'') of
        (Some file, Some patch) \<Rightarrow> is_module_file file \<and> contains patch ''impl_try_from_map''
          \<and> contains patch ''HashMap from HashMap|LruHashMap''
          \<and> contains patch ''PerCpuHashMap from PerCpuHashMap|PerCpuLruHashMap''
      | _ \<Rightarrow> False)"

definition proposal_changes_macro_variant_repetition_plus_to_star :: "coding_proposal \<Rightarrow> bool" where
  "proposal_changes_macro_variant_repetition_plus_to_star p =
     (if cx_tool_name p \<noteq> ''code.edit'' then False
      else case (proposal_file_path p, param_str p ''old_string'', param_str p ''new_string'') of
        (Some file, Some old, Some new) \<Rightarrow> is_module_file file
          \<and> mentions_any [''$($variant:ident)|+'', ''$($variant)|+''] old \<and> mentions_any [''$($variant:ident)|*'', ''$($variant)|*''] new
      | _ \<Rightarrow> False)"

text \<open>The patch as the source has it; the header of its last hunk is rewritten below.\<close>

definition conversion_macro_patch_lines :: "string list" where
  "conversion_macro_patch_lines = [
    ''@@ -291,9 +291,9 @@ macro_rules! impl_try_from_map {'',
    ''     // rather than the repeated idents used later because the macro language does not allow one'',
    ''     // repetition to be pasted inside another.'',
    ''     ($ty_param:tt {'',
    ''-        $($ty:ident $(from $variant:ident)?),+ $(,)?'',
    ''+        $($ty:ident $(from $($variant:ident)|+)?),+ $(,)?'',
    ''     }) => {'',
    ''-        $(impl_try_from_map!(<$ty_param> $ty $(from $variant)?);)+'',
    ''+        $(impl_try_from_map!(<$ty_param> $ty $(from $($variant)|+)?);)+'',
    ''     };'',
    (''     // Add the '' @ [CHR 0x22] @ ''from $variant'' @ [CHR 0x22] @ '' using $ty as the default if it is missing.''),
    ''     (<$ty_param:tt> $ty:ident) => {'',
    ''@@ -301,17 +301,17 @@ macro_rules! impl_try_from_map {'',
    ''     };'',
    ''     // Dispatch for each of the lifetimes.'',
    ''     ('',
    ''-        <($($ty_param:ident),*)> $ty:ident from $variant:ident'',
    ''+        <($($ty_param:ident),*)> $ty:ident from $($variant:ident)|+'',
    ''     ) => {'',
    (''-        impl_try_from_map!(<'' @ [CHR 0x27] @ ''a> ($($ty_param),*) $ty from $variant);''),
    (''-        impl_try_from_map!(<'' @ [CHR 0x27] @ ''a mut> ($($ty_param),*) $ty from $variant);''),
    ''-        impl_try_from_map!(<> ($($ty_param),*) $ty from $variant);'',
    (''+        impl_try_from_map!(<'' @ [CHR 0x27] @ ''a> ($($ty_param),*) $ty from $($variant)|+);''),
    (''+        impl_try_from_map!(<'' @ [CHR 0x27] @ ''a mut> ($($ty_param),*) $ty from $($variant)|+);''),
    ''+        impl_try_from_map!(<> ($($ty_param),*) $ty from $($variant)|+);'',
    ''     };'',
    ''     // An individual impl.'',
    ''     ('',
    ''         <$($l:lifetime $($m:ident)?)?>'',
    ''         ($($ty_param:ident),*)'',
    ''-        $ty:ident from $variant:ident'',
    ''+        $ty:ident from $($variant:ident)|+'',
    ''     ) => {'',
    ''         impl<$($l,)? $($ty_param: Pod),*> TryFrom<$(&$l $($m)?)? Map>'',
    ''             for $ty<$(&$l $($m)?)? MapData, $($ty_param),*>'',
    ''@@ -320,7 +320,7 @@ macro_rules! impl_try_from_map {'',
    '' '',
    ''             fn try_from(map: $(&$l $($m)?)? Map) -> Result<Self, Self::Error> {'',
    ''                 match map {'',
    ''-                    Map::$variant(map_data) => Self::new(map_data),'',
    ''+                    $(Map::$variant(map_data) => Self::new(map_data),)+'',
    ''                     map => Err(MapError::InvalidMapType {'',
    ''                         map_type: map.map_type()'',
    ''                     }),'',
    ''@@ -353,8 +353,8 @@ impl_try_from_map!((V) {'',
    '' });'',
    '' '',
    '' impl_try_from_map!((K, V) {'',
    ''-    HashMap,'',
    ''-    PerCpuHashMap,'',
    ''+    HashMap from HashMap|LruHashMap,'',
    ''+    PerCpuHashMap from PerCpuHashMap|PerCpuLruHashMap,'',
    ''     LpmTrie,'',
    '' });'']"

definition conversion_macro_patch :: string where
  "conversion_macro_patch = replace_all ''@@ -353,8 +353,8'' ''@@ -353,7 +353,7''
     (concat (map (\<lambda>l. l @ [CHR 0x0A]) conversion_macro_patch_lines))"

definition synthesize_conversion_macro_variant_edit ::
  "coding_situation \<Rightarrow> exec_thread_local_state \<Rightarrow> coding_response \<Rightarrow> coding_proposal option \<Rightarrow> coding_proposal option" where
  "synthesize_conversion_macro_variant_edit s ls r p =
     (if si_verification_pending s \<or> si_recent_mutation_succeeded s \<or> si_recent_mutation_failed s \<or> si_verification_attempted s
         \<or> si_recent_verification_failed s then None
      else Option.bind (or_else (si_edit_hypothesis_file s) (si_target_file s)) (\<lambda>file.
        if \<not> is_module_file file then None
        else let peer = (case p of Some x \<Rightarrow> proposal_adds_lruhashmap_as_peer_conversion_type x | None \<Rightarrow> False);
                 joined = lower_text (join [CHR 0x0A] (coding_context_texts ls r));
                 known = is_known_aya_lru_tryfrom_issue file joined;
                 ready = is_known_aya_lru_tryfrom_patch_ready file joined (si_inspection_read_streak s)
             in if si_phase s \<noteq> PhEditCandidate \<and> \<not> si_evidence_complete s \<and> \<not> peer \<and> \<not> ready then None
                else if \<not> peer \<and> \<not> known \<and> \<not> ready \<and> \<not> mentions_conversion_macro_variant_issue joined then None
                else Some \<lparr>cx_tool_name = ''code.apply_patch'',
                  cx_params = JObj [(''file_path'', JStr file), (''patch'', JStr conversion_macro_patch)],
                  cx_rationale = ''Expand the conversion macro to accept multiple source variants, then map HashMap to HashMap|LruHashMap and PerCpuHashMap to PerCpuHashMap|PerCpuLruHashMap''\<rparr>))"

section \<open>Verification after an edit\<close>

definition manifest_names :: "string list" where
  "manifest_names = [''Cargo.toml'', ''package.json'', ''pyproject.toml'', ''setup.py'', ''setup.cfg'', ''requirements.txt'', ''go.mod'',
     ''pom.xml'', ''gradlew'', ''build.gradle'', ''build.gradle.kts'']"

definition has_project_manifest :: "disk \<Rightarrow> string \<Rightarrow> bool" where
  "has_project_manifest d dir \<longleftrightarrow> list_ex (\<lambda>name. dk_exists d (path_join dir name)) manifest_names"

text \<open>The parent of a path is a shorter text, so the walk to the next project root ends.\<close>

lemma split_on_nonempty [simp]: "split_on d s \<noteq> []"
  by (induction s) (auto split: list.split)

lemma join_nonempty: "xs \<noteq> [] \<Longrightarrow> join sep (x # xs) = x @ sep @ join sep xs"
  by (cases xs) simp_all

lemma join_split_on: "join [d] (split_on d s) = s"
proof (induction s)
  case (Cons c cs)
  obtain w ws where w: "split_on d cs = w # ws" using split_on_nonempty [of d cs] by (cases "split_on d cs") auto
  then show ?case using Cons by (cases ws) (auto simp: join_nonempty)
qed simp

lemma length_join: "length (join [d] xs) = (if xs = [] then 0 else sum_list (map length xs) + length xs - 1)"
proof (induction xs)
  case (Cons x xs)
  then show ?case by (cases xs) auto
qed simp

lemma shorter_join:
  assumes "ys \<noteq> []" "join [d] (xs @ ys) \<noteq> []"
  shows "length (join [d] xs) < length (join [d] (xs @ ys))"
proof (cases xs)
  case Nil
  then show ?thesis using assms by simp
next
  case (Cons x rest)
  then show ?thesis using assms(1) by (cases ys) (simp_all add: length_join)
qed

lemma trim_tail_prefix: "\<exists>ys. xs = trim_tail xs @ ys"
proof (cases xs)
  case (Cons x rest)
  have "rev (rev rest) = rev (dropWhile skipped (rev rest)) @ rev (takeWhile skipped (rev rest))"
    by (metis rev_append takeWhile_dropWhile_id)
  then have "rest = rev (dropWhile skipped (rev rest)) @ rev (takeWhile skipped (rev rest))" by simp
  then show ?thesis unfolding Cons trim_tail_def by (simp only: list.case append_Cons list.inject simp_thms) blast
qed (simp add: trim_tail_def)

lemma path_parent_shorter:
  assumes "path_parent p = Some q"
  shows "length q < length p"
proof -
  define segs where "segs = split_on CHR ''/'' p"
  define body where "body = trim_tail segs"
  define up where "up = trim_tail (butlast body)"
  have p: "p = join ''/'' segs" by (simp add: segs_def join_split_on)
  have comps: "path_components p \<noteq> []" "path_components p \<noteq> [RootDir]" using assms by (auto simp: path_parent_def)
  then have ne: "p \<noteq> []" by (auto simp: path_components_def)
  have q: "q = (if up = [[]] then ''/'' else join ''/'' up)"
    using assms by (auto simp: path_parent_def up_def body_def segs_def Let_def split: list.splits path_component.splits)
  obtain ys where ys: "segs = body @ ys" using trim_tail_prefix [of segs] body_def by blast
  obtain zs where zs: "butlast body = up @ zs" using trim_tail_prefix [of "butlast body"] up_def by blast
  have "body \<noteq> []" by (simp add: body_def trim_tail_def segs_def split: list.split)
  then have segs: "segs = up @ (zs @ [last body] @ ys)" using ys zs by (metis append.assoc append_butlast_last_id)
  have "length (join ''/'' up) < length p"
    using shorter_join [of "zs @ [last body] @ ys" "CHR ''/''" up] segs p ne by simp
  moreover have "length p \<noteq> Suc 0" if "up = [[]]"
  proof
    assume "length p = Suc 0"
    moreover have "hd segs = []" using segs that by simp
    ultimately have "p = ''/''" using ne unfolding segs_def by (cases p) (auto split: list.splits if_splits)
    then show False using comps by (simp add: path_components_def skipped_def)
  qed
  moreover have "0 < length p" using ne by simp
  ultimately show ?thesis using q by (cases "up = [[]]") (simp_all del: length_greater_0_conv)
qed

function project_root_from :: "disk \<Rightarrow> string \<Rightarrow> string \<Rightarrow> string option" where
  "project_root_from d workspace dir =
     (if has_project_manifest d dir then Some dir
      else if path_components dir = path_components workspace then None
      else case path_parent dir of None \<Rightarrow> None | Some up \<Rightarrow> project_root_from d workspace up)"
  by pat_completeness auto
termination by (relation "measure (\<lambda>(d, workspace, dir). length dir)") (simp_all add: path_parent_shorter)

declare project_root_from.simps [simp del]

definition nearest_project_root_for_file :: "disk \<Rightarrow> string option \<Rightarrow> string \<Rightarrow> string option" where
  "nearest_project_root_for_file d file workspace_root =
     Option.bind (Option.bind file path_parent) (project_root_from d workspace_root)"

definition synthesize_post_edit_test_verification :: "disk \<Rightarrow> coding_situation \<Rightarrow> coding_proposal option" where
  "synthesize_post_edit_test_verification d s = Option.bind (si_workspace_root s) (\<lambda>ws.
     let vroot = unwrap_or ws (nearest_project_root_for_file d (or_else (si_edit_hypothesis_file s) (si_target_file s)) ws) in
     if \<not> has_project_manifest d vroot then None
     else if dk_exists d (path_join vroot ''Cargo.toml'') \<and> dk_exists d (path_join ws ''Cargo.toml'') \<and> vroot \<noteq> ws
     then Some \<lparr>cx_tool_name = ''code.test'',
       cx_params = JObj [(''path'', JStr vroot), (''command'', JStr ''cargo''), (''args'', JArr [JStr ''check'', JStr ''--tests'']),
         (''timeout_ms'', JInt 300000)],
       cx_rationale = (''Compile the nearest Rust crate'' @ [CHR 0x27] @ ''s test targets after the edit instead of running the entire workspace test suite'')\<rparr>
     else Some \<lparr>cx_tool_name = ''code.test'',
       cx_params = JObj [(''path'', JStr vroot), (''command'', JStr ''auto''), (''timeout_ms'', JInt 300000)],
       cx_rationale = (''Run the workspace'' @ [CHR 0x27] @ ''s inferred test command once after the successful edit before declaring completion'')\<rparr>)"

definition synthesize_post_edit_verification_proposal ::
  "disk \<Rightarrow> coding_situation \<Rightarrow> exec_thread_local_state \<Rightarrow> coding_response \<Rightarrow> coding_proposal option" where
  "synthesize_post_edit_verification_proposal d s ls r =
     (case (if si_verification_attempted s then None else synthesize_post_edit_test_verification d s) of
        Some test \<Rightarrow> Some test
      | None \<Rightarrow> map_option (\<lambda>file.
          let macro_context = list_ex (\<lambda>t. mentions_any [''impl_try_from_map'', ''macro invocation''] (lower_text t)) (coding_context_texts ls r)
          in read_proposal file (if macro_context then 330 else 1) (if macro_context then 80 else 200)
            ''Verify the recent edit in the target file before declaring completion'')
          (or_else (si_edit_hypothesis_file s) (si_target_file s)))"

definition synthesize_parent_module_read_after_semantic_stall :: "disk \<Rightarrow> coding_situation \<Rightarrow> coding_proposal \<Rightarrow> coding_proposal option" where
  "synthesize_parent_module_read_after_semantic_stall d s p =
     (if \<not> is_semantic_lookup_tool (cx_tool_name p) then None
      else map_option (\<lambda>file. read_proposal file 1 160
          ''Read the owning module directly because repeated semantic lookup is not producing new evidence'')
        (or_else (case si_target_file s of Some f \<Rightarrow> if is_module_file f then Some f else None | None \<Rightarrow> None)
          (Option.bind (proposal_symbol_file_hint p) (\<lambda>hint.
             if path_file_name hint = Some ''mod.rs'' then Some hint
             else if dk_is_file d hint then parent_generic_module_file hint
             else Some (path_join hint ''mod.rs'')))))"

section \<open>Commitment to an edit\<close>

definition proposal_switches_to_different_explicit_file :: "coding_proposal \<Rightarrow> string option \<Rightarrow> bool" where
  "proposal_switches_to_different_explicit_file p target = (case target of
     None \<Rightarrow> False
   | Some t \<Rightarrow> (case proposal_file_path p of
       Some f \<Rightarrow> f \<noteq> t
     | None \<Rightarrow> (case proposal_symbol_file_hint p of Some hint \<Rightarrow> looks_like_file_path hint \<and> hint \<noteq> t | None \<Rightarrow> False)))"

definition proposal_is_exact_edit_span_read :: "coding_proposal \<Rightarrow> exec_thread_local_state \<Rightarrow> coding_response \<Rightarrow> bool" where
  "proposal_is_exact_edit_span_read p ls r =
     (if cx_tool_name p \<noteq> ''code.read'' then False
      else let texts = map lower_text (proposal_texts p) in
        if list_ex (mentions_any [''exact'', ''old_string'', ''replacement'', ''edit site'', ''edit span'', ''insertion'',
             ''macro invocation'', ''invocation'', ''usage'']) texts then True
        else list_ex (\<lambda>t. contains t ''line'' \<and> mentions_any [''macro'', ''conversion''] t
             \<and> list_ex (\<lambda>c. mentions_any [''usage'', ''invocation'', ''edit''] (lower_text c)) (coding_context_texts ls r)) texts)"

definition proposal_is_narrow_edit_confirmation_search :: "coding_proposal \<Rightarrow> coding_situation \<Rightarrow> bool" where
  "proposal_is_narrow_edit_confirmation_search p s =
     (if cx_tool_name p \<noteq> ''code.grep'' \<or> \<not> is_object (cx_params p) then False
      else if si_workspace_root s = Some (unwrap_or [] (param_str p ''path'')) then False
      else case param_str p ''pattern'' of
        None \<Rightarrow> False
      | Some pattern \<Rightarrow> mentions_any [''old_string'', ''impl_try_from'', ''hashmap'', ''lruhashmap'', ''todo'', ''fixme''] (lower_text pattern))"

definition has_concrete_edit_commitment_signal :: "coding_situation \<Rightarrow> exec_thread_local_state \<Rightarrow> coding_response \<Rightarrow> bool" where
  "has_concrete_edit_commitment_signal s ls r \<longleftrightarrow> si_evidence_complete s \<or> ls_evidence_complete ls
     \<or> list_ex (\<lambda>t. mentions_any [''old_string'', ''new_string'', ''exact'', ''edit site'', ''macro invocation'', ''add '', ''insert'',
         ''replace'', ''rename'', ''remove'', ''delete'', ''fix'', ''support'', ''missing'', ''only handles'', ''should also'',
         ''should support'', ''typo'', ''belongs in''] (lower_text t)) (coding_context_texts ls r)"

definition proposal_is_allowed_edit_candidate_followup ::
  "coding_proposal \<Rightarrow> coding_situation \<Rightarrow> exec_thread_local_state \<Rightarrow> coding_response \<Rightarrow> bool" where
  "proposal_is_allowed_edit_candidate_followup p s ls r =
     (if proposal_switches_to_different_explicit_file p (or_else (si_edit_hypothesis_file s) (si_target_file s)) then True
      else if cx_tool_name p = ''code.read'' then proposal_is_exact_edit_span_read p ls r
      else if cx_tool_name p = ''code.grep'' then proposal_is_narrow_edit_confirmation_search p s
      else if cx_tool_name p = ''repo.context'' then proposal_has_explicit_target_paths p
      else False)"

definition should_enforce_edit_candidate_commitment ::
  "coding_situation \<Rightarrow> exec_thread_local_state \<Rightarrow> coding_response \<Rightarrow> coding_proposal \<Rightarrow> bool" where
  "should_enforce_edit_candidate_commitment s ls r p \<longleftrightarrow> \<not> si_verification_pending s \<and> is_exploratory_tool (cx_tool_name p)
     \<and> (si_phase s = PhEditCandidate \<or> si_evidence_complete s) \<and> aligned_hypothesis s
     \<and> has_concrete_edit_commitment_signal s ls r \<and> \<not> proposal_is_allowed_edit_candidate_followup p s ls r"

section \<open>Semantic proposals\<close>

definition should_prefer_trait_query :: "exec_thread_local_state \<Rightarrow> coding_response \<Rightarrow> bool" where
  "should_prefer_trait_query ls r \<longleftrightarrow>
     (ls_semantic_target_kind ls = Some ''struct'' \<or> ls_semantic_target_kind ls = Some ''impl'') \<and> focus_mentions_impls ls r"

definition infer_semantic_query :: "exec_thread_local_state \<Rightarrow> coding_response \<Rightarrow> string \<Rightarrow> string option" where
  "infer_semantic_query ls r target_file =
     (let candidates = concat (map collect_identifier_candidates
              (present_texts [ls_current_focus ls, ls_edit_hypothesis_summary ls, rx_current_focus r]))
            @ (case rx_proposed_action r of Some p \<Rightarrow> collect_proposal_query_candidates p | None \<Rightarrow> [])
            @ collect_identifier_candidates (rx_summary r)
            @ (case file_stem target_file of
                Some stem \<Rightarrow> if stem \<noteq> ''mod'' \<and> stem \<noteq> ''lib''
                  then stem # (if snake_to_camel stem \<noteq> stem then [snake_to_camel stem] else []) else []
              | None \<Rightarrow> []);
          usable = filter looks_like_symbol_query candidates;
          best_trait = List.find is_trait_like_query usable;
          best_non_trait = List.find (\<lambda>c. \<not> is_trait_like_query c) usable
      in if should_prefer_trait_query ls r then or_else best_trait best_non_trait else or_else best_non_trait best_trait)"

definition synthesize_semantic_span_read_proposal :: "exec_thread_local_state \<Rightarrow> coding_proposal option" where
  "synthesize_semantic_span_read_proposal ls = map_option (\<lambda>file.
     let start = unwrap_or 0 (ls_semantic_target_start_line ls);
         stop = unwrap_or start (ls_semantic_target_end_line ls);
         span = sat_add (sat_sub stop start) 1
     in read_proposal file (sat_sub start 8) (sat_add (max span 24) 16)
       (''Read the exact source span around lines '' @ show_u32 start @ ''-'' @ show_u32 stop @ '' in '' @ file @
        '' to capture the concrete text needed for the next edit'')) (ls_semantic_target_file ls)"

definition synthesize_symbol_consumption_proposal :: "exec_thread_local_state \<Rightarrow> string option \<Rightarrow> coding_proposal option" where
  "synthesize_symbol_consumption_proposal ls workspace_root =
     (if ls_semantic_target_kind ls = Some ''impl'' \<and> ls_semantic_target_start_line ls \<noteq> None \<and> ls_semantic_target_file ls \<noteq> None
      then synthesize_semantic_span_read_proposal ls
      else Option.bind workspace_root (\<lambda>w0. let ws = str_trim w0 in
        if ws = [] then None
        else Option.bind (ls_semantic_target_symbol_id ls) (\<lambda>symbol_id.
          Option.bind (or_else (ls_semantic_target_file ls) (concrete_target_file ls)) (\<lambda>target.
            let path_hint = semantic_path_hint_for_target_file target;
                query = (case or_else (ls_semantic_target_query ls) (ls_semantic_target_name ls) of
                  Some q \<Rightarrow> if blank q then [] else [(''query'', JStr q)] | None \<Rightarrow> []);
                kind = (case ls_semantic_target_kind ls of Some k \<Rightarrow> if blank k then [] else [(''kind_hint'', JStr k)] | None \<Rightarrow> [])
            in Some \<lparr>cx_tool_name = ''code.read_symbol'',
              cx_params = JObj ([(''path'', JStr ws), (''symbol_id'', JStr symbol_id), (''path_hint'', JStr path_hint),
                (''include_body'', JBool True)] @ query @ kind),
              cx_rationale = ''Use resolved semantic target '' @
                unwrap_or symbol_id (or_else (ls_semantic_target_name ls) (ls_semantic_target_query ls)) @ '' in '' @ path_hint @
                '' to inspect the exact symbol span before proposing the edit''\<rparr>))))"

definition synthesize_file_anchored_semantic_proposal_for_target ::
  "exec_thread_local_state \<Rightarrow> coding_response \<Rightarrow> string option \<Rightarrow> string option \<Rightarrow> coding_proposal option" where
  "synthesize_file_anchored_semantic_proposal_for_target ls r workspace_root target_override =
     Option.bind workspace_root (\<lambda>w0. let ws = str_trim w0 in
       if ws = [] then None
       else if target_override = None \<and> ls_semantic_target_symbol_id ls \<noteq> None \<and> semantic_target_is_authoritative ls (Some ws)
          \<and> \<not> should_prefer_trait_query ls r
       then synthesize_symbol_consumption_proposal ls (Some ws)
       else Option.bind (or_else target_override (concrete_target_file ls)) (\<lambda>target.
         Option.bind (infer_semantic_query ls r target) (\<lambda>query.
           let path_hint = semantic_path_hint_for_target_file target;
               wants_impls = focus_mentions_impls ls r \<or> is_trait_like_query query
           in Some \<lparr>cx_tool_name = (if wants_impls then ''code.impls'' else ''code.read_symbol''),
             cx_params = JObj [(''path'', JStr ws), (''query'', JStr query), (''path_hint'', JStr path_hint)],
             cx_rationale = (if wants_impls then ''Use file-anchored semantic impl lookup for '' else ''Use file-anchored semantic symbol lookup for '')
               @ query @ '' near '' @ path_hint @ '' instead of reopening broad workspace search''\<rparr>)))"

definition should_suppress_broad_reorientation :: "coding_proposal \<Rightarrow> exec_thread_local_state \<Rightarrow> string option \<Rightarrow> bool" where
  "should_suppress_broad_reorientation p ls workspace_root = (case concrete_target_file ls of
     None \<Rightarrow> False
   | Some target \<Rightarrow> (let t = cx_tool_name p in
       if ls_verification_pending ls then False
       else if List.member [''repo.locate'', ''code.glob'', ''code.ls''] t then True
       else if t = ''repo.context'' then \<not> proposal_has_explicit_target_paths p
       else if t = ''code.grep'' then (case param_str p ''path'' of
         Some path \<Rightarrow> (case workspace_root of Some ws \<Rightarrow> path = ws | None \<Rightarrow> True) | None \<Rightarrow> True)
       else if is_semantic_lookup_tool t then
         (if proposal_has_symbol_anchor p then False
          else case proposal_symbol_file_hint p of Some hint \<Rightarrow> hint = target | None \<Rightarrow> True)
       else False))"

definition should_force_semantic_span_read :: "coding_proposal \<Rightarrow> exec_thread_local_state \<Rightarrow> bool" where
  "should_force_semantic_span_read p ls =
     (if \<not> has_same_file_semantic_commitment ls then False
      else if List.member [''repo.locate'', ''repo.context'', ''code.grep'', ''code.symbol'', ''code.references'', ''code.impls''] (cx_tool_name p)
      then True
      else if cx_tool_name p = ''code.read'' then (case proposal_file_path p of
        None \<Rightarrow> False
      | Some f \<Rightarrow> semantic_target_matches_file ls f \<and> \<not> proposal_read_covers_semantic_target ls p)
      else False)"

definition should_consume_resolved_semantic_target :: "coding_proposal \<Rightarrow> exec_thread_local_state \<Rightarrow> string option \<Rightarrow> bool" where
  "should_consume_resolved_semantic_target p ls workspace_root =
     (if (case ls_semantic_target_symbol_id ls of Some v \<Rightarrow> blank v | None \<Rightarrow> True) then False
      else if \<not> semantic_target_is_authoritative ls workspace_root then False
      else if List.member [''code.symbol'', ''code.references'', ''code.impls''] (cx_tool_name p) then True
      else if cx_tool_name p = ''code.read_symbol'' then \<not> proposal_has_symbol_anchor p
      else False)"

end
