(* ===== verification/Coding_Policy.thy ===== *)
theory Coding_Policy
  imports Coding_Synth
begin

text \<open>
  The policy of the coding thread (\<open>exoskeleton-threads/src/builtin/coding.rs\<close>): normalisation of a proposal of the model, the
  updates of the local state by feedback and by the proposal, the decision that keeps, replaces or suppresses the
  proposal, and the governor that looks at the proposal once more before it leaves.
\<close>

section \<open>Normalisation of a proposal\<close>

definition entry_or_insert :: "string \<Rightarrow> json \<Rightarrow> (string \<times> json) list \<Rightarrow> (string \<times> json) list" where
  "entry_or_insert k v kvs = (if map_of kvs k = None then kvs @ [(k, v)] else kvs)"

definition rename_entry :: "string \<Rightarrow> string \<Rightarrow> (string \<times> json) list \<Rightarrow> (string \<times> json) list" where
  "rename_entry old new kvs = (case map_of kvs old of
     None \<Rightarrow> kvs | Some v \<Rightarrow> entry_or_insert new v (AList.delete old kvs))"

definition with_workspace :: "string option \<Rightarrow> (string \<times> json) list \<Rightarrow> (string \<times> json) list" where
  "with_workspace workspace_root kvs = (case workspace_root of
     Some ws \<Rightarrow> if blank ws then kvs else entry_or_insert ''path'' (JStr ws) kvs | None \<Rightarrow> kvs)"

definition has_text :: "string \<Rightarrow> (string \<times> json) list \<Rightarrow> bool" where
  "has_text k kvs = (case Option.bind (map_of kvs k) json_as_str of Some s \<Rightarrow> \<not> blank s | None \<Rightarrow> False)"

definition has_items :: "string \<Rightarrow> (string \<times> json) list \<Rightarrow> bool" where
  "has_items k kvs = (case Option.bind (map_of kvs k) json_as_array of Some xs \<Rightarrow> xs \<noteq> [] | None \<Rightarrow> False)"

definition has_key :: "string \<Rightarrow> (string \<times> json) list \<Rightarrow> bool" where
  "has_key k kvs \<longleftrightarrow> map_of kvs k \<noteq> None"

definition normalize_grep :: "(string \<times> json) list \<Rightarrow> (string \<times> json) list" where
  "normalize_grep kvs0 =
     (let kvs1 = (if Option.bind (map_of kvs0 ''output_mode'') json_as_str = Some ''context''
            then entry_or_insert ''context'' (JInt 2) (AList.update ''output_mode'' (JStr ''content'') kvs0) else kvs0)
      in case Option.bind (map_of kvs1 ''path'') json_as_str of
           Some path \<Rightarrow> if looks_like_file_path path
             then (case path_parent path of Some parent \<Rightarrow> AList.update ''path'' (JStr parent) kvs1 | None \<Rightarrow> kvs1) else kvs1
         | None \<Rightarrow> kvs1)"

definition normalize_coding_proposal :: "coding_proposal \<Rightarrow> string option \<Rightarrow> coding_proposal option" where
  "normalize_coding_proposal p workspace_root = (case cx_params p of
     JObj kvs \<Rightarrow>
       (let t = cx_tool_name p; keep = (\<lambda>ok kvs'. if ok then Some (p\<lparr>cx_params := JObj kvs'\<rparr>) else None) in
        if t = ''repo.locate'' then (let m = with_workspace workspace_root kvs in
          keep ((has_text ''query'' m \<or> has_items ''symbols'' m) \<and> has_text ''path'' m) m)
        else if t = ''repo.context'' then (let m = with_workspace workspace_root kvs in
          keep ((has_text ''query'' m \<or> has_items ''symbols'' m \<or> has_items ''patterns'' m \<or> has_items ''target_paths'' m)
            \<and> has_text ''path'' m) m)
        else if t = ''code.symbol'' then (let m = with_workspace workspace_root kvs in keep (has_text ''query'' m \<and> has_text ''path'' m) m)
        else if t = ''code.read_symbol'' \<or> t = ''code.references'' \<or> t = ''code.impls'' then (let m = with_workspace workspace_root kvs in
          keep ((has_text ''symbol_id'' m \<or> has_text ''query'' m) \<and> has_text ''path'' m) m)
        else if t = ''code.read'' then (let m = rename_entry ''path'' ''file_path'' kvs in keep (has_key ''file_path'' m) m)
        else if t = ''code.write'' then (let m = rename_entry ''new_content'' ''content'' (rename_entry ''path'' ''file_path'' kvs) in
          keep (has_key ''file_path'' m \<and> has_key ''content'' m) m)
        else if t = ''code.edit'' then (let m = rename_entry ''path'' ''file_path'' kvs in
          keep (has_key ''file_path'' m \<and> has_key ''old_string'' m \<and> has_key ''new_string'' m) m)
        else if t = ''code.grep'' then (let m = normalize_grep (with_workspace workspace_root kvs) in
          keep (has_key ''pattern'' m \<and> has_key ''path'' m) m)
        else Some p)
   | _ \<Rightarrow> None)"

section \<open>Local state\<close>

definition clear_exploratory_stall_state :: "exec_thread_local_state \<Rightarrow> exec_thread_local_state" where
  "clear_exploratory_stall_state ls =
     ls\<lparr>ls_last_proposed_tool := None, ls_last_proposed_target := None, ls_repeated_same_proposal_count := 0\<rparr>"

definition clear_inspection_state :: "exec_thread_local_state \<Rightarrow> exec_thread_local_state" where
  "clear_inspection_state ls = ls\<lparr>ls_inspection_target_file := None, ls_inspection_read_streak := 0\<rparr>"

definition stall_target :: "coding_proposal \<Rightarrow> string" where
  "stall_target p = unwrap_or (cx_tool_name p) (proposal_stall_target p)"

definition repeats_last :: "exec_thread_local_state \<Rightarrow> coding_proposal \<Rightarrow> bool" where
  "repeats_last ls p \<longleftrightarrow> ls_last_proposed_tool ls = Some (cx_tool_name p) \<and> ls_last_proposed_target ls = Some (stall_target p)"

definition update_exploratory_stall_state :: "coding_proposal option \<Rightarrow> exec_thread_local_state \<Rightarrow> exec_thread_local_state" where
  "update_exploratory_stall_state proposal ls = (case proposal of
     None \<Rightarrow> clear_exploratory_stall_state ls
   | Some p \<Rightarrow>
       if \<not> is_exploratory_tool (cx_tool_name p) then clear_exploratory_stall_state ls
       else if repeats_last ls p then ls\<lparr>ls_repeated_same_proposal_count := sat_add (ls_repeated_same_proposal_count ls) 1\<rparr>
       else ls\<lparr>ls_last_proposed_tool := Some (cx_tool_name p), ls_last_proposed_target := Some (stall_target p),
         ls_repeated_same_proposal_count := 1\<rparr>)"

definition apply_semantic_feedback_state ::
  "coding_feedback \<Rightarrow> string option \<Rightarrow> exec_thread_local_state \<Rightarrow> exec_thread_local_state" where
  "apply_semantic_feedback_state f workspace_root ls = (case cf_semantic_resolution f of
     None \<Rightarrow> ls
   | Some sem \<Rightarrow>
       if \<not> semantic_resolution_is_authoritative ls (sf_file_path sem) workspace_root then ls
       else let present = (\<lambda>x. case x of Some s \<Rightarrow> if blank s then None else Some s | None \<Rightarrow> None);
                ls1 = (case present (sf_symbol_id sem) of Some v \<Rightarrow> ls\<lparr>ls_semantic_target_symbol_id := Some v\<rparr> | None \<Rightarrow> ls);
                ls2 = (case present (sf_name sem) of Some v \<Rightarrow> ls1\<lparr>ls_semantic_target_name := Some v\<rparr> | None \<Rightarrow> ls1);
                ls3 = (case present (sf_kind sem) of Some v \<Rightarrow> ls2\<lparr>ls_semantic_target_kind := Some v\<rparr> | None \<Rightarrow> ls2);
                ls4 = (case present (sf_file_path sem) of
                  Some v \<Rightarrow> ls3\<lparr>ls_semantic_target_file := Some v, ls_inspection_target_file := Some v,
                    ls_edit_hypothesis_file := or_else (ls_edit_hypothesis_file ls3) (Some v)\<rparr>
                | None \<Rightarrow> ls3);
                ls5 = (case present (sf_query sem) of Some v \<Rightarrow> ls4\<lparr>ls_semantic_target_query := Some v\<rparr> | None \<Rightarrow> ls4)
            in ls5\<lparr>ls_semantic_target_start_line := sf_start_line sem, ls_semantic_target_end_line := sf_end_line sem,
                 ls_edit_hypothesis_summary := or_else (ls_edit_hypothesis_summary ls5) (Some (compact_semantic_feedback sem))\<rparr>)"

text \<open>Status, local state and response are threaded together.\<close>

type_synonym coding_state = "exec_thread_status \<times> exec_thread_local_state \<times> coding_response"

definition apply_coding_feedback_state :: "coding_feedback \<Rightarrow> string option \<Rightarrow> coding_state \<Rightarrow> coding_state" where
  "apply_coding_feedback_state f workspace_root st = (case st of (status, ls00, r) \<Rightarrow>
     let ls0 = apply_semantic_feedback_state f workspace_root ls00 in
     if cf_mutating_failure f then
       (ExActive, (clear_inspection_state (clear_exploratory_stall_state ls0))\<lparr>ls_verification_pending := False,
          ls_verification_attempted := ls_verification_attempted ls0, ls_work_phase := Some ''editing''\<rparr>,
        r\<lparr>rx_proposal_confidence := or_else (rx_proposal_confidence r) (Some ConfMedium)\<rparr>)
     else let ls = (if cf_mutating_success f then (clear_inspection_state (clear_exploratory_stall_state ls0))\<lparr>
            ls_verification_pending := True, ls_verification_attempted := False, ls_work_phase := Some ''verifying''\<rparr> else ls0)
       in if ls_verification_pending ls \<and> cf_verification_failure f then
            (ExActive, (clear_exploratory_stall_state ls)\<lparr>ls_verification_pending := False, ls_verification_attempted := True,
               ls_evidence_complete := False, ls_work_phase := Some ''inspecting''\<rparr>, r\<lparr>rx_evidence_complete := False\<rparr>)
          else if ls_verification_pending ls \<and> cf_verification_success f then
            (let reason = or_else (ls_last_completion_reason ls) (Some ''Coding work item completed after successful verification'') in
             (ExIdle, (clear_inspection_state (clear_exploratory_stall_state ls))\<lparr>ls_verification_pending := False,
                ls_verification_attempted := True, ls_evidence_complete := True, ls_work_phase := Some ''idle'',
                ls_last_completion_reason := reason\<rparr>,
              r\<lparr>rx_completion_reason := reason, rx_proposed_action := None, rx_should_wake_master := False\<rparr>))
          else (status, ls, r))"

text \<open>\<open>get_or_insert_with\<close> on the phase of the response.\<close>

definition default_phase :: "string \<Rightarrow> coding_response \<Rightarrow> coding_response" where
  "default_phase ph r = r\<lparr>rx_work_phase := or_else (rx_work_phase r) (Some ph)\<rparr>"

text \<open>The summary of the hypothesis is the rationale cut to 200 bytes, which panics inside a character.\<close>

definition with_summary :: "coding_proposal \<Rightarrow> exec_thread_local_state \<Rightarrow> exec_thread_local_state option" where
  "with_summary p ls = (case ls_edit_hypothesis_summary ls of
     Some _ \<Rightarrow> Some ls
   | None \<Rightarrow> map_option (\<lambda>t. ls\<lparr>ls_edit_hypothesis_summary := Some t\<rparr>) (compact_text (cx_rationale p) 200))"

definition inspect_symbol :: "coding_proposal \<Rightarrow> exec_thread_local_state \<Rightarrow> exec_thread_local_state" where
  "inspect_symbol p ls = (case proposal_symbol_file_hint p of
     None \<Rightarrow> ls
   | Some hint \<Rightarrow> (let target = semantic_path_hint_to_target_file hint in
       ls\<lparr>ls_inspection_target_file := Some target, ls_edit_hypothesis_file := or_else (ls_edit_hypothesis_file ls) (Some target)\<rparr>))"

definition lookup_symbol :: "coding_proposal \<Rightarrow> exec_thread_local_state \<Rightarrow> exec_thread_local_state" where
  "lookup_symbol p ls = (case proposal_symbol_file_hint p of
     None \<Rightarrow> ls
   | Some hint \<Rightarrow> (let target = semantic_path_hint_to_target_file hint in
       ls\<lparr>ls_inspection_target_file := or_else (ls_inspection_target_file ls) (Some target),
         ls_edit_hypothesis_file := or_else (ls_edit_hypothesis_file ls) (Some target)\<rparr>))"

definition inspect_file :: "string \<Rightarrow> exec_thread_local_state \<Rightarrow> exec_thread_local_state" where
  "inspect_file file ls =
     (let ls1 = (if ls_inspection_target_file ls = Some file then ls\<lparr>ls_inspection_read_streak := sat_add (ls_inspection_read_streak ls) 1\<rparr>
            else ls\<lparr>ls_inspection_target_file := Some file, ls_inspection_read_streak := 1\<rparr>)
      in ls1\<lparr>ls_edit_hypothesis_file := or_else (ls_edit_hypothesis_file ls1) (Some file)\<rparr>)"

definition update_inspection_state ::
  "exec_thread_local_state \<Rightarrow> coding_response \<Rightarrow> (exec_thread_local_state \<times> coding_response) option" where
  "update_inspection_state ls r = (case rx_proposed_action r of
     None \<Rightarrow> Some (ls, r)
   | Some p \<Rightarrow> (let t = cx_tool_name p in
       if t = ''code.read_symbol'' then
         (let ls1 = inspect_symbol p ls; ls2 = ls1\<lparr>ls_inspection_read_streak := max (sat_add (ls_inspection_read_streak ls1) 1) 1\<rparr> in
          map_option (\<lambda>ls3. (ls3, default_phase ''inspecting'' r)) (with_summary p ls2))
       else if t = ''code.symbol'' \<or> t = ''code.references'' \<or> t = ''code.impls'' then
         map_option (\<lambda>ls2. (ls2, default_phase ''inspecting'' r)) (with_summary p (lookup_symbol p ls))
       else if t = ''code.read'' then (case proposal_file_path p of
         None \<Rightarrow> Some (ls, r)
       | Some file \<Rightarrow> map_option (\<lambda>ls2.
           if proposal_read_covers_semantic_target ls2 p
           then (ls2\<lparr>ls_evidence_complete := True\<rparr>, r\<lparr>rx_evidence_complete := True, rx_work_phase := Some ''edit_candidate''\<rparr>)
           else (ls2, default_phase ''inspecting'' r)) (with_summary p (inspect_file file ls)))
       else if t = ''code.edit'' \<or> t = ''code.write'' then
         map_option (\<lambda>summary. (clear_inspection_state (ls\<lparr>ls_edit_hypothesis_file := or_else (proposal_file_path p) (ls_edit_hypothesis_file ls),
             ls_edit_hypothesis_summary := Some summary\<rparr>), default_phase ''edit_candidate'' (r\<lparr>rx_evidence_complete := True\<rparr>)))
           (compact_text (cx_rationale p) 200)
       else if List.member [''repo.locate'', ''repo.context'', ''code.grep'', ''code.glob'', ''code.ls''] t then
         (if has_same_file_semantic_commitment ls then Some (ls, default_phase ''edit_candidate'' r)
          else Some (clear_inspection_state ls, default_phase ''locating'' r))
       else if t = ''shell.exec'' \<or> t = ''code.test'' then Some (ls, default_phase ''verifying'' r)
       else Some (ls, r)))"

section \<open>Decisions\<close>

datatype coding_directive =
    KeepModelProposal
  | Complete
  | ConsumeSemanticTarget
  | ReadSemanticSpan
  | FileAnchoredSemanticLookup "string option"
  | ScopedTextSearch string string string \<comment> \<open>path, pattern, rationale\<close>
  | TargetedRead string u32 u32 string \<comment> \<open>file, offset, limit, rationale\<close>
  | TargetedEdit string string string string \<comment> \<open>file, old text, new text, rationale\<close>
  | TargetedPatch string string string \<comment> \<open>file, patch, rationale\<close>
  | TargetedVerification string json string \<comment> \<open>tool, parameters, rationale\<close>
  | RequireEditCandidate
  | SuppressProposal

record coding_decision =
  de_phase :: coding_phase
  de_directive :: coding_directive
  de_confidence :: "proposal_confidence option"
  de_summary :: "string option"
  de_current_focus :: "string option"
  de_complete :: "string option"

definition decide_on :: "coding_phase \<Rightarrow> coding_directive \<Rightarrow> proposal_confidence option \<Rightarrow> string \<Rightarrow> string \<Rightarrow> coding_decision" where
  "decide_on ph d c summary focus =
     \<lparr>de_phase = ph, de_directive = d, de_confidence = c, de_summary = Some summary, de_current_focus = Some focus, de_complete = None\<rparr>"

definition keep_proposal :: "coding_phase \<Rightarrow> coding_decision" where
  "keep_proposal ph = \<lparr>de_phase = ph, de_directive = KeepModelProposal, de_confidence = None, de_summary = None,
     de_current_focus = None, de_complete = None\<rparr>"

definition complete_with :: "string \<Rightarrow> string \<Rightarrow> coding_decision" where
  "complete_with summary reason = \<lparr>de_phase = PhIdle, de_directive = Complete, de_confidence = None, de_summary = Some summary,
     de_current_focus = None, de_complete = Some reason\<rparr>"

definition search_directive :: "coding_proposal \<Rightarrow> coding_directive" where
  "search_directive p = ScopedTextSearch (unwrap_or [] (param_str p ''path'')) (unwrap_or [] (param_str p ''pattern'')) (cx_rationale p)"

definition read_directive :: "u64 \<Rightarrow> coding_proposal \<Rightarrow> coding_directive" where
  "read_directive default_limit p = TargetedRead (unwrap_or [] (param_str p ''file_path''))
     (ucast (unwrap_or 0 (param_u64 p ''offset''))) (ucast (unwrap_or default_limit (param_u64 p ''limit''))) (cx_rationale p)"

definition patch_directive :: "coding_proposal \<Rightarrow> coding_directive" where
  "patch_directive p = TargetedPatch (unwrap_or [] (param_str p ''file_path'')) (unwrap_or [] (param_str p ''patch'')) (cx_rationale p)"

definition edit_directive :: "coding_proposal \<Rightarrow> coding_directive" where
  "edit_directive p = TargetedEdit (unwrap_or [] (param_str p ''file_path'')) (unwrap_or [] (param_str p ''old_string''))
     (unwrap_or [] (param_str p ''new_string'')) (cx_rationale p)"

definition verification_directive :: "coding_proposal \<Rightarrow> coding_directive" where
  "verification_directive p = TargetedVerification (cx_tool_name p) (cx_params p) (cx_rationale p)"

definition inspect_changed :: "string \<Rightarrow> string \<Rightarrow> coding_directive" where
  "inspect_changed file rationale =
     TargetedRead file (if is_module_file file then 285 else 1) (if is_module_file file then 100 else 200) rationale"

text \<open>Equality of parameter objects: the same entries, in any order.\<close>

definition same_object :: "json \<Rightarrow> json \<Rightarrow> bool" where
  "same_object a b = (case (a, b) of
     (JObj xs, JObj ys) \<Rightarrow> list_all (\<lambda>k. map_of xs k = map_of ys k) (map fst xs @ map fst ys)
   | _ \<Rightarrow> a = b)"

definition no_proposal_policy ::
  "disk \<Rightarrow> coding_situation \<Rightarrow> exec_thread_local_state \<Rightarrow> coding_response \<Rightarrow> coding_decision" where
  "no_proposal_policy d s ls r =
     (case (if si_verification_pending s then synthesize_post_edit_verification_proposal d s ls r else None) of
        Some v \<Rightarrow> decide_on PhVerifying (verification_directive v) (Some ConfMedium)
          ''A mutating action already succeeded; verify before completing.'' ''verify the recent edit''
      | None \<Rightarrow> (case synthesize_conversion_macro_variant_edit s ls r None of
          Some edit \<Rightarrow> if cx_tool_name edit = ''code.apply_patch''
            then decide_on PhEditing (patch_directive edit) (Some ConfHigh)
              ''The conversion macro edit site is known; apply the multi-variant patch instead of waiting for another exploratory proposal.''
              ''apply the conversion macro multi-variant patch''
            else keep_proposal (si_phase s)
        | None \<Rightarrow> keep_proposal (si_phase s)))"

definition hypothesis_file :: "coding_situation \<Rightarrow> string option" where
  "hypothesis_file s = or_else (si_edit_hypothesis_file s) (si_target_file s)"

text \<open>The rules that concern verification and known wrong edits, in their order; \<open>None\<close> falls through.\<close>

definition retest_rule :: "coding_situation \<Rightarrow> coding_proposal \<Rightarrow> coding_decision option" where
  "retest_rule s p =
     (if si_verification_attempted s \<and> \<not> si_verification_pending s \<and> cx_tool_name p = ''code.test'' then Some (case hypothesis_file s of
        Some file \<Rightarrow> decide_on PhInspecting (inspect_changed file
            ''A verification command already failed; inspect the changed target before running another expensive test command without a new edit.'')
          (Some ConfMedium) ''Verification already failed once; do not rerun code.test until another edit is made.''
          ''inspect the changed file after failed verification''
      | None \<Rightarrow> decide_on PhVerifying SuppressProposal None
          ''Verification already failed once; suppressing repeated code.test without a new edit.''
          ''analyze verification failure before rerunning tests'')
      else None)"

definition scoped_test_rule :: "disk \<Rightarrow> coding_situation \<Rightarrow> coding_proposal \<Rightarrow> coding_decision option" where
  "scoped_test_rule d s p =
     (if si_verification_pending s \<and> \<not> si_verification_attempted s \<and> cx_tool_name p = ''code.test'' then
        Option.bind (synthesize_post_edit_test_verification d s) (\<lambda>test.
          if cx_tool_name p \<noteq> cx_tool_name test \<or> \<not> same_object (cx_params p) (cx_params test)
          then Some (decide_on PhVerifying (verification_directive test) (Some ConfMedium)
            ''A mutating action already succeeded; use the scoped post-edit verification command.''
            ''verify the recent edit at the nearest project boundary'')
          else None)
      else None)"

definition repatch_rule :: "coding_situation \<Rightarrow> coding_proposal \<Rightarrow> coding_decision option" where
  "repatch_rule s p =
     (if si_verification_attempted s \<and> \<not> si_verification_pending s \<and> proposal_is_known_conversion_macro_variant_patch p
      then Some (case or_else (proposal_file_path p) (hypothesis_file s) of
        Some file \<Rightarrow> decide_on PhInspecting (inspect_changed file
            ''The deterministic conversion macro patch has already been applied and verification has failed; inspect the changed target or verification output instead of reapplying the same patch.'')
          (Some ConfMedium) ''Verification already failed after the conversion macro patch; do not reapply the same patch.''
          ''inspect the changed macro after failed verification''
      | None \<Rightarrow> decide_on PhInspecting SuppressProposal None
          ''Verification already failed after the conversion macro patch; suppressing repeated patch.''
          ''inspect verification failure before another edit'')
      else None)"

definition repetition_rule :: "coding_situation \<Rightarrow> coding_proposal \<Rightarrow> coding_decision option" where
  "repetition_rule s p =
     (if proposal_changes_macro_variant_repetition_plus_to_star p then Some (case or_else (proposal_file_path p) (hypothesis_file s) of
        Some file \<Rightarrow> decide_on PhInspecting (inspect_changed file
            ''The `|+` repetition is the intended Rust macro syntax for one or more `|`-separated variants; inspect the macro instead of changing it to `|*`.'')
          (Some ConfMedium) ''Rejecting incorrect macro repetition edit from `|+` to `|*`; keep the one-or-more variant syntax.''
          ''preserve the correct macro repetition syntax''
      | None \<Rightarrow> decide_on PhInspecting SuppressProposal None ''Rejecting incorrect macro repetition edit from `|+` to `|*`.''
          ''preserve the correct macro repetition syntax'')
      else None)"

definition test_first_rule :: "disk \<Rightarrow> coding_situation \<Rightarrow> coding_proposal \<Rightarrow> coding_decision option" where
  "test_first_rule d s p =
     (if si_verification_pending s \<and> \<not> si_verification_attempted s \<and> cx_tool_name p \<noteq> ''code.test'' then
        map_option (\<lambda>test. decide_on PhVerifying (verification_directive test) (Some ConfMedium)
          ''A mutating action already succeeded; run the project test command before read-only verification.''
          ''verify the recent edit with tests'') (synthesize_post_edit_test_verification d s)
      else None)"

definition verify_first_rule ::
  "disk \<Rightarrow> coding_situation \<Rightarrow> exec_thread_local_state \<Rightarrow> coding_response \<Rightarrow> coding_proposal \<Rightarrow> coding_decision option" where
  "verify_first_rule d s ls r p =
     (if si_verification_pending s \<and> \<not> is_verification_action (Some p) then
        map_option (\<lambda>v. decide_on PhVerifying (verification_directive v) (Some ConfMedium)
          ''A mutating action already succeeded; verify before proposing another edit.''
          ''verify the recent edit or test result'') (synthesize_post_edit_verification_proposal d s ls r)
      else None)"

text \<open>The rules on searches, reads and edits of the conversion macro.\<close>

definition repeated_trait_rule ::
  "coding_situation \<Rightarrow> exec_thread_local_state \<Rightarrow> coding_response \<Rightarrow> coding_policy_profile \<Rightarrow> coding_decision option" where
  "repeated_trait_rule s ls r profile = map_option (\<lambda>search. decide_on PhInspecting (search_directive search) (Some ConfMedium)
     ''Repeated semantic impl lookup is not narrowing the edit target; switch to a scoped text search for the concrete trait/type conversion site''
     ''break semantic lookup stall and inspect the concrete conversion source'')
     (synthesize_repeated_trait_lookup_text_search s ls r profile)"

definition macro_usage_rule ::
  "coding_situation \<Rightarrow> exec_thread_local_state \<Rightarrow> coding_response \<Rightarrow> coding_proposal \<Rightarrow> coding_decision option" where
  "macro_usage_rule s ls r p = map_option (\<lambda>read.
     if repeats_last ls read
     then decide_on PhEditCandidate RequireEditCandidate None
       ''The conversion macro invocation has already been inspected; semantic lookup of the macro name will not add edit evidence. Propose the exact code.edit against the invocation or go blocked.''
       ''commit the macro invocation read into a concrete edit candidate''
     else decide_on PhInspecting (read_directive 80 read) (Some ConfHigh)
       ''The macro definition is known; read the concrete invocation span before any further semantic lookup of the macro name.''
       ''inspect the macro invocation that should become the exact edit site'')
     (synthesize_conversion_macro_usage_read s ls r p)"

definition variant_edit_rule ::
  "coding_situation \<Rightarrow> exec_thread_local_state \<Rightarrow> coding_response \<Rightarrow> coding_proposal \<Rightarrow> coding_decision option" where
  "variant_edit_rule s ls r p = map_option (\<lambda>edit.
     if cx_tool_name edit = ''code.apply_patch''
     then decide_on PhEditing (patch_directive edit) (Some ConfHigh)
       ''The conversion macro must support multiple source variants; apply the localized macro and invocation patch instead of another inspection step.''
       ''apply the conversion macro multi-variant patch''
     else decide_on PhEditing (edit_directive edit) (Some ConfHigh)
       ''The conversion macro invocation and missing source variant are known; propose the exact localized edit instead of another inspection step.''
       ''apply the conversion macro variant edit'')
     (synthesize_conversion_macro_variant_edit s ls r (Some p))"

definition commitment_rule ::
  "coding_situation \<Rightarrow> exec_thread_local_state \<Rightarrow> coding_response \<Rightarrow> coding_proposal \<Rightarrow> coding_decision option" where
  "commitment_rule s ls r p =
     (if should_enforce_edit_candidate_commitment s ls r p
      then let target = unwrap_or ''the current target file'' (hypothesis_file s) in
        Some (decide_on PhEditCandidate RequireEditCandidate None
          (''Inspect-to-edit commitment is active for '' @ target @ ''; do not spend another tick on semantic lookup or broad exploration. Propose the exact code.edit from recently read source, switch to a different explicit file, or go blocked with the missing fact.'')
          (''commit the concrete edit hypothesis for '' @ target @ '' into code.edit or blocked''))
      else None)"

definition module_trait_rule ::
  "coding_situation \<Rightarrow> exec_thread_local_state \<Rightarrow> coding_response \<Rightarrow> coding_policy_profile \<Rightarrow> coding_proposal \<Rightarrow> coding_decision option" where
  "module_trait_rule s ls r profile p = map_option (\<lambda>search. decide_on PhInspecting (search_directive search) (Some ConfMedium)
     ''Trait-only semantic impl lookup in a module can resolve unrelated impls; search scoped source text for the concrete conversion site instead.''
     ''replace broad trait impl lookup with scoped conversion source search'')
     (synthesize_module_trait_lookup_text_search s ls r profile p)"

definition macro_commit_rule ::
  "coding_situation \<Rightarrow> exec_thread_local_state \<Rightarrow> coding_response \<Rightarrow> coding_proposal \<Rightarrow> coding_decision option" where
  "macro_commit_rule s ls r p =
     (if should_commit_after_conversion_macro_invocation s ls r p
      then Some (decide_on PhEditCandidate RequireEditCandidate None
        ''The conversion macro invocation is now the edit site; additional semantic lookup for map types will not add edit evidence. Propose the exact code.edit against the invocation or go blocked.''
        ''commit the inspected conversion macro invocation into a concrete edit'')
      else None)"

definition anchored_rule ::
  "coding_situation \<Rightarrow> exec_thread_local_state \<Rightarrow> coding_response \<Rightarrow> coding_policy_profile \<Rightarrow> coding_decision option" where
  "anchored_rule s ls r profile = map_option (\<lambda>target. decide_on PhInspecting (FileAnchoredSemanticLookup (Some target)) (Some ConfMedium)
     ''The resolved semantic target is supporting evidence in a concrete leaf file; trait-oriented work should inspect the generic module that owns the conversion machinery''
     ''switch from concrete leaf type inspection to generic trait/conversion machinery'')
     (preferred_file_anchored_target s ls r profile)"

definition consume_rule :: "coding_situation \<Rightarrow> exec_thread_local_state \<Rightarrow> coding_proposal \<Rightarrow> coding_decision option" where
  "consume_rule s ls p =
     (if should_consume_resolved_semantic_target p ls (si_workspace_root s)
      then Some (decide_on PhInspecting ConsumeSemanticTarget (Some ConfHigh)
        ''A resolved semantic target is already available; consume it with a focused symbol read before reopening semantic lookup''
        ''use resolved semantic target to inspect the exact symbol span'')
      else None)"

definition span_rule :: "exec_thread_local_state \<Rightarrow> coding_proposal \<Rightarrow> coding_decision option" where
  "span_rule ls p =
     (if should_force_semantic_span_read p ls
      then Some (decide_on PhInspecting ReadSemanticSpan (Some ConfHigh)
        ''A same-file semantic target is already available; inspect the exact source span instead of broadening search''
        ''read the exact semantic span, then move to a concrete edit'')
      else None)"

definition edit_or_inspect :: "coding_situation \<Rightarrow> coding_phase" where
  "edit_or_inspect s = (if si_evidence_complete s \<or> aligned_hypothesis s then PhEditCandidate else PhInspecting)"

definition reorientation_rule :: "coding_situation \<Rightarrow> exec_thread_local_state \<Rightarrow> coding_proposal \<Rightarrow> coding_decision option" where
  "reorientation_rule s ls p =
     (if should_suppress_broad_reorientation p ls (si_workspace_root s)
      then let target = unwrap_or ''current target file'' (concrete_target_file ls) in
        Some (decide_on (edit_or_inspect s) (FileAnchoredSemanticLookup None) (Some ConfMedium)
          (''A concrete target file is already known ('' @ target @ ''); do not reopen workspace-wide search. Propose the edit, switch to a different explicit file target, use a file-anchored semantic lookup, or go blocked.'')
          (''commit investigation on '' @ target @ '' or switch files explicitly''))
      else None)"

definition completion_rule :: "coding_situation \<Rightarrow> coding_policy_profile \<Rightarrow> coding_decision option" where
  "completion_rule s profile =
     (if si_verification_pending s \<and> si_verification_attempted s \<and> repeated_exploratory_target profile s
      then Some (complete_with
        ''Post-edit verification is complete enough; suppressing repeated exploratory checks and returning to idle''
        ''Coding work item completed after repeated post-edit exploratory checks were suppressed'')
      else None)"

text \<open>A file that is read again and again.\<close>

definition stalled_macro_read ::
  "coding_situation \<Rightarrow> exec_thread_local_state \<Rightarrow> coding_response \<Rightarrow> string \<Rightarrow> string \<Rightarrow> coding_proposal \<Rightarrow> coding_decision" where
  "stalled_macro_read s ls r stalled hypothesis read =
     (let repeated = macro_definition_read_is_repeated ls read;
          usage = (if repeated then synthesize_conversion_macro_usage_read_from_context s ls r else None);
          invocation = (if repeated then synthesize_conversion_macro_after_definition_read s read else None)
      in case usage of
           Some u \<Rightarrow> decide_on PhInspecting (read_directive 60 u) (Some ConfHigh)
             (''Inspection of '' @ stalled @ '' already read the conversion macro definition; read the invocation span that should become the edit site.'')
             (''inspect the conversion macro invocation in '' @ stalled @ '': '' @ hypothesis)
         | None \<Rightarrow> (case invocation of
             Some i \<Rightarrow> decide_on PhInspecting (read_directive 80 i) (Some ConfHigh)
               (''Inspection of '' @ stalled @ '' already read the conversion macro definition; read the following invocation region instead of rereading the definition.'')
               (''read the conversion macro invocation region in '' @ stalled @ '': '' @ hypothesis)
           | None \<Rightarrow> decide_on PhInspecting (read_directive 120 read) (Some ConfHigh)
               (''Inspection of '' @ stalled @ '' has a concrete conversion macro hit; read that source span instead of repeating search.'')
               (''read the concrete conversion macro in '' @ stalled @ '': '' @ hypothesis)))"

definition reread_rule ::
  "coding_situation \<Rightarrow> exec_thread_local_state \<Rightarrow> coding_response \<Rightarrow> coding_policy_profile \<Rightarrow> coding_proposal \<Rightarrow> coding_decision option" where
  "reread_rule s ls r profile p =
     (if \<not> repeated_same_file_read profile s then None
      else let stalled = unwrap_or ''same file'' (si_target_file s);
               hypothesis = unwrap_or ''read enough to form an edit hypothesis or change tactic'' (si_edit_hypothesis_summary s);
               streak = show_u32 (si_inspection_read_streak s);
               trait_module = (case si_target_file s of Some f \<Rightarrow> is_module_file f | None \<Rightarrow> False) \<and> focus_mentions_impls ls r;
               macro_read = (if trait_module then synthesize_conversion_macro_read s ls r else None);
               search = (if trait_module then synthesize_trait_conversion_text_search s ls r profile p else None)
           in Some (case macro_read of
             Some read \<Rightarrow> stalled_macro_read s ls r stalled hypothesis read
           | None \<Rightarrow> (case search of
               Some q \<Rightarrow> decide_on PhInspecting (search_directive q) (Some ConfMedium)
                 (''Inspection of '' @ stalled @ '' is stalled after '' @ streak @ '' reads; trait-oriented module work should search for the concrete conversion macro or signature before another semantic impl lookup.'')
                 (''find the concrete conversion source in '' @ stalled @ '': '' @ hypothesis)
             | None \<Rightarrow> decide_on (edit_or_inspect s) (FileAnchoredSemanticLookup None) (Some ConfMedium)
                 (''Inspection of '' @ stalled @ '' is stalled after '' @ streak @ '' reads; do not reread this file. Turn the current hypothesis into a concrete edit, switch files, switch search mode, or go blocked.'')
                 (''inspect-to-edit transition for '' @ stalled @ '': '' @ hypothesis))))"

definition repeat_rule :: "coding_situation \<Rightarrow> exec_thread_local_state \<Rightarrow> coding_policy_profile \<Rightarrow> coding_decision option" where
  "repeat_rule s ls profile =
     (if repeated_exploratory_target profile s
      then Some (decide_on PhLocating SuppressProposal None
        (''Repeated '' @ unwrap_or ''exploratory action'' (ls_last_proposed_tool ls) @ '' against '' @
         unwrap_or ''same target'' (ls_last_proposed_target ls) @ '' is stalled; switch to an edit if evidence is complete or choose a different action class'')
        ''break repeated exploratory loop'')
      else None)"

text \<open>The first rule that applies decides.\<close>

definition evaluate_coding_policy ::
  "disk \<Rightarrow> coding_situation \<Rightarrow> exec_thread_local_state \<Rightarrow> coding_response \<Rightarrow> coding_policy_profile \<Rightarrow> coding_decision" where
  "evaluate_coding_policy d s ls r profile = (case si_proposed_action s of
     None \<Rightarrow> no_proposal_policy d s ls r
   | Some p \<Rightarrow> unwrap_or (keep_proposal (si_phase s)) (first_some (\<lambda>rule. rule ()) [
       \<lambda>_. retest_rule s p,
       \<lambda>_. scoped_test_rule d s p,
       \<lambda>_. repatch_rule s p,
       \<lambda>_. repetition_rule s p,
       \<lambda>_. test_first_rule d s p,
       \<lambda>_. verify_first_rule d s ls r p,
       \<lambda>_. repeated_trait_rule s ls r profile,
       \<lambda>_. macro_usage_rule s ls r p,
       \<lambda>_. variant_edit_rule s ls r p,
       \<lambda>_. commitment_rule s ls r p,
       \<lambda>_. module_trait_rule s ls r profile p,
       \<lambda>_. macro_commit_rule s ls r p,
       \<lambda>_. anchored_rule s ls r profile,
       \<lambda>_. consume_rule s ls p,
       \<lambda>_. span_rule ls p,
       \<lambda>_. reorientation_rule s ls p,
       \<lambda>_. completion_rule s profile,
       \<lambda>_. reread_rule s ls r profile p,
       \<lambda>_. repeat_rule s ls profile]))"

section \<open>The governor\<close>

definition final_proposal_repeat_budget :: "coding_policy_profile \<Rightarrow> string \<Rightarrow> u32" where
  "final_proposal_repeat_budget profile tool =
     (if is_semantic_lookup_tool tool then max (cp_semantic_lookup_stall_threshold profile) 1
      else max (cp_exploratory_stall_threshold profile) 1)"

definition final_proposal_repeats_spent_action :: "coding_proposal \<Rightarrow> exec_thread_local_state \<Rightarrow> coding_policy_profile \<Rightarrow> bool" where
  "final_proposal_repeats_spent_action p ls profile \<longleftrightarrow> is_exploratory_tool (cx_tool_name p) \<and> repeats_last ls p
     \<and> ls_repeated_same_proposal_count ls \<ge> final_proposal_repeat_budget profile (cx_tool_name p)"

definition evaluate_final_proposal_trajectory_governor ::
  "disk \<Rightarrow> coding_situation \<Rightarrow> exec_thread_local_state \<Rightarrow> coding_response \<Rightarrow> coding_policy_profile \<Rightarrow> coding_decision option" where
  "evaluate_final_proposal_trajectory_governor d s ls r profile = (case si_proposed_action s of
     None \<Rightarrow> None
   | Some p \<Rightarrow>
       if \<not> final_proposal_repeats_spent_action p ls profile then None
       else if si_verification_pending s \<and> si_verification_attempted s
       then Some (complete_with
         ''Post-edit verification has already run; suppressing repeated exploratory action and returning to idle''
         ''Coding work item completed after repeated post-edit exploratory action was suppressed'')
       else Some (case synthesize_trait_conversion_text_search s ls r profile p of
         Some search \<Rightarrow> decide_on PhInspecting (search_directive search) (Some ConfMedium)
           ''The final semantic lookup proposal is repeating without new evidence; switch to a scoped source-text search for the conversion site''
           ''break final proposal stall with line-grounded source evidence''
       | None \<Rightarrow> (case synthesize_parent_module_read_after_semantic_stall d s p of
           Some read \<Rightarrow> decide_on PhInspecting (read_directive 120 read) (Some ConfMedium)
             ''The final semantic lookup proposal is repeating; read the owning module directly instead of reissuing the same lookup''
             ''replace repeated semantic probing with direct module inspection''
         | None \<Rightarrow> decide_on PhLocating SuppressProposal None
             (''Final proposal trajectory is stalled on '' @ unwrap_or (cx_tool_name p) (ls_last_proposed_tool ls) @ '' against '' @
              unwrap_or ''same target'' (ls_last_proposed_target ls) @ ''; suppressing repeat so the next tick must choose a different action class'')
             ''break final proposal stall'')))"

section \<open>Applying a decision\<close>

text \<open>A synthesised proposal, or none; the master is woken exactly when there is one.\<close>

definition with_synthesized :: "coding_proposal option \<Rightarrow> proposal_confidence option \<Rightarrow> coding_response \<Rightarrow> coding_response" where
  "with_synthesized p c r = r\<lparr>rx_proposed_action := p, rx_should_wake_master := (p \<noteq> None),
     rx_proposal_confidence := (if p \<noteq> None then c else None)\<rparr>"

definition with_proposal :: "coding_proposal \<Rightarrow> proposal_confidence option \<Rightarrow> coding_response \<Rightarrow> coding_response" where
  "with_proposal p c r = r\<lparr>rx_proposed_action := Some p, rx_should_wake_master := True, rx_proposal_confidence := c\<rparr>"

definition apply_policy_decision :: "coding_decision \<Rightarrow> string option \<Rightarrow> coding_state \<Rightarrow> coding_state" where
  "apply_policy_decision d workspace_root st = (case st of (status, ls, r0) \<Rightarrow>
     let r = r0\<lparr>rx_summary := unwrap_or (rx_summary r0) (de_summary d),
           rx_current_focus := or_else (de_current_focus d) (rx_current_focus r0), rx_work_phase := Some (phase_as_str (de_phase d))\<rparr>
     in case de_directive d of
       KeepModelProposal \<Rightarrow> (status, ls, r)
     | Complete \<Rightarrow> (let reason = or_else (ls_last_completion_reason ls) (de_complete d) in
         (ExIdle, (clear_exploratory_stall_state ls)\<lparr>ls_verification_pending := False, ls_verification_attempted := True,
            ls_evidence_complete := True, ls_work_phase := Some (phase_as_str PhIdle), ls_last_completion_reason := reason\<rparr>,
          r\<lparr>rx_completion_reason := reason, rx_proposed_action := None, rx_should_wake_master := False\<rparr>))
     | ConsumeSemanticTarget \<Rightarrow>
         (ExActive, ls, with_synthesized (synthesize_symbol_consumption_proposal ls workspace_root) (de_confidence d) r)
     | ReadSemanticSpan \<Rightarrow> (ExActive, ls, with_synthesized (synthesize_semantic_span_read_proposal ls) (de_confidence d) r)
     | FileAnchoredSemanticLookup target \<Rightarrow> (ExActive, ls,
         with_synthesized (synthesize_file_anchored_semantic_proposal_for_target ls r workspace_root target) (de_confidence d) r)
     | ScopedTextSearch path pattern rationale \<Rightarrow> (ExActive, ls, with_proposal (grep_proposal path pattern rationale) (de_confidence d) r)
     | TargetedRead file offset limit rationale \<Rightarrow>
         (ExActive, ls, with_proposal (read_proposal file offset limit rationale) (de_confidence d) r)
     | TargetedEdit file old new rationale \<Rightarrow> (ExActive, ls\<lparr>ls_evidence_complete := True\<rparr>,
         (with_proposal \<lparr>cx_tool_name = ''code.edit'', cx_params = JObj [(''file_path'', JStr file), (''old_string'', JStr old),
           (''new_string'', JStr new)], cx_rationale = rationale\<rparr> (de_confidence d) r)\<lparr>rx_evidence_complete := True\<rparr>)
     | TargetedPatch file patch rationale \<Rightarrow> (ExActive, ls\<lparr>ls_evidence_complete := True\<rparr>,
         (with_proposal \<lparr>cx_tool_name = ''code.apply_patch'', cx_params = JObj [(''file_path'', JStr file), (''patch'', JStr patch)],
           cx_rationale = rationale\<rparr> (de_confidence d) r)\<lparr>rx_evidence_complete := True\<rparr>)
     | TargetedVerification tool params rationale \<Rightarrow> (ExActive, ls,
         with_proposal \<lparr>cx_tool_name = tool, cx_params = params, cx_rationale = rationale\<rparr> (de_confidence d) r)
     | RequireEditCandidate \<Rightarrow> (ExActive, ls\<lparr>ls_evidence_complete := True\<rparr>, r\<lparr>rx_evidence_complete := True,
         rx_proposed_action := None, rx_should_wake_master := True, rx_proposal_confidence := None\<rparr>)
     | SuppressProposal \<Rightarrow> (ExActive, ls, r\<lparr>rx_proposed_action := None, rx_should_wake_master := False, rx_proposal_confidence := None\<rparr>))"

definition apply_coding_stall_policy ::
  "disk \<Rightarrow> coding_feedback \<Rightarrow> coding_policy_profile \<Rightarrow> string option \<Rightarrow> coding_state \<Rightarrow> coding_state" where
  "apply_coding_stall_policy d f profile workspace_root st0 = (case st0 of (status0, ls0, r0) \<Rightarrow>
     let s0 = build_coding_situation status0 ls0 r0 f workspace_root;
         st1 = apply_policy_decision (evaluate_coding_policy d s0 ls0 r0 profile) workspace_root st0
     in case st1 of (status1, ls1, r1) \<Rightarrow>
       let s1 = build_coding_situation status1 ls1 r1 f workspace_root in
       case evaluate_final_proposal_trajectory_governor d s1 ls1 r1 profile of
         None \<Rightarrow> st1
       | Some decision \<Rightarrow> apply_policy_decision decision workspace_root st1)"

end
