(* ===== verification/Coding_Thread.thy ===== *)
theory Coding_Thread
  imports Coding_Policy Llm_Call Render
begin

text \<open>
  A turn of the executable coding thread (\<open>exoskeleton-threads/src/builtin/coding.rs\<close>, \<open>execute_coding_thread\<close>): the
  prompt, the call of the model, the policy on its answer and the stored output. \<open>None\<close> is a panic: two texts are cut at a byte
  index.
\<close>

section \<open>Whether there is work\<close>

definition has_coding_work :: "perception \<Rightarrow> exec_thread_local_state \<Rightarrow> bool" where
  "has_coding_work p ls \<longleftrightarrow> pe_new_messages p \<noteq> [] \<or> ls_awaiting_feedback ls \<and> pe_pending_action_results p \<noteq> []"

fun should_run_coding_thread :: "exec_thread_status \<Rightarrow> perception \<Rightarrow> exec_thread_local_state \<Rightarrow> bool" where
  "should_run_coding_thread ExFailed p ls = False"
| "should_run_coding_thread ExIdle p ls = (has_coding_work p ls \<or> ls_should_wake_master ls)"
| "should_run_coding_thread _ p ls = True"

definition default_coding_status :: "coding_response \<Rightarrow> perception \<Rightarrow> exec_thread_local_state \<Rightarrow> exec_thread_status" where
  "default_coding_status r p ls =
     (if rx_completion_reason r \<noteq> None then ExIdle
      else if rx_proposed_action r \<noteq> None \<or> has_coding_work p ls then ExActive else ExIdle)"

definition canonicalize_exec_thread_status :: "exec_thread_status \<Rightarrow> exec_thread_status" where
  "canonicalize_exec_thread_status s = (if s = ExCompleted then ExIdle else s)"

definition infer_coding_work_phase :: "exec_thread_local_state \<Rightarrow> coding_response \<Rightarrow> exec_thread_status \<Rightarrow> string option" where
  "infer_coding_work_phase ls r status =
     (if rx_work_phase r \<noteq> None then rx_work_phase r
      else if status = ExIdle \<or> rx_completion_reason r \<noteq> None then Some ''idle''
      else if ls_verification_pending ls \<or> ls_verification_attempted ls then Some ''verifying''
      else let t = (case rx_proposed_action r of Some p \<Rightarrow> cx_tool_name p | None \<Rightarrow> []) in
        if List.member [''repo.locate'', ''repo.context'', ''code.grep'', ''code.glob'', ''code.ls''] t then Some ''locating''
        else if List.member [''code.read'', ''code.read_symbol'', ''code.symbol'', ''code.references'', ''code.impls''] t then Some ''inspecting''
        else if List.member [''code.edit'', ''code.write'', ''code.apply_patch''] t then Some ''editing''
        else if List.member [''shell.exec'', ''code.test''] t then Some ''verifying''
        else if ls_evidence_complete ls \<or> ls_edit_hypothesis_file ls \<noteq> None then Some ''edit_candidate''
        else ls_work_phase ls)"

section \<open>The prompt\<close>

record coding_env =
  cd_disk :: disk
  cd_parse :: "string \<Rightarrow> coding_response option" \<comment> \<open>serde_json on the answer\<close>
  cd_parse_json :: "string \<Rightarrow> json option"
  cd_ticks :: "tick_record codec"
  cd_encode :: "exec_thread_output \<Rightarrow> string + string"
  cd_profile :: coding_policy_profile
  cd_max_output_tokens :: u64
  cd_show_uuid :: "uuid \<Rightarrow> string"
  cd_prompt :: "string \<Rightarrow> string option" \<comment> \<open>the registry of prompts\<close>

definition artifact_text :: "'a artifact_ops \<Rightarrow> 'a \<Rightarrow> artifact_id \<Rightarrow> string option exo_result" where
  "artifact_text ops arts i = (case ao_get ops arts i of
     Inl e \<Rightarrow> Inl e | Inr x \<Rightarrow> Inr (Option.bind x (\<lambda>a. from_utf8 (af_content a))))"

fun render_messages :: "coding_env \<Rightarrow> 'a artifact_ops \<Rightarrow> 'a \<Rightarrow> conversation_message list \<Rightarrow> string exo_result" where
  "render_messages c ops arts [] = Inr []"
| "render_messages c ops arts (m # ms) = (case artifact_text ops arts (cm_payload_ref m) of
     Inl e \<Rightarrow> Inl e
   | Inr t \<Rightarrow> (case render_messages c ops arts ms of
       Inl e \<Rightarrow> Inl e
     | Inr rest \<Rightarrow> Inr (''- ['' @ cd_show_uuid c (cm_source m) @ ''] '' @ str_trim (unwrap_or ''<unresolved message>'' t) @ nl @ rest)))"

definition last_three :: "'x list \<Rightarrow> 'x list" where
  "last_three xs = drop (length xs - 3) xs"

definition none_if_blank :: "string \<Rightarrow> string" where
  "none_if_blank s = (if blank s then ''none'' else s)"

definition render_conversation_context :: "coding_env \<Rightarrow> 'a artifact_ops \<Rightarrow> 'a \<Rightarrow> perception \<Rightarrow> string exo_result" where
  "render_conversation_context c ops arts p =
     map_sum id none_if_blank (render_messages c ops arts (concat (map (last_three \<circ> cv_message_refs) (pe_active_conversations p))))"

fun render_results :: "'a artifact_ops \<Rightarrow> 'a \<Rightarrow> event_entry list \<Rightarrow> string exo_result option" where
  "render_results ops arts [] = Some (Inr [])"
| "render_results ops arts (e # es) =
     (let line = ''- '' @ ev_summary e @ nl;
          add = (\<lambda>pre. map_option (map_sum id (\<lambda>rest. pre @ rest)) (render_results ops arts es))
      in case ev_payload_ref e of
           None \<Rightarrow> add line
         | Some i \<Rightarrow> (case artifact_text ops arts i of
             Inl err \<Rightarrow> Some (Inl err)
           | Inr None \<Rightarrow> add line
           | Inr (Some t) \<Rightarrow> (let trimmed = str_trim t in
               case (if length trimmed > 1200 then slice_to 1200 trimmed else Some trimmed) of
                 None \<Rightarrow> None
               | Some preview \<Rightarrow> add (line @ ''  receipt: '' @ preview @ nl))))"

definition render_pending_action_results :: "'a artifact_ops \<Rightarrow> 'a \<Rightarrow> perception \<Rightarrow> string exo_result option" where
  "render_pending_action_results ops arts p =
     map_option (map_sum id none_if_blank) (render_results ops arts (pe_pending_action_results p))"

text \<open>The literal parts of the format string; the values stand between them.\<close>

definition coding_prompt_pieces :: "string list" where
  "coding_prompt_pieces = [
    (''Kind: coding'' @ [CHR 0x0A]) @
      ''Name: '',
    [CHR 0x0A] @
      ''Charter: '',
    [CHR 0x0A] @
      ''Mission: '',
    [CHR 0x0A] @
      ''Tick: '',
    [CHR 0x0A] @
      ''Workspace: '',
    [CHR 0x0A] @
      ''Last action: '',
    [CHR 0x0A] @
      ''Current focus: '',
    [CHR 0x0A] @
      ''Work phase: '',
    [CHR 0x0A] @
      ''Scratchpad: '',
    [CHR 0x0A] @
      ''Evidence complete: '',
    [CHR 0x0A] @
      ''Verification pending: '',
    [CHR 0x0A] @
      ''Verification attempted: '',
    [CHR 0x0A] @
      ''Inspection target file: '',
    [CHR 0x0A] @
      ''Inspection read streak: '',
    [CHR 0x0A] @
      ''Edit hypothesis file: '',
    [CHR 0x0A] @
      ''Edit hypothesis: '',
    [CHR 0x0A] @
      ''Resolved semantic symbol id: '',
    [CHR 0x0A] @
      ''Resolved semantic target: '',
    [CHR 0x0A] @
      ''Resolved semantic kind: '',
    [CHR 0x0A] @
      ''Resolved semantic file: '',
    [CHR 0x0A] @
      ''Resolved semantic query: '',
    [CHR 0x0A] @
      ''Resolved semantic range: '',
    [CHR 0x0A] @
      ''Last proposed tool: '',
    [CHR 0x0A] @
      ''Last proposed target: '',
    [CHR 0x0A] @
      ''Repeated same exploratory proposal count: '',
    [CHR 0x0A] @
      ''Recent thread outputs: '',
    [CHR 0x0A] @
      ''Recent exec outputs: '',
    [CHR 0x0A] @
      ''Recent messages: '',
    [CHR 0x0A] @
      [CHR 0x0A] @
      (''Conversation context:'' @ [CHR 0x0A]),
    [CHR 0x0A] @
      [CHR 0x0A] @
      (''Pending action results:'' @ [CHR 0x0A]),
    [CHR 0x0A] @
      [CHR 0x0A] @
      (''Tool parameter schemas:'' @ [CHR 0x0A]) @
      (''- repo.locate params: {'' @ [CHR 0x22] @ ''query'' @ [CHR 0x22] @ '': '' @ [CHR 0x22] @ ''TASK_OR_LOCALIZATION_QUERY'' @ [CHR 0x22] @ '', '' @ [CHR 0x22] @ ''path'' @ [CHR 0x22] @ '': '' @ [CHR 0x22] @ ''ABSOLUTE_DIR'' @ [CHR 0x22] @ '', '' @ [CHR 0x22] @ ''symbols'' @ [CHR 0x22] @ '': optional_array_of_strings, '' @ [CHR 0x22] @ ''limit'' @ [CHR 0x22] @ '': optional_integer, '' @ [CHR 0x22] @ ''include_tests'' @ [CHR 0x22] @ '': optional_boolean}'' @ [CHR 0x0A]) @
      (''- code.symbol params: {'' @ [CHR 0x22] @ ''path'' @ [CHR 0x22] @ '': '' @ [CHR 0x22] @ ''ABSOLUTE_DIR'' @ [CHR 0x22] @ '', '' @ [CHR 0x22] @ ''query'' @ [CHR 0x22] @ '': '' @ [CHR 0x22] @ ''SYMBOL_OR_QUERY'' @ [CHR 0x22] @ '', '' @ [CHR 0x22] @ ''path_hint'' @ [CHR 0x22] @ '': optional_string, '' @ [CHR 0x22] @ ''kind_hint'' @ [CHR 0x22] @ '': optional_string, '' @ [CHR 0x22] @ ''limit'' @ [CHR 0x22] @ '': optional_integer}'' @ [CHR 0x0A]) @
      (''- code.read_symbol params: {'' @ [CHR 0x22] @ ''path'' @ [CHR 0x22] @ '': '' @ [CHR 0x22] @ ''ABSOLUTE_DIR'' @ [CHR 0x22] @ '', '' @ [CHR 0x22] @ ''symbol_id'' @ [CHR 0x22] @ '': optional_string, '' @ [CHR 0x22] @ ''query'' @ [CHR 0x22] @ '': optional_string, '' @ [CHR 0x22] @ ''path_hint'' @ [CHR 0x22] @ '': optional_string, '' @ [CHR 0x22] @ ''kind_hint'' @ [CHR 0x22] @ '': optional_string, '' @ [CHR 0x22] @ ''include_body'' @ [CHR 0x22] @ '': optional_boolean}'' @ [CHR 0x0A]) @
      (''- code.references params: {'' @ [CHR 0x22] @ ''path'' @ [CHR 0x22] @ '': '' @ [CHR 0x22] @ ''ABSOLUTE_DIR'' @ [CHR 0x22] @ '', '' @ [CHR 0x22] @ ''symbol_id'' @ [CHR 0x22] @ '': optional_string, '' @ [CHR 0x22] @ ''query'' @ [CHR 0x22] @ '': optional_string, '' @ [CHR 0x22] @ ''path_hint'' @ [CHR 0x22] @ '': optional_string, '' @ [CHR 0x22] @ ''kind_hint'' @ [CHR 0x22] @ '': optional_string, '' @ [CHR 0x22] @ ''limit'' @ [CHR 0x22] @ '': optional_integer, '' @ [CHR 0x22] @ ''include_tests'' @ [CHR 0x22] @ '': optional_boolean}'' @ [CHR 0x0A]) @
      (''- code.impls params: {'' @ [CHR 0x22] @ ''path'' @ [CHR 0x22] @ '': '' @ [CHR 0x22] @ ''ABSOLUTE_DIR'' @ [CHR 0x22] @ '', '' @ [CHR 0x22] @ ''symbol_id'' @ [CHR 0x22] @ '': optional_string, '' @ [CHR 0x22] @ ''query'' @ [CHR 0x22] @ '': optional_string, '' @ [CHR 0x22] @ ''path_hint'' @ [CHR 0x22] @ '': optional_string, '' @ [CHR 0x22] @ ''kind_hint'' @ [CHR 0x22] @ '': optional_string, '' @ [CHR 0x22] @ ''limit'' @ [CHR 0x22] @ '': optional_integer}'' @ [CHR 0x0A]) @
      (''- code.read params: {'' @ [CHR 0x22] @ ''file_path'' @ [CHR 0x22] @ '': '' @ [CHR 0x22] @ ''ABSOLUTE_PATH'' @ [CHR 0x22] @ '', '' @ [CHR 0x22] @ ''offset'' @ [CHR 0x22] @ '': optional_integer, '' @ [CHR 0x22] @ ''limit'' @ [CHR 0x22] @ '': optional_integer}'' @ [CHR 0x0A]) @
      (''- code.grep params: {'' @ [CHR 0x22] @ ''pattern'' @ [CHR 0x22] @ '': '' @ [CHR 0x22] @ ''REGEX'' @ [CHR 0x22] @ '', '' @ [CHR 0x22] @ ''path'' @ [CHR 0x22] @ '': '' @ [CHR 0x22] @ ''ABSOLUTE_DIR'' @ [CHR 0x22] @ '', '' @ [CHR 0x22] @ ''output_mode'' @ [CHR 0x22] @ '': optional_string}'' @ [CHR 0x0A]) @
      (''- code.edit params: {'' @ [CHR 0x22] @ ''file_path'' @ [CHR 0x22] @ '': '' @ [CHR 0x22] @ ''ABSOLUTE_PATH'' @ [CHR 0x22] @ '', '' @ [CHR 0x22] @ ''old_string'' @ [CHR 0x22] @ '': '' @ [CHR 0x22] @ ''EXACT_TEXT_FROM_RECENT_READ'' @ [CHR 0x22] @ '', '' @ [CHR 0x22] @ ''new_string'' @ [CHR 0x22] @ '': '' @ [CHR 0x22] @ ''REPLACEMENT_TEXT'' @ [CHR 0x22] @ '', '' @ [CHR 0x22] @ ''replace_all'' @ [CHR 0x22] @ '': optional_boolean}'' @ [CHR 0x0A]) @
      (''- code.write params: {'' @ [CHR 0x22] @ ''file_path'' @ [CHR 0x22] @ '': '' @ [CHR 0x22] @ ''ABSOLUTE_PATH'' @ [CHR 0x22] @ '', '' @ [CHR 0x22] @ ''content'' @ [CHR 0x22] @ '': '' @ [CHR 0x22] @ ''FULL_FILE_CONTENT'' @ [CHR 0x22] @ ''}'' @ [CHR 0x0A]) @
      [CHR 0x0A] @
      (''Phase model:'' @ [CHR 0x0A]) @
      (''- `locating`: narrowing the candidate file or symbol set'' @ [CHR 0x0A]) @
      (''- `inspecting`: using semantic lookup or targeted reads to build evidence'' @ [CHR 0x0A]) @
      (''- `edit_candidate`: evidence is sufficient and the next step should be a concrete edit'' @ [CHR 0x0A]) @
      (''- `editing`: carrying out a concrete code change'' @ [CHR 0x0A]) @
      (''- `verifying`: confirming a recent change'' @ [CHR 0x0A]) @
      (''- `idle`: no active coding work item'' @ [CHR 0x0A]) @
      [CHR 0x0A] @
      (''Rules:'' @ [CHR 0x0A]) @
      (''- If there is no active coding work in the conversation or action feedback, return status='' @ [CHR 0x22] @ ''idle'' @ [CHR 0x22] @ '' and proposed_action=null.'' @ [CHR 0x0A]) @
      (''- If the task is complete based on the conversation request and recent action results, set status='' @ [CHR 0x22] @ ''idle'' @ [CHR 0x22] @ '', set completion_reason, and do not propose another action.'' @ [CHR 0x0A]) @
      (''- If a successful action already satisfied the task, prefer completion over redundant reads.'' @ [CHR 0x0A]) @
      (''- Use the workspace path exactly as given for any proposed code tool params.'' @ [CHR 0x0A]) @
      (''- On large or unfamiliar repos, prefer repo.locate before repeated broad grep or listing loops.'' @ [CHR 0x0A]) @
      (''- After repo.locate has narrowed the area, prefer semantic tools (`code.symbol`, `code.read_symbol`, `code.references`, `code.impls`) over repeated raw file-window reads.'' @ [CHR 0x0A]) @
      (''- If `Resolved semantic symbol id` is present, do not repeat `code.symbol`, `code.impls`, or `code.references` for the same target. Prefer `code.read_symbol` with that `symbol_id`, then turn the result into an edit or a file switch.'' @ [CHR 0x0A]) @
      (''- If you have proposed the same exploratory tool against the same target for multiple consecutive ticks, do not propose it again. Either propose the edit if evidence is complete, or switch to a different action class that reduces uncertainty.'' @ [CHR 0x0A]) @
      (''- If you have read the same file multiple times and still do not have a concrete edit, do not read that same file again unless you can explain exactly what unseen section matters. Switch to semantic navigation, switch files, propose the edit, or go blocked.'' @ [CHR 0x0A]) @
      (''- If `inspection_target_file` and `edit_hypothesis_file` align and the read streak is high, prefer `work_phase='' @ [CHR 0x22] @ ''edit_candidate'' @ [CHR 0x22] @ ''` and propose a concrete `code.edit` instead of more reads.'' @ [CHR 0x0A]) @
      (''- Prefer code.edit for localized changes. Use code.write only for full-file replacement.'' @ [CHR 0x0A]) @
      (''- Never use `path` for code.read, code.edit, or code.write. Use `file_path`.'' @ [CHR 0x0A]) @
      (''- Never use `new_content` for code.edit. code.edit must use `old_string` and `new_string` copied exactly from a recent read result.'' @ [CHR 0x0A]) @
      (''- For insertion-style code.edit replacements, preserve the surrounding code exactly and only add the new text. Do not rename or rewrite nearby functions while inserting.'' @ [CHR 0x0A]) @
      (''- When you have enough evidence to perform the next edit safely, set evidence_complete=true.'' @ [CHR 0x0A]) @
      (''- Set proposal_confidence to low, medium, or high. Use high only when the next action is directly supported by recent reads/searches/action feedback.'' @ [CHR 0x0A]) @
      (''- After a successful mutating action, prefer either completion or one explicit verification action. Do not restart broad exploration.'' @ [CHR 0x0A]) @
      (''- After a successful typo or rename fix, do not keep grepping or rereading the same target repeatedly. Use one verification step, then complete unless you found a concrete unresolved location that requires another edit.'' @ [CHR 0x0A]) @
      (''- If verification already succeeded, transition to idle rather than proposing more exploratory reads.'' @ [CHR 0x0A]) @
      (''- For typo or rename tasks, propose the smallest exact replacement needed rather than rewriting the file.'' @ [CHR 0x0A]) @
      [CHR 0x0A] @
      (''Respond as JSON with fields: status, summary, current_focus, work_phase, scratchpad, evidence_complete, proposal_confidence, should_wake_master, completion_reason, proposed_action.'' @ [CHR 0x0A]) @
      (''`status` should usually be idle, active, or blocked.'' @ [CHR 0x0A]) @
      ''`proposed_action` must be null or an object with tool_name, params, rationale.'']"

definition coding_prompt_tail :: string where
  "coding_prompt_tail =
     [CHR 0x0A] @
      [CHR 0x0A] @
      (''Repo context tool:'' @ [CHR 0x0A]) @
      (''- repo.context params: {'' @ [CHR 0x22] @ ''query'' @ [CHR 0x22] @ '': '' @ [CHR 0x22] @ ''TASK_OR_LOCALIZATION_QUERY'' @ [CHR 0x22] @ '', '' @ [CHR 0x22] @ ''path'' @ [CHR 0x22] @ '': '' @ [CHR 0x22] @ ''ABSOLUTE_DIR'' @ [CHR 0x22] @ '', '' @ [CHR 0x22] @ ''symbols'' @ [CHR 0x22] @ '': optional_array_of_strings, '' @ [CHR 0x22] @ ''patterns'' @ [CHR 0x22] @ '': optional_array_of_regex_strings, '' @ [CHR 0x22] @ ''target_paths'' @ [CHR 0x22] @ '': optional_array_of_paths, '' @ [CHR 0x22] @ ''limit'' @ [CHR 0x22] @ '': optional_integer, '' @ [CHR 0x22] @ ''context'' @ [CHR 0x22] @ '': optional_integer}'' @ [CHR 0x0A]) @
      (''- Prefer repo.context when the task mentions several symbols/files or when you need a compact line-grounded evidence pack before choosing exact reads/edits.'' @ [CHR 0x0A]) @
      (''- If semantic lookup repeats without new evidence, switch to repo.context or scoped code.grep instead of issuing the same semantic query again.'' @ [CHR 0x0A]) @
      [CHR 0x0A] @
      (''Code test tool:'' @ [CHR 0x0A]) @
      (''- code.test params: {'' @ [CHR 0x22] @ ''path'' @ [CHR 0x22] @ '': '' @ [CHR 0x22] @ ''ABSOLUTE_DIR'' @ [CHR 0x22] @ '', '' @ [CHR 0x22] @ ''command'' @ [CHR 0x22] @ '': optional_string_or_auto, '' @ [CHR 0x22] @ ''args'' @ [CHR 0x22] @ '': optional_array_of_strings, '' @ [CHR 0x22] @ ''timeout_ms'' @ [CHR 0x22] @ '': optional_integer}'' @ [CHR 0x0A]) @
      (''- After a successful edit, prefer one code.test verification when a project test command is available. If code.test reports passed=false, use its output for the next inspection or edit; do not report completion.'' @ [CHR 0x0A]) @
      [CHR 0x0A] @
      (''Additional coding rule:'' @ [CHR 0x0A]) @
      ''- When editing macro invocations, first match the macro definition syntax. If one public type must accept multiple source variants, inspect whether the macro supports multiple variants. Do not add an incomplete single-arm workaround when the macro itself needs to represent all valid variants.''"

fun interleave :: "string list \<Rightarrow> string list \<Rightarrow> string" where
  "interleave (t # ts) (v # vs) = t @ v @ interleave ts vs"
| "interleave ts vs = concat ts"

definition show_bool :: "bool \<Rightarrow> string" where
  "show_bool b = (if b then ''true'' else ''false'')"

definition or_none :: "string option \<Rightarrow> string" where
  "or_none x = unwrap_or ''none'' x"

definition semantic_range :: "exec_thread_local_state \<Rightarrow> string" where
  "semantic_range ls = (case (ls_semantic_target_start_line ls, ls_semantic_target_end_line ls) of
     (Some a, Some b) \<Rightarrow> show_u32 a @ ''-'' @ show_u32 b
   | (Some a, None) \<Rightarrow> show_u32 a
   | _ \<Rightarrow> ''none'')"

definition coding_prompt_values ::
  "thread_spec \<Rightarrow> state_snapshot \<Rightarrow> perception \<Rightarrow> exec_thread_local_state \<Rightarrow> string \<Rightarrow> string \<Rightarrow> string list" where
  "coding_prompt_values spec snap p ls conversation pending = [
     sp_name spec, sp_charter spec, ss_mission snap, show_u64 (ss_tick_number snap + 1), unwrap_or ''(none)'' (sp_workspace_root spec),
     or_none (ss_last_action_summary snap), or_none (ls_current_focus ls), or_none (ls_work_phase ls), or_none (ls_scratchpad ls),
     show_bool (ls_evidence_complete ls), show_bool (ls_verification_pending ls), show_bool (ls_verification_attempted ls),
     or_none (ls_inspection_target_file ls), show_u32 (ls_inspection_read_streak ls), or_none (ls_edit_hypothesis_file ls),
     or_none (ls_edit_hypothesis_summary ls), or_none (ls_semantic_target_symbol_id ls), or_none (ls_semantic_target_name ls),
     or_none (ls_semantic_target_kind ls), or_none (ls_semantic_target_file ls), or_none (ls_semantic_target_query ls),
     semantic_range ls, or_none (ls_last_proposed_tool ls), or_none (ls_last_proposed_target ls),
     show_u32 (ls_repeated_same_proposal_count ls), show_nat (length (pe_thread_outputs p)), show_nat (length (pe_exec_thread_outputs p)),
     show_nat (sum_list (map (length \<circ> cv_message_refs) (pe_active_conversations p))), conversation, pending]"

definition build_coding_exec_prompt ::
  "coding_env \<Rightarrow> 'a artifact_ops \<Rightarrow> 'a \<Rightarrow> thread_spec \<Rightarrow> state_snapshot \<Rightarrow> perception \<Rightarrow> exec_thread_local_state \<Rightarrow> string exo_result option" where
  "build_coding_exec_prompt c ops arts spec snap p ls = (case render_conversation_context c ops arts p of
     Inl e \<Rightarrow> Some (Inl e)
   | Inr conversation \<Rightarrow> map_option (map_sum id (\<lambda>pending.
       interleave coding_prompt_pieces (coding_prompt_values spec snap p ls conversation pending) @ coding_prompt_tail))
       (render_pending_action_results ops arts p))"

section \<open>The turn\<close>

definition default_confidence :: "coding_response \<Rightarrow> coding_response" where
  "default_confidence r =
     (if rx_proposal_confidence r = None \<and> rx_proposed_action r \<noteq> None
      then r\<lparr>rx_proposal_confidence := Some (if rx_evidence_complete r then ConfHigh else ConfMedium)\<rparr> else r)"

text \<open>The local state before the feedback is applied: the answer of the model over the state given in the prompt.\<close>

definition merged_local_state :: "coding_response \<Rightarrow> exec_thread_local_state \<Rightarrow> exec_thread_local_state \<Rightarrow> exec_thread_local_state" where
  "merged_local_state r ls prompt_ls = prompt_ls\<lparr>
     ls_scratchpad := or_else (rx_scratchpad r) (ls_scratchpad ls),
     ls_current_focus := or_else (rx_current_focus r) (ls_current_focus prompt_ls),
     ls_last_completion_reason := or_else (rx_completion_reason r) (ls_last_completion_reason prompt_ls),
     ls_work_phase := or_else (rx_work_phase r) (ls_work_phase prompt_ls),
     ls_evidence_complete := (rx_evidence_complete r \<or> ls_evidence_complete prompt_ls),
     ls_proposal_confidence := or_else (rx_proposal_confidence r) (ls_proposal_confidence prompt_ls),
     ls_awaiting_feedback := False, ls_should_wake_master := rx_should_wake_master r\<rparr>"

definition settled_local_state :: "exec_thread_status \<Rightarrow> coding_response \<Rightarrow> exec_thread_local_state \<Rightarrow> exec_thread_local_state" where
  "settled_local_state status r ls0 =
     (let ls = ls0\<lparr>ls_scratchpad := or_else (rx_scratchpad r) (ls_scratchpad ls0),
            ls_current_focus := or_else (rx_current_focus r) (ls_current_focus ls0),
            ls_last_completion_reason := or_else (rx_completion_reason r) (ls_last_completion_reason ls0),
            ls_work_phase := or_else (rx_work_phase r) (ls_work_phase ls0),
            ls_evidence_complete := (rx_evidence_complete r \<or> ls_evidence_complete ls0),
            ls_proposal_confidence := or_else (rx_proposal_confidence r) (ls_proposal_confidence ls0)\<rparr>
      in ls\<lparr>ls_work_phase := infer_coding_work_phase ls r status, ls_awaiting_feedback := (rx_proposed_action r \<noteq> None),
           ls_should_wake_master := rx_should_wake_master r\<rparr>)"

text \<open>From the parsed answer to status, local state and final response.\<close>

definition coding_turn ::
  "coding_env \<Rightarrow> coding_feedback \<Rightarrow> string option \<Rightarrow> perception \<Rightarrow> exec_thread_local_state \<Rightarrow> coding_response \<Rightarrow> coding_state option" where
  "coding_turn c f workspace_root p ls r00 =
     (let prompt_ls = apply_semantic_feedback_state f workspace_root ls;
          r0 = r00\<lparr>rx_proposed_action := Option.bind (rx_proposed_action r00) (\<lambda>x. normalize_coding_proposal x workspace_root)\<rparr>;
          status0 = canonicalize_exec_thread_status (unwrap_or (default_coding_status r0 p prompt_ls) (rx_status r0));
          r1 = default_confidence r0
      in case apply_coding_feedback_state f workspace_root (status0, merged_local_state r1 ls prompt_ls, r1) of
           (status1, ls1, r2) \<Rightarrow> (case update_inspection_state ls1 r2 of
             None \<Rightarrow> None
           | Some (ls2, r3) \<Rightarrow> (case apply_coding_stall_policy (cd_disk c) f (cd_profile c) workspace_root (status1, ls2, r3) of
               (status2, ls3, r4) \<Rightarrow>
                 Some (status2, settled_local_state status2 r4 (update_exploratory_stall_state (rx_proposed_action r4) ls3), r4))))"

definition coding_request :: "coding_env \<Rightarrow> llm_handler \<Rightarrow> string \<Rightarrow> llm_request" where
  "coding_request c h prompt = \<lparr>
     lr_backend = Some (lh_default_backend h),
     lr_system_prompt = Some (unwrap_or ''You are an executable coding thread. Maintain local work state and propose at most one next external action as JSON.''
       (cd_prompt c ''coding-thread-system'')),
     lr_messages = [llm_message_text RoleUser prompt],
     lr_max_output_tokens = cd_max_output_tokens c div 2,
     lr_temperature = Some (f64_of_rat (3 / 10)),
     lr_stop_sequences = [], lr_stream = False, lr_tools = []\<rparr>"

definition coding_output ::
  "coding_env \<Rightarrow> 'a artifact_ops \<Rightarrow> thread_spec \<Rightarrow> uuid \<Rightarrow> string \<Rightarrow> coding_state \<Rightarrow> exec_thread_output" where
  "coding_output c ops spec tick_id response st = (case st of (status, ls, r) \<Rightarrow> \<lparr>
     xo_thread_id = sp_thread_id spec, xo_tick_id = tick_id, xo_artifact_id = ao_sha256_hex ops response, xo_kind = ExecCoding,
     xo_summary = rx_summary r, xo_status = status, xo_evidence_complete = ls_evidence_complete ls,
     xo_proposal_confidence = ls_proposal_confidence ls,
     xo_proposed_action = map_option (\<lambda>x. \<lparr>xp_proposal_id = cd_show_uuid c tick_id @ ''-'' @ cd_show_uuid c (sp_thread_id spec),
       xp_tool_name = cx_tool_name x, xp_params = cx_params x, xp_rationale = cx_rationale x\<rparr>) (rx_proposed_action r),
     xo_local_state = ls\<rparr>)"

definition execute_coding_thread ::
  "coding_env \<Rightarrow> llm_handler \<Rightarrow> 'a artifact_ops \<Rightarrow> datetime \<Rightarrow> coding_feedback exo_result \<Rightarrow> thread_spec \<Rightarrow> state_snapshot \<Rightarrow> perception \<Rightarrow> uuid \<Rightarrow>
   exec_thread_local_state \<Rightarrow> 'a llm_world \<Rightarrow> exec_thread_output exo_result option \<times> 'a llm_world" where
  "execute_coding_thread c h ops now feedback spec snap p tick_id ls w = (case feedback of
     Inl e \<Rightarrow> (Some (Inl e), w)
   | Inr f \<Rightarrow>
       (case build_coding_exec_prompt c ops (lw_artifacts w) spec snap p (apply_semantic_feedback_state f (sp_workspace_root spec) ls) of
          None \<Rightarrow> (None, w)
        | Some (Inl e) \<Rightarrow> (Some (Inl e), w)
        | Some (Inr prompt) \<Rightarrow> (case handler_direct_llm_call h ops (coding_request c h prompt) w of
            (Inl e, w1) \<Rightarrow> (Some (Inl e), w1)
          | (Inr result, w1) \<Rightarrow>
              (let tx = response_text (dl_response result) in
               case coding_turn c f (sp_workspace_root spec) p ls (parse_exec_response (cd_parse c) tx) of
                 None \<Rightarrow> (None, w1)
               | Some st \<Rightarrow>
                   (let out = coding_output c ops spec tick_id tx st in
                    case cd_encode c out of
                      Inl e \<Rightarrow> (Some (Inl (Serde e)), w1)
                    | Inr json \<Rightarrow> (case ao_put ops (artifact_new (ao_sha256_hex ops) now AkExecThreadOutput json ''application/json'')
                          (lw_artifacts w1) of
                        (Inl e, arts) \<Rightarrow> (Some (Inl e), w1\<lparr>lw_artifacts := arts\<rparr>)
                      | (Inr i, arts) \<Rightarrow> (Some (Inr (out\<lparr>xo_artifact_id := i\<rparr>)), w1\<lparr>lw_artifacts := arts\<rparr>)))))))"

end
