(* ===== verification/Thread_Exec.thy ===== *)
theory Thread_Exec
  imports Amend Thread_Context Coding_Thread
begin

text \<open>
  The execution of threads between Perceive and Orient (\<open>exoskeleton-host/src/kernel/threads.rs\<close>).

  Due cognitive threads run in parallel, one operating-system thread each. A run is a machine of a few
  phases; every phase does one access to shared state, and a schedule, any sequence of thread
  numbers, says whose phase comes next. The call of the model with its charge and the storing of
  the response is one phase. After the schedule the threads that are still running finish one after the other, so every schedule is one of a complete execution.

  The executable coding thread is a turn of \<open>Coding_Thread\<close> on the tracker and the artifact store; its surroundings
  are the record \<open>th_coding\<close>.
\<close>

section \<open>State and surroundings\<close>

record ('c, 't, 'l, 'i) tick_world =
  tw_kernel :: "('c, 't, 'l, 'i) kernel_world"
  tw_calls :: nat

definition llm_view :: "('c, 't, 'l, 'i) tick_world \<Rightarrow> artifact sql_db llm_world" where
  "llm_view w = \<lparr>lw_tracker = kw_tracker (tw_kernel w), lw_artifacts = kw_artifacts (tw_kernel w), lw_calls = tw_calls w\<rparr>"

definition with_llm_view :: "artifact sql_db llm_world \<Rightarrow> ('c, 't, 'l, 'i) tick_world \<Rightarrow> ('c, 't, 'l, 'i) tick_world" where
  "with_llm_view v w = w\<lparr>tw_kernel := (tw_kernel w)\<lparr>kw_tracker := lw_tracker v, kw_artifacts := lw_artifacts v\<rparr>,
     tw_calls := lw_calls v\<rparr>"

definition with_threads :: "'t \<Rightarrow> ('c, 't, 'l, 'i) tick_world \<Rightarrow> ('c, 't, 'l, 'i) tick_world" where
  "with_threads t w = w\<lparr>tw_kernel := (tw_kernel w)\<lparr>kw_threads := t\<rparr>\<rparr>"

datatype thread_site =
    AtThreadOutput nat | AtThreadRan nat | AtThreadError nat | AtCharterArtifact nat nat | AtCharterEvent nat nat
  | AtExecOutput nat
  | AtExecUpdate nat

record charter_draft =
  cd_thread_name :: string
  cd_current_charter :: string
  cd_proposed_charter :: string
  cd_rationale :: string

text \<open>What the master loop reads of a \<open>MetaCognitionAnalysis\<close>: its proposals and the descriptions of its patterns.\<close>

record meta_analysis =
  ma_charter_proposals :: "charter_draft list"
  ma_pattern_descriptions :: "string list"

datatype proposal_status = PrPending | PrApproved | PrDenied | PrApplied

record charter_proposal =
  cp_thread_id :: uuid
  cp_thread_name :: string
  cp_current_charter :: string
  cp_proposed_charter :: string
  cp_rationale :: string
  cp_detected_patterns :: "string list"
  cp_proposed_at_tick :: u64
  cp_status :: proposal_status

record 't thread_env =
  th_handler :: llm_handler
  th_arts :: "artifact sql_db artifact_ops"
  th_ops :: "'t thread_ops"
  th_display :: display_ops
  th_alnum :: "string \<Rightarrow> bool"
  th_prompts :: prompt_registry
  th_grace_period :: u64
  th_return_to_idle :: bool
  th_cancelled_at_spawn :: "nat \<Rightarrow> bool"
  th_cancelled_before_call :: "nat \<Rightarrow> bool"
  th_tracker_free_filter :: "uuid \<Rightarrow> bool" \<comment> \<open>\<open>try_lock\<close> of the tracker while due threads are filtered\<close>
  th_tracker_free_run :: "nat \<Rightarrow> bool" \<comment> \<open>\<open>try_lock\<close> of the tracker after the call of a running thread\<close>
  th_parse_response :: "string \<Rightarrow> (string \<times> string list) option" \<comment> \<open>serde_json on \<open>ThreadResponse\<close>\<close>
  th_encode_output :: "thread_output \<Rightarrow> string + string"
  th_parse_meta :: "string \<Rightarrow> meta_analysis option"
  th_encode_proposal :: "charter_proposal \<Rightarrow> string + string"
  th_exec_cancelled :: "nat \<Rightarrow> bool"
  th_coding :: coding_env
  th_now :: "thread_site \<Rightarrow> datetime"
  th_new_id :: "thread_site \<Rightarrow> uuid"

definition META_COGNITION_ID :: uuid where
  "META_COGNITION_ID = 0xcae10004000040008000000000000004"

definition thread_event ::
  "'t thread_env \<Rightarrow> uuid \<Rightarrow> thread_site \<Rightarrow> event_type \<Rightarrow> artifact_id option \<Rightarrow> string \<Rightarrow> event_entry" where
  "thread_event env tick_id site ty payload_ref summary = \<lparr>ev_id = th_new_id env site, ev_tick_id = Some tick_id,
     ev_event_type = ty, ev_payload_ref = payload_ref, ev_summary = summary, ev_timestamp = th_now env site\<rparr>"

definition log_thread :: "'t thread_env \<Rightarrow> event_entry \<Rightarrow> ('c, 't, 'l, 'i) tick_world \<Rightarrow> ('c, 't, 'l, 'i) tick_world" where
  "log_thread env e w = w\<lparr>tw_kernel := (tw_kernel w)\<lparr>kw_events :=
     append_event (show_uuid (th_display env)) e (kw_events (tw_kernel w))\<rparr>\<rparr>"

section \<open>One cognitive thread\<close>

datatype thread_phase =
    TReady
  | TPrompted llm_request
  | TAnswered llm_response
  | TCharged llm_response
  | TStored thread_output
  | TSaved thread_output
  | TDone "thread_output exo_result"

definition thread_request :: "'t thread_env \<Rightarrow> thread_spec \<Rightarrow> compiled_context \<Rightarrow> llm_request" where
  "thread_request env th ctx = \<lparr>
     lr_backend = Some (lh_default_backend (th_handler env)),
     lr_system_prompt = Some (cc_prompt ctx),
     lr_messages = [llm_message_text RoleUser (case prompt_get (th_prompts env) ''thread-user-message'' of
        Some t \<Rightarrow> t | None \<Rightarrow> ''Analyze the current situation per your charter. Respond with JSON.'')],
     lr_max_output_tokens = sp_token_budget th div 4,
     lr_temperature = Some (f64_of_rat (7 / 10)),
     lr_stop_sequences = [], lr_stream = False, lr_tools = []\<rparr>"

definition charter_template :: "'t thread_env \<Rightarrow> thread_spec \<Rightarrow> state_snapshot \<Rightarrow> string option" where
  "charter_template env th snap = (case resolve (th_alnum env) (th_prompts env) ''thread-execution'' [
       (''name'', sp_name th), (''id'', show_uuid (th_display env) (sp_thread_id th)), (''charter'', sp_charter th),
       (''priority'', thread_priority_debug (sp_priority th)), (''tick'', show_u64 (ss_tick_number snap + 1))] of
     Inr t \<Rightarrow> Some t | Inl _ \<Rightarrow> None)"

definition prepare_thread ::
  "'t thread_env \<Rightarrow> state_snapshot \<Rightarrow> nat \<Rightarrow> thread_spec \<Rightarrow> string option \<Rightarrow> 't \<Rightarrow> thread_phase" where
  "prepare_thread env snap k th preamble threads =
     (if th_cancelled_at_spawn env k then TDone (Inl (Engine ''cancelled''))
      else case ts_recent_outputs (th_ops env) threads (sp_thread_id th) 5 of
        Inl e \<Rightarrow> TDone (Inl e)
      | Inr recent \<Rightarrow>
          (case compile_thread_context (th_display env) approximate_token_count truncate_to_budget th snap recent
               (charter_template env th snap) preamble of
             Inl e \<Rightarrow> TDone (Inl e)
           | Inr ctx \<Rightarrow>
               if th_cancelled_before_call env k then TDone (Inl (Engine ''thread execution cancelled''))
               else TPrompted (thread_request env th ctx)))"

definition output_of_response :: "'t thread_env \<Rightarrow> uuid \<Rightarrow> thread_spec \<Rightarrow> llm_response \<Rightarrow> thread_output" where
  "output_of_response env tick_id th resp =
     (let tx = response_text resp;
          (summary, recommendations) = (case th_parse_response env tx of Some r \<Rightarrow> r | None \<Rightarrow> (tx, []))
      in \<lparr>to_thread_id = sp_thread_id th, to_tick_id = tick_id, to_artifact_id = ao_sha256_hex (th_arts env) tx,
          to_summary = summary, to_recommendations = recommendations\<rparr>)"

definition store_output ::
  "'t thread_env \<Rightarrow> nat \<Rightarrow> thread_output \<Rightarrow> ('c, 't, 'l, 'i) tick_world \<Rightarrow> thread_phase \<times> ('c, 't, 'l, 'i) tick_world" where
  "store_output env k out w = (case th_encode_output env out of
     Inl e \<Rightarrow> (TDone (Inl (Serde e)), w)
   | Inr tx \<Rightarrow> (case ao_put (th_arts env) (artifact_new (ao_sha256_hex (th_arts env)) (th_now env (AtThreadOutput k)) AkThreadOutput
         tx ''application/json'') (kw_artifacts (tw_kernel w)) of
       (r, arts) \<Rightarrow> ((case r of Inl e \<Rightarrow> TDone (Inl e) | Inr _ \<Rightarrow> TStored out),
         w\<lparr>tw_kernel := (tw_kernel w)\<lparr>kw_artifacts := arts\<rparr>\<rparr>)))"

text \<open>The next phase of the \<open>k\<close>-th thread.\<close>

fun thread_step ::
  "'t thread_env \<Rightarrow> uuid \<Rightarrow> state_snapshot \<Rightarrow> nat \<Rightarrow> thread_spec \<Rightarrow> string option \<Rightarrow> thread_phase \<Rightarrow>
   ('c, 't, 'l, 'i) tick_world \<Rightarrow> thread_phase \<times> ('c, 't, 'l, 'i) tick_world" where
  "thread_step env tick_id snap k th preamble TReady w =
     (prepare_thread env snap k th preamble (kw_threads (tw_kernel w)), w)"
| "thread_step env tick_id snap k th preamble (TPrompted request) w =
     (case handler_direct_llm_call (th_handler env) (th_arts env) request (llm_view w) of
        (Inl e, v) \<Rightarrow> (TDone (Inl e), with_llm_view v w)
      | (Inr result, v) \<Rightarrow> (TAnswered (dl_response result), with_llm_view v w))"
| "thread_step env tick_id snap k th preamble (TAnswered resp) w =
     (TCharged resp, if th_tracker_free_run env k
        then w\<lparr>tw_kernel := (tw_kernel w)\<lparr>kw_tracker := map_option (record_thread_consumption (sp_thread_id th)
               (rp_tokens_in resp + rp_tokens_out resp)) (kw_tracker (tw_kernel w))\<rparr>\<rparr>
        else w)"
| "thread_step env tick_id snap k th preamble (TCharged resp) w =
     store_output env k (output_of_response env tick_id th resp) w"
| "thread_step env tick_id snap k th preamble (TStored out) w =
     (case save_output (th_ops env) out (kw_threads (tw_kernel w)) of
        Inl e \<Rightarrow> (TDone (Inl e), w)
      | Inr t \<Rightarrow> (TSaved out, with_threads t w))"
| "thread_step env tick_id snap k th preamble (TSaved out) w =
     (case record_run (th_ops env) (sp_thread_id th) (ss_tick_number snap + 1) (kw_threads (tw_kernel w)) of
        Inl e \<Rightarrow> (TDone (Inl e), w)
      | Inr t \<Rightarrow> (TDone (Inr out), with_threads t w))"
| "thread_step env tick_id snap k th preamble (TDone r) w = (TDone r, w)"

section \<open>All due threads\<close>

type_synonym spawned = "thread_spec \<times> string option"

text \<open>One step of the thread the scheduler picks; a number that names no thread does nothing.\<close>

definition schedule_step ::
  "'t thread_env \<Rightarrow> uuid \<Rightarrow> state_snapshot \<Rightarrow> spawned list \<Rightarrow> nat \<Rightarrow>
   thread_phase list \<times> ('c, 't, 'l, 'i) tick_world \<Rightarrow> thread_phase list \<times> ('c, 't, 'l, 'i) tick_world" where
  "schedule_step env tick_id snap spawned k st = (case st of (phases, w) \<Rightarrow>
     if k < length phases \<and> k < length spawned
     then (case thread_step env tick_id snap k (fst (spawned ! k)) (snd (spawned ! k)) (phases ! k) w of
             (ph, w') \<Rightarrow> (phases[k := ph], w'))
     else (phases, w))"

text \<open>A run has six phases.\<close>

definition whole_schedule :: "nat \<Rightarrow> nat list \<Rightarrow> nat list" where
  "whole_schedule n picks = picks @ concat (map (replicate 6) [0..<n])"

definition run_threads ::
  "'t thread_env \<Rightarrow> uuid \<Rightarrow> state_snapshot \<Rightarrow> spawned list \<Rightarrow> nat list \<Rightarrow> ('c, 't, 'l, 'i) tick_world \<Rightarrow>
   thread_phase list \<times> ('c, 't, 'l, 'i) tick_world" where
  "run_threads env tick_id snap spawned picks w =
     fold (schedule_step env tick_id snap spawned) (whole_schedule (length spawned) picks)
       (replicate (length spawned) TReady, w)"

definition find_thread_by_name :: "'t thread_env \<Rightarrow> string \<Rightarrow> 't \<Rightarrow> thread_spec option" where
  "find_thread_by_name env name threads = (case reg_list (th_ops env) threads of
     Inl _ \<Rightarrow> None
   | Inr xs \<Rightarrow> map_option fst (List.find (\<lambda>x. sp_name (fst x) = name) xs))"

definition parse_meta_output :: "'t thread_env \<Rightarrow> string \<Rightarrow> meta_analysis" where
  "parse_meta_output env tx = (case th_parse_meta env tx of
     Some a \<Rightarrow> a | None \<Rightarrow> \<lparr>ma_charter_proposals = [], ma_pattern_descriptions = []\<rparr>)"

definition propose_charter ::
  "'t thread_env \<Rightarrow> uuid \<Rightarrow> u64 \<Rightarrow> string list \<Rightarrow> nat \<Rightarrow> nat \<Rightarrow> charter_draft \<Rightarrow> ('c, 't, 'l, 'i) tick_world \<Rightarrow>
   ('c, 't, 'l, 'i) tick_world" where
  "propose_charter env tick_id tick patterns k j draft w =
     (case find_thread_by_name env (cd_thread_name draft) (kw_threads (tw_kernel w)) of
        None \<Rightarrow> w
      | Some th \<Rightarrow>
          (let proposal = \<lparr>cp_thread_id = sp_thread_id th, cp_thread_name = cd_thread_name draft,
                 cp_current_charter = cd_current_charter draft, cp_proposed_charter = cd_proposed_charter draft,
                 cp_rationale = cd_rationale draft, cp_detected_patterns = patterns,
                 cp_proposed_at_tick = tick, cp_status = PrPending\<rparr>;
               content = (case th_encode_proposal env proposal of Inr tx \<Rightarrow> tx | Inl _ \<Rightarrow> []);
               (r, arts) = ao_put (th_arts env) (artifact_new (ao_sha256_hex (th_arts env)) (th_now env (AtCharterArtifact k j))
                 AkEvent content ''application/json'') (kw_artifacts (tw_kernel w))
           in log_thread env (thread_event env tick_id (AtCharterEvent k j) CharterProposal
                (case r of Inr i \<Rightarrow> Some i | Inl _ \<Rightarrow> None)
                (''Charter proposal for '' @ [CHR 0x27] @ cd_thread_name draft @ [CHR 0x27] @ '': ''
                  @ concat (take 100 (utf8_chars (cd_rationale draft)))))
              (w\<lparr>tw_kernel := (tw_kernel w)\<lparr>kw_artifacts := arts\<rparr>\<rparr>)))"

definition process_meta_cognition_output ::
  "'t thread_env \<Rightarrow> uuid \<Rightarrow> u64 \<Rightarrow> nat \<Rightarrow> string \<Rightarrow> ('c, 't, 'l, 'i) tick_world \<Rightarrow> ('c, 't, 'l, 'i) tick_world" where
  "process_meta_cognition_output env tick_id tick k tx w =
     (let a = parse_meta_output env tx; drafts = ma_charter_proposals a
      in fold (\<lambda>(j, draft). propose_charter env tick_id tick (ma_pattern_descriptions a) k j draft)
           (zip [0..<length drafts] drafts) w)"

text \<open>The results in the order of the threads, whatever the order in which they finished.\<close>

definition collect_one ::
  "'t thread_env \<Rightarrow> uuid \<Rightarrow> u64 \<Rightarrow> nat \<Rightarrow> thread_spec \<Rightarrow> thread_output exo_result \<Rightarrow> ('c, 't, 'l, 'i) tick_world \<Rightarrow>
   thread_contribution list \<times> ('c, 't, 'l, 'i) tick_world" where
  "collect_one env tick_id tick k th result w = (case result of
     Inl e \<Rightarrow> ([], log_thread env (thread_event env tick_id (AtThreadError k) EventError None
       (''Thread '' @ [CHR 0x27] @ sp_name th @ [CHR 0x27] @ '' failed: '' @ exo_error_display e)) w)
   | Inr out \<Rightarrow>
       (let w1 = log_thread env (thread_event env tick_id (AtThreadRan k) ThreadRan None
              (''Thread '' @ [CHR 0x27] @ sp_name th @ [CHR 0x27] @ '' produced: '' @ to_summary out)) w;
            w2 = (if sp_thread_id th = META_COGNITION_ID
                  then case ao_get (th_arts env) (kw_artifacts (tw_kernel w1)) (to_artifact_id out) of
                    Inr (Some a) \<Rightarrow> (case from_utf8 (af_content a) of
                      Some tx \<Rightarrow> process_meta_cognition_output env tick_id tick k tx w1 | None \<Rightarrow> w1)
                  | _ \<Rightarrow> w1
                  else w1)
        in ([\<lparr>tc_thread_id = to_thread_id out, tc_artifact_id = to_artifact_id out, tc_summary = to_summary out\<rparr>], w2)))"

fun collect ::
  "'t thread_env \<Rightarrow> uuid \<Rightarrow> u64 \<Rightarrow> nat \<Rightarrow> (thread_spec \<times> thread_output exo_result) list \<Rightarrow> ('c, 't, 'l, 'i) tick_world \<Rightarrow>
   thread_contribution list \<times> ('c, 't, 'l, 'i) tick_world" where
  "collect env tick_id tick k [] w = ([], w)"
| "collect env tick_id tick k ((th, r) # rest) w =
     (case collect_one env tick_id tick k th r w of (cs, w1) \<Rightarrow>
        (case collect env tick_id tick (Suc k) rest w1 of (cs', w2) \<Rightarrow> (cs @ cs', w2)))"

definition snapshot_indicates_operator_wait :: "state_snapshot \<Rightarrow> bool \<Rightarrow> bool" where
  "snapshot_indicates_operator_wait snap bounded_completion_idle \<longleftrightarrow>
     list_ex (\<lambda>e. wme_key e = ''session_status'' \<and> contains_str (wme_value e) ''awaiting_user_direction''
       \<or> wme_key e = ''user_question_pending'' \<and> str_trim (wme_value e) \<noteq> []) (ss_working_memory snap)
     \<or> bounded_completion_idle \<and> list_ex coding_idle (ss_exec_thread_summaries snap)"

definition should_pause_thread_while_waiting_on_operator ::
  "'t thread_env \<Rightarrow> thread_spec \<Rightarrow> state_snapshot \<Rightarrow> perception \<Rightarrow> bool" where
  "should_pause_thread_while_waiting_on_operator env th snap p \<longleftrightarrow>
     pe_new_messages p = [] \<and> snapshot_indicates_operator_wait snap (th_return_to_idle env) \<and>
     sp_thread_id th \<noteq> THREAT_MONITOR_ID \<and> sp_thread_id th \<noteq> MEMORY_CONSOLIDATION_ID"

definition is_runnable ::
  "'t thread_env \<Rightarrow> state_snapshot \<Rightarrow> perception \<Rightarrow> tracker option \<Rightarrow> thread_spec \<Rightarrow> bool" where
  "is_runnable env snap p tracker th \<longleftrightarrow>
     \<not> should_pause_thread_while_waiting_on_operator env th snap p \<and>
     (case tracker of
        Some t \<Rightarrow> th_tracker_free_filter env (sp_thread_id th) \<longrightarrow> check_thread_budget (sp_thread_id th) t
      | None \<Rightarrow> True)"

definition is_bootstrap_sensitive_thread :: "uuid \<Rightarrow> bool" where
  "is_bootstrap_sensitive_thread i \<longleftrightarrow> i = THREAT_MONITOR_ID \<or> i = SELF_CRITIQUE_ID"

definition bootstrap_preamble :: "'t thread_env \<Rightarrow> u64 \<Rightarrow> thread_spec \<Rightarrow> string option" where
  "bootstrap_preamble env tick th =
     (if 0 < th_grace_period env \<and> tick < th_grace_period env \<and> is_bootstrap_sensitive_thread (sp_thread_id th)
      then case resolve (th_alnum env) (th_prompts env) ''bootstrap-preamble''
             [(''tick_number'', show_u64 tick), (''grace_period'', show_u64 (th_grace_period env))] of
           Inr t \<Rightarrow> Some t | Inl _ \<Rightarrow> None
      else None)"

text \<open>The result of a finished run; \<open>whole_schedule\<close> leaves no other phase (lemma \<open>run_threads_done\<close>).\<close>

fun phase_result :: "thread_phase \<Rightarrow> thread_output exo_result" where
  "phase_result (TDone r) = r"
| "phase_result _ = Inl (Engine ''thread still running'')"

definition execute_due_threads ::
  "'t thread_env \<Rightarrow> nat list \<Rightarrow> state_snapshot \<Rightarrow> perception \<Rightarrow> uuid \<Rightarrow> ('c, 't, 'l, 'i) tick_world \<Rightarrow>
   thread_contribution list exo_result \<times> ('c, 't, 'l, 'i) tick_world" where
  "execute_due_threads env picks snap p tick_id w =
     (let tick = ss_tick_number snap + 1 in
      case due_threads (th_ops env) (kw_threads (tw_kernel w)) tick of
        Inl e \<Rightarrow> (Inl e, w)
      | Inr due \<Rightarrow>
          (let runnable = filter (is_runnable env snap p (kw_tracker (tw_kernel w))) due in
           if runnable = [] then (Inr [], w)
           else case run_threads env tick_id snap (map (\<lambda>th. (th, bootstrap_preamble env tick th)) runnable) picks w of
             (phases, w1) \<Rightarrow>
               (case collect env tick_id tick 0 (zip runnable (map phase_result phases)) w1 of
                  (cs, w2) \<Rightarrow> (Inr cs, w2))))"

section \<open>Executable threads\<close>

text \<open>A cut inside a character panics.\<close>

definition compact_proposal_params :: "'t thread_env \<Rightarrow> json \<Rightarrow> nat \<Rightarrow> string option" where
  "compact_proposal_params env params max_len =
     (let rendered = ao_json_text (th_arts env) params in
      if length rendered \<le> max_len then Some rendered
      else map_option (\<lambda>s. s @ ''...'') (slice_to max_len rendered))"

definition summarize_exec_thread_proposal :: "'t thread_env \<Rightarrow> exec_thread_proposal \<Rightarrow> string option" where
  "summarize_exec_thread_proposal env pr =
     map_option (\<lambda>params. xp_tool_name pr @ '' params='' @ params @ '' rationale='' @ xp_rationale pr)
       (compact_proposal_params env (xp_params pr) 800)"

fun exec_status_debug :: "exec_thread_status \<Rightarrow> string" where
  "exec_status_debug ExIdle = ''Idle''"
| "exec_status_debug ExActive = ''Active''"
| "exec_status_debug ExBlocked = ''Blocked''"
| "exec_status_debug ExCompleted = ''Completed''"
| "exec_status_debug ExFailed = ''Failed''"

definition emit_exec_thread_update ::
  "'t thread_env \<Rightarrow> uuid \<Rightarrow> nat \<Rightarrow> thread_spec \<Rightarrow> exec_thread_output \<Rightarrow> ('c, 't, 'l, 'i) tick_world \<Rightarrow>
   ('c, 't, 'l, 'i) tick_world" where
  "emit_exec_thread_update env tick_id k th out w =
     log_thread env (thread_event env tick_id (AtExecUpdate k) ExecThreadUpdated (Some (xo_artifact_id out))
       (''Exec thread '' @ [CHR 0x27] @ sp_name th @ [CHR 0x27] @ '' '' @ exec_status_debug (xo_status out) @ '': '' @ xo_summary out)) w"

text \<open>The three writes to the registry, each with its early return.\<close>

definition register_exec_output ::
  "'t thread_env \<Rightarrow> exec_thread_output \<Rightarrow> ('c, 't, 'l, 'i) tick_world \<Rightarrow> unit exo_result \<times> ('c, 't, 'l, 'i) tick_world" where
  "register_exec_output env out w =
     (case reg_update_executable_status (th_ops env) (xo_thread_id out) (xo_status out) (kw_threads (tw_kernel w)) of
        Inl e \<Rightarrow> (Inl e, w)
      | Inr t1 \<Rightarrow> (case ts_save_local_state (th_ops env) (xo_thread_id out) (xo_local_state out) t1 of
          Inl e \<Rightarrow> (Inl e, with_threads t1 w)
        | Inr t2 \<Rightarrow> (case save_exec_output (th_ops env) out t2 of
            Inl e \<Rightarrow> (Inl e, with_threads t2 w)
          | Inr t3 \<Rightarrow> (Inr (), with_threads t3 w))))"

text \<open>An error drops the contributions gathered so far; \<open>None\<close> is a panic.\<close>

definition run_coding_thread ::
  "'t thread_env \<Rightarrow> state_snapshot \<Rightarrow> perception \<Rightarrow> uuid \<Rightarrow> nat \<Rightarrow> thread_spec \<Rightarrow> exec_thread_local_state \<Rightarrow> ('c, 't, 'l, 'i) tick_world \<Rightarrow>
   exec_thread_output exo_result option \<times> artifact sql_db llm_world" where
  "run_coding_thread env snap p tick_id k th ls w =
     (let c = (th_coding env)\<lparr>cd_show_uuid := show_uuid (th_display env), cd_prompt := prompt_get (th_prompts env)\<rparr> in
      execute_coding_thread c (th_handler env) (th_arts env) (th_now env (AtExecOutput k))
        (latest_coding_feedback (th_arts env) (cd_parse_json c) (cd_ticks c) (sp_thread_id th) (tw_kernel w)) th snap p tick_id ls (llm_view w))"

fun execute_exec_threads ::
  "'t thread_env \<Rightarrow> state_snapshot \<Rightarrow> perception \<Rightarrow> uuid \<Rightarrow> nat \<Rightarrow> (thread_spec \<times> exec_thread_status) list \<Rightarrow> exec_thread_contribution list \<Rightarrow>
   ('c, 't, 'l, 'i) tick_world \<Rightarrow> exec_thread_contribution list exo_result option \<times> ('c, 't, 'l, 'i) tick_world" where
  "execute_exec_threads env snap p tick_id k [] acc w = (Some (Inr acc), w)"
| "execute_exec_threads env snap p tick_id k ((th, status) # rest) acc w =
     (if th_exec_cancelled env k then (Some (Inr acc), w)
      else if sp_role th \<noteq> RCoding then execute_exec_threads env snap p tick_id (Suc k) rest acc w
      else case reg_local_state (th_ops env) (kw_threads (tw_kernel w)) (sp_thread_id th) of
        Inl e \<Rightarrow> (Some (Inl e), w)
      | Inr ls \<Rightarrow>
          if \<not> should_run_coding_thread status p ls then execute_exec_threads env snap p tick_id (Suc k) rest acc w
          else case run_coding_thread env snap p tick_id k th ls w of
            (None, v) \<Rightarrow> (None, with_llm_view v w)
          | (Some (Inl e), v) \<Rightarrow> (Some (Inl e), with_llm_view v w)
          | (Some (Inr out), v) \<Rightarrow>
              (let w1 = with_llm_view v w in
               case xo_proposed_action out of
                 Some pr \<Rightarrow> (case summarize_exec_thread_proposal env pr of
                     None \<Rightarrow> (None, w1)
                   | Some tx \<Rightarrow> (case register_exec_output env out w1 of
                       (Inl e, w2) \<Rightarrow> (Some (Inl e), w2)
                     | (Inr _, w2) \<Rightarrow> execute_exec_threads env snap p tick_id (Suc k) rest
                         (acc @ [\<lparr>xc_thread_id = xo_thread_id out, xc_kind = xo_kind out, xc_artifact_id = xo_artifact_id out,
                            xc_summary = xo_summary out, xc_proposal_id = Some (xp_proposal_id pr),
                            xc_proposed_action_summary = Some tx\<rparr>])
                         (emit_exec_thread_update env tick_id k th out w2)))
               | None \<Rightarrow> (case register_exec_output env out w1 of
                     (Inl e, w2) \<Rightarrow> (Some (Inl e), w2)
                   | (Inr _, w2) \<Rightarrow> execute_exec_threads env snap p tick_id (Suc k) rest
                       (acc @ [\<lparr>xc_thread_id = xo_thread_id out, xc_kind = xo_kind out, xc_artifact_id = xo_artifact_id out,
                          xc_summary = xo_summary out, xc_proposal_id = None, xc_proposed_action_summary = None\<rparr>])
                       (emit_exec_thread_update env tick_id k th out w2))))"

definition execute_due_executable_threads ::
  "'t thread_env \<Rightarrow> state_snapshot \<Rightarrow> perception \<Rightarrow> uuid \<Rightarrow> ('c, 't, 'l, 'i) tick_world \<Rightarrow>
   exec_thread_contribution list exo_result option \<times> ('c, 't, 'l, 'i) tick_world" where
  "execute_due_executable_threads env snap p tick_id w =
     (case reg_list_executable (th_ops env) (kw_threads (tw_kernel w)) of
        Inl e \<Rightarrow> (Some (Inl e), w)
      | Inr xs \<Rightarrow> execute_exec_threads env snap p tick_id 0 xs [] w)"

definition execute_due_registered_threads ::
  "'t thread_env \<Rightarrow> nat list \<Rightarrow> state_snapshot \<Rightarrow> perception \<Rightarrow> uuid \<Rightarrow> ('c, 't, 'l, 'i) tick_world \<Rightarrow>
   (thread_contribution list \<times> exec_thread_contribution list) option \<times> ('c, 't, 'l, 'i) tick_world" where
  "execute_due_registered_threads env picks snap p tick_id w =
     (case execute_due_threads env picks snap p tick_id w of (r1, w1) \<Rightarrow>
        (case execute_due_executable_threads env snap p tick_id w1 of
           (None, w2) \<Rightarrow> (None, w2)
         | (Some r2, w2) \<Rightarrow> (Some (or_default r1, or_default r2), w2)))"

end
