(* ===== verification/Compaction.thy ===== *)
theory Compaction
  imports Memory_Store Tokens Exo_F64
begin

text \<open>
  Session compaction (\<open>exoskeleton-host/src/kernel/compaction.rs\<close>): old episodic summaries of
  neighbouring ticks are merged into one. Slicing a first line at byte 97 panics inside a
  character, so a run has an optional result next to the store it leaves. Hashing, JSON text and the
  clock, read once per merged group, are the arguments collected in \<open>compaction_env\<close>.
\<close>

section \<open>Operations\<close>

record compaction_env =
  ce_json :: "json \<Rightarrow> string"
  ce_sha256 :: "string \<Rightarrow> artifact_id"
  ce_now :: "episodic_summary list \<Rightarrow> datetime"

datatype compaction_result = NoAction | Compacted nat nat

definition default_preserve_recent :: nat where
  "default_preserve_recent = 3"

definition should_compact :: "string list \<Rightarrow> u64 \<Rightarrow> u64 option \<Rightarrow> bool" where
  "should_compact truncated_sections episodic_count episodic_capacity =
     (if truncated_sections \<noteq> [] then True
      else case episodic_capacity of
        Some capacity \<Rightarrow> if 0 < capacity
          then f64_lt (f64_of_rat (8 / 10)) (f64_ratio (uint episodic_count) (uint capacity)) else False
      | None \<Rightarrow> False)"

fun group_from :: "episodic_summary list \<Rightarrow> episodic_summary list \<Rightarrow> episodic_summary list list" where
  "group_from current [] = [current]"
| "group_from current (s # ss) =
     (if ep_start_tick s \<le> ep_end_tick (last current) + 2 then group_from (current @ [s]) ss
      else current # group_from [s] ss)"

fun group_consecutive :: "episodic_summary list \<Rightarrow> episodic_summary list list" where
  "group_consecutive [] = []"
| "group_consecutive (s # ss) = group_from [s] ss"

text \<open>\<open>text.lines().next().unwrap_or(text)\<close>.\<close>

definition first_line :: "string \<Rightarrow> string" where
  "first_line s = (let l = takeWhile (\<lambda>c. c \<noteq> CHR 0x0A) s in
     if length l < length s \<and> l \<noteq> [] \<and> last l = CHR 0x0D then butlast l else l)"

definition merge_line :: "string \<Rightarrow> string option" where
  "merge_line s = (let l = first_line s in
     if 100 < length l then map_option (\<lambda>t. t @ ''...'') (slice_to 97 l) else Some l)"

text \<open>The first occurrence of each event, in order.\<close>

definition dedup :: "string list \<Rightarrow> string list" where
  "dedup xs = rev (remdups (rev xs))"

definition merge_summaries :: "compaction_env \<Rightarrow> episodic_summary list \<Rightarrow> episodic_summary option" where
  "merge_summaries env grp =
     (if grp = [] then None
      else let start_tick = Min (set (map ep_start_tick grp)); end_tick = Max (set (map ep_end_tick grp))
        in map_option (\<lambda>ls. episodic_new (ce_json env) (ce_sha256 env) (ce_now env grp) start_tick end_tick
             (''Compacted ticks '' @ show_u64 start_tick @ ''-'' @ show_u64 end_tick @ '': '' @ join ''; '' ls)
             (take 10 (dedup (concat (map ep_key_events grp)))))
           (those (map (\<lambda>s. merge_line (ep_summary s)) grp)))"

fun delete_each :: "artifact_id list \<Rightarrow> memory_db \<Rightarrow> unit exo_result \<times> memory_db" where
  "delete_each [] m = (Inr (), m)"
| "delete_each (i # ids) m = (case delete_episodic i m of
     Inl e \<Rightarrow> (Inl e, m) | Inr (_, m1) \<Rightarrow> delete_each ids m1)"

fun compact_groups :: "compaction_env \<Rightarrow> episodic_summary list list \<Rightarrow> nat \<Rightarrow> nat \<Rightarrow> memory_db
    \<Rightarrow> compaction_result exo_result option \<times> memory_db" where
  "compact_groups env [] entries_merged summaries_written m =
     (Some (Inr (if entries_merged = 0 then NoAction else Compacted entries_merged summaries_written)), m)"
| "compact_groups env (grp # groups) entries_merged summaries_written m =
     (if length grp \<le> 1 then compact_groups env groups entries_merged summaries_written m
      else case merge_summaries env grp of
        None \<Rightarrow> (None, m)
      | Some merged \<Rightarrow> (case write_episodic merged m of
          Inl e \<Rightarrow> (Some (Inl e), m)
        | Inr (_, m1) \<Rightarrow> (case delete_each (map ep_id grp) m1 of
            (Inl e, m2) \<Rightarrow> (Some (Inl e), m2)
          | (Inr _, m2) \<Rightarrow>
              compact_groups env groups (entries_merged + length grp) (summaries_written + 1) m2)))"

definition start_key :: "episodic_summary \<Rightarrow> int" where
  "start_key s = uint (ep_start_tick s)"

definition run_compaction :: "compaction_env \<Rightarrow> nat \<Rightarrow> memory_db
    \<Rightarrow> compaction_result exo_result option \<times> memory_db" where
  "run_compaction env preserve_recent m = (case recent_episodic m 1000 of
     Inl e \<Rightarrow> (Some (Inl e), m)
   | Inr all_summaries \<Rightarrow>
       if length all_summaries \<le> preserve_recent then (Some (Inr NoAction), m)
       else compact_groups env (group_consecutive (sort_asc start_key (drop preserve_recent all_summaries))) 0 0 m)"

section \<open>Groups\<close>

lemma concat_group_from: "concat (group_from current ss) = current @ ss"
  by (induction current ss rule: group_from.induct) simp_all

lemma concat_group_consecutive: "concat (group_consecutive ss) = ss"
  by (cases ss) (simp_all add: concat_group_from)

text \<open>A merged group spans the ticks of its members.\<close>

definition covers :: "episodic_summary \<Rightarrow> u64 \<Rightarrow> bool" where
  "covers s t \<longleftrightarrow> ep_start_tick s \<le> t \<and> t \<le> ep_end_tick s"

lemma merge_covers:
  assumes "merge_summaries env grp = Some merged" "s \<in> set grp" "covers s t"
  shows "covers merged t"
proof -
  have "ep_start_tick merged = Min (ep_start_tick ` set grp)" "ep_end_tick merged = Max (ep_end_tick ` set grp)"
    using assms(1) by (auto simp: merge_summaries_def Let_def episodic_new_def split: if_splits)
  moreover have "Min (ep_start_tick ` set grp) \<le> ep_start_tick s" "ep_end_tick s \<le> Max (ep_end_tick ` set grp)"
    using assms(2) by simp_all
  ultimately show ?thesis using assms(3) by (auto simp: covers_def)
qed

lemma merge_defined:
  "grp \<noteq> [] \<Longrightarrow> (\<forall>s \<in> set grp. merge_line (ep_summary s) \<noteq> None) \<Longrightarrow> merge_summaries env grp \<noteq> None"
  by (auto simp: merge_summaries_def Let_def those_eq_None)

section \<open>What a run does to the store\<close>

definition memory_ok :: "memory_db \<Rightarrow> bool" where
  "memory_ok m \<longleftrightarrow> \<not> md_poisoned m \<and> md_fault m = None \<and> (\<forall>rs. mset (md_scan m rs) = mset rs)"

lemma memory_ok_with: "memory_ok m \<Longrightarrow> with_memory what m r = r"
  by (simp add: memory_ok_def with_memory_def)

lemma memory_ok_update [simp]: "memory_ok (m\<lparr>md_episodic := es\<rparr>) = memory_ok m"
  by (simp add: memory_ok_def)

lemma delete_each_ok: "memory_ok m \<Longrightarrow>
    delete_each ids m = (Inr (), m\<lparr>md_episodic := filter (\<lambda>s. ep_id s \<notin> set ids) (md_episodic m)\<rparr>)"
  by (induction ids arbitrary: m)
    (simp_all add: delete_episodic_def memory_ok_with filter_filter conj_commute
      cong: conj_cong filter_cong)

definition merged_groups :: "compaction_env \<Rightarrow> episodic_summary list list \<Rightarrow> episodic_summary list" where
  "merged_groups env groups = map (\<lambda>g. the (merge_summaries env g)) (filter (\<lambda>g. 1 < length g) groups)"

abbreviation large :: "episodic_summary list list \<Rightarrow> episodic_summary list" where
  "large groups \<equiv> concat (filter (\<lambda>g. 1 < length g) groups)"

text \<open>The ids of the merged summaries, which are hashes of their contents, collide with no other id.\<close>

definition ids_fresh :: "compaction_env \<Rightarrow> episodic_summary list list \<Rightarrow> memory_db \<Rightarrow> bool" where
  "ids_fresh env groups m \<longleftrightarrow> distinct (map ep_id (merged_groups env groups)) \<and>
     list_all (\<lambda>s. \<not> List.member (map ep_id (md_episodic m @ concat groups)) (ep_id s)) (merged_groups env groups)"

lemma compact_groups_ok:
  assumes "memory_ok m" "\<forall>g \<in> set groups. \<forall>s \<in> set g. merge_line (ep_summary s) \<noteq> None" "ids_fresh env groups m"
  shows "compact_groups env groups a b m =
    (Some (Inr (if a + length (large groups) = 0 then NoAction
        else Compacted (a + length (large groups)) (b + length (merged_groups env groups)))),
     m\<lparr>md_episodic := filter (\<lambda>s. ep_id s \<notin> ep_id ` set (large groups)) (md_episodic m)
        @ merged_groups env groups\<rparr>)"
  using assms
proof (induction groups arbitrary: a b m)
  case Nil
  then show ?case by (simp add: merged_groups_def)
next
  case (Cons g groups)
  show ?case
  proof (cases "length g \<le> 1")
    case True
    then have "merged_groups env (g # groups) = merged_groups env groups" by (simp add: merged_groups_def)
    moreover from this have "ids_fresh env groups m" using Cons.prems(3) by (auto simp: ids_fresh_def list_all_iff)
    ultimately show ?thesis using True Cons by simp
  next
    case False
    then have "g \<noteq> []" by auto
    then obtain s where s: "merge_summaries env g = Some s" using Cons.prems(2) merge_defined [of g env] by auto
    have mg: "merged_groups env (g # groups) = s # merged_groups env groups" using False s by (simp add: merged_groups_def)
    let ?m2 = "m\<lparr>md_episodic := filter (\<lambda>s. ep_id s \<notin> ep_id ` set g) (md_episodic m) @ [s]\<rparr>"
    have fresh: "ep_id s \<notin> ep_id ` set (md_episodic m)" "ep_id s \<notin> ep_id ` set g" "ep_id s \<notin> ep_id ` set (large groups)"
      using Cons.prems(3) mg by (auto simp: ids_fresh_def list_all_iff)
    have "write_episodic s m = Inr (ep_id s, m\<lparr>md_episodic := md_episodic m @ [s]\<rparr>)"
      using Cons.prems(1) fresh(1) by (simp add: write_episodic_def memory_ok_with insert_ignore_def list_ex_image_iff)
    moreover have "delete_each (map ep_id g) (m\<lparr>md_episodic := md_episodic m @ [s]\<rparr>) = (Inr (), ?m2)"
      using Cons.prems(1) fresh(2) delete_each_ok [of "m\<lparr>md_episodic := md_episodic m @ [s]\<rparr>" "map ep_id g"] by simp
    ultimately have step: "compact_groups env (g # groups) a b m = compact_groups env groups (a + length g) (b + 1) ?m2"
      using False s by simp
    have "ids_fresh env groups ?m2" using Cons.prems(3) mg
      by (auto simp: ids_fresh_def list_all_iff) (metis image_eqI)
    then have "compact_groups env groups (a + length g) (b + 1) ?m2 =
      (Some (Inr (if a + length g + length (large groups) = 0 then NoAction
        else Compacted (a + length g + length (large groups)) (b + 1 + length (merged_groups env groups)))),
       ?m2\<lparr>md_episodic := filter (\<lambda>s. ep_id s \<notin> ep_id ` set (large groups)) (md_episodic ?m2)
        @ merged_groups env groups\<rparr>)"
      using Cons.IH [of ?m2 "a + length g" "b + 1"] Cons.prems by simp
    moreover have "filter (\<lambda>s. ep_id s \<notin> ep_id ` set (large groups)) (md_episodic ?m2) @ merged_groups env groups
      = filter (\<lambda>s. ep_id s \<notin> ep_id ` set (large (g # groups))) (md_episodic m) @ merged_groups env (g # groups)"
      using False fresh(3) mg by (auto intro: filter_cong)
    ultimately show ?thesis using step False mg by (simp add: add.assoc)
  qed
qed

text \<open>The groups of a run, and what its result leaves.\<close>

definition compaction_groups :: "nat \<Rightarrow> memory_db \<Rightarrow> episodic_summary list list" where
  "compaction_groups preserve_recent m = group_consecutive (sort_asc start_key
     (drop preserve_recent (take 1000 (sort_desc end_key (md_scan m (md_episodic m))))))"

lemma run_compaction_alt:
  assumes "memory_ok m"
  shows "run_compaction env p m = compact_groups env (compaction_groups p m) 0 0 m"
  using assms by (simp add: run_compaction_def recent_episodic_def memory_ok_with compaction_groups_def sort_asc_def)

lemma compaction_groups_mset:
  assumes "memory_ok m"
  shows "mset (concat (compaction_groups p m)) + mset (take p (take 1000 (sort_desc end_key (md_scan m (md_episodic m))))
      @ drop 1000 (sort_desc end_key (md_scan m (md_episodic m)))) = mset (md_episodic m)" (is "?L = _")
proof -
  let ?s = "sort_desc end_key (md_scan m (md_episodic m))"
  have "?L = mset (drop p (take 1000 ?s)) + mset (take p (take 1000 ?s)) + mset (drop 1000 ?s)"
    by (simp add: compaction_groups_def concat_group_consecutive sort_asc_def)
  also have "\<dots> = mset (take p (take 1000 ?s) @ drop p (take 1000 ?s)) + mset (drop 1000 ?s)" by (simp only: mset_append ac_simps)
  also have "\<dots> = mset (take 1000 ?s @ drop 1000 ?s)" by (metis append_take_drop_id mset_append)
  also have "\<dots> = mset (md_episodic m)"
    unfolding append_take_drop_id using assms by (simp add: sort_desc_def memory_ok_def)
  finally show ?thesis .
qed

lemma mset_large: "mset (large groups) + mset (concat (filter (\<lambda>g. \<not> 1 < length g) groups)) = mset (concat groups)"
  by (induction groups) auto

lemma length_large: "2 * length (merged_groups env groups) \<le> length (large groups)"
  by (induction groups) (auto simp: merged_groups_def)

lemma large_Nil: "large groups = [] \<Longrightarrow> merged_groups env groups = []"
  by (induction groups) (auto simp: merged_groups_def split: if_splits)

lemma covered_after:
  assumes "\<forall>g \<in> set groups. \<forall>s \<in> set g. merge_line (ep_summary s) \<noteq> None" "s \<in> set (large groups)" "covers s t"
  shows "\<exists>s' \<in> set (merged_groups env groups). covers s' t"
proof -
  obtain g where g: "g \<in> set groups" "1 < length g" "s \<in> set g" using assms(2) by auto
  then obtain s' where "merge_summaries env g = Some s'" using assms(1) merge_defined [of g env] by fastforce
  then show ?thesis using merge_covers [OF _ g(3) assms(3)] g by (force simp: merged_groups_def)
qed

lemma filter_ids:
  assumes "distinct (map ep_id es)" "mset xs + mset rs = mset es"
  shows "mset (filter (\<lambda>s. ep_id s \<notin> ep_id ` set xs) es) = mset rs"
proof -
  have eq: "mset (xs @ rs) = mset es" using assms(2) by simp
  then have "distinct (map ep_id (xs @ rs))" using assms(1) mset_eq_imp_distinct_iff by (metis mset_map)
  then have "filter (\<lambda>s. ep_id s \<notin> ep_id ` set xs) (xs @ rs) = rs" by (auto intro!: filter_True) 
  then show ?thesis by (metis eq mset_filter)
qed

section \<open>Compaction keeps what it summarises\<close>

text \<open>
  C24. When no first line is cut inside a character and the new ids collide with nothing, a
  compaction run returns. Every tick that a stored summary covered is still covered, the most recent
  summaries are kept unchanged, and the number of stored summaries falls by the entries merged less
  the summaries written, as the result reports.
\<close>

theorem compaction_keeps_coverage:
  assumes "memory_ok m" "distinct (map ep_id (md_episodic m))"
    "list_all (\<lambda>s. merge_line (ep_summary s) \<noteq> None) (md_episodic m)" "ids_fresh env (compaction_groups p m) m"
  shows "\<exists>r m'. run_compaction env p m = (Some (Inr r), m')
    \<and> (\<forall>t. list_ex (\<lambda>s. covers s t) (md_episodic m) \<longrightarrow> list_ex (\<lambda>s. covers s t) (md_episodic m'))
    \<and> set (take p (take 1000 (sort_desc end_key (md_scan m (md_episodic m))))) \<subseteq> set (md_episodic m')
    \<and> (case r of NoAction \<Rightarrow> m' = m
       | Compacted k n \<Rightarrow> length (md_episodic m') + k = length (md_episodic m) + n \<and> n < k)"
proof -
  let ?gs = "compaction_groups p m" and ?s = "sort_desc end_key (md_scan m (md_episodic m))"
  let ?kept = "filter (\<lambda>s. ep_id s \<notin> ep_id ` set (large ?gs)) (md_episodic m)"
  let ?rs = "concat (filter (\<lambda>g. \<not> 1 < length g) ?gs) @ take p (take 1000 ?s) @ drop 1000 ?s"
  have parts: "mset (large ?gs) + mset ?rs = mset (md_episodic m)"
    using compaction_groups_mset [OF assms(1), of p] mset_large [of ?gs] by (simp only: mset_append add.assoc [symmetric])
  then have sets: "set (large ?gs) \<union> set ?rs = set (md_episodic m)"
    by (metis set_mset_mset set_mset_union)
  have len: "length (large ?gs) + length ?rs = length (md_episodic m)" using parts by (metis size_mset size_union)
  have kept: "mset ?kept = mset ?rs" using filter_ids [OF assms(2) parts] .
  have "\<forall>g \<in> set ?gs. set g \<subseteq> set (md_episodic m)"
    using compaction_groups_mset [OF assms(1), of p] by (metis UN_upper le_supI1 set_concat set_mset_mset set_mset_union)
  then have lines: "\<forall>g \<in> set ?gs. \<forall>s \<in> set g. merge_line (ep_summary s) \<noteq> None" using assms(3) by (auto simp: list_all_iff)
  define m' where "m' = m\<lparr>md_episodic := ?kept @ merged_groups env ?gs\<rparr>"
  have run: "run_compaction env p m = (Some (Inr (if length (large ?gs) = 0 then NoAction
      else Compacted (length (large ?gs)) (length (merged_groups env ?gs)))), m')"
    using compact_groups_ok [OF assms(1) lines assms(4), of 0 0] by (simp add: run_compaction_alt [OF assms(1)] m'_def)
  have cover: "list_ex (\<lambda>s. covers s t) (md_episodic m')" if c: "list_ex (\<lambda>s. covers s t) (md_episodic m)" for t
  proof -
    obtain s where s: "s \<in> set (md_episodic m)" "covers s t" using c by (auto simp: list_ex_iff)
    then have "s \<in> set (large ?gs) \<or> s \<in> set ?kept" using sets mset_eq_setD [OF kept] by blast
    then obtain s' where "s' \<in> set ?kept \<union> set (merged_groups env ?gs)" "covers s' t"
      using covered_after [OF lines _ s(2), of env] s(2) by blast
    then show ?thesis unfolding m'_def list_ex_iff by auto
  qed
  have "set (take p (take 1000 ?s)) \<subseteq> set (md_episodic m')" using mset_eq_setD [OF kept] by (auto simp: m'_def)
  moreover have "large ?gs = [] \<Longrightarrow> m' = m" unfolding m'_def by (simp only: large_Nil) simp
  moreover have "length (md_episodic m') + length (large ?gs) = length (md_episodic m) + length (merged_groups env ?gs)"
    using len mset_eq_length [OF kept] by (simp add: m'_def)
  moreover have "large ?gs \<noteq> [] \<Longrightarrow> length (merged_groups env ?gs) < length (large ?gs)"
    using length_large [of env ?gs] by (cases "merged_groups env ?gs") auto
  ultimately show ?thesis using run cover by auto
qed

definition sample_episode :: "string \<Rightarrow> u64 \<Rightarrow> string \<Rightarrow> episodic_summary" where
  "sample_episode i t tx = \<lparr>ep_id = i, ep_start_tick = t, ep_end_tick = t, ep_summary = tx, ep_key_events = [tx],
     ep_token_count = 1, ep_created_at = 0\<rparr>"

definition sample_episodes :: memory_db where
  "sample_episodes = open_memory\<lparr>md_episodic := [sample_episode ''a'' 1 ''x'', sample_episode ''b'' 2 ''y'',
     sample_episode ''c'' 3 ''z'']\<rparr>"

definition sample_env :: compaction_env where
  "sample_env = \<lparr>ce_json = (\<lambda>_. ''json''), ce_sha256 = (\<lambda>_. ''merged''), ce_now = (\<lambda>_. 9)\<rparr>"

lemma sample_groups: "compaction_groups 1 sample_episodes = [[sample_episode ''a'' 1 ''x'', sample_episode ''b'' 2 ''y'']]"
  by (simp add: compaction_groups_def sample_episodes_def open_memory_def sample_episode_def sort_asc_def sort_desc_def
      end_key_def start_key_def)

theorem compaction_keeps_coverage_witness:
  "\<exists>r m'. run_compaction sample_env 1 sample_episodes = (Some (Inr r), m')
    \<and> list_ex (\<lambda>s. covers s 2) (md_episodic m')
    \<and> set (take 1 (take 1000 (sort_desc end_key (md_scan sample_episodes (md_episodic sample_episodes))))) \<subseteq> set (md_episodic m')"
proof -
  have "ids_fresh sample_env (compaction_groups 1 sample_episodes) sample_episodes"
    unfolding sample_groups
    by (simp add: ids_fresh_def merged_groups_def merge_summaries_def merge_line_def first_line_def sample_env_def
        sample_episodes_def open_memory_def sample_episode_def episodic_new_def)
  moreover have "list_ex (\<lambda>s. covers s 2) (md_episodic sample_episodes)"
    by (simp add: sample_episodes_def covers_def sample_episode_def)
  ultimately show ?thesis
    using compaction_keeps_coverage [of sample_episodes sample_env 1]
    by (fastforce simp: memory_ok_def sample_episodes_def open_memory_def sample_episode_def merge_line_def first_line_def)
qed

text \<open>A first line of more than a hundred bytes whose byte 97 is inside a character panics.\<close>

lemma merge_line_panics:
  "merge_line s = None \<longleftrightarrow> 100 < length (first_line s) \<and> is_cont (first_line s ! 97)"
  by (auto simp: merge_line_def slice_to_def Let_def)

end
