(* ===== verification/Thrash.thy ===== *)
theory Thrash
  imports Budget
begin

text \<open>
  The thrash detector (\<open>exoskeleton-host/src/budget/thrash.rs\<close>) over the recent tick records:
  repeated failing actions, stagnation, and tokens spent without a successful action, combined
  into a graded assessment. The ordering of \<open>ThrashLevel\<close> is the derived \<open>Ord\<close> of the enum and
  is given by an instance of \<open>linorder\<close>.
\<close>

section \<open>The detector\<close>

instantiation thrash_level :: linorder
begin

fun thrash_rank :: "thrash_level \<Rightarrow> nat" where
  "thrash_rank ThrashNone = 0"
| "thrash_rank ThrashLow = 1"
| "thrash_rank ThrashMedium = 2"
| "thrash_rank ThrashHigh = 3"

definition less_eq_thrash_level :: "thrash_level \<Rightarrow> thrash_level \<Rightarrow> bool" where
  "less_eq_thrash_level a b \<longleftrightarrow> thrash_rank a \<le> thrash_rank b"

definition less_thrash_level :: "thrash_level \<Rightarrow> thrash_level \<Rightarrow> bool" where
  "less_thrash_level a b \<longleftrightarrow> thrash_rank a < thrash_rank b"

instance
proof
  fix x y z :: thrash_level
  show "x < y \<longleftrightarrow> x \<le> y \<and> \<not> y \<le> x"
    by (auto simp: less_thrash_level_def less_eq_thrash_level_def)
  show "x \<le> x" by (simp add: less_eq_thrash_level_def)
  show "x \<le> y \<Longrightarrow> y \<le> z \<Longrightarrow> x \<le> z" by (simp add: less_eq_thrash_level_def)
  show "x \<le> y \<Longrightarrow> y \<le> x \<Longrightarrow> x = y"
    by (cases x; cases y) (simp_all add: less_eq_thrash_level_def)
  show "x \<le> y \<or> y \<le> x" by (auto simp: less_eq_thrash_level_def)
qed

end

record thrash_assessment =
  ta_level :: thrash_level
  ta_indicators :: "string list"
  ta_recommendation :: "string option"

definition thrash_none :: thrash_assessment where
  "thrash_none = \<lparr>ta_level = ThrashNone, ta_indicators = [], ta_recommendation = None\<rparr>"

text \<open>\<open>check_action_repetition\<close>: the largest number of failures of one action type.\<close>

definition failure_counts :: "tick_record list \<Rightarrow> (string \<times> nat) list" where
  "failure_counts ticks =
     fold (\<lambda>tick m. fold (\<lambda>a m. if ar_outcome a = Failure
           then entry_update (ar_action_type a) 0 Suc m else m) (tr_actions_taken tick) m)
       ticks []"

definition check_action_repetition :: "tick_record list \<Rightarrow> nat" where
  "check_action_repetition ticks = fold max (map snd (failure_counts ticks)) 0"

definition check_stagnation :: "tick_record list \<Rightarrow> nat" where
  "check_stagnation ticks = fold (\<lambda>tick n.
     let has_actions = tr_actions_taken tick \<noteq> [];
         has_success = list_ex (\<lambda>a. ar_outcome a = Success) (tr_actions_taken tick)
     in if has_actions \<and> has_success then 0
        else if has_actions \<and> \<not> has_success then n + 1
        else n) ticks 0"

definition check_efficiency :: "tick_record list \<Rightarrow> u64 \<times> nat \<times> nat" where
  "check_efficiency ticks = fold (\<lambda>tick (tokens, successes, attempts).
     (fold (\<lambda>c n. sat_add n (total_tokens c)) (tr_llm_calls tick) tokens,
      fold (\<lambda>a n. if ar_outcome a = Success then n + 1 else n) (tr_actions_taken tick) successes,
      attempts + length (tr_actions_taken tick))) ticks (0, 0, 0)"

fun recommendation_of :: "thrash_level \<Rightarrow> string option" where
  "recommendation_of ThrashNone = None"
| "recommendation_of ThrashLow = Some ''Increase tick interval for backoff''"
| "recommendation_of ThrashMedium = Some ''Escalate to frontier model and reduce scope''"
| "recommendation_of ThrashHigh = Some ''Suspend cognitive loop and alert human''"

definition thrash_check :: "tick_record list \<Rightarrow> thrash_assessment" where
  "thrash_check recent_ticks =
     (if recent_ticks = [] then thrash_none
      else let
        rep = check_action_repetition recent_ticks;
        (l1, i1) = (if rep \<ge> 5
            then (max ThrashNone ThrashHigh, [''same action failed '' @ show_nat rep @ '' times''])
          else if rep \<ge> 3
            then (max ThrashNone ThrashMedium,
                  [''action repeated '' @ show_nat rep @ '' times with failures''])
          else (ThrashNone, []));
        stagnant = check_stagnation recent_ticks;
        (l2, i2) = (if stagnant \<ge> 10
            then (max l1 ThrashHigh, i1 @ [show_nat stagnant @ '' ticks without state change''])
          else if stagnant \<ge> 5
            then (max l1 ThrashMedium, i1 @ [show_nat stagnant @ '' ticks without progress''])
          else (l1, i1));
        (tokens, successes, attempts) = check_efficiency recent_ticks;
        (l3, i3) = (if attempts > 0 \<and> successes = 0 \<and> tokens > 10000
            then (max l2 ThrashMedium, i2 @ [show_u64 tokens @ '' tokens consumed, 0/''
                    @ show_nat attempts @ '' actions succeeded''])
          else (l2, i2))
      in \<lparr>ta_level = l3, ta_indicators = i3, ta_recommendation = recommendation_of l3\<rparr>)"

section \<open>What the three indicators measure\<close>

definition all_actions :: "tick_record list \<Rightarrow> action_record list" where
  "all_actions ticks = concat (map tr_actions_taken ticks)"

definition failures_of :: "string \<Rightarrow> tick_record list \<Rightarrow> nat" where
  "failures_of ty ticks =
     length (filter (\<lambda>a. ar_outcome a = Failure \<and> ar_action_type a = ty) (all_actions ticks))"

lemma failure_counts_flat:
  "failure_counts ticks = fold (\<lambda>a m. if ar_outcome a = Failure
      then entry_update (ar_action_type a) 0 Suc m else m) (all_actions ticks) []"
proof -
  have "fold (\<lambda>tick m. fold f (tr_actions_taken tick) m) ticks m0 = fold f (all_actions ticks) m0"
    for f :: "action_record \<Rightarrow> (string \<times> nat) list \<Rightarrow> (string \<times> nat) list" and m0
    by (induction ticks arbitrary: m0) (simp_all add: all_actions_def)
  then show ?thesis by (simp add: failure_counts_def)
qed

lemma fold_failures:
  fixes as :: "action_record list"
  assumes "distinct (map fst m)"
  defines "r \<equiv> fold (\<lambda>a m. if ar_outcome a = Failure
      then entry_update (ar_action_type a) 0 Suc m else m) as m"
  shows "distinct (map fst r) \<and> (\<forall>ty. (case map_of r ty of None \<Rightarrow> 0 | Some n \<Rightarrow> n) =
      (case map_of m ty of None \<Rightarrow> 0 | Some n \<Rightarrow> n) +
      length (filter (\<lambda>a. ar_outcome a = Failure \<and> ar_action_type a = ty) as))"
  using assms(1) unfolding r_def
proof (induction as arbitrary: m)
  case Nil
  then show ?case by simp
next
  case (Cons a as)
  let ?m = "if ar_outcome a = Failure then entry_update (ar_action_type a) 0 Suc m else m"
  have "distinct (map fst ?m)" using Cons.prems by (simp add: distinct_entry_update)
  from Cons.IH [OF this] show ?case
    by (auto simp: map_of_entry_update split: option.split)
qed

lemma failures_of_eq:
  "failures_of ty ticks = (case map_of (failure_counts ticks) ty of None \<Rightarrow> 0 | Some n \<Rightarrow> n)"
  and distinct_failure_counts: "distinct (map fst (failure_counts ticks))"
  using fold_failures [of "[]" "all_actions ticks"]
  by (simp_all add: failure_counts_flat failures_of_def)

lemma fold_max_ge: "(n::nat) \<le> fold max xs n \<and> (\<forall>x \<in> set xs. x \<le> fold max xs n)"
proof (induction xs arbitrary: n)
  case Nil
  show ?case by simp
next
  case (Cons x xs)
  from Cons.IH [of "max x n"] show ?case by simp
qed

lemma fold_max_in: "fold max xs (n::nat) = n \<or> fold max xs n \<in> set xs"
  by (induction xs arbitrary: n) (auto simp: max_def split: if_splits)

text \<open>The repetition count is attained by one action type and bounds every other.\<close>

lemma repetition_upper: "failures_of ty ticks \<le> check_action_repetition ticks"
proof (cases "map_of (failure_counts ticks) ty")
  case None
  then show ?thesis by (simp add: failures_of_eq)
next
  case (Some n)
  then have "n \<in> set (map snd (failure_counts ticks))"
    by (force dest: map_of_SomeD)
  with fold_max_ge [of 0 "map snd (failure_counts ticks)"] have "n \<le> check_action_repetition ticks"
    unfolding check_action_repetition_def by blast
  with Some show ?thesis by (simp add: failures_of_eq)
qed

lemma repetition_attained: "\<exists>ty. failures_of ty ticks = check_action_repetition ticks"
proof -
  consider "check_action_repetition ticks = 0"
    | "check_action_repetition ticks \<in> set (map snd (failure_counts ticks))"
    using fold_max_in [of "map snd (failure_counts ticks)" 0]
    by (auto simp: check_action_repetition_def)
  then show ?thesis
  proof cases
    case 1
    then show ?thesis using repetition_upper [of _ ticks] by (metis le_zero_eq)
  next
    case 2
    then obtain ty where "(ty, check_action_repetition ticks) \<in> set (failure_counts ticks)" by auto
    then have "map_of (failure_counts ticks) ty = Some (check_action_repetition ticks)"
      using distinct_failure_counts [of ticks] by simp
    then show ?thesis by (auto simp: failures_of_eq intro!: exI [of _ ty])
  qed
qed

text \<open>Stagnation counts the ticks that acted since the last tick with a success.\<close>

definition tick_succeeded :: "tick_record \<Rightarrow> bool" where
  "tick_succeeded t \<longleftrightarrow> (\<exists>a \<in> set (tr_actions_taken t). ar_outcome a = Success)"

definition acted_since_success :: "tick_record list \<Rightarrow> nat" where
  "acted_since_success ticks =
     length (filter (\<lambda>t. tr_actions_taken t \<noteq> []) (takeWhile (\<lambda>t. \<not> tick_succeeded t) (rev ticks)))"

lemma check_stagnation_eq: "check_stagnation ticks = acted_since_success ticks"
proof (induction ticks rule: rev_induct)
  case Nil
  show ?case by (simp add: check_stagnation_def acted_since_success_def)
next
  case (snoc t ticks)
  have "check_stagnation (ticks @ [t]) =
      (if tick_succeeded t then 0
       else if tr_actions_taken t \<noteq> [] then check_stagnation ticks + 1 else check_stagnation ticks)"
    by (auto simp: check_stagnation_def Let_def tick_succeeded_def list_ex_iff)
  with snoc.IH show ?case by (simp add: acted_since_success_def)
qed

definition spent_tokens :: "tick_record list \<Rightarrow> nat" where
  "spent_tokens ticks = (\<Sum>t\<leftarrow>ticks. \<Sum>c\<leftarrow>tr_llm_calls t. unat (total_tokens c))"

lemma fold_sat_tokens:
  "unat (fold (\<lambda>c n. sat_add n (total_tokens c)) cs (n :: u64)) =
     min (unat n + (\<Sum>c\<leftarrow>cs. unat (total_tokens c))) (2 ^ 64 - 1)"
proof (induction cs arbitrary: n)
  case Nil
  show ?case using unat_bound [of n] by simp
next
  case (Cons c cs)
  show ?case using Cons.IH [of "sat_add n (total_tokens c)"] by (simp add: unat_sat_add min_def)
qed

lemma fold_count: "fold (\<lambda>a n. if P a then n + 1 else n) as (n::nat) = n + length (filter P as)"
  by (induction as arbitrary: n) auto

lemma check_efficiency_eq:
  "check_efficiency ticks = (fst (check_efficiency ticks),
     length (filter (\<lambda>a. ar_outcome a = Success) (all_actions ticks)), length (all_actions ticks))
   \<and> unat (fst (check_efficiency ticks)) = min (spent_tokens ticks) (2 ^ 64 - 1)"
proof (induction ticks rule: rev_induct)
  case Nil
  show ?case by (simp add: check_efficiency_def all_actions_def spent_tokens_def)
next
  case (snoc t ticks)
  then obtain tok where e: "check_efficiency ticks = (tok,
      length (filter (\<lambda>a. ar_outcome a = Success) (all_actions ticks)), length (all_actions ticks))"
    and tok: "unat tok = min (spent_tokens ticks) (2 ^ 64 - 1)" by (metis fst_conv)
  have "check_efficiency (ticks @ [t]) =
     (fold (\<lambda>c n. sat_add n (total_tokens c)) (tr_llm_calls t) tok,
      length (filter (\<lambda>a. ar_outcome a = Success) (all_actions (ticks @ [t]))),
      length (all_actions (ticks @ [t])))"
    using e by (simp add: check_efficiency_def fold_count all_actions_def)
  then show ?case
    using tok by (auto simp: fold_sat_tokens spent_tokens_def min_def)
qed

section \<open>The assessment\<close>

lemma thrash_max_simps [simp]:
  "max ThrashNone l = l" "max l ThrashNone = l" "max ThrashHigh l = ThrashHigh"
  "max l ThrashHigh = ThrashHigh" "max ThrashMedium ThrashMedium = ThrashMedium"
  by (cases l; simp add: max_def less_eq_thrash_level_def)+

definition token_waste :: "tick_record list \<Rightarrow> bool" where
  "token_waste ticks \<longleftrightarrow> all_actions ticks \<noteq> [] \<and>
     (\<forall>a \<in> set (all_actions ticks). ar_outcome a \<noteq> Success) \<and> 10000 < spent_tokens ticks"

lemma token_waste_iff:
  "token_waste ticks \<longleftrightarrow> (case check_efficiency ticks of
     (tokens, successes, attempts) \<Rightarrow> attempts > 0 \<and> successes = 0 \<and> tokens > 10000)"
proof -
  obtain tok where e: "check_efficiency ticks = (tok,
      length (filter (\<lambda>a. ar_outcome a = Success) (all_actions ticks)), length (all_actions ticks))"
    and tok: "unat tok = min (spent_tokens ticks) (2 ^ 64 - 1)"
    using check_efficiency_eq [of ticks] by (cases "check_efficiency ticks") simp
  from tok have "10000 < tok \<longleftrightarrow> 10000 < spent_tokens ticks"
    by (simp add: word_less_nat_alt)
  then show ?thesis
    by (simp add: e token_waste_def filter_empty_conv)
qed

lemma repetition_ge_iff: "0 < k \<Longrightarrow> k \<le> check_action_repetition ticks \<longleftrightarrow> (\<exists>ty. k \<le> failures_of ty ticks)"
  using repetition_upper repetition_attained by (metis order_trans)


text \<open>
  An assessment carries a recommendation and at least one indicator exactly when its level is
  not \<open>None\<close>.
\<close>

lemma thrash_indicators_iff:
  "(ta_level (thrash_check ticks) \<noteq> ThrashNone) = (ta_indicators (thrash_check ticks) \<noteq> [])
   \<and> (ta_level (thrash_check ticks) \<noteq> ThrashNone) = (ta_recommendation (thrash_check ticks) \<noteq> None)"
  by (simp add: thrash_check_def thrash_none_def Let_def split: prod.splits)

end
