(* ===== verification/Tick.thy ===== *)
theory Tick
  imports Orient Thread_Exec Compaction Diff_Tracker Thrash
begin

text \<open>
  One tick of the master loop (\<open>run_tick\<close> of \<open>exoskeleton-host/src/kernel/mod.rs\<close>): Perceive, threads, Orient, Decide,
  Align, Act, Reflect, thrash detection and Amend over the stores of the kernel.

  A step returns its value, or the output with which the tick ends early, or \<open>None\<close> for a panic; \<open>then_step\<close>
  chains them. What the surroundings decide (clocks, ids, cancellation, contended locks, answers of the model and of
  tools) are the environments of the steps.
\<close>

section \<open>State and surroundings\<close>

record ('h, 'c, 't, 'l, 'i, 'b) loop_world =
  lo_tick :: "('c, 't, 'l, 'i) tick_world"
  lo_watches :: watch_store
  lo_host :: 'h
  lo_read_paths :: "string list"
  lo_budget_store :: 'b
  lo_wakes :: nat \<comment> \<open>how often the wake signal was given\<close>

datatype handler_output =
    HSuccess "string option" "(budget_dimension \<times> u64) list"
  | HRetryable string
  | HTerminal string

datatype tick_site = AtBefore | AtTickStarted | AtMessage nat | AtBreakdown | AtPlanDraft | AtDiffSummary | AtSuspended

record ('h, 'c, 't, 'l, 'i, 'b) tick_env =
  ke_vessel_id :: uuid
  ke_mission :: string
  ke_tick_id :: uuid
  ke_started_at :: datetime
  ke_initial_at :: datetime
  ke_now :: "tick_site \<Rightarrow> datetime"
  ke_new_id :: "tick_site \<Rightarrow> uuid"
  ke_new_conversation :: "nat \<Rightarrow> uuid"
  ke_amend :: "('c, 't, 'l, 'i) amend_env"
  ke_threads :: "'t thread_env"
  ke_picks :: "nat list"
  ke_watch :: "(artifact sql_db, event_entry sql_db) watch_env"
  ke_orient :: orient_env
  ke_decide :: "(artifact sql_db, 'l, 't) decide_env"
  ke_align :: "('l, artifact sql_db, event_entry sql_db, watch_store) align_env"
  ke_act :: "('h, artifact sql_db, event_entry sql_db) act_env"
  ke_reflect :: "artifact sql_db reflect_env"
  ke_compaction :: compaction_env
  ke_tracker_poisoned :: bool
  ke_read_paths_poisoned :: bool
  ke_cancelled_after :: "tick_phase \<Rightarrow> bool"
  ke_encode_context :: "compiled_context \<Rightarrow> string + string"
  ke_encode_plan_update :: "plan_update \<Rightarrow> string + string"
  ke_encode_diff_summary :: "tick_diff_summary \<Rightarrow> string option"
  ke_save_budget :: "persisted_budget_state \<Rightarrow> 'b \<Rightarrow> 'b exo_result"
  ke_has_wake_signal :: bool

definition lo_kernel :: "('h, 'c, 't, 'l, 'i, 'b) loop_world \<Rightarrow> ('c, 't, 'l, 'i) kernel_world" where
  "lo_kernel w = tw_kernel (lo_tick w)"

definition with_kernel ::
  "('c, 't, 'l, 'i) kernel_world \<Rightarrow> ('h, 'c, 't, 'l, 'i, 'b) loop_world \<Rightarrow> ('h, 'c, 't, 'l, 'i, 'b) loop_world" where
  "with_kernel k w = w\<lparr>lo_tick := (lo_tick w)\<lparr>tw_kernel := k\<rparr>\<rparr>"

definition with_tracker ::
  "('h, 'c, 't, 'l, 'i, 'b) tick_env \<Rightarrow> (tracker \<Rightarrow> tracker) \<Rightarrow> ('h, 'c, 't, 'l, 'i, 'b) loop_world \<Rightarrow> ('h, 'c, 't, 'l, 'i, 'b) loop_world" where
  "with_tracker env f w = (if ke_tracker_poisoned env then w
     else with_kernel ((lo_kernel w)\<lparr>kw_tracker := map_option f (kw_tracker (lo_kernel w))\<rparr>) w)"

definition consumption ::
  "('h, 'c, 't, 'l, 'i, 'b) tick_env \<Rightarrow> ('h, 'c, 't, 'l, 'i, 'b) loop_world \<Rightarrow> (budget_dimension \<times> u64) list" where
  "consumption env w = (case kw_tracker (lo_kernel w) of
     Some t \<Rightarrow> if ke_tracker_poisoned env then [] else build_consumption t | None \<Rightarrow> [])"

type_synonym ('x, 'w) step = "'w \<Rightarrow> (handler_output + 'x) option \<times> 'w"

definition then_step :: "('x, 'w) step \<Rightarrow> ('x \<Rightarrow> ('y, 'w) step) \<Rightarrow> ('y, 'w) step" where
  "then_step f g w = (case f w of
     (None, w') \<Rightarrow> (None, w')
   | (Some (Inl out), w') \<Rightarrow> (Some (Inl out), w')
   | (Some (Inr x), w') \<Rightarrow> g x w')"

definition tick_event ::
  "('h, 'c, 't, 'l, 'i, 'b) tick_env \<Rightarrow> tick_site \<Rightarrow> event_type \<Rightarrow> artifact_id option \<Rightarrow> string \<Rightarrow> datetime \<Rightarrow> event_entry" where
  "tick_event env site ty payload_ref summary at_time = \<lparr>ev_id = ke_new_id env site, ev_tick_id = Some (ke_tick_id env),
     ev_event_type = ty, ev_payload_ref = payload_ref, ev_summary = summary, ev_timestamp = at_time\<rparr>"

definition log_tick ::
  "('h, 'c, 't, 'l, 'i, 'b) tick_env \<Rightarrow> event_entry \<Rightarrow> ('h, 'c, 't, 'l, 'i, 'b) loop_world \<Rightarrow> ('h, 'c, 't, 'l, 'i, 'b) loop_world" where
  "log_tick env e w = with_kernel ((lo_kernel w)\<lparr>kw_events :=
     append_event (am_show_uuid (ke_amend env)) e (kw_events (lo_kernel w))\<rparr>) w"

text \<open>Storing a JSON artifact.\<close>

definition put_json ::
  "('h, 'c, 't, 'l, 'i, 'b) tick_env \<Rightarrow> tick_site \<Rightarrow> artifact_kind \<Rightarrow> string \<Rightarrow> ('h, 'c, 't, 'l, 'i, 'b) loop_world \<Rightarrow>
   artifact_id exo_result \<times> ('h, 'c, 't, 'l, 'i, 'b) loop_world" where
  "put_json env site kind tx w =
     (case ao_put (am_arts (ke_amend env)) (artifact_new (ao_sha256_hex (am_arts (ke_amend env))) (ke_now env site) kind tx ''application/json'')
         (kw_artifacts (lo_kernel w)) of
        (r, arts) \<Rightarrow> (r, with_kernel ((lo_kernel w)\<lparr>kw_artifacts := arts\<rparr>) w))"

section \<open>Start of the tick\<close>

definition load_snapshot ::
  "('h, 'c, 't, 'l, 'i, 'b) tick_env \<Rightarrow> (state_snapshot, ('h, 'c, 't, 'l, 'i, 'b) loop_world) step" where
  "load_snapshot env w = (case snapshot_latest (am_snapshot_codec (ke_amend env)) (kw_snapshots (lo_kernel w)) of
     Inl e \<Rightarrow> (Some (Inl (HRetryable (''Perceive: failed to load snapshot: '' @ exo_error_display e))), w)
   | Inr s \<Rightarrow>
       (let snap = (case s of Some x \<Rightarrow> x | None \<Rightarrow> snapshot_initial (ke_initial_at env) (ke_vessel_id env) (ke_mission env)) in
        if vessel_status_is_terminal (ss_status snap) then (Some (Inl (HSuccess None [])), w)
        else (Some (Inr snap), w)))"

definition begin_tick ::
  "('h, 'c, 't, 'l, 'i, 'b) tick_env \<Rightarrow> state_snapshot \<Rightarrow> (artifact_id, ('h, 'c, 't, 'l, 'i, 'b) loop_world) step" where
  "begin_tick env snap w =
     (let w1 = with_tracker env reset_tick_counters w;
          w2 = (if ke_read_paths_poisoned env then w1 else w1\<lparr>lo_read_paths := []\<rparr>)
      in case enc (am_snapshot_codec (ke_amend env)) snap of
           Inl e \<Rightarrow> (Some (Inl (HRetryable (''Perceive: failed to serialize snapshot: '' @ exo_error_display (Serde e)))), w2)
         | Inr tx \<Rightarrow> (case put_json env AtBefore AkSnapshot tx w2 of
             (Inl e, w3) \<Rightarrow> (Some (Inl (HRetryable (''Perceive: failed to store snapshot artifact: '' @ exo_error_display e))), w3)
           | (Inr i, w3) \<Rightarrow> (Some (Inr i), log_tick env (tick_event env AtTickStarted TickStarted None
               (''Tick '' @ show_u64 (ss_tick_number snap + 1) @ '' started'') (ke_started_at env)) w3)))"

section \<open>Perceive, watches and threads\<close>

definition previous_tick_id ::
  "('h, 'c, 't, 'l, 'i, 'b) tick_env \<Rightarrow> ('h, 'c, 't, 'l, 'i, 'b) loop_world \<Rightarrow> uuid option" where
  "previous_tick_id env w = (case tick_latest (am_tick_codec (ke_amend env)) (kw_ticks (lo_kernel w)) of
     Inr (Some t) \<Rightarrow> Some (tr_tick_id t) | _ \<Rightarrow> None)"

fun log_messages ::
  "('h, 'c, 't, 'l, 'i, 'b) tick_env \<Rightarrow> nat \<Rightarrow> message_envelope list \<Rightarrow> ('h, 'c, 't, 'l, 'i, 'b) loop_world \<Rightarrow>
   ('h, 'c, 't, 'l, 'i, 'b) loop_world" where
  "log_messages env k [] w = w"
| "log_messages env k (m # ms) w = log_messages env (Suc k) ms (log_tick env (tick_event env (AtMessage k) MessageReceived
     (Some (me_payload_ref m)) (''Message received from '' @ am_show_uuid (ke_amend env) (me_source m)) (me_timestamp m)) w)"

text \<open>\<open>artifact_store.put(..).ok()\<close>.\<close>

definition put_ok :: "'a artifact_ops \<Rightarrow> artifact \<Rightarrow> 'a \<Rightarrow> artifact_id option \<times> 'a" where
  "put_ok ops a arts = (case ao_put ops a arts of (r, arts') \<Rightarrow> (case r of Inr i \<Rightarrow> Some i | Inl _ \<Rightarrow> None, arts'))"

definition watch_env_of :: "('h, 'c, 't, 'l, 'i, 'b) tick_env \<Rightarrow> (artifact sql_db, event_entry sql_db) watch_env" where
  "watch_env_of env = (ke_watch env)\<lparr>we_put := put_ok (am_arts (ke_amend env)),
     we_log_event := append_event (am_show_uuid (ke_amend env))\<rparr>"

definition run_watches ::
  "('h, 'c, 't, 'l, 'i, 'b) tick_env \<Rightarrow> u64 \<Rightarrow> ('h, 'c, 't, 'l, 'i, 'b) loop_world \<Rightarrow>
   planned_action list \<times> ('h, 'c, 't, 'l, 'i, 'b) loop_world" where
  "run_watches env tick w =
     (case check_watches (watch_env_of env) tick \<lparr>ww_store = lo_watches w, ww_artifacts = kw_artifacts (lo_kernel w),
          ww_events = kw_events (lo_kernel w)\<rparr> of
        (_, polls, s) \<Rightarrow> (polls, with_kernel ((lo_kernel w)\<lparr>kw_artifacts := ww_artifacts s, kw_events := ww_events s\<rparr>)
          (w\<lparr>lo_watches := ww_store s\<rparr>)))"

definition perceive_phase ::
  "('h, 'c, 't, 'l, 'i, 'b) tick_env \<Rightarrow> state_snapshot \<Rightarrow> (perception \<times> planned_action list, ('h, 'c, 't, 'l, 'i, 'b) loop_world) step" where
  "perceive_phase env snap w =
     (case perceive (am_chrono (ke_amend env)) (am_inbox (ke_amend env)) (am_conv (ke_amend env)) (ke_new_conversation env)
         (previous_tick_id env w) (lo_kernel w) of
        (Inl e, k) \<Rightarrow> (Some (Inl (HRetryable (''Perceive failed: '' @ exo_error_display e))), with_kernel k w)
      | (Inr p, k) \<Rightarrow>
          (case run_watches env (ss_tick_number snap + 1) (log_messages env 0 (pe_new_messages p) (with_kernel k w)) of
             (polls, w1) \<Rightarrow>
               (case execute_due_registered_threads (ke_threads env) (ke_picks env) snap p (ke_tick_id env) (lo_tick w1) of
                  (None, tw) \<Rightarrow> (None, w1\<lparr>lo_tick := tw\<rparr>)
                | (Some (outs, exec_outs), tw) \<Rightarrow>
                    (if ke_cancelled_after env Perceive
                     then (Some (Inl (HRetryable ''cancelled after Perceive'')), w1\<lparr>lo_tick := tw\<rparr>)
                     else (Some (Inr (p\<lparr>pe_thread_outputs := outs, pe_exec_thread_outputs := exec_outs\<rparr>, polls)), w1\<lparr>lo_tick := tw\<rparr>)))))"

section \<open>Orient\<close>

definition orient_phase ::
  "('h, 'c, 't, 'l, 'i, 'b) tick_env \<Rightarrow> state_snapshot \<Rightarrow> perception \<Rightarrow>
   (compiled_context \<times> artifact_id option, ('h, 'c, 't, 'l, 'i, 'b) loop_world) step" where
  "orient_phase env snap p w = (case orient (ke_orient env) snap p (lo_kernel w) of
     None \<Rightarrow> (None, w)
   | Some (Inl e) \<Rightarrow> (Some (Inl (HRetryable (''Orient failed: '' @ exo_error_display e))), w)
   | Some (Inr ctx) \<Rightarrow>
       (case (case ke_encode_context env ctx of
                Inl _ \<Rightarrow> (None, w)
              | Inr tx \<Rightarrow> (case put_json env AtBreakdown AkContextBreakdown tx w of
                  (r, w') \<Rightarrow> (case r of Inr i \<Rightarrow> Some i | Inl _ \<Rightarrow> None, w'))) of
          (breakdown, w1) \<Rightarrow>
            if ke_cancelled_after env Orient then (Some (Inl (HRetryable ''cancelled after Orient'')), w1)
            else (Some (Inr (ctx, breakdown)), w1)))"

section \<open>Decide\<close>

definition decide_env_of ::
  "('h, 'c, 't, 'l, 'i, 'b) tick_env \<Rightarrow> ('h, 'c, 't, 'l, 'i, 'b) loop_world \<Rightarrow> (artifact sql_db, 'l, 't) decide_env" where
  "decide_env_of env w = (let k = lo_kernel w in (ke_decide env)\<lparr>de_mode := kw_mode k,
     de_view := \<lambda>n. (de_view (ke_decide env) n)\<lparr>sv_ticks := kw_ticks k, sv_events := kw_events k, sv_ledger := kw_ledger k,
       sv_threads := kw_threads k, sv_memory := kw_memory k, sv_watches := ws_list (lo_watches w)\<rparr>\<rparr>)"

text \<open>The newest outputs of the coding threads that have not failed.\<close>

definition latest_coding_exec_thread_proposals :: "'t thread_ops \<Rightarrow> 't \<Rightarrow> (uuid \<times> exec_thread_output) list" where
  "latest_coding_exec_thread_proposals ops t =
     List.map_filter (\<lambda>(spec, status). if sp_role spec = RCoding \<and> status \<noteq> ExFailed
         then case ts_recent_exec_outputs ops t (sp_thread_id spec) 1 of
           Inr outs \<Rightarrow> if outs = [] then None else Some (sp_thread_id spec, last outs)
         | Inl _ \<Rightarrow> None
         else None)
       (or_default (reg_list_executable ops t))"

definition annotate_action :: "(uuid \<times> exec_thread_proposal) list \<Rightarrow> planned_action \<Rightarrow> planned_action" where
  "annotate_action proposals a =
     (if pa_origin_exec_thread_id a \<noteq> None then a
      else case filter (\<lambda>(_, pr). xp_tool_name pr = pa_tool_name a \<and> xp_params pr = pa_params a) proposals of
        [(i, pr)] \<Rightarrow> a\<lparr>pa_origin_exec_thread_id := Some i, pa_proposal_id := Some (xp_proposal_id pr)\<rparr>
      | _ \<Rightarrow> a)"

definition annotate_exec_thread_origins :: "'t thread_ops \<Rightarrow> 't \<Rightarrow> decision \<Rightarrow> decision" where
  "annotate_exec_thread_origins ops t d =
     (let proposals = List.map_filter (\<lambda>(i, out). map_option (Pair i) (xo_proposed_action out)) (latest_coding_exec_thread_proposals ops t)
      in d\<lparr>dr_actions := map (annotate_action proposals) (dr_actions d)\<rparr>)"

definition is_exploratory_code_action :: "string \<Rightarrow> bool" where
  "is_exploratory_code_action name = List.member [''code.read'', ''code.read_symbol'', ''code.grep'', ''code.ls'', ''code.glob'',
     ''repo.context'', ''repo.locate'', ''code.symbol'', ''code.references'', ''code.impls'', ''fs.read''] name"

definition is_mutating_code_action :: "string \<Rightarrow> bool" where
  "is_mutating_code_action name = List.member [''code.edit'', ''code.write'', ''code.apply_patch'', ''fs.write''] name"

definition ready_proposal :: "exec_thread_output \<Rightarrow> bool" where
  "ready_proposal out \<longleftrightarrow> xo_evidence_complete out \<and> xo_proposal_confidence out = Some ConfHigh \<and>
     (case xo_proposed_action out of Some pr \<Rightarrow> is_mutating_code_action (xp_tool_name pr) | None \<Rightarrow> False)"

definition reconcile_exec_thread_proposals :: "'t thread_ops \<Rightarrow> 't \<Rightarrow> decision \<Rightarrow> decision" where
  "reconcile_exec_thread_proposals ops t d =
     (if dr_actions d = [] then d
      else if \<not> list_all (\<lambda>a. is_exploratory_code_action (pa_tool_name a) \<or> is_mutating_code_action (pa_tool_name a)) (dr_actions d) then d
      else case filter (\<lambda>(_, out). ready_proposal out) (latest_coding_exec_thread_proposals ops t) of
        [(i, out)] \<Rightarrow> (case xo_proposed_action out of
            None \<Rightarrow> d
          | Some pr \<Rightarrow>
              (case dr_actions d of
                 [a] \<Rightarrow> if pa_tool_name a = xp_tool_name pr \<and> pa_params a = xp_params pr
                   then d\<lparr>dr_actions := [a\<lparr>pa_origin_exec_thread_id := Some i, pa_proposal_id := Some (xp_proposal_id pr)\<rparr>]\<rparr>
                   else d\<lparr>dr_actions := [\<lparr>pa_call_id = ''exec-proposal-'' @ xp_proposal_id pr, pa_tool_name = xp_tool_name pr,
                     pa_params = xp_params pr, pa_rationale = xp_rationale pr, pa_plan_task_id = None,
                     pa_origin_exec_thread_id = Some i, pa_proposal_id = Some (xp_proposal_id pr)\<rparr>]\<rparr>
               | _ \<Rightarrow> d\<lparr>dr_actions := [\<lparr>pa_call_id = ''exec-proposal-'' @ xp_proposal_id pr, pa_tool_name = xp_tool_name pr,
                   pa_params = xp_params pr, pa_rationale = xp_rationale pr, pa_plan_task_id = None,
                   pa_origin_exec_thread_id = Some i, pa_proposal_id = Some (xp_proposal_id pr)\<rparr>]\<rparr>))
      | _ \<Rightarrow> d)"

definition bounded_coding_idle_visible :: "bool \<Rightarrow> bool \<Rightarrow> exec_thread_summary list \<Rightarrow> bool" where
  "bounded_coding_idle_visible return_to_idle has_new_messages summaries \<longleftrightarrow>
     return_to_idle \<and> \<not> has_new_messages \<and> list_ex coding_idle summaries"

definition should_hold_bounded_coding_session_idle ::
  "('h, 'c, 't, 'l, 'i, 'b) tick_env \<Rightarrow> perception \<Rightarrow> 't \<Rightarrow> bool" where
  "should_hold_bounded_coding_session_idle env p t =
     bounded_coding_idle_visible (am_return_to_idle (ke_amend env)) (pe_new_messages p \<noteq> [])
       (or_default (exec_thread_summaries (am_threads (ke_amend env)) t))"

definition suppress_actions_for_bounded_coding_idle :: "bool \<Rightarrow> decision \<Rightarrow> decision" where
  "suppress_actions_for_bounded_coding_idle suppress d = (if suppress then d\<lparr>dr_actions := []\<rparr> else d)"

fun valid_transition :: "vessel_mode \<Rightarrow> vessel_mode \<Rightarrow> bool" where
  "valid_transition MNormal MPlanning = True"
| "valid_transition MExecuting MNormal = True"
| "valid_transition _ _ = False"

definition request_mode :: "vessel_mode option \<Rightarrow> vessel_mode \<Rightarrow> vessel_mode" where
  "request_mode req m = (case req of Some r \<Rightarrow> if valid_transition m r then r else m | None \<Rightarrow> m)"

definition store_plan_draft ::
  "('h, 'c, 't, 'l, 'i, 'b) tick_env \<Rightarrow> decision \<Rightarrow> ('h, 'c, 't, 'l, 'i, 'b) loop_world \<Rightarrow> ('h, 'c, 't, 'l, 'i, 'b) loop_world" where
  "store_plan_draft env d w =
     (if kw_mode (lo_kernel w) = MPlanning
      then case Option.bind (dc_plan_update d) (\<lambda>u. case ke_encode_plan_update env u of Inr tx \<Rightarrow> Some tx | Inl _ \<Rightarrow> None) of
          Some tx \<Rightarrow> snd (put_json env AtPlanDraft AkPlanDraft tx w)
        | None \<Rightarrow> w
      else w)"

text \<open>The decision and whether external actions are suppressed.\<close>

definition decide_phase ::
  "('h, 'c, 't, 'l, 'i, 'b) tick_env \<Rightarrow> perception \<Rightarrow> compiled_context \<Rightarrow> (decision \<times> bool, ('h, 'c, 't, 'l, 'i, 'b) loop_world) step" where
  "decide_phase env p ctx w = (case decide (decide_env_of env w) ctx (llm_view (lo_tick w)) of
     (Inl e, v) \<Rightarrow> (Some (Inl (HRetryable (''Decide failed: '' @ exo_error_display e))), w\<lparr>lo_tick := with_llm_view v (lo_tick w)\<rparr>)
   | (Inr d, v) \<Rightarrow>
       (let w1 = w\<lparr>lo_tick := with_llm_view v (lo_tick w)\<rparr>;
            ops = am_threads (ke_amend env); t = kw_threads (lo_kernel w1);
            hold = should_hold_bounded_coding_session_idle env p t;
            d' = suppress_actions_for_bounded_coding_idle hold
              (reconcile_exec_thread_proposals ops t (annotate_exec_thread_origins ops t d));
            w2 = with_kernel ((lo_kernel w1)\<lparr>kw_mode := request_mode (dc_vessel_mode_request d') (kw_mode (lo_kernel w1))\<rparr>) w1;
            w3 = store_plan_draft env d' w2
        in if ke_cancelled_after env Decide then (Some (Inl (HRetryable ''cancelled after Decide'')), w3)
           else (Some (Inr (d', hold)), w3)))"

section \<open>Align, Act and Reflect\<close>

definition align_env_of ::
  "('h, 'c, 't, 'l, 'i, 'b) tick_env \<Rightarrow> ('l, artifact sql_db, event_entry sql_db, watch_store) align_env" where
  "align_env_of env = (ke_align env)\<lparr>ae_append := am_append (ke_amend env), ae_get_artifact := ao_get (am_arts (ke_amend env)),
     ae_put_artifact := put_ok (am_arts (ke_amend env)), ae_log_event := append_event (am_show_uuid (ke_amend env)),
     ae_active_count := active_count, ae_save_watch := ws_save\<rparr>"

definition align_phase ::
  "('h, 'c, 't, 'l, 'i, 'b) tick_env \<Rightarrow> u64 \<Rightarrow> perception \<Rightarrow> decision \<Rightarrow> bool \<Rightarrow> planned_action list \<Rightarrow>
   ('h, 'c, 't, 'l, 'i, 'b) loop_world \<Rightarrow> alignment_result \<times> ('h, 'c, 't, 'l, 'i, 'b) loop_world" where
  "align_phase env tick p d hold polls w =
     (case align_step (align_env_of env) (decision_result.truncate d) (pe_new_messages p) (ke_tick_id env) tick
         \<lparr>aw_ledger = kw_ledger (lo_kernel w), aw_artifacts = kw_artifacts (lo_kernel w),
          aw_events = kw_events (lo_kernel w), aw_watches = lo_watches w\<rparr> of
        (al, s) \<Rightarrow> (if hold then al else al\<lparr>al_approved_actions := al_approved_actions al @ polls\<rparr>,
          with_kernel ((lo_kernel w)\<lparr>kw_ledger := aw_ledger s, kw_artifacts := aw_artifacts s, kw_events := aw_events s\<rparr>)
            (w\<lparr>lo_watches := aw_watches s\<rparr>)))"

definition act_env_of ::
  "('h, 'c, 't, 'l, 'i, 'b) tick_env \<Rightarrow> ('h, 'c, 't, 'l, 'i, 'b) loop_world \<Rightarrow> ('h, artifact sql_db, event_entry sql_db) act_env" where
  "act_env_of env w = (ke_act env)\<lparr>xe_arts := am_arts (ke_amend env),
     xe_log_event := append_event (am_show_uuid (ke_amend env)), xe_mode := \<lambda>_. kw_mode (lo_kernel w),
     xe_latest_tick := tick_latest (am_tick_codec (ke_amend env)) (kw_ticks (lo_kernel w)),
     xe_tick_range := tick_range (am_tick_codec (ke_amend env)) (kw_ticks (lo_kernel w))\<rparr>"

text \<open>The executions and the section about changed files for the Reflect step.\<close>

definition act_phase ::
  "('h, 'c, 't, 'l, 'i, 'b) tick_env \<Rightarrow> u64 \<Rightarrow> alignment_result \<Rightarrow> (action_execution list \<times> string, ('h, 'c, 't, 'l, 'i, 'b) loop_world) step" where
  "act_phase env tick al w =
     (case act (act_env_of env w) al (ke_tick_id env) \<lparr>xw_host = lo_host w, xw_artifacts = kw_artifacts (lo_kernel w),
          xw_events = kw_events (lo_kernel w), xw_gate = kw_gate (lo_kernel w), xw_read_paths = lo_read_paths w\<rparr> of
        (r, s) \<Rightarrow>
          (let w1 = with_kernel ((lo_kernel w)\<lparr>kw_artifacts := xw_artifacts s, kw_events := xw_events s, kw_gate := xw_gate s\<rparr>)
                 (w\<lparr>lo_host := xw_host s, lo_read_paths := xw_read_paths s\<rparr>)
           in case r of
                None \<Rightarrow> (None, w1)
              | Some (Inl e) \<Rightarrow> (Some (Inl (HRetryable (''Act failed: '' @ exo_error_display e))), w1)
              | Some (Inr xs) \<Rightarrow>
                  (let dt = record_diffs xs (diff_tracker_new tick) in
                   case diff_finalize (am_arts (ke_amend env)) (ke_encode_diff_summary env) (ke_now env AtDiffSummary) dt
                       (kw_artifacts (lo_kernel w1)) of
                     (_, arts) \<Rightarrow> (Some (Inr (xs, format_for_reflect dt)), with_kernel ((lo_kernel w1)\<lparr>kw_artifacts := arts\<rparr>) w1))))"

definition reflect_phase ::
  "('h, 'c, 't, 'l, 'i, 'b) tick_env \<Rightarrow> state_snapshot \<Rightarrow> decision \<Rightarrow> action_execution list \<Rightarrow> string \<Rightarrow>
   (reflection_result, ('h, 'c, 't, 'l, 'i, 'b) loop_world) step" where
  "reflect_phase env snap d xs diff_section w =
     (case reflect (ke_reflect env) snap d xs diff_section (llm_view (lo_tick w)) of
        (r, v) \<Rightarrow> (map_option Inr r, w\<lparr>lo_tick := with_llm_view v (lo_tick w)\<rparr>))"

section \<open>Thrash detection\<close>

definition recent_assessment ::
  "('h, 'c, 't, 'l, 'i, 'b) tick_env \<Rightarrow> u64 \<Rightarrow> ('h, 'c, 't, 'l, 'i, 'b) loop_world \<Rightarrow> thrash_assessment" where
  "recent_assessment env tick w =
     (case tick_range (am_tick_codec (ke_amend env)) (kw_ticks (lo_kernel w)) (sat_sub tick 10) (sat_sub tick 1) of
        Inr ticks \<Rightarrow> thrash_check ticks | Inl _ \<Rightarrow> thrash_none)"

text \<open>The output of a suspended tick.\<close>

definition suspended_output :: "('h, 'c, 't, 'l, 'i, 'b) tick_env \<Rightarrow> string list \<Rightarrow> string" where
  "suspended_output env indicators = ao_json_text (am_arts (ke_amend env)) (JObj [(''suspended'', JBool True),
     (''reason'', JStr ''high_thrash''), (''indicators'', JArr (map JStr indicators))])"

definition thrash_phase ::
  "('h, 'c, 't, 'l, 'i, 'b) tick_env \<Rightarrow> u64 \<Rightarrow> (unit, ('h, 'c, 't, 'l, 'i, 'b) loop_world) step" where
  "thrash_phase env tick w =
     (let a = recent_assessment env tick w; w1 = with_tracker env (set_thrash_level (ta_level a)) w in
      if ta_level a = ThrashHigh
      then (let w2 = log_tick env (tick_event env AtSuspended EventError None
                  (''Cognitive loop suspended due to high thrash: '' @ join ''; '' (ta_indicators a)) (ke_now env AtSuspended)) w1
            in (Some (Inl (HSuccess (Some (suspended_output env (ta_indicators a))) (consumption env w2))), w2))
      else (Some (Inr ()), w1))"

section \<open>Amend and the end of the tick\<close>

definition settle_budget ::
  "('h, 'c, 't, 'l, 'i, 'b) tick_env \<Rightarrow> action_execution list \<Rightarrow> ('h, 'c, 't, 'l, 'i, 'b) loop_world \<Rightarrow> ('h, 'c, 't, 'l, 'i, 'b) loop_world" where
  "settle_budget env xs w = (case kw_tracker (lo_kernel w) of
     None \<Rightarrow> w
   | Some t \<Rightarrow>
       if ke_tracker_poisoned env then w
       else let t' = (if list_ex exec_succeeded xs then clear_failures t else if xs \<noteq> [] then record_failure t else t)
         in with_kernel ((lo_kernel w)\<lparr>kw_tracker := Some t'\<rparr>)
           (w\<lparr>lo_budget_store := (case persist (ke_save_budget env) (am_show_uuid (ke_amend env)) t' (lo_budget_store w) of
                Inr b \<Rightarrow> b | Inl _ \<Rightarrow> lo_budget_store w)\<rparr>))"

definition compact_session ::
  "('h, 'c, 't, 'l, 'i, 'b) tick_env \<Rightarrow> compiled_context \<Rightarrow> ('h, 'c, 't, 'l, 'i, 'b) loop_world \<Rightarrow> bool \<times> ('h, 'c, 't, 'l, 'i, 'b) loop_world" where
  "compact_session env ctx w =
     (if should_compact (cc_truncated_sections ctx) (case count_episodic (kw_memory (lo_kernel w)) of Inr n \<Rightarrow> n | Inl _ \<Rightarrow> 0)
          (am_capacity (ke_amend env))
      then case run_compaction (ke_compaction env) default_preserve_recent (kw_memory (lo_kernel w)) of
        (r, m) \<Rightarrow> (r \<noteq> None, with_kernel ((lo_kernel w)\<lparr>kw_memory := m\<rparr>) w)
      else (True, w))"

definition wake_for_exec ::
  "('h, 'c, 't, 'l, 'i, 'b) tick_env \<Rightarrow> ('h, 'c, 't, 'l, 'i, 'b) loop_world \<Rightarrow> ('h, 'c, 't, 'l, 'i, 'b) loop_world" where
  "wake_for_exec env w =
     (if list_ex (\<lambda>s. xs_status s = ExActive \<or> xs_status s = ExBlocked)
           (or_default (exec_thread_summaries (am_threads (ke_amend env)) (kw_threads (lo_kernel w))))
         \<and> ke_has_wake_signal env
      then w\<lparr>lo_wakes := Suc (lo_wakes w)\<rparr> else w)"

definition amend_phase ::
  "('h, 'c, 't, 'l, 'i, 'b) tick_env \<Rightarrow> u64 \<Rightarrow> state_snapshot \<Rightarrow> artifact_id \<Rightarrow> perception \<Rightarrow> decision \<Rightarrow> alignment_result \<Rightarrow>
   action_execution list \<Rightarrow> reflection_result \<Rightarrow> artifact_id option \<Rightarrow> compiled_context \<Rightarrow>
   ('h, 'c, 't, 'l, 'i, 'b) loop_world \<Rightarrow> handler_output option \<times> ('h, 'c, 't, 'l, 'i, 'b) loop_world" where
  "amend_phase env tick snap before_id p d al xs r breakdown ctx w =
     (case amend (ke_amend env) (ke_tick_id env) tick (ke_started_at env) snap before_id p d al xs r breakdown (lo_kernel w) of
        (None, k) \<Rightarrow> (None, with_kernel k w)
      | (Some res, k) \<Rightarrow>
          (let w1 = settle_budget env xs (with_kernel k w) in
           case res of
             Inl e \<Rightarrow> (Some (HTerminal (''Amend failed (persistence error): '' @ exo_error_display e)), w1)
           | Inr out \<Rightarrow>
               (case compact_session env ctx w1 of
                  (False, w2) \<Rightarrow> (None, w2)
                | (True, w2) \<Rightarrow> (Some (HSuccess (Some out) (consumption env w1)), wake_for_exec env w2))))"

section \<open>The tick\<close>

definition run_phases ::
  "('h, 'c, 't, 'l, 'i, 'b) tick_env \<Rightarrow> (handler_output, ('h, 'c, 't, 'l, 'i, 'b) loop_world) step" where
  "run_phases env =
     then_step (load_snapshot env) (\<lambda>snap.
     then_step (begin_tick env snap) (\<lambda>before_id.
     then_step (perceive_phase env snap) (\<lambda>(p, polls).
     then_step (orient_phase env snap p) (\<lambda>(ctx, breakdown).
     then_step (decide_phase env p ctx) (\<lambda>(d, hold) w.
       (let tick = ss_tick_number snap + 1;
            (al, w1) = align_phase env tick p d hold polls w
        in then_step (act_phase env tick al) (\<lambda>(xs, diff_section).
           then_step (reflect_phase env snap d xs diff_section) (\<lambda>r.
           then_step (thrash_phase env tick) (\<lambda>_ w2.
             (case amend_phase env tick snap before_id p d al xs r breakdown ctx w2 of
                (out, w3) \<Rightarrow> (map_option Inr out, w3))))) w1))))))"

definition run_tick ::
  "('h, 'c, 't, 'l, 'i, 'b) tick_env \<Rightarrow> ('h, 'c, 't, 'l, 'i, 'b) loop_world \<Rightarrow>
   handler_output option \<times> ('h, 'c, 't, 'l, 'i, 'b) loop_world" where
  "run_tick env w = (case run_phases env w of
     (r, w') \<Rightarrow> (map_option (\<lambda>x. case x of Inl out \<Rightarrow> out | Inr out \<Rightarrow> out) r, w'))"

end
