(* ===== verification/Coding_Laws.thy ===== *)
theory Coding_Laws
  imports Coding_Thread
begin

text \<open>
  Laws of the coding thread: what its turn guarantees whatever the model answers. The governor is the last word on a
  repeated exploration, so the counter of repetitions stays within the budget of the tool, except for the scoped text
  search, which the governor itself puts in the place of a spent action.
\<close>

section \<open>Phases\<close>

lemma phase_round_trip: "phase_from_str (phase_as_str x) = Some x"
  by (cases x) (simp_all add: phase_from_str_def)

section \<open>The governor\<close>

lemma situation_fields [simp]:
  "si_proposed_action (build_coding_situation st ls r f ws) = rx_proposed_action r"
  "si_verification_pending (build_coding_situation st ls r f ws) = ls_verification_pending ls"
  "si_verification_attempted (build_coding_situation st ls r f ws) = ls_verification_attempted ls"
  "si_workspace_root (build_coding_situation st ls r f ws) = ws"
  by (simp_all add: build_coding_situation_def)

lemma budget_positive: "1 \<le> final_proposal_repeat_budget profile t"
  by (simp add: final_proposal_repeat_budget_def)

lemma semantic_tool_not_read: "is_semantic_lookup_tool t \<Longrightarrow> t \<noteq> ''code.read''"
  by (auto simp: is_semantic_lookup_tool_def)

lemma spent_repeats: "final_proposal_repeats_spent_action p ls profile \<Longrightarrow> ls_last_proposed_tool ls = Some (cx_tool_name p)"
  by (simp add: final_proposal_repeats_spent_action_def repeats_last_def)

lemma parent_read_tool:
  "synthesize_parent_module_read_after_semantic_stall d s p = Some q \<Longrightarrow> is_semantic_lookup_tool (cx_tool_name p)"
  by (auto simp: synthesize_parent_module_read_after_semantic_stall_def split: if_splits)

text \<open>What the governor puts in the place of a spent action: nothing, a text search, or another tool than the spent one.\<close>

lemma governor_replaces:
  assumes g: "evaluate_final_proposal_trajectory_governor d (build_coding_situation st ls r f ws) ls r profile = Some verdict"
    and out: "apply_policy_decision verdict ws (st, ls, r) = (st', ls', r')" and q: "rx_proposed_action r' = Some q"
  shows "cx_tool_name q = ''code.grep'' \<or> (ls' = ls \<and> ls_last_proposed_tool ls \<noteq> Some (cx_tool_name q))"
proof -
  let ?s = "build_coding_situation st ls r f ws"
  obtain p where p: "rx_proposed_action r = Some p" "final_proposal_repeats_spent_action p ls profile"
    using g by (auto simp: evaluate_final_proposal_trajectory_governor_def split: option.splits if_splits)
  note last = spent_repeats [OF p(2)]
  show ?thesis
  proof (cases "ls_verification_pending ls \<and> ls_verification_attempted ls")
    case True
    then show ?thesis using g out q p
      by (auto simp: evaluate_final_proposal_trajectory_governor_def apply_policy_decision_def complete_with_def Let_def)
  next
    case False
    show ?thesis
    proof (cases "synthesize_trait_conversion_text_search ?s ls r profile p")
      case (Some search)
      then show ?thesis using g out q p False
        by (auto simp: evaluate_final_proposal_trajectory_governor_def apply_policy_decision_def decide_on_def
            search_directive_def with_proposal_def grep_proposal_def Let_def)
    next
      case no_search: None
      show ?thesis
      proof (cases "synthesize_parent_module_read_after_semantic_stall d ?s p")
        case (Some read)
        have "ls' = ls \<and> cx_tool_name q = ''code.read''" using g out q p False no_search Some
          by (auto simp: evaluate_final_proposal_trajectory_governor_def apply_policy_decision_def decide_on_def
              read_directive_def with_proposal_def read_proposal_def Let_def)
        then show ?thesis using semantic_tool_not_read [OF parent_read_tool [OF Some]] last by auto
      next
        case None
        then show ?thesis using g out q p False no_search
          by (auto simp: evaluate_final_proposal_trajectory_governor_def apply_policy_decision_def decide_on_def Let_def)
      qed
    qed
  qed
qed

lemma policy_not_spent:
  assumes "apply_coding_stall_policy d f profile ws st = (st', ls', r')" "rx_proposed_action r' = Some q"
    and "cx_tool_name q \<noteq> ''code.grep''"
  shows "\<not> final_proposal_repeats_spent_action q ls' profile"
proof -
  obtain a ls0 r0 where st: "st = (a, ls0, r0)" by (cases st)
  obtain b ls1 r1 where one: "apply_policy_decision (evaluate_coding_policy d (build_coding_situation a ls0 r0 f ws) ls0 r0 profile) ws st = (b, ls1, r1)"
    by (cases "apply_policy_decision (evaluate_coding_policy d (build_coding_situation a ls0 r0 f ws) ls0 r0 profile) ws st")
  show ?thesis
  proof (cases "evaluate_final_proposal_trajectory_governor d (build_coding_situation b ls1 r1 f ws) ls1 r1 profile")
    case None
    then have "(st', ls', r') = (b, ls1, r1)" using assms(1) one st by (simp add: apply_coding_stall_policy_def Let_def)
    with None assms(2) show ?thesis
      by (simp add: evaluate_final_proposal_trajectory_governor_def Let_def split: if_splits)
  next
    case (Some verdict)
    then have two: "apply_policy_decision verdict ws (b, ls1, r1) = (st', ls', r')"
      using assms(1) one st by (simp add: apply_coding_stall_policy_def Let_def)
    have "ls_last_proposed_tool ls' \<noteq> Some (cx_tool_name q)" using governor_replaces [OF Some two assms(2)] assms(3) by auto
    then show ?thesis using spent_repeats by blast
  qed
qed

section \<open>The counter\<close>

lemma settled_counter [simp]:
  "ls_last_proposed_tool (settled_local_state st r ls) = ls_last_proposed_tool ls"
  "ls_repeated_same_proposal_count (settled_local_state st r ls) = ls_repeated_same_proposal_count ls"
  "ls_awaiting_feedback (settled_local_state st r ls) \<longleftrightarrow> rx_proposed_action r \<noteq> None"
  by (simp_all add: settled_local_state_def Let_def)

lemma stall_update_within_budget:
  assumes "ls_last_proposed_tool (update_exploratory_stall_state (Some p) ls) = Some t"
    and "\<not> final_proposal_repeats_spent_action p ls profile"
  shows "ls_repeated_same_proposal_count (update_exploratory_stall_state (Some p) ls) \<le> final_proposal_repeat_budget profile t"
proof (cases "is_exploratory_tool (cx_tool_name p)")
  case False
  then show ?thesis using assms(1) by (simp add: update_exploratory_stall_state_def clear_exploratory_stall_state_def)
next
  case True
  show ?thesis
  proof (cases "repeats_last ls p")
    case False
    then show ?thesis using True by (simp add: update_exploratory_stall_state_def budget_positive)
  next
    case rep: True
    then have t: "t = cx_tool_name p" using True assms(1) by (simp add: update_exploratory_stall_state_def repeats_last_def)
    have "ls_repeated_same_proposal_count ls < final_proposal_repeat_budget profile t"
      using assms(2) True rep t by (simp add: final_proposal_repeats_spent_action_def not_le)
    then show ?thesis using True rep by (simp add: update_exploratory_stall_state_def sat_add_le)
  qed
qed

lemma stall_update_of_none:
  "ls_last_proposed_tool (update_exploratory_stall_state None ls) = None"
  by (simp add: update_exploratory_stall_state_def clear_exploratory_stall_state_def)

lemma stall_update_tool:
  "ls_last_proposed_tool (update_exploratory_stall_state (Some p) ls) = Some t \<Longrightarrow> t = cx_tool_name p"
  by (auto simp: update_exploratory_stall_state_def clear_exploratory_stall_state_def repeats_last_def split: if_splits)

lemma coding_turn_cases:
  assumes "coding_turn c f ws p ls r = Some (st, ls', r')"
  obtains st0 ls0 where "apply_coding_stall_policy (cd_disk c) f (cd_profile c) ws st0 = (st, ls0, r')"
    "ls' = settled_local_state st r' (update_exploratory_stall_state (rx_proposed_action r') ls0)"
  using assms unfolding coding_turn_def Let_def
  by (auto split: prod.splits option.splits)

section \<open>Tests after an edit\<close>

lemma post_edit_test_tool: "synthesize_post_edit_test_verification d s = Some test \<Longrightarrow> cx_tool_name test = ''code.test''"
  by (auto simp: synthesize_post_edit_test_verification_def Let_def bind_eq_Some_conv split: if_splits)

lemma test_not_spent: "cx_tool_name p = ''code.test'' \<Longrightarrow> \<not> final_proposal_repeats_spent_action p ls profile"
  by (simp add: final_proposal_repeats_spent_action_def is_exploratory_tool_def)

lemma verification_directive_applied:
  "apply_policy_decision (decide_on ph (verification_directive test) c summary focus) ws (status, ls, r) =
     (ExActive, ls, r\<lparr>rx_summary := summary, rx_current_focus := Some focus, rx_work_phase := Some (phase_as_str ph),
        rx_proposed_action := Some test, rx_should_wake_master := True, rx_proposal_confidence := c\<rparr>)"
  by (simp add: apply_policy_decision_def decide_on_def verification_directive_def with_proposal_def unwrap_or_def or_else_def
      coding_proposal.surjective [symmetric])

text \<open>The decision while an edit waits for its first test.\<close>

lemma pending_edit_decision:
  assumes "si_verification_pending s" "\<not> si_verification_attempted s"
    and "synthesize_post_edit_test_verification d s = Some test"
    and "pred_option (\<lambda>x. cx_tool_name x \<noteq> ''code.test'' \<and> \<not> proposal_changes_macro_variant_repetition_plus_to_star x) (si_proposed_action s)"
  shows "\<exists>summary focus. evaluate_coding_policy d s ls r profile =
     decide_on PhVerifying (verification_directive test) (Some ConfMedium) summary focus"
proof (cases "si_proposed_action s")
  case None
  then show ?thesis using assms
    by (auto simp: evaluate_coding_policy_def no_proposal_policy_def synthesize_post_edit_verification_proposal_def)
next
  case (Some p)
  then show ?thesis using assms
    by (auto simp: evaluate_coding_policy_def retest_rule_def scoped_test_rule_def repatch_rule_def repetition_rule_def
        test_first_rule_def unwrap_or_def)
qed

lemma policy_tests_first:
  assumes "ls_verification_pending ls" "\<not> ls_verification_attempted ls"
    and "synthesize_post_edit_test_verification d (build_coding_situation status ls r f ws) = Some test"
    and "pred_option (\<lambda>x. cx_tool_name x \<noteq> ''code.test'' \<and> \<not> proposal_changes_macro_variant_repetition_plus_to_star x) (rx_proposed_action r)"
  shows "\<exists>r'. apply_coding_stall_policy d f profile ws (status, ls, r) = (ExActive, ls, r') \<and> rx_proposed_action r' = Some test
     \<and> rx_should_wake_master r'"
proof -
  obtain summary focus where "evaluate_coding_policy d (build_coding_situation status ls r f ws) ls r profile =
     decide_on PhVerifying (verification_directive test) (Some ConfMedium) summary focus"
    using pending_edit_decision [of "build_coding_situation status ls r f ws" d test ls r profile] assms by auto
  then show ?thesis
    by (simp add: apply_coding_stall_policy_def verification_directive_applied Let_def
        evaluate_final_proposal_trajectory_governor_def test_not_spent [OF post_edit_test_tool [OF assms(3)]])
qed

text \<open>A workspace with a manifest always has a test to run.\<close>

lemma project_root_has_manifest: "project_root_from d ws dir = Some q \<Longrightarrow> has_project_manifest d q"
proof (induction d ws dir rule: project_root_from.induct)
  case (1 d workspace dir)
  from "1.prems" show ?case
    by (subst (asm) project_root_from.simps) (auto split: if_splits option.splits intro: "1.IH")
qed

lemma workspace_test_exists:
  assumes "si_workspace_root s = Some w" "has_project_manifest d w"
  shows "\<exists>test. synthesize_post_edit_test_verification d s = Some test"
proof -
  have "has_project_manifest d (unwrap_or w (nearest_project_root_for_file d x w))" for x
    using assms(2) by (auto simp: unwrap_or_def nearest_project_root_for_file_def bind_eq_Some_conv
        dest: project_root_has_manifest split: option.split)
  then show ?thesis using assms(1) by (simp add: synthesize_post_edit_test_verification_def Let_def)
qed

text \<open>The state that the feedback of a successful edit leaves.\<close>

lemma edit_feedback_pending:
  assumes "cf_mutating_success f" "\<not> cf_mutating_failure f" "\<not> cf_verification_failure f" "\<not> cf_verification_success f"
    and "apply_coding_feedback_state f ws (status, ls, r) = (status', ls', r')"
  shows "ls_verification_pending ls' \<and> \<not> ls_verification_attempted ls' \<and> r' = r"
  using assms by (auto simp: apply_coding_feedback_state_def Let_def clear_inspection_state_def)

lemma inspection_keeps_verification:
  assumes "update_inspection_state ls r = Some (ls', r')"
  shows "ls_verification_pending ls' = ls_verification_pending ls \<and> ls_verification_attempted ls' = ls_verification_attempted ls
    \<and> rx_proposed_action r' = rx_proposed_action r"
  using assms
  by (auto simp: update_inspection_state_def Let_def with_summary_def inspect_symbol_def lookup_symbol_def inspect_file_def
      default_phase_def clear_inspection_state_def split: option.splits if_splits)

section \<open>Sample turns\<close>

definition plain_coding_env :: coding_env where
  "plain_coding_env = \<lparr>cd_disk = \<lparr>dk_exists = (\<lambda>p. p = ''/w/Cargo.toml''), dk_is_file = (\<lambda>_. False)\<rparr>, cd_parse = (\<lambda>_. None), cd_parse_json = (\<lambda>_. None),
     cd_ticks = \<lparr>enc = (\<lambda>_. Inl ''none''), dec = (\<lambda>_. Inl ''none'')\<rparr>, cd_encode = (\<lambda>_. Inr ''output''), cd_profile = coding_policy_default,
     cd_max_output_tokens = 4096, cd_show_uuid = (\<lambda>_. ''id''), cd_prompt = (\<lambda>_. None)\<rparr>"

definition quiet_perception :: perception where
  "quiet_perception = \<lparr>pe_new_messages = [], pe_active_conversations = [], pe_thread_outputs = [], pe_exec_thread_outputs = [],
     pe_pending_action_results = []\<rparr>"

definition answer_with :: "string option \<Rightarrow> coding_proposal option \<Rightarrow> coding_response" where
  "answer_with focus p = \<lparr>rx_status = None, rx_summary = [], rx_current_focus = focus, rx_work_phase = None, rx_scratchpad = None,
     rx_evidence_complete = False, rx_proposal_confidence = None, rx_should_wake_master = False, rx_completion_reason = None,
     rx_proposed_action = p\<rparr>"

lemma answer_proposal [simp]: "rx_proposed_action (answer_with focus p) = p"
  by (simp add: answer_with_def)

definition listing :: coding_proposal where
  "listing = \<lparr>cx_tool_name = ''code.ls'', cx_params = JObj [(''path'', JStr ''/w'')], cx_rationale = []\<rparr>"

definition spent_search :: coding_proposal where
  "spent_search = grep_proposal ''/w'' ''impl[_A-Za-z0-9]*from[_A-Za-z0-9]*|From'' []"

definition spent_search_state :: exec_thread_local_state where
  "spent_search_state = local_state_default\<lparr>ls_inspection_target_file := Some ''/w/mod.rs'', ls_last_proposed_tool := Some ''code.grep'',
     ls_last_proposed_target := Some ''/w::impl[_A-Za-z0-9]*from[_A-Za-z0-9]*|From'', ls_repeated_same_proposal_count := 50\<rparr>"

text \<open>The text search is the exception: the governor answers a search that has spent its budget with the same search.\<close>

lemma governor_reissues_search:
  "case evaluate_final_proposal_trajectory_governor (cd_disk plain_coding_env)
      (build_coding_situation ExActive spent_search_state (answer_with (Some ''impl From'') (Some spent_search)) coding_feedback_default (Some ''/w''))
      spent_search_state (answer_with (Some ''impl From'') (Some spent_search)) coding_policy_default of
     None \<Rightarrow> False
   | Some verdict \<Rightarrow> (case apply_policy_decision verdict (Some ''/w'')
         (ExActive, spent_search_state, answer_with (Some ''impl From'') (Some spent_search)) of
       (_, ls', r') \<Rightarrow> (case rx_proposed_action r' of
         None \<Rightarrow> False | Some q \<Rightarrow> final_proposal_repeats_spent_action q ls' coding_policy_default))"
  by code_simp

lemma listing_turn:
  "case coding_turn plain_coding_env coding_feedback_default (Some ''/w'') quiet_perception local_state_default (answer_with None (Some listing)) of
     None \<Rightarrow> False | Some (_, ls', _) \<Rightarrow> ls_last_proposed_tool ls' = Some ''code.ls''"
  by code_simp

lemma silent_turn_ends:
  "rx_proposed_action r = None \<Longrightarrow> \<exists>status ls' r'. coding_turn c f ws p ls r = Some (status, ls', r')"
  by (auto simp: coding_turn_def Let_def default_confidence_def apply_coding_feedback_state_def update_inspection_state_def split: prod.split)

section \<open>Properties of a turn\<close>

text \<open>C36. whatever the model answers and whatever the local state was, a turn of the coding thread ends with a counter of
  repetitions within the budget of the tool last proposed (the stall threshold of the profile, at least one), unless that
  tool is the text search; and the thread waits for feedback exactly when it leaves with a proposal.\<close>

theorem coding_turn_explores_within_budget:
  assumes "coding_turn c f ws p ls r = Some (status, ls', r')"
  shows "(ls_awaiting_feedback ls' \<longleftrightarrow> rx_proposed_action r' \<noteq> None) \<and>
    (\<forall>t. ls_last_proposed_tool ls' = Some t \<and> t \<noteq> ''code.grep'' \<longrightarrow>
       (\<exists>q. rx_proposed_action r' = Some q \<and> cx_tool_name q = t) \<and>
       ls_repeated_same_proposal_count ls' \<le> final_proposal_repeat_budget (cd_profile c) t)"
proof -
  obtain st0 ls0 where policy: "apply_coding_stall_policy (cd_disk c) f (cd_profile c) ws st0 = (status, ls0, r')"
    and ls': "ls' = settled_local_state status r' (update_exploratory_stall_state (rx_proposed_action r') ls0)"
    using assms by (rule coding_turn_cases)
  have "\<exists>q. rx_proposed_action r' = Some q \<and> cx_tool_name q = t \<and>
      ls_repeated_same_proposal_count ls' \<le> final_proposal_repeat_budget (cd_profile c) t"
    if t: "ls_last_proposed_tool ls' = Some t" "t \<noteq> ''code.grep''" for t
  proof (cases "rx_proposed_action r'")
    case None
    then show ?thesis using t ls' by (simp add: stall_update_of_none)
  next
    case (Some q)
    have last: "ls_last_proposed_tool (update_exploratory_stall_state (Some q) ls0) = Some t" using t ls' Some by simp
    then have "t = cx_tool_name q" by (rule stall_update_tool)
    then show ?thesis
      using stall_update_within_budget [OF last policy_not_spent [OF policy Some]] t(2) Some ls' by simp
  qed
  then show ?thesis using ls' by auto
qed

theorem coding_turn_explores_within_budget_witness:
  "case coding_turn plain_coding_env coding_feedback_default (Some ''/w'') quiet_perception local_state_default (answer_with None (Some listing)) of
     None \<Rightarrow> False
   | Some (_, ls', r') \<Rightarrow> ls_awaiting_feedback ls' \<and>
       ls_repeated_same_proposal_count ls' \<le> final_proposal_repeat_budget coding_policy_default ''code.ls''"
proof -
  obtain status ls' r' where turn: "coding_turn plain_coding_env coding_feedback_default (Some ''/w'') quiet_perception local_state_default
      (answer_with None (Some listing)) = Some (status, ls', r')" and "ls_last_proposed_tool ls' = Some ''code.ls''"
    using listing_turn by (auto split: option.splits)
  then show ?thesis using coding_turn_explores_within_budget [OF turn] by (auto simp: plain_coding_env_def)
qed



end
