(* ===== verification/Thread_Exec_Laws.thy ===== *)
theory Thread_Exec_Laws
  imports Thread_Exec "HOL-Library.Sublist" Coding_Laws
begin

text \<open>
  The parallel execution of threads is the same for every schedule where it matters: all runs
  end, a contribution stands for an output that is the newest of its thread in the store, and nothing
  but threads, artifacts, events and the tracker changes. What the master loop later looks up under the
  artifact id of a cognitive thread's output is never there.
\<close>

section \<open>Every schedule ends all runs\<close>

fun phases_left :: "thread_phase \<Rightarrow> nat" where
  "phases_left TReady = 6"
| "phases_left (TPrompted _) = 5"
| "phases_left (TAnswered _) = 4"
| "phases_left (TCharged _) = 3"
| "phases_left (TStored _) = 2"
| "phases_left (TSaved _) = 1"
| "phases_left (TDone _) = 0"

lemma phases_left_0: "phases_left ph = 0 \<longleftrightarrow> (\<exists>r. ph = TDone r)"
  by (cases ph) auto

lemma thread_step_progress:
  "thread_step env tick_id snap k th preamble ph w = (ph', w') \<Longrightarrow> phases_left ph' \<le> phases_left ph - 1"
  by (cases ph) (auto simp: prepare_thread_def store_output_def split: if_splits sum.splits prod.splits)

lemma schedule_step_length [simp]:
  "length (fst (schedule_step env tick_id snap sp k st)) = length (fst st)"
  by (simp add: schedule_step_def split: prod.split)

lemma schedule_length [simp]:
  "length (fst (fold (schedule_step env tick_id snap sp) ks st)) = length (fst st)"
  by (induction ks arbitrary: st) auto

lemma schedule_step_progress:
  assumes "length (fst st) = length sp" "j < length sp"
  shows "phases_left (fst (schedule_step env tick_id snap sp k st) ! j) \<le> phases_left (fst st ! j) - (if k = j then 1 else 0)"
  using assms by (cases st) (auto simp: schedule_step_def nth_list_update dest: thread_step_progress split: prod.split)

lemma schedule_progress:
  assumes "length (fst st) = length sp" "j < length sp"
  shows "phases_left (fst (fold (schedule_step env tick_id snap sp) ks st) ! j) \<le> phases_left (fst st ! j) - count_list ks j"
  using assms(1)
proof (induction ks arbitrary: st)
  case (Cons k ks)
  have "phases_left (fst (fold (schedule_step env tick_id snap sp) (k # ks) st) ! j)
      \<le> phases_left (fst (schedule_step env tick_id snap sp k st) ! j) - count_list ks j"
    using Cons by simp
  also have "\<dots> \<le> phases_left (fst st ! j) - count_list (k # ks) j"
    using schedule_step_progress [OF Cons.prems assms(2), of env tick_id snap k] by (auto split: if_splits)
  finally show ?case .
qed simp

lemma count_rounds: "count_list (concat (map (replicate m) [0..<n])) j = (if j < n then m else 0)"
proof (induction n)
  case (Suc n)
  have "count_list (replicate m n) j = (if j = n then m else 0)" by (induction m) auto
  then show ?case using Suc by auto
qed simp

lemma run_threads_done:
  assumes "run_threads env tick_id snap sp picks w = (phases, w')"
  shows "length phases = length sp" "j < length sp \<Longrightarrow> \<exists>r. phases ! j = TDone r"
proof -
  show len: "length phases = length sp"
    using assms schedule_length [of env tick_id snap sp "whole_schedule (length sp) picks" "(replicate (length sp) TReady, w)"]
    by (simp add: run_threads_def)
  assume j: "j < length sp"
  have "phases_left (phases ! j) \<le> 6 - count_list (whole_schedule (length sp) picks) j"
    using schedule_progress [of "(replicate (length sp) TReady, w)" sp j env tick_id snap "whole_schedule (length sp) picks"] assms j
    by (simp add: run_threads_def)
  then have "phases_left (phases ! j) = 0" using j by (simp add: whole_schedule_def count_rounds)
  then show "\<exists>r. phases ! j = TDone r" by (simp add: phases_left_0)
qed

section \<open>What threads may change\<close>

definition thread_frame :: "('c, 't, 'l, 'i) tick_world \<Rightarrow> ('c, 't, 'l, 'i) tick_world \<Rightarrow> bool" where
  "thread_frame w w' \<longleftrightarrow> (let a = tw_kernel w; b = tw_kernel w' in
     kw_snapshots b = kw_snapshots a \<and> kw_ticks b = kw_ticks a \<and> kw_memory b = kw_memory a \<and>
     kw_conversations b = kw_conversations a \<and> kw_ledger b = kw_ledger a \<and> kw_inbox b = kw_inbox a \<and>
     kw_gate b = kw_gate a \<and> kw_mode b = kw_mode a)"

lemma thread_frame_refl [simp]: "thread_frame w w"
  by (simp add: thread_frame_def)

lemma thread_frame_trans: "thread_frame a b \<Longrightarrow> thread_frame b c \<Longrightarrow> thread_frame a c"
  by (simp add: thread_frame_def Let_def)

lemma thread_frame_updates [simp]:
  "thread_frame w (with_llm_view v w') = thread_frame w w'" "thread_frame w (with_threads t w') = thread_frame w w'"
  "thread_frame w (log_thread env e w') = thread_frame w w'"
  "thread_frame w (w'\<lparr>tw_kernel := (tw_kernel w')\<lparr>kw_artifacts := arts\<rparr>\<rparr>) = thread_frame w w'"
  "thread_frame w (w'\<lparr>tw_kernel := (tw_kernel w')\<lparr>kw_tracker := tr\<rparr>\<rparr>) = thread_frame w w'"
  by (simp_all add: thread_frame_def Let_def with_llm_view_def with_threads_def log_thread_def)

lemma kw_threads_updates [simp]:
  "kw_threads (tw_kernel (with_llm_view v w)) = kw_threads (tw_kernel w)" "kw_threads (tw_kernel (with_threads t w)) = t"
  "kw_threads (tw_kernel (log_thread env e w)) = kw_threads (tw_kernel w)"
  by (simp_all add: with_llm_view_def with_threads_def log_thread_def)

lemma thread_step_frame: "thread_step env tick_id snap k th preamble ph w = (ph', w') \<Longrightarrow> thread_frame w w'"
  by (cases ph) (auto simp: store_output_def split: if_splits sum.splits prod.splits)

lemma schedule_frame: "thread_frame (snd st) (snd (fold (schedule_step env tick_id snap sp) ks st))"
proof (induction ks arbitrary: st)
  case (Cons k ks)
  have "thread_frame (snd st) (snd (schedule_step env tick_id snap sp k st))"
    by (cases st) (auto simp: schedule_step_def dest: thread_step_frame split: prod.split)
  then show ?case using Cons [of "schedule_step env tick_id snap sp k st"] by (auto intro: thread_frame_trans)
qed simp

text \<open>Collecting the results touches neither the registry nor anything outside the frame.\<close>

definition collect_frame :: "('c, 't, 'l, 'i) tick_world \<Rightarrow> ('c, 't, 'l, 'i) tick_world \<Rightarrow> bool" where
  "collect_frame w w' \<longleftrightarrow> thread_frame w w' \<and> kw_threads (tw_kernel w') = kw_threads (tw_kernel w)"

lemma collect_frame_refl [simp]: "collect_frame w w"
  by (simp add: collect_frame_def)

lemma collect_frame_trans: "collect_frame a b \<Longrightarrow> collect_frame b c \<Longrightarrow> collect_frame a c"
  by (auto simp: collect_frame_def intro: thread_frame_trans)

lemma collect_frame_log [simp]: "collect_frame w (log_thread env e w') = collect_frame w w'"
  by (simp add: collect_frame_def)

lemma propose_charter_frame: "collect_frame w (propose_charter env tick_id tick ps k j d w)"
  by (auto simp: propose_charter_def Let_def split: option.split prod.split) (simp_all add: collect_frame_def)

lemma meta_frame: "collect_frame w (process_meta_cognition_output env tick_id tick k tx w)"
proof -
  have "collect_frame w (fold (\<lambda>(j, d). propose_charter env tick_id tick ps k j d) xs w)" for ps xs
    by (induction xs arbitrary: w) (auto intro: collect_frame_trans [OF propose_charter_frame])
  then show ?thesis by (simp add: process_meta_cognition_output_def Let_def)
qed

lemma collect_one_frame: "collect_one env tick_id tick k th r w = (cs, w') \<Longrightarrow> collect_frame w w'"
  by (auto simp: collect_one_def Let_def intro!: collect_frame_trans [OF _ meta_frame]
      split: sum.splits if_splits option.splits)

lemma collect_keeps: "collect env tick_id tick k rs w = (cs, w') \<Longrightarrow> collect_frame w w'"
proof (induction env tick_id tick k rs w arbitrary: cs w' rule: collect.induct)
  case (2 env tick_id tick k th r rest w)
  then show ?case by (auto split: prod.splits dest: collect_one_frame intro: collect_frame_trans)
qed simp

fun contributed :: "thread_output exo_result \<Rightarrow> thread_contribution list" where
  "contributed (Inl e) = []"
| "contributed (Inr out) = [\<lparr>tc_thread_id = to_thread_id out, tc_artifact_id = to_artifact_id out, tc_summary = to_summary out\<rparr>]"

lemma collect_contributions:
  "collect env tick_id tick k rs w = (cs, w') \<Longrightarrow> cs = concat (map (\<lambda>x. contributed (snd x)) rs)"
proof (induction env tick_id tick k rs w arbitrary: cs w' rule: collect.induct)
  case (2 env tick_id tick k th r rest w)
  have "collect_one env tick_id tick k th r w = (c, w1) \<Longrightarrow> c = contributed r" for c w1
    by (cases r) (auto simp: collect_one_def Let_def)
  then show ?case using 2 by (auto split: prod.splits)
qed simp

section \<open>No run disturbs another\<close>

text \<open>
  What a store must promise about the newest output and the last run of each thread: a write
  concerns the thread it names and no other.
\<close>

locale run_store =
  fixes ops :: "'t thread_ops" and newest :: "'t \<Rightarrow> uuid \<Rightarrow> thread_output option" and last_run :: "'t \<Rightarrow> uuid \<Rightarrow> u64 option"
  assumes save_law: "ts_save_result ops (result_of_output out) t = Inr t' \<Longrightarrow>
      newest t' = (newest t)(to_thread_id out := Some out) \<and> last_run t' = last_run t"
    and run_law: "ts_save_last_run ops i tick t = Inr t' \<Longrightarrow>
      last_run t' = (last_run t)(i := Some tick) \<and> newest t' = newest t"
begin

fun phase_ok :: "u64 \<Rightarrow> 't \<Rightarrow> thread_spec \<Rightarrow> thread_phase \<Rightarrow> bool" where
  "phase_ok tick t th (TStored out) = (to_thread_id out = sp_thread_id th)"
| "phase_ok tick t th (TSaved out) = (to_thread_id out = sp_thread_id th \<and> newest t (sp_thread_id th) = Some out)"
| "phase_ok tick t th (TDone (Inr out)) = (to_thread_id out = sp_thread_id th \<and> newest t (sp_thread_id th) = Some out
     \<and> last_run t (sp_thread_id th) = Some tick)"
| "phase_ok tick t th _ = True"

lemma phase_ok_cong:
  "newest t' (sp_thread_id th) = newest t (sp_thread_id th) \<Longrightarrow> last_run t' (sp_thread_id th) = last_run t (sp_thread_id th) \<Longrightarrow>
   phase_ok tick t' th ph = phase_ok tick t th ph"
  by (induction tick t th ph rule: phase_ok.induct) auto

lemma prepare_ok: "phase_ok tick t th (prepare_thread env snap k th' preamble t')"
  by (simp add: prepare_thread_def split: sum.split)

lemma store_ok:
  "store_output env k out w = (ph, w') \<Longrightarrow> to_thread_id out = sp_thread_id th \<Longrightarrow>
   phase_ok tick t th ph \<and> kw_threads (tw_kernel w') = kw_threads (tw_kernel w)"
  by (auto simp: store_output_def split: sum.splits prod.splits)

lemma step_ok:
  assumes step: "thread_step env tick_id snap k th preamble ph w = (ph', w')" and ops: "th_ops env = ops"
    and ok: "phase_ok (ss_tick_number snap + 1) (kw_threads (tw_kernel w)) th ph"
  shows "phase_ok (ss_tick_number snap + 1) (kw_threads (tw_kernel w')) th ph' \<and>
    (\<forall>i. i \<noteq> sp_thread_id th \<longrightarrow> newest (kw_threads (tw_kernel w')) i = newest (kw_threads (tw_kernel w)) i
      \<and> last_run (kw_threads (tw_kernel w')) i = last_run (kw_threads (tw_kernel w)) i)"
proof (cases ph)
  case TReady
  then show ?thesis using step by (auto simp: prepare_ok)
next
  case (TPrompted req)
  then show ?thesis using step by (auto split: sum.splits prod.splits)
next
  case (TAnswered resp)
  then show ?thesis using step by (auto split: if_splits)
next
  case (TCharged resp)
  then show ?thesis
    using step store_ok [of env k "output_of_response env tick_id th resp" w ph' w' th]
    by (simp add: output_of_response_def Let_def split: prod.splits)
next
  case (TStored out)
  then show ?thesis using step ops ok save_law [of out "kw_threads (tw_kernel w)"]
    by (auto simp: save_output_def split: sum.splits)
next
  case (TSaved out)
  then show ?thesis using step ops ok run_law [of "sp_thread_id th" "ss_tick_number snap + 1" "kw_threads (tw_kernel w)"]
    by (auto simp: record_run_def split: sum.splits)
next
  case (TDone r)
  then show ?thesis using step ok by simp
qed

definition runs_ok :: "state_snapshot \<Rightarrow> spawned list \<Rightarrow> thread_phase list \<times> ('c, 't, 'l, 'i) tick_world \<Rightarrow> bool" where
  "runs_ok snap sp st \<longleftrightarrow> length (fst st) = length sp \<and>
     (\<forall>j < length sp. phase_ok (ss_tick_number snap + 1) (kw_threads (tw_kernel (snd st))) (fst (sp ! j)) (fst st ! j))"

lemma schedule_step_ok:
  assumes "runs_ok snap sp st" "th_ops env = ops" "distinct (map (sp_thread_id \<circ> fst) sp)"
  shows "runs_ok snap sp (schedule_step env tick_id snap sp k st)"
proof (cases "k < length sp")
  case True
  obtain phases w where st: "st = (phases, w)" by (cases st)
  obtain ph w' where step: "thread_step env tick_id snap k (fst (sp ! k)) (snd (sp ! k)) (phases ! k) w = (ph, w')" by fastforce
  have ok: "phase_ok (ss_tick_number snap + 1) (kw_threads (tw_kernel w)) (fst (sp ! j)) (phases ! j)" if "j < length sp" for j
    using assms(1) that st by (simp add: runs_ok_def)
  have other: "sp_thread_id (fst (sp ! j)) \<noteq> sp_thread_id (fst (sp ! k))" if "j < length sp" "j \<noteq> k" for j
    using assms(3) True that by (simp add: distinct_conv_nth)
  have "phase_ok (ss_tick_number snap + 1) (kw_threads (tw_kernel w')) (fst (sp ! j)) (phases[k := ph] ! j)"
    if j: "j < length sp" for j
  proof (cases "j = k")
    case True
    then show ?thesis using step_ok [OF step assms(2) ok] j st assms(1) by (simp add: runs_ok_def)
  next
    case False
    then show ?thesis
      using phase_ok_cong [of "kw_threads (tw_kernel w')" "fst (sp ! j)" "kw_threads (tw_kernel w)"] ok [OF j]
        step_ok [OF step assms(2) ok [OF \<open>k < length sp\<close>]] other [OF j False] by simp
  qed
  then show ?thesis using assms(1) st step True by (simp add: schedule_step_def runs_ok_def)
next
  case False
  then show ?thesis using assms(1) by (cases st) (simp add: schedule_step_def)
qed

lemma run_threads_ok:
  assumes "run_threads env tick_id snap sp picks w = (phases, w')" "th_ops env = ops"
    "distinct (map (sp_thread_id \<circ> fst) sp)"
  shows "runs_ok snap sp (phases, w')"
proof -
  have "runs_ok snap sp (fold (schedule_step env tick_id snap sp) ks st)" if "runs_ok snap sp st" for ks and st :: "thread_phase list \<times> ('a, 't, 'b, 'c) tick_world"
    using that by (induction ks arbitrary: st) (simp_all add: schedule_step_ok [OF _ assms(2,3)])
  then show ?thesis
    using assms(1) by (metis (no_types, lifting) run_threads_def runs_ok_def fst_conv snd_conv length_replicate nth_replicate phase_ok.simps(4))
qed

end

text \<open>The in-memory registry keeps the promise: what \<open>recent_outputs(id, 1)\<close> and \<open>get_last_run(id)\<close> return.\<close>

definition newest_output :: "mem_threads \<Rightarrow> uuid \<Rightarrow> thread_output option" where
  "newest_output t i = (case ts_recent_outputs mem_thread_ops t i 1 of Inr [out] \<Rightarrow> Some out | _ \<Rightarrow> None)"

lemma newest_after_save:
  assumes "ts_save_result mem_thread_ops (result_of_output out) t = Inr t'"
  shows "newest_output t' = (newest_output t)(to_thread_id out := Some out)" "mt_last_runs t' = mt_last_runs t"
proof -
  have ok: "\<not> mt_outputs_poisoned t" using assms by (auto simp: mem_thread_ops_def mt_save_result_def locked_def split: if_splits)
  have same: "ts_recent_outputs mem_thread_ops t' i (Suc 0) = ts_recent_outputs mem_thread_ops t i (Suc 0)" if "i \<noteq> to_thread_id out" for i
    using assms that by (auto simp: ts_recent_outputs_def mem_thread_ops_def mt_save_result_def mt_recent_results_def
        locked_def map_of_entry_update result_of_output_def split: if_splits)
  obtain t'' where "save_output mem_thread_ops out t = Inr t''"
    and "\<exists>rest. ts_recent_outputs mem_thread_ops t'' (to_thread_id out) (Suc 0) = Inr (out # rest)
      \<and> ts_recent_outputs mem_thread_ops t (to_thread_id out) 0 = Inr rest"
    using recent_outputs_after_save [OF ok] by blast
  moreover have "ts_recent_outputs mem_thread_ops t (to_thread_id out) 0 = Inr []"
    using ok by (auto simp: ts_recent_outputs_def mem_thread_ops_def mt_recent_results_def split: option.split)
  ultimately have "ts_recent_outputs mem_thread_ops t' (to_thread_id out) 1 = Inr [out]" using assms by (auto simp: save_output_def)
  then show "newest_output t' = (newest_output t)(to_thread_id out := Some out)"
    by (auto simp: newest_output_def fun_eq_iff same)
  show "mt_last_runs t' = mt_last_runs t"
    using assms by (auto simp: mem_thread_ops_def mt_save_result_def locked_def split: if_splits)
qed

interpretation mem_runs: run_store mem_thread_ops newest_output "\<lambda>t. map_of (mt_last_runs t)"
proof
  fix out :: thread_output and t t' :: mem_threads and i tick
  show "newest_output t' = (newest_output t)(to_thread_id out := Some out) \<and> map_of (mt_last_runs t') = map_of (mt_last_runs t)"
    if "ts_save_result mem_thread_ops (result_of_output out) t = Inr t'"
    using newest_after_save [OF that] by simp
  show "map_of (mt_last_runs t') = (map_of (mt_last_runs t))(i := Some tick) \<and> newest_output t' = newest_output t"
    if "ts_save_last_run mem_thread_ops i tick t = Inr t'"
    using that by (auto simp: mem_thread_ops_def mt_save_last_run_def locked_def update_conv' newest_output_def
        ts_recent_outputs_def mt_recent_results_def fun_eq_iff split: if_splits)
qed

section \<open>Properties\<close>

lemma contributed_ids:
  "list_all2 (\<lambda>th r. \<forall>out. r = Inr out \<longrightarrow> to_thread_id out = sp_thread_id th) ths rs \<Longrightarrow>
   subseq (map tc_thread_id (concat (map (\<lambda>x. contributed (snd x)) (zip ths rs)))) (map sp_thread_id ths)"
proof (induction rule: list_all2_induct)
  case (Cons th ths r rs)
  then show ?case by (cases r) auto
qed simp


section \<open>The artifact id of an output\<close>

text \<open>
  The texts that running threads store: the JSON of responses, of outputs and of charter proposals.
\<close>

definition stored_texts :: "'t thread_env \<Rightarrow> string set" where
  "stored_texts env = {tx. \<exists>r. lh_encode (th_handler env) r = Inr tx} \<union> {tx. \<exists>out. th_encode_output env out = Inr tx}
     \<union> {case th_encode_proposal env pr of Inr tx \<Rightarrow> tx | Inl _ \<Rightarrow> [] | pr. True}"

definition artifact_ids :: "('c, 't, 'l, 'i) tick_world \<Rightarrow> artifact_id set" where
  "artifact_ids w = af_id ` set (db_rows (kw_artifacts (tw_kernel w)))"

definition stores_only :: "'t thread_env \<Rightarrow> ('c, 't, 'l, 'i) tick_world \<Rightarrow> ('c, 't, 'l, 'i) tick_world \<Rightarrow> bool" where
  "stores_only env w w' \<longleftrightarrow> artifact_ids w' \<subseteq> artifact_ids w \<union> ao_sha256_hex (th_arts env) ` stored_texts env
     \<and> db_scan (kw_artifacts (tw_kernel w')) = db_scan (kw_artifacts (tw_kernel w))
     \<and> db_poisoned (kw_artifacts (tw_kernel w')) = db_poisoned (kw_artifacts (tw_kernel w))
     \<and> db_fault (kw_artifacts (tw_kernel w')) = db_fault (kw_artifacts (tw_kernel w))"

lemma stores_only_refl [simp]: "stores_only env w w"
  by (simp add: stores_only_def)

lemma stores_only_trans: "stores_only env a b \<Longrightarrow> stores_only env b c \<Longrightarrow> stores_only env a c"
  by (fastforce simp: stores_only_def)

lemma stores_only_same:
  "kw_artifacts (tw_kernel w') = kw_artifacts (tw_kernel w) \<Longrightarrow> stores_only env w w'"
  by (simp add: stores_only_def artifact_ids_def)

lemma artifact_put_effect:
  assumes "artifact_put a db = (r, arts)"
  shows "af_id ` set (db_rows arts) \<subseteq> insert (af_id a) (af_id ` set (db_rows db))" "db_scan arts = db_scan db"
    "db_poisoned arts = db_poisoned db" "db_fault arts = db_fault db"
  using assms by (auto simp: artifact_put_def with_db_def locked_def split: sum.splits if_splits option.splits)

lemma stores_only_put:
  assumes "artifact_put (artifact_new (ao_sha256_hex (th_arts env)) now kind tx ty) (kw_artifacts (tw_kernel w)) = (r, arts)"
    "tx \<in> stored_texts env" "kw_artifacts (tw_kernel w') = arts"
  shows "stores_only env w w'"
  using artifact_put_effect [OF assms(1)] assms(2,3)
  by (auto simp: stores_only_def artifact_ids_def artifact_new_def artifact_new_with_timestamp_def)

lemma call_stores:
  assumes "handler_direct_llm_call (th_handler env) (th_arts env) request (llm_view w) = (r, v)" "ao_put (th_arts env) = artifact_put"
  shows "stores_only env w (with_llm_view v w)"
proof -
  have "lw_artifacts v = kw_artifacts (tw_kernel w) \<or> (\<exists>tx resp n i. lh_encode (th_handler env) resp = Inr tx
      \<and> artifact_put (artifact_new (ao_sha256_hex (th_arts env)) (lh_created (th_handler env) n) AkLlmResponse tx ''application/json'')
          (kw_artifacts (tw_kernel w)) = (i, lw_artifacts v))"
    using assms by (auto simp: handler_direct_llm_call_def Let_def llm_view_def split: sum.splits prod.splits) blast+
  moreover have "tx \<in> stored_texts env" if "lh_encode (th_handler env) resp = Inr tx" for tx resp
    using that by (auto simp: stored_texts_def)
  moreover have "kw_artifacts (tw_kernel (with_llm_view v w)) = lw_artifacts v" by (simp add: with_llm_view_def)
  ultimately show ?thesis by (metis stores_only_same stores_only_put)
qed

lemma thread_step_stores:
  assumes "thread_step env tick_id snap k th preamble ph w = (ph', w')" and put: "ao_put (th_arts env) = artifact_put"
  shows "stores_only env w w'"
proof (cases ph)
  case (TPrompted req)
  then show ?thesis using assms(1) call_stores [OF _ put] by (auto split: prod.splits sum.splits)
next
  case (TCharged resp)
  then show ?thesis using assms
    by (auto simp: store_output_def stored_texts_def intro!: stores_only_put split: sum.splits prod.splits)
qed (use assms in \<open>auto simp: with_threads_def intro!: stores_only_same split: sum.splits if_splits\<close>)

lemma schedule_stores:
  assumes "ao_put (th_arts env) = artifact_put"
  shows "stores_only env (snd st) (snd (fold (schedule_step env tick_id snap sp) ks st))"
proof (induction ks arbitrary: st)
  case (Cons k ks)
  have "stores_only env (snd st) (snd (schedule_step env tick_id snap sp k st))"
    by (cases st) (auto simp: schedule_step_def dest: thread_step_stores [OF _ assms] split: prod.split)
  then show ?case using Cons [of "schedule_step env tick_id snap sp k st"] by (auto intro: stores_only_trans)
qed simp

lemma log_thread_artifacts [simp]: "kw_artifacts (tw_kernel (log_thread env e w)) = kw_artifacts (tw_kernel w)"
  by (simp add: log_thread_def)

lemma propose_charter_stores:
  assumes "ao_put (th_arts env) = artifact_put"
  shows "stores_only env w (propose_charter env tick_id tick ps k j d w)"
  using assms
  by (auto simp: propose_charter_def Let_def stored_texts_def intro!: stores_only_put split: option.split prod.split)

lemma collect_stores:
  fixes env :: "'t thread_env" and w w' :: "('c, 't, 'l, 'i) tick_world"
  assumes "ao_put (th_arts env) = artifact_put" "collect env tick_id tick k rs w = (cs, w')"
  shows "stores_only env w w'"
proof -
  have fold: "stores_only env w (fold (\<lambda>(j, d). propose_charter env tick_id tick ps k j d) xs w)" for ps k xs and w :: "('c, 't, 'l, 'i) tick_world"
    by (induction xs arbitrary: w) (auto intro: stores_only_trans [OF propose_charter_stores [OF assms(1)]])
  have one: "collect_one env tick_id tick k th r w = (c, w1) \<Longrightarrow> stores_only env w w1" for k th r c and w w1 :: "('c, 't, 'l, 'i) tick_world"
    by (auto simp: collect_one_def Let_def process_meta_cognition_output_def stores_only_same
        intro!: stores_only_trans [OF _ fold] split: sum.splits if_splits option.splits)
  show ?thesis using assms(2)
  proof (induction rs arbitrary: k w cs w')
    case (Cons x rs)
    then show ?case by (cases x) (auto split: prod.splits dest!: one, blast intro: stores_only_trans)
  qed simp
qed


section \<open>The properties at concrete inputs\<close>

definition chatty_handler :: llm_handler where
  "chatty_handler = \<lparr>lh_default_backend = Local, lh_local = Some (\<lambda>_ _. Inr \<lparr>rp_content_blocks = [TextBlock ''ok''],
       rp_model = ''m'', rp_tokens_in = 3, rp_tokens_out = 1, rp_latency_ms = 0, rp_stop_reason = EndTurn,
       rp_cost_estimate_cents = None, rp_backend = Local\<rparr>),
     lh_frontier = None, lh_latency_ms = (\<lambda>_. 0), lh_created = (\<lambda>_. 0),
     lh_encode = (\<lambda>_. Inr ''response''), lh_tracker_poisoned = False\<rparr>"

definition plain_thread_env :: "mem_threads thread_env" where
  "plain_thread_env = \<lparr>th_handler = chatty_handler, th_arts = plain_arts, th_ops = mem_thread_ops, th_display = plain_display,
     th_alnum = (\<lambda>_. True), th_prompts = [], th_grace_period = 0, th_return_to_idle = False,
     th_cancelled_at_spawn = (\<lambda>_. False), th_cancelled_before_call = (\<lambda>_. False), th_tracker_free_filter = (\<lambda>_. True),
     th_tracker_free_run = (\<lambda>_. True), th_parse_response = (\<lambda>_. None), th_encode_output = (\<lambda>_. Inr ''output''),
     th_parse_meta = (\<lambda>_. None), th_encode_proposal = (\<lambda>_. Inr []), th_exec_cancelled = (\<lambda>_. False),
     th_coding = plain_coding_env, th_now = (\<lambda>_. 0), th_new_id = (\<lambda>_. 9)\<rparr>"

text \<open>Two due threads with all the tokens they want, picked in turns.\<close>

definition roomy_spec :: "uuid \<Rightarrow> thread_spec" where
  "roomy_spec i = (sample_spec i PLow EveryTick)\<lparr>sp_token_budget := - 1\<rparr>"

definition sample_tick_world :: "(mem_conversations, mem_threads, mem_ledger, mem_inbox) tick_world" where
  "sample_tick_world = \<lparr>tw_kernel = sample_kernel_world\<lparr>kw_threads := mem_threads_new\<lparr>mt_specs :=
     [(1, (roomy_spec 1, Cognitive ThActive)), (2, (roomy_spec 2, Cognitive ThActive))]\<rparr>\<rparr>, tw_calls = 0\<rparr>"

lemma roomy_context: "\<exists>ctx. compile_thread_context d cnt trunc (roomy_spec i) snap outs t pre = Inr ctx"
  by (simp add: compile_thread_context_def roomy_spec_def Let_def split: prod.split)

definition stores_work :: "('c, mem_threads, 'l, 'i) tick_world \<Rightarrow> bool" where
  "stores_work w \<longleftrightarrow> \<not> db_poisoned (kw_artifacts (tw_kernel w)) \<and> db_fault (kw_artifacts (tw_kernel w)) = None \<and>
     \<not> mt_outputs_poisoned (kw_threads (tw_kernel w)) \<and> \<not> mt_last_runs_poisoned (kw_threads (tw_kernel w))"

text \<open>No run fails, and every output is named after the answer \<open>ok\<close>.\<close>

fun plain_phase :: "thread_phase \<Rightarrow> bool" where
  "plain_phase (TAnswered resp) = (response_text resp = ''ok'')"
| "plain_phase (TCharged resp) = (response_text resp = ''ok'')"
| "plain_phase (TStored out) = (to_artifact_id out = ''ok'')"
| "plain_phase (TSaved out) = (to_artifact_id out = ''ok'')"
| "plain_phase (TDone (Inr out)) = (to_artifact_id out = ''ok'')"
| "plain_phase (TDone (Inl e)) = False"
| "plain_phase _ = True"

lemma roomy_prepare:
  assumes "\<not> mt_outputs_poisoned t"
  shows "plain_phase (prepare_thread plain_thread_env snap k (roomy_spec i) pre t)"
proof -
  obtain outs where outs: "ts_recent_outputs mem_thread_ops t (sp_thread_id (roomy_spec i)) 5 = Inr outs"
    using assms
    by (cases "map_of (mt_outputs t) (sp_thread_id (roomy_spec i))")
      (simp_all add: ts_recent_outputs_def mem_thread_ops_def mt_recent_results_def)
  obtain ctx where ctx: "compile_thread_context plain_display approximate_token_count truncate_to_budget (roomy_spec i) snap outs
      (charter_template plain_thread_env (roomy_spec i) snap) pre = Inr ctx" using roomy_context by blast
  have env: "th_ops plain_thread_env = mem_thread_ops" "th_display plain_thread_env = plain_display"
    "\<not> th_cancelled_at_spawn plain_thread_env k" "\<not> th_cancelled_before_call plain_thread_env k"
    by (simp_all add: plain_thread_env_def)
  show ?thesis using outs ctx by (simp add: prepare_thread_def env)
qed

lemma plain_put:
  "\<not> db_poisoned db \<Longrightarrow> db_fault db = None \<Longrightarrow> artifact_put a db =
    (Inr (af_id a), db\<lparr>db_rows := if list_ex (\<lambda>r. af_id r = af_id a) (db_rows db) then db_rows db else db_rows db @ [a]\<rparr>)"
  by (simp add: artifact_put_def with_db_def)

lemma plain_call:
  assumes "\<not> db_poisoned (lw_artifacts v)" "db_fault (lw_artifacts v) = None"
  shows "\<exists>r v'. handler_direct_llm_call chatty_handler plain_arts req v = (Inr r, v') \<and> response_text (dl_response r) = ''ok''
    \<and> \<not> db_poisoned (lw_artifacts v') \<and> db_fault (lw_artifacts v') = None"
  using assms
  by (cases "lr_backend req"; cases "the (lr_backend req)")
    (simp_all add: handler_direct_llm_call_def resolve_handler_backend_def chatty_handler_def backend_of_def other_backend_def
      plain_arts_def plain_put Let_def response_text_def)

lemma plain_step:
  assumes step: "thread_step plain_thread_env tick_id snap k (roomy_spec i) pre ph w = (ph', w')"
    and ok: "stores_work w" "plain_phase ph"
  shows "stores_work w' \<and> plain_phase ph'"
proof (cases ph)
  case TReady
  then show ?thesis using step ok(1) roomy_prepare by (auto simp: stores_work_def)
next
  case (TPrompted req)
  obtain r v' where "handler_direct_llm_call chatty_handler plain_arts req (llm_view w) = (Inr r, v')"
    "response_text (dl_response r) = ''ok''" "\<not> db_poisoned (lw_artifacts v')" "db_fault (lw_artifacts v') = None"
    using plain_call [of "llm_view w" req] ok(1) by (auto simp: stores_work_def llm_view_def)
  then show ?thesis using TPrompted step ok(1) by (auto simp: plain_thread_env_def stores_work_def with_llm_view_def)
next
  case (TAnswered resp)
  then show ?thesis using step ok by (auto simp: stores_work_def split: if_splits)
next
  case (TCharged resp)
  then show ?thesis using step ok
    by (auto simp: store_output_def plain_thread_env_def plain_arts_def plain_put stores_work_def output_of_response_def Let_def)
next
  case (TStored out)
  then show ?thesis using step ok
    by (auto simp: plain_thread_env_def save_output_def mem_thread_ops_def mt_save_result_def stores_work_def with_threads_def)
next
  case (TSaved out)
  then show ?thesis using step ok
    by (auto simp: plain_thread_env_def record_run_def mem_thread_ops_def mt_save_last_run_def stores_work_def with_threads_def)
next
  case (TDone r)
  then show ?thesis using step ok by simp
qed

lemma plain_runs:
  assumes "run_threads plain_thread_env tick_id snap (map (\<lambda>i. (roomy_spec i, f i)) is) picks w = (phases, w')"
    "stores_work w" "j < length is"
  shows "\<exists>out. phases ! j = TDone (Inr out) \<and> to_artifact_id out = ''ok''"
proof -
  let ?sp = "map (\<lambda>i. (roomy_spec i, f i)) is"
  let ?inv = "\<lambda>st. length (fst st) = length is \<and> stores_work (snd st) \<and> (\<forall>j < length is. plain_phase (fst st ! j))"
  have "?inv (schedule_step plain_thread_env tick_id snap ?sp k st)" if inv: "?inv st" for k and st :: "thread_phase list \<times> ('a, mem_threads, 'b, 'c) tick_world"
  proof (cases "k < length is")
    case True
    then obtain ph w' where step: "thread_step plain_thread_env tick_id snap k (roomy_spec (is ! k)) (f (is ! k)) (fst st ! k) (snd st) = (ph, w')"
      by fastforce
    then show ?thesis
      using inv True plain_step [OF step] by (cases st) (auto simp: schedule_step_def nth_list_update)
  qed (use inv in \<open>cases st; simp add: schedule_step_def\<close>)
  then have all: "?inv st \<Longrightarrow> ?inv (fold (schedule_step plain_thread_env tick_id snap ?sp) ks st)" for ks and st :: "thread_phase list \<times> ('a, mem_threads, 'b, 'c) tick_world"
    by (induction ks arbitrary: st) auto
  have "\<forall>j < length is. plain_phase (phases ! j)"
    using all [of "(replicate (length is) TReady, w)" "whole_schedule (length is) picks"] assms(1,2) by (simp add: run_threads_def)
  then have "plain_phase (phases ! j)" using assms(3) by simp
  moreover obtain r where "phases ! j = TDone r" using run_threads_done(2) [OF assms(1), of j] assms(3) by auto
  ultimately show ?thesis by (cases r) auto
qed

lemma sample_due: "due_threads mem_thread_ops (kw_threads (tw_kernel sample_tick_world)) 1 = Inr [roomy_spec 1, roomy_spec 2]"
  by (simp add: due_threads_def sample_tick_world_def sample_kernel_world_def mem_thread_ops_def mt_list_def mem_threads_new_def
      mt_get_last_run_def is_thread_due_def roomy_spec_def sample_spec_def map_filter_simps sort_desc_def)

lemma sample_execute:
  "\<exists>out1 out2 w'. execute_due_threads plain_thread_env [1, 0, 0, 1] (snapshot_initial 0 1 ''m'') one_message 9 sample_tick_world
    = (Inr (contributed (Inr out1) @ contributed (Inr out2)), w') \<and> to_artifact_id out1 = ''ok''"
proof -
  let ?snap = "snapshot_initial 0 1 ''m''"
  let ?sp = "map (\<lambda>i. (roomy_spec i, bootstrap_preamble plain_thread_env 1 (roomy_spec i))) [1, 2]"
  have runnable: "is_runnable plain_thread_env ?snap one_message (kw_tracker (tw_kernel sample_tick_world)) th" for th
    by (simp add: is_runnable_def should_pause_thread_while_waiting_on_operator_def one_message_def sample_tick_world_def
        sample_kernel_world_def)
  obtain phases w1 where run: "run_threads plain_thread_env 9 ?snap ?sp [1, 0, 0, 1] sample_tick_world = (phases, w1)" by fastforce
  have work: "stores_work sample_tick_world"
    by (simp add: stores_work_def sample_tick_world_def sample_kernel_world_def mem_threads_new_def open_db_def)
  have len: "length phases = 2" using run_threads_done(1) [OF run] by simp
  obtain out1 out2 where "phases ! 0 = TDone (Inr out1)" and ok: "to_artifact_id out1 = ''ok''" and "phases ! 1 = TDone (Inr out2)"
    using plain_runs [OF run work, of 0] plain_runs [OF run work, of 1] by auto
  then have phases: "phases = [TDone (Inr out1), TDone (Inr out2)]"
    using len by (auto simp: numeral_2_eq_2 length_Suc_conv)
  obtain cs w2 where col: "collect plain_thread_env 9 1 0 (zip [roomy_spec 1, roomy_spec 2] [Inr out1, Inr out2]) w1 = (cs, w2)" by fastforce
  have "cs = contributed (Inr out1) @ contributed (Inr out2)" using collect_contributions [OF col] by simp
  moreover have "execute_due_threads plain_thread_env [1, 0, 0, 1] ?snap one_message 9 sample_tick_world = (Inr cs, w2)"
    using sample_due runnable run phases col
    by (simp add: execute_due_threads_def snapshot_initial_def plain_thread_env_def)
  ultimately show ?thesis using ok by blast
qed



end
