(* ===== verification/Tick_Laws.thy ===== *)
theory Tick_Laws
  imports Tick Thread_Exec_Laws
begin

text \<open>
  What a whole tick does to the snapshot table, the tick table and the inbox: nothing before Amend commits, and
  nothing at all while thrash detection answers High.
\<close>

section \<open>Threads leave the committed tables alone\<close>

lemma execute_due_threads_frame: "execute_due_threads env picks snap p tick_id w = (r, w') \<Longrightarrow> thread_frame w w'"
proof -
  assume run: "execute_due_threads env picks snap p tick_id w = (r, w')"
  have "thread_frame w w'"
    if "run_threads env tick_id snap sp picks w = (phases, w1)" "collect env tick_id t 0 rs w1 = (cs, w')" for sp phases w1 t rs cs
    using schedule_frame [of "(replicate (length sp) TReady, w)" env tick_id snap sp "whole_schedule (length sp) picks"]
      collect_keeps [OF that(2)] that(1)
    by (auto simp: run_threads_def collect_frame_def intro: thread_frame_trans)
  then show ?thesis
    using run by (auto simp: execute_due_threads_def Let_def split: sum.splits if_splits prod.splits)
qed

lemma register_exec_output_frame: "register_exec_output env out w = (r, w') \<Longrightarrow> thread_frame w w'"
  by (auto simp: register_exec_output_def split: sum.splits)

lemma emit_frame [simp]: "thread_frame w (emit_exec_thread_update env tick_id k th out w2) = thread_frame w w2"
  by (simp add: emit_exec_thread_update_def)

lemma exec_threads_frame: "execute_exec_threads env snap p tick_id k xs acc w = (r, w') \<Longrightarrow> thread_frame w w'"
proof (induction xs arbitrary: k acc w r w')
  case (Cons x xs)
  obtain th status where x: "x = (th, status)" by (cases x)
  have later: "execute_exec_threads env snap p tick_id k' xs acc' w2 = (r, w') \<Longrightarrow> thread_frame w w2 \<Longrightarrow> thread_frame w w'" for k' acc' w2
    by (blast intro: thread_frame_trans Cons.IH)
  have reg: "register_exec_output env out (with_llm_view v w) = (r', w2) \<Longrightarrow> thread_frame w w2" for out v r' w2
    using register_exec_output_frame thread_frame_trans thread_frame_updates(1) thread_frame_refl by blast
  have next_thread: "execute_exec_threads env snap p tick_id k' xs acc' (emit_exec_thread_update env tick_id k th out w2) = (r, w') \<Longrightarrow>
      register_exec_output env out (with_llm_view v w) = (r', w2) \<Longrightarrow> thread_frame w w'" for k' acc' out v r' w2
    using later [of k' acc' "emit_exec_thread_update env tick_id k th out w2"] reg [of out v r' w2] by simp
  show ?case
    using Cons.prems
    by (simp add: x Let_def split: if_splits sum.splits prod.splits option.splits) (auto intro: later reg dest: next_thread)
qed simp

lemma registered_threads_frame:
  "execute_due_registered_threads env picks snap p tick_id w = (r, w') \<Longrightarrow> thread_frame w w'"
  by (auto simp: execute_due_registered_threads_def execute_due_executable_threads_def
      split: prod.splits option.splits sum.splits
      dest!: execute_due_threads_frame exec_threads_frame intro: thread_frame_trans)

section \<open>No phase before Amend touches them\<close>

definition loop_frame :: "('h, 'c, 't, 'l, 'i, 'b) loop_world \<Rightarrow> ('h, 'c, 't, 'l, 'i, 'b) loop_world \<Rightarrow> bool" where
  "loop_frame w w' \<longleftrightarrow> same_commit_tables (lo_kernel w) (lo_kernel w')"

lemma loop_frame_refl [simp]: "loop_frame w w"
  by (simp add: loop_frame_def)

lemma loop_frame_trans: "loop_frame a b \<Longrightarrow> loop_frame b c \<Longrightarrow> loop_frame a c"
  by (auto simp: loop_frame_def intro: same_commit_tables_trans)

lemma loop_frame_kernel [simp]:
  "loop_frame w (with_kernel ((lo_kernel w')\<lparr>kw_artifacts := a\<rparr>) w'') = loop_frame w w'"
  "loop_frame w (with_kernel ((lo_kernel w')\<lparr>kw_events := e\<rparr>) w'') = loop_frame w w'"
  "loop_frame w (with_kernel ((lo_kernel w')\<lparr>kw_artifacts := a, kw_events := e\<rparr>) w'') = loop_frame w w'"
  "loop_frame w (with_kernel ((lo_kernel w')\<lparr>kw_tracker := t\<rparr>) w'') = loop_frame w w'"
  "loop_frame w (with_kernel ((lo_kernel w')\<lparr>kw_conversations := c\<rparr>) w'') = loop_frame w w'"
  "loop_frame w (with_kernel ((lo_kernel w')\<lparr>kw_mode := m\<rparr>) w'') = loop_frame w w'"
  "loop_frame w (with_kernel ((lo_kernel w')\<lparr>kw_memory := mm\<rparr>) w'') = loop_frame w w'"
  "loop_frame w (with_kernel ((lo_kernel w')\<lparr>kw_ledger := l, kw_artifacts := a, kw_events := e\<rparr>) w'') = loop_frame w w'"
  "loop_frame w (with_kernel ((lo_kernel w')\<lparr>kw_artifacts := a, kw_events := e, kw_gate := g\<rparr>) w'') = loop_frame w w'"
  by (simp_all add: loop_frame_def same_commit_tables_def lo_kernel_def with_kernel_def)

lemma loop_frame_outer [simp]:
  "loop_frame w (w'\<lparr>lo_read_paths := r\<rparr>) = loop_frame w w'" "loop_frame w (w'\<lparr>lo_wakes := n\<rparr>) = loop_frame w w'"
  "loop_frame w (w'\<lparr>lo_tick := with_llm_view v (lo_tick w')\<rparr>) = loop_frame w w'"
  by (simp_all add: loop_frame_def same_commit_tables_def lo_kernel_def with_llm_view_def)

lemma loop_frame_threads: "thread_frame (lo_tick w) tw \<Longrightarrow> loop_frame w (w\<lparr>lo_tick := tw\<rparr>)"
  by (simp add: loop_frame_def same_commit_tables_def lo_kernel_def thread_frame_def Let_def)

lemma with_tracker_frame [simp]: "loop_frame w (with_tracker env f w') = loop_frame w w'"
  by (simp add: with_tracker_def)

lemma log_tick_frame [simp]: "loop_frame w (log_tick env e w') = loop_frame w w'"
  by (simp add: log_tick_def)

lemma log_messages_frame [simp]: "loop_frame w (log_messages env k ms w') = loop_frame w w'"
  by (induction env k ms w' rule: log_messages.induct) simp_all

lemma put_json_frame: "put_json env site kind tx w = (r, w') \<Longrightarrow> loop_frame w w'"
  by (auto simp: put_json_def split: prod.splits)

definition keeps_tables :: "('x, ('h, 'c, 't, 'l, 'i, 'b) loop_world) step \<Rightarrow> bool" where
  "keeps_tables f \<longleftrightarrow> (\<forall>w r w'. f w = (r, w') \<longrightarrow> loop_frame w w')"

lemma keeps_tablesI: "(\<And>w r w'. f w = (r, w') \<Longrightarrow> loop_frame w w') \<Longrightarrow> keeps_tables f"
  by (simp add: keeps_tables_def)

lemma keeps_tablesD: "keeps_tables f \<Longrightarrow> f w = (r, w') \<Longrightarrow> loop_frame w w'"
  by (simp add: keeps_tables_def)

lemma keeps_load: "keeps_tables (load_snapshot env)"
  by (auto simp: load_snapshot_def Let_def intro!: keeps_tablesI split: sum.splits if_splits)

lemma keeps_begin: "keeps_tables (begin_tick env snap)"
proof (rule keeps_tablesI)
  fix w r w' assume run: "begin_tick env snap w = (r, w')"
  let ?w2 = "if ke_read_paths_poisoned env then with_tracker env reset_tick_counters w
    else (with_tracker env reset_tick_counters w)\<lparr>lo_read_paths := []\<rparr>"
  have "loop_frame w ?w2" by simp
  moreover have "loop_frame ?w2 w'"
    using run by (auto simp: begin_tick_def Let_def split: sum.splits prod.splits dest!: put_json_frame)
  ultimately show "loop_frame w w'" by (rule loop_frame_trans)
qed

lemma keeps_perceive: "keeps_tables (perceive_phase env snap)"
proof (rule keeps_tablesI)
  fix w r w' assume run: "perceive_phase env snap w = (r, w')"
  obtain pr k where pr: "perceive (am_chrono (ke_amend env)) (am_inbox (ke_amend env)) (am_conv (ke_amend env)) (ke_new_conversation env)
      (previous_tick_id env w) (lo_kernel w) = (pr, k)" by fastforce
  obtain convs where k: "k = (lo_kernel w)\<lparr>kw_conversations := convs\<rparr>" using perceive_frame [OF pr] by blast
  have fk: "loop_frame w (with_kernel k w)" by (simp add: k)
  show "loop_frame w w'"
  proof (cases pr)
    case (Inl e)
    then show ?thesis using run pr fk by (auto simp: perceive_phase_def)
  next
    case (Inr p)
    obtain polls w1 where watch: "run_watches env (ss_tick_number snap + 1) (log_messages env 0 (pe_new_messages p) (with_kernel k w)) = (polls, w1)"
      by fastforce
    have "loop_frame (log_messages env 0 (pe_new_messages p) (with_kernel k w)) w1"
      using watch by (auto simp: run_watches_def split: prod.splits)
    then have f1: "loop_frame w w1" using fk loop_frame_trans log_messages_frame by blast
    obtain tr tw where th: "execute_due_registered_threads (ke_threads env) (ke_picks env) snap p (ke_tick_id env) (lo_tick w1) = (tr, tw)"
      by fastforce
    have "w' = w1\<lparr>lo_tick := tw\<rparr>"
      using run pr Inr watch th by (auto simp: perceive_phase_def split: option.splits if_splits)
    then show ?thesis using f1 loop_frame_threads [OF registered_threads_frame [OF th]] loop_frame_trans by blast
  qed
qed

lemma keeps_orient: "keeps_tables (orient_phase env snap p)"
  by (rule keeps_tablesI) (auto simp: orient_phase_def split: option.splits sum.splits prod.splits if_splits dest!: put_json_frame)

lemma plan_draft_frame [simp]: "loop_frame w (store_plan_draft env d w') = loop_frame w w'"
  by (auto simp: store_plan_draft_def put_json_def split: option.split prod.split)

lemma keeps_decide: "keeps_tables (decide_phase env p ctx)"
  by (rule keeps_tablesI) (auto simp: decide_phase_def Let_def split: prod.splits sum.splits if_splits)

lemma align_phase_frame: "align_phase env tick p d hold polls w = (al, w') \<Longrightarrow> loop_frame w w'"
  by (auto simp: align_phase_def split: prod.splits)

lemma keeps_act: "keeps_tables (act_phase env tick al)"
proof (rule keeps_tablesI)
  fix w r w' assume "act_phase env tick al w = (r, w')"
  then show "loop_frame w w'"
    by (simp add: act_phase_def Let_def split: prod.splits option.splits sum.splits) (auto simp: lo_kernel_def with_kernel_def loop_frame_def same_commit_tables_def)
qed

lemma keeps_reflect: "keeps_tables (reflect_phase env snap d xs ds)"
  by (rule keeps_tablesI) (auto simp: reflect_phase_def split: prod.splits)

lemma keeps_thrash: "keeps_tables (thrash_phase env tick)"
  by (rule keeps_tablesI) (auto simp: thrash_phase_def Let_def split: if_splits)

section \<open>The whole tick\<close>

text \<open>The snapshot a tick starts from.\<close>

definition current_snapshot ::
  "('h, 'c, 't, 'l, 'i, 'b) tick_env \<Rightarrow> ('h, 'c, 't, 'l, 'i, 'b) loop_world \<Rightarrow> state_snapshot exo_result" where
  "current_snapshot env w = (case snapshot_latest (am_snapshot_codec (ke_amend env)) (kw_snapshots (lo_kernel w)) of
     Inl e \<Rightarrow> Inl e
   | Inr None \<Rightarrow> Inr (snapshot_initial (ke_initial_at env) (ke_vessel_id env) (ke_mission env))
   | Inr (Some s) \<Rightarrow> Inr s)"

lemma load_snapshot_Inr:
  "load_snapshot env w = (Some (Inr snap), w') \<Longrightarrow> w' = w \<and> current_snapshot env w = Inr snap"
  by (auto simp: load_snapshot_def current_snapshot_def Let_def split: sum.splits option.splits if_splits)

lemma then_step_cases:
  assumes "then_step f g w = (r, w')"
  obtains out where "f w = (None, w')" "r = None"
    | out where "f w = (Some (Inl out), w')" "r = Some (Inl out)"
    | x w1 where "f w = (Some (Inr x), w1)" "g x w1 = (r, w')"
  using assms by (auto simp: then_step_def split: prod.splits option.splits sum.splits)

lemma assessment_frame: "loop_frame w w' \<Longrightarrow> recent_assessment env tick w' = recent_assessment env tick w"
  by (simp add: recent_assessment_def loop_frame_def same_commit_tables_def)

lemma thrash_phase_high:
  assumes "ta_level (recent_assessment env tick w) = ThrashHigh"
  shows "\<exists>out w'. thrash_phase env tick w = (Some (Inl out), w')"
  using assms by (simp add: thrash_phase_def Let_def)

text \<open>What a continuation that starts with unchanged tables may do to them.\<close>

definition tick_effect ::
  "('h, 'c, 't, 'l, 'i, 'b) tick_env \<Rightarrow> u64 \<Rightarrow> ('h, 'c, 't, 'l, 'i, 'b) loop_world \<Rightarrow> ('h, 'c, 't, 'l, 'i, 'b) loop_world \<Rightarrow> bool" where
  "tick_effect env tick w w' \<longleftrightarrow> loop_frame w w' \<or>
     ta_level (recent_assessment env tick w) \<noteq> ThrashHigh \<and>
     (kw_inbox (lo_kernel w') = kw_inbox (lo_kernel w) \<or> committed (ke_amend env) (ke_tick_id env) tick (lo_kernel w) (lo_kernel w'))"

lemma tick_effect_frame: "loop_frame a b \<Longrightarrow> tick_effect env tick b c \<Longrightarrow> tick_effect env tick a c"
  using assessment_frame [of a b env tick] loop_frame_trans [of a b c]
  by (auto simp: tick_effect_def loop_frame_def same_commit_tables_def committed_def)

lemma then_step_effect:
  assumes "then_step f g w = (r, w')" "keeps_tables f"
    "\<And>x w1. f w = (Some (Inr x), w1) \<Longrightarrow> g x w1 = (r, w') \<Longrightarrow> tick_effect env tick w1 w'"
  shows "tick_effect env tick w w'"
  using assms(1)
proof (cases rule: then_step_cases)
  case (3 x w1)
  then show ?thesis using tick_effect_frame [OF keeps_tablesD [OF assms(2)]] assms(3) by blast
qed (auto simp: tick_effect_def dest: keeps_tablesD [OF assms(2)])

lemma settle_tables [simp]:
  "kw_inbox (lo_kernel (settle_budget env xs w)) = kw_inbox (lo_kernel w)"
  "kw_snapshots (lo_kernel (settle_budget env xs w)) = kw_snapshots (lo_kernel w)"
  "kw_ticks (lo_kernel (settle_budget env xs w)) = kw_ticks (lo_kernel w)"
  by (auto simp: settle_budget_def lo_kernel_def with_kernel_def Let_def split: option.split)

lemma end_tables [simp]:
  "kw_inbox (lo_kernel (wake_for_exec env w)) = kw_inbox (lo_kernel w)"
  "kw_snapshots (lo_kernel (wake_for_exec env w)) = kw_snapshots (lo_kernel w)"
  "kw_ticks (lo_kernel (wake_for_exec env w)) = kw_ticks (lo_kernel w)"
  by (simp_all add: wake_for_exec_def lo_kernel_def)

lemma compact_tables:
  "compact_session env ctx w = (b, w') \<Longrightarrow> kw_inbox (lo_kernel w') = kw_inbox (lo_kernel w) \<and>
     kw_snapshots (lo_kernel w') = kw_snapshots (lo_kernel w) \<and> kw_ticks (lo_kernel w') = kw_ticks (lo_kernel w)"
  by (auto simp: compact_session_def lo_kernel_def with_kernel_def split: if_splits prod.splits)

lemma committed_cong:
  "kw_snapshots b = kw_snapshots a \<Longrightarrow> kw_ticks b = kw_ticks a \<Longrightarrow> committed env i tick w b = committed env i tick w a"
  by (simp add: committed_def)

text \<open>The Amend phase adds to the step only what the tables do not see.\<close>

lemma amend_phase_step:
  assumes "amend_phase env tick snap before_id p d al xs r breakdown ctx w = (out, w')"
  shows "\<exists>res k. amend (ke_amend env) (ke_tick_id env) tick (ke_started_at env) snap before_id p d al xs r breakdown (lo_kernel w) = (res, k)
    \<and> kw_inbox (lo_kernel w') = kw_inbox k \<and> kw_snapshots (lo_kernel w') = kw_snapshots k \<and> kw_ticks (lo_kernel w') = kw_ticks k
    \<and> (\<forall>o' c. out = Some (HSuccess o' c) \<longrightarrow> (\<exists>tx. res = Some (Inr tx)))"
proof -
  obtain res k where am: "amend (ke_amend env) (ke_tick_id env) tick (ke_started_at env) snap before_id p d al xs r breakdown (lo_kernel w) = (res, k)"
    by fastforce
  have wk: "lo_kernel (with_kernel k w) = k" by (simp add: lo_kernel_def with_kernel_def)
  show ?thesis
    using assms am wk
    by (auto simp: amend_phase_def Let_def split: option.splits sum.splits prod.splits bool.splits dest!: compact_tables)
qed

lemma amend_phase_effect:
  assumes "amend_phase env tick snap before_id p d al xs r breakdown ctx w = (out, w')"
    and "ta_level (recent_assessment env tick w) \<noteq> ThrashHigh"
  shows "tick_effect env tick w w'"
proof -
  obtain res k where am: "amend (ke_amend env) (ke_tick_id env) tick (ke_started_at env) snap before_id p d al xs r breakdown (lo_kernel w) = (res, k)"
    and k: "kw_inbox (lo_kernel w') = kw_inbox k" "kw_snapshots (lo_kernel w') = kw_snapshots k" "kw_ticks (lo_kernel w') = kw_ticks k"
    using amend_phase_step [OF assms(1)] by (elim exE conjE) simp
  show ?thesis
    using amend_effect [OF am] assms(2) k committed_cong [OF k(2,3), of "ke_amend env" "ke_tick_id env" tick "lo_kernel w"]
    by (auto simp: tick_effect_def)
qed

lemma thrash_phase_passes:
  "thrash_phase env tick w = (Some (Inr u), w') \<Longrightarrow> ta_level (recent_assessment env tick w') \<noteq> ThrashHigh"
  using assessment_frame [OF keeps_tablesD [OF keeps_thrash], of env tick w "Some (Inr u)" w' env tick]
  by (auto simp: thrash_phase_def Let_def split: if_splits)

lemma after_decide_effect:
  assumes "then_step (act_phase env tick al) (\<lambda>(xs, diff_section).
      then_step (reflect_phase env snap d xs diff_section) (\<lambda>r.
      then_step (thrash_phase env tick) (\<lambda>_ w2.
        (case amend_phase env tick snap before_id p d al xs r breakdown ctx w2 of
           (out, w3) \<Rightarrow> (map_option Inr out, w3))))) w = (res, w')"
  shows "tick_effect env tick w w'"
proof (rule then_step_effect [OF assms keeps_act])
  fix x w1
  assume "(case x of (xs, diff_section) \<Rightarrow>
      then_step (reflect_phase env snap d xs diff_section) (\<lambda>r.
      then_step (thrash_phase env tick) (\<lambda>_ w2.
        (case amend_phase env tick snap before_id p d al xs r breakdown ctx w2 of
           (out, w3) \<Rightarrow> (map_option Inr out, w3))))) w1 = (res, w')"
  then obtain xs diff_section where refl: "then_step (reflect_phase env snap d xs diff_section) (\<lambda>r.
      then_step (thrash_phase env tick) (\<lambda>_ w2.
        (case amend_phase env tick snap before_id p d al xs r breakdown ctx w2 of
           (out, w3) \<Rightarrow> (map_option Inr out, w3)))) w1 = (res, w')"
    by (cases x) simp
  show "tick_effect env tick w1 w'"
  proof (rule then_step_effect [OF refl keeps_reflect])
    fix r w2
    assume thrash: "then_step (thrash_phase env tick) (\<lambda>_ w2.
        (case amend_phase env tick snap before_id p d al xs r breakdown ctx w2 of
           (out, w3) \<Rightarrow> (map_option Inr out, w3))) w2 = (res, w')"
    show "tick_effect env tick w2 w'"
    proof (rule then_step_effect [OF thrash keeps_thrash])
      fix u w3
      assume "thrash_phase env tick w2 = (Some (Inr u), w3)"
        and "(case amend_phase env tick snap before_id p d al xs r breakdown ctx w3 of (out, w4) \<Rightarrow> (map_option Inr out, w4)) = (res, w')"
      then show "tick_effect env tick w3 w'"
        by (auto split: prod.splits intro: amend_phase_effect dest: thrash_phase_passes)
    qed
  qed
qed

lemma from_decide_effect:
  assumes "(let tick = ss_tick_number snap + 1;
            (al, w1) = align_phase env tick p d hold polls w
        in then_step (act_phase env tick al) (\<lambda>(xs, diff_section).
           then_step (reflect_phase env snap d xs diff_section) (\<lambda>r.
           then_step (thrash_phase env tick) (\<lambda>_ w2.
             (case amend_phase env tick snap before_id p d al xs r breakdown ctx w2 of
                (out, w3) \<Rightarrow> (map_option Inr out, w3))))) w1) = (res, w')"
  shows "tick_effect env (ss_tick_number snap + 1) w w'"
proof -
  obtain al w1 where al: "align_phase env (ss_tick_number snap + 1) p d hold polls w = (al, w1)" by fastforce
  show ?thesis
    using assms tick_effect_frame [OF align_phase_frame [OF al] after_decide_effect] by (simp add: al Let_def)
qed

lemma run_phases_effect:
  assumes run: "run_phases env w = (res, w')" and snap: "current_snapshot env w = Inr snap"
  shows "tick_effect env (ss_tick_number snap + 1) w w'"
proof (rule then_step_effect [OF run [unfolded run_phases_def] keeps_load], drule load_snapshot_Inr, elim conjE, hypsubst)
  fix s
  assume s: "current_snapshot env w = Inr s" and run: "then_step (begin_tick env s) (\<lambda>before_id.
     then_step (perceive_phase env s) (\<lambda>(p, polls).
     then_step (orient_phase env s p) (\<lambda>(ctx, breakdown).
     then_step (decide_phase env p ctx) (\<lambda>(d, hold) w.
       (let tick = ss_tick_number s + 1;
            (al, w1) = align_phase env tick p d hold polls w
        in then_step (act_phase env tick al) (\<lambda>(xs, diff_section).
           then_step (reflect_phase env s d xs diff_section) (\<lambda>r.
           then_step (thrash_phase env tick) (\<lambda>_ w2.
             (case amend_phase env tick s before_id p d al xs r breakdown ctx w2 of
                (out, w3) \<Rightarrow> (map_option Inr out, w3))))) w1))))) w = (res, w')"
  have [simp]: "s = snap" using s snap by simp
  show "tick_effect env (ss_tick_number snap + 1) w w'"
    using run
    by (rule then_step_effect [OF _ keeps_begin]) (simp split: prod.splits,
      erule then_step_effect [OF _ keeps_perceive], simp split: prod.splits,
      erule then_step_effect [OF _ keeps_orient], simp split: prod.splits,
      erule then_step_effect [OF _ keeps_decide], simp split: prod.splits, rule from_decide_effect, simp)
qed

lemma run_tick_effect:
  "current_snapshot env w = Inr snap \<Longrightarrow> tick_effect env (ss_tick_number snap + 1) w (snd (run_tick env w))"
  by (auto simp: run_tick_def split: prod.splits intro: run_phases_effect)

text \<open>
  C27. A tick acknowledges messages only after it has committed. Whatever happens in a tick (a step fails, a lock is
  poisoned, the tick is cancelled between phases, a panic), either the inbox is as it was before, or the snapshot and the
  tick record with the number after that of the current snapshot have been appended to their tables; and when the
  current snapshot cannot be read at all, nothing of the three has changed.
\<close>

theorem tick_acknowledges_after_commit:
  "case current_snapshot env w of
     Inl _ \<Rightarrow> same_commit_tables (lo_kernel w) (lo_kernel (snd (run_tick env w)))
   | Inr snap \<Rightarrow> kw_inbox (lo_kernel (snd (run_tick env w))) = kw_inbox (lo_kernel w) \<or>
       committed (ke_amend env) (ke_tick_id env) (ss_tick_number snap + 1) (lo_kernel w) (lo_kernel (snd (run_tick env w)))"
proof (cases "current_snapshot env w")
  case (Inl e)
  then have "run_tick env w = (Some (HRetryable (''Perceive: failed to load snapshot: '' @ exo_error_display e)), w)"
    by (simp add: run_tick_def run_phases_def then_step_def load_snapshot_def current_snapshot_def split: sum.splits option.splits)
  then show ?thesis using Inl by (simp add: same_commit_tables_def)
next
  case (Inr snap)
  then show ?thesis using run_tick_effect [OF Inr] by (auto simp: tick_effect_def loop_frame_def same_commit_tables_def)
qed

text \<open>The loop: one tick after the other.\<close>

primrec run_ticks ::
  "('h, 'c, 't, 'l, 'i, 'b) tick_env list \<Rightarrow> ('h, 'c, 't, 'l, 'i, 'b) loop_world \<Rightarrow> ('h, 'c, 't, 'l, 'i, 'b) loop_world" where
  "run_ticks [] w = w"
| "run_ticks (env # envs) w = run_ticks envs (snd (run_tick env w))"

text \<open>
  C28. Once thrash detection answers High, the loop never leaves it. The detector looks at the stored ticks just before
  the number after that of the current snapshot; a High answer ends the tick before Amend, so neither a snapshot nor a
  tick is stored and no message is acknowledged, and the next tick has the same number and finds the same ticks. However
  many ticks run and whatever the model, the tools and the clocks answer in them, the three tables stay as they are:
  every further tick decides and acts again, and none of it is recorded as a tick.
\<close>

theorem high_thrash_is_forever:
  assumes snap: "snapshot_latest sc (kw_snapshots (lo_kernel w)) = Inr (Some snap)"
    and ticks: "tick_range tc (kw_ticks (lo_kernel w)) (sat_sub (ss_tick_number snap + 1) 10) (sat_sub (ss_tick_number snap + 1) 1) = Inr ticks"
    and high: "ta_level (thrash_check ticks) = ThrashHigh"
    and envs: "list_all (\<lambda>env. am_snapshot_codec (ke_amend env) = sc \<and> am_tick_codec (ke_amend env) = tc) envs"
  shows "same_commit_tables (lo_kernel w) (lo_kernel (run_ticks envs w))"
  using envs snap ticks
proof (induction envs arbitrary: w)
  case (Cons env envs)
  define w1 where "w1 = snd (run_tick env w)"
  have "current_snapshot env w = Inr snap" "ta_level (recent_assessment env (ss_tick_number snap + 1) w) = ThrashHigh"
    using Cons.prems high by (auto simp: current_snapshot_def recent_assessment_def)
  then have f: "same_commit_tables (lo_kernel w) (lo_kernel w1)"
    using run_tick_effect [of env w snap] by (auto simp: tick_effect_def loop_frame_def w1_def)
  moreover have "same_commit_tables (lo_kernel w1) (lo_kernel (run_ticks envs w1))"
    using f Cons.prems by (intro Cons.IH) (auto simp: same_commit_tables_def)
  ultimately show ?case by (auto simp: w1_def intro: same_commit_tables_trans)
qed (simp add: same_commit_tables_def)

section \<open>The properties at concrete inputs\<close>

definition failing_action :: action_record where
  "failing_action = \<lparr>ar_action_type = ''fs.read'', ar_target = [], ar_receipt_ref = None, ar_outcome = Failure,
     ar_origin_exec_thread_id = None, ar_proposal_id = None\<rparr>"

definition failing_tick :: tick_record where
  "failing_tick = \<lparr>tr_tick_id = 3, tr_tick_number = 1, tr_phase = Amend, tr_started_at = 0, tr_completed_at = None,
     tr_snapshot_before = [], tr_snapshot_after = None, tr_thread_contributions = [], tr_exec_thread_contributions = [],
     tr_actions_taken = replicate 5 failing_action, tr_llm_calls = [], tr_decision_rationale = None, tr_context_breakdown_ref = None\<rparr>"

definition first_snapshot :: state_snapshot where
  "first_snapshot = (snapshot_initial 0 1 ''m'')\<lparr>ss_tick_number := 1\<rparr>"

definition thrashing_env :: "((string \<times> json) list, mem_conversations, mem_threads, mem_ledger, mem_inbox, unit) tick_env" where
  "thrashing_env = \<lparr>ke_vessel_id = 1, ke_mission = ''m'', ke_tick_id = 9, ke_started_at = 0, ke_initial_at = 0, ke_now = (\<lambda>_. 0),
     ke_new_id = (\<lambda>_. 8), ke_new_conversation = of_nat,
     ke_amend = plain_amend_env\<lparr>am_snapshot_codec := \<lparr>enc = (\<lambda>_. Inr ''snapshot''), dec = (\<lambda>_. Inr first_snapshot)\<rparr>,
       am_tick_codec := \<lparr>enc = (\<lambda>_. Inr ''tick''), dec = (\<lambda>_. Inr failing_tick)\<rparr>\<rparr>,
     ke_threads = plain_thread_env, ke_picks = [],
     ke_watch = \<lparr>we_show_uuid = (\<lambda>_. ''id''), we_sha256_hex = (\<lambda>_. ''c0ffee''), we_new_id = of_nat,
       we_created_at = (\<lambda>_. 0), we_event_time = (\<lambda>_. 0), we_query_metric = (\<lambda>_. Inr (Fin 4)),
       we_encode = (\<lambda>_ _ _. ''{}''), we_put = put_ok plain_arts, we_log_event = append_event (\<lambda>_. [])\<rparr>,
     ke_orient = \<lparr>or_arts = plain_arts, or_display = plain_display, or_alnum = (\<lambda>_. True), or_prompts = [], or_vessel_id = 1,
       or_mission = ''m'', or_workspace = None, or_parse_json = (\<lambda>_. None), or_parse_relationships = (\<lambda>_. None),
       or_compiler = \<lparr>ccp_count = approximate_token_count, ccp_truncate = truncate_to_budget, ccp_total_budget = - 1,
         ccp_section_priorities = plain_priorities\<rparr>\<rparr>,
     ke_decide = plain_decide_env,
     ke_align = \<lparr>ae_chrono = nanos_chrono, ae_exp = flush_exp, ae_show_uuid = (\<lambda>_. ''id''), ae_sha256_hex = (\<lambda>_. ''c0ffee''),
       ae_append = ledger_append (\<lambda>_. []), ae_distinct_principals = ledger_distinct_principals,
       ae_for_principal = ledger_for_principal, ae_get_artifact = ao_get plain_arts, ae_put_artifact = put_ok plain_arts,
       ae_parse_signal = (\<lambda>_. None), ae_encode_request = (\<lambda>_ _ _ _. ''{}''), ae_log_event = append_event (\<lambda>_. []),
       ae_active_count = active_count, ae_save_watch = ws_save, ae_trust_decay = None, ae_max_watches = 10,
       ae_signal_id = of_nat, ae_now = 0, ae_compiled_at = 0, ae_check_fresh = (\<lambda>i. (of_nat i, 0)),
       ae_request_created = (\<lambda>_. 0), ae_request_fresh = (\<lambda>i. (of_nat i, 0)), ae_watch_fresh = (\<lambda>i. (of_nat i, 0))\<rparr>,
     ke_act = \<lparr>xe_slot = SlotReady, xe_arts = plain_arts, xe_describe = (\<lambda>h. sample_describe),
       xe_invoke = (\<lambda>tool ps h. (Inr ps, h @ [(tool, ps)])), xe_internal_error = id, xe_path_exists = (\<lambda>h p. False),
       xe_path_is_file = (\<lambda>h p. False), xe_encode_diff = (\<lambda>d. None), xe_log_event = append_event (\<lambda>_. []),
       xe_latest_tick = Inr None, xe_tick_range = (\<lambda>a b. Inr []), xe_gate_poisoned = False, xe_gate_free = (\<lambda>i. True),
       xe_mode = (\<lambda>i. MNormal), xe_policy = tool_policy_default, xe_approvals = (\<lambda>i. []),
       xe_translate = (\<lambda>i. \<lparr>te_question_id = ''q'', te_now = 0, te_asked_at = [], te_observatory_url = None,
         te_observatory_token = None\<rparr>),
       xe_fresh = (\<lambda>i. (of_nat i, int i)), xe_created = int, xe_diff_created = int, xe_cancelled = (\<lambda>i. False)\<rparr>,
     ke_reflect = \<lparr>re_handler = silent_handler, re_arts = plain_arts, re_alnum = (\<lambda>_. True), re_prompts = [], re_vessel_id = 1,
       re_mission = ''m'', re_show_uuid = (\<lambda>_. ''id''), re_max_output_tokens = 100, re_cancelled = False, re_parse = (\<lambda>_. None)\<rparr>,
     ke_compaction = \<lparr>ce_json = (\<lambda>_. ''{}''), ce_sha256 = (\<lambda>_. ''c0ffee''), ce_now = (\<lambda>_. 0)\<rparr>,
     ke_tracker_poisoned = False, ke_read_paths_poisoned = False, ke_cancelled_after = (\<lambda>_. False),
     ke_encode_context = (\<lambda>_. Inr ''{}''), ke_encode_plan_update = (\<lambda>_. Inr ''{}''), ke_encode_diff_summary = (\<lambda>_. None),
     ke_save_budget = (\<lambda>_ b. Inr b), ke_has_wake_signal = True\<rparr>"

definition thrashing_world :: "((string \<times> json) list, mem_conversations, mem_threads, mem_ledger, mem_inbox, unit) loop_world" where
  "thrashing_world = \<lparr>lo_tick = sample_tick_world\<lparr>tw_kernel := sample_kernel_world\<lparr>
       kw_snapshots := open_db\<lparr>db_rows := [\<lparr>sn_tick_number = 1, sn_vessel_id = 1, sn_data = ''snapshot'', sn_created_at = 0\<rparr>]\<rparr>,
       kw_ticks := open_db\<lparr>db_rows := [\<lparr>tk_tick_id = 3, tk_tick_number = 1, tk_data = ''tick'', tk_started_at = 0,
         tk_completed_at = None\<rparr>]\<rparr>\<rparr>\<rparr>,
     lo_watches = [], lo_host = [], lo_read_paths = [], lo_budget_store = (), lo_wakes = 0\<rparr>"

lemma thrashing_high: "ta_level (thrash_check [failing_tick]) = ThrashHigh"
proof -
  have "failures_of ''fs.read'' [failing_tick] = 5"
    by (simp add: failures_of_def all_actions_def failing_tick_def failing_action_def)
  then have "5 \<le> check_action_repetition [failing_tick]" using repetition_upper by (metis order_refl)
  then show ?thesis by (auto simp: thrash_check_def Let_def split: prod.split)
qed

theorem high_thrash_is_forever_witness:
  "same_commit_tables (lo_kernel thrashing_world) (lo_kernel (run_ticks (replicate 100 thrashing_env) thrashing_world))"
proof (rule high_thrash_is_forever [where snap = first_snapshot and ticks = "[failing_tick]"])
  show "snapshot_latest (am_snapshot_codec (ke_amend thrashing_env)) (kw_snapshots (lo_kernel thrashing_world)) = Inr (Some first_snapshot)"
    by (simp add: thrashing_env_def thrashing_world_def lo_kernel_def snapshot_latest_def with_db_def locked_def open_db_def order_desc_def
        sort_desc_def snapshot_deserialize_def)
  show "tick_range (am_tick_codec (ke_amend thrashing_env)) (kw_ticks (lo_kernel thrashing_world))
      (sat_sub (ss_tick_number first_snapshot + 1) 10) (sat_sub (ss_tick_number first_snapshot + 1) 1) = Inr [failing_tick]"
    by (simp add: thrashing_env_def thrashing_world_def lo_kernel_def tick_range_def with_db_def locked_def open_db_def order_asc_def
        sort_asc_def tick_deserialize_def first_snapshot_def sat_sub_def)
  show "list_all (\<lambda>env. am_snapshot_codec (ke_amend env) = am_snapshot_codec (ke_amend thrashing_env) \<and>
      am_tick_codec (ke_amend env) = am_tick_codec (ke_amend thrashing_env)) (replicate 100 thrashing_env)"
    by (simp add: list_all_iff)
qed (rule thrashing_high)

end
