(* ===== verification/Sql_Conversations.thy ===== *)
theory Sql_Conversations
  imports Conversations Sql_Stores
begin

text \<open>
  The SQLite conversation store (\<open>exoskeleton-host/src/storage/conversation_store.rs\<close>): conversations, the index from
  envelopes to conversations and the index of participants, written together in one transaction.

  The locale \<open>conversation_table\<close> is the part of the contract of the trait that grouping relies on and that a database
  without an order of its own can keep; the store in memory and the one in SQLite are its interpretations.
\<close>

section \<open>Tables\<close>

record conv_row =
  cr_id :: uuid
  cr_state :: string
  cr_topic :: "string option"
  cr_created_at :: datetime
  cr_updated_at :: datetime
  cr_data :: string

record conv_db =
  cd_rows :: "conv_row list"
  cd_envelopes :: "(uuid \<times> uuid) list" \<comment> \<open>envelope, conversation\<close>
  cd_participants :: "(uuid \<times> uuid) list" \<comment> \<open>conversation, principal\<close>
  cd_poisoned :: bool
  cd_fault :: "string option"
  cd_constraint :: string \<comment> \<open>the text of a violated primary key\<close>
  cd_scan :: "conv_row list \<Rightarrow> conv_row list"

type_synonym conv_codec = "(uuid list \<times> conversation_message list) codec"

definition open_conversations :: conv_db where
  "open_conversations = \<lparr>cd_rows = [], cd_envelopes = [], cd_participants = [], cd_poisoned = False, cd_fault = None,
     cd_constraint = ''UNIQUE constraint failed'', cd_scan = id\<rparr>"

definition with_convs :: "string \<Rightarrow> conv_db \<Rightarrow> 'b exo_result \<Rightarrow> 'b exo_result" where
  "with_convs what st r = locked (cd_poisoned st) (case cd_fault st of
     Some e \<Rightarrow> Inl (Storage (what @ '': '' @ e)) | None \<Rightarrow> r)"

fun state_to_str :: "conversation_state \<Rightarrow> string" where
  "state_to_str CActive = ''active''"
| "state_to_str CStale = ''stale''"
| "state_to_str CClosed = ''closed''"

definition state_of_str :: "string \<Rightarrow> conversation_state option" where
  "state_of_str s = (if s = ''active'' then Some CActive else if s = ''stale'' then Some CStale
     else if s = ''closed'' then Some CClosed else None)"

section \<open>Operations\<close>

text \<open>The columns read back in their order; \<open>bad\<close> is the text of a failed conversion of a state.\<close>

definition row_to_conversation :: "conv_codec \<Rightarrow> (string \<Rightarrow> string) \<Rightarrow> conv_row \<Rightarrow> string + conversation" where
  "row_to_conversation c bad r = (case state_of_str (cr_state r) of
     None \<Rightarrow> Inl (bad (cr_state r))
   | Some state \<Rightarrow> (case dec c (cr_data r) of
       Inl e \<Rightarrow> Inl e
     | Inr (participants, message_refs) \<Rightarrow> Inr \<lparr>cv_id = cr_id r, cv_participants = participants, cv_message_refs = message_refs,
         cv_state = state, cv_topic = cr_topic r, cv_created_at = cr_created_at r, cv_updated_at = cr_updated_at r\<rparr>))"

definition read_conv :: "conv_codec \<Rightarrow> (string \<Rightarrow> string) \<Rightarrow> string \<Rightarrow> conv_row \<Rightarrow> conversation exo_result" where
  "read_conv c bad what r = (case row_to_conversation c bad r of
     Inl e \<Rightarrow> Inl (Storage (what @ '' row: '' @ e)) | Inr conv \<Rightarrow> Inr conv)"

text \<open>\<open>INSERT OR IGNORE\<close> of the envelopes and \<open>INSERT\<close> of the participants, on their primary keys.\<close>

definition index_envelope :: "uuid \<Rightarrow> conversation_message \<Rightarrow> (uuid \<times> uuid) list \<Rightarrow> (uuid \<times> uuid) list" where
  "index_envelope i m es = (if map_of es (cm_envelope_id m) = None then es @ [(cm_envelope_id m, i)] else es)"

fun insert_participants :: "uuid \<Rightarrow> uuid list \<Rightarrow> (uuid \<times> uuid) list \<Rightarrow> (uuid \<times> uuid) list option" where
  "insert_participants i [] ps = Some ps"
| "insert_participants i (p # rest) ps = (if (i, p) \<in> set ps then None else insert_participants i rest (ps @ [(i, p)]))"

definition sql_conv_save :: "conv_codec \<Rightarrow> conversation \<Rightarrow> conv_db \<Rightarrow> conv_db exo_result" where
  "sql_conv_save c conv st = locked (cd_poisoned st)
     (case enc c (cv_participants conv, cv_message_refs conv) of
        Inl e \<Rightarrow> Inl (Storage (''conversation data serialization: '' @ e))
      | Inr data \<Rightarrow> with_convs ''begin transaction'' st
          (let rows = filter (\<lambda>r. cr_id r \<noteq> cv_id conv) (cd_rows st) @ [\<lparr>cr_id = cv_id conv, cr_state = state_to_str (cv_state conv),
                 cr_topic = cv_topic conv, cr_created_at = cv_created_at conv, cr_updated_at = cv_updated_at conv, cr_data = data\<rparr>];
               envs = fold (index_envelope (cv_id conv)) (cv_message_refs conv) (cd_envelopes st)
           in case insert_participants (cv_id conv) (cv_participants conv)
                  (filter (\<lambda>p. fst p \<noteq> cv_id conv) (cd_participants st)) of
                None \<Rightarrow> Inl (Storage (''participant insert: '' @ cd_constraint st))
              | Some ps \<Rightarrow> Inr (st\<lparr>cd_rows := rows, cd_envelopes := envs, cd_participants := ps\<rparr>)))"

definition sql_conv_get :: "conv_codec \<Rightarrow> (string \<Rightarrow> string) \<Rightarrow> conv_db \<Rightarrow> uuid \<Rightarrow> conversation option exo_result" where
  "sql_conv_get c bad st i = with_convs ''prepare'' st (case List.find (\<lambda>r. cr_id r = i) (cd_rows st) of
     None \<Rightarrow> Inr None
   | Some r \<Rightarrow> (case read_conv c bad ''get'' r of Inl e \<Rightarrow> Inl e | Inr conv \<Rightarrow> Inr (Some conv)))"

definition sql_find_by_envelope :: "conv_db \<Rightarrow> uuid \<Rightarrow> uuid option exo_result" where
  "sql_find_by_envelope st e = with_convs ''prepare'' st (Inr (map_of (cd_envelopes st) e))"

definition limit_capped :: "nat \<Rightarrow> nat" where
  "limit_capped limit = min limit (2 ^ 31 - 1)"

definition sql_find_by_principal ::
  "conv_codec \<Rightarrow> (string \<Rightarrow> string) \<Rightarrow> conv_db \<Rightarrow> uuid \<Rightarrow> nat \<Rightarrow> conversation list exo_result" where
  "sql_find_by_principal c bad st p limit = with_convs ''prepare'' st
     (decode_all (read_conv c bad ''find_by_principal'') (take (limit_capped limit) (sort_desc cr_updated_at
        (cd_scan st (filter (\<lambda>r. (cr_id r, p) \<in> set (cd_participants st)) (cd_rows st))))))"

definition sql_active_conversations ::
  "conv_codec \<Rightarrow> (string \<Rightarrow> string) \<Rightarrow> conv_db \<Rightarrow> nat \<Rightarrow> conversation list exo_result" where
  "sql_active_conversations c bad st limit = with_convs ''prepare'' st
     (decode_all (read_conv c bad ''active_conversations'') (take (limit_capped limit) (sort_desc cr_updated_at
        (cd_scan st (filter (\<lambda>r. cr_state r = ''active'') (cd_rows st))))))"

definition sql_conv_ops :: "conv_codec \<Rightarrow> (string \<Rightarrow> string) \<Rightarrow> conv_db conv_ops" where
  "sql_conv_ops c bad = \<lparr>co_save = sql_conv_save c, co_get = sql_conv_get c bad, co_find_by_envelope = sql_find_by_envelope,
     co_active = sql_active_conversations c bad\<rparr>"

section \<open>The contract that grouping relies on\<close>

text \<open>
  A conversation may be written when its participants are distinct and it still has every message of the
  stored conversation with its id.
\<close>

definition writable :: "conversation \<Rightarrow> conversation list \<Rightarrow> bool" where
  "writable c cs \<longleftrightarrow> distinct (cv_participants c) \<and>
     (\<forall>x \<in> set cs. cv_id x = cv_id c \<longrightarrow> set (cv_message_refs x) \<subseteq> set (cv_message_refs c))"

definition mentions :: "uuid \<Rightarrow> conversation \<Rightarrow> bool" where
  "mentions e c \<longleftrightarrow> e \<in> cm_envelope_id ` set (cv_message_refs c)"

definition convs_ok :: "conversation list \<Rightarrow> bool" where
  "convs_ok cs \<longleftrightarrow> convs_wf cs \<and> list_all (\<lambda>c. distinct (cv_participants c)) cs"

lemma all_messages_mset: "all_messages cs = sum_mset (image_mset (\<lambda>c. mset (cv_message_refs c)) (mset cs))"
  unfolding all_messages_def by (simp only: mset_map [symmetric] sum_mset_sum_list)

lemma same_ids: "mset xs = mset ys \<Longrightarrow> f ` set xs = f ` set ys"
  by (metis set_mset_mset)

lemma find_unique:
  assumes "distinct (map key xs)"
  shows "List.find (\<lambda>x. key x = i) xs = Some x \<longleftrightarrow> x \<in> set xs \<and> key x = i"
  using assms by (induction xs) (auto simp: rev_image_eqI split: if_splits)

lemma find_none: "List.find P xs = None \<longleftrightarrow> \<not> list_ex P xs"
  by (induction xs) auto

locale conversation_table =
  fixes ops :: "'s conv_ops"
    and convs :: "'s \<Rightarrow> conversation list"
    and usable :: "'s \<Rightarrow> bool"
  assumes stored_ok: "usable st \<Longrightarrow> convs_ok (convs st)"
    and save_law: "usable st \<Longrightarrow> writable c (convs st) \<Longrightarrow>
      \<exists>st'. co_save ops c st = Inr st' \<and> usable st' \<and> mset (convs st') = mset (upsert c (convs st))"
    and get_law: "usable st \<Longrightarrow> \<exists>r. co_get ops st i = Inr r \<and> (\<forall>c. r = Some c \<longleftrightarrow> c \<in> set (convs st) \<and> cv_id c = i)"
    and find_law: "usable st \<Longrightarrow> \<exists>r. co_find_by_envelope ops st e = Inr r \<and>
      (\<forall>i. r = Some i \<longrightarrow> (\<exists>c \<in> set (convs st). cv_id c = i \<and> mentions e c)) \<and>
      (r = None \<longrightarrow> \<not> list_ex (mentions e) (convs st))"
    and active_law: "usable st \<Longrightarrow> \<exists>cs. co_active ops st n = Inr cs \<and> set cs \<subseteq> {c \<in> set (convs st). cv_state c = CActive}"
begin

lemma writable_with_envelope:
  assumes "usable st" "c \<in> set (convs st)"
  shows "writable (with_envelope e c) (convs st)"
proof -
  have ok: "convs_wf (convs st)" "distinct (cv_participants c)"
    using stored_ok [OF assms(1)] assms(2) by (auto simp: convs_ok_def list_all_iff)
  have same: "x = c" if "x \<in> set (convs st)" "cv_id x = cv_id c" for x
    using ok(1) that assms(2) by (simp add: convs_wf_def distinct_map inj_on_def)
  have "distinct (cv_participants (with_envelope e c))" using ok(2) by (simp add: with_envelope_def add_message_def Let_def)
  moreover have "set (cv_message_refs x) \<subseteq> set (cv_message_refs (with_envelope e c))"
    if "x \<in> set (convs st)" "cv_id x = cv_id (with_envelope e c)" for x
    using same [OF that(1)] that(2) by auto
  ultimately show ?thesis by (simp add: writable_def)
qed

lemma save_message:
  assumes "usable st" "c \<in> set (convs st)"
  shows "\<exists>st'. co_save ops (with_envelope e c) st = Inr st' \<and> usable st'
    \<and> cv_id ` set (convs st') = cv_id ` set (convs st)
    \<and> all_messages (convs st') = all_messages (convs st) + {#message_of e#}"
proof -
  obtain st' where st': "co_save ops (with_envelope e c) st = Inr st'" "usable st'"
    "mset (convs st') = mset (upsert (with_envelope e c) (convs st))"
    using save_law [OF assms(1) writable_with_envelope [OF assms]] by blast
  have "convs_wf (convs st)" using stored_ok [OF assms(1)] by (simp add: convs_ok_def)
  then have "all_messages (upsert (with_envelope e c) (convs st)) = all_messages (convs st) + {#message_of e#}"
    by (rule all_messages_upsert_old [OF assms(2)]) simp_all
  moreover have "cv_id ` set (convs st') = cv_id ` set (convs st)"
    using same_ids [OF st'(3), of cv_id] assms(2) by (auto simp: upsert_ids)
  ultimately show ?thesis using st' by (auto simp: all_messages_mset)
qed

lemma group_one:
  assumes "usable st" "new_id \<notin> cv_id ` set (convs st)"
  shows "\<exists>st'. group_envelope ch ops new_id e st = Inr st' \<and> usable st'
    \<and> cv_id ` set (convs st') \<subseteq> insert new_id (cv_id ` set (convs st))
    \<and> all_messages (convs st') = all_messages (convs st) + (if conversational e then {#message_of e#} else {#})"
proof (cases "conversational e")
  case False
  with assms show ?thesis by (auto simp: group_envelope_alt)
next
  case True
  have old: ?thesis if "c \<in> set (convs st)" "group_envelope ch ops new_id e st = co_save ops (with_envelope e c) st" for c
    using save_message [OF assms(1) that(1), of e] that(2) True by auto
  obtain r where r: "reply_target ops e st = Inr r" "\<And>c. r = Some c \<Longrightarrow> c \<in> set (convs st)"
  proof (cases "me_in_reply_to e")
    case (Some parent)
    obtain t where t: "co_find_by_envelope ops st parent = Inr t" using find_law [OF assms(1)] by blast
    show ?thesis
    proof (cases t)
      case (Some i)
      obtain g where "co_get ops st i = Inr g" "\<forall>c. g = Some c \<longleftrightarrow> c \<in> set (convs st) \<and> cv_id c = i"
        using get_law [OF assms(1)] by blast
      then show ?thesis using that [of g] t Some \<open>me_in_reply_to e = Some parent\<close> by (auto simp: reply_target_def)
    qed (use that [of None] t Some in \<open>simp add: reply_target_def\<close>)
  qed (use that [of None] in \<open>simp add: reply_target_def\<close>)
  obtain cs where cs: "co_active ops st 50 = Inr cs" "set cs \<subseteq> {c \<in> set (convs st). cv_state c = CActive}"
    using active_law [OF assms(1)] by blast
  show ?thesis
  proof (cases r)
    case (Some c)
    then show ?thesis using old [OF r(2)] r(1) True by (simp add: group_envelope_alt)
  next
    case None
    show ?thesis
    proof (cases "List.find (in_window ch e) cs")
      case (Some c)
      then have "c \<in> set (convs st)" using find_member cs(2) by fastforce
      then show ?thesis using old Some r(1) None cs(1) True by (simp add: group_envelope_alt)
    next
      case new: None
      let ?c = "from_first_message new_id (me_source e) (me_id e) (me_payload_ref e) (me_timestamp e)"
      have w: "writable ?c (convs st)" using assms(2) by (force simp: writable_def from_first_message_def)
      obtain st' where st': "co_save ops ?c st = Inr st'" "usable st'" "mset (convs st') = mset (upsert ?c (convs st))"
        using save_law [OF assms(1) w] by blast
      have "all_messages (upsert ?c (convs st)) = all_messages (convs st) + {#message_of e#}"
        using assms(2) all_messages_upsert_new [of ?c] by (simp add: from_first_message_def message_of_def)
      moreover have "cv_id ` set (convs st') \<subseteq> insert new_id (cv_id ` set (convs st))"
        using same_ids [OF st'(3), of cv_id] by (auto simp: upsert_ids from_first_message_def)
      moreover have "group_envelope ch ops new_id e st = Inr st'"
        using st'(1) r(1) None cs(1) new True by (simp add: group_envelope_alt)
      ultimately show ?thesis using st'(2,3) True by (auto simp: all_messages_mset)
    qed
  qed
qed

lemma group_all:
  assumes "usable st" "distinct (map fst es)" "fst ` set es \<inter> cv_id ` set (convs st) = {}"
  shows "\<exists>st'. group_envelopes_into_conversations ch ops es st = (Inr (), st') \<and> usable st'
    \<and> all_messages (convs st') = all_messages (convs st) + mset (map message_of (filter conversational (map snd es)))"
  using assms
proof (induction es arbitrary: st)
  case (Cons ie es)
  obtain i e where ie: "ie = (i, e)" by (cases ie)
  obtain st1 where st1: "group_envelope ch ops i e st = Inr st1" "usable st1"
    "cv_id ` set (convs st1) \<subseteq> insert i (cv_id ` set (convs st))"
    "all_messages (convs st1) = all_messages (convs st) + (if conversational e then {#message_of e#} else {#})"
    using group_one [OF Cons.prems(1), of i ch e] Cons.prems(3) ie by auto
  have "fst ` set es \<inter> cv_id ` set (convs st1) = {}" using st1(3) Cons.prems(2,3) unfolding ie by simp blast
  then show ?case using Cons.IH [OF st1(2)] Cons.prems(2) st1(1,4) ie by (auto simp: add.commute)
qed simp

end

section \<open>The store in memory and the store in SQLite\<close>

lemma filter_absent: "i \<notin> cv_id ` set cs \<Longrightarrow> filter (\<lambda>x. cv_id x \<noteq> i) cs = cs"
  by (rule filter_True) (metis image_eqI)

lemma update_first_mset:
  "distinct (map cv_id cs) \<Longrightarrow> cv_id c \<in> cv_id ` set cs \<Longrightarrow>
   mset (update_first (\<lambda>x. cv_id x = cv_id c) (\<lambda>_. c) cs) = mset (filter (\<lambda>x. cv_id x \<noteq> cv_id c) cs) + {#c#}"
proof (induction cs)
  case (Cons x xs)
  show ?case
  proof (cases "cv_id x = cv_id c")
    case True
    then have "filter (\<lambda>y. cv_id y \<noteq> cv_id c) xs = xs" using Cons.prems(1) by (intro filter_absent) auto
    then show ?thesis using True by simp
  qed (use Cons in auto)
qed simp

lemma mset_upsert: "convs_wf cs \<Longrightarrow> mset (upsert c cs) = mset (filter (\<lambda>x. cv_id x \<noteq> cv_id c) cs) + {#c#}"
  by (cases "cv_id c \<in> cv_id ` set cs")
    (simp_all add: upsert_def convs_wf_def list_ex_image_iff update_first_mset filter_absent del: mset_filter)

lemma convs_ok_upsert:
  assumes "convs_ok cs" "distinct (cv_participants c)"
  shows "convs_ok (upsert c cs)"
proof -
  have "set_mset (mset (upsert c cs)) \<subseteq> insert c (set cs)"
    using assms(1) by (subst mset_upsert) (auto simp: convs_ok_def)
  then have "set (upsert c cs) \<subseteq> insert c (set cs)" by simp
  then show ?thesis using assms upsert_wf by (fastforce simp: convs_ok_def list_all_iff)
qed

interpretation memory_table: conversation_table mem_ops mc_conversations "\<lambda>st. \<not> mc_poisoned st \<and> convs_ok (mc_conversations st)"
proof
  fix st :: mem_conversations and c i e n
  assume ok: "\<not> mc_poisoned st \<and> convs_ok (mc_conversations st)"
  then have wf: "distinct (map cv_id (mc_conversations st))" by (simp add: convs_ok_def convs_wf_def)
  show "convs_ok (mc_conversations st)" using ok by simp
  show "\<exists>st'. co_save mem_ops c st = Inr st' \<and> (\<not> mc_poisoned st' \<and> convs_ok (mc_conversations st')) \<and>
      mset (mc_conversations st') = mset (upsert c (mc_conversations st))" if "writable c (mc_conversations st)"
    using ok that convs_ok_upsert by (simp add: mem_ops_def conv_save_def writable_def)
  show "\<exists>r. co_get mem_ops st i = Inr r \<and> (\<forall>c. r = Some c \<longleftrightarrow> c \<in> set (mc_conversations st) \<and> cv_id c = i)"
    using ok find_unique [OF wf] by (simp add: mem_ops_def conv_get_def)
  show "\<exists>r. co_find_by_envelope mem_ops st e = Inr r \<and>
      (\<forall>i. r = Some i \<longrightarrow> (\<exists>c\<in>set (mc_conversations st). cv_id c = i \<and> mentions e c)) \<and>
      (r = None \<longrightarrow> \<not> list_ex (mentions e) (mc_conversations st))"
  proof -
    let ?P = "\<lambda>c. list_ex (\<lambda>m. cm_envelope_id m = e) (cv_message_refs c)"
    have P: "?P = mentions e" by (auto simp: fun_eq_iff mentions_def list_ex_iff)
    have "co_find_by_envelope mem_ops st e = Inr (map_option cv_id (List.find (mentions e) (mc_conversations st)))"
      using ok by (simp add: mem_ops_def conv_find_by_envelope_def P)
    then show ?thesis using find_found [of "mentions e" "mc_conversations st"] find_none [of "mentions e" "mc_conversations st"] by auto
  qed
  show "\<exists>cs. co_active mem_ops st n = Inr cs \<and> set cs \<subseteq> {c \<in> set (mc_conversations st). cv_state c = CActive}"
    using ok by (auto simp: mem_ops_def active_conversations_def dest: in_set_takeD)
qed

definition conv_of_row :: "conv_codec \<Rightarrow> (string \<Rightarrow> string) \<Rightarrow> conv_row \<Rightarrow> conversation" where
  "conv_of_row c bad r = projr (row_to_conversation c bad r)"

definition stored_convs :: "conv_codec \<Rightarrow> (string \<Rightarrow> string) \<Rightarrow> conv_db \<Rightarrow> conversation list" where
  "stored_convs c bad st = map (conv_of_row c bad) (cd_rows st)"

text \<open>The envelope index holds exactly the envelopes of the stored messages, each under a conversation that has it.\<close>

definition index_ok :: "(uuid \<times> uuid) list \<Rightarrow> conversation list \<Rightarrow> bool" where
  "index_ok es cs \<longleftrightarrow> (\<forall>e i. map_of es e = Some i \<longrightarrow> (\<exists>x \<in> set cs. cv_id x = i \<and> mentions e x)) \<and>
     (\<forall>e. map_of es e = None \<longrightarrow> \<not> list_ex (mentions e) cs)"

definition conv_db_ok :: "conv_codec \<Rightarrow> (string \<Rightarrow> string) \<Rightarrow> conv_db \<Rightarrow> bool" where
  "conv_db_ok c bad st \<longleftrightarrow> codec_ok c \<and> \<not> cd_poisoned st \<and> cd_fault st = None \<and> (\<forall>rs. mset (cd_scan st rs) = mset rs)
     \<and> list_all (\<lambda>r. \<not> isl (row_to_conversation c bad r)) (cd_rows st)
     \<and> convs_ok (stored_convs c bad st) \<and> index_ok (cd_envelopes st) (stored_convs c bad st)"

lemma state_of_str_iff: "state_of_str s = Some x \<longleftrightarrow> s = state_to_str x"
  by (cases x) (auto simp: state_of_str_def)

lemma state_roundtrip [simp]: "state_of_str (state_to_str x) = Some x"
  by (simp add: state_of_str_iff)

lemma row_read:
  assumes "\<not> isl (row_to_conversation c bad r)"
  shows "row_to_conversation c bad r = Inr (conv_of_row c bad r)" "cv_id (conv_of_row c bad r) = cr_id r"
    "cr_state r = state_to_str (cv_state (conv_of_row c bad r))" "read_conv c bad what r = Inr (conv_of_row c bad r)"
  using assms
  by (auto simp: row_to_conversation_def conv_of_row_def read_conv_def state_of_str_iff split: option.splits sum.splits prod.splits)

lemma insert_participants_distinct:
  "distinct ps \<Longrightarrow> {i} \<times> set ps \<inter> set qs = {} \<Longrightarrow> insert_participants i ps qs \<noteq> None"
  by (induction i ps qs rule: insert_participants.induct) auto

lemma index_fold:
  "map_of (fold (index_envelope i) ms es) e =
     (if map_of es e \<noteq> None then map_of es e else if e \<in> cm_envelope_id ` set ms then Some i else None)"
  by (induction ms arbitrary: es) (auto simp: index_envelope_def map_add_def split: option.splits)

lemma index_upsert:
  assumes ok: "index_ok es cs" and wf: "convs_ok cs" and w: "writable conv cs"
  shows "index_ok (fold (index_envelope (cv_id conv)) (cv_message_refs conv) es) (upsert conv cs)"
proof -
  have set: "set (upsert conv cs) = {x \<in> set cs. cv_id x \<noteq> cv_id conv} \<union> {conv}"
  proof -
    have "set_mset (mset (upsert conv cs)) = {x \<in> set cs. cv_id x \<noteq> cv_id conv} \<union> {conv}"
      using wf by (subst mset_upsert) (auto simp: convs_ok_def)
    then show ?thesis by simp
  qed
  have keep: "mentions e conv" if "x \<in> set cs" "cv_id x = cv_id conv" "mentions e x" for x e
    using w that by (auto simp: writable_def mentions_def)
  have "\<exists>x \<in> set (upsert conv cs). cv_id x = i \<and> mentions e x"
    if "map_of (fold (index_envelope (cv_id conv)) (cv_message_refs conv) es) e = Some i" for e i
  proof (cases "map_of es e")
    case None
    then show ?thesis using that set by (auto simp: index_fold mentions_def split: if_splits)
  next
    case (Some j)
    then obtain x where "x \<in> set cs" "cv_id x = j" "mentions e x" using ok by (auto simp: index_ok_def)
    then show ?thesis using that Some set keep by (cases "cv_id x = cv_id conv") (auto simp: index_fold)
  qed
  moreover have "\<not> list_ex (mentions e) (upsert conv cs)"
    if "map_of (fold (index_envelope (cv_id conv)) (cv_message_refs conv) es) e = None" for e
    using that ok unfolding list_ex_iff set by (auto simp: index_fold index_ok_def mentions_def list_ex_iff split: if_splits)
  ultimately show ?thesis by (simp add: index_ok_def)
qed

lemma conv_db_ok_run [simp]:
  "conv_db_ok c bad st \<Longrightarrow> with_convs what st r = r" "conv_db_ok c bad st \<Longrightarrow> locked (cd_poisoned st) r = r"
  by (simp_all add: conv_db_ok_def with_convs_def)

lemma conv_rows:
  assumes "conv_db_ok c bad st" "r \<in> set (cd_rows st)"
  shows "cv_id (conv_of_row c bad r) = cr_id r" "cr_state r = state_to_str (cv_state (conv_of_row c bad r))"
    "read_conv c bad what r = Inr (conv_of_row c bad r)" "\<not> isl (row_to_conversation c bad r)"
  using assms row_read [of c bad r] by (auto simp: conv_db_ok_def list_all_iff)

lemma sql_save_law:
  assumes ok: "conv_db_ok c bad st" and w: "writable conv (stored_convs c bad st)"
  shows "\<exists>st'. sql_conv_save c conv st = Inr st' \<and> conv_db_ok c bad st' \<and>
    mset (stored_convs c bad st') = mset (upsert conv (stored_convs c bad st))"
proof -
  let ?i = "cv_id conv" and ?cs = "stored_convs c bad st"
  obtain data where data: "enc c (cv_participants conv, cv_message_refs conv) = Inr data" "dec c data = Inr (cv_participants conv, cv_message_refs conv)"
    using ok unfolding conv_db_ok_def codec_ok_def by blast
  obtain ps where ps: "insert_participants ?i (cv_participants conv) (filter (\<lambda>p. fst p \<noteq> ?i) (cd_participants st)) = Some ps"
    using insert_participants_distinct [of "cv_participants conv" ?i "filter (\<lambda>p. fst p \<noteq> ?i) (cd_participants st)"] w
    by (fastforce simp: writable_def)
  define row where "row = \<lparr>cr_id = ?i, cr_state = state_to_str (cv_state conv), cr_topic = cv_topic conv,
    cr_created_at = cv_created_at conv, cr_updated_at = cv_updated_at conv, cr_data = data\<rparr>"
  define st' where "st' = st\<lparr>cd_rows := filter (\<lambda>r. cr_id r \<noteq> ?i) (cd_rows st) @ [row],
    cd_envelopes := fold (index_envelope ?i) (cv_message_refs conv) (cd_envelopes st), cd_participants := ps\<rparr>"
  have save: "sql_conv_save c conv st = Inr st'"
    using ok data(1) ps by (simp add: sql_conv_save_def Let_def row_def st'_def)
  have new: "row_to_conversation c bad row = Inr conv" by (simp add: row_to_conversation_def row_def data(2))
  have "filter (\<lambda>x. cv_id x \<noteq> ?i) (map (conv_of_row c bad) rs) = map (conv_of_row c bad) (filter (\<lambda>r. cr_id r \<noteq> ?i) rs)"
    if "set rs \<subseteq> set (cd_rows st)" for rs
    using that conv_rows(1) [OF ok] by (induction rs) auto
  then have convs: "stored_convs c bad st' = filter (\<lambda>x. cv_id x \<noteq> ?i) ?cs @ [conv]"
    by (simp add: stored_convs_def st'_def conv_of_row_def [of c bad row] new)
  have cs: "convs_ok ?cs" "index_ok (cd_envelopes st) ?cs" using ok by (simp_all add: conv_db_ok_def)
  have same: "mset (stored_convs c bad st') = mset (upsert conv ?cs)"
    using cs(1) mset_upsert [of ?cs conv] by (simp add: convs convs_ok_def)
  have "convs_ok (stored_convs c bad st')" using cs(1) w by (auto simp: convs convs_ok_def convs_wf_def writable_def list_all_iff distinct_map_filter)
  moreover have "index_ok (cd_envelopes st') (stored_convs c bad st')"
  proof -
    have "set (stored_convs c bad st') = set (upsert conv ?cs)" using same by (metis set_mset_mset)
    then show ?thesis using index_upsert [OF cs(2,1) w] by (simp add: index_ok_def list_ex_iff st'_def)
  qed
  moreover have "list_all (\<lambda>r. \<not> isl (row_to_conversation c bad r)) (cd_rows st')"
    using ok new by (auto simp: conv_db_ok_def st'_def list_all_iff)
  ultimately have "conv_db_ok c bad st'" using ok by (simp add: conv_db_ok_def st'_def)
  then show ?thesis using save same by blast
qed

interpretation sql_table: conversation_table "sql_conv_ops c bad" "stored_convs c bad" "conv_db_ok c bad" for c bad
proof
  fix st conv i e n
  assume ok: "conv_db_ok c bad st"
  show "convs_ok (stored_convs c bad st)" using ok by (simp add: conv_db_ok_def)
  then have wf: "distinct (map cv_id (stored_convs c bad st))" by (simp add: convs_ok_def convs_wf_def)
  have ids: "map cv_id (stored_convs c bad st) = map cr_id (cd_rows st)"
    using conv_rows(1) [OF ok] by (simp add: stored_convs_def)
  show "\<exists>st'. co_save (sql_conv_ops c bad) conv st = Inr st' \<and> conv_db_ok c bad st' \<and>
      mset (stored_convs c bad st') = mset (upsert conv (stored_convs c bad st))" if "writable conv (stored_convs c bad st)"
    using sql_save_law [OF ok that] by (simp add: sql_conv_ops_def)
  show "\<exists>r. co_get (sql_conv_ops c bad) st i = Inr r \<and> (\<forall>x. r = Some x \<longleftrightarrow> x \<in> set (stored_convs c bad st) \<and> cv_id x = i)"
  proof (cases "List.find (\<lambda>r. cr_id r = i) (cd_rows st)")
    case None
    then have "i \<notin> cr_id ` set (cd_rows st)" by (auto simp: find_none list_ex_iff)
    then have "i \<notin> cv_id ` set (stored_convs c bad st)" using ids by (metis set_map)
    then show ?thesis using ok None by (auto simp: sql_conv_ops_def sql_conv_get_def)
  next
    case (Some r)
    then have r: "r \<in> set (cd_rows st)" "cr_id r = i" using find_found by fastforce+
    have mem: "conv_of_row c bad r \<in> set (stored_convs c bad st)" using r by (simp add: stored_convs_def)
    then have uniq: "x = conv_of_row c bad r" if "x \<in> set (stored_convs c bad st)" "cv_id x = i" for x
      using that wf conv_rows(1) [OF ok r(1)] r(2) by (auto simp: distinct_map inj_on_def)
    have "co_get (sql_conv_ops c bad) st i = Inr (Some (conv_of_row c bad r))"
      using ok Some conv_rows(3) [OF ok r(1)] by (simp add: sql_conv_ops_def sql_conv_get_def)
    moreover have "Some (conv_of_row c bad r) = Some x \<longleftrightarrow> x \<in> set (stored_convs c bad st) \<and> cv_id x = i" for x
      using mem uniq [of x] conv_rows(1) [OF ok r(1)] r(2) by (cases "x = conv_of_row c bad r") auto
    ultimately show ?thesis by blast
  qed
  show "\<exists>r. co_find_by_envelope (sql_conv_ops c bad) st e = Inr r \<and>
      (\<forall>i. r = Some i \<longrightarrow> (\<exists>x \<in> set (stored_convs c bad st). cv_id x = i \<and> mentions e x)) \<and>
      (r = None \<longrightarrow> \<not> list_ex (mentions e) (stored_convs c bad st))"
    using ok by (auto simp: sql_conv_ops_def sql_find_by_envelope_def conv_db_ok_def index_ok_def)
  show "\<exists>cs. co_active (sql_conv_ops c bad) st n = Inr cs \<and> set cs \<subseteq> {x \<in> set (stored_convs c bad st). cv_state x = CActive}"
  proof -
    let ?rows = "take (limit_capped n) (sort_desc cr_updated_at (cd_scan st (filter (\<lambda>r. cr_state r = ''active'') (cd_rows st))))"
    have "set (cd_scan st rs) = set rs" for rs using ok by (metis conv_db_ok_def set_mset_mset)
    then have rows: "set ?rows \<subseteq> {r \<in> set (cd_rows st). cr_state r = ''active''}" by (auto dest!: in_set_takeD)
    then have "decode_all (read_conv c bad what) ?rows = Inr (map (conv_of_row c bad) ?rows)" for what
      using conv_rows(3) [OF ok] by (intro decode_all_Inr) auto
    moreover have "cv_state (conv_of_row c bad r) = CActive" if "r \<in> set ?rows" for r
      using that rows conv_rows(2) [OF ok, of r] by (cases "cv_state (conv_of_row c bad r)") auto
    ultimately show ?thesis
      using ok rows by (auto simp: sql_conv_ops_def sql_active_conversations_def stored_convs_def)
  qed
qed

section \<open>Properties\<close>

text \<open>
  Grouping conserves messages on the database as well. From a well-formed database, whatever order SQLite visits
  rows in, grouping a batch of envelopes with fresh conversation ids never fails (no primary key is ever violated), appends exactly
  one message per human or agent envelope, and leaves the database well formed: ids distinct, participants
  distinct, and the envelope index finding exactly the stored messages.
\<close>

lemma sql_grouping_conserves:
  assumes "conv_db_ok c bad st" "distinct (map fst es)" "fst ` set es \<inter> cv_id ` set (stored_convs c bad st) = {}"
  shows "\<exists>st'. group_envelopes_into_conversations ch (sql_conv_ops c bad) es st = (Inr (), st') \<and> conv_db_ok c bad st'
    \<and> all_messages (stored_convs c bad st') = all_messages (stored_convs c bad st)
        + mset (map message_of (filter conversational (map snd es)))"
  using assms by (rule sql_table.group_all)

section \<open>The property at a concrete input\<close>

instance conversation_message_ext :: (countable) countable
proof (rule countable_classI)
  show "to_nat (cm_envelope_id x, cm_source x, cm_payload_ref x, cm_timestamp x, conversation_message.more x) =
      to_nat (cm_envelope_id y, cm_source y, cm_payload_ref y, cm_timestamp y, conversation_message.more y) \<Longrightarrow> x = y"
    for x y :: "'a conversation_message_ext"
    by simp
qed

end
