(* ===== verification/Sql_Ledgers.thy ===== *)
theory Sql_Ledgers
  imports Sql_Stores Watches Budget Relationship_Laws
begin

text \<open>
  The SQLite stores behind three interfaces whose implementation in memory is modelled with the component itself:
  watches (\<open>exoskeleton-host/src/storage/watch_store.rs\<close>), the state of the budget (\<open>budget_store.rs\<close>) and the
  relationship ledger (\<open>relationship_store.rs\<close>).

  The stores of watches and of the budget unwrap their lock; none of their statements panics while it is
  held, so the lock is never poisoned and \<open>statement\<close> looks at the connection only.
\<close>

definition statement :: "string \<Rightarrow> 'r sql_db \<Rightarrow> ('r list \<Rightarrow> 'b exo_result) \<Rightarrow> 'b exo_result" where
  "statement what db k = (case db_fault db of Some e \<Rightarrow> Inl (Storage (what @ '': '' @ e)) | None \<Rightarrow> k (db_rows db))"

lemma statement_ok: "db_ok db \<Longrightarrow> statement what db k = k (db_rows db)"
  by (simp add: statement_def db_ok_def)

section \<open>Watches\<close>

record watch_row =
  wr_id :: uuid
  wr_data :: string

definition sql_watch_save :: "watch_definition codec \<Rightarrow> watch_definition \<Rightarrow> watch_row sql_db \<Rightarrow> watch_row sql_db exo_result" where
  "sql_watch_save c w db = (case enc c w of
     Inl e \<Rightarrow> Inl (Storage (''serialize watch: '' @ e))
   | Inr data \<Rightarrow> statement ''save watch'' db (\<lambda>rs. Inr (db\<lparr>db_rows :=
       filter (\<lambda>r. wr_id r \<noteq> wd_id w) rs @ [\<lparr>wr_id = wd_id w, wr_data = data\<rparr>]\<rparr>)))"

definition sql_watch_get :: "watch_definition codec \<Rightarrow> uuid \<Rightarrow> watch_row sql_db \<Rightarrow> watch_definition option exo_result" where
  "sql_watch_get c i db = statement ''prepare get watch'' db (\<lambda>rs.
     case List.find (\<lambda>r. wr_id r = i) rs of
       None \<Rightarrow> Inr None
     | Some r \<Rightarrow> (case dec c (wr_data r) of
         Inl e \<Rightarrow> Inl (Storage (''deserialize watch: '' @ e)) | Inr w \<Rightarrow> Inr (Some w)))"

text \<open>Rows that do not read back are passed over.\<close>

definition readable :: "watch_definition codec \<Rightarrow> watch_row list \<Rightarrow> watch_definition list" where
  "readable c rs = List.map_filter (\<lambda>r. case dec c (wr_data r) of Inl _ \<Rightarrow> None | Inr w \<Rightarrow> Some w) rs"

definition sql_watch_list :: "watch_definition codec \<Rightarrow> watch_row sql_db \<Rightarrow> watch_definition list exo_result" where
  "sql_watch_list c db = statement ''prepare list watches'' db (\<lambda>rs. Inr (readable c (db_scan db rs)))"

definition sql_due_watches :: "watch_definition codec \<Rightarrow> u64 \<Rightarrow> watch_row sql_db \<Rightarrow> watch_definition list exo_result" where
  "sql_due_watches c tick db = (case sql_watch_list c db of Inl e \<Rightarrow> Inl e | Inr ws \<Rightarrow> Inr (filter (watch_due tick) ws))"

text \<open>Read, change, write back: the shape of the three updates.\<close>

definition sql_watch_modify ::
  "watch_definition codec \<Rightarrow> (uuid \<Rightarrow> string) \<Rightarrow> (watch_definition \<Rightarrow> watch_definition) \<Rightarrow> uuid \<Rightarrow> watch_row sql_db \<Rightarrow>
   watch_row sql_db exo_result" where
  "sql_watch_modify c show_uuid f i db = (case sql_watch_get c i db of
     Inl e \<Rightarrow> Inl e
   | Inr None \<Rightarrow> Inl (watch_not_found show_uuid i)
   | Inr (Some w) \<Rightarrow> sql_watch_save c (f w) db)"

definition sql_watch_update_status ::
  "watch_definition codec \<Rightarrow> (uuid \<Rightarrow> string) \<Rightarrow> uuid \<Rightarrow> watch_status \<Rightarrow> watch_row sql_db \<Rightarrow> watch_row sql_db exo_result" where
  "sql_watch_update_status c show_uuid i status = sql_watch_modify c show_uuid (\<lambda>w. w\<lparr>wd_status := status\<rparr>) i"

definition sql_record_trigger ::
  "watch_definition codec \<Rightarrow> (uuid \<Rightarrow> string) \<Rightarrow> uuid \<Rightarrow> u64 \<Rightarrow> watch_row sql_db \<Rightarrow> watch_row sql_db exo_result" where
  "sql_record_trigger c show_uuid i tick = sql_watch_modify c show_uuid (triggered_watch tick) i"

definition sql_record_check ::
  "watch_definition codec \<Rightarrow> (uuid \<Rightarrow> string) \<Rightarrow> uuid \<Rightarrow> u64 \<Rightarrow> watch_row sql_db \<Rightarrow> watch_row sql_db exo_result" where
  "sql_record_check c show_uuid i tick = sql_watch_modify c show_uuid (\<lambda>w. w\<lparr>wd_last_checked_tick := Some tick\<rparr>) i"

definition sql_watch_delete :: "uuid \<Rightarrow> watch_row sql_db \<Rightarrow> watch_row sql_db exo_result" where
  "sql_watch_delete i db = statement ''delete watch'' db (\<lambda>rs. Inr (db\<lparr>db_rows := filter (\<lambda>r. wr_id r \<noteq> i) rs\<rparr>))"

definition sql_active_count :: "watch_definition codec \<Rightarrow> watch_row sql_db \<Rightarrow> u32 exo_result" where
  "sql_active_count c db = (case sql_watch_list c db of
     Inl e \<Rightarrow> Inl e
   | Inr ws \<Rightarrow> Inr (of_nat (length (filter (\<lambda>w. wd_status w = WActive) ws))))"

section \<open>State of the budget\<close>

record budget_row =
  br_value :: string
  br_updated_at :: datetime

text \<open>The table holds at most one row, under the key \<open>current\<close>.\<close>

definition sql_budget_save ::
  "persisted_budget_state codec \<Rightarrow> datetime \<Rightarrow> persisted_budget_state \<Rightarrow> budget_row sql_db \<Rightarrow> budget_row sql_db exo_result" where
  "sql_budget_save c now p db = (case enc c p of
     Inl e \<Rightarrow> Inl (Storage (''budget state serialize: '' @ e))
   | Inr json \<Rightarrow> statement ''budget state save'' db (\<lambda>_. Inr (db\<lparr>db_rows := [\<lparr>br_value = json, br_updated_at = now\<rparr>]\<rparr>)))"

definition sql_budget_load :: "persisted_budget_state codec \<Rightarrow> budget_row sql_db \<Rightarrow> persisted_budget_state option exo_result" where
  "sql_budget_load c db = statement ''budget state load prepare'' db (\<lambda>rs. case rs of
     [] \<Rightarrow> Inr None
   | r # _ \<Rightarrow> (case dec c (br_value r) of
       Inl e \<Rightarrow> Inl (Storage (''budget state deserialize: '' @ e)) | Inr p \<Rightarrow> Inr (Some p)))"

section \<open>Relationship ledger\<close>

record ledger_row =
  lr_id :: uuid
  lr_principal_id :: uuid
  lr_signal_type :: string
  lr_content_ref :: string
  lr_tick_id :: uuid
  lr_timestamp :: datetime
  lr_metadata :: string

record ledger_codecs =
  lc_signal :: "relational_signal_type codec"
  lc_metadata :: "(string \<times> string) list codec"
  lc_artifact_error :: "artifact_id_error \<Rightarrow> string" \<comment> \<open>its \<open>Display\<close>\<close>

text \<open>Metadata that do not read back are empty.\<close>

definition row_to_record :: "ledger_codecs \<Rightarrow> ledger_row \<Rightarrow> string + relationship_record" where
  "row_to_record cs r = (case dec (lc_signal cs) (lr_signal_type r) of
     Inl e \<Rightarrow> Inl e
   | Inr sig \<Rightarrow> (case artifact_id_from_str (lr_content_ref r) of
       Inl e \<Rightarrow> Inl (lc_artifact_error cs e)
     | Inr content_ref \<Rightarrow> Inr \<lparr>rr_id = lr_id r, rr_principal_id = lr_principal_id r, rr_signal_type = sig, rr_content_ref = content_ref,
         rr_tick_id = lr_tick_id r, rr_timestamp = lr_timestamp r,
         rr_metadata = (case dec (lc_metadata cs) (lr_metadata r) of Inl _ \<Rightarrow> [] | Inr m \<Rightarrow> m)\<rparr>))"

definition read_record :: "ledger_codecs \<Rightarrow> string \<Rightarrow> ledger_row \<Rightarrow> relationship_record exo_result" where
  "read_record cs what r = (case row_to_record cs r of Inl e \<Rightarrow> Inl (Storage (what @ '' row: '' @ e)) | Inr x \<Rightarrow> Inr x)"

definition sql_ledger_append ::
  "ledger_codecs \<Rightarrow> (uuid \<Rightarrow> string) \<Rightarrow> relationship_record \<Rightarrow> ledger_row sql_db \<Rightarrow> (uuid \<times> ledger_row sql_db) exo_result" where
  "sql_ledger_append cs show_uuid r db = locked (db_poisoned db)
     (case enc (lc_signal cs) (rr_signal_type r) of
        Inl e \<Rightarrow> Inl (Storage (''signal_type serialization: '' @ e))
      | Inr sig \<Rightarrow> (case enc (lc_metadata cs) (rr_metadata r) of
          Inl e \<Rightarrow> Inl (Storage (''metadata serialization: '' @ e))
        | Inr meta \<Rightarrow> with_db ''relationship append'' db (\<lambda>rs.
            if list_ex (\<lambda>x. lr_id x = rr_id r) rs
            then Inl (Storage (''relationship record already exists with id '' @ show_uuid (rr_id r)))
            else Inr (rr_id r, db\<lparr>db_rows := rs @ [\<lparr>lr_id = rr_id r, lr_principal_id = rr_principal_id r, lr_signal_type = sig,
              lr_content_ref = rr_content_ref r, lr_tick_id = rr_tick_id r, lr_timestamp = rr_timestamp r, lr_metadata = meta\<rparr>]\<rparr>))))"

text \<open>\<open>min(limit, i32::MAX)\<close>.\<close>

definition cap_i32 :: "nat \<Rightarrow> nat" where
  "cap_i32 limit = min limit (2 ^ 31 - 1)"

definition sql_for_principal :: "ledger_codecs \<Rightarrow> ledger_row sql_db \<Rightarrow> uuid \<Rightarrow> nat \<Rightarrow> relationship_record list exo_result" where
  "sql_for_principal cs db p limit = with_db ''prepare'' db (\<lambda>rs.
     decode_all (read_record cs ''for_principal'') (take (cap_i32 limit) (order_desc db lr_timestamp
       (filter (\<lambda>r. lr_principal_id r = p) rs))))"

definition sql_ledger_recent :: "ledger_codecs \<Rightarrow> ledger_row sql_db \<Rightarrow> nat \<Rightarrow> relationship_record list exo_result" where
  "sql_ledger_recent cs db limit = with_db ''prepare'' db (\<lambda>rs.
     decode_all (read_record cs ''recent'') (take (cap_i32 limit) (order_desc db lr_timestamp rs)))"

text \<open>The minimum of no timestamps is \<open>NULL\<close>, and no timestamp compares to it.\<close>

definition sql_since_tick :: "ledger_codecs \<Rightarrow> ledger_row sql_db \<Rightarrow> uuid \<Rightarrow> relationship_record list exo_result" where
  "sql_since_tick cs db tick = with_db ''prepare'' db (\<lambda>rs.
     decode_all (read_record cs ''since_tick'') (order_asc db lr_timestamp
       (case map lr_timestamp (filter (\<lambda>r. lr_tick_id r = tick) rs) of
          [] \<Rightarrow> []
        | t # ts \<Rightarrow> filter (\<lambda>r. fold min ts t \<le> lr_timestamp r) rs)))"

definition sql_distinct_principals :: "ledger_row sql_db \<Rightarrow> uuid list exo_result" where
  "sql_distinct_principals db = with_db ''prepare'' db (\<lambda>rs. Inr (remdups (map lr_principal_id (db_scan db rs))))"

definition sql_ledger_count :: "ledger_row sql_db \<Rightarrow> u64 exo_result" where
  "sql_ledger_count db = with_db ''count query'' db (\<lambda>rs. Inr (of_nat (length rs)))"

section \<open>Watches in SQLite and in memory\<close>

text \<open>
  JSON has no NaN and no infinities, so the codec reads back the watches whose numbers are finite. The rows have distinct
  ids and hold the watch of their id.
\<close>

fun f64_finite :: "f64 \<Rightarrow> bool" where
  "f64_finite (Fin _) = True"
| "f64_finite _ = False"

fun json_finite :: "json \<Rightarrow> bool" where
  "json_finite (JFloat x) = f64_finite x"
| "json_finite (JArr xs) = list_all json_finite xs"
| "json_finite (JObj kvs) = list_all (\<lambda>(k, v). json_finite v) kvs"
| "json_finite _ = True"

fun finite_condition :: "watch_condition \<Rightarrow> bool" where
  "finite_condition (Above x) = f64_finite x"
| "finite_condition (Below x) = f64_finite x"
| "finite_condition Changed = True"

fun finite_type :: "watch_type \<Rightarrow> bool" where
  "finite_type (Threshold m cond) = finite_condition cond"
| "finite_type (Poll connector params extract cond) = (json_finite params \<and> pred_option finite_condition cond)"

definition reads_back :: "('v \<Rightarrow> bool) \<Rightarrow> 'v codec \<Rightarrow> bool" where
  "reads_back P c \<longleftrightarrow> (\<forall>v. P v \<longrightarrow> (\<exists>s. enc c v = Inr s \<and> dec c s = Inr v))"

definition watch_map :: "watch_definition codec \<Rightarrow> watch_row sql_db \<Rightarrow> uuid \<Rightarrow> watch_definition option" where
  "watch_map c db i = (case List.find (\<lambda>r. wr_id r = i) (db_rows db) of
     None \<Rightarrow> None | Some r \<Rightarrow> (case dec c (wr_data r) of Inl _ \<Rightarrow> None | Inr w \<Rightarrow> Some w))"

definition watches_ok :: "watch_definition codec \<Rightarrow> watch_row sql_db \<Rightarrow> bool" where
  "watches_ok c db \<longleftrightarrow> reads_back (finite_type \<circ> wd_watch_type) c \<and> db_ok db \<and> distinct (map wr_id (db_rows db))
     \<and> list_all (\<lambda>r. \<exists>w. dec c (wr_data r) = Inr w \<and> wd_id w = wr_id r \<and> finite_type (wd_watch_type w)) (db_rows db)"

lemma find_snoc: "List.find P (xs @ [x]) = (case List.find P xs of Some y \<Rightarrow> Some y | None \<Rightarrow> if P x then Some x else None)"
  by (induction xs) auto

lemma find_filter_other: "List.find (\<lambda>r. key r = i) (filter (\<lambda>r. key r \<noteq> j) rs) = (if i = j then None else List.find (\<lambda>r. key r = i) rs)"
  by (induction rs) auto

lemma sql_watch_save_law:
  assumes "watches_ok c db" "finite_type (wd_watch_type w)"
  shows "\<exists>db'. sql_watch_save c w db = Inr db' \<and> watches_ok c db' \<and> watch_map c db' = (watch_map c db)(wd_id w \<mapsto> w)"
proof -
  obtain data where data: "enc c w = Inr data" "dec c data = Inr w" using assms by (auto simp: watches_ok_def reads_back_def)
  then show ?thesis
    using assms
    by (auto simp: sql_watch_save_def watches_ok_def statement_ok watch_map_def find_snoc find_filter_other list_all_iff distinct_map
        intro: inj_on_subset split: option.split)
qed

lemma sql_watch_get_law: "watches_ok c db \<Longrightarrow> sql_watch_get c i db = Inr (watch_map c db i)"
  by (auto simp: sql_watch_get_def watches_ok_def statement_ok watch_map_def list_all_iff dest!: find_found split: option.split sum.split)

lemma watch_map_id: "watches_ok c db \<Longrightarrow> watch_map c db i = Some w \<Longrightarrow> wd_id w = i \<and> finite_type (wd_watch_type w)"
  by (auto simp: watches_ok_def watch_map_def list_all_iff dest!: find_found split: option.splits sum.splits)

lemma sql_watch_delete_law:
  "watches_ok c db \<Longrightarrow> \<exists>db'. sql_watch_delete i db = Inr db' \<and> watches_ok c db' \<and> watch_map c db' = (watch_map c db)(i := None)"
  by (auto simp: sql_watch_delete_def watches_ok_def statement_ok watch_map_def find_filter_other list_all_iff distinct_map
      intro: inj_on_subset)

text \<open>The operations of the trait that change a store, in SQLite and in memory.\<close>

datatype watch_op = OSave watch_definition | OStatus uuid watch_status | OTrigger uuid u64 | OCheck uuid u64 | ODelete uuid

fun sql_watch_step :: "watch_definition codec \<Rightarrow> (uuid \<Rightarrow> string) \<Rightarrow> watch_op \<Rightarrow> watch_row sql_db \<Rightarrow> watch_row sql_db exo_result" where
  "sql_watch_step c show_uuid (OSave w) db = sql_watch_save c w db"
| "sql_watch_step c show_uuid (OStatus i s) db = sql_watch_update_status c show_uuid i s db"
| "sql_watch_step c show_uuid (OTrigger i t) db = sql_record_trigger c show_uuid i t db"
| "sql_watch_step c show_uuid (OCheck i t) db = sql_record_check c show_uuid i t db"
| "sql_watch_step c show_uuid (ODelete i) db = sql_watch_delete i db"

fun mem_watch_step :: "(uuid \<Rightarrow> string) \<Rightarrow> watch_op \<Rightarrow> watch_store \<Rightarrow> watch_store exo_result" where
  "mem_watch_step show_uuid (OSave w) st = ws_save w st"
| "mem_watch_step show_uuid (OStatus i s) st = update_status show_uuid i s st"
| "mem_watch_step show_uuid (OTrigger i t) st = record_trigger show_uuid i t st"
| "mem_watch_step show_uuid (OCheck i t) st = record_check show_uuid i t st"
| "mem_watch_step show_uuid (ODelete i) st = ws_delete i st"

definition same_watches :: "watch_definition codec \<Rightarrow> watch_row sql_db \<Rightarrow> watch_store \<Rightarrow> bool" where
  "same_watches c db st \<longleftrightarrow> watches_ok c db \<and> store_wf st \<and> watch_map c db = map_of st"

lemma store_wf_iff: "store_wf st \<longleftrightarrow> distinct (map fst st) \<and> (\<forall>i w. map_of st i = Some w \<longrightarrow> wd_id w = i)"
  unfolding store_wf_def by (auto dest: map_of_SomeD)

lemma store_wf_update: "store_wf st \<Longrightarrow> wd_id w = i \<Longrightarrow> store_wf (AList.update i w st)"
  by (simp add: store_wf_iff distinct_update map_of_update)

lemma modify_step:
  assumes same: "same_watches c db st" and keeps: "\<And>w. wd_id (f w) = wd_id w \<and> wd_watch_type (f w) = wd_watch_type w"
  shows "rel_sum (=) (same_watches c) (sql_watch_modify c show_uuid f i db)
    (case map_of st i of Some w \<Rightarrow> Inr (AList.update i (f w) st) | None \<Rightarrow> Inl (watch_not_found show_uuid i))"
proof (cases "map_of st i")
  case None
  then show ?thesis using same sql_watch_get_law [of c db i] by (simp add: same_watches_def sql_watch_modify_def)
next
  case (Some w)
  then have "watch_map c db i = Some w" "watches_ok c db" "store_wf st" using same by (simp_all add: same_watches_def)
  with sql_watch_save_law [of c db "f w"] watch_map_id [of c db i w] keeps [of w] obtain db' where "sql_watch_save c (f w) db = Inr db'" "watches_ok c db'"
    "watch_map c db' = (watch_map c db)(wd_id (f w) \<mapsto> f w)" by auto
  then show ?thesis
    using Some same sql_watch_get_law [of c db i] watch_map_id [of c db i w] \<open>watch_map c db i = Some w\<close>
    by (simp add: same_watches_def sql_watch_modify_def keeps map_of_update store_wf_update)
qed

fun op_finite :: "watch_op \<Rightarrow> bool" where
  "op_finite (OSave w) = finite_type (wd_watch_type w)"
| "op_finite _ = True"

lemma watch_step_same:
  assumes same: "same_watches c db st" and fin: "op_finite op"
  shows "rel_sum (=) (same_watches c) (sql_watch_step c show_uuid op db) (mem_watch_step show_uuid op st)"
proof (cases op)
  case (OSave w)
  then show ?thesis using same fin sql_watch_save_law [of c db w] by (auto simp: same_watches_def ws_save_def map_of_update store_wf_update)
next
  case (ODelete i)
  have "store_wf (AList.delete i st)"
    using same by (simp add: same_watches_def store_wf_iff distinct_delete delete_conv')
  then show ?thesis
    using ODelete same sql_watch_delete_law [of c db i] by (auto simp: same_watches_def ws_delete_def delete_conv')
next
  case (OStatus i s)
  with modify_step [OF same, of "\<lambda>w. w\<lparr>wd_status := s\<rparr>" show_uuid i] show ?thesis
    by (simp add: sql_watch_update_status_def update_status_def)
next
  case (OTrigger i t)
  with modify_step [OF same, of "triggered_watch t" show_uuid i] show ?thesis
    by (simp add: sql_record_trigger_def record_trigger_def triggered_watch_def Let_def)
next
  case (OCheck i t)
  with modify_step [OF same, of "\<lambda>w. w\<lparr>wd_last_checked_tick := Some t\<rparr>" show_uuid i] show ?thesis
    by (simp add: sql_record_check_def record_check_def)
qed

lemma distinct_mapI: "distinct (map f xs) \<Longrightarrow> distinct xs"
  by (simp add: distinct_map)

lemma mset_map_filter: "mset xs = mset ys \<Longrightarrow> mset (List.map_filter f xs) = mset (List.map_filter f ys)"
  by (simp add: map_filter_def)

lemma readable_ids:
  assumes "watches_ok c db"
  shows "map wd_id (readable c (db_rows db)) = map wr_id (db_rows db)"
    and "w \<in> set (readable c (db_rows db)) \<longleftrightarrow> watch_map c db (wd_id w) = Some w"
proof -
  have rows: "list_all (\<lambda>r. \<exists>w. dec c (wr_data r) = Inr w \<and> wd_id w = wr_id r) (db_rows db)" "distinct (map wr_id (db_rows db))"
    using assms by (auto simp: watches_ok_def list_all_iff)
  have "map wd_id (readable c rs) = map wr_id rs"
    if "list_all (\<lambda>r. \<exists>w. dec c (wr_data r) = Inr w \<and> wd_id w = wr_id r) rs" for rs
    using that by (induction rs) (auto simp: readable_def map_filter_def)
  then show "map wd_id (readable c (db_rows db)) = map wr_id (db_rows db)" using rows(1) by blast
  have "w \<in> set (readable c rs) \<longleftrightarrow> (case List.find (\<lambda>r. wr_id r = wd_id w) rs of
      None \<Rightarrow> None | Some r \<Rightarrow> (case dec c (wr_data r) of Inl _ \<Rightarrow> None | Inr w \<Rightarrow> Some w)) = Some w"
    if "list_all (\<lambda>r. \<exists>w. dec c (wr_data r) = Inr w \<and> wd_id w = wr_id r) rs" "distinct (map wr_id rs)" for rs
    using that
    by (induction rs) (auto simp: readable_def map_filter_def list_all_iff rev_image_eqI split: option.splits sum.splits)
  from this [OF rows] show "w \<in> set (readable c (db_rows db)) \<longleftrightarrow> watch_map c db (wd_id w) = Some w" by (simp add: watch_map_def)
qed

lemma listed_watches:
  assumes "same_watches c db st"
  shows "\<exists>ws. sql_watch_list c db = Inr ws \<and> mset ws = mset (map snd st)"
proof -
  have ok: "watches_ok c db" "store_wf st" "watch_map c db = map_of st" "db_ok db"
    using assms by (simp_all add: same_watches_def watches_ok_def)
  have "distinct (map wd_id (readable c (db_rows db)))" using readable_ids(1) [OF ok(1)] ok(1) by (simp add: watches_ok_def)
  then have d: "distinct (readable c (db_rows db))" by (simp add: distinct_map)
  have ids: "map wd_id (map snd st) = map fst st" using ok(2) by (auto simp: store_wf_def)
  then have "distinct (map wd_id (map snd st))" using ok(2) by (simp only: store_wf_def)
  then have d': "distinct (map snd st)" by (rule distinct_mapI)
  have "w \<in> set (map snd st) \<longleftrightarrow> map_of st (wd_id w) = Some w" for w
  proof
    assume "w \<in> set (map snd st)"
    then obtain i where "(i, w) \<in> set st" by auto
    then show "map_of st (wd_id w) = Some w" using ok(2) by (auto simp: store_wf_def)
  next
    assume "map_of st (wd_id w) = Some w"
    then have "(wd_id w, w) \<in> set st" by (rule map_of_SomeD)
    then show "w \<in> set (map snd st)" by (force simp: image_iff)
  qed
  then have "set (readable c (db_rows db)) = set (map snd st)"
    using readable_ids(2) [OF ok(1)] unfolding ok(3) set_eq_iff by simp
  then have "mset (readable c (db_rows db)) = mset (map snd st)"
    using set_eq_iff_mset_eq_distinct [OF d d'] by simp
  moreover have "mset (readable c (db_scan db (db_rows db))) = mset (readable c (db_rows db))"
    unfolding readable_def using ok(4) by (intro mset_map_filter) (simp add: db_ok_def db_wf_def)
  ultimately show ?thesis using ok(4) by (simp add: sql_watch_list_def statement_ok)
qed

text \<open>A run of operations: the answers without the new states, and the state at the end; an error changes nothing.\<close>

fun run_ops :: "('o \<Rightarrow> 's \<Rightarrow> 's exo_result) \<Rightarrow> 'o list \<Rightarrow> 's \<Rightarrow> exo_error option list \<times> 's" where
  "run_ops step [] s = ([], s)"
| "run_ops step (x # xs) s = (case step x s of
     Inl e \<Rightarrow> (let (rs, s') = run_ops step xs s in (Some e # rs, s'))
   | Inr s1 \<Rightarrow> (let (rs, s') = run_ops step xs s1 in (None # rs, s')))"

lemma run_ops_same:
  assumes "\<And>x s t. x \<in> set xs \<Longrightarrow> R s t \<Longrightarrow> rel_sum (=) R (f x s) (g x t)" "R s t"
  shows "fst (run_ops f xs s) = fst (run_ops g xs t) \<and> R (snd (run_ops f xs s)) (snd (run_ops g xs t))"
  using assms
proof (induction xs arbitrary: s t)
  case (Cons x xs)
  then have "rel_sum (=) R (f x s) (g x t)" by simp
  then show ?case
  proof (cases rule: rel_sum.cases)
    case (1 a c)
    then show ?thesis using Cons.IH [of s t] Cons.prems by (auto split: prod.split)
  next
    case (2 b d)
    then show ?thesis using Cons.IH [of b d] Cons.prems by (auto split: prod.split)
  qed
qed simp

text \<open>
  C35. The watches in SQLite refine the watches in memory. Any sequence of saves, status changes, recorded
  triggers and checks and deletions answers the same on both stores, errors for unknown watches included, and
  afterwards both stores hold the same watches: each is found under its id, and the watches due at a tick are the same, in the
  order in which SQLite visits its rows.
\<close>

theorem sql_watches_refine:
  assumes "same_watches c db st" "list_all op_finite ops"
    and "run_ops (sql_watch_step c show_uuid) ops db = (answers, db')" "run_ops (mem_watch_step show_uuid) ops st = (answers', st')"
  shows "answers = answers' \<and> sql_watch_get c i db' = ws_get i st'
    \<and> (\<exists>ws. sql_due_watches c tick db' = Inr ws \<and> mset ws = mset (filter (watch_due tick) (map snd st')))"
proof -
  have same: "answers = answers'" "same_watches c db' st'"
    using run_ops_same [of ops "same_watches c" "sql_watch_step c show_uuid" "mem_watch_step show_uuid" db st]
      watch_step_same assms by (auto simp: list_all_iff)
  obtain ws where "sql_watch_list c db' = Inr ws" "mset ws = mset (map snd st')" using listed_watches [OF same(2)] by blast
  then have "\<exists>ws. sql_due_watches c tick db' = Inr ws \<and> mset ws = mset (filter (watch_due tick) (map snd st'))"
    by (simp add: sql_due_watches_def)
  then show ?thesis using same sql_watch_get_law [of c db' i] by (simp add: same_watches_def ws_get_def)
qed

section \<open>Admission over SQLite\<close>

definition sql_active :: "watch_definition codec \<Rightarrow> watch_row sql_db \<Rightarrow> nat" where
  "sql_active c db = length (filter (\<lambda>w. wd_status w = WActive) (readable c (db_rows db)))"

lemma readable_append: "readable c (xs @ ys) = readable c xs @ readable c ys"
  by (simp add: readable_def map_filter_def)

lemma readable_filter_length: "length (filter P (readable c (filter Q rs))) \<le> length (filter P (readable c rs))"
  by (induction rs) (auto simp: readable_def map_filter_def)

interpretation sql_watches: watch_admission "sql_active_count c" "sql_watch_save c" "sql_active c" db_wf for c
proof
  fix db db' w
  assume wf: "db_wf db" and save: "sql_watch_save c w db = Inr db'"
  have "mset (filter P (readable c (db_scan db rs))) = mset (filter P (readable c rs))" for P rs
    using wf by (simp add: readable_def db_wf_def mset_map_filter [of "db_scan db rs" rs])
  then have "length (filter P (readable c (db_scan db rs))) = length (filter P (readable c rs))" for P rs
    by (metis size_mset)
  with save show "sql_active_count c db = Inr (of_nat (sql_active c db))"
    by (auto simp: sql_active_count_def sql_watch_list_def statement_def sql_active_def sql_watch_save_def
        split: sum.splits option.splits)
  have one: "length (filter P (readable c [r])) \<le> 1" for P r
    by (auto simp: readable_def map_filter_def split: sum.split)
  have "length (filter P (readable c (filter Q rs @ [r]))) \<le> Suc (length (filter P (readable c rs)))" for P Q rs r
    using add_mono [OF readable_filter_length [of P c Q rs] one [of P r]] by (simp add: readable_append)
  then show "db_wf db' \<and> sql_active c db' \<le> Suc (sql_active c db)"
    using save wf by (auto simp: sql_watch_save_def statement_def sql_active_def db_wf_def split: sum.splits option.splits)
qed

lemma sql_watch_limit_kept:
  assumes "db_wf db" "sql_active c db \<le> unat max_watches"
  shows "sql_active c (admit_watches (sql_active_count c) (sql_watch_save c) max_watches tick ps db) \<le> unat max_watches"
  using assms by (rule sql_watches.admit_bounded)

section \<open>The budget across a restart\<close>

text \<open>Counters and costs of a running tracker are finite; the codec reads such a state back.\<close>

lemma sql_budget_load_save:
  assumes "reads_back P c" "P p" "sql_budget_save c now p db = Inr db'"
  shows "sql_budget_load c db' = Inr (Some p)"
  using assms
  by (auto simp: sql_budget_save_def sql_budget_load_def statement_def reads_back_def split: sum.splits option.splits)

lemma sql_budget_store: "codec_ok c \<Longrightarrow> budget_store (sql_budget_save c now) (sql_budget_load c)"
  by unfold_locales (rule sql_budget_load_save [where P = "\<lambda>_. True"], simp_all add: reads_back_def codec_ok_def)

section \<open>The ledger in SQLite and in memory\<close>

definition record_ok :: "relationship_record \<Rightarrow> bool" where
  "record_ok r \<longleftrightarrow> artifact_id_from_str (rr_content_ref r) = Inr (rr_content_ref r)"

definition ledger_codecs_ok :: "ledger_codecs \<Rightarrow> bool" where
  "ledger_codecs_ok cs \<longleftrightarrow> codec_ok (lc_signal cs) \<and> codec_ok (lc_metadata cs)"

text \<open>The table holds the records of the ledger in memory, in the order in which they were appended.\<close>

definition same_ledger :: "ledger_codecs \<Rightarrow> ledger_row sql_db \<Rightarrow> mem_ledger \<Rightarrow> bool" where
  "same_ledger cs db l \<longleftrightarrow> ledger_codecs_ok cs \<and> db_ok db \<and> \<not> ml_poisoned l
     \<and> list_all2 (\<lambda>r x. row_to_record cs r = Inr x) (db_rows db) (ml_records l)"

lemma row_fields:
  "row_to_record cs r = Inr x \<Longrightarrow> rr_id x = lr_id r \<and> rr_principal_id x = lr_principal_id r \<and> rr_tick_id x = lr_tick_id r
     \<and> rr_timestamp x = lr_timestamp r"
  by (auto simp: row_to_record_def split: sum.splits)

lemma same_ledger_append:
  assumes same: "same_ledger cs db l" and r: "record_ok r"
  shows "rel_sum (=) (\<lambda>(i, db') (i', l'). i = i' \<and> same_ledger cs db' l')
    (sql_ledger_append cs show_uuid r db) (ledger_append show_uuid r l)"
proof -
  have ok: "db_ok db" "\<not> db_poisoned db" "\<not> ml_poisoned l" "list_all2 (\<lambda>r x. row_to_record cs r = Inr x) (db_rows db) (ml_records l)"
    using same by (simp_all add: same_ledger_def db_ok_def)
  obtain sig meta where c: "enc (lc_signal cs) (rr_signal_type r) = Inr sig" "dec (lc_signal cs) sig = Inr (rr_signal_type r)"
    "enc (lc_metadata cs) (rr_metadata r) = Inr meta" "dec (lc_metadata cs) meta = Inr (rr_metadata r)"
    using same unfolding same_ledger_def ledger_codecs_ok_def codec_ok_def by metis
  have "list_ex (\<lambda>x. lr_id x = rr_id r) (db_rows db) = list_ex (\<lambda>x. rr_id x = rr_id r) (ml_records l)"
    using ok(4) by (induction rule: list_all2_induct) (auto dest: row_fields)
  then show ?thesis
    using same ok c r
    by (simp add: sql_ledger_append_def ledger_append_def locked_def with_db_ok [OF ok(1)] same_ledger_def record_ok_def
        row_to_record_def list_all2_appendI)
qed

lemma insort_all2:
  assumes "\<And>a b. R a b \<Longrightarrow> k a = k' b" "R x y" "list_all2 R xs ys"
  shows "list_all2 R (insort_key k x xs) (insort_key k' y ys)"
  using assms(3) by (induction rule: list_all2_induct) (simp_all add: assms(1,2) assms(1) [OF assms(2)])

lemma sort_all2:
  assumes "\<And>a b. R a b \<Longrightarrow> k a = k' b" "list_all2 R xs ys"
  shows "list_all2 R (sort_key k xs) (sort_key k' ys)"
  using assms(2) by (induction rule: list_all2_induct) (simp_all add: insort_all2 assms(1))

lemma filter_all2:
  assumes "\<And>a b. R a b \<Longrightarrow> P a = Q b" "list_all2 R xs ys"
  shows "list_all2 R (filter P xs) (filter Q ys)"
  using assms(2) by (induction rule: list_all2_induct) (simp_all add: assms(1))

lemma decode_all2: "list_all2 (\<lambda>r x. row_to_record cs r = Inr x) rs xs \<Longrightarrow> decode_all (read_record cs what) rs = Inr xs"
  by (induction rule: list_all2_induct) (simp_all add: read_record_def)

text \<open>With distinct instants the order in which SQLite visits the rows does not matter.\<close>

lemma scan_sort:
  assumes "db_ok db" "inj_on key (set rs)"
  shows "order_desc db key rs = sort_desc key rs" and "order_asc db key rs = sort_asc key rs"
proof -
  have m: "mset (db_scan db rs) = mset rs" using assms(1) by (simp add: db_ok_def db_wf_def)
  then have "set (db_scan db rs) = set rs" by (rule mset_eq_setD)
  with assms(2) have inj: "inj_on key (set (db_scan db rs))" "inj_on (\<lambda>x. - key x) (set (db_scan db rs))"
    by (simp_all add: inj_on_def)
  show "order_desc db key rs = sort_desc key rs"
    unfolding order_desc_def sort_desc_def by (rule sort_key_inj_key_eq [OF _ inj(2)]) (simp_all add: m)
  show "order_asc db key rs = sort_asc key rs"
    unfolding order_asc_def sort_asc_def by (rule sort_key_inj_key_eq [OF _ inj(1)]) (simp_all add: m)
qed

lemma ledger_reads:
  assumes same: "same_ledger cs db l" and times: "distinct (map rr_timestamp (ml_records l))" and n: "n \<le> 2 ^ 31 - 1"
  shows "sql_for_principal cs db p n = ledger_for_principal l p n" "sql_ledger_recent cs db n = ledger_recent l n"
    "sql_since_tick cs db tick = ledger_since_tick l tick" "sql_ledger_count db = ledger_count l"
    "\<exists>ps. sql_distinct_principals db = Inr ps \<and> distinct ps \<and> ledger_distinct_principals l = Inr (sort ps)"
proof -
  define R where "R = (\<lambda>r x. row_to_record cs r = Inr x)"
  have ok: "db_ok db" "\<not> ml_poisoned l" and rows: "list_all2 R (db_rows db) (ml_records l)"
    using same by (simp_all add: same_ledger_def R_def)
  have f: "R r x \<Longrightarrow> lr_principal_id r = rr_principal_id x" "R r x \<Longrightarrow> lr_tick_id r = rr_tick_id x"
    "R r x \<Longrightarrow> lr_timestamp r = rr_timestamp x" for r x
    by (simp_all add: R_def row_fields)
  have map_rows: "map g (db_rows db) = map g' (ml_records l)" if "\<And>r x. R r x \<Longrightarrow> g r = g' x" for g g'
    using rows by (induction rule: list_all2_induct) (simp_all add: that)
  have "distinct (map lr_timestamp (db_rows db))" using times map_rows [of lr_timestamp rr_timestamp] f(3) by simp
  then have inj': "inj_on lr_timestamp (set (db_rows db))" by (simp add: distinct_map)
  then have inj: "inj_on lr_timestamp (set (filter P (db_rows db)))" for P by (rule inj_on_subset) auto
  have desc: "list_all2 R (sort_desc lr_timestamp rs) (sort_desc rr_timestamp xs)" if "list_all2 R rs xs" for rs xs
    unfolding sort_desc_def using that by (intro sort_all2) (simp_all add: f(3))
  have asc: "list_all2 R (sort_asc lr_timestamp rs) (sort_asc rr_timestamp xs)" if "list_all2 R rs xs" for rs xs
    unfolding sort_asc_def using that by (intro sort_all2) (simp_all add: f(3))
  note decode = decode_all2 [where cs = cs, folded R_def]
  have cap: "cap_i32 n = n" using n by (simp add: cap_i32_def)
  show "sql_for_principal cs db p n = ledger_for_principal l p n"
    by (simp add: sql_for_principal_def ledger_for_principal_def with_db_ok ok cap scan_sort [OF ok(1) inj])
      (intro decode list_all2_takeI desc filter_all2 [OF _ rows], simp add: f)
  show "sql_ledger_recent cs db n = ledger_recent l n"
    by (simp add: sql_ledger_recent_def ledger_recent_def with_db_ok ok cap scan_sort [OF ok(1) inj'])
      (intro decode list_all2_takeI desc rows)
  have "list_all2 R (filter (\<lambda>r. lr_tick_id r = tick) (db_rows db)) (filter (\<lambda>x. rr_tick_id x = tick) (ml_records l))"
    by (rule filter_all2 [OF _ rows]) (simp add: f)
  then have "map lr_timestamp (filter (\<lambda>r. lr_tick_id r = tick) (db_rows db)) =
      map rr_timestamp (filter (\<lambda>x. rr_tick_id x = tick) (ml_records l))"
    by (induction rule: list_all2_induct) (simp_all add: f)
  moreover have "decode_all (read_record cs ''since_tick'') (order_asc db lr_timestamp (filter (\<lambda>r. m \<le> lr_timestamp r) (db_rows db))) =
      Inr (sort_asc rr_timestamp (filter (\<lambda>x. m \<le> rr_timestamp x) (ml_records l)))" for m
    unfolding scan_sort(2) [OF ok(1) inj] by (intro decode asc filter_all2 [OF _ rows]) (simp add: f)
  moreover have "db_scan db [] = []" using set_db_scan [OF ok(1), of "[]"] by simp
  ultimately show "sql_since_tick cs db tick = ledger_since_tick l tick"
    by (simp add: sql_since_tick_def ledger_since_tick_def with_db_ok ok order_asc_def sort_asc_def Let_def split: list.split)
  show "sql_ledger_count db = ledger_count l"
    using list_all2_lengthD [OF rows] by (simp add: sql_ledger_count_def ledger_count_def with_db_ok ok)
  have "set (map lr_principal_id (db_scan db (db_rows db))) = set (map lr_principal_id (db_rows db))"
    using set_db_scan [OF ok(1)] by simp
  also have "\<dots> = set (map rr_principal_id (ml_records l))"
    by (rule arg_cong [of _ _ set], rule map_rows) (simp add: f)
  finally have "sort (remdups (map lr_principal_id (db_scan db (db_rows db)))) = remdups_adj (sort (map rr_principal_id (ml_records l)))"
    by (simp add: remdups_adj_sort flip: sorted_list_of_set_sort_remdups)
  then show "\<exists>ps. sql_distinct_principals db = Inr ps \<and> distinct ps \<and> ledger_distinct_principals l = Inr (sort ps)"
    by (simp add: sql_distinct_principals_def ledger_distinct_principals_def with_db_ok ok)
qed

definition keep_ledger :: "(uuid \<times> 'l) exo_result \<Rightarrow> 'l exo_result" where
  "keep_ledger r = map_sum id snd r"


section \<open>The properties at concrete inputs\<close>

instance f64 :: countable by countable_datatype
instance json :: countable by countable_datatype
instance metric_kind :: countable by countable_datatype
instance watch_condition :: countable by countable_datatype
instance watch_type :: countable by countable_datatype
instance watch_schedule :: countable by countable_datatype
instance watch_status :: countable by countable_datatype
instance relational_signal_type :: countable by countable_datatype

instance watch_definition_ext :: (countable) countable
proof (rule countable_classI)
  show "to_nat (wd_id x, wd_name x, wd_description x, wd_watch_type x, wd_schedule x, wd_status x, wd_created_at_tick x,
      wd_last_checked_tick x, wd_trigger_count x, wd_created_at x, watch_definition.more x) =
    to_nat (wd_id y, wd_name y, wd_description y, wd_watch_type y, wd_schedule y, wd_status y, wd_created_at_tick y,
      wd_last_checked_tick y, wd_trigger_count y, wd_created_at y, watch_definition.more y) \<Longrightarrow> x = y"
    for x y :: "'a watch_definition_ext"
    by simp
qed

lemma sample_ops_memory:
  "run_ops (mem_watch_step (\<lambda>_. ''id'')) [OSave (sample_watch 1 sample_threshold WOnce), OTrigger 1 9, OCheck 2 9] [] =
    ([None, None, Some (Storage ''watch id not found'')], [(1, triggered_watch 9 (sample_watch 1 sample_threshold WOnce))])"
  by (simp add: ws_save_def record_trigger_def record_check_def watch_not_found_def sample_watch_def proposed_watch_def)

theorem sql_watches_refine_witness:
  "\<exists>db'. run_ops (sql_watch_step counting_codec (\<lambda>_. ''id''))
      [OSave (sample_watch 1 sample_threshold WOnce), OTrigger 1 9, OCheck 2 9] open_db =
      ([None, None, Some (Storage ''watch id not found'')], db')
    \<and> sql_watch_get counting_codec 1 db' = Inr (Some (triggered_watch 9 (sample_watch 1 sample_threshold WOnce)))"
proof -
  define ops where "ops = [OSave (sample_watch 1 sample_threshold WOnce), OTrigger 1 9, OCheck 2 9]"
  obtain answers db' where r: "run_ops (sql_watch_step counting_codec (\<lambda>_. ''id'')) ops open_db = (answers, db')" by fastforce
  have "same_watches counting_codec open_db []"
    using counting_codec_ok [where ?'a = watch_definition] open_db_ok [where ?'a = watch_row]
    by (auto simp: same_watches_def watches_ok_def reads_back_def codec_ok_def store_wf_def watch_map_def open_db_def)
  moreover have "list_all op_finite ops"
    by (simp add: ops_def sample_watch_def proposed_watch_def sample_threshold_def)
  ultimately show ?thesis
    using sql_watches_refine [OF _ _ r, of "[]" _ _ 1] sample_ops_memory r unfolding ops_def by (simp add: ws_get_def)
qed

definition sample_ledger_codecs :: ledger_codecs where
  "sample_ledger_codecs = \<lparr>lc_signal = counting_codec, lc_metadata = counting_codec, lc_artifact_error = (\<lambda>_. [])\<rparr>"

definition ledger_entry :: "uuid \<Rightarrow> datetime \<Rightarrow> relationship_record" where
  "ledger_entry i t = \<lparr>rr_id = i, rr_principal_id = 5, rr_signal_type = TrustUpdate, rr_content_ref = replicate 64 CHR ''a'',
     rr_tick_id = 1, rr_timestamp = t, rr_metadata = []\<rparr>"


end
