(* ===== verification/Llm_Http.thy ===== *)
theory Llm_Http
  imports Llm_Call Utf8 Coding_Text
begin

text \<open>
  The HTTP backends of the language models (\<open>exoskeleton-host/src/llm/http.rs\<close>): the bodies sent to OpenAI-compatible
  servers, Anthropic and Ollama, the decoding of their answers, streamed answers, the classification of failures and the
  estimates of cost. The HTTP client is a function from URL, headers and body to a reply; serde_json decodes the texts.
  The deltas of a stream that go to observers are left out.
\<close>

section \<open>Bodies of requests\<close>

record openai_function_call =
  fc_name :: string
  fc_arguments :: string

record openai_tool_call =
  tc_id :: "string option"
  tc_type :: string
  tc_function :: openai_function_call

text \<open>Also the message of Ollama, which has the same fields.\<close>

record openai_message =
  om_role :: string
  om_content :: "string option"
  om_tool_calls :: "openai_tool_call list option"
  om_tool_call_id :: "string option"

record openai_function_definition =
  fd_name :: string
  fd_description :: string
  fd_parameters :: json

record openai_tool_definition =
  td_type :: string
  td_function :: openai_function_definition

record openai_request =
  oq_model :: string
  oq_messages :: "openai_message list"
  oq_max_completion_tokens :: u64
  oq_temperature :: "f64 option"
  oq_stop :: "string list option"
  oq_stream :: bool
  oq_tools :: "openai_tool_definition list option"

datatype anthropic_content_block =
    ATextBlock string
  | AToolUseBlock string string json
  | AToolResultBlock string string bool

datatype anthropic_content = AText string | ABlocks "anthropic_content_block list"

record anthropic_message =
  am_role :: string
  am_content :: anthropic_content

record anthropic_request =
  aq_model :: string
  aq_max_tokens :: u64
  aq_system :: "string option"
  aq_messages :: "anthropic_message list"
  aq_temperature :: "f64 option"
  aq_stop_sequences :: "string list option"
  aq_stream :: bool
  aq_tools :: "tool_definition list option" \<comment> \<open>name, description, input schema\<close>

record ollama_options =
  lo_temperature :: "f64 option"
  lo_stop :: "string list option"

record ollama_request =
  lq_model :: string
  lq_messages :: "openai_message list"
  lq_stream :: bool
  lq_options :: "ollama_options option"
  lq_tools :: "openai_tool_definition list option"

datatype http_body = OpenAiBody openai_request | AnthropicBody anthropic_request | OllamaBody ollama_request

definition effective_stream :: "llm_request \<Rightarrow> bool" where
  "effective_stream r \<longleftrightarrow> lr_stream r \<and> lr_tools r = []"

definition nonempty :: "'x list \<Rightarrow> 'x list option" where
  "nonempty xs = (if xs = [] then None else Some xs)"

fun role_name :: "llm_role \<Rightarrow> string" where
  "role_name RoleSystem = ''system''"
| "role_name RoleUser = ''user''"
| "role_name RoleAssistant = ''assistant''"

fun tool_call_of :: "(json \<Rightarrow> string) \<Rightarrow> content_block \<Rightarrow> openai_tool_call option" where
  "tool_call_of show_json (ToolUseBlock i name input) = Some \<lparr>tc_id = Some i, tc_type = ''function'',
     tc_function = \<lparr>fc_name = name, fc_arguments = show_json input\<rparr>\<rparr>"
| "tool_call_of show_json _ = None"

fun tool_result_message :: "content_block \<Rightarrow> openai_message option" where
  "tool_result_message (ToolResultBlock i content _) =
     Some \<lparr>om_role = ''tool'', om_content = Some content, om_tool_calls = None, om_tool_call_id = Some i\<rparr>"
| "tool_result_message _ = None"

text \<open>Text and tool calls of a message in one, each tool result in a message of its own.\<close>

definition append_openai_messages :: "(json \<Rightarrow> string) \<Rightarrow> openai_message list \<Rightarrow> llm_message \<Rightarrow> openai_message list" where
  "append_openai_messages show_json messages msg =
     (let role = role_name (lm_role msg);
          content = concat (map block_text (lm_content msg));
          calls = List.map_filter (tool_call_of show_json) (lm_content msg);
          own = (if content \<noteq> [] \<or> calls = []
            then \<lparr>om_role = role, om_content = nonempty content, om_tool_calls = nonempty calls, om_tool_call_id = None\<rparr>
            else \<lparr>om_role = role, om_content = None, om_tool_calls = Some calls, om_tool_call_id = None\<rparr>)
      in messages @ [own] @ List.map_filter tool_result_message (lm_content msg))"

definition system_message :: "string option \<Rightarrow> openai_message list" where
  "system_message prompt = (case prompt of
     Some s \<Rightarrow> [\<lparr>om_role = ''system'', om_content = Some s, om_tool_calls = None, om_tool_call_id = None\<rparr>] | None \<Rightarrow> [])"

definition tool_to_openai_definition :: "tool_definition \<Rightarrow> openai_tool_definition" where
  "tool_to_openai_definition t = \<lparr>td_type = ''function'',
     td_function = \<lparr>fd_name = tdf_name t, fd_description = tdf_description t, fd_parameters = tdf_input_schema t\<rparr>\<rparr>"

record openai_backend =
  ob_base_url :: string
  ob_model :: string
  ob_api_key :: "string option"

definition openai_request_body :: "(json \<Rightarrow> string) \<Rightarrow> openai_backend \<Rightarrow> llm_request \<Rightarrow> openai_request" where
  "openai_request_body show_json b r = \<lparr>
     oq_model = ob_model b,
     oq_messages = foldl (append_openai_messages show_json) (system_message (lr_system_prompt r)) (lr_messages r),
     oq_max_completion_tokens = lr_max_output_tokens r, oq_temperature = lr_temperature r,
     oq_stop = nonempty (lr_stop_sequences r), oq_stream = effective_stream r,
     oq_tools = nonempty (map tool_to_openai_definition (lr_tools r))\<rparr>"

subsection \<open>Anthropic\<close>

definition encode_anthropic_tool_name :: "string \<Rightarrow> string" where
  "encode_anthropic_tool_name name = replace_all ''.'' ''__dot__'' name"

definition decode_anthropic_tool_name :: "string \<Rightarrow> string" where
  "decode_anthropic_tool_name encoded = replace_all ''__dot__'' ''.'' encoded"

fun is_text_block :: "content_block \<Rightarrow> bool" where
  "is_text_block (TextBlock _) = True"
| "is_text_block _ = False"

fun to_anthropic_block :: "content_block \<Rightarrow> anthropic_content_block" where
  "to_anthropic_block (TextBlock t) = ATextBlock t"
| "to_anthropic_block (ToolUseBlock i name input) = AToolUseBlock i (encode_anthropic_tool_name name) input"
| "to_anthropic_block (ToolResultBlock i content e) = AToolResultBlock i content e"

definition anthropic_content_from_blocks :: "content_block list \<Rightarrow> anthropic_content" where
  "anthropic_content_from_blocks blocks =
     (if list_all is_text_block blocks then AText (concat (map block_text blocks)) else ABlocks (map to_anthropic_block blocks))"

fun from_anthropic_block :: "anthropic_content_block \<Rightarrow> content_block" where
  "from_anthropic_block (ATextBlock t) = TextBlock t"
| "from_anthropic_block (AToolUseBlock i name input) = ToolUseBlock i (decode_anthropic_tool_name name) input"
| "from_anthropic_block (AToolResultBlock i content e) = ToolResultBlock i content e"

definition parse_anthropic_response_blocks :: "anthropic_content_block list \<Rightarrow> content_block list" where
  "parse_anthropic_response_blocks blocks = map from_anthropic_block blocks"

record anthropic_backend =
  ab_base_url :: string
  ab_model :: string
  ab_api_key :: string

definition anthropic_request_body :: "anthropic_backend \<Rightarrow> llm_request \<Rightarrow> anthropic_request" where
  "anthropic_request_body b r = \<lparr>
     aq_model = ab_model b, aq_max_tokens = lr_max_output_tokens r, aq_system = lr_system_prompt r,
     aq_messages = map (\<lambda>m. \<lparr>am_role = (if lm_role m = RoleAssistant then ''assistant'' else ''user''),
       am_content = anthropic_content_from_blocks (lm_content m)\<rparr>) (lr_messages r),
     aq_temperature = lr_temperature r, aq_stop_sequences = nonempty (lr_stop_sequences r), aq_stream = effective_stream r,
     aq_tools = nonempty (map (\<lambda>t. t\<lparr>tdf_name := encode_anthropic_tool_name (tdf_name t)\<rparr>) (lr_tools r))\<rparr>"

subsection \<open>Ollama\<close>

record ollama_backend =
  lb_base_url :: string
  lb_model :: string

definition append_ollama_messages :: "(json \<Rightarrow> string) \<Rightarrow> openai_message list \<Rightarrow> llm_message \<Rightarrow> openai_message list" where
  "append_ollama_messages show_json messages msg = append_openai_messages show_json messages msg"

definition ollama_request_body :: "(json \<Rightarrow> string) \<Rightarrow> ollama_backend \<Rightarrow> llm_request \<Rightarrow> ollama_request" where
  "ollama_request_body show_json b r = \<lparr>
     lq_model = lb_model b,
     lq_messages = foldl (append_ollama_messages show_json) (system_message (lr_system_prompt r)) (lr_messages r),
     lq_stream = False,
     lq_options = (if lr_temperature r \<noteq> None \<or> lr_stop_sequences r \<noteq> []
       then Some \<lparr>lo_temperature = lr_temperature r, lo_stop = nonempty (lr_stop_sequences r)\<rparr> else None),
     lq_tools = nonempty (map tool_to_openai_definition (lr_tools r))\<rparr>"

section \<open>Replies\<close>

text \<open>What reqwest reports: a failure with its text, or a status with the body, read at once or as a stream of chunks.\<close>

datatype wire_error = WireTimeout string | WireConnect string | WireOther string

record http_reply =
  hr_status :: nat
  hr_text :: "string + string"
  hr_chunks :: "(string + string) list"

record openai_usage =
  ou_prompt_tokens :: u64
  ou_completion_tokens :: u64

record openai_choice =
  oc_message :: openai_message
  oc_finish_reason :: "string option"

record openai_response =
  or_choices :: "openai_choice list"
  or_usage :: "openai_usage option"
  or_model :: "string option"

record anthropic_response =
  ar_content :: "anthropic_content_block list"
  ar_model :: string
  ar_stop_reason :: "string option"
  ar_input_tokens :: u64
  ar_output_tokens :: u64

record ollama_response =
  lp_message :: openai_message
  lp_model :: string
  lp_eval_count :: "u64 option"
  lp_prompt_eval_count :: "u64 option"

text \<open>The parts of a streamed chunk that are read: the first choice, if any, with its text and finish reason, and the usage.\<close>

record openai_sse_chunk =
  ok_choices :: "(string option \<times> string option) list"
  ok_usage :: "openai_usage option"

datatype openai_sse_event =
    OpenAiDelta string
  | OpenAiFinal "string option" "u64 option" "u64 option"
  | OpenAiDone
  | OpenAiSkip

datatype anthropic_sse_event =
    MessageStart "string option" "u64 option"
  | TextDelta string
  | MessageDelta "string option" "u64 option"
  | AnthropicDone
  | AnthropicSkip

record http_env =
  he_post :: "string \<Rightarrow> (string \<times> string) list \<Rightarrow> http_body \<Rightarrow> wire_error + http_reply"
  he_cancelled :: bool \<comment> \<open>the token when the call starts\<close>
  he_cancelled_at :: "nat \<Rightarrow> bool" \<comment> \<open>the token when a chunk has arrived\<close>
  he_latency_ms :: u64
  he_show_json :: "json \<Rightarrow> string"
  he_parse_json :: "string \<Rightarrow> string + json"
  he_openai_response :: "string \<Rightarrow> string + openai_response"
  he_anthropic_response :: "string \<Rightarrow> string + anthropic_response"
  he_ollama_response :: "string \<Rightarrow> string + ollama_response"
  he_openai_chunk :: "string \<Rightarrow> openai_sse_chunk option"
  he_content_delta :: "string \<Rightarrow> string option option"
  he_message_delta :: "string \<Rightarrow> (string option \<times> u64 option) option"
  he_message_start :: "string \<Rightarrow> (string option \<times> u64 option) option"

fun wire_failure :: "wire_error \<Rightarrow> exo_error" where
  "wire_failure (WireTimeout e) = LlmInvocation (''timeout: '' @ e)"
| "wire_failure (WireConnect e) = LlmInvocation (''connection refused: '' @ e)"
| "wire_failure (WireOther e) = LlmInvocation (''HTTP error: '' @ e)"

definition is_success_status :: "nat \<Rightarrow> bool" where
  "is_success_status s \<longleftrightarrow> 200 \<le> s \<and> s < 300"

definition ok_or_empty :: "string + string \<Rightarrow> string" where
  "ok_or_empty t = (case t of Inr s \<Rightarrow> s | Inl _ \<Rightarrow> [])"

text \<open>The start that all calls share: the token, the request, the status.\<close>

definition send_request :: "http_env \<Rightarrow> string \<Rightarrow> (string \<times> string) list \<Rightarrow> http_body \<Rightarrow> http_reply exo_result" where
  "send_request env url headers body =
     (if he_cancelled env then Inl (LlmInvocation ''cancelled before HTTP call'')
      else case he_post env url headers body of
        Inl e \<Rightarrow> Inl (wire_failure e)
      | Inr reply \<Rightarrow> if is_success_status (hr_status reply) then Inr reply
          else Inl (LlmInvocation (show_nat (hr_status reply) @ '': '' @ ok_or_empty (hr_text reply))))"

definition trim_slashes :: "string \<Rightarrow> string" where
  "trim_slashes s = rev (dropWhile (\<lambda>c. c = CHR ''/'') (rev s))"

definition bearer :: "string option \<Rightarrow> (string \<times> string) list" where
  "bearer key = (case key of Some k \<Rightarrow> [(''authorization'', ''Bearer '' @ k)] | None \<Rightarrow> [])"

definition read_json :: "(string \<Rightarrow> string + 'r) \<Rightarrow> http_reply \<Rightarrow> 'r exo_result" where
  "read_json parse reply = (case (case hr_text reply of Inl e \<Rightarrow> Inl e | Inr t \<Rightarrow> parse t) of
     Inl e \<Rightarrow> Inl (LlmInvocation (''malformed response body: '' @ e)) | Inr x \<Rightarrow> Inr x)"

section \<open>Cost\<close>

definition million_cents :: "f64 \<Rightarrow> f64" where
  "million_cents x = f64_mul (case x of Fin a \<Rightarrow> f64_of_rat (a / 1000000) | _ \<Rightarrow> x) (Fin 100)"

definition priced :: "rat \<Rightarrow> rat \<Rightarrow> u64 \<Rightarrow> u64 \<Rightarrow> f64" where
  "priced price_in price_out tokens_in tokens_out = million_cents (f64_add
     (f64_mul (f64_of_rat price_in) (f64_of_int (uint tokens_in))) (f64_mul (f64_of_rat price_out) (f64_of_int (uint tokens_out))))"

definition estimate_openai_cost :: "string \<Rightarrow> u64 \<Rightarrow> u64 \<Rightarrow> f64 option" where
  "estimate_openai_cost model tokens_in tokens_out =
     (if contains model ''gpt-4o-mini'' then Some (priced (15 / 100) (60 / 100) tokens_in tokens_out)
      else if contains model ''gpt-4o'' then Some (priced (250 / 100) 10 tokens_in tokens_out)
      else if contains model ''gpt-4'' then Some (priced 30 60 tokens_in tokens_out)
      else None)"

definition estimate_anthropic_cost :: "string \<Rightarrow> u64 \<Rightarrow> u64 \<Rightarrow> f64" where
  "estimate_anthropic_cost model tokens_in tokens_out =
     (if contains model ''opus'' then priced 15 75 tokens_in tokens_out
      else if contains model ''sonnet'' then priced 3 15 tokens_in tokens_out
      else if contains model ''haiku'' then priced (25 / 100) (125 / 100) tokens_in tokens_out
      else priced 3 15 tokens_in tokens_out)"

section \<open>Answers\<close>

fun block_len :: "(json \<Rightarrow> string) \<Rightarrow> content_block \<Rightarrow> nat" where
  "block_len show_json (TextBlock t) = length t"
| "block_len show_json (ToolResultBlock _ content _) = length content"
| "block_len show_json (ToolUseBlock _ _ input) = length (show_json input)"

definition blocks_len :: "(json \<Rightarrow> string) \<Rightarrow> content_block list \<Rightarrow> nat" where
  "blocks_len show_json blocks = sum_list (map (block_len show_json) blocks)"

definition message_text_len :: "(json \<Rightarrow> string) \<Rightarrow> llm_message \<Rightarrow> nat" where
  "message_text_len show_json m = blocks_len show_json (lm_content m)"

definition request_text_len :: "(json \<Rightarrow> string) \<Rightarrow> llm_request \<Rightarrow> nat" where
  "request_text_len show_json r = sum_list (map (message_text_len show_json) (lr_messages r)) +
     (case lr_system_prompt r of Some s \<Rightarrow> length s | None \<Rightarrow> 0)"

definition quarter :: "nat \<Rightarrow> u64" where
  "quarter n = of_nat (n div 4)"

text \<open>The tool calls of an answer; the first malformed argument text fails the answer.\<close>

fun parse_calls :: "(string \<Rightarrow> string + json) \<Rightarrow> nat \<Rightarrow> openai_tool_call list \<Rightarrow> content_block list exo_result" where
  "parse_calls parse i [] = Inr []"
| "parse_calls parse i (call # calls) = (case parse (fc_arguments (tc_function call)) of
     Inl e \<Rightarrow> Inl (LlmInvocation (''malformed tool call arguments for '' @ [CHR 0x27] @ fc_name (tc_function call) @ [CHR 0x27] @ '': '' @ e))
   | Inr input \<Rightarrow> map_sum id (\<lambda>blocks. ToolUseBlock (case tc_id call of Some x \<Rightarrow> x | None \<Rightarrow> ''synthetic_call_'' @ show_nat i)
       (fc_name (tc_function call)) input # blocks) (parse_calls parse (Suc i) calls))"

definition parse_openai_response_blocks :: "(string \<Rightarrow> string + json) \<Rightarrow> openai_message \<Rightarrow> content_block list exo_result" where
  "parse_openai_response_blocks parse m =
     (let own = (case om_content m of Some t \<Rightarrow> if t = [] then [] else [TextBlock t] | None \<Rightarrow> []) in
      case om_tool_calls m of
        None \<Rightarrow> Inr own
      | Some calls \<Rightarrow> map_sum id (\<lambda>blocks. own @ blocks) (parse_calls parse 0 calls))"

definition openai_stop_reason :: "string option \<Rightarrow> stop_reason" where
  "openai_stop_reason r = (if r = Some ''length'' then MaxTokens else if r = Some ''stop_sequence'' then StopSequence
     else if r = Some ''tool_calls'' then StopToolUse else EndTurn)"

definition anthropic_stop_reason :: "string option \<Rightarrow> stop_reason" where
  "anthropic_stop_reason r = (if r = Some ''max_tokens'' then MaxTokens else if r = Some ''stop_sequence'' then StopSequence
     else if r = Some ''tool_use'' then StopToolUse else EndTurn)"

definition openai_cost :: "openai_backend \<Rightarrow> u64 \<Rightarrow> u64 \<Rightarrow> f64 option" where
  "openai_cost b tokens_in tokens_out = (case ob_api_key b of None \<Rightarrow> None | Some _ \<Rightarrow> estimate_openai_cost (ob_model b) tokens_in tokens_out)"

definition openai_label :: "openai_backend \<Rightarrow> llm_backend" where
  "openai_label b = (if ob_api_key b \<noteq> None then Frontier else Local)"

definition openai_send :: "http_env \<Rightarrow> openai_backend \<Rightarrow> llm_request \<Rightarrow> http_reply exo_result" where
  "openai_send env b r = send_request env (trim_slashes (ob_base_url b) @ ''/v1/chat/completions'') (bearer (ob_api_key b))
     (OpenAiBody (openai_request_body (he_show_json env) b r))"

definition openai_call :: "http_env \<Rightarrow> openai_backend \<Rightarrow> llm_request \<Rightarrow> llm_response exo_result" where
  "openai_call env b r = (case openai_send env b r of
     Inl e \<Rightarrow> Inl e
   | Inr reply \<Rightarrow> (case read_json (he_openai_response env) reply of
       Inl e \<Rightarrow> Inl e
     | Inr parsed \<Rightarrow> (case or_choices parsed of
         [] \<Rightarrow> Inl (LlmInvocation ''empty choices array'')
       | choice # _ \<Rightarrow> (case parse_openai_response_blocks (he_parse_json env) (oc_message choice) of
           Inl e \<Rightarrow> Inl e
         | Inr blocks \<Rightarrow>
             (let (tokens_in, tokens_out) = (case or_usage parsed of
                Some u \<Rightarrow> (ou_prompt_tokens u, ou_completion_tokens u)
              | None \<Rightarrow> (quarter (request_text_len (he_show_json env) r), quarter (blocks_len (he_show_json env) blocks)))
              in Inr \<lparr>rp_content_blocks = blocks, rp_model = unwrap_or (ob_model b) (or_model parsed), rp_tokens_in = tokens_in,
                rp_tokens_out = tokens_out, rp_latency_ms = he_latency_ms env, rp_stop_reason = openai_stop_reason (oc_finish_reason choice),
                rp_cost_estimate_cents = openai_cost b tokens_in tokens_out, rp_backend = openai_label b\<rparr>)))))"

definition anthropic_send :: "http_env \<Rightarrow> anthropic_backend \<Rightarrow> llm_request \<Rightarrow> http_reply exo_result" where
  "anthropic_send env b r = send_request env (trim_slashes (ab_base_url b) @ ''/v1/messages'')
     [(''x-api-key'', ab_api_key b), (''anthropic-version'', ''2023-06-01''), (''content-type'', ''application/json'')]
     (AnthropicBody (anthropic_request_body b r))"

text \<open>A malformed body is quoted with its first 600 characters.\<close>

definition read_anthropic :: "http_env \<Rightarrow> http_reply \<Rightarrow> anthropic_response exo_result" where
  "read_anthropic env reply = (case hr_text reply of
     Inl e \<Rightarrow> Inl (LlmInvocation (''failed to read response body: '' @ e))
   | Inr body \<Rightarrow> (case he_anthropic_response env body of
       Inl e \<Rightarrow> Inl (LlmInvocation (''malformed response body: '' @ e @ ''; body='' @ concat (take 600 (utf8_chars body))))
     | Inr x \<Rightarrow> Inr x))"

definition anthropic_call :: "http_env \<Rightarrow> anthropic_backend \<Rightarrow> llm_request \<Rightarrow> llm_response exo_result" where
  "anthropic_call env b r = (case anthropic_send env b r of
     Inl e \<Rightarrow> Inl e
   | Inr reply \<Rightarrow> (case read_anthropic env reply of
       Inl e \<Rightarrow> Inl e
     | Inr parsed \<Rightarrow> Inr \<lparr>rp_content_blocks = parse_anthropic_response_blocks (ar_content parsed), rp_model = ar_model parsed,
         rp_tokens_in = ar_input_tokens parsed, rp_tokens_out = ar_output_tokens parsed, rp_latency_ms = he_latency_ms env,
         rp_stop_reason = anthropic_stop_reason (ar_stop_reason parsed),
         rp_cost_estimate_cents = Some (estimate_anthropic_cost (ar_model parsed) (ar_input_tokens parsed) (ar_output_tokens parsed)),
         rp_backend = Frontier\<rparr>))"

text \<open>Ollama has no streamed variant: the default of the trait makes the plain call.\<close>

definition ollama_call :: "http_env \<Rightarrow> ollama_backend \<Rightarrow> llm_request \<Rightarrow> llm_response exo_result" where
  "ollama_call env b r = (case send_request env (trim_slashes (lb_base_url b) @ ''/api/chat'') []
       (OllamaBody (ollama_request_body (he_show_json env) b r)) of
     Inl e \<Rightarrow> Inl e
   | Inr reply \<Rightarrow> (case read_json (he_ollama_response env) reply of
       Inl e \<Rightarrow> Inl e
     | Inr parsed \<Rightarrow> (case parse_openai_response_blocks (he_parse_json env) (lp_message parsed) of
         Inl e \<Rightarrow> Inl e
       | Inr blocks \<Rightarrow> Inr \<lparr>rp_content_blocks = blocks, rp_model = lp_model parsed,
           rp_tokens_in = unwrap_or (quarter (request_text_len (he_show_json env) r)) (lp_prompt_eval_count parsed),
           rp_tokens_out = unwrap_or (quarter (blocks_len (he_show_json env) blocks)) (lp_eval_count parsed),
           rp_latency_ms = he_latency_ms env,
           rp_stop_reason = (if om_tool_calls (lp_message parsed) \<noteq> None then StopToolUse else EndTurn),
           rp_cost_estimate_cents = None, rp_backend = Local\<rparr>)))"

section \<open>Streamed answers\<close>

definition strip_prefix :: "string \<Rightarrow> string \<Rightarrow> string option" where
  "strip_prefix pre s = (if take (length pre) s = pre then Some (drop (length pre) s) else None)"

definition parse_openai_sse_line :: "http_env \<Rightarrow> string \<Rightarrow> openai_sse_event" where
  "parse_openai_sse_line env line0 = (let line = str_trim line0 in
     if line = [] \<or> hd line = CHR '':'' then OpenAiSkip
     else case strip_prefix ''data:'' line of
       None \<Rightarrow> OpenAiSkip
     | Some d \<Rightarrow> (let data = str_trim d in
         if data = ''[DONE]'' then OpenAiDone
         else case he_openai_chunk env data of
           None \<Rightarrow> OpenAiSkip
         | Some chunk \<Rightarrow> (case ok_choices chunk of
             [] \<Rightarrow> OpenAiSkip
           | (content, finish_reason) # _ \<Rightarrow>
               if content \<noteq> None \<and> content \<noteq> Some [] then OpenAiDelta (the content)
               else if finish_reason \<noteq> None \<or> ok_usage chunk \<noteq> None
               then OpenAiFinal finish_reason (map_option ou_prompt_tokens (ok_usage chunk)) (map_option ou_completion_tokens (ok_usage chunk))
               else OpenAiSkip)))"

definition parse_anthropic_sse_event :: "http_env \<Rightarrow> string \<Rightarrow> string \<Rightarrow> anthropic_sse_event" where
  "parse_anthropic_sse_event env event_type data =
     (if event_type = ''content_block_delta'' then (case he_content_delta env data of
        Some (Some t) \<Rightarrow> if t = [] then AnthropicSkip else TextDelta t | _ \<Rightarrow> AnthropicSkip)
      else if event_type = ''message_delta'' then (case he_message_delta env data of
        Some (stop, out) \<Rightarrow> MessageDelta stop out | None \<Rightarrow> AnthropicSkip)
      else if event_type = ''message_start'' then (case he_message_start env data of
        Some (model, tokens) \<Rightarrow> MessageStart model tokens | None \<Rightarrow> AnthropicSkip)
      else if event_type = ''message_stop'' then AnthropicDone
      else AnthropicSkip)"

text \<open>The inner loop: every complete line of the buffer, until one ends the stream; what is left of the buffer stays.\<close>

function drain :: "(string \<Rightarrow> 's \<Rightarrow> 's \<times> bool) \<Rightarrow> string \<Rightarrow> 's \<Rightarrow> 's \<times> string \<times> bool" where
  "drain on_line buf s =
     (if CHR 0x0A \<notin> set buf then (s, buf, False)
      else let line = takeWhile (\<lambda>c. c \<noteq> CHR 0x0A) buf; rest = drop (Suc (length line)) buf
        in case on_line line s of
             (s', True) \<Rightarrow> (s', rest, True)
           | (s', False) \<Rightarrow> drain on_line rest s')"
  by pat_completeness auto
termination by (relation "measure (\<lambda>(_, buf, _). length buf)") (auto intro!: diff_less length_pos_if_in_set)

declare drain.simps [simp del]

text \<open>The outer loop over the chunks; each is decoded on its own.\<close>

fun read_stream :: "(nat \<Rightarrow> bool) \<Rightarrow> (string \<Rightarrow> 's \<Rightarrow> 's \<times> bool) \<Rightarrow> nat \<Rightarrow> (string + string) list \<Rightarrow> string \<Rightarrow> 's \<Rightarrow> 's exo_result" where
  "read_stream cancelled on_line k [] buf s = Inr s"
| "read_stream cancelled on_line k (chunk # chunks) buf s =
     (if cancelled k then Inl (LlmInvocation ''cancelled during streaming'')
      else case chunk of
        Inl e \<Rightarrow> Inl (LlmInvocation (''stream read error: '' @ e))
      | Inr bytes \<Rightarrow> (case drain on_line (buf @ from_utf8_lossy bytes) s of
          (s', _, True) \<Rightarrow> Inr s'
        | (s', rest, False) \<Rightarrow> read_stream cancelled on_line (Suc k) chunks rest s'))"

record openai_stream =
  os_content :: string
  os_finish_reason :: "string option"
  os_tokens_in :: u64
  os_tokens_out :: u64

definition openai_line :: "http_env \<Rightarrow> string \<Rightarrow> openai_stream \<Rightarrow> openai_stream \<times> bool" where
  "openai_line env line s = (case parse_openai_sse_line env line of
     OpenAiDelta t \<Rightarrow> (s\<lparr>os_content := os_content s @ t\<rparr>, False)
   | OpenAiFinal fr i out \<Rightarrow> (s\<lparr>os_finish_reason := fr, os_tokens_in := unwrap_or (os_tokens_in s) i,
       os_tokens_out := unwrap_or (os_tokens_out s) out\<rparr>, False)
   | OpenAiDone \<Rightarrow> (s, True)
   | OpenAiSkip \<Rightarrow> (s, False))"

definition openai_stream_new :: openai_stream where
  "openai_stream_new = \<lparr>os_content = [], os_finish_reason = None, os_tokens_in = 0, os_tokens_out = 0\<rparr>"

definition openai_stream_response :: "http_env \<Rightarrow> openai_backend \<Rightarrow> llm_request \<Rightarrow> openai_stream \<Rightarrow> llm_response" where
  "openai_stream_response env b r s =
     (let (tokens_in, tokens_out) = (if os_tokens_in s = 0 \<and> os_tokens_out s = 0
        then (quarter (request_text_len (he_show_json env) r), quarter (length (os_content s))) else (os_tokens_in s, os_tokens_out s))
      in \<lparr>rp_content_blocks = [TextBlock (os_content s)], rp_model = ob_model b, rp_tokens_in = tokens_in, rp_tokens_out = tokens_out,
        rp_latency_ms = 0, rp_stop_reason = openai_stop_reason (os_finish_reason s),
        rp_cost_estimate_cents = openai_cost b tokens_in tokens_out, rp_backend = openai_label b\<rparr>)"

definition openai_call_streaming :: "http_env \<Rightarrow> openai_backend \<Rightarrow> llm_request \<Rightarrow> llm_response exo_result" where
  "openai_call_streaming env b r =
     (if \<not> lr_stream r \<or> lr_tools r \<noteq> [] then openai_call env b r
      else case openai_send env b r of
        Inl e \<Rightarrow> Inl e
      | Inr reply \<Rightarrow> map_sum id (openai_stream_response env b r)
          (read_stream (he_cancelled_at env) (openai_line env) 0 (hr_chunks reply) [] openai_stream_new))"

record anthropic_stream =
  as_event_type :: string
  as_content :: string
  as_stop_reason :: "string option"
  as_input_tokens :: u64
  as_output_tokens :: u64
  as_model :: "string option"

definition anthropic_line :: "http_env \<Rightarrow> string \<Rightarrow> anthropic_stream \<Rightarrow> anthropic_stream \<times> bool" where
  "anthropic_line env line0 s = (let line = str_trim line0 in
     if line = [] then (s, False)
     else case strip_prefix ''event: '' line of
       Some event_type \<Rightarrow> (s\<lparr>as_event_type := str_trim event_type\<rparr>, False)
     | None \<Rightarrow> (case strip_prefix ''data: '' line of
         None \<Rightarrow> (s, False)
       | Some data \<Rightarrow> (case parse_anthropic_sse_event env (as_event_type s) (str_trim data) of
           MessageStart model tokens \<Rightarrow> (s\<lparr>as_model := model, as_input_tokens := unwrap_or (as_input_tokens s) tokens, as_event_type := []\<rparr>, False)
         | TextDelta t \<Rightarrow> (s\<lparr>as_content := as_content s @ t, as_event_type := []\<rparr>, False)
         | MessageDelta stop tokens \<Rightarrow> (s\<lparr>as_stop_reason := stop, as_output_tokens := unwrap_or (as_output_tokens s) tokens,
             as_event_type := []\<rparr>, False)
         | AnthropicDone \<Rightarrow> (s, True)
         | AnthropicSkip \<Rightarrow> (s\<lparr>as_event_type := []\<rparr>, False))))"

definition anthropic_stream_new :: anthropic_stream where
  "anthropic_stream_new = \<lparr>as_event_type = [], as_content = [], as_stop_reason = None, as_input_tokens = 0, as_output_tokens = 0,
     as_model = None\<rparr>"

definition anthropic_stream_response :: "anthropic_backend \<Rightarrow> anthropic_stream \<Rightarrow> llm_response" where
  "anthropic_stream_response b s = (let model = unwrap_or (ab_model b) (as_model s) in
     \<lparr>rp_content_blocks = [TextBlock (as_content s)], rp_model = model, rp_tokens_in = as_input_tokens s, rp_tokens_out = as_output_tokens s,
      rp_latency_ms = 0, rp_stop_reason = anthropic_stop_reason (as_stop_reason s),
      rp_cost_estimate_cents = Some (estimate_anthropic_cost model (as_input_tokens s) (as_output_tokens s)), rp_backend = Frontier\<rparr>)"

definition anthropic_call_streaming :: "http_env \<Rightarrow> anthropic_backend \<Rightarrow> llm_request \<Rightarrow> llm_response exo_result" where
  "anthropic_call_streaming env b r =
     (if \<not> lr_stream r \<or> lr_tools r \<noteq> [] then anthropic_call env b r
      else case anthropic_send env b r of
        Inl e \<Rightarrow> Inl e
      | Inr reply \<Rightarrow> map_sum id (anthropic_stream_response b)
          (read_stream (he_cancelled_at env) (anthropic_line env) 0 (hr_chunks reply) [] anthropic_stream_new))"

section \<open>Classification of failures\<close>

definition is_retryable_error :: "string \<Rightarrow> bool" where
  "is_retryable_error msg \<longleftrightarrow>
     mentions_any [''timeout'', ''connection refused'', ''429'', ''500'', ''502'', ''503'', ''504'', ''cancelled''] msg"

end
