(* ===== verification/Llm_Http_Laws.thy ===== *)
theory Llm_Http_Laws
  imports Llm_Http
begin

text \<open>
  Laws of the HTTP backends: tool names and blocks survive the encoding for Anthropic, a streamed answer does not depend
  on how its text was cut into chunks as long as no character was cut, and the three backends keep the contract of the
  trait (a locale): a cancelled call is not sent, every failure is an LLM failure, an answer names its own backend.
\<close>

section \<open>Tool names\<close>

text \<open>No two underscores in a row.\<close>

fun single_underscores :: "string \<Rightarrow> bool" where
  "single_underscores (a # b # s) \<longleftrightarrow> \<not> (a = CHR ''_'' \<and> b = CHR ''_'') \<and> single_underscores (b # s)"
| "single_underscores _ = True"

lemma encode_Nil [simp]: "encode_anthropic_tool_name [] = []"
  by (simp add: encode_anthropic_tool_name_def)

lemma encode_Cons:
  "encode_anthropic_tool_name (c # s) = (if c = CHR ''.'' then ''__dot__'' else [c]) @ encode_anthropic_tool_name s"
  by (simp add: encode_anthropic_tool_name_def)

lemma encode_head:
  "s \<noteq> [] \<Longrightarrow> \<exists>t. encode_anthropic_tool_name s = (if hd s = CHR ''.'' then ''__'' else [hd s]) @ t"
  by (cases s) (simp_all add: encode_Cons)

lemma decode_code: "decode_anthropic_tool_name (''__dot__'' @ s) = CHR ''.'' # decode_anthropic_tool_name s"
  by (simp add: decode_anthropic_tool_name_def)

lemma decode_other:
  "take 7 (c # s) \<noteq> ''__dot__'' \<Longrightarrow> decode_anthropic_tool_name (c # s) = c # decode_anthropic_tool_name s"
  by (simp add: decode_anthropic_tool_name_def numeral_nat)

lemma no_code_starts:
  assumes "single_underscores (c # s)" "c \<noteq> CHR ''.''"
  shows "take 7 (c # encode_anthropic_tool_name s) \<noteq> ''__dot__''"
proof (cases s)
  case (Cons d u)
  obtain t where "encode_anthropic_tool_name s = (if d = CHR ''.'' then ''__'' else [d]) @ t"
    using encode_head [of s] Cons by auto
  then show ?thesis using assms Cons by (auto split: if_splits)
qed simp

lemma tool_name_round_trip: "single_underscores s \<Longrightarrow> decode_anthropic_tool_name (encode_anthropic_tool_name s) = s"
proof (induction s)
  case (Cons c s)
  then have ih: "decode_anthropic_tool_name (encode_anthropic_tool_name s) = s" by (cases s) auto
  show ?case
  proof (cases "c = CHR ''.''")
    case True
    then show ?thesis using ih decode_code [of "encode_anthropic_tool_name s"] by (simp add: encode_Cons)
  next
    case False
    then show ?thesis using ih decode_other [OF no_code_starts [OF Cons.prems False]] by (simp add: encode_Cons)
  qed
qed (simp add: decode_anthropic_tool_name_def)

text \<open>A name that carries the code for a dot comes back as another name.\<close>

lemma coded_name_changes: "decode_anthropic_tool_name (encode_anthropic_tool_name ''my__dot__tool'') = ''my.tool''"
  by (simp add: encode_anthropic_tool_name_def decode_anthropic_tool_name_def)

fun plain_name :: "content_block \<Rightarrow> bool" where
  "plain_name (ToolUseBlock _ name _) \<longleftrightarrow> single_underscores name"
| "plain_name _ = True"

lemma block_round_trip: "plain_name b \<Longrightarrow> from_anthropic_block (to_anthropic_block b) = b"
  by (cases b) (simp_all add: tool_name_round_trip)

section \<open>Streams\<close>

lemma takeWhile_newline [simp]:
  "CHR 0x0A \<in> set a \<Longrightarrow> takeWhile (\<lambda>c. c \<noteq> CHR 0x0A) (a @ b) = takeWhile (\<lambda>c. c \<noteq> CHR 0x0A) a"
  by (simp add: takeWhile_append1)

lemma line_within: "CHR 0x0A \<in> set a \<Longrightarrow> Suc (length (takeWhile (\<lambda>c. c \<noteq> CHR 0x0A) a)) \<le> length a"
  by (induction a) auto

text \<open>Draining a longer buffer: first the old part, then what is left with the new part.\<close>

lemma drain_append:
  "drain on_line (a @ b) s = (case drain on_line a s of
     (s', rest, True) \<Rightarrow> (s', rest @ b, True)
   | (s', rest, False) \<Rightarrow> drain on_line (rest @ b) s')"
proof (induction on_line a s rule: drain.induct)
  case (1 on_line a s)
  let ?line = "takeWhile (\<lambda>c. c \<noteq> CHR 0x0A) a"
  let ?rest = "drop (Suc (length ?line)) a"
  show ?case
  proof (cases "CHR 0x0A \<in> set a")
    case False
    then show ?thesis by (simp add: drain.simps [of on_line a])
  next
    case True
    obtain s' e where line: "on_line ?line s = (s', e)" by force
    have split_rest: "drop (Suc (length ?line)) (a @ b) = ?rest @ b" using line_within [OF True] by simp
    show ?thesis
    proof (cases e)
      case e: True
      then show ?thesis using True line split_rest by (simp add: drain.simps [of on_line "a @ b"] drain.simps [of on_line a] Let_def)
    next
      case e: False
      have "drain on_line (?rest @ b) s' = (case drain on_line ?rest s' of
          (s', rest, True) \<Rightarrow> (s', rest @ b, True) | (s', rest, False) \<Rightarrow> drain on_line (rest @ b) s')"
        using 1 [OF _ refl refl line [symmetric]] True e by simp
      then show ?thesis using True line split_rest e
        by (simp add: drain.simps [of on_line "a @ b"] drain.simps [of on_line a] Let_def)
    qed
  qed
qed

lemma drain_rest: "drain on_line a s = (s', rest, False) \<Longrightarrow> CHR 0x0A \<notin> set rest"
proof (induction on_line a s rule: drain.induct)
  case (1 on_line a s)
  show ?case
  proof (cases "CHR 0x0A \<in> set a")
    case False
    then show ?thesis using "1.prems" by (simp add: drain.simps [of on_line a])
  next
    case True
    obtain t e where line: "on_line (takeWhile (\<lambda>c. c \<noteq> CHR 0x0A) a) s = (t, e)" by force
    then have e: "\<not> e" using "1.prems" True by (cases e) (simp_all add: drain.simps [of on_line a] Let_def)
    then show ?thesis
      using "1.IH" [OF _ refl refl line [symmetric]] "1.prems" True line by (simp add: drain.simps [of on_line a] Let_def)
  qed
qed

text \<open>A stream of whole characters that is not cancelled is read as its concatenation.\<close>

lemma read_stream_concat:
  assumes "list_all valid_utf8 cs" "\<And>i. \<not> cancelled i" "CHR 0x0A \<notin> set buf"
  shows "read_stream cancelled on_line k (map Inr cs) buf s = Inr (fst (drain on_line (buf @ concat cs) s))"
  using assms(1,3)
proof (induction cs arbitrary: k buf s)
  case Nil
  then show ?case by (simp add: drain.simps [of on_line buf])
next
  case (Cons c cs)
  obtain s' rest e where d: "drain on_line (buf @ c) s = (s', rest, e)" by (metis prod_cases3)
  have whole: "drain on_line (buf @ c @ concat cs) s = (if e then (s', rest @ concat cs, True) else drain on_line (rest @ concat cs) s')"
    using drain_append [of on_line "buf @ c" "concat cs" s] d by simp
  show ?case
  proof (cases e)
    case True
    then show ?thesis using Cons.prems assms(2) d whole by (simp add: lossy_valid)
  next
    case False
    then show ?thesis using Cons.prems assms(2) d whole Cons.IH [OF _ drain_rest] by (simp add: lossy_valid)
  qed
qed

text \<open>A character cut by the end of a chunk is lost: each half is replaced.\<close>

lemma split_character_lost:
  "read_stream (\<lambda>_. False) (\<lambda>line s. (s @ line, False)) 0 [Inr [CHR 0xC3, CHR 0xA9, CHR 0x0A]] [] [] = Inr [CHR 0xC3, CHR 0xA9]"
  "read_stream (\<lambda>_. False) (\<lambda>line s. (s @ line, False)) 0 [Inr [CHR 0xC3], Inr [CHR 0xA9, CHR 0x0A]] [] [] =
     Inr (replacement_char @ replacement_char)"
  by code_simp+

text \<open>The last line counts only with its newline.\<close>

lemma unfinished_line_dropped:
  "CHR 0x0A \<notin> set (from_utf8_lossy bytes) \<Longrightarrow> read_stream (\<lambda>_. False) on_line k [Inr bytes] [] s = Inr s"
  by (simp add: drain.simps)

text \<open>A server that answers with a given text in given chunks.\<close>

definition answering :: "http_env \<Rightarrow> string list \<Rightarrow> http_env" where
  "answering env cs = env\<lparr>he_post := (\<lambda>_ _ _. Inr \<lparr>hr_status = 200, hr_text = Inr (concat cs), hr_chunks = map Inr cs\<rparr>)\<rparr>"

lemma answering_fields:
  "he_openai_chunk (answering env cs) = he_openai_chunk env"
  "he_content_delta (answering env cs) = he_content_delta env"
  "he_message_delta (answering env cs) = he_message_delta env"
  "he_message_start (answering env cs) = he_message_start env"
  "he_show_json (answering env cs) = he_show_json env"
  "he_cancelled_at (answering env cs) = he_cancelled_at env"
  by (simp_all add: answering_def)

lemma answering_codec:
  "openai_line (answering env cs) = openai_line env"
  "anthropic_line (answering env cs) = anthropic_line env"
  "openai_stream_response (answering env cs) = openai_stream_response env"
  unfolding fun_eq_iff openai_line_def anthropic_line_def parse_openai_sse_line_def parse_anthropic_sse_event_def
    openai_stream_response_def answering_fields by (intro conjI allI refl)+

lemma answering_send:
  "\<not> he_cancelled env \<Longrightarrow> send_request (answering env cs) url headers body =
     Inr \<lparr>hr_status = 200, hr_text = Inr (concat cs), hr_chunks = map Inr cs\<rparr>"
  by (simp add: send_request_def answering_def) (simp add: is_success_status_def)

lemmas answering_simps = answering_fields answering_codec answering_send

lemma openai_streamed:
  assumes "list_all valid_utf8 cs" "\<And>i. \<not> he_cancelled_at env i" "\<not> he_cancelled env" "lr_stream r" "lr_tools r = []"
  shows "openai_call_streaming (answering env cs) b r =
    Inr (openai_stream_response env b r (fst (drain (openai_line env) (concat cs) openai_stream_new)))"
  using read_stream_concat [of cs "he_cancelled_at env" "[]" "openai_line env" 0 openai_stream_new] assms
  by (simp add: openai_call_streaming_def openai_send_def answering_simps)

lemma anthropic_streamed:
  assumes "list_all valid_utf8 cs" "\<And>i. \<not> he_cancelled_at env i" "\<not> he_cancelled env" "lr_stream r" "lr_tools r = []"
  shows "anthropic_call_streaming (answering env cs) b r =
    Inr (anthropic_stream_response b (fst (drain (anthropic_line env) (concat cs) anthropic_stream_new)))"
  using read_stream_concat [of cs "he_cancelled_at env" "[]" "anthropic_line env" 0 anthropic_stream_new] assms
  by (simp add: anthropic_call_streaming_def anthropic_send_def answering_simps)

section \<open>The contract of a backend\<close>

lemma map_sum_Inl: "map_sum id f x = Inl e \<longleftrightarrow> x = Inl e"
  by (cases x) auto

lemma map_sum_Inr: "map_sum id f x = Inr y \<longleftrightarrow> (\<exists>z. x = Inr z \<and> y = f z)"
  by (cases x) auto

lemma find_str_infix: "\<exists>k. find_str pat (a @ pat @ b) = Some k"
proof -
  have "List.find (\<lambda>i. take (length pat) (drop i (a @ pat @ b)) = pat) [0..<Suc (length (a @ pat @ b))] \<noteq> None"
    by (simp add: find_None_iff del: upt_Suc) (rule exI [of _ "length a"], simp)
  then show ?thesis by (auto simp: find_str_def)
qed

lemma contains_infix: "contains (a @ pat @ b) pat"
  using find_str_infix [of pat a b] by (auto simp: contains_def)

lemma mentions_infix: "pat \<in> set pats \<Longrightarrow> mentions_any pats (a @ pat @ b)"
  using contains_infix [of a pat b] by (auto simp: mentions_any_def list_ex_iff)

lemma wire_failure_text:
  assumes "\<forall>m. w \<noteq> WireOther m"
  shows "\<exists>pat m. wire_failure w = LlmInvocation (pat @ '': '' @ m) \<and> (pat = ''timeout'' \<or> pat = ''connection refused'')"
proof (cases w)
  case (WireTimeout m)
  then show ?thesis by (intro exI [of _ "''timeout''"] exI [of _ m]) simp
next
  case (WireConnect m)
  then show ?thesis by (intro exI [of _ "''connection refused''"] exI [of _ m]) simp
qed (use assms in simp)

locale llm_http_backend =
  fixes invoke :: "http_env \<Rightarrow> llm_request \<Rightarrow> llm_response exo_result" and label :: llm_backend
  assumes cancelled_not_sent: "he_cancelled env \<Longrightarrow> invoke env r = Inl (LlmInvocation ''cancelled before HTTP call'')"
    and fails_as_llm: "invoke env r = Inl e \<Longrightarrow> \<exists>m. e = LlmInvocation m"
    and labelled: "invoke env r = Inr resp \<Longrightarrow> rp_backend resp = label"
    and wire_reported: "\<not> he_cancelled env \<Longrightarrow> he_post env = (\<lambda>_ _ _. Inl w) \<Longrightarrow> invoke env r = Inl (wire_failure w)"
    and status_reported: "\<not> he_cancelled env \<Longrightarrow> he_post env = (\<lambda>_ _ _. Inr reply) \<Longrightarrow> \<not> is_success_status (hr_status reply) \<Longrightarrow>
      invoke env r = Inl (LlmInvocation (show_nat (hr_status reply) @ '': '' @ ok_or_empty (hr_text reply)))"
begin

text \<open>Failures that may pass are retried.\<close>

lemma cancelled_retried:
  assumes "he_cancelled env" "invoke env r = Inl e"
  shows "is_retryable_error (exo_error_display e)"
proof -
  have "e = LlmInvocation (''cancelled'' @ '' before HTTP call'')" using assms cancelled_not_sent [of env r] by simp
  then show ?thesis by (auto simp: is_retryable_error_def simp del: append.simps intro!: mentions_infix)
qed

lemma wire_retried:
  assumes "\<not> he_cancelled env" "he_post env = (\<lambda>_ _ _. Inl w)" "\<forall>m. w \<noteq> WireOther m" "invoke env r = Inl e"
  shows "is_retryable_error (exo_error_display e)"
proof -
  have "e = wire_failure w" using wire_reported [OF assms(1,2), of r] assms(4) by simp
  then obtain pat m where "e = LlmInvocation (pat @ '': '' @ m)" "pat = ''timeout'' \<or> pat = ''connection refused''"
    using wire_failure_text [OF assms(3)] by blast
  then show ?thesis by (auto simp: is_retryable_error_def simp del: append.simps intro!: mentions_infix)
qed

lemma status_retried:
  assumes "\<not> he_cancelled env" "he_post env = (\<lambda>_ _ _. Inr reply)" "hr_status reply \<in> {429, 500, 502, 503, 504}" "invoke env r = Inl e"
  shows "is_retryable_error (exo_error_display e)"
proof -
  have "\<not> is_success_status (hr_status reply)" using assms(3) by (auto simp: is_success_status_def)
  then have e: "e = LlmInvocation (show_nat (hr_status reply) @ '': '' @ ok_or_empty (hr_text reply))"
    using status_reported [OF assms(1,2), of r] assms(4) by simp
  have "show_nat 429 = ''429''" "show_nat 500 = ''500''" "show_nat 502 = ''502''" "show_nat 503 = ''503''" "show_nat 504 = ''504''"
    by code_simp+
  then have "show_nat (hr_status reply) \<in> set [''timeout'', ''connection refused'', ''429'', ''500'', ''502'', ''503'', ''504'', ''cancelled'']"
    using assms(3) by (elim insertE) simp_all
  then show ?thesis unfolding is_retryable_error_def e exo_error_display.simps by (rule mentions_infix)
qed

end

lemma wire_failure_llm: "\<exists>m. wire_failure w = LlmInvocation m"
  by (cases w) simp_all

lemma send_request_fails: "send_request env url headers body = Inl e \<Longrightarrow> \<exists>m. e = LlmInvocation m"
  using wire_failure_llm by (auto simp: send_request_def split: if_splits sum.splits)

lemma send_request_cancelled: "he_cancelled env \<Longrightarrow> send_request env url headers body = Inl (LlmInvocation ''cancelled before HTTP call'')"
  by (simp add: send_request_def)

lemma send_request_wire:
  "\<not> he_cancelled env \<Longrightarrow> he_post env = (\<lambda>_ _ _. Inl w) \<Longrightarrow> send_request env url headers body = Inl (wire_failure w)"
  by (simp add: send_request_def)

lemma send_request_status:
  "\<not> he_cancelled env \<Longrightarrow> he_post env = (\<lambda>_ _ _. Inr reply) \<Longrightarrow> \<not> is_success_status (hr_status reply) \<Longrightarrow>
   send_request env url headers body = Inl (LlmInvocation (show_nat (hr_status reply) @ '': '' @ ok_or_empty (hr_text reply)))"
  by (simp add: send_request_def)

lemmas send_request_facts = send_request_cancelled send_request_wire send_request_status

lemma read_json_fails: "read_json parse reply = Inl e \<Longrightarrow> \<exists>m. e = LlmInvocation m"
  by (auto simp: read_json_def split: sum.splits)

lemma parse_calls_fails: "parse_calls parse i calls = Inl e \<Longrightarrow> \<exists>m. e = LlmInvocation m"
proof (induction parse i calls rule: parse_calls.induct)
  case (2 parse i call calls)
  then show ?case by (cases "parse_calls parse (Suc i) calls") (auto split: sum.splits)
qed simp

lemma parse_blocks_fails: "parse_openai_response_blocks parse m = Inl e \<Longrightarrow> \<exists>m. e = LlmInvocation m"
proof (cases "om_tool_calls m")
  case (Some calls)
  moreover assume "parse_openai_response_blocks parse m = Inl e"
  ultimately show ?thesis
    by (cases "parse_calls parse 0 calls") (auto simp: parse_openai_response_blocks_def dest: parse_calls_fails)
qed (simp add: parse_openai_response_blocks_def)

lemma read_stream_fails: "read_stream cancelled on_line k chunks buf s = Inl e \<Longrightarrow> \<exists>m. e = LlmInvocation m"
  by (induction cancelled on_line k chunks buf s rule: read_stream.induct)
    (auto split: if_splits sum.splits prod.splits bool.splits)

interpretation openai: llm_http_backend "\<lambda>env. openai_call env b" "openai_label b" for b
proof
  fix env r e assume "openai_call env b r = Inl e"
  then show "\<exists>m. e = LlmInvocation m"
    by (auto simp: openai_call_def openai_send_def split: sum.splits list.splits prod.splits
        dest: send_request_fails read_json_fails parse_blocks_fails)
qed (auto simp: openai_call_def openai_send_def send_request_facts split: sum.splits list.splits prod.splits)

interpretation anthropic: llm_http_backend "\<lambda>env. anthropic_call env b" Frontier for b
proof
  fix env r e assume "anthropic_call env b r = Inl e"
  then show "\<exists>m. e = LlmInvocation m"
    by (auto simp: anthropic_call_def anthropic_send_def read_anthropic_def split: sum.splits dest: send_request_fails)
qed (auto simp: anthropic_call_def anthropic_send_def send_request_facts split: sum.splits)

interpretation ollama: llm_http_backend "\<lambda>env. ollama_call env b" Local for b
proof
  fix env r e assume "ollama_call env b r = Inl e"
  then show "\<exists>m. e = LlmInvocation m"
    by (auto simp: ollama_call_def split: sum.splits dest: send_request_fails read_json_fails parse_blocks_fails)
qed (auto simp: ollama_call_def send_request_facts split: sum.splits)

interpretation openai_streaming: llm_http_backend "\<lambda>env. openai_call_streaming env b" "openai_label b" for b
proof
  fix env r e assume "openai_call_streaming env b r = Inl e"
  then show "\<exists>m. e = LlmInvocation m"
    by (auto simp: openai_call_streaming_def openai_send_def map_sum_Inl split: if_splits sum.splits
        dest: openai.fails_as_llm send_request_fails read_stream_fails)
next
  fix env r resp assume "openai_call_streaming env b r = Inr resp"
  then show "rp_backend resp = openai_label b"
    by (auto simp: openai_call_streaming_def openai_stream_response_def map_sum_Inr Let_def split: if_splits sum.splits dest: openai.labelled)
qed (auto simp: openai_call_streaming_def openai_send_def openai.cancelled_not_sent openai.wire_reported openai.status_reported send_request_facts)

interpretation anthropic_streaming: llm_http_backend "\<lambda>env. anthropic_call_streaming env b" Frontier for b
proof
  fix env r e assume "anthropic_call_streaming env b r = Inl e"
  then show "\<exists>m. e = LlmInvocation m"
    by (auto simp: anthropic_call_streaming_def anthropic_send_def map_sum_Inl split: if_splits sum.splits
        dest: anthropic.fails_as_llm send_request_fails read_stream_fails)
next
  fix env r resp assume "anthropic_call_streaming env b r = Inr resp"
  then show "rp_backend resp = Frontier"
    by (auto simp: anthropic_call_streaming_def anthropic_stream_response_def map_sum_Inr Let_def split: if_splits sum.splits dest: anthropic.labelled)
qed (auto simp: anthropic_call_streaming_def anthropic_send_def anthropic.cancelled_not_sent anthropic.wire_reported anthropic.status_reported send_request_facts)

section \<open>Properties\<close>

text \<open>C38. What a streamed answer says does not depend on how the network cut it: two deliveries of the same text in chunks that
  cut no character give the same response, for the OpenAI-compatible and for the Anthropic protocol, and the response is
  that of reading the lines of the whole text in order.\<close>

theorem streamed_answer_any_chunks:
  assumes "list_all valid_utf8 cs" "list_all valid_utf8 cs'" "concat cs = concat cs'"
    and "\<forall>i. \<not> he_cancelled_at env i" "\<not> he_cancelled env" "lr_stream r" "lr_tools r = []"
  shows "openai_call_streaming (answering env cs) b r = openai_call_streaming (answering env cs') b r \<and>
    anthropic_call_streaming (answering env cs) a r = anthropic_call_streaming (answering env cs') a r \<and>
    openai_call_streaming (answering env cs) b r =
      Inr (openai_stream_response env b r (fst (drain (openai_line env) (concat cs) openai_stream_new))) \<and>
    anthropic_call_streaming (answering env cs) a r =
      Inr (anthropic_stream_response a (fst (drain (anthropic_line env) (concat cs) anthropic_stream_new)))"
  using assms by (simp add: openai_streamed anthropic_streamed)

text \<open>C39. The blocks of a conversation survive the encoding for Anthropic: decoding what was sent gives the blocks back, tool names
  with dots included, when no tool name has two underscores in a row.\<close>

theorem anthropic_blocks_round_trip:
  assumes "list_all plain_name bs" "anthropic_content_from_blocks bs = ABlocks sent"
  shows "parse_anthropic_response_blocks sent = bs"
proof -
  have "sent = map to_anthropic_block bs" using assms(2) by (auto simp: anthropic_content_from_blocks_def split: if_splits)
  then show ?thesis using assms(1)
    by (auto simp: parse_anthropic_response_blocks_def list_all_iff block_round_trip intro!: map_idI)
qed

theorem anthropic_blocks_round_trip_witness:
  "\<exists>sent. anthropic_content_from_blocks [TextBlock ''look'', ToolUseBlock ''t1'' ''code.read_symbol'' (JObj [])] = ABlocks sent \<and>
     parse_anthropic_response_blocks sent = [TextBlock ''look'', ToolUseBlock ''t1'' ''code.read_symbol'' (JObj [])]"
proof -
  let ?bs = "[TextBlock ''look'', ToolUseBlock ''t1'' ''code.read_symbol'' (JObj [])]"
  obtain sent where "anthropic_content_from_blocks ?bs = ABlocks sent" by (simp add: anthropic_content_from_blocks_def)
  then show ?thesis using anthropic_blocks_round_trip [of ?bs sent] by simp
qed

text \<open>One line of text in two ways of cutting it.\<close>

definition quiet_http :: http_env where
  "quiet_http = \<lparr>he_post = (\<lambda>_ _ _. Inl (WireTimeout [])), he_cancelled = False, he_cancelled_at = (\<lambda>_. False), he_latency_ms = 0,
     he_show_json = (\<lambda>_. []), he_parse_json = (\<lambda>_. Inl []), he_openai_response = (\<lambda>_. Inl []), he_anthropic_response = (\<lambda>_. Inl []),
     he_ollama_response = (\<lambda>_. Inl []), he_openai_chunk = (\<lambda>d. if d = ''x'' then Some \<lparr>ok_choices = [(Some ''hi'', None)], ok_usage = None\<rparr> else None),
     he_content_delta = (\<lambda>_. None), he_message_delta = (\<lambda>_. None), he_message_start = (\<lambda>_. None)\<rparr>"

definition stream_request :: llm_request where
  "stream_request = \<lparr>lr_backend = None, lr_system_prompt = None, lr_messages = [], lr_max_output_tokens = 16, lr_temperature = None,
     lr_stop_sequences = [], lr_stream = True, lr_tools = []\<rparr>"

theorem streamed_answer_any_chunks_witness:
  "openai_call_streaming (answering quiet_http [''da'', ''ta:x'' @ [CHR 0x0A]]) \<lparr>ob_base_url = [], ob_model = ''m'', ob_api_key = None\<rparr> stream_request =
   openai_call_streaming (answering quiet_http [''data:x'' @ [CHR 0x0A]]) \<lparr>ob_base_url = [], ob_model = ''m'', ob_api_key = None\<rparr> stream_request \<and>
   os_content (fst (drain (openai_line quiet_http) (''data:x'' @ [CHR 0x0A]) openai_stream_new)) = ''hi''"
proof -
  have "list_all valid_utf8 [''da'', ''ta:x'' @ [CHR 0x0A]]" "list_all valid_utf8 [''data:x'' @ [CHR 0x0A]]"
    "os_content (fst (drain (openai_line quiet_http) (''data:x'' @ [CHR 0x0A]) openai_stream_new)) = ''hi''"
    by code_simp+
  then show ?thesis
    using streamed_answer_any_chunks [of "[''da'', ''ta:x'' @ [CHR 0x0A]]" "[''data:x'' @ [CHR 0x0A]]" quiet_http stream_request]
    by (simp add: quiet_http_def stream_request_def)
qed

end
