(* ===== verification/Sql_Threads.thy ===== *)
theory Sql_Threads
  imports Threads Sql_Stores
begin

text \<open>
  The SQLite thread store (\<open>exoskeleton-host/src/storage/thread_store.rs\<close>): the table of specifications with
  status, last run and local state, and the table of outputs with an increasing key. The store is a second
  interpretation of the locale \<open>thread_store\<close>, so the scheduler and the registry have on it the properties they
  have on the store in memory. The instants of creation and update come from a clock that is read once per
  writing statement.
\<close>

section \<open>Tables\<close>

record thread_row =
  tb_thread_id :: uuid
  tb_spec_json :: string
  tb_status_json :: string
  tb_last_run_tick :: "i64 option"
  tb_local_state_json :: "string option"
  tb_created_at :: datetime
  tb_updated_at :: datetime

record output_row =
  ob_thread_id :: uuid
  ob_result_json :: string
  ob_created_at :: datetime

record thread_db =
  td_specs :: "thread_row list"
  td_outputs :: "output_row list" \<comment> \<open>by increasing key\<close>
  td_poisoned :: bool
  td_fault :: "string option"
  td_scan :: "thread_row list \<Rightarrow> thread_row list"
  td_clock :: "nat \<Rightarrow> datetime"
  td_reads :: nat

record thread_codecs =
  tcd_spec :: "thread_spec codec"
  tcd_status :: "registered_status codec"
  tcd_result :: "thread_execution_result codec"
  tcd_local :: "exec_thread_local_state codec"
  tcd_show :: "uuid \<Rightarrow> string"

definition open_threads :: "(nat \<Rightarrow> datetime) \<Rightarrow> thread_db" where
  "open_threads clock = \<lparr>td_specs = [], td_outputs = [], td_poisoned = False, td_fault = None, td_scan = id,
     td_clock = clock, td_reads = 0\<rparr>"

definition td_locked :: "thread_db \<Rightarrow> 'b exo_result \<Rightarrow> 'b exo_result" where
  "td_locked st r = locked (td_poisoned st) r"

definition td_statement :: "string \<Rightarrow> thread_db \<Rightarrow> 'b exo_result \<Rightarrow> 'b exo_result" where
  "td_statement what st r = (case td_fault st of Some e \<Rightarrow> Inl (Storage (what @ '': '' @ e)) | None \<Rightarrow> r)"

definition coded :: "string \<Rightarrow> string + 'b \<Rightarrow> ('b \<Rightarrow> 'c exo_result) \<Rightarrow> 'c exo_result" where
  "coded what r k = (case r of Inl e \<Rightarrow> Inl (Storage (what @ '': '' @ e)) | Inr x \<Rightarrow> k x)"

definition td_now :: "thread_db \<Rightarrow> datetime" where
  "td_now st = td_clock st (td_reads st)"

definition td_find :: "thread_db \<Rightarrow> uuid \<Rightarrow> thread_row option" where
  "td_find st i = List.find (\<lambda>r. tb_thread_id r = i) (td_specs st)"

text \<open>\<open>UPDATE .. WHERE thread_id = ?\<close>.\<close>

definition td_update :: "uuid \<Rightarrow> (thread_row \<Rightarrow> thread_row) \<Rightarrow> thread_db \<Rightarrow> thread_db" where
  "td_update i f st = st\<lparr>td_specs := map (\<lambda>r. if tb_thread_id r = i then (f r)\<lparr>tb_updated_at := td_now st\<rparr> else r) (td_specs st),
     td_reads := Suc (td_reads st)\<rparr>"

section \<open>Operations\<close>

definition td_save :: "thread_codecs \<Rightarrow> thread_spec \<Rightarrow> registered_status \<Rightarrow> thread_db \<Rightarrow> thread_db exo_result" where
  "td_save cs spec status st = td_locked st
     (coded ''spec serialization'' (enc (tcd_spec cs) spec) (\<lambda>spec_json.
      coded ''status serialization'' (enc (tcd_status cs) status) (\<lambda>status_json.
      td_statement ''save thread'' st
        (let old = td_find st (sp_thread_id spec);
             row = \<lparr>tb_thread_id = sp_thread_id spec, tb_spec_json = spec_json, tb_status_json = status_json,
               tb_last_run_tick = Option.bind old tb_last_run_tick, tb_local_state_json = Option.bind old tb_local_state_json,
               tb_created_at = (case old of Some r \<Rightarrow> tb_created_at r | None \<Rightarrow> td_now st), tb_updated_at = td_now st\<rparr>
         in Inr (st\<lparr>td_specs := filter (\<lambda>r. tb_thread_id r \<noteq> sp_thread_id spec) (td_specs st) @ [row],
              td_reads := Suc (td_reads st)\<rparr>)))))"

definition td_entry :: "thread_codecs \<Rightarrow> thread_row \<Rightarrow> (thread_spec \<times> registered_status) exo_result" where
  "td_entry cs r = coded ''spec deserialization'' (dec (tcd_spec cs) (tb_spec_json r)) (\<lambda>spec.
     coded ''status deserialization'' (dec (tcd_status cs) (tb_status_json r)) (\<lambda>status. Inr (spec, status)))"

definition td_get :: "thread_codecs \<Rightarrow> thread_db \<Rightarrow> uuid \<Rightarrow> (thread_spec \<times> registered_status) option exo_result" where
  "td_get cs st i = td_locked st (td_statement ''get thread'' st (case td_find st i of
     None \<Rightarrow> Inr None
   | Some r \<Rightarrow> (case td_entry cs r of Inl e \<Rightarrow> Inl e | Inr p \<Rightarrow> Inr (Some p))))"

definition td_list :: "thread_codecs \<Rightarrow> thread_db \<Rightarrow> (thread_spec \<times> registered_status) list exo_result" where
  "td_list cs st = td_locked st (td_statement ''prepare'' st (decode_all (td_entry cs) (td_scan st (td_specs st))))"

definition td_remove :: "uuid \<Rightarrow> thread_db \<Rightarrow> thread_db exo_result" where
  "td_remove i st = td_locked st (td_statement ''remove outputs'' st
     (Inr (st\<lparr>td_outputs := filter (\<lambda>r. ob_thread_id r \<noteq> i) (td_outputs st),
        td_specs := filter (\<lambda>r. tb_thread_id r \<noteq> i) (td_specs st)\<rparr>)))"

definition td_update_status :: "thread_codecs \<Rightarrow> uuid \<Rightarrow> registered_status \<Rightarrow> thread_db \<Rightarrow> thread_db exo_result" where
  "td_update_status cs i status st = td_locked st
     (coded ''status serialization'' (enc (tcd_status cs) status) (\<lambda>status_json.
      td_statement ''update thread status'' st
        (if td_find st i = None then Inl (Storage (''thread not found: '' @ tcd_show cs i))
         else Inr (td_update i (\<lambda>r. r\<lparr>tb_status_json := status_json\<rparr>) st))))"

definition td_save_last_run :: "uuid \<Rightarrow> u64 \<Rightarrow> thread_db \<Rightarrow> thread_db exo_result" where
  "td_save_last_run i tick st = td_locked st (td_statement ''save_last_run'' st
     (Inr (td_update i (\<lambda>r. r\<lparr>tb_last_run_tick := Some tick\<rparr>) st)))"

definition td_get_last_run :: "thread_db \<Rightarrow> uuid \<Rightarrow> u64 option exo_result" where
  "td_get_last_run st i = td_locked st (td_statement ''get_last_run'' st (Inr (Option.bind (td_find st i) tb_last_run_tick)))"

definition td_result :: "thread_codecs \<Rightarrow> output_row \<Rightarrow> thread_execution_result exo_result" where
  "td_result cs r = coded ''result deserialization'' (dec (tcd_result cs) (ob_result_json r)) Inr"

definition td_recent_results :: "thread_codecs \<Rightarrow> thread_db \<Rightarrow> uuid \<Rightarrow> nat \<Rightarrow> thread_execution_result list exo_result" where
  "td_recent_results cs st i limit = td_locked st (td_statement ''prepare'' st
     (decode_all (td_result cs) (take limit (rev (filter (\<lambda>r. ob_thread_id r = i) (td_outputs st))))))"

definition td_save_result :: "thread_codecs \<Rightarrow> thread_execution_result \<Rightarrow> thread_db \<Rightarrow> thread_db exo_result" where
  "td_save_result cs out st = td_locked st
     (coded ''result serialization'' (enc (tcd_result cs) out) (\<lambda>json.
      td_statement ''save execution result'' st
        (Inr (st\<lparr>td_outputs := td_outputs st @ [\<lparr>ob_thread_id = te_thread_id out, ob_result_json = json, ob_created_at = td_now st\<rparr>],
           td_reads := Suc (td_reads st)\<rparr>))))"

definition td_get_local_state :: "thread_codecs \<Rightarrow> thread_db \<Rightarrow> uuid \<Rightarrow> exec_thread_local_state option exo_result" where
  "td_get_local_state cs st i = td_locked st (td_statement ''get local state'' st
     (case Option.bind (td_find st i) tb_local_state_json of
        None \<Rightarrow> Inr None
      | Some json \<Rightarrow> coded ''local state deserialization'' (dec (tcd_local cs) json) (Inr \<circ> Some)))"

definition td_save_local_state :: "thread_codecs \<Rightarrow> uuid \<Rightarrow> exec_thread_local_state \<Rightarrow> thread_db \<Rightarrow> thread_db exo_result" where
  "td_save_local_state cs i ls st = td_locked st
     (coded ''local state serialization'' (enc (tcd_local cs) ls) (\<lambda>json.
      td_statement ''save local state'' st (Inr (td_update i (\<lambda>r. r\<lparr>tb_local_state_json := Some json\<rparr>) st))))"

definition td_update_charter :: "thread_codecs \<Rightarrow> uuid \<Rightarrow> string \<Rightarrow> thread_db \<Rightarrow> thread_db exo_result" where
  "td_update_charter cs i charter st = td_locked st (td_statement ''update_charter query'' st (case td_find st i of
     None \<Rightarrow> Inl (Storage (''thread not found: '' @ tcd_show cs i))
   | Some r \<Rightarrow>
       coded ''spec deserialization'' (dec (tcd_spec cs) (tb_spec_json r)) (\<lambda>spec.
       coded ''spec serialization'' (enc (tcd_spec cs) (spec\<lparr>sp_charter := charter\<rparr>)) (\<lambda>json.
         Inr (td_update i (\<lambda>r. r\<lparr>tb_spec_json := json\<rparr>) st)))))"

definition sql_thread_ops :: "thread_codecs \<Rightarrow> thread_db thread_ops" where
  "sql_thread_ops cs = \<lparr>
     ts_save = td_save cs, ts_get = td_get cs, ts_list = td_list cs, ts_remove = td_remove,
     ts_update_status = td_update_status cs, ts_save_last_run = td_save_last_run,
     ts_get_last_run = td_get_last_run, ts_recent_results = td_recent_results cs,
     ts_save_result = td_save_result cs, ts_get_local_state = td_get_local_state cs,
     ts_save_local_state = td_save_local_state cs, ts_update_charter = td_update_charter cs\<rparr>"

section \<open>The contract of the store\<close>

text \<open>What the JSON of serde promises: a value reads back as it was written.\<close>

definition codecs_ok :: "thread_codecs \<Rightarrow> bool" where
  "codecs_ok cs \<longleftrightarrow> codec_ok (tcd_spec cs) \<and> codec_ok (tcd_status cs)"

definition row_ok :: "thread_codecs \<Rightarrow> thread_row \<Rightarrow> bool" where
  "row_ok cs r \<longleftrightarrow> (\<exists>spec status. td_entry cs r = Inr (spec, status) \<and> sp_thread_id spec = tb_thread_id r)"

definition threads_ok :: "thread_codecs \<Rightarrow> thread_db \<Rightarrow> bool" where
  "threads_ok cs st \<longleftrightarrow> codecs_ok cs \<and> \<not> td_poisoned st \<and> td_fault st = None \<and> (\<forall>rs. mset (td_scan st rs) = mset rs)
     \<and> distinct (map tb_thread_id (td_specs st)) \<and> list_all (row_ok cs) (td_specs st)"

definition row_entry :: "thread_codecs \<Rightarrow> thread_row \<Rightarrow> thread_spec \<times> registered_status" where
  "row_entry cs r = projr (td_entry cs r)"

definition td_entries :: "thread_codecs \<Rightarrow> thread_db \<Rightarrow> uuid \<Rightarrow> (thread_spec \<times> registered_status) option" where
  "td_entries cs st i = map_option (row_entry cs) (td_find st i)"

lemma coded_Inr: "coded what (Inr x) k = k x"
  by (simp add: coded_def)

lemma coded_ok:
  assumes "codec_ok c"
  shows "coded what (enc c v) k = k (projr (enc c v))" "dec c (projr (enc c v)) = Inr v"
proof -
  obtain s where "enc c v = Inr s" "dec c s = Inr v" using assms unfolding codec_ok_def by (elim allE [of _ v] exE conjE)
  then show "coded what (enc c v) k = k (projr (enc c v))" "dec c (projr (enc c v)) = Inr v" by (simp_all add: coded_def)
qed

lemma row_ok_entry:
  "row_ok cs r \<Longrightarrow> td_entry cs r = Inr (row_entry cs r) \<and> sp_thread_id (fst (row_entry cs r)) = tb_thread_id r"
  by (auto simp: row_ok_def row_entry_def)

lemma row_decodes:
  "row_ok cs r \<Longrightarrow> dec (tcd_spec cs) (tb_spec_json r) = Inr (fst (row_entry cs r)) \<and>
     dec (tcd_status cs) (tb_status_json r) = Inr (snd (row_entry cs r))"
  by (auto simp: row_ok_def row_entry_def td_entry_def coded_def split: sum.splits)

lemma find_row:
  assumes "distinct (map key rs)"
  shows "List.find (\<lambda>r. key r = i) rs = Some r \<longleftrightarrow> r \<in> set rs \<and> key r = i"
  using assms by (induction rs) (auto simp: rev_image_eqI split: if_splits)

lemma find_map_some: "List.find P (map f xs) = map_option f (List.find (P \<circ> f) xs)"
  by (induction xs) auto

lemma td_find_iff: "threads_ok cs st \<Longrightarrow> td_find st i = Some r \<longleftrightarrow> r \<in> set (td_specs st) \<and> tb_thread_id r = i"
  by (simp add: td_find_def threads_ok_def find_row)

lemma td_find_ok: "threads_ok cs st \<Longrightarrow> td_find st i = Some r \<Longrightarrow> row_ok cs r \<and> tb_thread_id r = i"
  using td_find_iff by (fastforce simp: threads_ok_def list_all_iff)

lemma threads_ok_run [simp]:
  "threads_ok cs st \<Longrightarrow> td_locked st r = r" "threads_ok cs st \<Longrightarrow> td_statement what st r = r"
  by (simp_all add: threads_ok_def td_locked_def td_statement_def)

lemma td_find_update:
  assumes "\<And>r. tb_thread_id (f r) = tb_thread_id r"
  shows "td_find (td_update i f st) j =
    map_option (\<lambda>r. if tb_thread_id r = i then (f r)\<lparr>tb_updated_at := td_now st\<rparr> else r) (td_find st j)"
  by (simp add: td_find_def td_update_def find_map_some comp_def assms if_distrib [of tb_thread_id] cong: if_cong)

text \<open>An update keeps the other rows, and the updated one when it stays readable.\<close>

lemma td_update_ok:
  assumes ok: "threads_ok cs st" and f: "\<And>r. td_find st i = Some r \<Longrightarrow> td_entry cs (f r) = Inr (g (row_entry cs r))"
    and keep: "\<And>r. tb_thread_id (f r) = tb_thread_id r" "\<And>p. sp_thread_id (fst (g p)) = sp_thread_id (fst p)"
  shows "threads_ok cs (td_update i f st) \<and> td_entries cs (td_update i f st) = (td_entries cs st)(i := map_option g (td_entries cs st i))"
proof -
  let ?h = "\<lambda>r. if tb_thread_id r = i then (f r)\<lparr>tb_updated_at := td_now st\<rparr> else r"
  have ids: "tb_thread_id (?h r) = tb_thread_id r" for r by (simp add: keep)
  then have "map tb_thread_id (map ?h rs) = map tb_thread_id rs" for rs by simp
  then have dist: "distinct (map tb_thread_id (map ?h (td_specs st)))" using ok by (simp only:) (simp add: threads_ok_def)
  have entry: "td_entry cs ((f r)\<lparr>tb_updated_at := t\<rparr>) = td_entry cs (f r)" for r t by (simp add: td_entry_def)
  have new: "td_entry cs (?h r) = Inr (g (row_entry cs r))" if "r \<in> set (td_specs st)" "tb_thread_id r = i" for r
    using f [of r] that td_find_iff [OF ok] entry by auto
  have rows: "row_ok cs (?h r)" if "r \<in> set (td_specs st)" for r
  proof (cases "tb_thread_id r = i")
    case True
    then show ?thesis
      using new [OF that] row_ok_entry [of cs r] that ok keep by (auto simp: row_ok_def threads_ok_def list_all_iff prod_eq_iff)
  qed (use that ok in \<open>auto simp: threads_ok_def list_all_iff\<close>)
  have find: "td_find (td_update i f st) j = map_option ?h (td_find st j)" for j
    by (rule td_find_update [OF keep(1)])
  have "td_entries cs (td_update i f st) j = ((td_entries cs st)(i := map_option g (td_entries cs st i))) j" for j
  proof (cases "td_find st j")
    case (Some r)
    then have "r \<in> set (td_specs st)" "tb_thread_id r = j" using td_find_iff [OF ok] by auto
    then show ?thesis using new [of r] Some by (auto simp: td_entries_def find row_entry_def)
  qed (auto simp: td_entries_def find)
  moreover have "list_all (row_ok cs) (map ?h (td_specs st))" unfolding list_all_iff set_map using rows by blast
  ultimately show ?thesis using ok dist by (simp add: threads_ok_def td_update_def fun_eq_iff)
qed

lemmas td_op_defs = td_get_def td_list_def td_update_status_def td_update_charter_def td_save_last_run_def td_get_last_run_def
  td_save_result_def td_save_local_state_def

lemma td_list_law:
  assumes ok: "threads_ok cs st"
  shows "\<exists>xs. td_list cs st = Inr xs \<and> distinct (map (sp_thread_id \<circ> fst) xs)
    \<and> (\<forall>p. p \<in> set xs \<longleftrightarrow> td_entries cs st (sp_thread_id (fst p)) = Some p)"
proof (intro exI conjI allI)
  let ?rows = "td_scan st (td_specs st)"
  have m: "mset ?rows = mset (td_specs st)" using ok by (simp add: threads_ok_def)
  then have set: "set ?rows = set (td_specs st)" by (metis set_mset_mset)
  have rows: "\<forall>r \<in> set ?rows. td_entry cs r = Inr (row_entry cs r) \<and> sp_thread_id (fst (row_entry cs r)) = tb_thread_id r"
    unfolding set using ok row_ok_entry by (auto simp: threads_ok_def list_all_iff)
  then show "td_list cs st = Inr (map (row_entry cs) ?rows)" using ok by (simp add: td_list_def decode_all_Inr)
  have "map (sp_thread_id \<circ> fst) (map (row_entry cs) ?rows) = map tb_thread_id ?rows" using rows by simp
  moreover have "distinct (map tb_thread_id ?rows)"
    using m ok by (metis mset_eq_imp_distinct_iff mset_map threads_ok_def)
  ultimately show "distinct (map (sp_thread_id \<circ> fst) (map (row_entry cs) ?rows))" by (simp only:)
  show "p \<in> set (map (row_entry cs) ?rows) \<longleftrightarrow> td_entries cs st (sp_thread_id (fst p)) = Some p" for p
    using rows set td_find_iff [OF ok] by (auto simp: td_entries_def)
qed

interpretation sql_threads: thread_store "sql_thread_ops cs" "td_entries cs" "threads_ok cs" for cs
proof
  fix st st' i s c t r ls
  assume ok: "threads_ok cs st"
  then have cs: "codec_ok (tcd_spec cs)" "codec_ok (tcd_status cs)"
    by (simp_all add: threads_ok_def codecs_ok_def)
  note row = row_ok_entry [OF conjunct1 [OF td_find_ok [OF ok]]]
  note json = row_decodes [OF conjunct1 [OF td_find_ok [OF ok]]]
  show "ts_get (sql_thread_ops cs) st i = Inr (td_entries cs st i)"
    using ok row by (cases "td_find st i") (simp_all add: sql_thread_ops_def td_get_def td_entries_def)
  show "\<exists>xs. ts_list (sql_thread_ops cs) st = Inr xs \<and> distinct (map (sp_thread_id \<circ> fst) xs)
      \<and> (\<forall>p. p \<in> set xs \<longleftrightarrow> td_entries cs st (sp_thread_id (fst p)) = Some p)"
    using td_list_law [OF ok] by (simp add: sql_thread_ops_def)
  show "threads_ok cs st' \<and> td_entries cs st' = (td_entries cs st)(i := map_option (\<lambda>(sp, _). (sp, s)) (td_entries cs st i))"
    if "ts_update_status (sql_thread_ops cs) i s st = Inr st'"
  proof -
    have "st' = td_update i (\<lambda>r. r\<lparr>tb_status_json := projr (enc (tcd_status cs) s)\<rparr>) st"
      using that ok by (auto simp: coded_ok(1) [OF cs(2)] sql_thread_ops_def td_update_status_def split: if_splits)
    moreover have "td_entry cs (r\<lparr>tb_status_json := projr (enc (tcd_status cs) s)\<rparr>) = Inr (fst (row_entry cs r), s)"
      if "td_find st i = Some r" for r
      using json [OF that] by (simp add: td_entry_def coded_Inr coded_ok(2) [OF cs(2)])
    ultimately show ?thesis
      using td_update_ok [OF ok, of i "\<lambda>r. r\<lparr>tb_status_json := projr (enc (tcd_status cs) s)\<rparr>" "\<lambda>(sp, _). (sp, s)"]
      by (auto simp: case_prod_unfold)
  qed
  show "threads_ok cs st' \<and> td_entries cs st' = (td_entries cs st)(i := map_option (\<lambda>(sp, s). (sp\<lparr>sp_charter := c\<rparr>, s)) (td_entries cs st i))"
    if charter: "ts_update_charter (sql_thread_ops cs) i c st = Inr st'"
  proof -
    obtain r where r: "td_find st i = Some r"
      using charter ok by (auto simp: sql_thread_ops_def td_update_charter_def split: option.splits)
    define new_json where "new_json = projr (enc (tcd_spec cs) ((fst (row_entry cs r))\<lparr>sp_charter := c\<rparr>))"
    have spec: "dec (tcd_spec cs) (tb_spec_json r) = Inr (fst (row_entry cs r))"
      using json [OF r] by simp
    have "st' = td_update i (\<lambda>r. r\<lparr>tb_spec_json := new_json\<rparr>) st"
      using that ok r by (auto simp: coded_ok(1) [OF cs(1)] coded_Inr spec sql_thread_ops_def td_update_charter_def new_json_def)
    moreover have "td_entry cs (r\<lparr>tb_spec_json := new_json\<rparr>) = Inr ((fst (row_entry cs r))\<lparr>sp_charter := c\<rparr>, snd (row_entry cs r))"
      using json [OF r] by (simp add: td_entry_def coded_Inr coded_ok(2) [OF cs(1)] new_json_def)
    ultimately show ?thesis
      using td_update_ok [OF ok, of i "\<lambda>r. r\<lparr>tb_spec_json := new_json\<rparr>" "\<lambda>(sp, s). (sp\<lparr>sp_charter := c\<rparr>, s)"] r
      by (auto simp: case_prod_unfold)
  qed
  have same: "threads_ok cs (td_update i f st) \<and> td_entries cs (td_update i f st) = td_entries cs st"
    if "\<And>r. td_entry cs (f r) = td_entry cs r" "\<And>r. tb_thread_id (f r) = tb_thread_id r" for f
    using td_update_ok [OF ok, of i f id] that row by (simp add: option.map_id)
  show "threads_ok cs st' \<and> td_entries cs st' = td_entries cs st" if "ts_save_last_run (sql_thread_ops cs) i t st = Inr st'"
    using that ok same [of "\<lambda>r. r\<lparr>tb_last_run_tick := Some t\<rparr>"]
    by (auto simp: sql_thread_ops_def td_save_last_run_def td_entry_def)
  show "threads_ok cs st' \<and> td_entries cs st' = td_entries cs st" if "ts_save_result (sql_thread_ops cs) r st = Inr st'"
    using that ok
    by (auto simp: coded_def sql_thread_ops_def td_save_result_def threads_ok_def td_entries_def td_find_def fun_eq_iff split: sum.splits)
  show "threads_ok cs st' \<and> td_entries cs st' = td_entries cs st" if "ts_save_local_state (sql_thread_ops cs) i ls st = Inr st'"
    using that ok same [of "\<lambda>r. r\<lparr>tb_local_state_json := Some (projr (enc (tcd_local cs) ls))\<rparr>"]
    by (auto simp: coded_def sql_thread_ops_def td_save_local_state_def td_entry_def split: sum.splits)
qed

section \<open>Properties\<close>

lemma saved_find:
  assumes "row_key row = i"
  shows "List.find (\<lambda>r. row_key r = j) (filter (\<lambda>r. row_key r \<noteq> i) rows @ [row]) =
    (if j = i then Some row else List.find (\<lambda>r. row_key r = j) rows)"
  using assms by (induction rows) auto

lemma td_save_law:
  assumes ok: "threads_ok cs st"
  shows "\<exists>st'. td_save cs spec status st = Inr st' \<and> threads_ok cs st'
    \<and> td_entries cs st' = (td_entries cs st)(sp_thread_id spec \<mapsto> (spec, status))
    \<and> td_get_last_run st' = td_get_last_run st \<and> td_get_local_state cs st' = td_get_local_state cs st
    \<and> td_recent_results cs st' = td_recent_results cs st"
proof -
  let ?i = "sp_thread_id spec"
  define row where "row = \<lparr>tb_thread_id = ?i, tb_spec_json = projr (enc (tcd_spec cs) spec),
    tb_status_json = projr (enc (tcd_status cs) status), tb_last_run_tick = Option.bind (td_find st ?i) tb_last_run_tick,
    tb_local_state_json = Option.bind (td_find st ?i) tb_local_state_json,
    tb_created_at = (case td_find st ?i of Some r \<Rightarrow> tb_created_at r | None \<Rightarrow> td_now st), tb_updated_at = td_now st\<rparr>"
  define st' where "st' = st\<lparr>td_specs := filter (\<lambda>r. tb_thread_id r \<noteq> ?i) (td_specs st) @ [row], td_reads := Suc (td_reads st)\<rparr>"
  have cs: "codec_ok (tcd_spec cs)" "codec_ok (tcd_status cs)" using ok by (simp_all add: threads_ok_def codecs_ok_def)
  have save: "td_save cs spec status st = Inr st'"
    using ok by (simp add: td_save_def coded_ok(1) [OF cs(1)] coded_ok(1) [OF cs(2)] row_def st'_def Let_def)
  have id: "tb_thread_id row = ?i" by (simp add: row_def)
  have entry: "td_entry cs row = Inr (spec, status)"
    by (simp add: td_entry_def row_def coded_ok(2) [OF cs(1)] coded_ok(2) [OF cs(2)] coded_Inr)
  have find: "td_find st' j = (if j = ?i then Some row else td_find st j)" for j
    unfolding td_find_def st'_def by (simp add: saved_find [of tb_thread_id, OF id])
  have "distinct (map tb_thread_id (filter P (td_specs st)))" for P using ok by (simp add: threads_ok_def distinct_map_filter)
  then have ok': "threads_ok cs st'"
    using ok entry id by (auto simp: threads_ok_def st'_def row_ok_def list_all_iff)
  have "td_entries cs st' = (td_entries cs st)(?i \<mapsto> (spec, status))"
    using entry by (auto simp: td_entries_def find row_entry_def)
  moreover have "td_get_last_run st' = td_get_last_run st" "td_get_local_state cs st' = td_get_local_state cs st"
    using ok ok' by (auto simp: fun_eq_iff td_get_last_run_def td_get_local_state_def find row_def)
  moreover have "td_recent_results cs st' = td_recent_results cs st"
    using ok ok' by (simp add: fun_eq_iff td_recent_results_def) (simp add: st'_def)
  ultimately show ?thesis using save ok' by blast
qed

text \<open>
  Saving a thread that is already in the database replaces its specification and status and nothing else: its
  last run, its local state and its outputs read as before, every other thread is untouched, and the store stays
  well formed, so a periodic thread that is registered anew keeps its rhythm.
\<close>

lemma register_again_keeps_history:
  assumes ok: "threads_ok cs st"
  shows "\<exists>st'. td_save cs spec status st = Inr st' \<and> threads_ok cs st'
    \<and> td_entries cs st' = (td_entries cs st)(sp_thread_id spec \<mapsto> (spec, status))
    \<and> td_get_last_run st' = td_get_last_run st \<and> td_get_local_state cs st' = td_get_local_state cs st
    \<and> td_recent_results cs st' = td_recent_results cs st"
  by (rule td_save_law [OF ok])

section \<open>The property at a concrete input\<close>

text \<open>Specifications and statuses are countable, so there are codecs that read back what they wrote.\<close>

instance thread_role :: countable by countable_datatype
instance thread_flavor :: countable by countable_datatype
instance thread_priority :: countable by countable_datatype
instance thread_schedule :: countable by countable_datatype
instance thread_status :: countable by countable_datatype
instance exec_thread_status :: countable by countable_datatype
instance registered_status :: countable by countable_datatype

instance thread_spec_ext :: (countable) countable
proof (rule countable_classI)
  show "to_nat (sp_thread_id x, sp_role x, sp_flavor x, sp_name x, sp_charter x, sp_priority x, sp_token_budget x, sp_schedule x,
      sp_workspace_root x, thread_spec.more x) = to_nat (sp_thread_id y, sp_role y, sp_flavor y, sp_name y, sp_charter y,
      sp_priority y, sp_token_budget y, sp_schedule y, sp_workspace_root y, thread_spec.more y) \<Longrightarrow> x = y"
    for x y :: "'a thread_spec_ext"
    by simp
qed

definition counting_codecs :: thread_codecs where
  "counting_codecs = \<lparr>tcd_spec = counting_codec, tcd_status = counting_codec,
     tcd_result = \<lparr>enc = (\<lambda>_. Inl ''none''), dec = (\<lambda>_. Inl ''none'')\<rparr>,
     tcd_local = \<lparr>enc = (\<lambda>_. Inl ''none''), dec = (\<lambda>_. Inl ''none'')\<rparr>, tcd_show = (\<lambda>_. [])\<rparr>"

lemma open_threads_ok: "threads_ok counting_codecs (open_threads clock)"
  by (simp add: threads_ok_def codecs_ok_def counting_codecs_def counting_codec_ok open_threads_def)

text \<open>A thread that ran at tick 5 is registered again.\<close>

definition restarted_threads :: thread_db where
  "restarted_threads = projr (td_save_last_run 1 5 (projr (td_save counting_codecs (sample_spec 1 PLow EveryTick) (Cognitive ThActive)
     (open_threads int))))"

lemma restarted_threads_ok:
  "threads_ok counting_codecs restarted_threads" "td_get_last_run restarted_threads 1 = Inr (Some 5)"
proof -
  obtain st where st: "td_save counting_codecs (sample_spec 1 PLow EveryTick) (Cognitive ThActive) (open_threads int) = Inr st"
    "threads_ok counting_codecs st" "td_entries counting_codecs st 1 = Some (sample_spec 1 PLow EveryTick, Cognitive ThActive)"
    using td_save_law [OF open_threads_ok, of "sample_spec 1 PLow EveryTick" "Cognitive ThActive" int] by (auto simp: sample_spec_def)
  then obtain r where r: "td_find st 1 = Some r" "tb_thread_id r = 1" using td_find_ok by (fastforce simp: td_entries_def)
  define st' where "st' = td_update 1 (\<lambda>r. r\<lparr>tb_last_run_tick := Some 5\<rparr>) st"
  have run: "td_save_last_run 1 5 st = Inr st'" using st(2) by (simp add: td_save_last_run_def st'_def)
  then have eq: "restarted_threads = st'" by (simp add: restarted_threads_def st(1))
  have ok': "threads_ok counting_codecs st'"
    using sql_threads.run_law [OF st(2), of 1 5 st'] run by (simp add: sql_thread_ops_def)
  then show "threads_ok counting_codecs restarted_threads" by (simp add: eq)
  show "td_get_last_run restarted_threads 1 = Inr (Some 5)"
    using ok' r by (simp add: eq td_get_last_run_def) (simp add: st'_def td_find_update)
qed

end
