(* ===== verification/Builtin_Threads.thy ===== *)
theory Builtin_Threads
  imports Sql_Threads Prompts
begin

text \<open>
  The built-in threads and their registration at the start of a vessel
  (\<open>exoskeleton-threads/src/builtin/mod.rs\<close>, the \<open>spec\<close> functions of the built-in threads and
  \<open>register_builtin_coding_thread\<close> of \<open>builtin/coding.rs\<close>). The texts of the compiled-in charters are the
  argument \<open>charter_of\<close>.
\<close>

section \<open>Specifications\<close>

definition THREAT_MONITOR_UUID :: uuid where
  "THREAT_MONITOR_UUID = 0xcae10001000040008000000000000001"

definition SELF_CRITIQUE_UUID :: uuid where
  "SELF_CRITIQUE_UUID = 0xcae10002000040008000000000000002"

definition MEMORY_CONSOLIDATION_UUID :: uuid where
  "MEMORY_CONSOLIDATION_UUID = 0xcae10003000040008000000000000003"

definition META_COGNITION_UUID :: uuid where
  "META_COGNITION_UUID = 0xcae10004000040008000000000000004"

definition CREATIVE_SYNTHESIS_UUID :: uuid where
  "CREATIVE_SYNTHESIS_UUID = 0xcae10005000040008000000000000005"

definition INITIATIVE_UUID :: uuid where
  "INITIATIVE_UUID = 0xcae10006000040008000000000000006"

definition CODING_THREAD_ID :: uuid where
  "CODING_THREAD_ID = 0xcae11001000040008000000000000001"

type_synonym charters = "thread_role \<Rightarrow> string"

definition threat_monitor_spec :: "charters \<Rightarrow> thread_spec" where
  "threat_monitor_spec charter_of = \<lparr>sp_thread_id = THREAT_MONITOR_UUID, sp_role = ThreatMonitor, sp_flavor = FCognitive,
     sp_name = ''Threat Monitor'', sp_charter = charter_of ThreatMonitor, sp_priority = PCritical, sp_token_budget = 4096,
     sp_schedule = EveryTick, sp_workspace_root = None\<rparr>"

definition self_critique_spec :: "charters \<Rightarrow> thread_spec" where
  "self_critique_spec charter_of = \<lparr>sp_thread_id = SELF_CRITIQUE_UUID, sp_role = SelfCritique, sp_flavor = FCognitive,
     sp_name = ''Self-Critique'', sp_charter = charter_of SelfCritique, sp_priority = PHigh, sp_token_budget = 4096,
     sp_schedule = EveryTick, sp_workspace_root = None\<rparr>"

definition memory_consolidation_spec :: "charters \<Rightarrow> thread_spec" where
  "memory_consolidation_spec charter_of = \<lparr>sp_thread_id = MEMORY_CONSOLIDATION_UUID, sp_role = MemoryConsolidation,
     sp_flavor = FCognitive, sp_name = ''Memory Consolidation'', sp_charter = charter_of MemoryConsolidation,
     sp_priority = PNormal, sp_token_budget = 6144, sp_schedule = EveryNTicks 5, sp_workspace_root = None\<rparr>"

definition meta_cognition_spec :: "charters \<Rightarrow> thread_spec" where
  "meta_cognition_spec charter_of = \<lparr>sp_thread_id = META_COGNITION_UUID, sp_role = MetaCognition, sp_flavor = FCognitive,
     sp_name = ''Meta-Cognition'', sp_charter = charter_of MetaCognition, sp_priority = PNormal, sp_token_budget = 8192,
     sp_schedule = EveryNTicks 10, sp_workspace_root = None\<rparr>"

definition creative_synthesis_spec :: "charters \<Rightarrow> thread_spec" where
  "creative_synthesis_spec charter_of = \<lparr>sp_thread_id = CREATIVE_SYNTHESIS_UUID, sp_role = CreativeSynthesis,
     sp_flavor = FCognitive, sp_name = ''Creative-Synthesis'', sp_charter = charter_of CreativeSynthesis,
     sp_priority = PBackground, sp_token_budget = 8192, sp_schedule = EveryNTicks 15, sp_workspace_root = None\<rparr>"

definition initiative_spec :: "charters \<Rightarrow> thread_spec" where
  "initiative_spec charter_of = \<lparr>sp_thread_id = INITIATIVE_UUID, sp_role = Initiative, sp_flavor = FCognitive,
     sp_name = ''Initiative'', sp_charter = charter_of Initiative, sp_priority = PHigh, sp_token_budget = 4096,
     sp_schedule = EveryNTicks 3, sp_workspace_root = None\<rparr>"

section \<open>Overrides\<close>

record thread_config_overrides =
  ov_threat_monitor_schedule :: "thread_schedule option"
  ov_threat_monitor_token_budget :: "u64 option"
  ov_self_critique_schedule :: "thread_schedule option"
  ov_self_critique_token_budget :: "u64 option"
  ov_memory_consolidation_schedule :: "thread_schedule option"
  ov_memory_consolidation_token_budget :: "u64 option"
  ov_meta_cognition_schedule :: "thread_schedule option"
  ov_meta_cognition_token_budget :: "u64 option"
  ov_creative_synthesis_schedule :: "thread_schedule option"
  ov_creative_synthesis_token_budget :: "u64 option"
  ov_initiative_schedule :: "thread_schedule option"
  ov_initiative_token_budget :: "u64 option"

definition with_override :: "thread_schedule option \<Rightarrow> u64 option \<Rightarrow> thread_spec \<Rightarrow> thread_spec" where
  "with_override schedule budget spec =
     (let s1 = (case schedule of Some x \<Rightarrow> spec\<lparr>sp_schedule := x\<rparr> | None \<Rightarrow> spec)
      in case budget of Some b \<Rightarrow> s1\<lparr>sp_token_budget := b\<rparr> | None \<Rightarrow> s1)"

definition with_charter :: "prompt_registry \<Rightarrow> string \<Rightarrow> thread_spec \<Rightarrow> thread_spec" where
  "with_charter prompts key spec = (case prompt_get prompts key of Some c \<Rightarrow> spec\<lparr>sp_charter := c\<rparr> | None \<Rightarrow> spec)"

definition override_of ::
  "thread_config_overrides option \<Rightarrow> (thread_config_overrides \<Rightarrow> thread_schedule option) \<Rightarrow> (thread_config_overrides \<Rightarrow> u64 option) \<Rightarrow>
   thread_spec \<Rightarrow> thread_spec" where
  "override_of overrides sched budget spec = (case overrides of Some x \<Rightarrow> with_override (sched x) (budget x) spec | None \<Rightarrow> spec)"

definition builtin_specs :: "charters \<Rightarrow> prompt_registry \<Rightarrow> thread_config_overrides option \<Rightarrow> thread_spec list" where
  "builtin_specs charter_of prompts overrides =
     [override_of overrides ov_threat_monitor_schedule ov_threat_monitor_token_budget
        (with_charter prompts ''charter-threat-monitor'' (threat_monitor_spec charter_of)),
      override_of overrides ov_self_critique_schedule ov_self_critique_token_budget
        (with_charter prompts ''charter-self-critique'' (self_critique_spec charter_of)),
      override_of overrides ov_memory_consolidation_schedule ov_memory_consolidation_token_budget
        (with_charter prompts ''charter-memory-consolidation'' (memory_consolidation_spec charter_of)),
      override_of overrides ov_meta_cognition_schedule ov_meta_cognition_token_budget
        (with_charter prompts ''charter-meta-cognition'' (meta_cognition_spec charter_of)),
      override_of overrides ov_creative_synthesis_schedule ov_creative_synthesis_token_budget
        (with_charter prompts ''charter-creative-synthesis'' (creative_synthesis_spec charter_of)),
      override_of overrides ov_initiative_schedule ov_initiative_token_budget
        (with_charter prompts ''charter-initiative'' (initiative_spec charter_of))]"

section \<open>Registration\<close>

text \<open>The first error ends the loop; what was registered before it stays registered.\<close>

fun register_missing :: "'s thread_ops \<Rightarrow> thread_spec list \<Rightarrow> 's \<Rightarrow> unit exo_result \<times> 's" where
  "register_missing ops [] st = (Inr (), st)"
| "register_missing ops (spec # specs) st = (case reg_get ops st (sp_thread_id spec) of
     Inl e \<Rightarrow> (Inl e, st)
   | Inr (Some _) \<Rightarrow> register_missing ops specs st
   | Inr None \<Rightarrow> (case register ops spec st of
       Inl e \<Rightarrow> (Inl e, st)
     | Inr (_, st') \<Rightarrow> register_missing ops specs st'))"

definition register_builtin_threads ::
  "'s thread_ops \<Rightarrow> charters \<Rightarrow> prompt_registry \<Rightarrow> thread_config_overrides option \<Rightarrow> 's \<Rightarrow> unit exo_result \<times> 's" where
  "register_builtin_threads ops charter_of prompts overrides st = register_missing ops (builtin_specs charter_of prompts overrides) st"

definition coding_spec :: "prompt_registry \<Rightarrow> string option \<Rightarrow> thread_spec" where
  "coding_spec prompts workspace_root = \<lparr>sp_thread_id = CODING_THREAD_ID, sp_role = RCoding, sp_flavor = FExecutable, sp_name = ''Coding'',
     sp_charter = (case prompt_get prompts ''charter-coding-thread'' of Some c \<Rightarrow> c
       | None \<Rightarrow> ''Track coding progress, maintain local work state, and propose the next external action to advance the task.''),
     sp_priority = PHigh, sp_token_budget = 8000, sp_schedule = OnDemand, sp_workspace_root = workspace_root\<rparr>"

definition register_builtin_coding_thread ::
  "'s thread_ops \<Rightarrow> prompt_registry \<Rightarrow> string option \<Rightarrow> bool \<Rightarrow> 's \<Rightarrow> 's exo_result" where
  "register_builtin_coding_thread ops prompts workspace_root enabled st =
     (if \<not> enabled then Inr st
      else case find_registered_by_role ops st RCoding of
        Inl e \<Rightarrow> Inl e
      | Inr (Some _) \<Rightarrow> Inr st
      | Inr None \<Rightarrow> (case register_with_status ops (coding_spec prompts workspace_root) (Executable ExIdle) st of
          Inl e \<Rightarrow> Inl e | Inr (_, st') \<Rightarrow> Inr st'))"

section \<open>What registration does on any store\<close>

locale registering_store = thread_store +
  assumes save_law: "usable st \<Longrightarrow> \<exists>st'. ts_save ops spec status st = Inr st' \<and> usable st' \<and>
      entries st' = (entries st)(sp_thread_id spec \<mapsto> (spec, status))"
begin

text \<open>A cognitive thread stays as it is; for any other id the last specification that names it is registered.\<close>

definition cognitive_at :: "'a \<Rightarrow> uuid \<Rightarrow> bool" where
  "cognitive_at st i \<longleftrightarrow> (\<exists>spec s. entries st i = Some (spec, Cognitive s))"

lemma get_cognitive:
  assumes "usable st"
  shows "reg_get ops st i = Inr (case entries st i of Some (spec, Cognitive s) \<Rightarrow> Some (spec, s) | _ \<Rightarrow> None)"
proof (cases "entries st i")
  case None
  then show ?thesis by (simp add: reg_get_def get_law [OF assms])
next
  case (Some p)
  obtain spec s where "p = (spec, s)" by (cases p)
  then show ?thesis using Some by (cases s) (simp_all add: reg_get_def get_law [OF assms])
qed

lemma register_new:
  assumes "usable st" "sp_flavor spec = FCognitive"
  shows "\<exists>st'. register ops spec st = Inr (sp_thread_id spec, st') \<and> usable st' \<and>
    entries st' = (entries st)(sp_thread_id spec \<mapsto> (spec, Cognitive ThActive))"
  using save_law [OF assms(1), of spec "Cognitive ThActive"] assms(2) by (auto simp: register_def register_with_status_def)

lemma missing_registered:
  assumes "usable st" "\<forall>spec \<in> set specs. sp_flavor spec = FCognitive" "distinct (map sp_thread_id specs)"
  shows "\<exists>st'. register_missing ops specs st = (Inr (), st') \<and> usable st' \<and>
    (\<forall>spec \<in> set specs. entries st' (sp_thread_id spec) =
      (if cognitive_at st (sp_thread_id spec) then entries st (sp_thread_id spec) else Some (spec, Cognitive ThActive))) \<and>
    (\<forall>i. i \<notin> sp_thread_id ` set specs \<longrightarrow> entries st' i = entries st i)"
  using assms
proof (induction specs arbitrary: st)
  case (Cons spec specs)
  let ?i = "sp_thread_id spec"
  have new: "?i \<notin> sp_thread_id ` set specs" using Cons.prems(3) by simp
  show ?case
  proof (cases "cognitive_at st ?i")
    case True
    then obtain sp s where e: "entries st ?i = Some (sp, Cognitive s)" by (auto simp: cognitive_at_def)
    then have "register_missing ops (spec # specs) st = register_missing ops specs st"
      using get_cognitive [OF Cons.prems(1), of ?i] by simp
    then show ?thesis using Cons.IH [OF Cons.prems(1)] Cons.prems(2,3) True new e by fastforce
  next
    case False
    then have "reg_get ops st ?i = Inr None"
      using get_cognitive [OF Cons.prems(1), of ?i]
      by (auto simp: cognitive_at_def split: option.splits prod.splits registered_status.splits)
    moreover obtain st1 where st1: "register ops spec st = Inr (?i, st1)" "usable st1"
        "entries st1 = (entries st)(?i \<mapsto> (spec, Cognitive ThActive))"
      using register_new [OF Cons.prems(1), of spec] Cons.prems(2) by auto
    ultimately have "register_missing ops (spec # specs) st = register_missing ops specs st1" by simp
    moreover have "sp_thread_id x \<noteq> ?i" if "x \<in> set specs" for x using that new by (metis image_eqI)
    moreover have "cognitive_at st1 (sp_thread_id x) = cognitive_at st (sp_thread_id x)" if "x \<in> set specs" for x
      using calculation(2) [OF that] st1(3) by (simp add: cognitive_at_def)
    ultimately show ?thesis
      using Cons.IH [OF st1(2)] Cons.prems(2,3) False new st1(3) by (auto 4 4 split: if_splits)
  qed
qed simp

lemma builtins_stable:
  fixes ids charter_of prompts overrides
  defines "ids \<equiv> sp_thread_id ` set (builtin_specs charter_of prompts overrides)"
  assumes ok: "usable st" and ids: "\<And>c p v. sp_thread_id ` set (builtin_specs c p v) = ids"
    and specs: "\<And>c p v. distinct (map sp_thread_id (builtin_specs c p v))"
      "\<And>c p v. \<forall>spec \<in> set (builtin_specs c p v). sp_flavor spec = FCognitive"
  shows "\<exists>st'. register_builtin_threads ops charter_of prompts overrides st = (Inr (), st') \<and> usable st'
    \<and> (\<forall>i \<in> ids. cognitive_at st' i)
    \<and> (\<forall>i. i \<notin> ids \<or> cognitive_at st i \<longrightarrow> entries st' i = entries st i)
    \<and> (\<forall>c p v. \<exists>st''. register_builtin_threads ops c p v st' = (Inr (), st'') \<and> entries st'' = entries st')"
proof -
  obtain st' where st': "register_builtin_threads ops charter_of prompts overrides st = (Inr (), st')" "usable st'"
    "\<forall>spec \<in> set (builtin_specs charter_of prompts overrides). entries st' (sp_thread_id spec) =
      (if cognitive_at st (sp_thread_id spec) then entries st (sp_thread_id spec) else Some (spec, Cognitive ThActive))"
    "\<forall>i. i \<notin> ids \<longrightarrow> entries st' i = entries st i"
    using missing_registered [OF ok specs(2,1), of charter_of prompts overrides]
    unfolding register_builtin_threads_def ids_def by blast
  have all: "\<forall>i \<in> ids. cognitive_at st' i" using st'(3) by (auto simp: ids_def cognitive_at_def split: if_splits)
  have again: "\<exists>st''. register_builtin_threads ops c p v st' = (Inr (), st'') \<and> entries st'' = entries st'" for c p v
  proof -
    obtain st'' where st'': "register_builtin_threads ops c p v st' = (Inr (), st'')"
      "\<forall>spec \<in> set (builtin_specs c p v). entries st'' (sp_thread_id spec) =
        (if cognitive_at st' (sp_thread_id spec) then entries st' (sp_thread_id spec) else Some (spec, Cognitive ThActive))"
      "\<forall>i. i \<notin> ids \<longrightarrow> entries st'' i = entries st' i"
      using missing_registered [OF st'(2) specs(2,1), of c p v] unfolding register_builtin_threads_def ids [of c p v] by blast
    have "entries st'' i = entries st' i" if "i \<in> ids" for i
      using that st''(2) all ids [of c p v] by fastforce
    then show ?thesis using st''(1,3) by blast
  qed
  have "entries st' i = entries st i" if "i \<notin> ids \<or> cognitive_at st i" for i
    using that st'(3,4) by (cases "i \<in> ids") (auto simp: ids_def)
  then show ?thesis using st'(1,2) all again by blast
qed

end

interpretation mem_registering: registering_store mem_thread_ops "\<lambda>st. map_of (mt_specs st)" mt_wf
proof
  fix st spec status
  assume wf: "mt_wf st"
  then have "\<not> mt_specs_poisoned st" by (simp add: mt_wf_def)
  then show "\<exists>st'. ts_save mem_thread_ops spec status st = Inr st' \<and> mt_wf st' \<and>
      map_of (mt_specs st') = (map_of (mt_specs st))(sp_thread_id spec \<mapsto> (spec, status))"
    by (simp add: mem_thread_ops_def mt_save_def update_conv' mt_wf_update [OF wf])
qed

interpretation sql_registering: registering_store "sql_thread_ops cs" "td_entries cs" "threads_ok cs" for cs
  using td_save_law by unfold_locales (fastforce simp: sql_thread_ops_def)

section \<open>Properties\<close>

definition builtin_ids :: "uuid list" where
  "builtin_ids = [THREAT_MONITOR_UUID, SELF_CRITIQUE_UUID, MEMORY_CONSOLIDATION_UUID, META_COGNITION_UUID, CREATIVE_SYNTHESIS_UUID,
     INITIATIVE_UUID]"

lemma override_keeps:
  "sp_thread_id (override_of overrides sched budget spec) = sp_thread_id spec"
  "sp_flavor (override_of overrides sched budget spec) = sp_flavor spec"
  by (simp_all add: override_of_def with_override_def Let_def split: option.split)

lemma charter_keeps:
  "sp_thread_id (with_charter prompts key spec) = sp_thread_id spec"
  "sp_flavor (with_charter prompts key spec) = sp_flavor spec"
  by (simp_all add: with_charter_def split: option.split)

lemmas builtin_spec_defs = threat_monitor_spec_def self_critique_spec_def memory_consolidation_spec_def meta_cognition_spec_def
  creative_synthesis_spec_def initiative_spec_def

lemma builtin_specs_ids: "map sp_thread_id (builtin_specs charter_of prompts overrides) = builtin_ids"
  by (simp add: builtin_specs_def override_keeps charter_keeps builtin_spec_defs builtin_ids_def)

lemma builtin_specs_cognitive: "\<forall>spec \<in> set (builtin_specs charter_of prompts overrides). sp_flavor spec = FCognitive"
  by (simp add: builtin_specs_def override_keeps charter_keeps builtin_spec_defs)

lemma builtin_ids_distinct: "distinct builtin_ids"
  by (simp add: builtin_ids_def THREAT_MONITOR_UUID_def SELF_CRITIQUE_UUID_def MEMORY_CONSOLIDATION_UUID_def META_COGNITION_UUID_def
      CREATIVE_SYNTHESIS_UUID_def INITIATIVE_UUID_def)


text \<open>A fresh database, and a second start that asks for other schedules.\<close>

definition eager_overrides :: thread_config_overrides where
  "eager_overrides = \<lparr>ov_threat_monitor_schedule = Some OnDemand, ov_threat_monitor_token_budget = Some 1, ov_self_critique_schedule = None,
     ov_self_critique_token_budget = None, ov_memory_consolidation_schedule = None, ov_memory_consolidation_token_budget = None,
     ov_meta_cognition_schedule = None, ov_meta_cognition_token_budget = None, ov_creative_synthesis_schedule = None,
     ov_creative_synthesis_token_budget = None, ov_initiative_schedule = None, ov_initiative_token_budget = None\<rparr>"


end
