(* ===== verification/Vessel_Config.thy ===== *)
theory Vessel_Config
  imports Builtin_Threads Policy Relationship Budget Coding_Text
begin

text \<open>
  Configuration of a vessel (\<open>exoskeleton-host/src/config.rs\<close>): the typed configuration, the TOML-friendly file format,
  the conversion between them, overrides by environment variables, validation, and the configuration written
  for a fork.

  A \<open>Duration\<close> is a number of nanoseconds, a path and a socket address are their texts. Reading and writing TOML, parsing
  of UUIDs and addresses and the Unicode lower-casing are arguments; the environment is a function from names to
  values.
\<close>

section \<open>Model backends\<close>

datatype local_api_format = OpenAICompat | Ollama

datatype frontier_provider = Anthropic | OpenAI | Gemini | Grok | OpenRouter | DeepSeek

record local_model_config =
  lm_endpoint :: string
  lm_model :: string
  lm_api_format :: local_api_format

record frontier_model_config =
  fm_provider :: frontier_provider
  fm_model :: string
  fm_api_key_env :: string
  fm_endpoint :: "string option"

record llm_config =
  ll_local :: "local_model_config option"
  ll_frontier :: "frontier_model_config option"
  ll_default_backend :: llm_backend
  ll_max_output_tokens :: u64
  ll_timeout_secs :: u64

definition llm_config_default :: llm_config where
  "llm_config_default = \<lparr>ll_local = None, ll_frontier = None, ll_default_backend = Local, ll_max_output_tokens = 4096,
     ll_timeout_secs = 120\<rparr>"

section \<open>Coding\<close>

record coding_thread_config =
  ct_enabled :: bool
  ct_workspace_root :: "string option"
  ct_return_to_idle_after_completion :: bool
  ct_policy_profile :: coding_policy_profile

definition coding_thread_default :: coding_thread_config where
  "coding_thread_default = \<lparr>ct_enabled = False, ct_workspace_root = None, ct_return_to_idle_after_completion = False,
     ct_policy_profile = coding_policy_default\<rparr>"

definition coding_defaults :: "string option \<Rightarrow> coding_thread_config" where
  "coding_defaults workspace_root = \<lparr>ct_enabled = True, ct_workspace_root = workspace_root,
     ct_return_to_idle_after_completion = True, ct_policy_profile = coding_policy_default\<rparr>"

definition coding_tool_policy :: tool_policy_config where
  "coding_tool_policy = \<lparr>tp_default = RuleAllow, tp_rules = [(''shell.exec'', RuleAsk), (''fs.write'', RuleAsk)]\<rparr>"

section \<open>Sections of the file\<close>

type_synonym duration = nat \<comment> \<open>nanoseconds\<close>

definition from_millis :: "u64 \<Rightarrow> duration" where
  "from_millis ms = unat ms * 1000000"

definition from_secs :: "nat \<Rightarrow> duration" where
  "from_secs s = s * 1000000000"

text \<open>\<open>as_millis() as u64\<close>.\<close>

definition as_millis :: "duration \<Rightarrow> u64" where
  "as_millis d = of_nat (d div 1000000)"

record threads_section =
  th_threat_monitor_enabled :: "bool option"
  th_self_critique_enabled :: "bool option"
  th_memory_consolidation_enabled :: "bool option"
  th_meta_cognition_enabled :: "bool option"
  th_creative_synthesis_enabled :: "bool option"
  th_initiative_enabled :: "bool option"
  th_threat_monitor_schedule :: "string option"
  th_self_critique_schedule :: "string option"
  th_memory_consolidation_schedule :: "string option"
  th_threat_monitor_token_budget :: "u64 option"
  th_self_critique_token_budget :: "u64 option"
  th_memory_consolidation_token_budget :: "u64 option"
  th_meta_cognition_schedule :: "string option"
  th_meta_cognition_token_budget :: "u64 option"
  th_creative_synthesis_schedule :: "string option"
  th_creative_synthesis_token_budget :: "u64 option"
  th_initiative_schedule :: "string option"
  th_initiative_token_budget :: "u64 option"

record source_repo_config =
  sr_name :: string
  sr_host_path :: string
  sr_mount_point :: "string option"

definition effective_mount_point :: "source_repo_config \<Rightarrow> string" where
  "effective_mount_point r = (case sr_mount_point r of Some m \<Rightarrow> m | None \<Rightarrow> ''/workspace/'' @ sr_name r)"

definition source_repo_validate :: "source_repo_config \<Rightarrow> unit exo_result" where
  "source_repo_validate r =
     (if sr_name r = [] then Inl (Config ''source repo name must not be empty'')
      else if take 1 (sr_host_path r) \<noteq> ''/'' then Inl (Config (''source repo '' @ [CHR 0x27] @ sr_name r @ [CHR 0x27] @
        '' host_path must be absolute, got '' @ [CHR 0x27] @ sr_host_path r @ [CHR 0x27]))
      else case sr_mount_point r of
        Some mp \<Rightarrow> if take 11 mp \<noteq> ''/workspace/'' then Inl (Config (''source repo '' @ [CHR 0x27] @ sr_name r @ [CHR 0x27] @
          '' mount_point must start with /workspace/, got '' @ [CHR 0x27] @ mp @ [CHR 0x27])) else Inr ()
      | None \<Rightarrow> Inr ())"

record sandbox_config =
  sb_enabled :: bool
  sb_tmpfs_size_bytes :: u64

definition sandbox_default :: sandbox_config where
  "sandbox_default = \<lparr>sb_enabled = True, sb_tmpfs_size_bytes = 268435456\<rparr>"

record connectors_section =
  cn_dir :: "string option"
  cn_destructive :: "string list"

record daemon_section =
  ds_listen :: "string option"
  ds_cors_allowed_origins :: "string list"

record vessel_section =
  vs_vessel_id :: "string option"
  vs_mission :: string
  vs_data_dir :: string
  vs_master_loop_interval_secs :: u64
  vs_inbox_dir :: "string option"
  vs_trust_decay_rate :: "f64 option"
  vs_trust_decay_min_inactivity_days :: u64
  vs_episodic_memory_capacity :: u64
  vs_bootstrap_grace_period_ticks :: u64
  vs_observatory_url :: "string option"
  vs_observatory_token_env :: "string option"
  vs_max_decide_turns :: u32
  vs_max_watches :: u32

record cognitive_section =
  cg_tick_interval_ms :: u64
  cg_dispatch_concurrency :: u64
  cg_lease_timeout_secs :: u64
  cg_budget :: "cognitive_budget_config option"

definition cognitive_section_default :: cognitive_section where
  "cognitive_section_default = \<lparr>cg_tick_interval_ms = 100, cg_dispatch_concurrency = 4, cg_lease_timeout_secs = 600, cg_budget = None\<rparr>"

record tool_section =
  tl_tick_interval_ms :: u64
  tl_dispatch_concurrency :: u64
  tl_budget :: "tool_budget_config option"

definition tool_section_default :: tool_section where
  "tool_section_default = \<lparr>tl_tick_interval_ms = 50, tl_dispatch_concurrency = 4, tl_budget = None\<rparr>"

record vessel_config_file =
  vf_vessel :: vessel_section
  vf_cognitive :: cognitive_section
  vf_tool :: tool_section
  vf_llm :: llm_config
  vf_daemon :: "daemon_section option"
  vf_threads :: "threads_section option"
  vf_source :: "source_repo_config list option"
  vf_sandbox :: "sandbox_config option"
  vf_connectors :: "connectors_section option"
  vf_coding_thread :: "coding_thread_config option"
  vf_tool_policy :: "tool_policy_config option"

section \<open>The configuration\<close>

record vessel_config =
  vc_vessel_id :: uuid
  vc_data_dir :: string
  vc_mission :: string
  vc_cognitive_tick_interval :: duration
  vc_cognitive_dispatch_concurrency :: u64
  vc_cognitive_lease_timeout_secs :: u64
  vc_tool_tick_interval :: duration
  vc_tool_dispatch_concurrency :: u64
  vc_shutdown_timeout :: duration
  vc_llm_config :: llm_config
  vc_master_loop_interval_secs :: u64
  vc_inbox_dir :: "string option"
  vc_cognitive_budget :: "cognitive_budget_config option"
  vc_tool_budget :: "tool_budget_config option"
  vc_daemon_listen :: "string option"
  vc_cors_allowed_origins :: "string list"
  vc_trust_decay :: "trust_decay_config option"
  vc_episodic_memory_capacity :: "u64 option"
  vc_bootstrap_grace_period_ticks :: u64
  vc_threads :: "threads_section option"
  vc_source_repos :: "source_repo_config list"
  vc_sandbox :: sandbox_config
  vc_observatory_url :: "string option"
  vc_observatory_token_env :: "string option"
  vc_max_decide_turns :: u32
  vc_max_watches :: u32
  vc_extra_destructive_tools :: "string list"
  vc_connectors_dir :: "string option"
  vc_coding_thread :: coding_thread_config
  vc_tool_policy :: tool_policy_config

definition vessel_config_default :: "uuid \<Rightarrow> vessel_config" where
  "vessel_config_default new_id = \<lparr>vc_vessel_id = new_id, vc_data_dir = ''data'', vc_mission = [], vc_cognitive_tick_interval = from_millis 100,
     vc_cognitive_dispatch_concurrency = 4, vc_cognitive_lease_timeout_secs = 600, vc_tool_tick_interval = from_millis 50,
     vc_tool_dispatch_concurrency = 4, vc_shutdown_timeout = from_secs 30, vc_llm_config = llm_config_default,
     vc_master_loop_interval_secs = 60, vc_inbox_dir = None, vc_cognitive_budget = None, vc_tool_budget = None,
     vc_daemon_listen = None, vc_cors_allowed_origins = [], vc_trust_decay = None, vc_episodic_memory_capacity = Some 200,
     vc_bootstrap_grace_period_ticks = 30, vc_threads = None, vc_source_repos = [], vc_sandbox = sandbox_default,
     vc_observatory_url = None, vc_observatory_token_env = None, vc_max_decide_turns = 5, vc_max_watches = 20,
     vc_extra_destructive_tools = [], vc_connectors_dir = None, vc_coding_thread = coding_thread_default,
     vc_tool_policy = tool_policy_default\<rparr>"

definition require :: "bool \<Rightarrow> string \<Rightarrow> unit exo_result \<Rightarrow> unit exo_result" where
  "require ok what rest = (if ok then rest else Inl (Config what))"

definition and_then :: "unit exo_result \<Rightarrow> unit exo_result \<Rightarrow> unit exo_result" where
  "and_then r rest = (case r of Inl e \<Rightarrow> Inl e | Inr _ \<Rightarrow> rest)"

fun validate_all :: "('a \<Rightarrow> unit exo_result) \<Rightarrow> 'a list \<Rightarrow> unit exo_result" where
  "validate_all f [] = Inr ()"
| "validate_all f (x # xs) = and_then (f x) (validate_all f xs)"

definition validate :: "vessel_config \<Rightarrow> unit exo_result" where
  "validate c =
     require (vc_mission c \<noteq> []) ''mission must not be empty'' (
     require (vc_cognitive_tick_interval c \<noteq> 0) ''cognitive_tick_interval must be > 0'' (
     require (vc_cognitive_tick_interval c \<le> from_secs 60) ''cognitive_tick_interval must be <= 60s'' (
     require (vc_cognitive_lease_timeout_secs c \<ge> 3) ''cognitive_lease_timeout_secs must be >= 3'' (
     require (vc_tool_tick_interval c \<noteq> 0) ''tool_tick_interval must be > 0'' (
     require (vc_tool_tick_interval c \<le> from_secs 60) ''tool_tick_interval must be <= 60s'' (
     require (vc_shutdown_timeout c \<noteq> 0) ''shutdown_timeout must be > 0'' (
     require (ll_timeout_secs (vc_llm_config c) \<ge> 1) ''llm timeout_secs must be >= 1'' (
     require (ll_timeout_secs (vc_llm_config c) < vc_cognitive_lease_timeout_secs c)
       ''llm timeout_secs must be < cognitive_lease_timeout_secs'' (
     and_then (case vc_cognitive_budget c of Some b \<Rightarrow> cognitive_budget_validate b | None \<Rightarrow> Inr ()) (
     and_then (case vc_tool_budget c of Some b \<Rightarrow> tool_budget_validate b | None \<Rightarrow> Inr ()) (
     and_then (validate_all source_repo_validate (vc_source_repos c)) (
     require (vc_master_loop_interval_secs c \<ge> 1) ''master_loop_interval_secs must be >= 1'' (
     require (vc_master_loop_interval_secs c < vc_cognitive_lease_timeout_secs c)
       ''master_loop_interval_secs must be < cognitive_lease_timeout_secs'' (
     Inr ()))))))))))))))"

section \<open>Parsing\<close>

definition parse_thread_schedule :: "(string \<Rightarrow> string) \<Rightarrow> string \<Rightarrow> thread_schedule option" where
  "parse_thread_schedule lower s = (let t = lower (str_trim s) in
     if t = ''every_tick'' then Some EveryTick
     else if t = ''on_demand'' then Some OnDemand
     else if take 6 t = ''every_'' then (case parse_u32 (drop 6 t) of Inr n \<Rightarrow> Some (EveryNTicks n) | Inl _ \<Rightarrow> None)
     else None)"

definition schedule_override :: "(string \<Rightarrow> string) \<Rightarrow> bool option \<Rightarrow> string option \<Rightarrow> thread_schedule option" where
  "schedule_override lower enabled schedule =
     (if enabled = Some False then Some OnDemand else Option.bind schedule (parse_thread_schedule lower))"

definition build_thread_overrides :: "(string \<Rightarrow> string) \<Rightarrow> vessel_config \<Rightarrow> thread_config_overrides option" where
  "build_thread_overrides lower c = map_option (\<lambda>ts. \<lparr>
     ov_threat_monitor_schedule = schedule_override lower (th_threat_monitor_enabled ts) (th_threat_monitor_schedule ts),
     ov_threat_monitor_token_budget = th_threat_monitor_token_budget ts,
     ov_self_critique_schedule = schedule_override lower (th_self_critique_enabled ts) (th_self_critique_schedule ts),
     ov_self_critique_token_budget = th_self_critique_token_budget ts,
     ov_memory_consolidation_schedule = schedule_override lower (th_memory_consolidation_enabled ts) (th_memory_consolidation_schedule ts),
     ov_memory_consolidation_token_budget = th_memory_consolidation_token_budget ts,
     ov_meta_cognition_schedule = schedule_override lower (th_meta_cognition_enabled ts) (th_meta_cognition_schedule ts),
     ov_meta_cognition_token_budget = th_meta_cognition_token_budget ts,
     ov_creative_synthesis_schedule = schedule_override lower (th_creative_synthesis_enabled ts) (th_creative_synthesis_schedule ts),
     ov_creative_synthesis_token_budget = th_creative_synthesis_token_budget ts,
     ov_initiative_schedule = schedule_override lower (th_initiative_enabled ts) (th_initiative_schedule ts),
     ov_initiative_token_budget = th_initiative_token_budget ts\<rparr>) (vc_threads c)"

section \<open>From the file\<close>

record config_env =
  en_parse_uuid :: "string \<Rightarrow> string + uuid"
  en_show_uuid :: "uuid \<Rightarrow> string"
  en_parse_addr :: "string \<Rightarrow> string + string" \<comment> \<open>an address is kept as the text that prints it\<close>
  en_lower :: "string \<Rightarrow> string"
  en_var :: "string \<Rightarrow> string option"
  en_new_id :: uuid
  en_read :: "string \<Rightarrow> string + string"
  en_toml :: "string \<Rightarrow> string + vessel_config_file"

definition listen_of :: "config_env \<Rightarrow> daemon_section option \<Rightarrow> string option exo_result" where
  "listen_of env d = (case Option.bind d ds_listen of
     None \<Rightarrow> Inr None
   | Some s \<Rightarrow> (case en_parse_addr env s of
       Inl e \<Rightarrow> Inl (Config (''invalid daemon listen address: '' @ e)) | Inr a \<Rightarrow> Inr (Some a)))"

definition vessel_id_of :: "config_env \<Rightarrow> string option \<Rightarrow> uuid exo_result" where
  "vessel_id_of env s = (case s of
     None \<Rightarrow> Inr (en_new_id env)
   | Some t \<Rightarrow> (case en_parse_uuid env t of Inl e \<Rightarrow> Inl (Config (''invalid vessel_id: '' @ e)) | Inr i \<Rightarrow> Inr i))"

definition try_from :: "config_env \<Rightarrow> vessel_config_file \<Rightarrow> vessel_config exo_result" where
  "try_from env f = (case vessel_id_of env (vs_vessel_id (vf_vessel f)) of
     Inl e \<Rightarrow> Inl e
   | Inr vid \<Rightarrow>
       if cg_dispatch_concurrency (vf_cognitive f) = 0 then Inl (Config ''cognitive.dispatch_concurrency must be > 0'')
       else if tl_dispatch_concurrency (vf_tool f) = 0 then Inl (Config ''tool.dispatch_concurrency must be > 0'')
       else case listen_of env (vf_daemon f) of
         Inl e \<Rightarrow> Inl e
       | Inr listen \<Rightarrow> Inr \<lparr>vc_vessel_id = vid, vc_data_dir = vs_data_dir (vf_vessel f), vc_mission = vs_mission (vf_vessel f),
           vc_cognitive_tick_interval = from_millis (cg_tick_interval_ms (vf_cognitive f)),
           vc_cognitive_dispatch_concurrency = cg_dispatch_concurrency (vf_cognitive f),
           vc_cognitive_lease_timeout_secs = cg_lease_timeout_secs (vf_cognitive f),
           vc_tool_tick_interval = from_millis (tl_tick_interval_ms (vf_tool f)),
           vc_tool_dispatch_concurrency = tl_dispatch_concurrency (vf_tool f), vc_shutdown_timeout = from_secs 30,
           vc_llm_config = vf_llm f, vc_master_loop_interval_secs = vs_master_loop_interval_secs (vf_vessel f),
           vc_inbox_dir = vs_inbox_dir (vf_vessel f), vc_cognitive_budget = cg_budget (vf_cognitive f), vc_tool_budget = tl_budget (vf_tool f),
           vc_daemon_listen = listen, vc_cors_allowed_origins = (case vf_daemon f of Some d \<Rightarrow> ds_cors_allowed_origins d | None \<Rightarrow> []),
           vc_trust_decay = map_option (\<lambda>rate. \<lparr>decay_rate = rate, decay_baseline = Fin (1 / 2),
             min_inactivity_days = vs_trust_decay_min_inactivity_days (vf_vessel f)\<rparr>) (vs_trust_decay_rate (vf_vessel f)),
           vc_episodic_memory_capacity = (if vs_episodic_memory_capacity (vf_vessel f) = 0 then None
             else Some (vs_episodic_memory_capacity (vf_vessel f))),
           vc_bootstrap_grace_period_ticks = vs_bootstrap_grace_period_ticks (vf_vessel f), vc_threads = vf_threads f,
           vc_source_repos = (case vf_source f of Some rs \<Rightarrow> rs | None \<Rightarrow> []),
           vc_sandbox = (case vf_sandbox f of Some s \<Rightarrow> s | None \<Rightarrow> sandbox_default),
           vc_observatory_url = vs_observatory_url (vf_vessel f), vc_observatory_token_env = vs_observatory_token_env (vf_vessel f),
           vc_max_decide_turns = max (vs_max_decide_turns (vf_vessel f)) 1, vc_max_watches = min (vs_max_watches (vf_vessel f)) 100,
           vc_extra_destructive_tools = (case vf_connectors f of Some c \<Rightarrow> cn_destructive c | None \<Rightarrow> []),
           vc_connectors_dir = Option.bind (vf_connectors f) cn_dir,
           vc_coding_thread = (case vf_coding_thread f of Some c \<Rightarrow> c | None \<Rightarrow> coding_thread_default),
           vc_tool_policy = (case vf_tool_policy f of Some p \<Rightarrow> p | None \<Rightarrow> tool_policy_default)\<rparr>)"

section \<open>Overrides by the environment\<close>

text \<open>One override: an absent variable leaves the configuration alone.\<close>

definition override :: "config_env \<Rightarrow> string \<Rightarrow> (string \<Rightarrow> vessel_config \<Rightarrow> vessel_config exo_result) \<Rightarrow> vessel_config exo_result \<Rightarrow> vessel_config exo_result" where
  "override env name f r = (case r of
     Inl e \<Rightarrow> Inl e
   | Inr c \<Rightarrow> (case en_var env name of None \<Rightarrow> Inr c | Some v \<Rightarrow> f v c))"

definition parsed :: "string \<Rightarrow> string + 'a \<Rightarrow> ('a \<Rightarrow> vessel_config exo_result) \<Rightarrow> vessel_config exo_result" where
  "parsed name r k = (case r of Inl e \<Rightarrow> Inl (Config (''invalid '' @ name @ '': '' @ e)) | Inr x \<Rightarrow> k x)"

fun split_commas :: "string \<Rightarrow> string list" where
  "split_commas [] = [[]]"
| "split_commas (c # cs) = (case split_commas cs of
     w # ws \<Rightarrow> if c = CHR '','' then [] # w # ws else (c # w) # ws
   | [] \<Rightarrow> [[c]])"

definition apply_env_overrides :: "config_env \<Rightarrow> vessel_config \<Rightarrow> vessel_config exo_result" where
  "apply_env_overrides env c0 =
     (let c1 = override env ''EXO_DATA_DIR'' (\<lambda>v c. Inr (c\<lparr>vc_data_dir := v\<rparr>)) (Inr c0);
          c2 = override env ''EXO_MISSION'' (\<lambda>v c. Inr (c\<lparr>vc_mission := v\<rparr>)) c1;
          c3 = override env ''EXO_VESSEL_ID'' (\<lambda>v c. parsed ''EXO_VESSEL_ID'' (en_parse_uuid env v) (\<lambda>i. Inr (c\<lparr>vc_vessel_id := i\<rparr>))) c2;
          c4 = override env ''EXO_COGNITIVE_TICK_INTERVAL_MS'' (\<lambda>v c. parsed ''EXO_COGNITIVE_TICK_INTERVAL_MS'' (parse_u64 v)
            (\<lambda>ms. Inr (c\<lparr>vc_cognitive_tick_interval := from_millis ms\<rparr>))) c3;
          c5 = override env ''EXO_COGNITIVE_DISPATCH_CONCURRENCY'' (\<lambda>v c. parsed ''EXO_COGNITIVE_DISPATCH_CONCURRENCY'' (parse_u64 v)
            (\<lambda>n. if n = 0 then Inl (Config ''EXO_COGNITIVE_DISPATCH_CONCURRENCY must be > 0'')
              else Inr (c\<lparr>vc_cognitive_dispatch_concurrency := n\<rparr>))) c4;
          c6 = override env ''EXO_TOOL_TICK_INTERVAL_MS'' (\<lambda>v c. parsed ''EXO_TOOL_TICK_INTERVAL_MS'' (parse_u64 v)
            (\<lambda>ms. Inr (c\<lparr>vc_tool_tick_interval := from_millis ms\<rparr>))) c5;
          c7 = override env ''EXO_TOOL_DISPATCH_CONCURRENCY'' (\<lambda>v c. parsed ''EXO_TOOL_DISPATCH_CONCURRENCY'' (parse_u64 v)
            (\<lambda>n. if n = 0 then Inl (Config ''EXO_TOOL_DISPATCH_CONCURRENCY must be > 0'')
              else Inr (c\<lparr>vc_tool_dispatch_concurrency := n\<rparr>))) c6;
          c8 = override env ''EXO_DAEMON_LISTEN'' (\<lambda>v c. parsed ''EXO_DAEMON_LISTEN'' (en_parse_addr env v)
            (\<lambda>a. Inr (c\<lparr>vc_daemon_listen := Some a\<rparr>))) c7;
          c9 = override env ''EXO_CORS_ORIGINS'' (\<lambda>v c. Inr (c\<lparr>vc_cors_allowed_origins :=
            filter (\<lambda>s. s \<noteq> []) (map str_trim (split_commas v))\<rparr>)) c8;
          c10 = override env ''EXO_BOOTSTRAP_GRACE_PERIOD'' (\<lambda>v c. Inr (case parse_u64 v of
            Inr ticks \<Rightarrow> c\<lparr>vc_bootstrap_grace_period_ticks := ticks\<rparr> | Inl _ \<Rightarrow> c)) c9;
          c11 = override env ''EXO_SANDBOX_ENABLED'' (\<lambda>v c. Inr (if List.member [''false'', ''0'', ''no''] (en_lower env v)
            then c\<lparr>vc_sandbox := (vc_sandbox c)\<lparr>sb_enabled := False\<rparr>\<rparr> else c)) c10;
          c12 = override env ''EXO_OBSERVATORY_URL'' (\<lambda>v c. Inr (c\<lparr>vc_observatory_url := Some v\<rparr>)) c11;
          c13 = override env ''EXO_CONNECTORS_DIR'' (\<lambda>v c. Inr (c\<lparr>vc_connectors_dir := Some v\<rparr>)) c12
      in override env ''EXO_CODING_THREAD_ENABLED'' (\<lambda>v c. Inr (
           if List.member [''true'', ''1'', ''yes''] (en_lower env v) then c\<lparr>vc_coding_thread := (vc_coding_thread c)\<lparr>ct_enabled := True\<rparr>\<rparr>
           else if List.member [''false'', ''0'', ''no''] (en_lower env v)
             then c\<lparr>vc_coding_thread := (vc_coding_thread c)\<lparr>ct_enabled := False\<rparr>\<rparr> else c)) c13)"

definition from_file :: "config_env \<Rightarrow> string \<Rightarrow> vessel_config exo_result" where
  "from_file env path = (case en_read env path of
     Inl e \<Rightarrow> Inl (Config (''failed to read config file: '' @ e))
   | Inr tx \<Rightarrow> (case en_toml env tx of
       Inl e \<Rightarrow> Inl (Config (''invalid TOML: '' @ e))
     | Inr f \<Rightarrow> (case try_from env f of
         Inl e \<Rightarrow> Inl e
       | Inr c0 \<Rightarrow> (case apply_env_overrides env c0 of
           Inl e \<Rightarrow> Inl e
         | Inr c \<Rightarrow> (case validate c of Inl e \<Rightarrow> Inl e | Inr _ \<Rightarrow> Inr c)))))"

section \<open>The configuration of a fork\<close>

definition fork_file :: "(uuid \<Rightarrow> string) \<Rightarrow> uuid \<Rightarrow> string \<Rightarrow> string option \<Rightarrow> vessel_config \<Rightarrow> vessel_config_file" where
  "fork_file show_uuid new_id new_data_dir mission_override c = \<lparr>
     vf_vessel = \<lparr>vs_vessel_id = Some (show_uuid new_id), vs_mission = (case mission_override of Some m \<Rightarrow> m | None \<Rightarrow> vc_mission c),
       vs_data_dir = new_data_dir, vs_master_loop_interval_secs = vc_master_loop_interval_secs c, vs_inbox_dir = None,
       vs_trust_decay_rate = map_option decay_rate (vc_trust_decay c),
       vs_trust_decay_min_inactivity_days = (case vc_trust_decay c of Some t \<Rightarrow> min_inactivity_days t | None \<Rightarrow> 7),
       vs_episodic_memory_capacity = (case vc_episodic_memory_capacity c of Some n \<Rightarrow> n | None \<Rightarrow> 200),
       vs_bootstrap_grace_period_ticks = vc_bootstrap_grace_period_ticks c, vs_observatory_url = vc_observatory_url c,
       vs_observatory_token_env = vc_observatory_token_env c, vs_max_decide_turns = vc_max_decide_turns c,
       vs_max_watches = vc_max_watches c\<rparr>,
     vf_cognitive = \<lparr>cg_tick_interval_ms = as_millis (vc_cognitive_tick_interval c),
       cg_dispatch_concurrency = vc_cognitive_dispatch_concurrency c, cg_lease_timeout_secs = vc_cognitive_lease_timeout_secs c,
       cg_budget = vc_cognitive_budget c\<rparr>,
     vf_tool = \<lparr>tl_tick_interval_ms = as_millis (vc_tool_tick_interval c), tl_dispatch_concurrency = vc_tool_dispatch_concurrency c,
       tl_budget = vc_tool_budget c\<rparr>,
     vf_llm = vc_llm_config c, vf_daemon = None, vf_threads = None,
     vf_source = (if vc_source_repos c = [] then None else Some (vc_source_repos c)), vf_sandbox = Some (vc_sandbox c),
     vf_connectors = (if vc_extra_destructive_tools c = [] \<and> vc_connectors_dir c = None then None
       else Some \<lparr>cn_dir = vc_connectors_dir c, cn_destructive = vc_extra_destructive_tools c\<rparr>),
     vf_coding_thread = (if ct_enabled (vc_coding_thread c) then Some (vc_coding_thread c) else None),
     vf_tool_policy = (if vc_tool_policy c = tool_policy_default then None else Some (vc_tool_policy c))\<rparr>"

text \<open>\<open>to_toml\<close> prints the file, \<open>write_text\<close> writes it; both come from libraries.\<close>

definition generate_fork_config ::
  "(vessel_config_file \<Rightarrow> string + string) \<Rightarrow> (string \<Rightarrow> string \<Rightarrow> 'f \<Rightarrow> (string + unit) \<times> 'f) \<Rightarrow> (uuid \<Rightarrow> string) \<Rightarrow>
   uuid \<Rightarrow> string \<Rightarrow> string option \<Rightarrow> vessel_config \<Rightarrow> 'f \<Rightarrow> string exo_result \<times> 'f" where
  "generate_fork_config to_toml write_text show_uuid new_id new_data_dir mission_override c fs =
     (case to_toml (fork_file show_uuid new_id new_data_dir mission_override c) of
        Inl e \<Rightarrow> (Inl (Config (''failed to serialize fork config: '' @ e)), fs)
      | Inr tx \<Rightarrow> (let path = path_join new_data_dir ''vessel.toml'' in
          case write_text path tx fs of
            (Inl e, fs') \<Rightarrow> (Inl (Storage (''failed to write fork config to '' @ path @ '': '' @ e)), fs')
          | (Inr _, fs') \<Rightarrow> (Inr path, fs')))"

section \<open>Well-formed configurations\<close>

definition limits_ok :: "vessel_config \<Rightarrow> bool" where
  "limits_ok c \<longleftrightarrow> vc_mission c \<noteq> []
     \<and> 0 < vc_cognitive_tick_interval c \<and> vc_cognitive_tick_interval c \<le> from_secs 60
     \<and> 0 < vc_tool_tick_interval c \<and> vc_tool_tick_interval c \<le> from_secs 60
     \<and> 3 \<le> vc_cognitive_lease_timeout_secs c \<and> 0 < vc_shutdown_timeout c
     \<and> 1 \<le> ll_timeout_secs (vc_llm_config c) \<and> ll_timeout_secs (vc_llm_config c) < vc_cognitive_lease_timeout_secs c
     \<and> 1 \<le> vc_master_loop_interval_secs c \<and> vc_master_loop_interval_secs c < vc_cognitive_lease_timeout_secs c
     \<and> pred_option (\<lambda>b. cognitive_budget_validate b = Inr ()) (vc_cognitive_budget c)
     \<and> pred_option (\<lambda>b. tool_budget_validate b = Inr ()) (vc_tool_budget c)
     \<and> list_all (\<lambda>r. source_repo_validate r = Inr ()) (vc_source_repos c)"

definition shape_ok :: "vessel_config \<Rightarrow> bool" where
  "shape_ok c \<longleftrightarrow> vc_cognitive_dispatch_concurrency c \<noteq> 0 \<and> vc_tool_dispatch_concurrency c \<noteq> 0
     \<and> (\<exists>ms. vc_cognitive_tick_interval c = from_millis ms) \<and> (\<exists>ms. vc_tool_tick_interval c = from_millis ms)
     \<and> vc_shutdown_timeout c = from_secs 30 \<and> 1 \<le> vc_max_decide_turns c \<and> vc_max_watches c \<le> 100
     \<and> vc_episodic_memory_capacity c \<noteq> Some 0 \<and> pred_option (\<lambda>t. decay_baseline t = Fin (1 / 2)) (vc_trust_decay c)"

lemma require_ok: "require ok what rest = Inr u \<longleftrightarrow> ok \<and> rest = Inr u"
  by (simp add: require_def)

lemma and_then_ok: "and_then r rest = Inr u \<longleftrightarrow> r = Inr () \<and> rest = Inr u"
  by (simp add: and_then_def split: sum.split)

lemma validate_all_ok: "validate_all f xs = Inr () \<longleftrightarrow> list_all (\<lambda>x. f x = Inr ()) xs"
  by (induction xs) (simp_all add: and_then_ok)

lemma validate_iff: "validate c = Inr () \<longleftrightarrow> limits_ok c"
  unfolding validate_def limits_ok_def require_ok and_then_ok validate_all_ok
  by (cases "vc_cognitive_budget c"; cases "vc_tool_budget c") auto

lemma try_from_shape: "try_from env f = Inr c \<Longrightarrow> shape_ok c"
  unfolding try_from_def shape_ok_def
  by (auto split: sum.splits if_splits simp: option.pred_map comp_def pred_option_def)

lemma override_shape:
  assumes "override env name f r = Inr c" "\<And>c0. r = Inr c0 \<Longrightarrow> shape_ok c0"
    "\<And>v c0 c1. f v c0 = Inr c1 \<Longrightarrow> shape_ok c0 \<Longrightarrow> shape_ok c1"
  shows "shape_ok c"
  using assms by (auto simp: override_def split: sum.splits option.splits)

lemma overrides_shape:
  assumes ok: "shape_ok c0" and r: "apply_env_overrides env c0 = Inr c"
  shows "shape_ok c"
  using r unfolding apply_env_overrides_def Let_def
  by (elim override_shape) (use ok in \<open>auto simp: shape_ok_def parsed_def split: sum.splits if_splits\<close>)

lemma loaded_shape:
  assumes "from_file env path = Inr c"
  shows "shape_ok c \<and> limits_ok c"
  using assms by (auto simp: from_file_def validate_iff [symmetric] split: sum.splits dest: try_from_shape intro: overrides_shape)

text \<open>
  C31. A vessel never starts from a malformed configuration. Whatever the file and the environment say, when a
  configuration is loaded it has a mission, dispatch intervals above zero and up to a minute, at least one worker per engine, a lease
  longer than both the timeout of a call to the model and the interval of the master loop, at least one and
  not arbitrarily many turns and watches, valid budgets, and source repositories at absolute paths mounted
  below \<open>/workspace/\<close>.
\<close>

theorem loaded_config_wellformed:
  assumes "from_file env path = Inr c"
  shows "limits_ok c \<and> vc_cognitive_dispatch_concurrency c \<noteq> 0 \<and> vc_tool_dispatch_concurrency c \<noteq> 0
    \<and> 1 \<le> vc_max_decide_turns c \<and> vc_max_watches c \<le> 100
    \<and> list_all (\<lambda>r. take 11 (effective_mount_point r) = ''/workspace/'') (vc_source_repos c)"
proof -
  have "take 11 (effective_mount_point r) = ''/workspace/''" if "source_repo_validate r = Inr ()" for r
    using that by (auto simp: source_repo_validate_def effective_mount_point_def split: if_splits option.splits)
  then show ?thesis using loaded_shape [OF assms] by (auto simp: shape_ok_def limits_ok_def list_all_iff)
qed

definition sample_file :: vessel_config_file where
  "sample_file = \<lparr>vf_vessel = \<lparr>vs_vessel_id = None, vs_mission = ''watch'', vs_data_dir = ''data'', vs_master_loop_interval_secs = 60,
       vs_inbox_dir = None, vs_trust_decay_rate = None, vs_trust_decay_min_inactivity_days = 7, vs_episodic_memory_capacity = 0,
       vs_bootstrap_grace_period_ticks = 30, vs_observatory_url = None, vs_observatory_token_env = None, vs_max_decide_turns = 0,
       vs_max_watches = 400\<rparr>,
     vf_cognitive = cognitive_section_default, vf_tool = tool_section_default, vf_llm = llm_config_default, vf_daemon = None,
     vf_threads = None, vf_source = Some [\<lparr>sr_name = ''exo'', sr_host_path = ''/src'', sr_mount_point = None\<rparr>], vf_sandbox = None,
     vf_connectors = None, vf_coding_thread = None, vf_tool_policy = None\<rparr>"

definition sample_config_env :: config_env where
  "sample_config_env = \<lparr>en_parse_uuid = (\<lambda>s. Inr (of_nat (length s))), en_show_uuid = (\<lambda>i. replicate (unat i) CHR ''a''),
     en_parse_addr = Inr, en_lower = (\<lambda>s. s), en_var = (\<lambda>_. None), en_new_id = 7, en_read = Inr, en_toml = (\<lambda>_. Inr sample_file)\<rparr>"

lemma sample_loads: "from_file sample_config_env ''vessel.toml'' = Inr ((vessel_config_default 7)\<lparr>vc_mission := ''watch'',
    vc_episodic_memory_capacity := None, vc_max_decide_turns := 1, vc_max_watches := 100,
    vc_source_repos := [\<lparr>sr_name = ''exo'', sr_host_path = ''/src'', sr_mount_point = None\<rparr>]\<rparr>)"
  by (simp add: from_file_def sample_config_env_def sample_file_def try_from_def vessel_id_of_def listen_of_def apply_env_overrides_def
      override_def validate_def require_def and_then_def source_repo_validate_def vessel_config_default_def cognitive_section_default_def
      tool_section_default_def llm_config_default_def from_millis_def from_secs_def)

theorem loaded_config_wellformed_witness:
  "\<exists>c. from_file sample_config_env ''vessel.toml'' = Inr c \<and> 1 \<le> vc_max_decide_turns c \<and> vc_max_watches c \<le> 100
     \<and> vc_episodic_memory_capacity c = None"
  using loaded_config_wellformed [OF sample_loads] sample_loads by simp

lemma millis_roundtrip: "from_millis (as_millis (from_millis ms)) = from_millis ms"
  by (simp add: from_millis_def as_millis_def)

text \<open>What \<open>try_from\<close> reads back of the optional sections that a fork writes.\<close>

lemma fork_sections:
  assumes "shape_ok c"
  shows "(case (if vc_source_repos c = [] then None else Some (vc_source_repos c)) of Some rs \<Rightarrow> rs | None \<Rightarrow> []) = vc_source_repos c"
    and "(case (if vc_tool_policy c = tool_policy_default then None else Some (vc_tool_policy c)) of
      Some p \<Rightarrow> p | None \<Rightarrow> tool_policy_default) = vc_tool_policy c"
    and "max (vc_max_decide_turns c) 1 = vc_max_decide_turns c" and "min (vc_max_watches c) 100 = vc_max_watches c"
    and "(case vc_episodic_memory_capacity c of Some n \<Rightarrow> n | None \<Rightarrow> 200) \<noteq> 0"
    and "map_option (\<lambda>rate. \<lparr>decay_rate = rate, decay_baseline = Fin (1 / 2),
      min_inactivity_days = (case vc_trust_decay c of Some t \<Rightarrow> min_inactivity_days t | None \<Rightarrow> 7)\<rparr>)
        (map_option decay_rate (vc_trust_decay c)) = vc_trust_decay c"
    and "from_millis (as_millis (vc_cognitive_tick_interval c)) = vc_cognitive_tick_interval c"
    and "from_millis (as_millis (vc_tool_tick_interval c)) = vc_tool_tick_interval c"
    and "from_secs 30 = vc_shutdown_timeout c"
  using assms by (auto simp: shape_ok_def max_def min_def millis_roundtrip pred_option_def split: option.split)

lemma fork_connectors:
  defines "sec \<equiv> \<lambda>c. if vc_extra_destructive_tools c = [] \<and> vc_connectors_dir c = None then None
    else Some \<lparr>cn_dir = vc_connectors_dir c, cn_destructive = vc_extra_destructive_tools c\<rparr>"
  shows "(case sec c of Some s \<Rightarrow> cn_destructive s | None \<Rightarrow> []) = vc_extra_destructive_tools c"
    and "Option.bind (sec c) cn_dir = vc_connectors_dir c"
  by (simp_all add: sec_def)

definition inherited :: "uuid \<Rightarrow> string \<Rightarrow> string option \<Rightarrow> vessel_config \<Rightarrow> vessel_config" where
  "inherited i dir m c = c\<lparr>vc_vessel_id := i, vc_data_dir := dir, vc_mission := (case m of Some x \<Rightarrow> x | None \<Rightarrow> vc_mission c),
      vc_inbox_dir := None, vc_daemon_listen := None, vc_cors_allowed_origins := [], vc_threads := None,
      vc_episodic_memory_capacity := Some (case vc_episodic_memory_capacity c of Some n \<Rightarrow> n | None \<Rightarrow> 200),
      vc_coding_thread := (if ct_enabled (vc_coding_thread c) then vc_coding_thread c else coding_thread_default)\<rparr>"

lemma try_from_fork:
  assumes ok: "shape_ok c" and id: "en_parse_uuid env (en_show_uuid env i) = Inr i"
  shows "try_from env (fork_file (en_show_uuid env) i dir m c) = Inr (inherited i dir m c)"
proof -
  have conc: "vc_cognitive_dispatch_concurrency c \<noteq> 0" "vc_tool_dispatch_concurrency c \<noteq> 0"
    using ok by (simp_all add: shape_ok_def)
  show ?thesis
    by (simp only: try_from_def fork_file_def vessel_id_of_def listen_of_def inherited_def id conc fork_sections [OF ok] fork_connectors
        vessel_config_file.simps vessel_section.simps cognitive_section.simps tool_section.simps option.case sum.case Option.bind.simps
        if_False simp_thms sum.inject) (rule vessel_config.equality; simp add: conc)
qed

text \<open>
  C32. A fork inherits the configuration of its parent. From a loaded configuration, the file generated for a fork
  reads back as a valid configuration that is equal to the parent's except for these fields: the identity, the data
  directory and possibly the mission; the inbox directory, the listen address, the origins allowed to the
  browser and the overrides of the built-in threads, which are dropped; the section of a disabled coding thread; and the capacity of
  episodic memory, which becomes 200 when the parent had switched eviction off.
\<close>

theorem fork_inherits:
  assumes loaded: "from_file env path = Inr c" and id: "en_parse_uuid env (en_show_uuid env i) = Inr i" and m: "m \<noteq> Some []"
  shows "\<exists>c'. try_from env (fork_file (en_show_uuid env) i dir m c) = Inr c' \<and> validate c' = Inr () \<and>
    c' = c\<lparr>vc_vessel_id := i, vc_data_dir := dir, vc_mission := (case m of Some x \<Rightarrow> x | None \<Rightarrow> vc_mission c),
      vc_inbox_dir := None, vc_daemon_listen := None, vc_cors_allowed_origins := [], vc_threads := None,
      vc_episodic_memory_capacity := Some (case vc_episodic_memory_capacity c of Some n \<Rightarrow> n | None \<Rightarrow> 200),
      vc_coding_thread := (if ct_enabled (vc_coding_thread c) then vc_coding_thread c else coding_thread_default)\<rparr>"
proof (intro exI conjI)
  have ok: "shape_ok c" "limits_ok c" using loaded_shape [OF loaded] by auto
  show "try_from env (fork_file (en_show_uuid env) i dir m c) = Inr (inherited i dir m c)"
    using ok(1) id by (rule try_from_fork)
  show "validate (inherited i dir m c) = Inr ()"
    using ok(2) m unfolding validate_iff by (cases m) (simp_all add: limits_ok_def inherited_def)
qed (simp add: inherited_def)

theorem fork_inherits_witness:
  "\<exists>c c'. from_file sample_config_env ''vessel.toml'' = Inr c \<and> vc_episodic_memory_capacity c = None
     \<and> try_from sample_config_env (fork_file (en_show_uuid sample_config_env) 3 ''fork'' None c) = Inr c'
     \<and> validate c' = Inr () \<and> vc_episodic_memory_capacity c' = Some 200 \<and> vc_source_repos c' = vc_source_repos c"
proof -
  have "en_parse_uuid sample_config_env (en_show_uuid sample_config_env 3) = Inr 3" by (simp add: sample_config_env_def)
  from fork_inherits [OF sample_loads this, of None "''fork''"] sample_loads show ?thesis by auto
qed

end
