(* ===== verification/Cognitive_Engine.thy ===== *)
theory Cognitive_Engine
  imports Tick Llm_Http_Laws Vessel_Config
begin

text \<open>
  The handler of the cognitive queue (\<open>exoskeleton-host/src/cognitive_engine.rs\<close>): the backends built from the
  configuration, the routing of tasks to the master loop or to a call of the model, and what the queue is told about
  a failure. With it the direct call before a vessel runs (\<open>llm/direct.rs\<close>) and the client that reads the result of a
  task back (\<open>llm/client.rs\<close>). The queue itself (ActionQueue) is given by what it reports about the runs of a task.
\<close>

section \<open>Backends\<close>

text \<open>A trait object with its two methods.\<close>

record http_backend_object =
  bo_call :: "http_env \<Rightarrow> llm_request \<Rightarrow> llm_response exo_result"
  bo_call_streaming :: "http_env \<Rightarrow> llm_request \<Rightarrow> llm_response exo_result"

definition openai_object :: "openai_backend \<Rightarrow> http_backend_object" where
  "openai_object b = \<lparr>bo_call = (\<lambda>env. openai_call env b), bo_call_streaming = (\<lambda>env. openai_call_streaming env b)\<rparr>"

definition anthropic_object :: "anthropic_backend \<Rightarrow> http_backend_object" where
  "anthropic_object b = \<lparr>bo_call = (\<lambda>env. anthropic_call env b), bo_call_streaming = (\<lambda>env. anthropic_call_streaming env b)\<rparr>"

definition ollama_object :: "ollama_backend \<Rightarrow> http_backend_object" where
  "ollama_object b = \<lparr>bo_call = (\<lambda>env. ollama_call env b), bo_call_streaming = (\<lambda>env. ollama_call env b)\<rparr>"

definition build_local_backend :: "llm_config \<Rightarrow> http_backend_object option" where
  "build_local_backend config = map_option (\<lambda>c. case lm_api_format c of
     OpenAICompat \<Rightarrow> openai_object \<lparr>ob_base_url = lm_endpoint c, ob_model = lm_model c, ob_api_key = None\<rparr>
   | Ollama \<Rightarrow> ollama_object \<lparr>lb_base_url = lm_endpoint c, lb_model = lm_model c\<rparr>) (ll_local config)"

fun default_base_url :: "frontier_provider \<Rightarrow> string" where
  "default_base_url Anthropic = ''https://api.anthropic.com''"
| "default_base_url OpenAI = ''https://api.openai.com''"
| "default_base_url Gemini = ''https://generativelanguage.googleapis.com/v1beta/openai''"
| "default_base_url Grok = ''https://api.x.ai''"
| "default_base_url OpenRouter = ''https://openrouter.ai/api''"
| "default_base_url DeepSeek = ''https://api.deepseek.com''"

definition missing_key :: "string \<Rightarrow> exo_error" where
  "missing_key var = Config (''API key env var '' @ [CHR 0x27] @ var @ [CHR 0x27] @ '' not set (required for frontier backend)'')"

text \<open>The key comes from the environment, a function from names to values.\<close>

definition build_frontier_backend :: "(string \<Rightarrow> string option) \<Rightarrow> llm_config \<Rightarrow> http_backend_object option exo_result" where
  "build_frontier_backend vars config = (case ll_frontier config of
     None \<Rightarrow> Inr None
   | Some c \<Rightarrow> (case vars (fm_api_key_env c) of
       None \<Rightarrow> Inl (missing_key (fm_api_key_env c))
     | Some key \<Rightarrow>
         (let base_url = unwrap_or (default_base_url (fm_provider c)) (fm_endpoint c) in
          Inr (Some (if fm_provider c = Anthropic
            then anthropic_object \<lparr>ab_base_url = base_url, ab_model = fm_model c, ab_api_key = key\<rparr>
            else openai_object \<lparr>ob_base_url = base_url, ob_model = fm_model c, ob_api_key = Some key\<rparr>)))))"

section \<open>The handler\<close>

datatype cognitive_task_type = MasterLoop | LlmCallTask

record cognitive_payload =
  cy_task_type :: cognitive_task_type
  cy_data :: json

record cognitive_handler =
  ch_local_backend :: "http_backend_object option"
  ch_frontier_backend :: "http_backend_object option"
  ch_default_backend :: llm_backend

text \<open>Building the HTTP client may fail with a text.\<close>

definition handler_new :: "(string \<Rightarrow> string option) \<Rightarrow> string option \<Rightarrow> llm_config \<Rightarrow> cognitive_handler exo_result" where
  "handler_new vars client_error config = (case client_error of
     Some e \<Rightarrow> Inl (Config (''HTTP client build failed: '' @ e))
   | None \<Rightarrow> map_sum id (\<lambda>frontier. \<lparr>ch_local_backend = build_local_backend config, ch_frontier_backend = frontier,
       ch_default_backend = ll_default_backend config\<rparr>) (build_frontier_backend vars config))"

record cognitive_env =
  cg_http :: "nat \<Rightarrow> http_env" \<comment> \<open>the world outside at each call of a model\<close>
  cg_latency_ms :: "nat \<Rightarrow> u64"
  cg_created :: "nat \<Rightarrow> datetime"
  cg_encode :: "llm_response \<Rightarrow> string + string"
  cg_tracker_poisoned :: bool
  cg_cancelled :: bool
  cg_parse_payload :: "string \<Rightarrow> string + cognitive_payload"
  cg_parse_request :: "json \<Rightarrow> string + llm_request"

text \<open>The handler as the steps of a tick use it.\<close>

definition as_llm_handler :: "cognitive_env \<Rightarrow> cognitive_handler \<Rightarrow> llm_handler" where
  "as_llm_handler env h = \<lparr>lh_default_backend = ch_default_backend h,
     lh_local = map_option (\<lambda>o' n. bo_call_streaming o' (cg_http env n)) (ch_local_backend h),
     lh_frontier = map_option (\<lambda>o' n. bo_call_streaming o' (cg_http env n)) (ch_frontier_backend h),
     lh_latency_ms = cg_latency_ms env, lh_created = cg_created env, lh_encode = cg_encode env,
     lh_tracker_poisoned = cg_tracker_poisoned env\<rparr>"

definition classify_llm_error :: "exo_error \<Rightarrow> handler_output" where
  "classify_llm_error e = (let msg = exo_error_display e in if is_retryable_error msg then HRetryable msg else HTerminal msg)"

definition encoded_output :: "cognitive_env \<Rightarrow> llm_response \<Rightarrow> handler_output" where
  "encoded_output env r = (case cg_encode env r of
     Inr bytes \<Rightarrow> HSuccess (Some bytes) [] | Inl e \<Rightarrow> HTerminal (''failed to serialize LLM response: '' @ e))"

text \<open>Before there is a kernel the response is not charged, and a failure to store it is only logged.\<close>

definition preboot_llm_call ::
  "cognitive_env \<Rightarrow> cognitive_handler \<Rightarrow> 'a artifact_ops \<Rightarrow> llm_request \<Rightarrow> 'a llm_world \<Rightarrow> handler_output \<times> 'a llm_world" where
  "preboot_llm_call env h ops request w =
     (let b = unwrap_or (ch_default_backend h) (lr_backend request) in
      case (case b of Local \<Rightarrow> ch_local_backend h | Frontier \<Rightarrow> ch_frontier_backend h) of
        None \<Rightarrow> (HTerminal ((case b of Local \<Rightarrow> ''Local'' | Frontier \<Rightarrow> ''Frontier'') @ '' backend not configured''), w)
      | Some backend \<Rightarrow>
          (let n = lw_calls w; w1 = w\<lparr>lw_calls := Suc n\<rparr> in
           case bo_call backend (cg_http env n) request of
             Inl e \<Rightarrow> (classify_llm_error e, w1)
           | Inr resp \<Rightarrow>
               (let r = resp\<lparr>rp_latency_ms := cg_latency_ms env n\<rparr> in
                case cg_encode env r of
                  Inl e \<Rightarrow> (HTerminal (''failed to serialize LLM response artifact: '' @ exo_error_display (Serde e)), w1)
                | Inr tx \<Rightarrow> (encoded_output env r, w1\<lparr>lw_artifacts := snd (ao_put ops
                    (artifact_new (ao_sha256_hex ops) (cg_created env n) AkLlmResponse tx ''application/json'') (lw_artifacts w1))\<rparr>))))"

definition kernel_llm_call ::
  "cognitive_env \<Rightarrow> cognitive_handler \<Rightarrow> 'a artifact_ops \<Rightarrow> llm_request \<Rightarrow> 'a llm_world \<Rightarrow> handler_output \<times> 'a llm_world" where
  "kernel_llm_call env h ops request w = (case handler_direct_llm_call (as_llm_handler env h) ops request w of
     (Inr result, w1) \<Rightarrow> (encoded_output env (dl_response result), w1)
   | (Inl e, w1) \<Rightarrow> (classify_llm_error e, w1))"

definition handle_llm_call ::
  "cognitive_env \<Rightarrow> cognitive_handler \<Rightarrow> 'a artifact_ops \<Rightarrow> bool \<Rightarrow> cognitive_payload \<Rightarrow> 'a llm_world \<Rightarrow> handler_output \<times> 'a llm_world" where
  "handle_llm_call env h ops has_kernel payload w = (case cg_parse_request env (cy_data payload) of
     Inl e \<Rightarrow> (HTerminal (''invalid LlmRequest: '' @ e), w)
   | Inr request \<Rightarrow>
       if cg_cancelled env then (HRetryable ''cancelled before LLM call'', w)
       else if has_kernel then kernel_llm_call env h ops request w
       else preboot_llm_call env h ops request w)"

text \<open>A task of the queue. A panic of the tick is \<open>None\<close>.\<close>

definition execute ::
  "cognitive_env \<Rightarrow> cognitive_handler \<Rightarrow> artifact sql_db artifact_ops \<Rightarrow> ('h, 'c, 't, 'l, 'i, 'b) tick_env option \<Rightarrow> string \<Rightarrow>
   ('h, 'c, 't, 'l, 'i, 'b) loop_world \<Rightarrow> handler_output option \<times> ('h, 'c, 't, 'l, 'i, 'b) loop_world" where
  "execute env h ops ctx bytes w = (case cg_parse_payload env bytes of
     Inl e \<Rightarrow> (Some (HTerminal (''invalid cognitive payload: '' @ e)), w)
   | Inr payload \<Rightarrow> (case cy_task_type payload of
       MasterLoop \<Rightarrow> (case ctx of
         Some k \<Rightarrow> run_tick k w | None \<Rightarrow> (Some (HTerminal ''master loop kernel not configured''), w))
     | LlmCallTask \<Rightarrow> (case handle_llm_call env h ops (ctx \<noteq> None) payload (llm_view (lo_tick w)) of
         (out, v) \<Rightarrow> (Some out, w\<lparr>lo_tick := with_llm_view v (lo_tick w)\<rparr>))))"

section \<open>The configuration of the queue\<close>

record runtime_config =
  rc_data_dir :: string
  rc_tick_interval :: duration
  rc_dispatch_concurrency :: u64
  rc_lease_timeout_secs :: u64

definition cognitive_runtime_config :: "vessel_config \<Rightarrow> runtime_config" where
  "cognitive_runtime_config c = \<lparr>rc_data_dir = path_join (vc_data_dir c) ''cognitive-aq'',
     rc_tick_interval = vc_cognitive_tick_interval c, rc_dispatch_concurrency = vc_cognitive_dispatch_concurrency c,
     rc_lease_timeout_secs = vc_cognitive_lease_timeout_secs c\<rparr>"

section \<open>Direct calls\<close>

definition direct_local_backend :: "llm_config \<Rightarrow> http_backend_object option exo_result" where
  "direct_local_backend config = (case ll_local config of
     None \<Rightarrow> Inr None
   | Some c \<Rightarrow> Inr (Some (case lm_api_format c of
       OpenAICompat \<Rightarrow> openai_object \<lparr>ob_base_url = lm_endpoint c, ob_model = lm_model c, ob_api_key = None\<rparr>
     | Ollama \<Rightarrow> ollama_object \<lparr>lb_base_url = lm_endpoint c, lb_model = lm_model c\<rparr>)))"

definition direct_frontier_backend :: "(string \<Rightarrow> string option) \<Rightarrow> llm_config \<Rightarrow> http_backend_object option exo_result" where
  "direct_frontier_backend vars config = (case ll_frontier config of
     None \<Rightarrow> Inr None
   | Some c \<Rightarrow> (case vars (fm_api_key_env c) of
       None \<Rightarrow> Inl (missing_key (fm_api_key_env c))
     | Some key \<Rightarrow>
         (let base_url = (case fm_endpoint c of Some u \<Rightarrow> u | None \<Rightarrow> default_base_url (fm_provider c)) in
          Inr (Some (case fm_provider c of
            Anthropic \<Rightarrow> anthropic_object \<lparr>ab_base_url = base_url, ab_model = fm_model c, ab_api_key = key\<rparr>
          | _ \<Rightarrow> openai_object \<lparr>ob_base_url = base_url, ob_model = fm_model c, ob_api_key = Some key\<rparr>)))))"

definition build_default_backend :: "(string \<Rightarrow> string option) \<Rightarrow> llm_config \<Rightarrow> http_backend_object exo_result" where
  "build_default_backend vars config = (case ll_default_backend config of
     Local \<Rightarrow> (case direct_local_backend config of
       Inl e \<Rightarrow> Inl e | Inr (Some b) \<Rightarrow> Inr b | Inr None \<Rightarrow> Inl (Config ''default_backend is Local but no local config''))
   | Frontier \<Rightarrow> (case direct_frontier_backend vars config of
       Inl e \<Rightarrow> Inl e | Inr (Some b) \<Rightarrow> Inr b | Inr None \<Rightarrow> Inl (Config ''default_backend is Frontier but no frontier config'')))"

text \<open>The call runs on another thread, whose panic is reported when it is joined.\<close>

definition direct_llm_call ::
  "(string \<Rightarrow> string option) \<Rightarrow> string option \<Rightarrow> string option \<Rightarrow> http_env \<Rightarrow> llm_config \<Rightarrow> llm_request \<Rightarrow> llm_response exo_result" where
  "direct_llm_call vars client_error join_error env config request = (case build_default_backend vars config of
     Inl e \<Rightarrow> Inl e
   | Inr backend \<Rightarrow> (case client_error of
       Some e \<Rightarrow> Inl (Config (''HTTP client build failed: '' @ e))
     | None \<Rightarrow> (case join_error of
         Some e \<Rightarrow> Inl (LlmInvocation (''blocking task join error: '' @ e)) | None \<Rightarrow> bo_call backend env request)))"

section \<open>The client\<close>

datatype run_state = RunCompleted | RunFailed | RunOther string

record attempt =
  at_error :: "string option"
  at_output :: "string option"

definition extract_response ::
  "(string \<Rightarrow> string + llm_response) \<Rightarrow> (run_state \<times> attempt list option) list option \<Rightarrow> llm_response exo_result" where
  "extract_response parse engine = (case engine of
     None \<Rightarrow> Inl (Engine ''cognitive engine not available'')
   | Some runs \<Rightarrow>
       if runs = [] then Inl (Engine ''no runs found for task'')
       else case last runs of
         (RunFailed, history) \<Rightarrow> Inl (LlmInvocation (unwrap_or ''LLM task failed (check handler logs)''
           (Option.bind (Option.bind history (\<lambda>as. if as = [] then None else Some (last as))) at_error)))
       | (RunOther s, _) \<Rightarrow> Inl (Engine (''unexpected run state: '' @ s))
       | (RunCompleted, None) \<Rightarrow> Inl (Engine ''no attempt history for run'')
       | (RunCompleted, Some as) \<Rightarrow>
           if as = [] then Inl (Engine ''no attempts in history'')
           else case at_output (last as) of
             None \<Rightarrow> Inl (Engine ''task completed but no output'')
           | Some output \<Rightarrow> (case parse output of
               Inl e \<Rightarrow> Inl (LlmInvocation (''response deserialization: '' @ e)) | Inr r \<Rightarrow> Inr r))"

section \<open>Laws\<close>

text \<open>The two copies of the builders agree.\<close>

lemma builders_agree:
  "direct_local_backend config = Inr (build_local_backend config)"
  "direct_frontier_backend vars config = build_frontier_backend vars config"
  by (auto simp: direct_local_backend_def build_local_backend_def direct_frontier_backend_def build_frontier_backend_def unwrap_or_def
      Let_def split: option.split frontier_provider.split)

text \<open>Without the key of a configured frontier model there is no handler, also when a local model is configured.\<close>

lemma missing_key_fails:
  "ll_frontier config = Some c \<Longrightarrow> vars (fm_api_key_env c) = None \<Longrightarrow>
   handler_new vars None config = Inl (missing_key (fm_api_key_env c))"
  by (simp add: handler_new_def build_frontier_backend_def)

text \<open>A refusal of the server whose text happens to contain a number such as 500 is retried.\<close>

lemma refusal_retried: "is_retryable_error (exo_error_display (LlmInvocation ''400: max_tokens must be at most 15000''))"
  by code_simp

text \<open>Failures that may pass: a cancelled call, a timeout, a refused connection, an overloaded or failing server.\<close>

definition transient :: "http_env \<Rightarrow> bool" where
  "transient env \<longleftrightarrow> he_cancelled env \<or> (\<exists>w. he_post env = (\<lambda>_ _ _. Inl w) \<and> (\<forall>m. w \<noteq> WireOther m)) \<or>
     (\<exists>reply. he_post env = (\<lambda>_ _ _. Inr reply) \<and> hr_status reply \<in> {429, 500, 502, 503, 504})"

context llm_http_backend
begin

lemma transient_fails:
  assumes "transient env"
  shows "\<exists>e. invoke env r = Inl e \<and> is_retryable_error (exo_error_display e)"
proof (cases "he_cancelled env")
  case True
  then show ?thesis using cancelled_retried cancelled_not_sent by blast
next
  case alive: False
  consider w where "he_post env = (\<lambda>_ _ _. Inl w)" "\<forall>m. w \<noteq> WireOther m"
    | reply where "he_post env = (\<lambda>_ _ _. Inr reply)" "hr_status reply \<in> {429, 500, 502, 503, 504}"
    using assms alive by (auto simp: transient_def)
  then show ?thesis
  proof cases
    case (1 w)
    then show ?thesis using wire_reported [OF alive 1(1)] wire_retried [OF alive 1] by blast
  next
    case (2 reply)
    have "\<not> is_success_status (hr_status reply)" using 2(2) by (auto simp: is_success_status_def)
    then show ?thesis using status_reported [OF alive 2(1)] status_retried [OF alive 2] by blast
  qed
qed

end

lemma object_transient:
  assumes "o' = openai_object a \<or> o' = anthropic_object b \<or> o' = ollama_object c" "transient env"
  shows "\<exists>e. bo_call_streaming o' env r = Inl e \<and> is_retryable_error (exo_error_display e)"
  using assms(1) openai_streaming.transient_fails [OF assms(2)] anthropic_streaming.transient_fails [OF assms(2)]
    ollama.transient_fails [OF assms(2)]
  by (auto simp: openai_object_def anthropic_object_def ollama_object_def)

lemma local_is_backend:
  assumes "build_local_backend config = Some o'"
  shows "\<exists>a b c. o' = openai_object a \<or> o' = anthropic_object b \<or> o' = ollama_object c"
proof -
  obtain c where "ll_local config = Some c" using assms by (auto simp: build_local_backend_def)
  then show ?thesis using assms by (cases "lm_api_format c") (auto simp: build_local_backend_def)
qed

lemma frontier_is_backend:
  "build_frontier_backend vars config = Inr (Some o') \<Longrightarrow> \<exists>a b c. o' = openai_object a \<or> o' = anthropic_object b \<or> o' = ollama_object c"
  by (auto simp: build_frontier_backend_def Let_def split: option.splits if_splits)

lemma resolved_is_built:
  assumes "handler_new vars None config = Inr h" "resolve_handler_backend (as_llm_handler env h) request = Inr (f, b)"
  shows "\<exists>o'. f = (\<lambda>n. bo_call_streaming o' (cg_http env n)) \<and>
    (\<exists>a b c. o' = openai_object a \<or> o' = anthropic_object b \<or> o' = ollama_object c)"
proof -
  have h: "ch_local_backend h = build_local_backend config" "build_frontier_backend vars config = Inr (ch_frontier_backend h)"
    using assms(1) by (auto simp: handler_new_def map_sum_Inr)
  obtain o' where "f = (\<lambda>n. bo_call_streaming o' (cg_http env n))" "ch_local_backend h = Some o' \<or> ch_frontier_backend h = Some o'"
    using assms(2) by (auto simp: resolve_handler_backend_def backend_of_def other_backend_def as_llm_handler_def Let_def
        split: option.splits llm_backend.splits)
  then show ?thesis using h local_is_backend frontier_is_backend by metis
qed

section \<open>Properties\<close>


text \<open>A local OpenAI-compatible model behind a connection that times out.\<close>

definition silent_http :: http_env where
  "silent_http = \<lparr>he_post = (\<lambda>_ _ _. Inl (WireTimeout ''deadline'')), he_cancelled = False, he_cancelled_at = (\<lambda>_. False), he_latency_ms = 0,
     he_show_json = (\<lambda>_. []), he_parse_json = (\<lambda>_. Inl []), he_openai_response = (\<lambda>_. Inl []), he_anthropic_response = (\<lambda>_. Inl []),
     he_ollama_response = (\<lambda>_. Inl []), he_openai_chunk = (\<lambda>_. None), he_content_delta = (\<lambda>_. None), he_message_delta = (\<lambda>_. None),
     he_message_start = (\<lambda>_. None)\<rparr>"

definition silent_env :: cognitive_env where
  "silent_env = \<lparr>cg_http = (\<lambda>_. silent_http), cg_latency_ms = (\<lambda>_. 0), cg_created = (\<lambda>_. 0), cg_encode = (\<lambda>_. Inr []),
     cg_tracker_poisoned = False, cg_cancelled = False, cg_parse_payload = (\<lambda>_. Inl []), cg_parse_request = (\<lambda>_. Inl [])\<rparr>"

definition local_config :: llm_config where
  "local_config = llm_config_default\<lparr>ll_local := Some \<lparr>lm_endpoint = ''http://localhost'', lm_model = ''m'', lm_api_format = OpenAICompat\<rparr>\<rparr>"

definition plain_request :: llm_request where
  "plain_request = \<lparr>lr_backend = None, lr_system_prompt = None, lr_messages = [], lr_max_output_tokens = 16, lr_temperature = None,
     lr_stop_sequences = [], lr_stream = True, lr_tools = []\<rparr>"

definition no_artifacts :: "unit artifact_ops" where
  "no_artifacts = \<lparr>ao_sha256_hex = id, ao_json_text = (\<lambda>_. []), ao_put = (\<lambda>_ st. (Inl (Storage ''none''), st)), ao_get = (\<lambda>_ _. Inr None)\<rparr>"

lemma silent_transient: "transient (cg_http silent_env n)"
  by (auto simp: transient_def silent_env_def silent_http_def fun_eq_iff)


end
