(* ===== verification/Spec2Isabelle.thy ===== *)
theory Spec2Isabelle
  imports Thread_Context Tick_Laws Sql_Conversations Sql_Ledgers Cognitive_Engine
begin

text \<open>
  A verification library for Exoskeleton, a host written in Rust that runs a language-model agent (a
  \<^emph>\<open>vessel\<close>) as a loop of ticks. A tick runs the steps Perceive, Orient, Decide, Align, Act, Reflect and
  Amend (\<open>src/crates/exoskeleton-host/src/kernel/\<close>) over the domain types of \<open>exoskeleton-core\<close>, the
  stores of \<open>exoskeleton-host/src/storage/\<close>, the context compiler of \<open>exoskeleton-memory\<close>, the cognitive
  threads of \<open>exoskeleton-threads\<close> and the trust ledger of \<open>exoskeleton-relationship\<close>.

  \<^bold>\<open>Parts and theories.\<close> The theories follow the code; each names its source files.
  \<^item> \<open>Exo_Prelude\<close>, \<open>Exo_F64\<close>: machine integers, library functions of Rust, IEEE binary64 on rationals.
  \<^item> \<open>Exo_Core\<close>, \<open>Llm_Types\<close>, \<open>State_Snapshot\<close>: errors, ids, artifacts, events, tick records, LLM messages,
    the vessel snapshot.
  \<^item> \<open>Budget\<close>, \<open>Thrash\<close>: the budget tracker with its window and persistence, the tool gate, thrash detection.
  \<^item> \<open>Relationship\<close>, \<open>Relationship_Laws\<close>, \<open>Align_Gate\<close>: ledger, signals, compiled trust, and the Align step.
  \<^item> \<open>Watches\<close>: watch store, executor of due watches, admission of proposals.
  \<^item> \<open>Plans\<close>, \<open>Working_Memory\<close>, \<open>Conversations\<close>, \<open>Threads\<close>: the state a tick carries on.
  \<^item> \<open>Tokens\<close>, \<open>Context_Compiler\<close>, \<open>Render\<close>, \<open>Thread_Context\<close>: token counting, the compiler of the prompt,
    the renderers of its sections, the context of a thread.
  \<^item> \<open>Policy\<close>, \<open>Virtual_Tools\<close>, \<open>Act_Step\<close>, \<open>Diff_Tracker\<close>: tool policy, tools served by the kernel, the
    whole Act step, the code diffs of a tick.
  \<^item> \<open>Prompts\<close>, \<open>Llm_Call\<close>, \<open>Llm_Http\<close>, \<open>Llm_Http_Laws\<close>, \<open>Cognitive_Engine\<close>: prompt templates, the one call from the kernel
    to a model, the HTTP backends with their streams, the handler of the cognitive queue that routes its tasks.
  \<^item> \<open>Tools\<close>, \<open>Introspection\<close>, \<open>Decide\<close>, \<open>Reflect\<close>: what the model is offered, the queries it may ask, the loop of
    turns that ends in a decision, reflection on the outcome.
  \<^item> \<open>Kernel\<close>, \<open>Amend\<close>, \<open>Orient\<close>, \<open>Repo_Context\<close>, \<open>Thread_Exec\<close>, \<open>Thread_Exec_Laws\<close>, \<open>Tick\<close>, \<open>Tick_Laws\<close>: Perceive, Amend, the
    assembly of the prompt with git and repository instructions, the threads that run in parallel, and the whole
    tick with every phase in its order.
  \<^item> \<open>Coding_Feedback\<close>, \<open>Coding_Text\<close>, \<open>Coding_Synth\<close>, \<open>Coding_Policy\<close>, \<open>Coding_Thread\<close>, \<open>Coding_Laws\<close>: the executable coding thread,
    from the feedback on its last action over the nineteen rules of its policy and the governor to its output.
  \<^item> \<open>Builtin_Threads\<close>, \<open>Vessel_Config\<close>: the threads every vessel has, configuration files and their validation.
  \<^item> \<open>Sql_Stores\<close>, \<open>Memory_Store\<close>, \<open>Sql_Threads\<close>, \<open>Sql_Conversations\<close>, \<open>Sql_Ledgers\<close>, \<open>Compaction\<close>: the SQLite tables of snapshots,
    ticks, events, artifacts, memories, threads, conversations, watches, budget and ledger; keyword search; compaction.
  \<^item> \<open>Inbox\<close>, \<open>Utf8\<close>: the inbox in memory and as a directory; lossy and strict decoding of bytes.

  \<^bold>\<open>How state and operations correspond.\<close> A struct is a record and an enum a datatype; a method
  that changes its object returns the new object; a fallible function returns \<open>exo_error + 'a\<close>; a panic is
  \<open>None\<close>. A \<open>String\<close> is its UTF-8 bytes, a \<open>u64\<close> a \<open>64 word\<close>. Interfaces of the code (traits) are records of
  operations with a locale of their laws, interpreted on the code's own implementations:
  \<open>conversation_store\<close>, \<open>thread_store\<close>, \<open>token_counter\<close>, \<open>inbox\<close>, \<open>watch_admission\<close>, \<open>llm_http_backend\<close> and those of the
  ledger and the budget store; where the code has a store in memory and one in SQLite, both are interpretations or
  a refinement relates them.
  Several threads at once are the steps of each, interleaved by a list of picks.

  \<^bold>\<open>Parameters.\<close> Third-party code is an argument of the definitions that use it: chrono, uuid
  generation, SHA-256, serde_json, SQLite (row order and faults), the host of connectors, HTTP. Fresh ids
  and clock readings are functions of the place they are drawn at. What a property needs of them is
  a named hypothesis, shown satisfiable by its witness.

  \<^bold>\<open>What the lemmas show.\<close> Budgets are accounted exactly and exhaustion is stable; the gate admits
  exactly its allowance; trust stays in the unit interval and moves in its documented directions; the
  Align step partitions actions and the Act step calls a tool only when authorised; prompts
  respect their token budget; the scratchpad and the plan refine finite maps; conversations lose no
  message; watches, threads and inboxes keep their contracts; compaction keeps coverage. A tick acknowledges
  messages only after its commit; however threads interleave, their contributions come in order of priority; the
  loop of Decide ends.
  A loaded configuration is well-formed and a fork inherits it. The SQLite stores of watches and of the ledger
  answer like those in memory. A turn of the coding thread keeps repetitions within their budget and tests an edit
  first. A streamed answer does not depend on its chunks, and transient failures of a model are retried.
  Where the code differs from its documentation or may panic, a lemma shows a concrete case.

  \<^bold>\<open>Bounds.\<close> No definition uses fuel: every loop of the modelled code is structural or has a measure.

  \<^bold>\<open>Not modelled.\<close> The daemon, the command line and its terminal interface, the lifecycle of a vessel, inspection
  views, benchmarks and metrics are input and output around this core, or sequences of calls into tokio,
  ActionQueue and the tool host, whose code is not in the repository. Live broadcasts and log lines change no state.
\<close>

end
